(* ===== verification/Prelude.thy ===== *)
theory Prelude
  imports Complex_Main "HOL-Library.AList" "HOL-Library.Sublist"
begin

text \<open>
  Shared vocabulary of the development: the scalar types of the Django models (primary
  keys, time stamps, decimals, text), Python's string and decimal operations, the query
  operations of the ORM on a table (a list of rows in primary-key order) and the errors the
  code raises.  Lemmas about table operations are collected in \<open>orm\<close>.

  Text is a list of characters and the case and class functions are those of ASCII: the
  identifiers, codes and statuses the code compares are ASCII.  A time stamp is a number of
  microseconds since the epoch in UTC, which is what Django stores for an aware datetime.
  Primary keys are the positive numbers the database hands out, so Python's
  \<open>if not some_id\<close> on a nullable key is a test for \<^term>\<open>None\<close>.
\<close>

named_theorems orm "facts about table queries and updates"

section \<open>Scalars\<close>

type_synonym pk = nat
type_synonym timestamp = int
type_synonym decimal = rat
type_synonym date = "int \<times> nat \<times> nat"  \<comment> \<open>year, month, day\<close>

definition seconds :: "int \<Rightarrow> int" where
  "seconds n = n * 1000000"

definition minutes :: "int \<Rightarrow> int" where
  "minutes n = n * 60 * 1000000"

lemma minutes_mono: "a \<le> b \<Longrightarrow> minutes a \<le> minutes b"
  by (simp add: minutes_def)

lemma minutes_pos: "0 < n \<Longrightarrow> 0 < minutes n"
  by (simp add: minutes_def)

datatype py_error =
    AllocationUnavailable string
  | ValidationError "(string \<times> string) list"
  | DoesNotExist string
  | RelatedObjectDoesNotExist string
  | ImportError string
  | ValueError string
  | RuntimeError string
  | AuthenticationFailed string
  | PermissionDenied string
  | SupplierCallbackRetryableError string
  | ReuseReservationConflict string
  | TolunaNotificationError string
  | TypeError string
  | KeyError string
  | ProviderError string
  | AttributeError string
  | IntegrityError string
  | OperationalError nat
  | UnsafeSupplierCallbackURL string
  | PrescreenerVaultError string
  | PrescreenerVaultDisabled string
  | OverflowError string

definition of_option :: "py_error \<Rightarrow> 'a option \<Rightarrow> py_error + 'a" where
  "of_option e x = (case x of None \<Rightarrow> Inl e | Some y \<Rightarrow> Inr y)"

lemma of_option_simps [simp]:
  "of_option e None = Inl e" "of_option e (Some y) = Inr y"
  by (simp_all add: of_option_def)

lemma of_option_eq_Inr [simp]: "of_option e x = Inr y \<longleftrightarrow> x = Some y"
  by (cases x) auto

definition is_ok :: "'e + 'a \<Rightarrow> bool" where
  "is_ok r = (case r of Inl _ \<Rightarrow> False | Inr _ \<Rightarrow> True)"

lemma is_ok_simps [simp]: "is_ok (Inl e) = False" "is_ok (Inr x) = True"
  by (simp_all add: is_ok_def)

lemma spread_keeps:
  "map_sum id f x = Inr b \<Longrightarrow> \<exists>u. x = Inr u \<and> b = f u"
  by (cases x) auto

lemma is_okE: "is_ok r \<Longrightarrow> (\<And>x. r = Inr x \<Longrightarrow> P) \<Longrightarrow> P"
  by (cases r) auto

section \<open>Decimal quantisation\<close>

text \<open>
  \<open>Decimal.quantize(Decimal("0.01"), rounding=ROUND_HALF_UP)\<close>: to the nearest hundredth,
  ties away from zero.  The operands of the code have at most 12 significant digits and two
  places, so every product and every division by 100 is exact in the 28-digit context and the
  exact rational is the decimal's value.
\<close>

definition round_half_up :: "rat \<Rightarrow> int" where
  "round_half_up x = (if 0 \<le> x then \<lfloor>x + 1/2\<rfloor> else - \<lfloor>- x + 1/2\<rfloor>)"

definition quantize_money :: "decimal \<Rightarrow> decimal" where
  "quantize_money x = of_int (round_half_up (x * 100)) / 100"

definition on_cent_grid :: "decimal \<Rightarrow> bool" where
  "on_cent_grid x \<longleftrightarrow> of_int \<lfloor>x * 100\<rfloor> = x * 100"

lemma round_half_up_of_int [simp]: "round_half_up (of_int n) = n"
  by (simp add: round_half_up_def floor_eq_iff)

lemma round_half_up_mono: "x \<le> y \<Longrightarrow> round_half_up x \<le> round_half_up y"
  unfolding round_half_up_def
  by (auto simp: floor_mono not_le intro: order.trans [of _ 0] floor_mono)

lemma on_cent_gridE:
  assumes "on_cent_grid x"
  obtains n where "x = of_int n / 100"
proof -
  have "of_int \<lfloor>x * 100\<rfloor> / 100 = x"
    by (subst assms [unfolded on_cent_grid_def]) simp
  from this [symmetric] show thesis by (rule that)
qed

lemma on_cent_gridI: "on_cent_grid (of_int n / 100)"
proof -
  have "(of_int n / 100) * 100 = (of_int n :: rat)" by simp
  then show ?thesis unfolding on_cent_grid_def by (simp only: floor_of_int)
qed

lemma quantize_money_grid: "on_cent_grid x \<Longrightarrow> quantize_money x = x"
  by (auto elim!: on_cent_gridE simp: quantize_money_def)

lemma on_cent_grid_quantize [simp]: "on_cent_grid (quantize_money x)"
  by (simp add: quantize_money_def on_cent_gridI)

lemma on_cent_grid_0 [simp]: "on_cent_grid 0"
  by (simp add: on_cent_grid_def)

lemma quantize_money_0 [simp]: "quantize_money 0 = 0"
  by (simp add: quantize_money_grid)

lemma quantize_money_mono: "x \<le> y \<Longrightarrow> quantize_money x \<le> quantize_money y"
  unfolding quantize_money_def
  by (intro divide_right_mono) (auto intro!: round_half_up_mono)

lemma quantize_money_nonneg: "0 \<le> x \<Longrightarrow> 0 \<le> quantize_money x"
  using quantize_money_mono [of 0 x] by simp

lemma quantize_money_le_grid: "x \<le> y \<Longrightarrow> on_cent_grid y \<Longrightarrow> quantize_money x \<le> y"
  using quantize_money_mono [of x y] by (simp add: quantize_money_grid)

lemma round_half_up_close: "\<bar>of_int (round_half_up x) - x\<bar> \<le> 1/2"
proof -
  have nearest: "\<bar>of_int \<lfloor>y + 1/2\<rfloor> - y\<bar> \<le> 1/2" for y :: rat
    using of_int_floor_le [of "y + 1/2"] floor_correct [of "y + 1/2"] by linarith
  show ?thesis
  proof (cases "0 \<le> x")
    case True
    then show ?thesis using nearest [of x] by (simp only: round_half_up_def if_True)
  next
    case False
    have flip: "- of_int \<lfloor>- x + 1/2\<rfloor> - x = - (of_int \<lfloor>- x + 1/2\<rfloor> - (- x))" by simp
    from False show ?thesis using nearest [of "- x"]
      by (simp only: round_half_up_def if_False of_int_minus flip abs_minus_cancel)
  qed
qed

lemma quantize_money_close: "\<bar>quantize_money x - x\<bar> \<le> 1/200"
proof -
  have "quantize_money x * 100 = of_int (round_half_up (x * 100))"
    by (simp add: quantize_money_def)
  with round_half_up_close [of "x * 100"] show ?thesis
    by (simp only: abs_le_iff) linarith
qed

section \<open>Python strings\<close>

definition is_ascii_space :: "char \<Rightarrow> bool" where
  "is_ascii_space c = (c \<in> set [CHR '' '', CHR 0x09, CHR 0x0A, CHR 0x0B, CHR 0x0C, CHR 0x0D,
     CHR 0x1C, CHR 0x1D, CHR 0x1E, CHR 0x1F])"

definition is_upper_ascii :: "char \<Rightarrow> bool" where
  "is_upper_ascii c = (65 \<le> (of_char c :: nat) \<and> (of_char c :: nat) \<le> 90)"

definition is_lower_ascii :: "char \<Rightarrow> bool" where
  "is_lower_ascii c = (97 \<le> (of_char c :: nat) \<and> (of_char c :: nat) \<le> 122)"

definition is_digit_ascii :: "char \<Rightarrow> bool" where
  "is_digit_ascii c = (48 \<le> (of_char c :: nat) \<and> (of_char c :: nat) \<le> 57)"

definition is_alnum_ascii :: "char \<Rightarrow> bool" where
  "is_alnum_ascii c = (is_upper_ascii c \<or> is_lower_ascii c \<or> is_digit_ascii c)"

definition lower_char :: "char \<Rightarrow> char" where
  "lower_char c = (if is_upper_ascii c then char_of ((of_char c :: nat) + 32) else c)"

definition upper_char :: "char \<Rightarrow> char" where
  "upper_char c = (if is_lower_ascii c then char_of ((of_char c :: nat) - 32) else c)"

definition py_lower :: "string \<Rightarrow> string" where
  "py_lower s = map lower_char s"

definition py_upper :: "string \<Rightarrow> string" where
  "py_upper s = map upper_char s"

definition py_lstrip :: "string \<Rightarrow> string" where
  "py_lstrip s = dropWhile is_ascii_space s"

definition py_strip :: "string \<Rightarrow> string" where
  "py_strip s = rev (dropWhile is_ascii_space (rev (py_lstrip s)))"

definition py_isalnum :: "string \<Rightarrow> bool" where
  "py_isalnum s = (s \<noteq> [] \<and> list_all is_alnum_ascii s)"

definition py_startswith :: "string \<Rightarrow> string \<Rightarrow> bool" where
  "py_startswith s p = prefix p s"

definition py_endswith :: "string \<Rightarrow> string \<Rightarrow> bool" where
  "py_endswith s p = suffix p s"

fun py_partition :: "char \<Rightarrow> string \<Rightarrow> string \<times> bool \<times> string" where
  "py_partition sep [] = ([], False, [])"
| "py_partition sep (c # cs) =
     (if c = sep then ([], True, cs)
      else (let (a, found, b) = py_partition sep cs in (c # a, found, b)))"

fun py_split :: "char \<Rightarrow> string \<Rightarrow> string list" where
  "py_split sep [] = [[]]"
| "py_split sep (c # cs) =
     (if c = sep then [] # py_split sep cs
      else (case py_split sep cs of [] \<Rightarrow> [[c]] | w # ws \<Rightarrow> (c # w) # ws))"

fun py_join :: "string \<Rightarrow> string list \<Rightarrow> string" where
  "py_join sep [] = []"
| "py_join sep [s] = s"
| "py_join sep (s # t # ts) = s @ sep @ py_join sep (t # ts)"

lemma py_split_nonempty [simp]: "py_split sep s \<noteq> []"
  by (induction s) (auto split: list.splits)

lemma py_join_Cons: "ws \<noteq> [] \<Longrightarrow> py_join sep (w # ws) = w @ sep @ py_join sep ws"
  by (cases ws) auto

lemma py_join_split: "py_join [sep] (py_split sep s) = s"
proof (induction s)
  case Nil
  then show ?case by simp
next
  case (Cons c cs)
  obtain w ws where split: "py_split sep cs = w # ws"
    by (cases "py_split sep cs") auto
  show ?case
    using Cons split by (cases ws) (auto simp: py_join_Cons)
qed

lemma length_py_lower [simp]: "length (py_lower s) = length s"
  by (simp add: py_lower_def)

text \<open>Decimal text of a number, and the zero-padded form of \<open>f"{value:08d}"\<close>.\<close>

fun show_nat :: "nat \<Rightarrow> string" where
  "show_nat n = (if n < 10 then [char_of (48 + n)]
                 else show_nat (n div 10) @ [char_of (48 + n mod 10)])"

declare show_nat.simps [simp del]

definition show_int :: "int \<Rightarrow> string" where
  "show_int i = (if i < 0 then CHR ''-'' # show_nat (nat (- i)) else show_nat (nat i))"

definition zero_pad :: "nat \<Rightarrow> string \<Rightarrow> string" where
  "zero_pad w s = replicate (w - length s) (CHR ''0'') @ s"

fun digits_value :: "string \<Rightarrow> nat" where
  "digits_value s = foldl (\<lambda>acc c. acc * 10 + ((of_char c :: nat) - 48)) 0 s"

lemma digits_value_append1:
  "digits_value (s @ [c]) = digits_value s * 10 + ((of_char c :: nat) - 48)"
  by simp

lemma digits_value_show_nat: "digits_value (show_nat n) = n"
proof (induction n rule: less_induct)
  case (less n)
  show ?case
  proof (cases "n < 10")
    case True
    then show ?thesis by (simp add: show_nat.simps)
  next
    case False
    then have "n div 10 < n" by simp
    then have "digits_value (show_nat (n div 10)) = n div 10" by (rule less)
    moreover have "show_nat n = show_nat (n div 10) @ [char_of (48 + n mod 10)]"
      using False by (subst show_nat.simps) simp
    moreover have "(of_char (char_of (48 + n mod 10) :: char) :: nat) = 48 + n mod 10"
    proof -
      have "n mod 10 < 10" by simp
      then have "48 + n mod 10 < 256" by arith
      then show ?thesis by simp
    qed
    ultimately show ?thesis
      by (simp only: digits_value_append1) presburger
  qed
qed

lemma show_nat_inj: "show_nat m = show_nat n \<Longrightarrow> m = n"
  by (metis digits_value_show_nat)

lemma digits_value_zeros: "digits_value (replicate k (CHR ''0'') @ s) = digits_value s"
  by (induction k) simp_all

lemma digits_value_zero_pad: "digits_value (zero_pad w (show_nat n)) = n"
  by (simp only: zero_pad_def digits_value_zeros digits_value_show_nat)

lemma zero_pad_inj: "zero_pad w (show_nat m) = zero_pad w (show_nat n) \<Longrightarrow> m = n"
  by (metis digits_value_zero_pad)

lemma length_show_nat_le: "n < 10 ^ Suc k \<Longrightarrow> length (show_nat n) \<le> Suc k"
proof (induction k arbitrary: n)
  case 0
  then show ?case by (simp add: show_nat.simps)
next
  case (Suc k)
  show ?case
  proof (cases "n < 10")
    case True
    then show ?thesis by (simp add: show_nat.simps)
  next
    case False
    from Suc.prems have "n div 10 < 10 ^ Suc k" by auto
    then have "length (show_nat (n div 10)) \<le> Suc k" by (rule Suc.IH)
    with False show ?thesis by (subst show_nat.simps) simp
  qed
qed

lemma length_zero_pad: "length s \<le> w \<Longrightarrow> length (zero_pad w s) = w"
  by (simp add: zero_pad_def)

section \<open>Tables and queries\<close>

text \<open>
  A table is the list of its rows.  \<open>objects.filter(P)\<close> is \<^const>\<open>filter\<close>,
  \<open>.filter(P).first()\<close> on a unique column and \<open>.get(...)\<close> are \<^const>\<open>List.find\<close>,
  \<open>.filter(P).update(...)\<close> is \<open>update_where\<close>, and \<open>create\<close> appends a row under a fresh
  primary key.
\<close>

definition update_where :: "('r \<Rightarrow> bool) \<Rightarrow> ('r \<Rightarrow> 'r) \<Rightarrow> 'r list \<Rightarrow> 'r list" where
  "update_where P f rows = map (\<lambda>r. if P r then f r else r) rows"

definition row_by_pk :: "('r \<Rightarrow> pk) \<Rightarrow> pk \<Rightarrow> 'r list \<Rightarrow> 'r option" where
  "row_by_pk key i rows = List.find (\<lambda>r. key r = i) rows"

definition next_pk :: "('r \<Rightarrow> pk) \<Rightarrow> 'r list \<Rightarrow> pk" where
  "next_pk key rows = Suc (foldr max (map key rows) 0)"

definition unique_by :: "('r \<Rightarrow> 'k) \<Rightarrow> 'r list \<Rightarrow> bool" where
  "unique_by key rows = distinct (map key rows)"

lemma set_update_where [orm]:
  "set (update_where P f rows) = {r \<in> set rows. \<not> P r} \<union> f ` {r \<in> set rows. P r}"
  by (auto simp: update_where_def)

lemma length_update_where [simp]: "length (update_where P f rows) = length rows"
  by (simp add: update_where_def)

lemma map_update_where:
  "(\<And>r. g (f r) = g r) \<Longrightarrow> map g (update_where P f rows) = map g rows"
  by (simp add: update_where_def)

lemma update_where_none: "(\<And>r. r \<in> set rows \<Longrightarrow> \<not> P r) \<Longrightarrow> update_where P f rows = rows"
  by (auto simp: update_where_def intro: map_idI)

lemma row_by_pk_Some [orm]: "row_by_pk key i rows = Some r \<Longrightarrow> r \<in> set rows \<and> key r = i"
  by (auto simp: row_by_pk_def find_Some_iff)

lemma row_by_pk_None: "row_by_pk key i rows = None \<longleftrightarrow> i \<notin> key ` set rows"
  by (auto simp: row_by_pk_def find_None_iff)

lemma find_unique:
  assumes "distinct (map key rows)" and "r \<in> set rows" and "\<And>s. P s \<longleftrightarrow> key s = key r"
  shows "List.find P rows = Some r"
  using assms(1,2)
proof (induction rows)
  case Nil
  then show ?case by simp
next
  case (Cons s rows)
  then show ?case by (auto simp: assms(3))
qed

lemma row_by_pk_unique:
  assumes "distinct (map key rows)" and "r \<in> set rows"
  shows "row_by_pk key (key r) rows = Some r"
  unfolding row_by_pk_def using assms by (rule find_unique) simp

lemma row_by_pk_update:
  assumes "\<And>r. key (f r) = key r"
  shows "row_by_pk key i (update_where P f rows) =
         map_option (\<lambda>r. if P r then f r else r) (row_by_pk key i rows)"
  by (induction rows) (auto simp: row_by_pk_def update_where_def assms)

lemma row_by_pk_append:
  "row_by_pk key i (rows @ [r]) =
     (case row_by_pk key i rows of Some s \<Rightarrow> Some s
      | None \<Rightarrow> (if key r = i then Some r else None))"
  by (induction rows) (auto simp: row_by_pk_def)

lemma le_foldr_max: "x \<in> set xs \<Longrightarrow> x \<le> foldr max xs (0::nat)"
  by (induction xs) auto

lemma next_pk_fresh: "next_pk key rows \<notin> key ` set rows"
  using le_foldr_max [of _ "map key rows"] by (fastforce simp: next_pk_def)

lemma next_pk_pos [simp]: "0 < next_pk key rows"
  by (simp add: next_pk_def)

lemma find_filter_None: "List.find P rows = None \<longleftrightarrow> filter P rows = []"
  by (auto simp: find_None_iff filter_empty_conv)

lemma find_SomeD: "List.find P rows = Some r \<Longrightarrow> r \<in> set rows \<and> P r"
  by (auto simp: find_Some_iff)

text \<open>The interface every table offers to the operations that change it: a key that the
  change keeps.  What holds of lookups after an update or an insert is proved once here.\<close>

locale keyed_update =
  fixes key :: "'r \<Rightarrow> 'k" and change :: "'r \<Rightarrow> 'r"
  assumes change_key: "key (change r) = key r"
begin

lemma keys_kept: "map key (update_where P change rows) = map key rows"
  by (rule map_update_where) (rule change_key)

lemma unique_kept: "unique_by key rows \<Longrightarrow> unique_by key (update_where P change rows)"
  by (simp add: unique_by_def keys_kept)

lemma find_kept:
  "List.find (\<lambda>r. key r = k) (update_where P change rows) =
     map_option (\<lambda>r. if P r then change r else r) (List.find (\<lambda>r. key r = k) rows)"
  by (induction rows) (auto simp: update_where_def change_key)

end

lemma unique_insert:
  "unique_by key rows \<Longrightarrow> key r \<notin> key ` set rows \<Longrightarrow> unique_by key (rows @ [r])"
  by (auto simp: unique_by_def)

lemma find_append:
  "List.find P (rows @ [r]) =
     (case List.find P rows of Some s \<Rightarrow> Some s | None \<Rightarrow> (if P r then Some r else None))"
  by (induction rows) auto

end
