(* ===== verification/Json.thy ===== *)
theory Json
  imports Prelude
begin

text \<open>
  Values of a Django \<open>JSONField\<close> and of a decoded request body.  An object is its list of
  key/value pairs in insertion order, as a Python dict is, so assignment to a key is
  \<^const>\<open>AList.update\<close> (replace in place, or append).  A float is carried with the text
  Python prints for it.
\<close>

datatype json =
    JNull
  | JBool bool
  | JInt int
  | JFloat rat string
  | JStr string
  | JArr "json list"
  | JObj "(string \<times> json) list"

type_synonym jdict = "(string \<times> json) list"

text \<open>Python's truth value of a decoded JSON value, and \<open>a or b\<close>.\<close>

fun truthy :: "json \<Rightarrow> bool" where
  "truthy JNull = False"
| "truthy (JBool b) = b"
| "truthy (JInt i) = (i \<noteq> 0)"
| "truthy (JFloat q _) = (q \<noteq> 0)"
| "truthy (JStr s) = (s \<noteq> [])"
| "truthy (JArr xs) = (xs \<noteq> [])"
| "truthy (JObj kvs) = (kvs \<noteq> [])"

definition json_or :: "json \<Rightarrow> json \<Rightarrow> json" where
  "json_or a b = (if truthy a then a else b)"

text \<open>\<open>d.get(key)\<close> and \<open>d.get(key, default)\<close>; \<open>d[key] = value\<close>.\<close>

definition dict_get :: "jdict \<Rightarrow> string \<Rightarrow> json" where
  "dict_get d k = (case map_of d k of None \<Rightarrow> JNull | Some v \<Rightarrow> v)"

definition dict_set :: "string \<Rightarrow> json \<Rightarrow> jdict \<Rightarrow> jdict" where
  "dict_set k v d = AList.update k v d"

text \<open>\<open>{**record, k1: v1, \<dots>}\<close>\<close>

fun dict_merge :: "jdict \<Rightarrow> jdict \<Rightarrow> jdict" where
  "dict_merge d [] = d"
| "dict_merge d ((k, v) # kvs) = dict_merge (dict_set k v d) kvs"

definition as_dict :: "json \<Rightarrow> jdict option" where
  "as_dict v = (case v of JObj kvs \<Rightarrow> Some kvs | _ \<Rightarrow> None)"

lemma as_dict_JObj [simp]: "as_dict (JObj kvs) = Some kvs"
  by (simp add: as_dict_def)

lemma map_of_dict_set: "map_of (dict_set k v d) = (map_of d)(k \<mapsto> v)"
  by (simp add: dict_set_def update_conv')

lemma dict_get_set [simp]: "dict_get (dict_set k v d) k' = (if k' = k then v else dict_get d k')"
  by (simp add: dict_get_def map_of_dict_set)

lemma dict_get_merge_other: "k \<notin> fst ` set kvs \<Longrightarrow> dict_get (dict_merge d kvs) k = dict_get d k"
  by (induction d kvs rule: dict_merge.induct) auto

lemma dict_get_merge:
  "distinct (map fst kvs) \<Longrightarrow>
   dict_get (dict_merge d kvs) k = (case map_of kvs k of Some v \<Rightarrow> v | None \<Rightarrow> dict_get d k)"
proof (induction d kvs rule: dict_merge.induct)
  case (1 d)
  then show ?case by simp
next
  case (2 d j v kvs)
  show ?case
  proof (cases "k = j")
    case True
    then have "k \<notin> fst ` set kvs" using "2.prems" by simp
    with True show ?thesis by (simp add: dict_get_merge_other)
  next
    case False
    with 2 show ?thesis by (simp split: option.split)
  qed
qed

end
