(* ===== verification/Accounts_Models.thy ===== *)
theory Accounts_Models
  imports Json
begin

text \<open>
  The tables of \<open>accounts/models.py\<close>: access functions, roles, their assignments, employee
  profiles and per-user overrides, each as a record with the columns of the model and each
  choice class as a datatype with its stored value.  A foreign key is the key of the row it
  points to.  \<open>user\<close> holds the columns of Django's own user model that the code reads; an
  anonymous user has no row.
\<close>

record user =
  usr_id :: pk
  usr_username :: string
  usr_first_name :: string
  usr_last_name :: string
  usr_is_active :: bool
  usr_is_superuser :: bool

definition get_full_name :: "user \<Rightarrow> string" where
  "get_full_name u = py_strip (usr_first_name u @ '' '' @ usr_last_name u)"

record access_function =
  af_id :: pk
  af_code :: string
  af_name :: string
  af_module :: string
  af_description :: string
  af_is_active :: bool
  af_created_at :: timestamp
  af_updated_at :: timestamp

definition access_function_str :: "access_function \<Rightarrow> string" where
  "access_function_str f = af_module f @ '': '' @ af_name f"

record role =
  role_id :: pk
  role_dashboard_performers :: json
  role_name :: string
  role_slug :: string
  role_description :: string
  role_rank :: nat
  role_cpi_visibility_percent :: decimal
  role_is_system :: bool
  role_is_active :: bool
  role_created_by :: "pk option"
  role_created_at :: timestamp
  role_updated_at :: timestamp

record role_function_permission =
  rfp_id :: pk
  rfp_role :: pk
  rfp_function :: pk
  rfp_allowed :: bool
  rfp_created_at :: timestamp
  rfp_updated_at :: timestamp

datatype account_type = EMPLOYEE | INTERNAL_VENDOR | EXTERNAL_VENDOR

fun account_type_value :: "account_type \<Rightarrow> string" where
  "account_type_value EMPLOYEE = ''employee''"
| "account_type_value INTERNAL_VENDOR = ''internal_vendor''"
| "account_type_value EXTERNAL_VENDOR = ''external_vendor''"

record employee_profile =
  ep_id :: pk
  ep_user :: pk
  ep_role :: "pk option"
  ep_employee_id :: "string option"
  ep_department :: string
  ep_job_title :: string
  ep_account_type :: account_type
  ep_company_name :: string
  ep_created_by :: "pk option"
  ep_organization_unit :: "pk option"
  ep_created_at :: timestamp
  ep_updated_at :: timestamp

datatype effect = ALLOW | DENY

fun effect_value :: "effect \<Rightarrow> string" where
  "effect_value ALLOW = ''allow''"
| "effect_value DENY = ''deny''"

record user_function_override =
  ufo_id :: pk
  ufo_user :: pk
  ufo_function :: pk
  ufo_effect :: effect
  ufo_reason :: string
  ufo_created_at :: timestamp
  ufo_updated_at :: timestamp

text \<open>Unique constraints the database enforces on these tables.\<close>

definition access_functions_unique :: "access_function list \<Rightarrow> bool" where
  "access_functions_unique fs = (unique_by af_id fs \<and> unique_by af_code fs)"

definition roles_unique :: "role list \<Rightarrow> bool" where
  "roles_unique rs = (unique_by role_id rs \<and> unique_by role_slug rs)"

definition role_permissions_unique :: "role_function_permission list \<Rightarrow> bool" where
  "role_permissions_unique ps =
     (unique_by rfp_id ps \<and> unique_by (\<lambda>p. (rfp_role p, rfp_function p)) ps)"

definition profiles_unique :: "employee_profile list \<Rightarrow> bool" where
  "profiles_unique ps =
     (unique_by ep_id ps \<and> unique_by ep_user ps
      \<and> distinct [e. Some e \<leftarrow> map ep_employee_id ps])"

definition overrides_unique :: "user_function_override list \<Rightarrow> bool" where
  "overrides_unique os =
     (unique_by ufo_id os \<and> unique_by (\<lambda>o1. (ufo_user o1, ufo_function o1)) os)"

lemma account_type_value_inj: "account_type_value a = account_type_value b \<Longrightarrow> a = b"
  by (cases a; cases b) simp_all

lemma effect_value_inj: "effect_value a = effect_value b \<Longrightarrow> a = b"
  by (cases a; cases b) simp_all

end
