(* ===== verification/Vendor_Models.thy ===== *)
theory Vendor_Models
  imports Json
begin

text \<open>
  The tables of \<open>vendors/models.py\<close> with all their columns: clients and their upstream
  integrations, the Branch/Sub-branch/Shift hierarchy, client access rules of a unit, the
  commercial profile, API keys and allocations of a supplier, and the reservation of an
  attempt.  Properties that need no other table (remaining quantities, the effective cut
  override, callback routing, masked keys) and the check constraints of the tables are here;
  the \<open>clean\<close> methods, which query other tables, are in \<open>Vendor_Validation\<close>.
\<close>

definition percentage_valid :: "decimal \<Rightarrow> bool" where
  "percentage_valid p = (0 \<le> p \<and> p \<le> 100)"

definition PROFILE_REUSE_AGE_GROUPS :: "string list" where
  "PROFILE_REUSE_AGE_GROUPS =
     [''13-17'', ''18-24'', ''25-29'', ''30-34'', ''35-39'', ''40-44'', ''45-49'', ''50-54'']"

definition default_profile_reuse_genders :: "string list" where
  "default_profile_reuse_genders = [''male'', ''female'']"

record client =
  cl_id :: pk
  cl_code :: string
  cl_name :: string
  cl_provider_code :: string
  cl_company_name_match :: string
  cl_is_active :: bool
  cl_created_by :: "pk option"
  cl_created_at :: timestamp
  cl_updated_at :: timestamp

record client_integration =
  ci_id :: pk
  ci_client :: pk
  ci_name :: string
  ci_provider_code :: string
  ci_base_url :: string
  ci_credential_env_key :: string
  ci_credential_env_keys :: json
  ci_config :: json
  ci_profile_reuse_enabled :: bool
  ci_profile_reuse_eligible_after_days :: nat
  ci_profile_reuse_monthly_percentage :: decimal
  ci_profile_reuse_country_codes :: json
  ci_profile_reuse_age_groups :: "string list"
  ci_profile_reuse_genders :: "string list"
  ci_profile_rereuse_enabled :: bool
  ci_profile_rereuse_percentage :: decimal
  ci_profile_rereuse_cooldown_days :: nat
  ci_profile_reuse_first_delay_minutes :: nat
  ci_profile_reuse_min_interval_minutes :: nat
  ci_profile_reuse_max_uses_per_window :: nat
  ci_profile_reuse_window_minutes :: nat
  ci_encrypted_api_token :: string
  ci_credential_fingerprint :: string
  ci_credential_last_four :: string
  ci_credential_changed_at :: "timestamp option"
  ci_supplier_code :: string
  ci_inventory_endpoint :: string
  ci_paged_inventory_endpoint :: string
  ci_quota_endpoint_template :: string
  ci_targeting_endpoint_template :: string
  ci_transaction_endpoint_template :: string
  ci_auth_header_name :: string
  ci_auth_header_prefix :: string
  ci_inventory_result_key :: string
  ci_quota_result_key :: string
  ci_targeting_result_key :: string
  ci_transaction_result_key :: string
  ci_field_mapping :: json
  ci_scheduled_sync_enabled :: bool
  ci_sync_interval_seconds :: nat
  ci_detail_refresh_batch :: nat
  ci_last_tested_at :: "timestamp option"
  ci_last_test_status :: string
  ci_last_test_error :: string
  ci_last_sync_started_at :: "timestamp option"
  ci_last_sync_finished_at :: "timestamp option"
  ci_last_sync_status :: string
  ci_last_sync_error :: string
  ci_last_sync_summary :: json
  ci_is_active :: bool
  ci_created_by :: "pk option"
  ci_created_at :: timestamp
  ci_updated_at :: timestamp

datatype unit_type = BRANCH | SUB_BRANCH | SHIFT

fun unit_type_value :: "unit_type \<Rightarrow> string" where
  "unit_type_value BRANCH = ''branch''"
| "unit_type_value SUB_BRANCH = ''sub_branch''"
| "unit_type_value SHIFT = ''shift''"

fun unit_type_label :: "unit_type \<Rightarrow> string" where
  "unit_type_label BRANCH = ''Branch''"
| "unit_type_label SUB_BRANCH = ''Sub-branch''"
| "unit_type_label SHIFT = ''Shift''"

record organization_unit =
  ou_id :: pk
  ou_workspace_owner :: pk
  ou_parent :: "pk option"
  ou_unit_type :: unit_type
  ou_name :: string
  ou_code :: string
  ou_description :: string
  ou_is_active :: bool
  ou_created_by :: "pk option"
  ou_created_at :: timestamp
  ou_updated_at :: timestamp

record organization_client_access =
  oca_id :: pk
  oca_organization_unit :: pk
  oca_client :: pk
  oca_min_cpi :: "decimal option"
  oca_max_cpi :: "decimal option"
  oca_inherit_cpi_range :: bool
  oca_is_active :: bool
  oca_created_by :: "pk option"
  oca_created_at :: timestamp
  oca_updated_at :: timestamp

datatype delivery_mode = PANEL | API | BOTH

fun delivery_mode_value :: "delivery_mode \<Rightarrow> string" where
  "delivery_mode_value PANEL = ''panel''"
| "delivery_mode_value API = ''api''"
| "delivery_mode_value BOTH = ''both''"

record vendor_commercial_profile =
  vcp_id :: pk
  vcp_vendor :: pk
  vcp_default_cpi_cut_percent :: decimal
  vcp_currency :: string
  vcp_delivery_mode :: delivery_mode
  vcp_is_active :: bool
  vcp_created_by :: "pk option"
  vcp_created_at :: timestamp
  vcp_updated_at :: timestamp

definition panel_access_enabled :: "vendor_commercial_profile \<Rightarrow> bool" where
  "panel_access_enabled p = (vcp_delivery_mode p \<in> {PANEL, BOTH})"

definition api_access_enabled :: "vendor_commercial_profile \<Rightarrow> bool" where
  "api_access_enabled p = (vcp_delivery_mode p \<in> {API, BOTH})"

datatype survey_id_mode = PROJECT_ID | PROVIDER_SURVEY_ID

fun survey_id_mode_value :: "survey_id_mode \<Rightarrow> string" where
  "survey_id_mode_value PROJECT_ID = ''project_id''"
| "survey_id_mode_value PROVIDER_SURVEY_ID = ''provider_survey_id''"

record vendor_api_key =
  vak_id :: pk
  vak_vendor :: pk
  vak_client_allocations :: "pk list"
  vak_name :: string
  vak_prefix :: string
  vak_last_four :: string
  vak_key_hash :: string
  vak_survey_id_mode :: survey_id_mode
  vak_complete_callback_url :: string
  vak_terminate_callback_url :: string
  vak_quota_callback_url :: string
  vak_quality_callback_url :: string
  vak_callback_signing_enabled :: bool
  vak_encrypted_callback_secret :: string
  vak_callback_secret_last_four :: string
  vak_is_active :: bool
  vak_expires_at :: "timestamp option"
  vak_last_used_at :: "timestamp option"
  vak_revoked_at :: "timestamp option"
  vak_created_by :: "pk option"
  vak_created_at :: timestamp
  vak_updated_at :: timestamp

definition callback_configured :: "vendor_api_key \<Rightarrow> bool" where
  "callback_configured k =
     (vak_complete_callback_url k \<noteq> [] \<or> vak_terminate_callback_url k \<noteq> []
      \<or> vak_quota_callback_url k \<noteq> [] \<or> vak_quality_callback_url k \<noteq> [])"

definition callback_url_for_status :: "vendor_api_key \<Rightarrow> string \<Rightarrow> string" where
  "callback_url_for_status k status_code =
     (case map_of [(''1'', vak_complete_callback_url k), (''2'', vak_terminate_callback_url k),
                   (''3'', vak_quota_callback_url k), (''4'', vak_quality_callback_url k)]
           status_code of
        Some url \<Rightarrow> url
      | None \<Rightarrow> vak_terminate_callback_url k)"

record vendor_client_allocation =
  vca_id :: pk
  vca_vendor :: pk
  vca_client :: pk
  vca_quantity_limit :: nat
  vca_reserved_quantity :: nat
  vca_consumed_quantity :: nat
  vca_cpi_cut_override_percent :: "decimal option"
  vca_min_cpi :: "decimal option"
  vca_max_cpi :: "decimal option"
  vca_starts_at :: "timestamp option"
  vca_ends_at :: "timestamp option"
  vca_is_active :: bool
  vca_created_by :: "pk option"
  vca_created_at :: timestamp
  vca_updated_at :: timestamp

record vendor_survey_allocation =
  vsa_id :: pk
  vsa_client_allocation :: pk
  vsa_survey :: pk
  vsa_quantity_limit :: nat
  vsa_reserved_quantity :: nat
  vsa_consumed_quantity :: nat
  vsa_cpi_cut_override_percent :: "decimal option"
  vsa_starts_at :: "timestamp option"
  vsa_ends_at :: "timestamp option"
  vsa_is_active :: bool
  vsa_created_by :: "pk option"
  vsa_created_at :: timestamp
  vsa_updated_at :: timestamp

text \<open>
  The remaining quantities are Python integers before \<open>max(0, \<dots>)\<close> cuts them off, so
  subtraction is that of \<^typ>\<open>int\<close>.
\<close>

definition client_remaining_quantity :: "vendor_client_allocation \<Rightarrow> int" where
  "client_remaining_quantity a =
     max 0 (int (vca_quantity_limit a) - int (vca_consumed_quantity a)
            - int (vca_reserved_quantity a))"

definition survey_remaining_quantity :: "vendor_survey_allocation \<Rightarrow> int" where
  "survey_remaining_quantity a =
     max 0 (int (vsa_quantity_limit a) - int (vsa_consumed_quantity a)
            - int (vsa_reserved_quantity a))"

datatype reservation_status = RESERVED | CONSUMED | RELEASED | EXPIRED

fun reservation_status_value :: "reservation_status \<Rightarrow> string" where
  "reservation_status_value RESERVED = ''reserved''"
| "reservation_status_value CONSUMED = ''consumed''"
| "reservation_status_value RELEASED = ''released''"
| "reservation_status_value EXPIRED = ''expired''"

record allocation_reservation =
  ar_id :: pk
  ar_attempt :: pk
  ar_client_allocation :: pk
  ar_survey_allocation :: "pk option"
  ar_quantity :: nat
  ar_status :: reservation_status
  ar_expires_at :: timestamp
  ar_finalized_at :: "timestamp option"
  ar_reason :: string
  ar_created_at :: timestamp
  ar_updated_at :: timestamp

section \<open>Constraints the database enforces\<close>

definition cpi_range_valid :: "decimal option \<Rightarrow> decimal option \<Rightarrow> bool" where
  "cpi_range_valid lo hi = (case (lo, hi) of (Some a, Some b) \<Rightarrow> a \<le> b | _ \<Rightarrow> True)"

definition quantities_valid :: "nat \<Rightarrow> nat \<Rightarrow> nat \<Rightarrow> bool" where
  "quantities_valid limit reserved consumed =
     (consumed \<le> limit \<and> int reserved \<le> int limit - int consumed)"

definition organization_units_unique :: "organization_unit list \<Rightarrow> bool" where
  "organization_units_unique us =
     (unique_by ou_id us
      \<and> unique_by (\<lambda>u. (ou_workspace_owner u, ou_parent u, ou_unit_type u, ou_code u))
          (filter (\<lambda>u. ou_parent u \<noteq> None) us))"

definition organization_access_constraints :: "organization_client_access list \<Rightarrow> bool" where
  "organization_access_constraints rs =
     (unique_by oca_id rs
      \<and> unique_by (\<lambda>r. (oca_organization_unit r, oca_client r)) rs
      \<and> list_all (\<lambda>r. cpi_range_valid (oca_min_cpi r) (oca_max_cpi r)) rs)"

definition client_allocation_constraints :: "vendor_client_allocation list \<Rightarrow> bool" where
  "client_allocation_constraints as =
     (unique_by vca_id as
      \<and> unique_by (\<lambda>a. (vca_vendor a, vca_client a)) as
      \<and> list_all (\<lambda>a. quantities_valid (vca_quantity_limit a) (vca_reserved_quantity a)
                        (vca_consumed_quantity a)
                    \<and> cpi_range_valid (vca_min_cpi a) (vca_max_cpi a)) as)"

definition survey_allocation_constraints :: "vendor_survey_allocation list \<Rightarrow> bool" where
  "survey_allocation_constraints as =
     (unique_by vsa_id as
      \<and> unique_by (\<lambda>a. (vsa_client_allocation a, vsa_survey a)) as
      \<and> list_all (\<lambda>a. quantities_valid (vsa_quantity_limit a) (vsa_reserved_quantity a)
                        (vsa_consumed_quantity a)) as)"

definition reservations_unique :: "allocation_reservation list \<Rightarrow> bool" where
  "reservations_unique rs = (unique_by ar_id rs \<and> unique_by ar_attempt rs)"

lemma quantities_valid_remaining:
  "quantities_valid limit reserved consumed \<Longrightarrow>
   max 0 (int limit - int consumed - int reserved) = int limit - int consumed - int reserved"
  by (simp add: quantities_valid_def)

lemma reservation_status_value_inj:
  "reservation_status_value a = reservation_status_value b \<Longrightarrow> a = b"
  by (cases a; cases b) simp_all

end
