(* ===== verification/Survey_Models.thy ===== *)
theory Survey_Models
  imports Json
begin

text \<open>
  The tables of \<open>surveys/models.py\<close> with their columns: the monthly identifier sequence and
  the sync lease, the survey inventory with quotas and targeting, Toluna members and
  notifications, sync runs, the respondent attempt with its status machine's states, the
  final-ID upload with its decisions, and the tables of the profile-reuse policy.
\<close>

record local_id_sequence =
  lis_year_month :: string
  lis_last_value :: nat

record sync_lease =
  sl_name :: string
  sl_locked_until :: "timestamp option"

datatype survey_status = LIVE | CLOSED

fun survey_status_value :: "survey_status \<Rightarrow> string" where
  "survey_status_value LIVE = ''live''"
| "survey_status_value CLOSED = ''closed''"

record survey =
  sv_id :: pk
  sv_local_id :: string
  sv_client :: "pk option"
  sv_integration :: "pk option"
  sv_source_id :: "nat option"
  sv_source_key :: string
  sv_company_name :: string
  sv_name :: string
  sv_status :: survey_status
  sv_sample_size :: nat
  sv_completes :: nat
  sv_remaining :: nat
  sv_starts :: nat
  sv_cpi :: "decimal option"
  sv_loi :: "nat option"
  sv_incidence_rate :: "decimal option"
  sv_country :: string
  sv_country_code :: string
  sv_language :: string
  sv_language_code :: string
  sv_group_type :: string
  sv_buyer_id :: string
  sv_survey_type :: string
  sv_device_type :: string
  sv_entry_link :: string
  sv_test_entry_link :: string
  sv_job_category :: string
  sv_has_quota :: bool
  sv_is_pii_required :: bool
  sv_is_recontact :: bool
  sv_source_created_at :: "timestamp option"
  sv_source_end_at :: "timestamp option"
  sv_source_modified_at :: "timestamp option"
  sv_last_seen_at :: timestamp
  sv_detail_synced_at :: "timestamp option"
  sv_quota_synced_at :: "timestamp option"
  sv_targeting_synced_at :: "timestamp option"
  sv_raw_data :: json
  sv_created_at :: timestamp
  sv_updated_at :: timestamp

record survey_quota =
  sq_id :: pk
  sq_survey :: pk
  sq_source_key :: string
  sq_quota_id :: "int option"
  sq_title :: string
  sq_name :: string
  sq_sample_size :: nat
  sq_remaining :: nat
  sq_completes :: nat
  sq_clicks :: nat
  sq_status :: string
  sq_targeting :: json
  sq_raw_data :: json
  sq_updated_at :: timestamp

record targeting_question =
  tq_id :: pk
  tq_survey :: pk
  tq_question_id :: int
  tq_key :: string
  tq_text :: string
  tq_question_type :: string
  tq_category :: string
  tq_options :: json
  tq_raw_data :: json
  tq_updated_at :: timestamp

record toluna_reference_question =
  trq_id :: pk
  trq_integration :: pk
  trq_culture_code :: string
  trq_culture_id :: nat
  trq_question_id :: int
  trq_internal_name :: string
  trq_display_name :: string
  trq_answer_type :: string
  trq_is_routable :: bool
  trq_options :: json
  trq_raw_data :: json
  trq_source_updated_at :: "timestamp option"
  trq_created_at :: timestamp
  trq_updated_at :: timestamp

record toluna_member =
  tm_id :: pk
  tm_integration :: pk
  tm_member_code :: string
  tm_culture_code :: string
  tm_profile_hash :: string
  tm_is_registered :: bool
  tm_last_synced_at :: "timestamp option"
  tm_last_error :: string
  tm_created_at :: timestamp
  tm_updated_at :: timestamp

datatype event_type =
    MEMBER_COMPLETE | MEMBER_TERMINATE | ENHANCED_TERMINATION
  | QUOTA_STATUS | SURVEY_CLOSED | RECONCILIATION

fun event_type_value :: "event_type \<Rightarrow> string" where
  "event_type_value MEMBER_COMPLETE = ''member_complete''"
| "event_type_value MEMBER_TERMINATE = ''member_terminate''"
| "event_type_value ENHANCED_TERMINATION = ''enhanced_termination''"
| "event_type_value QUOTA_STATUS = ''quota_status''"
| "event_type_value SURVEY_CLOSED = ''survey_closed''"
| "event_type_value RECONCILIATION = ''reconciliation''"

record toluna_notification =
  tn_id :: pk
  tn_event_type :: event_type
  tn_payload_hash :: string
  tn_integration :: "pk option"
  tn_survey :: "pk option"
  tn_attempt :: "pk option"
  tn_unique_code :: string
  tn_provider_survey_id :: "int option"
  tn_survey_ref :: string
  tn_wave_id :: "int option"
  tn_quota_id :: "int option"
  tn_provider_status :: string
  tn_reason :: string
  tn_rejection_id :: "int option"
  tn_rejection_name :: string
  tn_reconciliation_id :: "int option"
  tn_revenue_cents :: "int option"
  tn_is_live :: "bool option"
  tn_occurred_at :: "timestamp option"
  tn_raw_payload :: json
  tn_applied :: bool
  tn_processing_message :: string
  tn_duplicate_count :: nat
  tn_received_at :: timestamp
  tn_last_received_at :: timestamp

datatype sync_status = SYNC_RUNNING | SYNC_SUCCESS | SYNC_PARTIAL | SYNC_FAILED

record sync_run =
  sr_id :: pk
  sr_integration :: "pk option"
  sr_started_at :: timestamp
  sr_finished_at :: "timestamp option"
  sr_status :: sync_status
  sr_fetched_full :: nat
  sr_fetched_paged :: nat
  sr_unique_surveys :: nat
  sr_created :: nat
  sr_updated :: nat
  sr_unchanged :: nat
  sr_closed :: nat
  sr_detail_failures :: nat
  sr_error :: string

datatype attempt_status =
    INITIATED | REDIRECTED | COMPLETED | TERMINATED | OVER_QUOTA | QUALITY_TERMINATED
  | SURVEY_NOT_AVAILABLE | NO_SURVEYS | NO_COOKIES | MAX_SURVEYS_REACHED
  | NOT_QUALIFIED | SURVEY_TAKEN

fun attempt_status_value :: "attempt_status \<Rightarrow> string" where
  "attempt_status_value INITIATED = ''initiated''"
| "attempt_status_value REDIRECTED = ''redirected''"
| "attempt_status_value COMPLETED = ''1''"
| "attempt_status_value TERMINATED = ''2''"
| "attempt_status_value OVER_QUOTA = ''3''"
| "attempt_status_value QUALITY_TERMINATED = ''4''"
| "attempt_status_value SURVEY_NOT_AVAILABLE = ''7''"
| "attempt_status_value NO_SURVEYS = ''8''"
| "attempt_status_value NO_COOKIES = ''9''"
| "attempt_status_value MAX_SURVEYS_REACHED = ''10''"
| "attempt_status_value NOT_QUALIFIED = ''11''"
| "attempt_status_value SURVEY_TAKEN = ''12''"

fun attempt_status_label :: "attempt_status \<Rightarrow> string" where
  "attempt_status_label INITIATED = ''Initiated''"
| "attempt_status_label REDIRECTED = ''Redirected to survey''"
| "attempt_status_label COMPLETED = ''Completed''"
| "attempt_status_label TERMINATED = ''Terminated''"
| "attempt_status_label OVER_QUOTA = ''Over quota''"
| "attempt_status_label QUALITY_TERMINATED = ''Quality terminated''"
| "attempt_status_label SURVEY_NOT_AVAILABLE = ''Survey not available''"
| "attempt_status_label NO_SURVEYS = ''No surveys''"
| "attempt_status_label NO_COOKIES = ''No cookies''"
| "attempt_status_label MAX_SURVEYS_REACHED = ''Maximum surveys reached''"
| "attempt_status_label NOT_QUALIFIED = ''Not qualified''"
| "attempt_status_label SURVEY_TAKEN = ''Survey already taken''"

record survey_attempt =
  at_id :: pk
  at_rid :: string
  at_pid :: string
  at_prescreener_uid :: "string option"
  at_provider_profile_uid :: string
  at_survey :: pk
  at_platform_user :: "pk option"
  at_vendor :: "pk option"
  at_client :: "pk option"
  at_client_allocation :: "pk option"
  at_survey_allocation :: "pk option"
  at_supplier_api_key_id :: "pk option"
  at_supplier_delivery_config :: json
  at_user_id :: string
  at_supplier_code :: string
  at_source_cpi_snapshot :: "decimal option"
  at_cpi_snapshot_source :: string
  at_cpi_cut_percent_snapshot :: "decimal option"
  at_payable_cpi_snapshot :: "decimal option"
  at_cpi_currency_snapshot :: string
  at_status :: attempt_status
  at_initiated_at :: timestamp
  at_submitted_at :: "timestamp option"
  at_redirected_at :: "timestamp option"
  at_callback_at :: "timestamp option"
  at_last_callback_at :: "timestamp option"
  at_loi_seconds :: "nat option"
  at_initiation_ip :: "string option"
  at_callback_ip :: "string option"
  at_entry_user_agent :: string
  at_exit_user_agent :: string
  at_entry_browser :: string
  at_exit_browser :: string
  at_entry_device :: string
  at_exit_device :: string
  at_entry_os :: string
  at_exit_os :: string
  at_entry_referrer :: string
  at_entry_accept_language :: string
  at_entry_client_data :: json
  at_exit_client_data :: json
  at_status_source :: string
  at_upstream_checked_at :: "timestamp option"
  at_upstream_transaction_data :: json
  at_answers :: json
  at_outbound_url :: string
  at_callback_count :: nat
  at_is_verified :: bool
  at_created_at :: timestamp
  at_updated_at :: timestamp

text \<open>
  \<open>calculate_loi_seconds\<close>: whole seconds from the start of the journey, cut off at zero.
  \<open>int()\<close> truncates towards zero, and below zero \<open>max\<close> gives zero either way.
\<close>

definition loi_started_at :: "survey_attempt \<Rightarrow> timestamp" where
  "loi_started_at a = at_initiated_at a"

definition calculate_loi_seconds :: "survey_attempt \<Rightarrow> timestamp \<Rightarrow> nat" where
  "calculate_loi_seconds a ended_at =
     nat (max 0 ((ended_at - loi_started_at a) div 1000000))"

datatype decision = ACCEPTED | REJECTED

fun decision_value :: "decision \<Rightarrow> string" where
  "decision_value ACCEPTED = ''accepted''"
| "decision_value REJECTED = ''rejected''"

record final_id_upload =
  fu_id :: pk
  fu_client :: pk
  fu_accounting_month :: date
  fu_decision :: decision
  fu_original_filename :: string
  fu_file_sha256 :: string
  fu_uploaded_by :: "pk option"
  fu_submitted_count :: nat
  fu_unique_rid_count :: nat
  fu_invalid_count :: nat
  fu_applied_count :: nat
  fu_not_found_count :: nat
  fu_client_mismatch_count :: nat
  fu_not_completed_count :: nat
  fu_auto_rejected_count :: nat
  fu_created_at :: timestamp

record final_id_status =
  fs_id :: pk
  fs_attempt :: pk
  fs_client :: pk
  fs_status :: decision
  fs_accounting_month :: date
  fs_upload :: pk
  fs_updated_at :: timestamp

datatype item_outcome = APPLIED | NOT_FOUND | CLIENT_MISMATCH | NOT_COMPLETED

fun item_outcome_value :: "item_outcome \<Rightarrow> string" where
  "item_outcome_value APPLIED = ''applied''"
| "item_outcome_value NOT_FOUND = ''not_found''"
| "item_outcome_value CLIENT_MISMATCH = ''client_mismatch''"
| "item_outcome_value NOT_COMPLETED = ''not_completed''"

record final_id_upload_item =
  fi_id :: pk
  fi_upload :: pk
  fi_rid :: string
  fi_attempt :: "pk option"
  fi_outcome :: item_outcome
  fi_previous_status :: string
  fi_applied_status :: string
  fi_created_at :: timestamp

record survey_entry_ip_claim =
  eic_id :: pk
  eic_ip_address :: string
  eic_first_attempt :: "pk option"
  eic_created_at :: timestamp
  eic_updated_at :: timestamp

record profile_reuse_monthly_counter =
  prm_id :: pk
  prm_integration :: pk
  prm_period_start :: date
  prm_baseline_attempts :: nat
  prm_target_reuses :: nat
  prm_allocated_reuses :: nat
  prm_first_reuse_allocated :: nat
  prm_repeat_reuse_allocated :: nat
  prm_updated_at :: timestamp

record profile_reuse_event =
  pre_id :: pk
  pre_integration :: pk
  pre_attempt :: pk
  pre_survey :: pk
  pre_registered_uid :: string
  pre_reused_rid :: string
  pre_reused_uid :: string
  pre_source_registered_at :: timestamp
  pre_source_usage_number :: nat
  pre_reuse_pool :: string
  pre_country_code :: string
  pre_age_group :: string
  pre_gender :: string
  pre_created_at :: timestamp

record profile_reuse_state =
  prs_id :: pk
  prs_integration :: pk
  prs_reused_uid :: string
  prs_last_reused_at :: "timestamp option"
  prs_total_reuses :: nat
  prs_updated_at :: timestamp

record profile_reuse_project_usage =
  pru_id :: pk
  pru_integration :: pk
  pru_survey :: pk
  pru_reused_uid :: string
  pru_first_attempt :: "pk option"
  pru_created_at :: timestamp

datatype export_kind =
    EXPORT_PROJECTS | EXPORT_TRAFFIC | EXPORT_TERMS | EXPORT_PANELIST | EXPORT_USER_DASHBOARD

datatype export_status = EXPORT_QUEUED | EXPORT_RUNNING | EXPORT_COMPLETED | EXPORT_FAILED

record export_job =
  ej_id :: pk
  ej_public_id :: string
  ej_requested_by :: pk
  ej_kind :: export_kind
  ej_query :: json
  ej_status :: export_status
  ej_filename :: string
  ej_storage_key :: string
  ej_error :: string
  ej_started_at :: "timestamp option"
  ej_finished_at :: "timestamp option"
  ej_downloaded_at :: "timestamp option"
  ej_expires_at :: timestamp
  ej_created_at :: timestamp

section \<open>Constraints the database enforces\<close>

definition surveys_unique :: "survey list \<Rightarrow> bool" where
  "surveys_unique ss = (unique_by sv_id ss \<and> unique_by sv_local_id ss)"

definition survey_quotas_unique :: "survey_quota list \<Rightarrow> bool" where
  "survey_quotas_unique qs =
     (unique_by sq_id qs \<and> unique_by (\<lambda>q. (sq_survey q, sq_source_key q)) qs)"

definition notifications_unique :: "toluna_notification list \<Rightarrow> bool" where
  "notifications_unique ns =
     (unique_by tn_id ns \<and> unique_by (\<lambda>n. (tn_event_type n, tn_payload_hash n)) ns)"

definition attempts_unique :: "survey_attempt list \<Rightarrow> bool" where
  "attempts_unique as = (unique_by at_id as \<and> unique_by at_rid as \<and> unique_by at_pid as)"

definition final_id_statuses_unique :: "final_id_status list \<Rightarrow> bool" where
  "final_id_statuses_unique fs = (unique_by fs_id fs \<and> unique_by fs_attempt fs)"

definition monthly_counters_unique :: "profile_reuse_monthly_counter list \<Rightarrow> bool" where
  "monthly_counters_unique cs =
     (unique_by prm_id cs \<and> unique_by (\<lambda>c. (prm_integration c, prm_period_start c)) cs)"

definition project_usages_unique :: "profile_reuse_project_usage list \<Rightarrow> bool" where
  "project_usages_unique us =
     (unique_by pru_id us
      \<and> unique_by (\<lambda>u. (pru_integration u, pru_survey u, pru_reused_uid u)) us)"

lemma attempt_status_value_inj:
  "attempt_status_value a = attempt_status_value b \<Longrightarrow> a = b"
  by (cases a; cases b) simp_all

lemma event_type_value_inj: "event_type_value a = event_type_value b \<Longrightarrow> a = b"
  by (cases a; cases b) simp_all

lemma decision_value_inj: "decision_value a = decision_value b \<Longrightarrow> a = b"
  by (cases a; cases b) simp_all

end
