(* ===== verification/Database.thy ===== *)
theory Database
  imports Accounts_Models Vendor_Models Survey_Models
begin

text \<open>
  The operational database: one list of rows per table.  Following a foreign key is a lookup
  by primary key; \<open>obj.related\<close> on a missing row raises, so the accessors return
  \<^typ>\<open>py_error + 'a\<close> where the code would raise and an option where it tests for
  absence (\<open>getattr(user, "employee_profile", None)\<close>).  \<open>db_ok\<close> collects the key and
  unique constraints of the tables the operations of this development touch.
\<close>

record db =
  users :: "user list"
  access_functions :: "access_function list"
  roles :: "role list"
  role_permissions :: "role_function_permission list"
  profiles :: "employee_profile list"
  overrides :: "user_function_override list"
  clients :: "client list"
  integrations :: "client_integration list"
  org_units :: "organization_unit list"
  org_access :: "organization_client_access list"
  commercial_profiles :: "vendor_commercial_profile list"
  api_keys :: "vendor_api_key list"
  client_allocations :: "vendor_client_allocation list"
  survey_allocations :: "vendor_survey_allocation list"
  reservations :: "allocation_reservation list"
  sequences :: "local_id_sequence list"
  leases :: "sync_lease list"
  surveys :: "survey list"
  quotas :: "survey_quota list"
  targeting_questions :: "targeting_question list"
  notifications :: "toluna_notification list"
  attempts :: "survey_attempt list"
  final_uploads :: "final_id_upload list"
  final_statuses :: "final_id_status list"
  final_items :: "final_id_upload_item list"
  monthly_counters :: "profile_reuse_monthly_counter list"
  reuse_events :: "profile_reuse_event list"
  reuse_states :: "profile_reuse_state list"
  project_usages :: "profile_reuse_project_usage list"

definition empty_db :: db where
  "empty_db = \<lparr>users = [], access_functions = [], roles = [], role_permissions = [],
     profiles = [], overrides = [], clients = [], integrations = [], org_units = [],
     org_access = [], commercial_profiles = [], api_keys = [], client_allocations = [],
     survey_allocations = [], reservations = [], sequences = [], leases = [], surveys = [],
     quotas = [], targeting_questions = [], notifications = [], attempts = [], final_uploads = [], final_statuses = [],
     final_items = [], monthly_counters = [], reuse_events = [], reuse_states = [],
     project_usages = []\<rparr>"

definition get_user :: "db \<Rightarrow> pk \<Rightarrow> user option" where
  "get_user d i = row_by_pk usr_id i (users d)"

definition get_role :: "db \<Rightarrow> pk \<Rightarrow> role option" where
  "get_role d i = row_by_pk role_id i (roles d)"

definition get_function :: "db \<Rightarrow> pk \<Rightarrow> access_function option" where
  "get_function d i = row_by_pk af_id i (access_functions d)"

definition get_client :: "db \<Rightarrow> pk \<Rightarrow> client option" where
  "get_client d i = row_by_pk cl_id i (clients d)"

definition get_integration :: "db \<Rightarrow> pk \<Rightarrow> client_integration option" where
  "get_integration d i = row_by_pk ci_id i (integrations d)"

definition get_org_unit :: "db \<Rightarrow> pk \<Rightarrow> organization_unit option" where
  "get_org_unit d i = row_by_pk ou_id i (org_units d)"

definition get_client_allocation :: "db \<Rightarrow> pk \<Rightarrow> vendor_client_allocation option" where
  "get_client_allocation d i = row_by_pk vca_id i (client_allocations d)"

definition get_survey_allocation :: "db \<Rightarrow> pk \<Rightarrow> vendor_survey_allocation option" where
  "get_survey_allocation d i = row_by_pk vsa_id i (survey_allocations d)"

definition get_survey :: "db \<Rightarrow> pk \<Rightarrow> survey option" where
  "get_survey d i = row_by_pk sv_id i (surveys d)"

definition get_attempt :: "db \<Rightarrow> pk \<Rightarrow> survey_attempt option" where
  "get_attempt d i = row_by_pk at_id i (attempts d)"

definition get_reservation :: "db \<Rightarrow> pk \<Rightarrow> allocation_reservation option" where
  "get_reservation d i = row_by_pk ar_id i (reservations d)"

text \<open>Reverse one-to-one relations: the profile and the commercial profile of a user.\<close>

definition profile_of_user :: "db \<Rightarrow> pk \<Rightarrow> employee_profile option" where
  "profile_of_user d u = List.find (\<lambda>p. ep_user p = u) (profiles d)"

definition commercial_of_user :: "db \<Rightarrow> pk \<Rightarrow> vendor_commercial_profile option" where
  "commercial_of_user d u = List.find (\<lambda>p. vcp_vendor p = u) (commercial_profiles d)"

definition role_of_profile :: "db \<Rightarrow> employee_profile \<Rightarrow> role option" where
  "role_of_profile d p = Option.bind (ep_role p) (get_role d)"

definition unit_of_profile :: "db \<Rightarrow> employee_profile \<Rightarrow> organization_unit option" where
  "unit_of_profile d p = Option.bind (ep_organization_unit p) (get_org_unit d)"

definition reservation_of_attempt :: "db \<Rightarrow> pk \<Rightarrow> allocation_reservation option" where
  "reservation_of_attempt d a = List.find (\<lambda>r. ar_attempt r = a) (reservations d)"

definition db_ok :: "db \<Rightarrow> bool" where
  "db_ok d \<longleftrightarrow>
     unique_by usr_id (users d) \<and> access_functions_unique (access_functions d)
     \<and> roles_unique (roles d) \<and> role_permissions_unique (role_permissions d)
     \<and> profiles_unique (profiles d) \<and> overrides_unique (overrides d)
     \<and> unique_by cl_id (clients d) \<and> unique_by ci_id (integrations d)
     \<and> organization_units_unique (org_units d) \<and> organization_access_constraints (org_access d)
     \<and> unique_by vcp_vendor (commercial_profiles d)
     \<and> client_allocation_constraints (client_allocations d)
     \<and> survey_allocation_constraints (survey_allocations d)
     \<and> reservations_unique (reservations d) \<and> surveys_unique (surveys d)
     \<and> survey_quotas_unique (quotas d) \<and> notifications_unique (notifications d)
     \<and> attempts_unique (attempts d) \<and> final_id_statuses_unique (final_statuses d)
     \<and> monthly_counters_unique (monthly_counters d) \<and> project_usages_unique (project_usages d)"

lemma db_ok_empty [simp]: "db_ok empty_db"
  by (simp add: db_ok_def empty_db_def unique_by_def access_functions_unique_def roles_unique_def
      role_permissions_unique_def profiles_unique_def overrides_unique_def
      organization_units_unique_def organization_access_constraints_def
      client_allocation_constraints_def survey_allocation_constraints_def reservations_unique_def
      surveys_unique_def survey_quotas_unique_def notifications_unique_def attempts_unique_def
      final_id_statuses_unique_def monthly_counters_unique_def project_usages_unique_def)

lemmas row_lookups = get_user_def get_role_def get_function_def get_client_def
  get_integration_def get_org_unit_def get_client_allocation_def get_survey_allocation_def
  get_survey_def get_attempt_def get_reservation_def

text \<open>
  Rows changed in place under their primary key.  Every update of a reservation, an attempt,
  a quota and so on keeps the key, so the lookups of the interface apply.
\<close>

definition update_attempts :: "(survey_attempt \<Rightarrow> bool) \<Rightarrow> (survey_attempt \<Rightarrow> survey_attempt) \<Rightarrow> db \<Rightarrow> db" where
  "update_attempts P f d = d\<lparr>attempts := update_where P f (attempts d)\<rparr>"

definition update_reservations ::
  "(allocation_reservation \<Rightarrow> bool) \<Rightarrow> (allocation_reservation \<Rightarrow> allocation_reservation) \<Rightarrow> db \<Rightarrow> db" where
  "update_reservations P f d = d\<lparr>reservations := update_where P f (reservations d)\<rparr>"

lemma update_attempts_frame [simp]:
  "users (update_attempts P f d) = users d" "profiles (update_attempts P f d) = profiles d"
  "clients (update_attempts P f d) = clients d" "surveys (update_attempts P f d) = surveys d"
  "reservations (update_attempts P f d) = reservations d"
  "client_allocations (update_attempts P f d) = client_allocations d"
  "survey_allocations (update_attempts P f d) = survey_allocations d"
  "commercial_profiles (update_attempts P f d) = commercial_profiles d"
  by (simp_all add: update_attempts_def)

lemma get_attempt_update:
  "(\<And>a. at_id (f a) = at_id a) \<Longrightarrow>
   get_attempt (update_attempts P f d) i = map_option (\<lambda>a. if P a then f a else a) (get_attempt d i)"
  by (simp add: get_attempt_def update_attempts_def row_by_pk_update)

lemma get_attempt_id: "get_attempt d i = Some a \<Longrightarrow> at_id a = i"
  by (auto simp: get_attempt_def row_by_pk_def find_Some_iff)

lemma update_reservations_frame [simp]:
  "users (update_reservations P f d) = users d"
  "profiles (update_reservations P f d) = profiles d"
  "attempts (update_reservations P f d) = attempts d"
  "surveys (update_reservations P f d) = surveys d"
  "client_allocations (update_reservations P f d) = client_allocations d"
  by (simp_all add: update_reservations_def)

end
