(* ===== verification/Hierarchy.thy ===== *)
theory Hierarchy
  imports Database
begin

text \<open>
  The two walks the code makes over a hierarchy held as parent pointers: up, from a row to
  its ancestors with a visited set (\<open>path_label\<close>, the ancestor ids, the ancestry of the
  client policies, the Sub-branch of a report row), and down, by a frontier of children
  queries (\<open>organization_unit_descendant_ids\<close>, \<open>subordinate_user_ids\<close>).  Both stop on
  cyclic data; the upward walk lists every ancestor once, and the downward walk is the
  transitive closure of the children relation.
\<close>

section \<open>Walking up\<close>

text \<open>\<open>while current and current.pk not in visited: visited.add(current.pk); \<dots>;
  current = current.parent\<close>: the units visited, in order.\<close>

function unit_chain :: "organization_unit list \<Rightarrow> pk list \<Rightarrow> pk option \<Rightarrow> organization_unit list" where
  "unit_chain units visited current =
     (case current of
        None \<Rightarrow> []
      | Some i \<Rightarrow>
          (if i \<in> set visited then []
           else (case row_by_pk ou_id i units of
                   None \<Rightarrow> []
                 | Some u \<Rightarrow> u # unit_chain units (i # visited) (ou_parent u))))"
  by pat_completeness auto
termination
proof (relation "measure (\<lambda>(units, visited, current). card (ou_id ` set units - set visited))")
  fix units visited current i u
  assume "i \<notin> set visited" and "row_by_pk ou_id i units = Some (u :: organization_unit)"
  then have "i \<in> ou_id ` set units - set visited" by (auto dest: row_by_pk_Some)
  then have "ou_id ` set units - set (i # visited) \<subset> ou_id ` set units - set visited" by auto
  then show "((units, i # visited, ou_parent u), units, visited, current)
      \<in> measure (\<lambda>(units, visited, current). card (ou_id ` set units - set visited))"
    by (simp add: psubset_card_mono)
qed simp

declare unit_chain.simps [simp del]

lemma unit_chain_None [simp]: "unit_chain units visited None = []"
  by (simp add: unit_chain.simps)

text \<open>The contract of an upward walk, and what follows from it for any such walk.\<close>

locale upward_walk =
  fixes parent :: "'k \<Rightarrow> 'k option" and walk :: "'k list \<Rightarrow> 'k option \<Rightarrow> 'k list"
  assumes walk_end: "walk visited None = []"
    and walk_visited: "k \<in> set visited \<Longrightarrow> walk visited (Some k) = []"
    and walk_step: "k \<notin> set visited \<Longrightarrow>
      walk visited (Some k) = [] \<or> walk visited (Some k) = k # walk (k # visited) (parent k)"
begin

lemma walk_once:
  "length (walk visited start) = n \<Longrightarrow>
   distinct (walk visited start) \<and> set (walk visited start) \<inter> set visited = {}"
proof (induction n arbitrary: visited start)
  case 0
  then show ?case by simp
next
  case (Suc n)
  then obtain k where start: "start = Some k" by (cases start) (auto simp: walk_end)
  show ?case
  proof (cases "k \<in> set visited")
    case True
    with start show ?thesis by (simp add: walk_visited)
  next
    case False
    with start Suc.prems have eq: "walk visited start = k # walk (k # visited) (parent k)"
      using walk_step [of k visited] by auto
    with Suc.prems have "length (walk (k # visited) (parent k)) = n" by simp
    from Suc.IH [OF this] have "distinct (walk (k # visited) (parent k))"
      and "set (walk (k # visited) (parent k)) \<inter> set (k # visited) = {}" by auto
    with eq False show ?thesis by auto
  qed
qed

lemma walk_distinct: "distinct (walk visited start)"
  using walk_once by blast

lemma walk_fresh: "k \<in> set (walk visited start) \<Longrightarrow> k \<notin> set visited"
  using walk_once by blast

lemma walk_ancestors:
  "length (walk visited (Some k)) = n \<Longrightarrow> j \<in> set (walk visited (Some k)) \<Longrightarrow>
   (k, j) \<in> {(a, b). parent a = Some b}\<^sup>*"
proof (induction n arbitrary: visited k)
  case 0
  then show ?case by simp
next
  case (Suc n)
  have new: "k \<notin> set visited" using Suc.prems by (auto simp: walk_visited)
  have eq: "walk visited (Some k) = k # walk (k # visited) (parent k)"
    using walk_step [OF new] Suc.prems by auto
  show ?case
  proof (cases "j = k")
    case True
    then show ?thesis by simp
  next
    case False
    with eq Suc.prems have j: "j \<in> set (walk (k # visited) (parent k))" by auto
    then obtain p where p: "parent k = Some p" by (cases "parent k") (auto simp: walk_end)
    with eq Suc.prems j have "(p, j) \<in> {(a, b). parent a = Some b}\<^sup>*"
      by (intro Suc.IH [of "k # visited" p]) auto
    with p show ?thesis by (auto intro: converse_rtrancl_into_rtrancl)
  qed
qed

end

text \<open>A walk over a relation whose rows are all present reaches every ancestor: the walk lists
  the whole orbit of the parent function, cut at its first repetition.\<close>

locale complete_walk = upward_walk +
  fixes present :: "'a \<Rightarrow> bool"
  assumes walk_present: "present k \<Longrightarrow> k \<notin> set visited \<Longrightarrow>
      walk visited (Some k) = k # walk (k # visited) (parent k)"
begin

abbreviation up :: "('a \<times> 'a) set" where
  "up \<equiv> {(a, b). parent a = Some b}"

lemma up_functional: "(k, i) \<in> up ^^ m \<Longrightarrow> (k, j) \<in> up ^^ m \<Longrightarrow> i = j"
proof (induction m arbitrary: i j)
  case (Suc m)
  then obtain a b where "(k, a) \<in> up ^^ m" "(a, i) \<in> up" "(k, b) \<in> up ^^ m" "(b, j) \<in> up"
    by (auto elim!: relpow_Suc_E)
  moreover from this have "a = b" by (intro Suc.IH)
  ultimately show ?case by simp
qed simp

lemma shortest_no_return:
  assumes "(k, j) \<in> up ^^ Suc n" and "\<And>m. m < Suc n \<Longrightarrow> (k, j) \<notin> up ^^ m"
    and "(k, k) \<in> up ^^ Suc m" and "m \<le> n"
  shows False
proof -
  have "(k, j) \<in> up ^^ (Suc m + (n - m))" using assms(1,4) by simp
  then obtain i where "(k, i) \<in> up ^^ Suc m" "(i, j) \<in> up ^^ (n - m)"
    unfolding relpow_add by blast
  with up_functional [OF assms(3)] have "(k, j) \<in> up ^^ (n - m)" by blast
  with assms(2) [of "n - m"] show False by (simp add: less_Suc_eq_le)
qed

lemma walk_reaches_shortest:
  "(k, j) \<in> up ^^ n \<Longrightarrow> (\<And>m. m < n \<Longrightarrow> (k, j) \<notin> up ^^ m) \<Longrightarrow>
   (\<And>m i. m \<le> n \<Longrightarrow> (k, i) \<in> up ^^ m \<Longrightarrow> i \<notin> set visited \<and> present i) \<Longrightarrow>
   j \<in> set (walk visited (Some k))"
proof (induction n arbitrary: k visited)
  case 0
  from 0(1) 0(3) [of 0 k] show ?case by (auto simp: walk_present)
next
  case (Suc n)
  from Suc.prems(1) obtain k' where k': "parent k = Some k'" "(k', j) \<in> up ^^ n"
    using relpow_Suc_D2 [OF Suc.prems(1)] by blast
  have later: "(k, i) \<in> up ^^ Suc m" if "(k', i) \<in> up ^^ m" for i m
    using that k'(1) by (intro relpow_Suc_I2 [of k k']) auto
  have "j \<in> set (walk (k # visited) (Some k'))"
  proof (rule Suc.IH [OF k'(2)])
    show "(k', j) \<notin> up ^^ m" if "m < n" for m
      using later Suc.prems(2) [of "Suc m"] that by auto
    show "i \<notin> set (k # visited) \<and> present i" if "m \<le> n" "(k', i) \<in> up ^^ m" for m i
      using shortest_no_return [OF Suc.prems(1,2), of m] later [OF that(2)] that(1)
        Suc.prems(3) [of "Suc m" i] by auto
  qed
  with Suc.prems(3) [of 0 k] k'(1) show ?case by (simp add: walk_present)
qed

lemma walk_complete:
  assumes "(k, j) \<in> up\<^sup>*" and "\<And>i. (k, i) \<in> up\<^sup>* \<Longrightarrow> i \<notin> set visited \<and> present i"
  shows "j \<in> set (walk visited (Some k))"
proof -
  obtain n where n: "(k, j) \<in> up ^^ n" using assms(1) by (auto simp: rtrancl_power)
  let ?n = "LEAST n. (k, j) \<in> up ^^ n"
  have "(k, j) \<in> up ^^ ?n" using n by (rule LeastI)
  moreover have "(k, j) \<notin> up ^^ m" if "m < ?n" for m using not_less_Least [OF that] .
  moreover have "i \<notin> set visited \<and> present i" if "(k, i) \<in> up ^^ m" for m i
    using assms(2) [of i] that by (auto simp: rtrancl_power)
  ultimately show ?thesis by (rule walk_reaches_shortest)
qed

end

definition unit_parent :: "organization_unit list \<Rightarrow> pk \<Rightarrow> pk option" where
  "unit_parent units i = Option.bind (row_by_pk ou_id i units) ou_parent"

interpretation units_up: upward_walk "unit_parent units"
  "\<lambda>visited current. map ou_id (unit_chain units visited current)" for units
proof
  fix visited and k :: pk
  show "map ou_id (unit_chain units visited None) = []" by simp
  show "k \<in> set visited \<Longrightarrow> map ou_id (unit_chain units visited (Some k)) = []"
    by (simp add: unit_chain.simps)
  show "map ou_id (unit_chain units visited (Some k)) = [] \<or>
        map ou_id (unit_chain units visited (Some k)) =
          k # map ou_id (unit_chain units (k # visited) (unit_parent units k))"
    if "k \<notin> set visited"
    using that by (subst (1 2) unit_chain.simps)
      (auto simp: unit_parent_def dest: row_by_pk_Some split: option.splits)
qed

interpretation units_known: complete_walk "unit_parent units"
  "\<lambda>visited current. map ou_id (unit_chain units visited current)"
  "\<lambda>i. i \<in> ou_id ` set units" for units
proof
  show "map ou_id (unit_chain units visited (Some k)) =
          k # map ou_id (unit_chain units (k # visited) (unit_parent units k))"
    if "k \<in> ou_id ` set units" "k \<notin> set visited" for k visited
  proof -
    have "row_by_pk ou_id k units \<noteq> None" using that(1) by (simp only: row_by_pk_None) simp
    then obtain u where "row_by_pk ou_id k units = Some u" by blast
    with that(2) show ?thesis
      by (subst unit_chain.simps) (auto simp: unit_parent_def dest: row_by_pk_Some)
  qed
qed

lemma unit_chain_rows: "u \<in> set (unit_chain units visited current) \<Longrightarrow> u \<in> set units"
proof (induction units visited current rule: unit_chain.induct)
  case (1 units visited current)
  from "1.prems" show ?case
    by (subst (asm) unit_chain.simps)
      (auto split: option.splits if_splits dest: row_by_pk_Some intro: "1.IH")
qed

section \<open>Walking down\<close>

definition children_of :: "(pk \<times> pk option) list \<Rightarrow> pk set \<Rightarrow> pk set" where
  "children_of rows frontier =
     set [fst r. r \<leftarrow> rows, (case snd r of None \<Rightarrow> False | Some p \<Rightarrow> p \<in> frontier)]"

definition child_rel :: "(pk \<times> pk option) list \<Rightarrow> (pk \<times> pk) set" where
  "child_rel rows = {(p, i). (i, Some p) \<in> set rows}"

lemma children_of_Image: "children_of rows frontier = child_rel rows `` frontier"
  by (force simp: children_of_def child_rel_def split: option.splits)

function frontier_loop :: "(pk \<times> pk option) list \<Rightarrow> pk set \<Rightarrow> pk set \<Rightarrow> pk set" where
  "frontier_loop rows ids frontier =
     (if frontier = {} then ids
      else (let children = children_of rows frontier - ids
            in frontier_loop rows (ids \<union> children) children))"
  by pat_completeness auto
termination
proof (relation "measures [\<lambda>(rows, ids, frontier). card (fst ` set rows - ids),
                           \<lambda>(rows, ids, frontier). if frontier = {} then 0 else 1]")
  fix rows :: "(pk \<times> pk option) list" and ids frontier children
  assume some: "frontier \<noteq> {}" and children: "children = children_of rows frontier - ids"
  show "((rows, ids \<union> children, children), rows, ids, frontier)
      \<in> measures [\<lambda>(rows, ids, frontier). card (fst ` set rows - ids),
                   \<lambda>(rows, ids, frontier). if frontier = {} then 0 else 1]"
  proof (cases "children = {}")
    case True
    with some show ?thesis by simp
  next
    case False
    have "children \<subseteq> fst ` set rows"
      using children by (auto simp: children_of_def image_iff split: option.splits)
    with False children have "fst ` set rows - (ids \<union> children) \<subset> fst ` set rows - ids" by auto
    then show ?thesis by (simp add: psubset_card_mono)
  qed
qed simp

declare frontier_loop.simps [simp del]

lemma frontier_loop_sound:
  "ids \<subseteq> frontier_loop rows ids frontier \<and>
   frontier_loop rows ids frontier \<subseteq> ids \<union> (child_rel rows)\<^sup>+ `` frontier"
proof (induction rows ids frontier rule: frontier_loop.induct)
  case (1 rows ids frontier)
  let ?new = "children_of rows frontier - ids"
  show ?case
  proof (cases "frontier = {}")
    case True
    then show ?thesis by (simp add: frontier_loop.simps)
  next
    case False
    have step: "(child_rel rows)\<^sup>+ `` ?new \<subseteq> (child_rel rows)\<^sup>+ `` frontier"
      unfolding children_of_Image by (auto intro: trancl_into_trancl2)
    have new: "?new \<subseteq> (child_rel rows)\<^sup>+ `` frontier"
      unfolding children_of_Image by auto
    have unfold: "frontier_loop rows ids frontier = frontier_loop rows (ids \<union> ?new) ?new"
      using False by (simp add: frontier_loop.simps [of rows ids frontier] Let_def)
    have "ids \<subseteq> frontier_loop rows (ids \<union> ?new) ?new"
      and "frontier_loop rows (ids \<union> ?new) ?new \<subseteq> (ids \<union> ?new) \<union> (child_rel rows)\<^sup>+ `` ?new"
      using "1.IH" [OF False refl] by simp_all
    then show ?thesis unfolding unfold using step new by blast
  qed
qed

lemma frontier_loop_closed:
  "child_rel rows `` ids \<subseteq> ids \<union> child_rel rows `` frontier \<Longrightarrow>
   child_rel rows `` frontier_loop rows ids frontier \<subseteq> frontier_loop rows ids frontier \<and>
   child_rel rows `` frontier \<subseteq> frontier_loop rows ids frontier"
proof (induction rows ids frontier rule: frontier_loop.induct)
  case (1 rows ids frontier)
  let ?new = "children_of rows frontier - ids"
  show ?case
  proof (cases "frontier = {}")
    case True
    with "1.prems" show ?thesis by (simp add: frontier_loop.simps)
  next
    case False
    have "child_rel rows `` (ids \<union> ?new) \<subseteq> (ids \<union> ?new) \<union> child_rel rows `` ?new"
      using "1.prems" by (auto simp: children_of_Image)
    note closed = "1.IH" [OF False refl this]
    have "child_rel rows `` frontier \<subseteq> ids \<union> ?new" by (auto simp: children_of_Image)
    also have "\<dots> \<subseteq> frontier_loop rows (ids \<union> ?new) ?new"
      by (rule conjunct1 [OF frontier_loop_sound])
    finally have front: "child_rel rows `` frontier \<subseteq> frontier_loop rows (ids \<union> ?new) ?new" .
    have unfold: "frontier_loop rows ids frontier = frontier_loop rows (ids \<union> ?new) ?new"
      using False by (simp add: frontier_loop.simps [of rows ids frontier] Let_def)
    show ?thesis unfolding unfold by (rule conjI [OF conjunct1 [OF closed] front])
  qed
qed

lemma closed_trancl: "R `` A \<subseteq> A \<Longrightarrow> R\<^sup>+ `` A \<subseteq> A"
proof
  fix y
  assume closed: "R `` A \<subseteq> A" and "y \<in> R\<^sup>+ `` A"
  then obtain x where "x \<in> A" and "(x, y) \<in> R\<^sup>+" by blast
  from this(2,1) show "y \<in> A" by (induction rule: trancl_induct) (use closed in auto)
qed

lemma frontier_loop_trancl:
  assumes "child_rel rows `` ids \<subseteq> ids \<union> child_rel rows `` frontier"
  shows "frontier_loop rows ids frontier = ids \<union> (child_rel rows)\<^sup>+ `` frontier"
proof -
  let ?R = "child_rel rows" and ?L = "frontier_loop rows ids frontier"
  from frontier_loop_closed [OF assms] have closed: "?R `` ?L \<subseteq> ?L" and front: "?R `` frontier \<subseteq> ?L"
    by auto
  have "?R\<^sup>+ `` frontier \<subseteq> ?L"
  proof
    fix y
    assume "y \<in> ?R\<^sup>+ `` frontier"
    then obtain x z where "x \<in> frontier" "(x, z) \<in> ?R" "(z, y) \<in> ?R\<^sup>*"
      by (blast dest: tranclD)
    with front closed_trancl [OF closed] show "y \<in> ?L"
      by (auto simp: rtrancl_eq_or_trancl)
  qed
  with frontier_loop_sound [of ids rows frontier] show ?thesis by blast
qed

lemma frontier_loop_self: "frontier_loop rows {i} {i} = (child_rel rows)\<^sup>* `` {i}"
proof -
  have "frontier_loop rows {i} {i} = {i} \<union> (child_rel rows)\<^sup>+ `` {i}"
    by (rule frontier_loop_trancl) auto
  also have "\<dots> = (child_rel rows)\<^sup>* `` {i}"
    by (simp only: rtrancl_trancl_reflcl) blast
  finally show ?thesis .
qed

lemma frontier_loop_below: "frontier_loop rows {} {i} = (child_rel rows)\<^sup>+ `` {i}"
proof -
  have "frontier_loop rows {} {i} = {} \<union> (child_rel rows)\<^sup>+ `` {i}"
    by (rule frontier_loop_trancl) blast
  then show ?thesis by (simp only: Un_empty_left)
qed

end
