(* ===== verification/Vendor_Access.thy ===== *)
theory Vendor_Access
  imports Hierarchy
begin

text \<open>
  \<open>vendors/access.py\<close>, \<open>accounts/profile_context.py\<close> and \<open>path_label\<close> of the
  organization unit: which supplier an account belongs to, which workspaces it may manage,
  and the sub-tree and ancestry of a unit.  Each \<open>load()\<close> closure is modelled by its value;
  the per-request memo around it is in \<open>Request_Cache\<close>.
\<close>

definition is_vendor_type :: "account_type \<Rightarrow> bool" where
  "is_vendor_type t = (t \<in> {INTERNAL_VENDOR, EXTERNAL_VENDOR})"

text \<open>\<open>valid_supplier_profile_q\<close>: the profiles the queryset filter selects.\<close>

definition valid_supplier_profile_q :: "db \<Rightarrow> employee_profile \<Rightarrow> bool" where
  "valid_supplier_profile_q d p =
     (case role_of_profile d p of
        None \<Rightarrow> False
      | Some r \<Rightarrow>
          (ep_account_type p = INTERNAL_VENDOR \<and> role_slug r = ''admin'' \<and> role_is_active r)
          \<or> (ep_account_type p = EXTERNAL_VENDOR \<and> role_slug r = ''external-vendor''
             \<and> role_is_active r))"

fun expected_supplier_role :: "account_type \<Rightarrow> string option" where
  "expected_supplier_role INTERNAL_VENDOR = Some ''admin''"
| "expected_supplier_role EXTERNAL_VENDOR = Some ''external-vendor''"
| "expected_supplier_role EMPLOYEE = None"

definition is_valid_supplier_profile :: "db \<Rightarrow> employee_profile option \<Rightarrow> bool" where
  "is_valid_supplier_profile d profile =
     (case profile of
        None \<Rightarrow> False
      | Some p \<Rightarrow>
          (case role_of_profile d p of
             None \<Rightarrow> False
           | Some r \<Rightarrow>
               if \<not> role_is_active r then False
               else (case expected_supplier_role (ep_account_type p) of
                       None \<Rightarrow> False
                     | Some slug \<Rightarrow> role_slug r = slug)))"

definition employee_profile_for_user :: "db \<Rightarrow> user option \<Rightarrow> employee_profile option" where
  "employee_profile_for_user d u =
     (case u of None \<Rightarrow> None | Some v \<Rightarrow> profile_of_user d (usr_id v))"

text \<open>The workspace owner of the profile's unit, when that owner is a supplier.\<close>

definition unit_supplier :: "db \<Rightarrow> employee_profile \<Rightarrow> pk option" where
  "unit_supplier d p =
     (case unit_of_profile d p of
        None \<Rightarrow> None
      | Some unit \<Rightarrow>
          (case profile_of_user d (ou_workspace_owner unit) of
             None \<Rightarrow> None
           | Some owner_profile \<Rightarrow>
               if is_vendor_type (ep_account_type owner_profile)
               then Some (ou_workspace_owner unit) else None))"

text \<open>The \<open>while current and current.pk not in visited\<close> loop over the creators.\<close>

function vendor_scope_loop :: "db \<Rightarrow> pk list \<Rightarrow> pk option \<Rightarrow> pk option" where
  "vendor_scope_loop d visited current =
     (case current of
        None \<Rightarrow> None
      | Some u \<Rightarrow>
          (if u \<in> set visited then None
           else (case profile_of_user d u of
                   None \<Rightarrow> None
                 | Some p \<Rightarrow>
                     (case unit_supplier d p of
                        Some owner \<Rightarrow> Some owner
                      | None \<Rightarrow>
                          if is_vendor_type (ep_account_type p) then Some u
                          else vendor_scope_loop d (u # visited) (ep_created_by p)))))"
  by pat_completeness auto
termination
proof (relation "measure (\<lambda>(d, visited, current). card (ep_user ` set (profiles d) - set visited))")
  fix d visited current u p
  assume "u \<notin> set visited" and "profile_of_user d u = Some p"
  then have "u \<in> ep_user ` set (profiles d) - set visited"
    by (auto simp: profile_of_user_def dest: find_SomeD)
  then have "ep_user ` set (profiles d) - set (u # visited)
      \<subset> ep_user ` set (profiles d) - set visited" by auto
  then show "((d, u # visited, ep_created_by p), d, visited, current)
      \<in> measure (\<lambda>(d, visited, current). card (ep_user ` set (profiles d) - set visited))"
    by (simp add: psubset_card_mono)
qed simp

declare vendor_scope_loop.simps [simp del]

definition vendor_scope_user_id :: "db \<Rightarrow> user option \<Rightarrow> pk option" where
  "vendor_scope_user_id d u =
     (case u of None \<Rightarrow> None | Some v \<Rightarrow> vendor_scope_loop d [] (Some (usr_id v)))"

definition is_external_vendor_scope :: "db \<Rightarrow> user option \<Rightarrow> bool" where
  "is_external_vendor_scope d u =
     (case vendor_scope_user_id d u of
        None \<Rightarrow> False
      | Some v \<Rightarrow>
          filter (\<lambda>p. ep_user p = v \<and> ep_account_type p = EXTERNAL_VENDOR) (profiles d) \<noteq> [])"

definition organization_workspace_owner_ids :: "db \<Rightarrow> user option \<Rightarrow> pk set" where
  "organization_workspace_owner_ids d u =
     (case u of
        None \<Rightarrow> {}
      | Some v \<Rightarrow>
          if usr_is_superuser v then
            insert (usr_id v)
              (set [ep_user p. p \<leftarrow> profiles d, ep_account_type p = INTERNAL_VENDOR
                      \<and> (case get_user d (ep_user p) of Some o1 \<Rightarrow> usr_is_active o1 | None \<Rightarrow> False)])
          else
            (case vendor_scope_user_id d u of
               None \<Rightarrow> {}
             | Some w \<Rightarrow>
                 if filter (\<lambda>p. ep_user p = w \<and> ep_account_type p = INTERNAL_VENDOR) (profiles d) \<noteq> []
                 then {w} else {}))"

definition unit_edges :: "db \<Rightarrow> (pk \<times> pk option) list" where
  "unit_edges d = map (\<lambda>u. (ou_id u, ou_parent u)) (org_units d)"

definition organization_unit_descendant_ids :: "db \<Rightarrow> organization_unit option \<Rightarrow> bool \<Rightarrow> pk set" where
  "organization_unit_descendant_ids d unit include_self =
     (case unit of
        None \<Rightarrow> {}
      | Some u \<Rightarrow>
          frontier_loop (unit_edges d) (if include_self then {ou_id u} else {}) {ou_id u})"

definition organization_unit_ancestor_ids :: "db \<Rightarrow> organization_unit option \<Rightarrow> bool \<Rightarrow> pk set" where
  "organization_unit_ancestor_ids d unit include_self =
     (case unit of
        None \<Rightarrow> {}
      | Some u \<Rightarrow>
          let ids = (if include_self then [ou_id u] else [])
          in set ids \<union> set (map ou_id (unit_chain (org_units d) ids (ou_parent u))))"

definition path_label :: "db \<Rightarrow> organization_unit \<Rightarrow> string" where
  "path_label d u =
     py_join '' / '' (rev (ou_name u # map ou_name (unit_chain (org_units d) [ou_id u] (ou_parent u))))"

section \<open>What the resolvers return\<close>

lemma unit_supplier_vendor:
  "unit_supplier d p = Some v \<Longrightarrow>
   \<exists>q. profile_of_user d v = Some q \<and> is_vendor_type (ep_account_type q)"
  by (auto simp: unit_supplier_def split: option.splits if_splits)

lemma vendor_scope_loop_vendor:
  "vendor_scope_loop d visited current = Some v \<Longrightarrow>
   \<exists>q. profile_of_user d v = Some q \<and> is_vendor_type (ep_account_type q)"
proof (induction d visited current rule: vendor_scope_loop.induct)
  case (1 d visited current)
  from "1.prems" show ?case
    by (subst (asm) vendor_scope_loop.simps)
      (auto split: option.splits if_splits dest: unit_supplier_vendor intro: "1.IH")
qed

lemma vendor_scope_user_id_vendor:
  "vendor_scope_user_id d u = Some v \<Longrightarrow>
   \<exists>q. profile_of_user d v = Some q \<and> is_vendor_type (ep_account_type q)"
  by (auto simp: vendor_scope_user_id_def split: option.splits dest: vendor_scope_loop_vendor)

lemma profile_of_user_unique:
  "profiles_unique (profiles d) \<Longrightarrow> p \<in> set (profiles d) \<Longrightarrow> profile_of_user d (ep_user p) = Some p"
  unfolding profile_of_user_def by (rule find_unique) (auto simp: profiles_unique_def unique_by_def)

lemma profile_of_user_SomeD:
  "profile_of_user d u = Some p \<Longrightarrow> p \<in> set (profiles d) \<and> ep_user p = u"
  by (auto simp: profile_of_user_def dest: find_SomeD)

lemma profile_filter:
  assumes "profiles_unique (profiles d)"
  shows "filter (\<lambda>p. ep_user p = v \<and> ep_account_type p = t) (profiles d) \<noteq> [] \<longleftrightarrow>
         (\<exists>p. profile_of_user d v = Some p \<and> ep_account_type p = t)"
  using profile_of_user_unique [OF assms] profile_of_user_SomeD
  by (fastforce simp: filter_empty_conv)

lemma unit_edges_rel:
  "child_rel (unit_edges d) = {(p, ou_id u) | p u. u \<in> set (org_units d) \<and> ou_parent u = Some p}"
  by (force simp: child_rel_def unit_edges_def)

lemma descendant_ids_rtrancl:
  "organization_unit_descendant_ids d (Some u) True = (child_rel (unit_edges d))\<^sup>* `` {ou_id u}"
  by (simp add: organization_unit_descendant_ids_def frontier_loop_self)

lemma descendant_ids_trancl:
  "organization_unit_descendant_ids d (Some u) False = (child_rel (unit_edges d))\<^sup>+ `` {ou_id u}"
  by (simp add: organization_unit_descendant_ids_def frontier_loop_below)

lemma ancestor_ids_distinct_walk:
  "distinct (map ou_id (unit_chain (org_units d) ids (ou_parent u)))"
  by (rule units_up.walk_distinct)

text \<open>The queryset filter and the object test select the same supplier profiles.\<close>

lemma valid_supplier_q_object:
  "valid_supplier_profile_q d p \<longleftrightarrow> is_valid_supplier_profile d (Some p)"
  by (cases "ep_account_type p")
    (auto simp: valid_supplier_profile_q_def is_valid_supplier_profile_def split: option.splits)

end
