(* ===== verification/Vendor_Validation.thy ===== *)
theory Vendor_Validation
  imports Vendor_Access
begin

text \<open>
  The \<open>clean\<close> methods of \<open>vendors/models.py\<close> and the properties that follow a foreign key.
  A validator returns \<open>Inr ()\<close> or the first error the code raises.  The id of an unset
  foreign key on an unsaved object is 0.  \<open>strict_hierarchy\<close> is what the unit validator is
  for: Branch, Sub-branch and Shift rows nest in exactly that order, so an ancestry has at
  most three units.
\<close>

type_synonym validation = "py_error + unit"

definition invalid :: "string \<Rightarrow> string \<Rightarrow> validation" where
  "invalid field message = Inl (ValidationError [(field, message)])"

definition account_type_of :: "db \<Rightarrow> pk \<Rightarrow> account_type option" where
  "account_type_of d u = map_option ep_account_type (profile_of_user d u)"

section \<open>Client integrations\<close>

fun py_title_from :: "bool \<Rightarrow> string \<Rightarrow> string" where
  "py_title_from start [] = []"
| "py_title_from start (c # cs) =
     (if is_upper_ascii c \<or> is_lower_ascii c
      then (if start then upper_char c else lower_char c) # py_title_from False cs
      else c # py_title_from True cs)"

definition managed_providers :: "string list" where
  "managed_providers =
     [''rfg'', ''toluna'', ''track_opinion'', ''acuity'', ''unimarket'', ''zamplia'']"

definition minimum_interval :: "string \<Rightarrow> nat" where
  "minimum_interval provider =
     (case map_of [(''rfg'', 600), (''toluna'', 60), (''track_opinion'', 300), (''acuity'', 300),
                   (''unimarket'', 300), (''zamplia'', 300)] provider of
        Some n \<Rightarrow> n | None \<Rightarrow> 60)"

definition integration_clean :: "client_integration \<Rightarrow> validation" where
  "integration_clean i =
     (if ci_provider_code i \<in> set managed_providers
         \<and> ci_sync_interval_seconds i < minimum_interval (ci_provider_code i) then
        invalid ''sync_interval_seconds''
          (if ci_provider_code i = ''rfg''
           then ''RFG inventory cannot be polled more often than every 600 seconds.''
           else py_title_from True (map (\<lambda>c. if c = CHR ''_'' then CHR '' '' else c) (ci_provider_code i))
                @ '' inventory cannot be polled more often than every ''
                @ show_nat (minimum_interval (ci_provider_code i)) @ '' seconds.'')
      else if ci_provider_code i \<in> set managed_providers \<and> ci_scheduled_sync_enabled i
              \<and> ci_last_test_status i \<noteq> ''success'' then
        invalid ''scheduled_sync_enabled''
          ''Test and verify the connection before enabling scheduled sync.''
      else Inr ())"

section \<open>Organization units\<close>

fun expected_parent_type :: "unit_type \<Rightarrow> unit_type option" where
  "expected_parent_type BRANCH = None"
| "expected_parent_type SUB_BRANCH = Some BRANCH"
| "expected_parent_type SHIFT = Some SUB_BRANCH"

fun expected_child_type :: "unit_type \<Rightarrow> unit_type option" where
  "expected_child_type BRANCH = Some SUB_BRANCH"
| "expected_child_type SUB_BRANCH = Some SHIFT"
| "expected_child_type SHIFT = None"

text \<open>\<open>while current: if current.pk in visited: raise; visited.add(\<dots>)\<close>\<close>

function climbs_to_cycle :: "organization_unit list \<Rightarrow> pk list \<Rightarrow> pk option \<Rightarrow> bool" where
  "climbs_to_cycle units visited current =
     (case current of
        None \<Rightarrow> False
      | Some i \<Rightarrow>
          (if i \<in> set visited then True
           else (case row_by_pk ou_id i units of
                   None \<Rightarrow> False
                 | Some u \<Rightarrow> climbs_to_cycle units (i # visited) (ou_parent u))))"
  by pat_completeness auto
termination
proof (relation "measure (\<lambda>(units, visited, current). card (ou_id ` set units - set visited))")
  fix units visited current i u
  assume "i \<notin> set visited" and "row_by_pk ou_id i units = Some (u :: organization_unit)"
  then have "i \<in> ou_id ` set units - set visited" by (auto dest: row_by_pk_Some)
  then have "ou_id ` set units - set (i # visited) \<subset> ou_id ` set units - set visited" by auto
  then show "((units, i # visited, ou_parent u), units, visited, current)
      \<in> measure (\<lambda>(units, visited, current). card (ou_id ` set units - set visited))"
    by (simp add: psubset_card_mono)
qed simp

declare climbs_to_cycle.simps [simp del]

definition owner_check :: "db \<Rightarrow> pk \<Rightarrow> validation" where
  "owner_check d owner =
     (if owner = 0 then invalid ''workspace_owner'' ''Select a workspace owner.''
      else (case get_user d owner of
              None \<Rightarrow> Inl (DoesNotExist ''User'')
            | Some o1 \<Rightarrow>
                if \<not> usr_is_superuser o1 \<and> account_type_of d owner \<noteq> Some INTERNAL_VENDOR
                then invalid ''workspace_owner''
                  ''Organization workspaces must belong to a super admin or internal supplier.''
                else Inr ()))"

definition parent_check :: "db \<Rightarrow> pk option \<Rightarrow> organization_unit \<Rightarrow> validation" where
  "parent_check d self_pk u =
     (case expected_parent_type (ou_unit_type u) of
        None \<Rightarrow>
          (if ou_parent u \<noteq> None then invalid ''parent'' ''A branch cannot have a parent.''
           else Inr ())
      | Some expected \<Rightarrow>
          (case ou_parent u of
             None \<Rightarrow> invalid ''parent''
               (''A '' @ py_lower (unit_type_label (ou_unit_type u)) @ '' requires a parent.'')
           | Some parent_id \<Rightarrow>
               if self_pk = Some parent_id
               then invalid ''parent'' ''An organization unit cannot be its own parent.''
               else (case get_org_unit d parent_id of
                       None \<Rightarrow> Inl (DoesNotExist ''OrganizationUnit'')
                     | Some parent \<Rightarrow>
                         if ou_unit_type parent \<noteq> expected
                         then invalid ''parent''
                           (''Parent must be a '' @ py_lower (unit_type_label expected) @ ''.'')
                         else if ou_workspace_owner parent \<noteq> ou_workspace_owner u
                         then invalid ''parent''
                           ''Parent and child must belong to the same workspace.''
                         else if climbs_to_cycle (org_units d)
                                   (case self_pk of None \<Rightarrow> [] | Some i \<Rightarrow> [i]) (ou_parent u)
                         then invalid ''parent'' ''This parent would create a hierarchy cycle.''
                         else Inr ())))"

definition children_check :: "db \<Rightarrow> pk option \<Rightarrow> organization_unit \<Rightarrow> validation" where
  "children_check d self_pk u =
     (case self_pk of
        None \<Rightarrow> Inr ()
      | Some i \<Rightarrow>
          if list_ex (\<lambda>c. ou_parent c = Some i
                \<and> expected_child_type (ou_unit_type u) \<noteq> Some (ou_unit_type c)) (org_units d)
          then invalid ''unit_type''
            ''This type change would invalidate existing child units. Move or deactivate the children first.''
          else Inr ())"

definition duplicate_check :: "db \<Rightarrow> pk option \<Rightarrow> organization_unit \<Rightarrow> validation" where
  "duplicate_check d self_pk u =
     (if list_ex (\<lambda>v. ou_workspace_owner v = ou_workspace_owner u \<and> ou_parent v = ou_parent u
            \<and> ou_unit_type v = ou_unit_type u \<and> ou_code v = ou_code u
            \<and> self_pk \<noteq> Some (ou_id v)) (org_units d)
      then invalid ''code'' ''This code is already used at the same hierarchy level.''
      else Inr ())"

definition organization_unit_clean :: "db \<Rightarrow> pk option \<Rightarrow> organization_unit \<Rightarrow> validation" where
  "organization_unit_clean d self_pk u =
     (case owner_check d (ou_workspace_owner u) of
        Inl e \<Rightarrow> Inl e
      | Inr _ \<Rightarrow>
          (case parent_check d self_pk u of
             Inl e \<Rightarrow> Inl e
           | Inr _ \<Rightarrow>
               (case children_check d self_pk u of
                  Inl e \<Rightarrow> Inl e
                | Inr _ \<Rightarrow> duplicate_check d self_pk u)))"

text \<open>\<open>Model.save\<close>: insert a new row under a fresh key, or replace the row of that key.\<close>

definition save_unit :: "db \<Rightarrow> pk option \<Rightarrow> organization_unit \<Rightarrow> db" where
  "save_unit d self_pk u =
     (case self_pk of
        None \<Rightarrow> d\<lparr>org_units := org_units d @ [u\<lparr>ou_id := next_pk ou_id (org_units d)\<rparr>]\<rparr>
      | Some i \<Rightarrow> d\<lparr>org_units := update_where (\<lambda>v. ou_id v = i) (\<lambda>_. u\<lparr>ou_id := i\<rparr>) (org_units d)\<rparr>)"

definition nested_in :: "organization_unit list \<Rightarrow> organization_unit \<Rightarrow> bool" where
  "nested_in units u =
     (case expected_parent_type (ou_unit_type u) of
        None \<Rightarrow> ou_parent u = None
      | Some t \<Rightarrow>
          (case ou_parent u of
             None \<Rightarrow> False
           | Some p \<Rightarrow> map_option ou_unit_type (row_by_pk ou_id p units) = Some t))"

definition strict_hierarchy :: "organization_unit list \<Rightarrow> bool" where
  "strict_hierarchy units = list_all (nested_in units) units"

section \<open>Client access, commercial profiles and API keys\<close>

definition client_access_clean :: "db \<Rightarrow> organization_client_access \<Rightarrow> validation" where
  "client_access_clean d r =
     (let errors =
        (if oca_organization_unit r = 0
         then [(''organization_unit'', ''Select an organization unit.'')] else [])
        @ (if oca_client r = 0 then [(''client'', ''Select a client.'')] else [])
      in if errors \<noteq> [] then Inl (ValidationError errors)
         else if \<not> cpi_range_valid (oca_min_cpi r) (oca_max_cpi r) then
           invalid ''max_cpi'' ''Maximum CPI must be greater than or equal to minimum CPI.''
         else (case get_org_unit d (oca_organization_unit r) of
                 None \<Rightarrow> Inl (DoesNotExist ''OrganizationUnit'')
               | Some unit \<Rightarrow>
                   if account_type_of d (ou_workspace_owner unit) = Some INTERNAL_VENDOR
                      \<and> \<not> list_ex (\<lambda>a. vca_vendor a = ou_workspace_owner unit
                              \<and> vca_client a = oca_client r \<and> vca_is_active a)
                            (client_allocations d)
                   then invalid ''client''
                     ''Allocate this client to the internal supplier before assigning it to a branch.''
                   else Inr ()))"

definition commercial_profile_clean :: "db \<Rightarrow> vendor_commercial_profile \<Rightarrow> validation" where
  "commercial_profile_clean d p =
     (let account_type = account_type_of d (vcp_vendor p)
      in if account_type \<noteq> Some INTERNAL_VENDOR \<and> account_type \<noteq> Some EXTERNAL_VENDOR then
           invalid ''vendor'' ''Commercial profiles can only be assigned to supplier accounts.''
         else if account_type = Some INTERNAL_VENDOR \<and> vcp_default_cpi_cut_percent p \<noteq> 0 then
           invalid ''default_cpi_cut_percent'' ''Internal suppliers must receive the full source CPI.''
         else if account_type = Some INTERNAL_VENDOR \<and> vcp_delivery_mode p \<noteq> PANEL then
           invalid ''delivery_mode'' ''Internal suppliers use the panel delivery mode.''
         else Inr ())"

definition api_key_clean :: "db \<Rightarrow> vendor_api_key \<Rightarrow> validation" where
  "api_key_clean d k =
     (if account_type_of d (vak_vendor k) \<noteq> Some EXTERNAL_VENDOR
      then invalid ''vendor'' ''API keys can only be issued to external suppliers.''
      else Inr ())"

section \<open>Allocations and reservations\<close>

definition client_cut :: "db \<Rightarrow> vendor_client_allocation \<Rightarrow> decimal" where
  "client_cut d a =
     (case vca_cpi_cut_override_percent a of
        Some c \<Rightarrow> c
      | None \<Rightarrow> (case commercial_of_user d (vca_vendor a) of
                   Some p \<Rightarrow> vcp_default_cpi_cut_percent p | None \<Rightarrow> 0))"

definition survey_cut :: "db \<Rightarrow> vendor_survey_allocation \<Rightarrow> py_error + decimal" where
  "survey_cut d a =
     (case vsa_cpi_cut_override_percent a of
        Some c \<Rightarrow> Inr c
      | None \<Rightarrow> (case get_client_allocation d (vsa_client_allocation a) of
                   None \<Rightarrow> Inl (DoesNotExist ''VendorClientAllocation'')
                 | Some ca \<Rightarrow> Inr (client_cut d ca)))"

definition ends_before_start :: "timestamp option \<Rightarrow> timestamp option \<Rightarrow> bool" where
  "ends_before_start starts ends =
     (case (ends, starts) of (Some e, Some s) \<Rightarrow> e \<le> s | _ \<Rightarrow> False)"

definition client_allocation_clean :: "db \<Rightarrow> vendor_client_allocation \<Rightarrow> validation" where
  "client_allocation_clean d a =
     (let account_type = account_type_of d (vca_vendor a)
      in if account_type \<noteq> Some INTERNAL_VENDOR \<and> account_type \<noteq> Some EXTERNAL_VENDOR then
           invalid ''vendor'' ''Client allocations can only be assigned to supplier accounts.''
         else if account_type = Some INTERNAL_VENDOR
                 \<and> \<not> (vca_cpi_cut_override_percent a = None \<or> vca_cpi_cut_override_percent a = Some 0) then
           invalid ''cpi_cut_override_percent'' ''Internal suppliers cannot have a CPI cut.''
         else if \<not> cpi_range_valid (vca_min_cpi a) (vca_max_cpi a) then
           invalid ''max_cpi'' ''Maximum CPI must be greater than or equal to minimum CPI.''
         else if ends_before_start (vca_starts_at a) (vca_ends_at a) then
           invalid ''ends_at'' ''End time must be after start time.''
         else if vca_consumed_quantity a + vca_reserved_quantity a > vca_quantity_limit a then
           invalid ''quantity_limit'' ''Limit cannot be below consumed plus reserved quantity.''
         else Inr ())"

definition survey_allocation_clean :: "db \<Rightarrow> vendor_survey_allocation \<Rightarrow> validation" where
  "survey_allocation_clean d a =
     (case get_survey d (vsa_survey a) of
        None \<Rightarrow> Inl (DoesNotExist ''Survey'')
      | Some s \<Rightarrow>
          (case get_client_allocation d (vsa_client_allocation a) of
             None \<Rightarrow> Inl (DoesNotExist ''VendorClientAllocation'')
           | Some ca \<Rightarrow>
               if sv_client s \<noteq> None \<and> sv_client s \<noteq> Some (vca_client ca) then
                 invalid ''survey'' ''Survey client must match the parent client allocation.''
               else if sv_client s = None then
                 invalid ''survey'' ''Survey must be mapped to a client before it can be allocated.''
               else if account_type_of d (vca_vendor ca) = Some INTERNAL_VENDOR
                       \<and> \<not> (vsa_cpi_cut_override_percent a = None
                             \<or> vsa_cpi_cut_override_percent a = Some 0) then
                 invalid ''cpi_cut_override_percent'' ''Internal suppliers cannot have a CPI cut.''
               else if ends_before_start (vsa_starts_at a) (vsa_ends_at a) then
                 invalid ''ends_at'' ''End time must be after start time.''
               else if vsa_consumed_quantity a + vsa_reserved_quantity a > vsa_quantity_limit a then
                 invalid ''quantity_limit'' ''Limit cannot be below consumed plus reserved quantity.''
               else Inr ()))"

definition reservation_clean :: "db \<Rightarrow> allocation_reservation \<Rightarrow> validation" where
  "reservation_clean d r =
     (case ar_survey_allocation r of
        None \<Rightarrow> Inr ()
      | Some sa_id \<Rightarrow>
          (case (get_survey_allocation d sa_id, get_attempt d (ar_attempt r)) of
             (None, _) \<Rightarrow> Inl (DoesNotExist ''VendorSurveyAllocation'')
           | (Some sa, a) \<Rightarrow>
               if vsa_client_allocation sa \<noteq> ar_client_allocation r then
                 invalid ''survey_allocation''
                   ''Survey and client allocations must belong to the same supplier scope.''
               else (case a of
                       None \<Rightarrow> Inl (DoesNotExist ''SurveyAttempt'')
                     | Some att \<Rightarrow>
                         if at_survey att \<noteq> vsa_survey sa
                         then invalid ''attempt'' ''Attempt survey must match the survey allocation.''
                         else Inr ())))"

section \<open>The hierarchy the unit validator keeps\<close>

lemma invalid_not_ok [simp]: "invalid f m \<noteq> Inr x"
  by (simp add: invalid_def)

lemma organization_unit_cleanD:
  assumes "organization_unit_clean d self_pk u = Inr ()"
  shows "owner_check d (ou_workspace_owner u) = Inr ()" "parent_check d self_pk u = Inr ()"
    "children_check d self_pk u = Inr ()" "duplicate_check d self_pk u = Inr ()"
  using assms by (auto simp: organization_unit_clean_def split: sum.splits)

lemma parent_check_parent:
  assumes "parent_check d self_pk u = Inr ()"
  shows "nested_in (org_units d) u" and "ou_parent u = Some p \<Longrightarrow> self_pk \<noteq> Some p"
  using assms
  by (cases "ou_unit_type u";
      auto simp: parent_check_def nested_in_def get_org_unit_def split: option.splits if_splits)+

lemma nested_in_append:
  assumes "nested_in units u" shows "nested_in (units @ [v]) u"
  using assms by (auto simp: nested_in_def row_by_pk_append split: option.splits)

lemma nested_in_other_id [simp]: "nested_in units (u\<lparr>ou_id := i\<rparr>) = nested_in units u"
  by (simp add: nested_in_def split: option.split)

lemma nested_in_update:
  assumes "nested_in units u" and "ou_parent u \<noteq> Some i" and "ou_id w = i"
  shows "nested_in (update_where (\<lambda>v. ou_id v = i) (\<lambda>_. w) units) u"
proof -
  have "row_by_pk ou_id p (update_where (\<lambda>v. ou_id v = i) (\<lambda>_. w) units) = row_by_pk ou_id p units"
    if "p \<noteq> i" for p
    using that assms(3) by (induction units) (auto simp: row_by_pk_def update_where_def)
  with assms show ?thesis by (auto simp: nested_in_def split: option.splits)
qed

lemma row_by_pk_replaced:
  assumes "i \<in> ou_id ` set units" and "ou_id w = i"
  shows "row_by_pk ou_id i (update_where (\<lambda>v. ou_id v = i) (\<lambda>_. w) units) = Some w"
  using assms by (induction units) (auto simp: row_by_pk_def update_where_def)

lemma expected_child_parent: "expected_child_type t = Some c \<Longrightarrow> expected_parent_type c = Some t"
  by (cases t) auto

lemma children_check_types:
  "children_check d (Some i) u = Inr () \<Longrightarrow> c \<in> set (org_units d) \<Longrightarrow> ou_parent c = Some i \<Longrightarrow>
   expected_child_type (ou_unit_type u) = Some (ou_unit_type c)"
  by (auto simp: children_check_def list_ex_iff split: if_splits)

lemma save_unit_keeps_hierarchy:
  assumes strict: "strict_hierarchy (org_units d)"
    and clean: "organization_unit_clean d self_pk u = Inr ()"
    and known: "\<And>i. self_pk = Some i \<Longrightarrow> i \<in> ou_id ` set (org_units d)"
  shows "strict_hierarchy (org_units (save_unit d self_pk u))"
proof (cases self_pk)
  case None
  from clean have "nested_in (org_units d) u"
    by (intro parent_check_parent(1) organization_unit_cleanD(2))
  with strict None show ?thesis
    by (auto simp: strict_hierarchy_def save_unit_def list_all_iff intro!: nested_in_append)
next
  case (Some i)
  let ?w = "u\<lparr>ou_id := i\<rparr>"
  let ?units = "update_where (\<lambda>v. ou_id v = i) (\<lambda>_. ?w) (org_units d)"
  note parent = organization_unit_cleanD(2) [OF clean]
  have "nested_in ?units ?w"
    using parent_check_parent(1) [OF parent] parent_check_parent(2) [OF parent] Some
    by (intro nested_in_update) auto
  moreover have "nested_in ?units c" if c: "c \<in> set (org_units d)" "ou_id c \<noteq> i" for c
  proof (cases "ou_parent c = Some i")
    case True
    have "expected_child_type (ou_unit_type u) = Some (ou_unit_type c)"
      using children_check_types organization_unit_cleanD(3) [OF clean] c(1) True Some by blast
    from expected_child_parent [OF this] show ?thesis
      using True known [OF Some] by (simp add: nested_in_def row_by_pk_replaced)
  next
    case False
    with strict c show ?thesis
      by (intro nested_in_update) (auto simp: strict_hierarchy_def list_all_iff)
  qed
  ultimately show ?thesis
    using Some by (auto simp: strict_hierarchy_def save_unit_def list_all_iff set_update_where)
qed

text \<open>In a strict hierarchy a unit's ancestry has as many units as its type's depth.\<close>

fun type_depth :: "unit_type \<Rightarrow> nat" where
  "type_depth BRANCH = 1"
| "type_depth SUB_BRANCH = 2"
| "type_depth SHIFT = 3"

lemma strict_hierarchy_parent:
  assumes "strict_hierarchy units" and "row_by_pk ou_id i units = Some u" and "ou_parent u = Some p"
  obtains q where "row_by_pk ou_id p units = Some q"
    and "type_depth (ou_unit_type u) = Suc (type_depth (ou_unit_type q))"
proof -
  from assms(2) have "u \<in> set units" by (auto dest: row_by_pk_Some)
  with assms have "nested_in units u" by (auto simp: strict_hierarchy_def list_all_iff)
  with assms(3) that show thesis by (cases "ou_unit_type u") (auto simp: nested_in_def)
qed

lemma unit_chain_depth:
  "strict_hierarchy units \<Longrightarrow> row_by_pk ou_id i units = Some u \<Longrightarrow>
   length (unit_chain units visited (Some i)) \<le> type_depth (ou_unit_type u)"
proof (induction units visited "Some i" arbitrary: i u rule: unit_chain.induct)
  case (1 units visited)
  show ?case
  proof (cases "i \<in> set visited \<or> ou_parent u = None")
    case True
    then show ?thesis
      using "1.prems" by (cases "ou_unit_type u") (auto simp: unit_chain.simps)
  next
    case False
    then obtain p where p: "ou_parent u = Some p" by auto
    obtain q where q: "row_by_pk ou_id p units = Some q"
      and depth: "type_depth (ou_unit_type u) = Suc (type_depth (ou_unit_type q))"
      by (rule strict_hierarchy_parent [OF "1.prems"(1,2) p])
    have "length (unit_chain units (i # visited) (Some p)) \<le> type_depth (ou_unit_type q)"
      using "1.hyps" [OF refl _ "1.prems"(2) _ "1.prems"(1) q] False p by auto
    with False "1.prems"(2) p depth show ?thesis
      by (subst unit_chain.simps) simp
  qed
qed

end
