(* ===== verification/Samples.thy ===== *)
theory Samples
  imports Database
begin

text \<open>
  A small concrete database for the witnesses: user 31 is an external supplier with a
  commercial profile (20 percent cut) and a client allocation for client 5, user 32 an
  internal supplier, user 33 an employee created by user 31; survey 7 of client 5 pays 2.50
  and attempt 9 of survey 7 is on its way.
\<close>

definition sample_user :: "pk \<Rightarrow> user" where
  "sample_user i = \<lparr>usr_id = i, usr_username = ''u'' @ show_nat i, usr_first_name = ''F'',
     usr_last_name = ''L'', usr_is_active = True, usr_is_superuser = False\<rparr>"

definition sample_role :: "pk \<Rightarrow> string \<Rightarrow> nat \<Rightarrow> decimal \<Rightarrow> role" where
  "sample_role i slug rank percent = \<lparr>role_id = i, role_dashboard_performers = JObj [],
     role_name = slug, role_slug = slug, role_description = [], role_rank = rank,
     role_cpi_visibility_percent = percent, role_is_system = False, role_is_active = True,
     role_created_by = None, role_created_at = 0, role_updated_at = 0\<rparr>"

definition sample_profile :: "pk \<Rightarrow> account_type \<Rightarrow> pk option \<Rightarrow> pk option \<Rightarrow> pk option \<Rightarrow> employee_profile" where
  "sample_profile u kind role creator unit = \<lparr>ep_id = u, ep_user = u, ep_role = role,
     ep_employee_id = None, ep_department = [], ep_job_title = [], ep_account_type = kind,
     ep_company_name = [], ep_created_by = creator, ep_organization_unit = unit,
     ep_created_at = 0, ep_updated_at = 0\<rparr>"

definition sample_client :: client where
  "sample_client = \<lparr>cl_id = 5, cl_code = ''acme'', cl_name = ''Acme'',
     cl_provider_code = ''innovatemr'', cl_company_name_match = [], cl_is_active = True,
     cl_created_by = None, cl_created_at = 0, cl_updated_at = 0\<rparr>"

definition sample_unit :: "pk \<Rightarrow> pk option \<Rightarrow> unit_type \<Rightarrow> organization_unit" where
  "sample_unit i parent kind = \<lparr>ou_id = i, ou_workspace_owner = 32, ou_parent = parent,
     ou_unit_type = kind, ou_name = unit_type_label kind, ou_code = unit_type_value kind,
     ou_description = [], ou_is_active = True, ou_created_by = None, ou_created_at = 0,
     ou_updated_at = 0\<rparr>"

definition sample_commercial :: "pk \<Rightarrow> decimal \<Rightarrow> delivery_mode \<Rightarrow> vendor_commercial_profile" where
  "sample_commercial v pct mode = \<lparr>vcp_id = v, vcp_vendor = v, vcp_default_cpi_cut_percent = pct,
     vcp_currency = ''USD'', vcp_delivery_mode = mode, vcp_is_active = True,
     vcp_created_by = None, vcp_created_at = 0, vcp_updated_at = 0\<rparr>"

definition sample_allocation :: "pk \<Rightarrow> pk \<Rightarrow> vendor_client_allocation" where
  "sample_allocation i v = \<lparr>vca_id = i, vca_vendor = v, vca_client = 5, vca_quantity_limit = 0,
     vca_reserved_quantity = 0, vca_consumed_quantity = 0, vca_cpi_cut_override_percent = None,
     vca_min_cpi = None, vca_max_cpi = None, vca_starts_at = None, vca_ends_at = None,
     vca_is_active = True, vca_created_by = None, vca_created_at = 0, vca_updated_at = 0\<rparr>"

definition sample_survey :: survey where
  "sample_survey = \<lparr>sv_id = 7, sv_local_id = ''20260800000001'', sv_client = Some 5,
     sv_integration = None, sv_source_id = Some 32655971, sv_source_key = ''32655971'',
     sv_company_name = ''InnovateMR'', sv_name = ''S'', sv_status = LIVE, sv_sample_size = 10,
     sv_completes = 0, sv_remaining = 10, sv_starts = 0, sv_cpi = Some (5/2), sv_loi = None,
     sv_incidence_rate = None, sv_country = ''India'', sv_country_code = ''IN'',
     sv_language = ''English'', sv_language_code = ''EN'', sv_group_type = [], sv_buyer_id = [],
     sv_survey_type = [], sv_device_type = [], sv_entry_link = [], sv_test_entry_link = [],
     sv_job_category = [], sv_has_quota = False, sv_is_pii_required = False,
     sv_is_recontact = False, sv_source_created_at = None, sv_source_end_at = None,
     sv_source_modified_at = None, sv_last_seen_at = 0, sv_detail_synced_at = None,
     sv_quota_synced_at = None, sv_targeting_synced_at = None, sv_raw_data = JObj [],
     sv_created_at = 0, sv_updated_at = 0\<rparr>"

definition sample_attempt :: survey_attempt where
  "sample_attempt = \<lparr>at_id = 9, at_rid = ''aB3aB3aB3a'', at_pid = ''aB3aB3aB3aB3'',
     at_prescreener_uid = None, at_provider_profile_uid = [], at_survey = 7,
     at_platform_user = Some 33, at_vendor = None, at_client = None, at_client_allocation = None,
     at_survey_allocation = None, at_supplier_api_key_id = None,
     at_supplier_delivery_config = JObj [], at_user_id = ''33'', at_supplier_code = [],
     at_source_cpi_snapshot = None, at_cpi_snapshot_source = [],
     at_cpi_cut_percent_snapshot = None, at_payable_cpi_snapshot = None,
     at_cpi_currency_snapshot = [], at_status = REDIRECTED, at_initiated_at = 0,
     at_submitted_at = None, at_redirected_at = None, at_callback_at = None,
     at_last_callback_at = None, at_loi_seconds = None, at_initiation_ip = None,
     at_callback_ip = None, at_entry_user_agent = [], at_exit_user_agent = [],
     at_entry_browser = [], at_exit_browser = [], at_entry_device = [], at_exit_device = [],
     at_entry_os = [], at_exit_os = [], at_entry_referrer = [], at_entry_accept_language = [],
     at_entry_client_data = JObj [], at_exit_client_data = JObj [], at_status_source = [],
     at_upstream_checked_at = None, at_upstream_transaction_data = JObj [], at_answers = JObj [],
     at_outbound_url = [], at_callback_count = 0, at_is_verified = False, at_created_at = 0,
     at_updated_at = 0\<rparr>"

definition sample_db :: db where
  "sample_db = empty_db\<lparr>
     users := [sample_user 31, sample_user 32, sample_user 33],
     roles := [sample_role 41 ''admin'' 50 100, sample_role 42 ''external-vendor'' 10 100,
               sample_role 43 ''executive'' 10 50],
     profiles := [sample_profile 31 EXTERNAL_VENDOR (Some 42) None None,
                  sample_profile 32 INTERNAL_VENDOR (Some 41) None None,
                  sample_profile 33 EMPLOYEE (Some 43) (Some 31) None],
     clients := [sample_client],
     org_units := [sample_unit 11 None BRANCH, sample_unit 12 (Some 11) SUB_BRANCH,
                   sample_unit 13 (Some 12) SHIFT],
     commercial_profiles := [sample_commercial 31 20 BOTH, sample_commercial 32 0 PANEL],
     client_allocations := [sample_allocation 21 31, sample_allocation 22 32],
     surveys := [sample_survey],
     attempts := [sample_attempt]\<rparr>"

lemma sample_tables [simp]:
  "users sample_db = [sample_user 31, sample_user 32, sample_user 33]"
  "profiles sample_db = [sample_profile 31 EXTERNAL_VENDOR (Some 42) None None,
                  sample_profile 32 INTERNAL_VENDOR (Some 41) None None,
                  sample_profile 33 EMPLOYEE (Some 43) (Some 31) None]"
  "roles sample_db = [sample_role 41 ''admin'' 50 100, sample_role 42 ''external-vendor'' 10 100,
               sample_role 43 ''executive'' 10 50]"
  "clients sample_db = [sample_client]"
  "org_units sample_db = [sample_unit 11 None BRANCH, sample_unit 12 (Some 11) SUB_BRANCH,
                   sample_unit 13 (Some 12) SHIFT]"
  "commercial_profiles sample_db = [sample_commercial 31 20 BOTH, sample_commercial 32 0 PANEL]"
  "client_allocations sample_db = [sample_allocation 21 31, sample_allocation 22 32]"
  "survey_allocations sample_db = []" "reservations sample_db = []" "org_access sample_db = []"
  "surveys sample_db = [sample_survey]" "attempts sample_db = [sample_attempt]"
  "sequences sample_db = []" "leases sample_db = []" "integrations sample_db = []"
  "access_functions sample_db = []" "role_permissions sample_db = []" "overrides sample_db = []"
  "api_keys sample_db = []" "quotas sample_db = []" "notifications sample_db = []"
  "final_uploads sample_db = []" "final_statuses sample_db = []" "final_items sample_db = []"
  "monthly_counters sample_db = []" "reuse_events sample_db = []" "reuse_states sample_db = []"
  "project_usages sample_db = []" "targeting_questions sample_db = []"
  by (simp_all add: sample_db_def empty_db_def)

lemma sample_user_fields [simp]:
  "usr_id (sample_user i) = i" "usr_is_active (sample_user i)" "\<not> usr_is_superuser (sample_user i)"
  by (simp_all add: sample_user_def)

lemma sample_role_fields [simp]:
  "role_id (sample_role i sl rk pc) = i" "role_slug (sample_role i sl rk pc) = sl"
  "role_rank (sample_role i sl rk pc) = rk" "role_is_active (sample_role i sl rk pc)"
  "role_cpi_visibility_percent (sample_role i sl rk pc) = pc"
  by (simp_all add: sample_role_def)

lemma sample_profile_fields [simp]:
  "ep_user (sample_profile u k r c g) = u" "ep_account_type (sample_profile u k r c g) = k"
  "ep_role (sample_profile u k r c g) = r" "ep_created_by (sample_profile u k r c g) = c"
  "ep_organization_unit (sample_profile u k r c g) = g" "ep_id (sample_profile u k r c g) = u"
  "ep_employee_id (sample_profile u k r c g) = None"
  by (simp_all add: sample_profile_def)

lemma sample_client_fields [simp]:
  "cl_id sample_client = 5" "cl_is_active sample_client" "cl_code sample_client = ''acme''"
  by (simp_all add: sample_client_def)

lemma sample_unit_fields [simp]:
  "ou_id (sample_unit i p k) = i" "ou_parent (sample_unit i p k) = p"
  "ou_unit_type (sample_unit i p k) = k" "ou_is_active (sample_unit i p k)"
  "ou_workspace_owner (sample_unit i p k) = 32" "ou_code (sample_unit i p k) = unit_type_value k"
  "ou_name (sample_unit i p k) = unit_type_label k"
  by (simp_all add: sample_unit_def)

lemma sample_commercial_fields [simp]:
  "vcp_vendor (sample_commercial v c m) = v" "vcp_is_active (sample_commercial v c m)"
  "vcp_default_cpi_cut_percent (sample_commercial v c m) = c"
  "vcp_currency (sample_commercial v c m) = ''USD''" "vcp_delivery_mode (sample_commercial v c m) = m"
  by (simp_all add: sample_commercial_def)

lemma sample_allocation_fields [simp]:
  "vca_id (sample_allocation i v) = i" "vca_vendor (sample_allocation i v) = v"
  "vca_client (sample_allocation i v) = 5" "vca_is_active (sample_allocation i v)"
  "vca_min_cpi (sample_allocation i v) = None" "vca_max_cpi (sample_allocation i v) = None"
  "vca_starts_at (sample_allocation i v) = None" "vca_ends_at (sample_allocation i v) = None"
  "vca_cpi_cut_override_percent (sample_allocation i v) = None"
  "vca_quantity_limit (sample_allocation i v) = 0" "vca_reserved_quantity (sample_allocation i v) = 0"
  "vca_consumed_quantity (sample_allocation i v) = 0"
  by (simp_all add: sample_allocation_def)

lemma sample_survey_fields [simp]:
  "sv_id sample_survey = 7" "sv_client sample_survey = Some 5" "sv_cpi sample_survey = Some (5/2)"
  "sv_remaining sample_survey = 10" "sv_integration sample_survey = None"
  "sv_local_id sample_survey = ''20260800000001''"
  by (simp_all add: sample_survey_def)

lemma sample_attempt_fields [simp]:
  "at_id sample_attempt = 9" "at_survey sample_attempt = 7" "at_status sample_attempt = REDIRECTED"
  "at_rid sample_attempt = ''aB3aB3aB3a''" "at_client sample_attempt = None"
  "at_upstream_transaction_data sample_attempt = JObj []" "at_initiated_at sample_attempt = 0"
  "at_provider_profile_uid sample_attempt = []" "at_prescreener_uid sample_attempt = None"
  "at_callback_count sample_attempt = 0" "at_callback_at sample_attempt = None"
  by (simp_all add: sample_attempt_def)

text \<open>The lookups of the sample evaluate by simplification.\<close>

lemmas sample_lookups = row_lookups row_by_pk_def profile_of_user_def commercial_of_user_def
  role_of_profile_def unit_of_profile_def reservation_of_attempt_def

end
