(* ===== verification/Hierarchy_Properties.thy ===== *)
theory Hierarchy_Properties
  imports Vendor_Validation Samples
begin

text \<open>
  Properties of the workspace hierarchy: what the unit validator guarantees of every table
  built through it, that the descendant and ancestor walks are converse to each other, that
  the two tests for a supplier profile agree, and what a resolved supplier scope is.
\<close>

section \<open>Validated edits\<close>

text \<open>Rows written through \<open>full_clean()\<close> and \<open>save()\<close>: new ones, and edits of existing ones.\<close>

inductive validated_edits :: "db \<Rightarrow> db \<Rightarrow> bool" where
  start: "validated_edits d d"
| edit: "validated_edits d d' \<Longrightarrow> organization_unit_clean d' self_pk u = Inr () \<Longrightarrow>
    (\<And>i. self_pk = Some i \<Longrightarrow> i \<in> ou_id ` set (org_units d')) \<Longrightarrow>
    validated_edits d (save_unit d' self_pk u)"

lemma validated_edits_strict:
  "validated_edits d d' \<Longrightarrow> strict_hierarchy (org_units d) \<Longrightarrow> strict_hierarchy (org_units d')"
  by (induction rule: validated_edits.induct) (auto intro: save_unit_keeps_hierarchy)

lemma unit_chain_short:
  assumes "strict_hierarchy units"
  shows "length (unit_chain units visited (Some i)) \<le> 3"
proof (cases "row_by_pk ou_id i units")
  case None
  then show ?thesis by (simp add: unit_chain.simps)
next
  case (Some u)
  from unit_chain_depth [OF assms Some, of visited] show ?thesis
    by (cases "ou_unit_type u") auto
qed

lemma sample_strict: "strict_hierarchy (org_units sample_db)"
  by (simp add: strict_hierarchy_def nested_in_def row_by_pk_def)

text \<open>C24: Whatever sequence of new and edited units passes \<open>OrganizationUnit.clean\<close> before it is
  saved, Branch, Sub-branch and Shift rows stay nested in exactly that order, and so no
  ancestry has more than three units: no edit creates a cycle or a fourth level.\<close>

theorem validated_edits_keep_hierarchy:
  assumes "validated_edits d d'" and "strict_hierarchy (org_units d)"
  shows "strict_hierarchy (org_units d')
    \<and> (\<forall>i. length (unit_chain (org_units d') [] (Some i)) \<le> 3)"
  using validated_edits_strict [OF assms] by (auto intro: unit_chain_short)

lemma sample_edit_clean:
  "organization_unit_clean sample_db (Some 13) ((sample_unit 13 (Some 12) SHIFT)\<lparr>ou_name := ''Night''\<rparr>)
   = Inr ()"
  by (simp add: organization_unit_clean_def owner_check_def parent_check_def children_check_def
      duplicate_check_def account_type_of_def sample_lookups climbs_to_cycle.simps)

lemma validated_edits_keep_hierarchy_witness:
  "strict_hierarchy (org_units (save_unit sample_db (Some 13)
      ((sample_unit 13 (Some 12) SHIFT)\<lparr>ou_name := ''Night''\<rparr>)))"
proof -
  have "validated_edits sample_db (save_unit sample_db (Some 13)
      ((sample_unit 13 (Some 12) SHIFT)\<lparr>ou_name := ''Night''\<rparr>))"
    by (rule validated_edits.edit [OF validated_edits.start sample_edit_clean]) simp
  from validated_edits_keep_hierarchy [OF this sample_strict] show ?thesis by (rule conjunct1)
qed

section \<open>Ancestors and descendants\<close>

definition parents_known :: "organization_unit list \<Rightarrow> bool" where
  "parents_known units =
     list_all (\<lambda>u. case ou_parent u of None \<Rightarrow> True | Some p \<Rightarrow> p \<in> ou_id ` set units) units"

definition up_rel :: "organization_unit list \<Rightarrow> (pk \<times> pk) set" where
  "up_rel units = {(i, p). unit_parent units i = Some p}"

lemma up_rel_edges:
  assumes "unique_by ou_id (org_units d)"
  shows "up_rel (org_units d) = (child_rel (unit_edges d))\<inverse>"
proof -
  have "row_by_pk ou_id i (org_units d) = Some u \<longleftrightarrow> u \<in> set (org_units d) \<and> ou_id u = i" for i u
    using assms by (auto simp: unique_by_def row_by_pk_unique dest: row_by_pk_Some)
  then show ?thesis
    by (force simp: up_rel_def unit_edges_rel unit_parent_def bind_eq_Some_conv)
qed

lemma up_rel_present:
  assumes "parents_known (org_units d)" and "(i, j) \<in> (up_rel (org_units d))\<^sup>*"
    and "i \<in> ou_id ` set (org_units d)"
  shows "j \<in> ou_id ` set (org_units d)"
  using assms(2,3)
proof (induction rule: rtrancl_induct)
  case (step y z)
  then obtain u where "u \<in> set (org_units d)" "ou_parent u = Some z"
    by (auto simp: up_rel_def unit_parent_def bind_eq_Some_conv dest: row_by_pk_Some)
  with assms(1) show ?case by (auto simp: parents_known_def list_all_iff split: option.splits)
qed

lemma ancestor_ids_walk:
  assumes "unique_by ou_id (org_units d)" and "u \<in> set (org_units d)"
  shows "organization_unit_ancestor_ids d (Some u) True
    = set (map ou_id (unit_chain (org_units d) [] (Some (ou_id u))))"
  using assms
  by (subst unit_chain.simps)
    (simp add: organization_unit_ancestor_ids_def unique_by_def row_by_pk_unique)

lemma ancestor_ids_rtrancl:
  assumes "unique_by ou_id (org_units d)" and "parents_known (org_units d)"
    and "u \<in> set (org_units d)"
  shows "organization_unit_ancestor_ids d (Some u) True = (up_rel (org_units d))\<^sup>* `` {ou_id u}"
proof (intro subset_antisym subsetI)
  fix j
  assume "j \<in> organization_unit_ancestor_ids d (Some u) True"
  then show "j \<in> (up_rel (org_units d))\<^sup>* `` {ou_id u}"
    unfolding ancestor_ids_walk [OF assms(1,3)]
    using units_up.walk_ancestors [OF refl] by (auto simp: up_rel_def)
next
  fix j
  assume "j \<in> (up_rel (org_units d))\<^sup>* `` {ou_id u}"
  then have "j \<in> set (map ou_id (unit_chain (org_units d) [] (Some (ou_id u))))"
    using up_rel_present [OF assms(2)] assms(3)
    by (intro units_known.walk_complete) (auto simp: up_rel_def)
  then show "j \<in> organization_unit_ancestor_ids d (Some u) True"
    unfolding ancestor_ids_walk [OF assms(1,3)] .
qed

text \<open>The two hierarchy queries are converse to each other: a unit is among the ancestors
  of another exactly when that one is among its descendants, and the descendants are the
  reflexive transitive closure of the parent column, whatever cycles the table has.\<close>

theorem ancestors_converse_descendants:
  assumes "unique_by ou_id (org_units d)" and "parents_known (org_units d)"
    and "u \<in> set (org_units d)" and "v \<in> set (org_units d)"
  shows "(ou_id v \<in> organization_unit_ancestor_ids d (Some u) True
      \<longleftrightarrow> ou_id u \<in> organization_unit_descendant_ids d (Some v) True)
    \<and> organization_unit_descendant_ids d (Some v) True = (child_rel (unit_edges d))\<^sup>* `` {ou_id v}"
  by (simp add: ancestor_ids_rtrancl [OF assms(1-3)] descendant_ids_rtrancl up_rel_edges [OF assms(1)]
      rtrancl_converse)

lemma ancestors_converse_descendants_witness:
  "13 \<in> organization_unit_descendant_ids sample_db (Some (sample_unit 11 None BRANCH)) True"
proof -
  have "11 \<in> organization_unit_ancestor_ids sample_db (Some (sample_unit 13 (Some 12) SHIFT)) True"
    by (simp add: organization_unit_ancestor_ids_def unit_chain.simps row_by_pk_def)
  moreover have "parents_known (org_units sample_db)" "unique_by ou_id (org_units sample_db)"
    by (simp_all add: parents_known_def unique_by_def)
  ultimately show ?thesis
    using conjunct1 [OF ancestors_converse_descendants
      [of sample_db "sample_unit 13 (Some 12) SHIFT" "sample_unit 11 None BRANCH"]] by simp
qed

section \<open>The supplier an account belongs to\<close>

text \<open>The specification has no visited set: the supplier that owns the account's unit, else the
  account itself if it is a supplier, else the supplier of its creator; \<open>n\<close> counts creators.\<close>

inductive supplier_of_account :: "db \<Rightarrow> nat \<Rightarrow> pk \<Rightarrow> pk \<Rightarrow> bool" for d where
  unit: "profile_of_user d x = Some p \<Longrightarrow> unit_supplier d p = Some v \<Longrightarrow>
    supplier_of_account d 0 x v"
| self: "profile_of_user d x = Some p \<Longrightarrow> unit_supplier d p = None \<Longrightarrow>
    is_vendor_type (ep_account_type p) \<Longrightarrow> supplier_of_account d 0 x x"
| creator: "profile_of_user d x = Some p \<Longrightarrow> unit_supplier d p = None \<Longrightarrow>
    \<not> is_vendor_type (ep_account_type p) \<Longrightarrow> ep_created_by p = Some y \<Longrightarrow>
    supplier_of_account d n y v \<Longrightarrow> supplier_of_account d (Suc n) x v"

inductive_cases supplier_of_accountE: "supplier_of_account d n x v"

lemma supplier_of_account_unique:
  "supplier_of_account d n x v \<Longrightarrow> supplier_of_account d m x w \<Longrightarrow> n = m \<and> v = w"
proof (induction arbitrary: m w rule: supplier_of_account.induct)
  case (unit x p v)
  from unit.prems unit.hyps show ?case by cases simp_all
next
  case (self x p)
  from self.prems self.hyps show ?case by cases simp_all
next
  case (creator x p y n v)
  from creator.prems obtain k where "m = Suc k" and "supplier_of_account d k y w"
    by cases (use creator.hyps in auto)
  with creator.IH [OF this(2)] show ?case by simp
qed

lemma supplier_not_visited:
  assumes "supplier_of_account d n x v"
    and "\<And>w. w \<in> set visited \<Longrightarrow> \<exists>k>n. supplier_of_account d k w v"
  shows "x \<notin> set visited"
proof
  assume "x \<in> set visited"
  then obtain k where "n < k" "supplier_of_account d k x v" using assms(2) by blast
  with supplier_of_account_unique [OF assms(1)] show False by auto
qed

lemma scope_loop_supplier:
  "vendor_scope_loop d visited (Some x) = Some v \<Longrightarrow> \<exists>n. supplier_of_account d n x v"
proof (induction d visited "Some x" arbitrary: x rule: vendor_scope_loop.induct)
  case (1 d visited)
  from "1.prems" have new: "x \<notin> set visited" by (auto simp: vendor_scope_loop.simps)
  with "1.prems" obtain p where p: "profile_of_user d x = Some p"
    by (subst (asm) vendor_scope_loop.simps) (auto split: option.splits)
  show ?case
  proof (cases "unit_supplier d p \<noteq> None \<or> is_vendor_type (ep_account_type p)")
    case True
    with "1.prems" new p show ?thesis
      by (subst (asm) vendor_scope_loop.simps)
        (auto split: option.splits intro: supplier_of_account.unit supplier_of_account.self)
  next
    case False
    with "1.prems" new p have rest: "vendor_scope_loop d (x # visited) (ep_created_by p) = Some v"
      by (subst (asm) vendor_scope_loop.simps) simp
    then obtain y where y: "ep_created_by p = Some y"
      by (cases "ep_created_by p") (simp_all add: vendor_scope_loop.simps)
    have "unit_supplier d p = None" "\<not> is_vendor_type (ep_account_type p)" using False by auto
    from "1.hyps" [OF refl new p this y] rest y obtain n where "supplier_of_account d n y v" by auto
    with False p y show ?thesis by (auto intro: supplier_of_account.creator)
  qed
qed

lemma supplier_scope_loop:
  "supplier_of_account d n x v \<Longrightarrow> (\<And>w. w \<in> set visited \<Longrightarrow> \<exists>k>n. supplier_of_account d k w v) \<Longrightarrow>
   vendor_scope_loop d visited (Some x) = Some v"
proof (induction arbitrary: visited rule: supplier_of_account.induct)
  case (unit x p v)
  have "x \<notin> set visited"
    using supplier_of_account.unit [OF unit.hyps] unit.prems by (rule supplier_not_visited)
  with unit.hyps show ?case by (subst vendor_scope_loop.simps) simp
next
  case (self x p)
  have "x \<notin> set visited"
    using supplier_of_account.self [OF self.hyps] self.prems by (rule supplier_not_visited)
  with self.hyps show ?case by (subst vendor_scope_loop.simps) simp
next
  case (creator x p y n v)
  note this_account = supplier_of_account.creator [OF creator.hyps]
  have "x \<notin> set visited"
    using this_account creator.prems by (rule supplier_not_visited)
  moreover have "vendor_scope_loop d (x # visited) (Some y) = Some v"
    using creator.prems this_account
    by (intro creator.IH) (metis lessI Suc_lessD set_ConsD)
  ultimately show ?case using creator.hyps by (subst vendor_scope_loop.simps) simp
qed

text \<open>The supplier scope of an account is what the creator chain says, on every database:
  the guard against cycles in \<open>vendor_scope_user_id\<close> never cuts off a supplier, and an account
  on a cycle without one has none.\<close>

theorem vendor_scope_is_creator_chain:
  "vendor_scope_user_id d (Some u) = Some v \<longleftrightarrow> (\<exists>n. supplier_of_account d n (usr_id u) v)"
  unfolding vendor_scope_user_id_def option.case
  by (auto dest: scope_loop_supplier intro: supplier_scope_loop)

text \<open>Every account that is not a super admin and belongs to a supplier is of one of two
  kinds: its supplier is external and it manages no organization workspace, or its supplier is
  internal and that supplier's workspace is the only one it manages.\<close>

theorem workspace_or_external:
  assumes "profiles_unique (profiles d)" and "\<not> usr_is_superuser u"
    and "vendor_scope_user_id d (Some u) = Some v"
  shows "(if is_external_vendor_scope d (Some u)
          then organization_workspace_owner_ids d (Some u) = {}
          else organization_workspace_owner_ids d (Some u) = {v})
    \<and> (\<exists>p. profile_of_user d v = Some p \<and> is_vendor_type (ep_account_type p))"
proof -
  obtain p where "profile_of_user d v = Some p" "is_vendor_type (ep_account_type p)"
    using vendor_scope_user_id_vendor [OF assms(3)] by blast
  with assms show ?thesis
    by (auto simp: is_external_vendor_scope_def organization_workspace_owner_ids_def
        profile_filter is_vendor_type_def)
qed

lemma sample_scope_33: "vendor_scope_user_id sample_db (Some (sample_user 33)) = Some 31"
  by (simp add: vendor_scope_user_id_def vendor_scope_loop.simps sample_lookups unit_supplier_def
      is_vendor_type_def)

lemma sample_profiles_unique: "profiles_unique (profiles sample_db)"
  by (simp add: profiles_unique_def unique_by_def)

lemma workspace_or_external_witness:
  "organization_workspace_owner_ids sample_db (Some (sample_user 33)) = {}"
  using workspace_or_external [OF sample_profiles_unique _ sample_scope_33]
  by (simp add: is_external_vendor_scope_def sample_scope_33 split: if_splits)

text \<open>The queryset filter \<open>valid_supplier_profile_q\<close> and the object test
  \<open>is_valid_supplier_profile\<close> select the same profiles, for every account type and role.\<close>

theorem supplier_filter_is_object_test:
  "filter (valid_supplier_profile_q d) (profiles d)
   = filter (\<lambda>p. is_valid_supplier_profile d (Some p)) (profiles d)"
  by (rule filter_cong [OF refl]) (rule valid_supplier_q_object)

end
