(* ===== verification/Allocation_Policy.thy ===== *)
theory Allocation_Policy
  imports Vendor_Validation
begin

text \<open>
  The commercial policy half of \<open>vendors/services.py\<close>: the client rules a user inherits
  from the unit ancestry, the surveys a user or an API key may see, the supplier context of
  one survey, and the CPI each viewer is shown.  A queryset is the list of its rows and
  \<open>filter(Q)\<close> is \<^const>\<open>filter\<close> with the condition SQL evaluates, where a comparison
  with NULL selects nothing.  The clock reading \<open>timezone.now()\<close> is an argument.
\<close>

record organization_client_policy =
  ocp_client_id :: pk
  ocp_is_active :: bool
  ocp_min_cpi :: "decimal option"
  ocp_max_cpi :: "decimal option"
  ocp_source_unit_id :: pk

record vendor_survey_context =
  ctx_vendor_id :: pk
  ctx_client_allocation :: vendor_client_allocation
  ctx_survey_allocation :: "vendor_survey_allocation option"
  ctx_cpi_cut_percent :: decimal
  ctx_payable_cpi :: "decimal option"

definition cpi_in_range :: "decimal option \<Rightarrow> decimal option \<Rightarrow> decimal option \<Rightarrow> bool" where
  "cpi_in_range value minimum maximum =
     (case value of
        None \<Rightarrow> minimum = None \<and> maximum = None
      | Some v \<Rightarrow>
          \<not> ((case minimum of Some m \<Rightarrow> v < m | None \<Rightarrow> False)
             \<or> (case maximum of Some m \<Rightarrow> m < v | None \<Rightarrow> False)))"

text \<open>SQL \<open>cpi >= bound\<close> and \<open>cpi <= bound\<close> on a nullable column.\<close>

definition sql_ge :: "decimal option \<Rightarrow> decimal option \<Rightarrow> bool" where
  "sql_ge value bound = (case (value, bound) of (Some v, Some b) \<Rightarrow> b \<le> v | _ \<Rightarrow> False)"

definition sql_le :: "decimal option \<Rightarrow> decimal option \<Rightarrow> bool" where
  "sql_le value bound = (case (value, bound) of (Some v, Some b) \<Rightarrow> v \<le> b | _ \<Rightarrow> False)"

definition policy_clause :: "organization_client_policy \<Rightarrow> survey \<Rightarrow> bool" where
  "policy_clause p s =
     (sv_client s = Some (ocp_client_id p)
      \<and> (ocp_min_cpi p \<noteq> None \<longrightarrow> sql_ge (sv_cpi s) (ocp_min_cpi p))
      \<and> (ocp_max_cpi p \<noteq> None \<longrightarrow> sql_le (sv_cpi s) (ocp_max_cpi p)))"

definition survey_policy_q :: "organization_client_policy list \<Rightarrow> survey \<Rightarrow> bool" where
  "survey_policy_q policies s = list_ex (\<lambda>p. ocp_is_active p \<and> policy_clause p s) policies"

definition payable_cpi :: "decimal option \<Rightarrow> decimal \<Rightarrow> decimal option" where
  "payable_cpi source_cpi cut_percent =
     (case source_cpi of
        None \<Rightarrow> None
      | Some source \<Rightarrow> Some (quantize_money (source * (100 - cut_percent) / 100)))"

definition active_window :: "timestamp option \<Rightarrow> timestamp option \<Rightarrow> timestamp \<Rightarrow> bool" where
  "active_window starts ends now =
     ((case starts of None \<Rightarrow> True | Some s \<Rightarrow> s \<le> now)
      \<and> (case ends of None \<Rightarrow> True | Some e \<Rightarrow> now < e))"

definition client_active_now :: "vendor_client_allocation \<Rightarrow> timestamp \<Rightarrow> bool" where
  "client_active_now a now =
     (vca_is_active a \<and> active_window (vca_starts_at a) (vca_ends_at a) now)"

definition survey_active_now :: "vendor_survey_allocation \<Rightarrow> timestamp \<Rightarrow> bool" where
  "survey_active_now a now =
     (vsa_is_active a \<and> active_window (vsa_starts_at a) (vsa_ends_at a) now)"

section \<open>Inherited client policies\<close>

type_synonym policies = "(pk \<times> organization_client_policy) list"

definition apply_rule :: "pk \<Rightarrow> organization_client_access \<Rightarrow> policies \<Rightarrow> policies" where
  "apply_rule unit_id rule policies =
     (let parent = map_of policies (oca_client rule);
          inherit = oca_inherit_cpi_range rule \<and> parent \<noteq> None
      in AList.update (oca_client rule)
           \<lparr>ocp_client_id = oca_client rule, ocp_is_active = oca_is_active rule,
            ocp_min_cpi = (case parent of Some p \<Rightarrow> if inherit then ocp_min_cpi p else oca_min_cpi rule
                                        | None \<Rightarrow> oca_min_cpi rule),
            ocp_max_cpi = (case parent of Some p \<Rightarrow> if inherit then ocp_max_cpi p else oca_max_cpi rule
                                        | None \<Rightarrow> oca_max_cpi rule),
            ocp_source_unit_id = unit_id\<rparr> policies)"

definition rules_of_unit :: "db \<Rightarrow> pk \<Rightarrow> organization_client_access list" where
  "rules_of_unit d unit_id =
     filter (\<lambda>r. oca_organization_unit r = unit_id
               \<and> (case get_client d (oca_client r) of Some c \<Rightarrow> cl_is_active c | None \<Rightarrow> False))
       (org_access d)"

definition apply_unit :: "db \<Rightarrow> pk \<Rightarrow> policies \<Rightarrow> policies" where
  "apply_unit d unit_id policies = fold (apply_rule unit_id) (rules_of_unit d unit_id) policies"

definition organization_client_policies_for_user :: "db \<Rightarrow> user \<Rightarrow> policies option" where
  "organization_client_policies_for_user d u =
     (case profile_of_user d (usr_id u) of
        None \<Rightarrow> None
      | Some profile \<Rightarrow>
          (case ep_organization_unit profile of
             None \<Rightarrow> None
           | Some unit_id \<Rightarrow>
               let ancestry = unit_chain (org_units d) [] (Some unit_id)
               in if list_ex (\<lambda>unit. \<not> ou_is_active unit) ancestry then Some []
                  else Some (fold (apply_unit d) (rev (map ou_id ancestry)) [])))"

definition organization_client_ids_for_user :: "db \<Rightarrow> user \<Rightarrow> pk set option" where
  "organization_client_ids_for_user d u =
     map_option (\<lambda>ps. set [fst kp. kp \<leftarrow> ps, ocp_is_active (snd kp)])
       (organization_client_policies_for_user d u)"

section \<open>Which surveys a user or an API key sees\<close>

definition vendor_live :: "db \<Rightarrow> pk \<Rightarrow> bool" where
  "vendor_live d v =
     ((case get_user d v of Some u \<Rightarrow> usr_is_active u | None \<Rightarrow> False)
      \<and> (case commercial_of_user d v of Some p \<Rightarrow> vcp_is_active p | None \<Rightarrow> False))"

definition client_live :: "db \<Rightarrow> pk \<Rightarrow> bool" where
  "client_live d c = (case get_client d c of Some cl \<Rightarrow> cl_is_active cl | None \<Rightarrow> False)"

definition supplier_allocations :: "db \<Rightarrow> pk \<Rightarrow> timestamp \<Rightarrow> vendor_client_allocation list" where
  "supplier_allocations d v now =
     filter (\<lambda>a. vca_vendor a = v \<and> vendor_live d v \<and> client_live d (vca_client a)
               \<and> vca_is_active a \<and> active_window (vca_starts_at a) (vca_ends_at a) now)
       (client_allocations d)"

definition policy_of_allocation :: "vendor_client_allocation \<Rightarrow> organization_client_policy" where
  "policy_of_allocation a =
     \<lparr>ocp_client_id = vca_client a, ocp_is_active = True, ocp_min_cpi = vca_min_cpi a,
      ocp_max_cpi = vca_max_cpi a, ocp_source_unit_id = 0\<rparr>"

definition project_rules :: "db \<Rightarrow> vendor_client_allocation list \<Rightarrow> survey \<Rightarrow> vendor_survey_allocation list" where
  "project_rules d allocs s =
     filter (\<lambda>r. vsa_client_allocation r \<in> set (map vca_id allocs) \<and> vsa_survey r = sv_id s)
       (survey_allocations d)"

definition rules_admit :: "db \<Rightarrow> vendor_client_allocation list \<Rightarrow> timestamp \<Rightarrow> survey \<Rightarrow> bool" where
  "rules_admit d allocs now s =
     (project_rules d allocs s = []
      \<or> list_ex (\<lambda>r. survey_active_now r now) (project_rules d allocs s))"

definition scope_surveys_for_user ::
  "db \<Rightarrow> survey list \<Rightarrow> user \<Rightarrow> bool \<Rightarrow> timestamp \<Rightarrow> survey list" where
  "scope_surveys_for_user d queryset u require_capacity now =
     (let org = organization_client_policies_for_user d u;
          by_org = (case org of None \<Rightarrow> (\<lambda>_. True) | Some ps \<Rightarrow> survey_policy_q (map snd ps))
      in case vendor_scope_user_id d (Some u) of
           None \<Rightarrow> filter by_org queryset
         | Some v \<Rightarrow>
             let allocs = supplier_allocations d v now
             in if allocs = [] then []
                else filter (\<lambda>s. survey_policy_q (map policy_of_allocation allocs) s
                          \<and> (require_capacity \<longrightarrow> 0 < sv_remaining s)
                          \<and> rules_admit d allocs now s \<and> by_org s) queryset)"

definition scope_surveys_for_api_key ::
  "db \<Rightarrow> survey list \<Rightarrow> vendor_api_key option \<Rightarrow> timestamp \<Rightarrow> survey list" where
  "scope_surveys_for_api_key d queryset api_key now =
     (case api_key of
        None \<Rightarrow> queryset
      | Some k \<Rightarrow>
          let allocs = filter (\<lambda>a. vca_id a \<in> set (vak_client_allocations k)
                                  \<and> vca_vendor a = vak_vendor k \<and> vca_is_active a
                                  \<and> client_live d (vca_client a)
                                  \<and> active_window (vca_starts_at a) (vca_ends_at a) now)
                         (client_allocations d)
          in filter (\<lambda>s. list_ex (\<lambda>a. sv_client s = Some (vca_client a)) allocs
                      \<and> rules_admit d allocs now s) queryset)"

section \<open>The supplier context of one survey\<close>

definition effective_cut ::
  "db \<Rightarrow> vendor_client_allocation \<Rightarrow> vendor_survey_allocation option \<Rightarrow> py_error + decimal" where
  "effective_cut d ca sa =
     (case sa of Some a \<Rightarrow> survey_cut d a | None \<Rightarrow> Inr (client_cut d ca))"

text \<open>\<open>cut = \<dots>effective_cpi_cut_percent; if account_type == INTERNAL_VENDOR: cut = 0\<close>\<close>

definition supplier_cut ::
  "db \<Rightarrow> vendor_client_allocation \<Rightarrow> vendor_survey_allocation option \<Rightarrow> py_error + decimal" where
  "supplier_cut d ca sa =
     (case profile_of_user d (vca_vendor ca) of
        None \<Rightarrow> Inl (RelatedObjectDoesNotExist ''employee_profile'')
      | Some profile \<Rightarrow>
          (case effective_cut d ca sa of
             Inl e \<Rightarrow> Inl e
           | Inr pct \<Rightarrow>
               Inr (if ep_account_type profile = INTERNAL_VENDOR then 0 else pct)))"

definition organization_gate :: "db \<Rightarrow> user \<Rightarrow> survey \<Rightarrow> validation" where
  "organization_gate d u s =
     (case organization_client_policies_for_user d u of
        None \<Rightarrow> Inr ()
      | Some ps \<Rightarrow>
          (case Option.bind (sv_client s) (map_of ps) of
             None \<Rightarrow> Inl (AllocationUnavailable
                       ''This client is not assigned to the user's organization unit.'')
           | Some p \<Rightarrow>
               if \<not> ocp_is_active p then
                 Inl (AllocationUnavailable
                   ''This client is not assigned to the user's organization unit.'')
               else if \<not> cpi_in_range (sv_cpi s) (ocp_min_cpi p) (ocp_max_cpi p) then
                 Inl (AllocationUnavailable
                   ''This project's CPI is outside the organization unit's allowed range.'')
               else Inr ()))"

definition resolve_vendor_survey_context ::
  "db \<Rightarrow> user \<Rightarrow> survey \<Rightarrow> bool \<Rightarrow> timestamp \<Rightarrow> py_error + vendor_survey_context option" where
  "resolve_vendor_survey_context d u s require_capacity now =
     (case organization_gate d u s of
        Inl e \<Rightarrow> Inl e
      | Inr _ \<Rightarrow>
     (case vendor_scope_user_id d (Some u) of
        None \<Rightarrow> Inr None
      | Some v \<Rightarrow>
     (case List.find (\<lambda>a. vca_vendor a = v \<and> vendor_live d v \<and> client_live d (vca_client a)
                        \<and> Some (vca_client a) = sv_client s \<and> vca_is_active a)
             (client_allocations d) of
        None \<Rightarrow> Inl (AllocationUnavailable ''This client is not allocated to the supplier.'')
      | Some ca \<Rightarrow>
     (if \<not> client_active_now ca now then
        Inl (AllocationUnavailable ''This client is not allocated to the supplier.'')
      else if \<not> cpi_in_range (sv_cpi s) (vca_min_cpi ca) (vca_max_cpi ca) then
        Inl (AllocationUnavailable ''This project's CPI is outside the supplier's client policy.'')
      else
        (let sa = List.find (\<lambda>r. vsa_client_allocation r = vca_id ca \<and> vsa_survey r = sv_id s)
                    (survey_allocations d)
         in if (case sa of Some r \<Rightarrow> \<not> survey_active_now r now | None \<Rightarrow> False) then
              Inl (AllocationUnavailable ''This project is disabled or outside its allocation dates.'')
            else if require_capacity \<and> sv_remaining s < 1 then
              Inl (AllocationUnavailable ''Upstream survey quantity is exhausted.'')
            else (case supplier_cut d ca sa of
                    Inl e \<Rightarrow> Inl e
                  | Inr pct \<Rightarrow>
                      Inr (Some \<lparr>ctx_vendor_id = v, ctx_client_allocation = ca,
                                 ctx_survey_allocation = sa, ctx_cpi_cut_percent = pct,
                                 ctx_payable_cpi = payable_cpi (sv_cpi s) pct\<rparr>)))))))"

section \<open>The CPI a viewer is shown\<close>

definition clamp_percent :: "decimal \<Rightarrow> decimal" where
  "clamp_percent p = min 100 (max 0 p)"

text \<open>The role percentage of an employee viewer: absent for a superuser, a supplier account
  or an account without a role.\<close>

definition viewer_role_percent :: "db \<Rightarrow> user \<Rightarrow> decimal option" where
  "viewer_role_percent d u =
     (if usr_is_superuser u then None
      else (case profile_of_user d (usr_id u) of
              None \<Rightarrow> None
            | Some p \<Rightarrow>
                if ep_account_type p = EMPLOYEE
                then map_option (\<lambda>r. clamp_percent (role_cpi_visibility_percent r)) (role_of_profile d p)
                else None))"

definition apply_employee_role_percentage ::
  "db \<Rightarrow> user \<Rightarrow> decimal option \<Rightarrow> decimal option \<Rightarrow> decimal option \<times> decimal option" where
  "apply_employee_role_percentage d u price existing_cut =
     (case viewer_role_percent d u of
        None \<Rightarrow> (price, existing_cut)
      | Some visible \<Rightarrow>
          let role_cut = 100 - visible;
              base_cut = (case existing_cut of Some c \<Rightarrow> c | None \<Rightarrow> 0);
              combined = 100 - (100 - base_cut) * visible / 100
          in (payable_cpi price role_cut, Some (quantize_money combined)))"

text \<open>\<open>prefetched\<close>: the rows \<open>scope_surveys_for_user\<close> attached to the survey's client and
  to the survey; empty lists when nothing was attached.\<close>

definition survey_pricing_for_user ::
  "db \<Rightarrow> user \<Rightarrow> survey \<Rightarrow> vendor_client_allocation list \<Rightarrow> vendor_survey_allocation list \<Rightarrow> timestamp
   \<Rightarrow> py_error + (decimal option \<times> decimal option)" where
  "survey_pricing_for_user d u s prefetched_client prefetched_survey now =
     (case vendor_scope_user_id d (Some u) of
        None \<Rightarrow> Inr (apply_employee_role_percentage d u (sv_cpi s) None)
      | Some v \<Rightarrow>
          (case prefetched_client of
             ca # _ \<Rightarrow>
               (case supplier_cut d ca (case prefetched_survey of sa # _ \<Rightarrow> Some sa | [] \<Rightarrow> None) of
                  Inl e \<Rightarrow> Inl e
                | Inr pct \<Rightarrow>
                    Inr (apply_employee_role_percentage d u (payable_cpi (sv_cpi s) pct) (Some pct)))
           | [] \<Rightarrow>
               (case resolve_vendor_survey_context d u s False now of
                  Inl e \<Rightarrow> Inl e
                | Inr None \<Rightarrow> Inl (RuntimeError ''NoneType'')
                | Inr (Some ctx) \<Rightarrow>
                    Inr (apply_employee_role_percentage d u (ctx_payable_cpi ctx)
                           (Some (ctx_cpi_cut_percent ctx))))))"

text \<open>The SQL annotation: subqueries for the cut, one expression, one \<open>ROUND(\<dots>, 2)\<close>.\<close>

definition default_cut_sql :: "db \<Rightarrow> vendor_client_allocation \<Rightarrow> decimal" where
  "default_cut_sql d a =
     (case vca_cpi_cut_override_percent a of
        Some c \<Rightarrow> c
      | None \<Rightarrow> (case commercial_of_user d (vca_vendor a) of
                   Some p \<Rightarrow> vcp_default_cpi_cut_percent p | None \<Rightarrow> 0))"

definition client_cut_sql :: "db \<Rightarrow> pk \<Rightarrow> survey \<Rightarrow> timestamp \<Rightarrow> decimal option" where
  "client_cut_sql d v s now =
     map_option (default_cut_sql d)
       (List.find (\<lambda>a. Some (vca_client a) = sv_client s) (supplier_allocations d v now))"

definition project_cut_sql :: "db \<Rightarrow> pk \<Rightarrow> survey \<Rightarrow> timestamp \<Rightarrow> decimal option" where
  "project_cut_sql d v s now =
     (case List.find (\<lambda>r. vsa_survey r = sv_id s \<and> survey_active_now r now
                        \<and> list_ex (\<lambda>a. vca_id a = vsa_client_allocation r
                                     \<and> Some (vca_client a) = sv_client s)
                            (supplier_allocations d v now))
            (survey_allocations d) of
        None \<Rightarrow> None
      | Some r \<Rightarrow>
          Some (case vsa_cpi_cut_override_percent r of
                  Some c \<Rightarrow> c
                | None \<Rightarrow> (case get_client_allocation d (vsa_client_allocation r) of
                             Some a \<Rightarrow> default_cut_sql d a | None \<Rightarrow> 0)))"

definition annotation_cut :: "db \<Rightarrow> user \<Rightarrow> survey \<Rightarrow> timestamp \<Rightarrow> decimal" where
  "annotation_cut d u s now =
     (case vendor_scope_user_id d (Some u) of
        None \<Rightarrow> 0
      | Some v \<Rightarrow>
          (case profile_of_user d v of
             None \<Rightarrow> 0
           | Some p \<Rightarrow>
               if ep_account_type p = INTERNAL_VENDOR then 0
               else (case project_cut_sql d v s now of
                       Some c \<Rightarrow> c
                     | None \<Rightarrow> (case client_cut_sql d v s now of Some c \<Rightarrow> c | None \<Rightarrow> 0))))"

definition annotate_survey_pricing_for_user :: "db \<Rightarrow> user \<Rightarrow> survey \<Rightarrow> timestamp \<Rightarrow> decimal option" where
  "annotate_survey_pricing_for_user d u s now =
     map_option (\<lambda>cpi. quantize_money
         (cpi * (100 - annotation_cut d u s now) / 100
          * (case viewer_role_percent d u of Some p \<Rightarrow> p | None \<Rightarrow> 100) / 100))
       (sv_cpi s)"

end
