(* ===== verification/Allocation_Policy_Facts.thy ===== *)
theory Allocation_Policy_Facts
  imports Allocation_Policy
begin

text \<open>
  What the commercial policy guarantees: the fold over the ancestry is nearest-rule lookup
  with range inheritance; the queryset filter and the per-survey resolver admit the same
  surveys; the payable CPI is monotone and bounded by the source; the SQL annotation and the
  per-survey pricing agree wherever one rounding suffices.
\<close>

section \<open>Nearest-rule inheritance\<close>

definition policy_from_rule ::
  "pk \<Rightarrow> organization_client_access \<Rightarrow> organization_client_policy option \<Rightarrow> organization_client_policy" where
  "policy_from_rule unit_id rule parent =
     \<lparr>ocp_client_id = oca_client rule, ocp_is_active = oca_is_active rule,
      ocp_min_cpi = (case parent of
          Some p \<Rightarrow> if oca_inherit_cpi_range rule then ocp_min_cpi p else oca_min_cpi rule
        | None \<Rightarrow> oca_min_cpi rule),
      ocp_max_cpi = (case parent of
          Some p \<Rightarrow> if oca_inherit_cpi_range rule then ocp_max_cpi p else oca_max_cpi rule
        | None \<Rightarrow> oca_max_cpi rule),
      ocp_source_unit_id = unit_id\<rparr>"

definition rule_for :: "db \<Rightarrow> pk \<Rightarrow> pk \<Rightarrow> organization_client_access option" where
  "rule_for d client unit_id = List.find (\<lambda>r. oca_client r = client) (rules_of_unit d unit_id)"

text \<open>The specification: the closest unit with a rule decides visibility; its range is its own
  or, when it inherits, the range of the closest ancestor with a rule.\<close>

fun nearest_policy :: "db \<Rightarrow> pk \<Rightarrow> pk list \<Rightarrow> organization_client_policy option" where
  "nearest_policy d client [] = None"
| "nearest_policy d client (i # ancestors) =
     (case rule_for d client i of
        None \<Rightarrow> nearest_policy d client ancestors
      | Some rule \<Rightarrow> Some (policy_from_rule i rule (nearest_policy d client ancestors)))"

lemma apply_rule_map_of:
  "map_of (apply_rule i rule ps) =
   (map_of ps)(oca_client rule \<mapsto> policy_from_rule i rule (map_of ps (oca_client rule)))"
  by (auto simp: apply_rule_def policy_from_rule_def update_conv' Let_def split: option.splits)

lemma fold_apply_rule:
  "distinct (map oca_client rules) \<Longrightarrow>
   map_of (fold (apply_rule i) rules ps) c =
     (case List.find (\<lambda>r. oca_client r = c) rules of
        None \<Rightarrow> map_of ps c
      | Some rule \<Rightarrow> Some (policy_from_rule i rule (map_of ps c)))"
proof (induction rules arbitrary: ps)
  case Nil
  then show ?case by simp
next
  case (Cons r rules)
  show ?case
  proof (cases "oca_client r = c")
    case True
    with Cons.prems have "c \<notin> oca_client ` set rules" by simp
    then have "List.find (\<lambda>r. oca_client r = c) rules = None"
      by (auto simp: find_None_iff image_iff)
    with Cons True show ?thesis by (simp add: apply_rule_map_of)
  next
    case False
    with Cons show ?thesis by (simp add: apply_rule_map_of split: option.splits)
  qed
qed

lemma rules_of_unit_clients:
  assumes "organization_access_constraints (org_access d)"
  shows "distinct (map oca_client (rules_of_unit d i))"
proof -
  have "distinct (map (\<lambda>r. (oca_organization_unit r, oca_client r)) (rules_of_unit d i))"
    using assms
    by (auto simp: organization_access_constraints_def unique_by_def rules_of_unit_def
        intro: distinct_map_filter)
  moreover have "\<forall>r \<in> set (rules_of_unit d i). oca_organization_unit r = i"
    by (simp add: rules_of_unit_def)
  ultimately show ?thesis by (auto simp: distinct_map inj_on_def)
qed

lemma fold_units_nearest:
  assumes "organization_access_constraints (org_access d)"
  shows "map_of (fold (apply_unit d) (rev ancestry) []) c = nearest_policy d c ancestry"
proof (induction ancestry)
  case Nil
  then show ?case by simp
next
  case (Cons i ancestry)
  then show ?case
    using fold_apply_rule [OF rules_of_unit_clients [OF assms]]
    by (auto simp: apply_unit_def rule_for_def split: option.splits)
qed

text \<open>Keys of the policy map are distinct and name the policy's client.\<close>

definition policies_keyed :: "policies \<Rightarrow> bool" where
  "policies_keyed ps =
     (distinct (map fst ps) \<and> list_all (\<lambda>kp. ocp_client_id (snd kp) = fst kp) ps)"

lemma list_all_update: "list_all P ps \<Longrightarrow> P (k, v) \<Longrightarrow> list_all P (AList.update k v ps)"
  by (induction ps) auto

lemma apply_rule_keyed: "policies_keyed ps \<Longrightarrow> policies_keyed (apply_rule i rule ps)"
  by (auto simp: policies_keyed_def apply_rule_def Let_def distinct_update intro!: list_all_update)

lemma fold_units_keyed: "policies_keyed ps \<Longrightarrow> policies_keyed (fold (apply_unit d) units ps)"
proof (induction units arbitrary: ps)
  case (Cons i units)
  have "policies_keyed (fold (apply_rule i) rules ps)" if "policies_keyed ps" for rules ps
    using that by (induction rules arbitrary: ps) (auto intro: apply_rule_keyed)
  with Cons show ?case by (simp add: apply_unit_def)
qed simp

lemma user_policies_keyed:
  "organization_client_policies_for_user d u = Some ps \<Longrightarrow> policies_keyed ps"
  by (auto simp: organization_client_policies_for_user_def Let_def policies_keyed_def
      split: option.splits if_splits intro!: fold_units_keyed [unfolded policies_keyed_def])

section \<open>The filter and the resolver agree\<close>

lemma cpi_in_range_sql:
  "cpi_in_range value lo hi \<longleftrightarrow>
   (lo \<noteq> None \<longrightarrow> sql_ge value lo) \<and> (hi \<noteq> None \<longrightarrow> sql_le value hi)"
  by (auto simp: cpi_in_range_def sql_ge_def sql_le_def split: option.splits)

lemma policy_clause_range:
  "policy_clause p s \<longleftrightarrow>
   sv_client s = Some (ocp_client_id p) \<and> cpi_in_range (sv_cpi s) (ocp_min_cpi p) (ocp_max_cpi p)"
  by (auto simp: policy_clause_def cpi_in_range_sql)

lemma organization_gate_filter:
  assumes "organization_client_policies_for_user d u = Some ps"
  shows "survey_policy_q (map snd ps) s \<longleftrightarrow> is_ok (organization_gate d u s)"
proof -
  have keyed: "distinct (map fst ps)" and client: "\<And>k p. (k, p) \<in> set ps \<Longrightarrow> ocp_client_id p = k"
    using user_policies_keyed [OF assms] by (auto simp: policies_keyed_def list_all_iff)
  have "survey_policy_q (map snd ps) s \<longleftrightarrow>
    (\<exists>k p. (k, p) \<in> set ps \<and> ocp_is_active p \<and> sv_client s = Some k
       \<and> cpi_in_range (sv_cpi s) (ocp_min_cpi p) (ocp_max_cpi p))"
    using client by (force simp: survey_policy_q_def list_ex_iff policy_clause_range)
  also have "\<dots> \<longleftrightarrow> (\<exists>k p. map_of ps k = Some p \<and> ocp_is_active p \<and> sv_client s = Some k
       \<and> cpi_in_range (sv_cpi s) (ocp_min_cpi p) (ocp_max_cpi p))"
    using keyed by (simp add: map_of_eq_Some_iff)
  also have "\<dots> \<longleftrightarrow> is_ok (organization_gate d u s)"
    using assms by (cases "sv_client s") (auto simp: organization_gate_def split: option.splits)
  finally show ?thesis .
qed

definition rules_consistent :: "db \<Rightarrow> survey \<Rightarrow> bool" where
  "rules_consistent d s =
     list_all (\<lambda>r. vsa_survey r = sv_id s \<longrightarrow>
         list_ex (\<lambda>a. vca_id a = vsa_client_allocation r \<and> Some (vca_client a) = sv_client s)
           (client_allocations d))
       (survey_allocations d)"

definition supplier_match :: "db \<Rightarrow> pk \<Rightarrow> survey \<Rightarrow> vendor_client_allocation \<Rightarrow> bool" where
  "supplier_match d v s a =
     (vca_vendor a = v \<and> vendor_live d v \<and> client_live d (vca_client a)
      \<and> Some (vca_client a) = sv_client s \<and> vca_is_active a)"

lemma unique_key_eq: "unique_by key xs \<Longrightarrow> x \<in> set xs \<Longrightarrow> y \<in> set xs \<Longrightarrow> key x = key y \<Longrightarrow> x = y"
  by (auto simp: unique_by_def distinct_map dest: inj_onD)

lemma client_allocation_unique:
  assumes "client_allocation_constraints (client_allocations d)"
    and "a \<in> set (client_allocations d)" "b \<in> set (client_allocations d)"
    and "vca_vendor a = vca_vendor b" "vca_client a = vca_client b"
  shows "a = b"
  using assms
  by (auto simp: client_allocation_constraints_def intro: unique_key_eq [of "\<lambda>a. (vca_vendor a, vca_client a)"])

lemma supplier_allocations_match:
  "a \<in> set (supplier_allocations d v now) \<and> Some (vca_client a) = sv_client s \<longleftrightarrow>
   a \<in> set (client_allocations d) \<and> supplier_match d v s a \<and> client_active_now a now"
  by (auto simp: supplier_allocations_def supplier_match_def client_active_now_def)

lemma rules_admit_found:
  assumes consistent: "rules_consistent d s"
    and cac: "client_allocation_constraints (client_allocations d)"
    and sac: "survey_allocation_constraints (survey_allocations d)"
    and ca: "ca \<in> set (supplier_allocations d v now)" "Some (vca_client ca) = sv_client s"
  shows "rules_admit d (supplier_allocations d v now) now s \<longleftrightarrow>
    (case List.find (\<lambda>r. vsa_client_allocation r = vca_id ca \<and> vsa_survey r = sv_id s)
            (survey_allocations d) of
       None \<Rightarrow> True | Some r \<Rightarrow> survey_active_now r now)"
proof -
  have ids: "unique_by vca_id (client_allocations d)"
    using cac by (simp add: client_allocation_constraints_def)
  have only: "vsa_client_allocation r = vca_id ca"
    if r: "r \<in> set (survey_allocations d)" "vsa_survey r = sv_id s"
      and a: "a \<in> set (supplier_allocations d v now)" "vsa_client_allocation r = vca_id a" for r a
  proof -
    obtain b where b: "b \<in> set (client_allocations d)" "vca_id b = vsa_client_allocation r"
        "Some (vca_client b) = sv_client s"
      using consistent r by (auto simp: rules_consistent_def list_all_iff list_ex_iff)
    have "a \<in> set (client_allocations d)" using a(1) by (auto simp: supplier_allocations_def)
    with ids b a(2) have "b = a" by (auto intro: unique_key_eq)
    have "vca_client b = vca_client ca" using trans [OF b(3) ca(2) [symmetric]] by simp
    with \<open>b = a\<close> ca a have "b = ca"
      by (auto simp: supplier_allocations_def intro: client_allocation_unique [OF cac])
    with b show ?thesis by simp
  qed
  let ?P = "\<lambda>r. vsa_client_allocation r = vca_id ca \<and> vsa_survey r = sv_id s"
  have rules: "project_rules d (supplier_allocations d v now) s = filter ?P (survey_allocations d)"
    unfolding project_rules_def
  proof (rule filter_cong [OF refl])
    fix r
    assume "r \<in> set (survey_allocations d)"
    then show "(vsa_client_allocation r \<in> set (map vca_id (supplier_allocations d v now))
        \<and> vsa_survey r = sv_id s) = ?P r"
      using only [of r] ca(1) unfolding set_map image_iff by blast
  qed
  have one: "r = r'" if "r \<in> set (survey_allocations d)" "r' \<in> set (survey_allocations d)" "?P r" "?P r'" for r r'
    using that sac
    by (auto simp: survey_allocation_constraints_def
        intro: unique_key_eq [of "\<lambda>a. (vsa_client_allocation a, vsa_survey a)"])
  show ?thesis
  proof (cases "List.find ?P (survey_allocations d)")
    case None
    then have "filter ?P (survey_allocations d) = []" by (simp only: find_filter_None)
    then show ?thesis unfolding None option.case rules_admit_def rules by simp
  next
    case (Some r)
    note r = find_SomeD [OF Some]
    have "r' = r" if "r' \<in> set (filter ?P (survey_allocations d))" for r'
      using one [of r' r] that r by auto
    moreover have "r \<in> set (filter ?P (survey_allocations d))" using r by simp
    ultimately have all: "set (filter ?P (survey_allocations d)) = {r}" by blast
    then have "filter ?P (survey_allocations d) \<noteq> []" by (metis insert_not_empty list.set(1))
    then show ?thesis unfolding Some rules_admit_def rules option.case list_ex_iff all by simp
  qed
qed

lemma supplier_cut_ok:
  assumes vendor: "vendor_scope_user_id d (Some u) = Some v" and ca: "vca_vendor ca = v"
    and row: "ca \<in> set (client_allocations d)" "unique_by vca_id (client_allocations d)"
    and sa: "sa = List.find (\<lambda>r. vsa_client_allocation r = vca_id ca \<and> vsa_survey r = sv_id s)
               (survey_allocations d)"
  shows "\<exists>pct. supplier_cut d ca sa = Inr pct"
proof -
  obtain q where "profile_of_user d v = Some q"
    using vendor_scope_user_id_vendor [OF vendor] by blast
  moreover have "get_client_allocation d (vca_id ca) = Some ca"
    using row by (simp add: get_client_allocation_def unique_by_def row_by_pk_unique)
  moreover have "\<exists>pct. effective_cut d ca sa = Inr pct"
  proof (cases sa)
    case None
    then show ?thesis by (simp add: effective_cut_def)
  next
    case (Some r)
    then have "vsa_client_allocation r = vca_id ca" using sa by (auto dest: find_SomeD)
    with Some calculation(2) show ?thesis
      by (auto simp: effective_cut_def survey_cut_def split: option.splits)
  qed
  ultimately show ?thesis using ca by (auto simp: supplier_cut_def)
qed

lemma resolve_ok_iff:
  assumes cac: "client_allocation_constraints (client_allocations d)"
    and vendor: "vendor_scope_user_id d (Some u) = Some v"
  shows "is_ok (resolve_vendor_survey_context d u s rc now) \<longleftrightarrow>
    is_ok (organization_gate d u s) \<and>
    (\<exists>ca \<in> set (client_allocations d). supplier_match d v s ca \<and> client_active_now ca now
       \<and> cpi_in_range (sv_cpi s) (vca_min_cpi ca) (vca_max_cpi ca)
       \<and> (case List.find (\<lambda>r. vsa_client_allocation r = vca_id ca \<and> vsa_survey r = sv_id s)
                (survey_allocations d) of
            None \<Rightarrow> True | Some r \<Rightarrow> survey_active_now r now)
       \<and> (rc \<longrightarrow> 0 < sv_remaining s))"
  (is "?L \<longleftrightarrow> ?G \<and> (\<exists>ca \<in> _. ?R ca)")
proof (cases "organization_gate d u s")
  case (Inl e)
  then show ?thesis by (simp add: resolve_vendor_survey_context_def)
next
  case (Inr x)
  let ?find = "List.find (supplier_match d v s) (client_allocations d)"
  show ?thesis
  proof (cases ?find)
    case None
    then have "\<not> ?L"
      using Inr vendor by (simp add: resolve_vendor_survey_context_def supplier_match_def [abs_def])
    with None show ?thesis by (auto simp: find_None_iff)
  next
    case (Some ca)
    note ca = find_SomeD [OF Some]
    have same: "b = ca" if "b \<in> set (client_allocations d)" "supplier_match d v s b" for b
      using that ca client_allocation_unique [OF cac] by (metis supplier_match_def option.inject)
    obtain pct where "supplier_cut d ca (List.find (\<lambda>r. vsa_client_allocation r = vca_id ca
        \<and> vsa_survey r = sv_id s) (survey_allocations d)) = Inr pct"
      using supplier_cut_ok [OF vendor _ _ _ refl, of ca s] ca cac
      by (auto simp: supplier_match_def client_allocation_constraints_def)
    with Inr vendor Some ca have "?L \<longleftrightarrow> ?R ca"
      by (auto simp: resolve_vendor_survey_context_def supplier_match_def [abs_def]
          Let_def Suc_le_eq not_less split: option.splits)
    also have "\<dots> \<longleftrightarrow> (\<exists>ca \<in> set (client_allocations d). ?R ca)"
      using ca same by blast
    finally show ?thesis using Inr by simp
  qed
qed

lemma scope_member_iff:
  assumes "rules_consistent d s" and cac: "client_allocation_constraints (client_allocations d)"
    and "survey_allocation_constraints (survey_allocations d)" and "s \<in> set queryset"
    and vendor: "vendor_scope_user_id d (Some u) = Some v"
  shows "s \<in> set (scope_surveys_for_user d queryset u rc now) \<longleftrightarrow>
    is_ok (organization_gate d u s) \<and>
    (\<exists>ca \<in> set (client_allocations d). supplier_match d v s ca \<and> client_active_now ca now
       \<and> cpi_in_range (sv_cpi s) (vca_min_cpi ca) (vca_max_cpi ca)
       \<and> (case List.find (\<lambda>r. vsa_client_allocation r = vca_id ca \<and> vsa_survey r = sv_id s)
                (survey_allocations d) of
            None \<Rightarrow> True | Some r \<Rightarrow> survey_active_now r now)
       \<and> (rc \<longrightarrow> 0 < sv_remaining s))"
proof -
  let ?allocs = "supplier_allocations d v now"
  have org: "(case organization_client_policies_for_user d u of None \<Rightarrow> (\<lambda>_. True)
              | Some ps \<Rightarrow> survey_policy_q (map snd ps)) s \<longleftrightarrow> is_ok (organization_gate d u s)"
    using organization_gate_filter
    by (auto simp: organization_gate_def split: option.splits)
  have policies: "survey_policy_q (map policy_of_allocation ?allocs) s \<longleftrightarrow>
      (\<exists>a \<in> set ?allocs. Some (vca_client a) = sv_client s
         \<and> cpi_in_range (sv_cpi s) (vca_min_cpi a) (vca_max_cpi a))"
    by (auto simp: survey_policy_q_def list_ex_iff policy_clause_range policy_of_allocation_def
        eq_commute [of "sv_client s"])
  have "s \<in> set (scope_surveys_for_user d queryset u rc now) \<longleftrightarrow>
      is_ok (organization_gate d u s) \<and>
      (\<exists>a \<in> set ?allocs. Some (vca_client a) = sv_client s
         \<and> cpi_in_range (sv_cpi s) (vca_min_cpi a) (vca_max_cpi a)
         \<and> rules_admit d ?allocs now s \<and> (rc \<longrightarrow> 0 < sv_remaining s))"
    using vendor assms(4) by (auto simp: scope_surveys_for_user_def Let_def org policies)
  also have "\<dots> \<longleftrightarrow> is_ok (organization_gate d u s) \<and>
      (\<exists>a. (a \<in> set ?allocs \<and> Some (vca_client a) = sv_client s)
         \<and> cpi_in_range (sv_cpi s) (vca_min_cpi a) (vca_max_cpi a)
         \<and> (case List.find (\<lambda>r. vsa_client_allocation r = vca_id a \<and> vsa_survey r = sv_id s)
                (survey_allocations d) of
            None \<Rightarrow> True | Some r \<Rightarrow> survey_active_now r now)
         \<and> (rc \<longrightarrow> 0 < sv_remaining s))"
    using rules_admit_found [OF assms(1-3)] by blast
  finally show ?thesis by (simp only: supplier_allocations_match) blast
qed

section \<open>The payable CPI\<close>

lemma payable_cpi_bounds:
  assumes "0 \<le> c" "c \<le> 100" "0 \<le> x" "on_cent_grid x"
  shows "\<exists>p. payable_cpi (Some x) c = Some p \<and> 0 \<le> p \<and> p \<le> x \<and> on_cent_grid p
             \<and> \<bar>p - x * (100 - c) / 100\<bar> \<le> 1/200"
proof -
  let ?y = "x * (100 - c) / 100"
  have "x * (100 - c) \<le> x * 100" using assms by (intro mult_left_mono) auto
  then have "?y \<le> x" by simp
  moreover have "0 \<le> ?y" using assms by simp
  ultimately show ?thesis
    unfolding payable_cpi_def option.case using assms(4)
    by (intro exI [of _ "quantize_money ?y"] conjI refl quantize_money_close
        on_cent_grid_quantize quantize_money_nonneg quantize_money_le_grid)
qed

lemma payable_cpi_antimono:
  assumes "0 \<le> x" "c \<le> c'" "payable_cpi (Some x) c = Some p" "payable_cpi (Some x) c' = Some p'"
  shows "p' \<le> p"
proof -
  have "x * (100 - c') \<le> x * (100 - c)" using assms by (intro mult_left_mono) auto
  with assms show ?thesis by (auto simp: payable_cpi_def intro!: quantize_money_mono divide_right_mono)
qed

lemma payable_cpi_full: "on_cent_grid x \<Longrightarrow> payable_cpi (Some x) 0 = Some x"
  by (simp add: payable_cpi_def quantize_money_grid)

lemma clamp_percent_range [simp]: "0 \<le> clamp_percent p" "clamp_percent p \<le> 100"
  by (simp_all add: clamp_percent_def)

end
