(* ===== verification/Pricing_Properties.thy ===== *)
theory Pricing_Properties
  imports Allocation_Policy_Facts Hierarchy_Properties
begin

text \<open>
  Properties of the commercial policy: the list of surveys and the entry check admit the same
  surveys, inherited client policies are nearest-rule lookups, the CPI a supplier is paid stays
  between zero and the source CPI, and how the CPI of a list row relates to the CPI computed
  for one survey.
\<close>

section \<open>The context of a resolved survey\<close>

lemma resolve_SomeE:
  assumes "resolve_vendor_survey_context d u s rc now = Inr (Some ctx)"
  obtains v ca sa pct where "vendor_scope_user_id d (Some u) = Some v"
    "ca \<in> set (client_allocations d)" "supplier_match d v s ca" "client_active_now ca now"
    "sa = List.find (\<lambda>r. vsa_client_allocation r = vca_id ca \<and> vsa_survey r = sv_id s)
            (survey_allocations d)"
    "\<forall>r. sa = Some r \<longrightarrow> survey_active_now r now" "supplier_cut d ca sa = Inr pct"
    "ctx = \<lparr>ctx_vendor_id = v, ctx_client_allocation = ca, ctx_survey_allocation = sa,
            ctx_cpi_cut_percent = pct, ctx_payable_cpi = payable_cpi (sv_cpi s) pct\<rparr>"
proof -
  from assms obtain v where v: "vendor_scope_user_id d (Some u) = Some v"
    and gate: "\<exists>x. organization_gate d u s = Inr x"
    by (cases "vendor_scope_user_id d (Some u)"; cases "organization_gate d u s")
      (auto simp: resolve_vendor_survey_context_def)
  let ?find = "List.find (supplier_match d v s) (client_allocations d)"
  from assms v gate obtain ca where ca: "?find = Some ca"
    by (cases ?find) (auto simp: resolve_vendor_survey_context_def supplier_match_def [abs_def])
  note row = find_SomeD [OF ca]
  from assms v gate ca show thesis
    by (intro that [OF v conjunct1 [OF row] conjunct2 [OF row] _ refl, where pct = "ctx_cpi_cut_percent ctx"])
      (auto simp: resolve_vendor_survey_context_def supplier_match_def [abs_def] Let_def
        split: if_splits sum.splits option.splits)
qed

section \<open>Listing and entry agree\<close>

text \<open>C8: The list a user browses and the check at the survey's entry agree: a survey of the
  queryset is listed exactly when \<open>resolve_vendor_survey_context\<close> admits it, for accounts with
  and without a supplier, whenever every project rule of the survey belongs to an allocation of
  the survey's own client (what \<open>VendorSurveyAllocation.clean\<close> demands).\<close>

theorem scope_admits_iff_resolve_succeeds:
  assumes "rules_consistent d s"
    and "client_allocation_constraints (client_allocations d)"
    and "survey_allocation_constraints (survey_allocations d)" and "s \<in> set queryset"
  shows "s \<in> set (scope_surveys_for_user d queryset u rc now)
    \<longleftrightarrow> is_ok (resolve_vendor_survey_context d u s rc now)"
proof (cases "vendor_scope_user_id d (Some u)")
  case None
  then have "is_ok (resolve_vendor_survey_context d u s rc now) \<longleftrightarrow> is_ok (organization_gate d u s)"
    by (auto simp: resolve_vendor_survey_context_def split: sum.splits)
  moreover have "s \<in> set (scope_surveys_for_user d queryset u rc now) \<longleftrightarrow> is_ok (organization_gate d u s)"
    using None assms(4) organization_gate_filter [of d u]
    by (cases "organization_client_policies_for_user d u")
      (auto simp: scope_surveys_for_user_def Let_def organization_gate_def)
  ultimately show ?thesis by simp
next
  case (Some v)
  show ?thesis
    by (simp only: scope_member_iff [OF assms(1-4) Some] resolve_ok_iff [OF assms(2) Some])
qed

lemma sample_constraints:
  "client_allocation_constraints (client_allocations sample_db)"
  "survey_allocation_constraints (survey_allocations sample_db)"
  "rules_consistent sample_db sample_survey"
  by (simp_all add: client_allocation_constraints_def survey_allocation_constraints_def
      unique_by_def quantities_valid_def cpi_range_valid_def rules_consistent_def)

lemmas resolve_defs = resolve_vendor_survey_context_def organization_gate_def
  organization_client_policies_for_user_def vendor_live_def client_live_def client_active_now_def
  active_window_def supplier_cut_def cpi_in_range_def effective_cut_def client_cut_def

lemma sample_resolved:
  "resolve_vendor_survey_context sample_db (sample_user 33) sample_survey False 100 =
   Inr (Some \<lparr>ctx_vendor_id = 31, ctx_client_allocation = sample_allocation 21 31,
              ctx_survey_allocation = None, ctx_cpi_cut_percent = 20,
              ctx_payable_cpi = payable_cpi (Some (5/2)) 20\<rparr>)"
  by (simp add: resolve_defs sample_scope_33 sample_lookups)

lemma scope_admits_iff_resolve_succeeds_witness:
  "sample_survey \<in> set (scope_surveys_for_user sample_db [sample_survey] (sample_user 33) False 100)"
proof -
  have "is_ok (resolve_vendor_survey_context sample_db (sample_user 33) sample_survey False 100)"
    by (simp add: sample_resolved)
  with scope_admits_iff_resolve_succeeds
    [OF sample_constraints(3,1,2), of "[sample_survey]" "sample_user 33" False 100]
  show ?thesis by simp
qed

section \<open>Inherited client policies\<close>

text \<open>C28: The client policies of a user are nearest-rule lookups: an inactive unit anywhere in
  the ancestry removes all clients, and otherwise the closest unit with a rule for the client
  decides whether it is visible, with its own CPI range or the one inherited from the next unit
  above that has a rule.\<close>

theorem client_policy_is_nearest_rule:
  assumes "organization_access_constraints (org_access d)"
    and "organization_client_policies_for_user d u = Some ps"
    and "profile_of_user d (usr_id u) = Some p" and "ep_organization_unit p = Some i"
  shows "map_of ps c =
    (let ancestry = unit_chain (org_units d) [] (Some i)
     in if \<forall>unit \<in> set ancestry. ou_is_active unit
        then nearest_policy d c (map ou_id ancestry) else None)"
  using assms(2-4) fold_units_nearest [OF assms(1), of "map ou_id (unit_chain (org_units d) [] (Some i))" c]
  by (auto simp: organization_client_policies_for_user_def Let_def list_ex_iff rev_map
      split: if_splits)

definition sample_rule :: "pk \<Rightarrow> decimal option \<Rightarrow> bool \<Rightarrow> organization_client_access" where
  "sample_rule i lo inherit = \<lparr>oca_id = i, oca_organization_unit = i, oca_client = 5,
     oca_min_cpi = lo, oca_max_cpi = None, oca_inherit_cpi_range = inherit, oca_is_active = True,
     oca_created_by = None, oca_created_at = 0, oca_updated_at = 0\<rparr>"

lemma sample_rule_fields [simp]:
  "oca_organization_unit (sample_rule i lo h) = i" "oca_client (sample_rule i lo h) = 5"
  "oca_min_cpi (sample_rule i lo h) = lo" "oca_max_cpi (sample_rule i lo h) = None"
  "oca_inherit_cpi_range (sample_rule i lo h) = h" "oca_is_active (sample_rule i lo h)"
  "oca_id (sample_rule i lo h) = i"
  by (simp_all add: sample_rule_def)

definition policy_db :: db where
  "policy_db = sample_db\<lparr>org_access := [sample_rule 11 (Some 1) False, sample_rule 13 None True],
     profiles := [sample_profile 33 EMPLOYEE (Some 43) None (Some 13)]\<rparr>"

lemma policy_db_tables [simp]:
  "org_access policy_db = [sample_rule 11 (Some 1) False, sample_rule 13 None True]"
  "profiles policy_db = [sample_profile 33 EMPLOYEE (Some 43) None (Some 13)]"
  "org_units policy_db = org_units sample_db" "clients policy_db = clients sample_db"
  by (simp_all add: policy_db_def)

lemma policy_db_chain:
  "unit_chain (org_units sample_db) [] (Some 13)
   = [sample_unit 13 (Some 12) SHIFT, sample_unit 12 (Some 11) SUB_BRANCH, sample_unit 11 None BRANCH]"
  by (simp add: unit_chain.simps row_by_pk_def)

lemma client_policy_is_nearest_rule_witness:
  "\<exists>ps. organization_client_policies_for_user policy_db (sample_user 33) = Some ps
     \<and> map_option ocp_min_cpi (map_of ps 5) = Some (Some 1)
     \<and> map_option ocp_source_unit_id (map_of ps 5) = Some 13"
proof -
  have constraints: "organization_access_constraints (org_access policy_db)"
    by (simp add: organization_access_constraints_def unique_by_def cpi_range_valid_def)
  have profile: "profile_of_user policy_db (usr_id (sample_user 33))
      = Some (sample_profile 33 EMPLOYEE (Some 43) None (Some 13))"
    by (simp add: profile_of_user_def)
  have "organization_client_policies_for_user policy_db (sample_user 33) \<noteq> None"
    using profile by (simp add: organization_client_policies_for_user_def Let_def)
  then obtain ps where ps: "organization_client_policies_for_user policy_db (sample_user 33) = Some ps"
    by blast
  have "map_of ps 5 = nearest_policy policy_db 5 [13, 12, 11]"
    using client_policy_is_nearest_rule [OF constraints ps profile, of 13 5] policy_db_chain by simp
  with ps show ?thesis
    by (simp add: rule_for_def rules_of_unit_def sample_lookups policy_from_rule_def)
qed

section \<open>The payable CPI\<close>

definition cuts_valid :: "db \<Rightarrow> bool" where
  "cuts_valid d =
     (list_all (\<lambda>p. percentage_valid (vcp_default_cpi_cut_percent p)) (commercial_profiles d)
      \<and> list_all (\<lambda>a. pred_option percentage_valid (vca_cpi_cut_override_percent a)) (client_allocations d)
      \<and> list_all (\<lambda>a. pred_option percentage_valid (vsa_cpi_cut_override_percent a)) (survey_allocations d))"

lemma client_cut_valid:
  "cuts_valid d \<Longrightarrow> a \<in> set (client_allocations d) \<Longrightarrow> percentage_valid (client_cut d a)"
  by (auto simp: cuts_valid_def client_cut_def commercial_of_user_def list_all_iff
      percentage_valid_def dest!: find_SomeD split: option.splits)

lemma survey_cut_valid:
  assumes "cuts_valid d" and "r \<in> set (survey_allocations d)" and "survey_cut d r = Inr c"
  shows "percentage_valid c"
  using assms client_cut_valid [OF assms(1)]
  by (auto simp: survey_cut_def cuts_valid_def list_all_iff get_client_allocation_def
      dest: row_by_pk_Some split: option.splits)

lemma supplier_cut_valid:
  assumes "cuts_valid d" and "ca \<in> set (client_allocations d)"
    and "\<And>r. sa = Some r \<Longrightarrow> r \<in> set (survey_allocations d)" and "supplier_cut d ca sa = Inr c"
  shows "percentage_valid c"
  using assms(3,4) client_cut_valid [OF assms(1,2)] survey_cut_valid [OF assms(1)]
  by (auto simp: supplier_cut_def effective_cut_def percentage_valid_def
      split: option.splits sum.splits if_splits)

text \<open>C23: With cuts between 0 and 100 percent, a resolved survey pays the supplier an amount on
  the cent grid, at least zero, at most the source CPI and within half a cent of the exact
  percentage; an internal supplier is paid the source CPI itself, whatever overrides its
  allocations carry.\<close>

theorem resolved_payable_cpi:
  assumes "resolve_vendor_survey_context d u s rc now = Inr (Some ctx)"
    and "cuts_valid d" and "sv_cpi s = Some x" and "0 \<le> x" and "on_cent_grid x"
  shows "\<exists>p. ctx_payable_cpi ctx = Some p \<and> 0 \<le> p \<and> p \<le> x \<and> on_cent_grid p
      \<and> \<bar>p - x * (100 - ctx_cpi_cut_percent ctx) / 100\<bar> \<le> 1/200
      \<and> (account_type_of d (ctx_vendor_id ctx) = Some INTERNAL_VENDOR \<longrightarrow> p = x)"
proof -
  obtain v ca sa pct where ca: "ca \<in> set (client_allocations d)" "supplier_match d v s ca"
    and sa: "sa = List.find (\<lambda>r. vsa_client_allocation r = vca_id ca \<and> vsa_survey r = sv_id s)
               (survey_allocations d)"
    and cut: "supplier_cut d ca sa = Inr pct"
    and ctx: "ctx = \<lparr>ctx_vendor_id = v, ctx_client_allocation = ca, ctx_survey_allocation = sa,
            ctx_cpi_cut_percent = pct, ctx_payable_cpi = payable_cpi (sv_cpi s) pct\<rparr>"
    by (rule resolve_SomeE [OF assms(1)])
  have "percentage_valid pct"
    using sa by (intro supplier_cut_valid [OF assms(2) ca(1) _ cut]) (metis find_SomeD)
  moreover have "pct = 0" if "account_type_of d v = Some INTERNAL_VENDOR"
    using that cut ca(2)
    by (auto simp: supplier_cut_def account_type_of_def supplier_match_def split: sum.splits option.splits)
  ultimately show ?thesis
    using payable_cpi_bounds [of pct x] payable_cpi_full assms(3-5) ctx
    by (auto simp: percentage_valid_def)
qed

lemma sample_cuts_valid: "cuts_valid sample_db"
  by (simp add: cuts_valid_def percentage_valid_def)

lemma sample_cpi_grid: "on_cent_grid (5/2)"
  using on_cent_gridI [of 250] by simp

lemma resolved_payable_cpi_witness:
  "\<exists>p. payable_cpi (Some (5/2)) 20 = Some p \<and> 0 \<le> p \<and> p \<le> 5/2"
  using resolved_payable_cpi [OF sample_resolved sample_cuts_valid _ _ sample_cpi_grid]
  by (simp; blast)

section \<open>The annotated list and the single survey\<close>

lemma annotation_cut_resolved:
  assumes resolved: "resolve_vendor_survey_context d u s rc now = Inr (Some ctx)"
    and cac: "client_allocation_constraints (client_allocations d)"
    and sac: "survey_allocation_constraints (survey_allocations d)"
  shows "annotation_cut d u s now = ctx_cpi_cut_percent ctx"
proof -
  obtain v ca sa pct where v: "vendor_scope_user_id d (Some u) = Some v"
    and ca: "ca \<in> set (client_allocations d)" "supplier_match d v s ca" "client_active_now ca now"
    and sa: "sa = List.find (\<lambda>r. vsa_client_allocation r = vca_id ca \<and> vsa_survey r = sv_id s)
               (survey_allocations d)"
    and live: "\<forall>r. sa = Some r \<longrightarrow> survey_active_now r now"
    and cut: "supplier_cut d ca sa = Inr pct"
    and ctx: "ctx = \<lparr>ctx_vendor_id = v, ctx_client_allocation = ca, ctx_survey_allocation = sa,
            ctx_cpi_cut_percent = pct, ctx_payable_cpi = payable_cpi (sv_cpi s) pct\<rparr>"
    by (rule resolve_SomeE [OF resolved])
  have listed: "a \<in> set (supplier_allocations d v now) \<and> Some (vca_client a) = sv_client s \<longleftrightarrow> a = ca" for a
    using ca client_allocation_unique [OF cac]
    unfolding supplier_allocations_match by (metis supplier_match_def option.inject)
  have "List.find (\<lambda>a. Some (vca_client a) = sv_client s) (supplier_allocations d v now) = Some ca"
    using listed find_SomeD [of "\<lambda>a. Some (vca_client a) = sv_client s" "supplier_allocations d v now"]
    by (cases "List.find (\<lambda>a. Some (vca_client a) = sv_client s) (supplier_allocations d v now)")
      (auto simp: find_None_iff)
  then have client: "client_cut_sql d v s now = Some (client_cut d ca)"
    by (simp add: client_cut_sql_def default_cut_sql_def client_cut_def)
  let ?P = "\<lambda>r. vsa_client_allocation r = vca_id ca \<and> vsa_survey r = sv_id s"
  have same: "list_ex (\<lambda>a. vca_id a = vsa_client_allocation r \<and> Some (vca_client a) = sv_client s)
      (supplier_allocations d v now) \<longleftrightarrow> vsa_client_allocation r = vca_id ca" for r
    unfolding list_ex_iff using listed by metis
  have project: "project_cut_sql d v s now = (case sa of None \<Rightarrow> None
      | Some r \<Rightarrow> (case survey_cut d r of Inr c \<Rightarrow> Some c | Inl _ \<Rightarrow> Some 0))"
  proof (cases sa)
    case None
    then have "List.find (\<lambda>r. vsa_survey r = sv_id s \<and> survey_active_now r now
        \<and> vsa_client_allocation r = vca_id ca) (survey_allocations d) = None"
      using sa by (auto simp: find_None_iff)
    with None show ?thesis by (simp add: project_cut_sql_def same)
  next
    case (Some r)
    note row = find_SomeD [OF sym [OF trans [OF Some [symmetric] sa]]]
    have "List.find (\<lambda>r. vsa_survey r = sv_id s \<and> survey_active_now r now
        \<and> vsa_client_allocation r = vca_id ca) (survey_allocations d) = Some r"
      using row live Some sac
      by (intro find_unique [of "\<lambda>r. (vsa_client_allocation r, vsa_survey r, survey_active_now r now)"])
        (auto simp: survey_allocation_constraints_def unique_by_def distinct_map inj_on_def)
    with Some show ?thesis
      by (simp add: project_cut_sql_def same survey_cut_def default_cut_sql_def client_cut_def
          split: option.split)
  qed
  show ?thesis
    using v cut ctx client project ca(2)
    by (auto simp: annotation_cut_def supplier_cut_def effective_cut_def supplier_match_def
        split: option.splits sum.splits)
qed

lemma quantize_scaled_close:
  assumes "0 \<le> f" and "f \<le> 1"
  shows "\<bar>quantize_money (quantize_money a * f) - quantize_money (a * f)\<bar> \<le> 3/200"
proof -
  have "\<bar>quantize_money a - a\<bar> * f \<le> 1/200 * 1"
    using assms quantize_money_close [of a] by (intro mult_mono) auto
  moreover have "\<bar>quantize_money a * f - a * f\<bar> = \<bar>quantize_money a - a\<bar> * f"
    using assms by (simp add: left_diff_distrib [symmetric] abs_mult)
  ultimately have "\<bar>quantize_money a * f - a * f\<bar> \<le> 1/200" by simp
  with quantize_money_close [of "quantize_money a * f"] quantize_money_close [of "a * f"]
  show ?thesis by linarith
qed

lemma grid_gap:
  assumes "on_cent_grid x" and "on_cent_grid y" and "\<bar>x - y\<bar> < 2/100"
  shows "\<bar>x - y\<bar> \<le> 1/100"
proof -
  obtain m n where x: "x = of_int m / 100" and y: "y = of_int n / 100"
    using assms(1,2) by (meson on_cent_gridE)
  have diff: "x - y = of_int (m - n) / 100" by (simp add: x y diff_divide_distrib)
  have "\<bar>of_int (m - n) :: rat\<bar> < 2" using assms(3) by (simp add: diff abs_divide)
  then have "\<bar>m - n\<bar> < 2" by linarith
  then have "\<bar>of_int (m - n) :: rat\<bar> \<le> 1" by linarith
  then show ?thesis by (simp add: diff abs_divide)
qed

lemma pricing_resolved:
  assumes "resolve_vendor_survey_context d u s False now = Inr (Some ctx)"
  shows "survey_pricing_for_user d u s [] [] now =
    Inr (apply_employee_role_percentage d u (ctx_payable_cpi ctx) (Some (ctx_cpi_cut_percent ctx)))"
proof -
  obtain v where "vendor_scope_user_id d (Some u) = Some v" by (rule resolve_SomeE [OF assms])
  with assms show ?thesis by (simp add: survey_pricing_for_user_def)
qed

text \<open>The CPI annotated on a list row and the CPI computed for that one survey are the same
  for every viewer without a role percentage, and never differ by more than one cent for an
  employee whose role shows a percentage.\<close>

theorem annotation_within_a_cent:
  assumes "resolve_vendor_survey_context d u s False now = Inr (Some ctx)"
    and "client_allocation_constraints (client_allocations d)"
    and "survey_allocation_constraints (survey_allocations d)"
    and "survey_pricing_for_user d u s [] [] now = Inr (Some price, shown)"
  shows "\<exists>listed. annotate_survey_pricing_for_user d u s now = Some listed
    \<and> \<bar>price - listed\<bar> \<le> 1/100 \<and> (viewer_role_percent d u = None \<longrightarrow> price = listed)"
proof -
  obtain v pct where ctx: "ctx_cpi_cut_percent ctx = pct" "ctx_payable_cpi ctx = payable_cpi (sv_cpi s) pct"
    by (rule resolve_SomeE [OF assms(1)]) simp
  note price = assms(4) [unfolded pricing_resolved [OF assms(1)]]
  then obtain x where x: "sv_cpi s = Some x"
    by (cases "sv_cpi s")
      (auto simp: apply_employee_role_percentage_def ctx payable_cpi_def Let_def split: option.splits)
  let ?a = "x * (100 - pct) / 100"
  have listed: "annotate_survey_pricing_for_user d u s now =
      Some (quantize_money (?a * (case viewer_role_percent d u of Some p \<Rightarrow> p | None \<Rightarrow> 100) / 100))"
    by (simp add: annotate_survey_pricing_for_user_def x annotation_cut_resolved [OF assms(1-3)] ctx)
  show ?thesis
  proof (cases "viewer_role_percent d u")
    case None
    with price have "price = quantize_money ?a"
      by (simp add: apply_employee_role_percentage_def ctx x payable_cpi_def)
    with None listed show ?thesis by simp
  next
    case (Some p)
    then have "\<exists>q. p = clamp_percent q"
      by (auto simp: viewer_role_percent_def split: if_splits option.splits)
    then have p: "0 \<le> p / 100" "p / 100 \<le> 1" by (auto simp: clamp_percent_def)
    from Some price have "price = quantize_money (quantize_money ?a * (p / 100))"
      by (simp add: apply_employee_role_percentage_def ctx x payable_cpi_def Let_def)
    moreover have "\<bar>quantize_money (quantize_money ?a * (p / 100)) - quantize_money (?a * (p / 100))\<bar> \<le> 1/100"
      using quantize_scaled_close [OF p, of ?a] by (intro grid_gap) simp_all
    ultimately show ?thesis using Some listed by simp
  qed
qed

lemma sample_viewer: "viewer_role_percent sample_db (sample_user 33) = Some 50"
  by (simp add: viewer_role_percent_def clamp_percent_def sample_lookups)

lemma annotation_within_a_cent_witness:
  "annotate_survey_pricing_for_user sample_db (sample_user 33) sample_survey 100 \<noteq> None"
proof -
  obtain price shown where "survey_pricing_for_user sample_db (sample_user 33) sample_survey [] [] 100
      = Inr (Some price, shown)"
    by (simp add: pricing_resolved [OF sample_resolved] apply_employee_role_percentage_def sample_viewer
        payable_cpi_def Let_def)
  from annotation_within_a_cent [OF sample_resolved sample_constraints(1,2) this]
  show ?thesis by auto
qed

text \<open>The sample with a survey of 1.01 and a supplier cut of 50 percent, seen at 50 percent.\<close>

definition rounding_db :: db where
  "rounding_db = sample_db\<lparr>commercial_profiles := [sample_commercial 31 50 BOTH]\<rparr>"

definition rounding_survey :: survey where
  "rounding_survey = sample_survey\<lparr>sv_cpi := Some (101/100)\<rparr>"

text \<open>The list and the single survey can show different prices: the list rounds once, the
  single survey rounds the supplier's amount and then the employee's share of it.  At a source
  CPI of 1.01, a 50 percent cut and a 50 percent role the list shows 0.25 and the survey 0.26.\<close>

theorem annotation_differs_by_rounding:
  "annotate_survey_pricing_for_user rounding_db (sample_user 33) rounding_survey 100 = Some (25/100)
   \<and> survey_pricing_for_user rounding_db (sample_user 33) rounding_survey [] [] 100
     = Inr (Some (26/100), Some 75)"
proof -
  have tables: "users rounding_db = users sample_db" "profiles rounding_db = profiles sample_db"
    "roles rounding_db = roles sample_db" "clients rounding_db = clients sample_db"
    "client_allocations rounding_db = client_allocations sample_db" "org_units rounding_db = org_units sample_db"
    "survey_allocations rounding_db = []" "commercial_profiles rounding_db = [sample_commercial 31 50 BOTH]"
    by (simp_all add: rounding_db_def)
  have survey: "sv_cpi rounding_survey = Some (101/100)" "sv_client rounding_survey = Some 5"
    "sv_id rounding_survey = 7" by (simp_all add: rounding_survey_def)
  have scope: "vendor_scope_user_id rounding_db (Some (sample_user 33)) = Some 31"
    by (simp add: vendor_scope_user_id_def vendor_scope_loop.simps sample_lookups unit_supplier_def
      is_vendor_type_def tables)
  have viewer: "viewer_role_percent rounding_db (sample_user 33) = Some 50"
    by (simp add: viewer_role_percent_def clamp_percent_def sample_lookups tables)
  have resolved: "resolve_vendor_survey_context rounding_db (sample_user 33) rounding_survey False 100 =
     Inr (Some \<lparr>ctx_vendor_id = 31, ctx_client_allocation = sample_allocation 21 31,
              ctx_survey_allocation = None, ctx_cpi_cut_percent = 50,
              ctx_payable_cpi = payable_cpi (Some (101/100)) 50\<rparr>)"
    by (simp add: resolve_defs scope sample_lookups tables survey)
  have cut: "annotation_cut rounding_db (sample_user 33) rounding_survey 100 = 50"
    using annotation_cut_resolved [OF resolved] sample_constraints(1,2) by (simp add: tables)
  have rounded: "quantize_money (101/400) = 1/4" "quantize_money (101/200) = 51/100"
    "quantize_money (51/200) = 13/50" "quantize_money 75 = 75"
    by (simp_all add: quantize_money_def round_half_up_def floor_eq_iff)
  show ?thesis
    by (simp add: rounded annotate_survey_pricing_for_user_def cut viewer survey pricing_resolved [OF resolved]
        apply_employee_role_percentage_def Let_def payable_cpi_def)
qed

end
