(* ===== verification/Reservations.thy ===== *)
theory Reservations
  imports Allocation_Policy
begin

text \<open>
  The reservation half of \<open>vendors/services.py\<close> and the expiry task of
  \<open>vendors/tasks.py\<close>: freezing an attempt's supplier, client and CPI context with a
  one-unit reservation, finalising it when the attempt ends, and expiring it.  Each operation
  is one transaction on the database; row locks have no effect on its result.
  \<open>reservation_step\<close> is any of these operations succeeding, and the invariant and the
  immutability of finalised rows are proved for every sequence of them.
\<close>

definition ensure :: "bool \<Rightarrow> string \<Rightarrow> validation" where
  "ensure b message = (if b then Inr () else Inl (AllocationUnavailable message))"

lemma ensure_ok [simp]: "ensure b m = Inr x \<longleftrightarrow> b"
  by (simp add: ensure_def)

fun first_error :: "validation list \<Rightarrow> validation" where
  "first_error [] = Inr ()"
| "first_error (v # vs) = (case v of Inl e \<Rightarrow> Inl e | Inr _ \<Rightarrow> first_error vs)"

lemma first_error_ok: "first_error vs = Inr x \<longleftrightarrow> (\<forall>v \<in> set vs. v = Inr ())"
  by (induction vs) (auto split: sum.splits)

text \<open>The checks between the row locks and the snapshot, in the order of the code.\<close>

definition reserve_checks ::
  "db \<Rightarrow> survey \<Rightarrow> user \<Rightarrow> client \<Rightarrow> survey_attempt \<Rightarrow> vendor_client_allocation
   \<Rightarrow> vendor_survey_allocation option \<Rightarrow> timestamp \<Rightarrow> validation" where
  "reserve_checks d s vendor cl a ca sa now =
     first_error
      [ensure (usr_is_active vendor \<and> cl_is_active cl) ''Supplier or client access is inactive.'',
       ensure (case commercial_of_user d (vca_vendor ca) of Some p \<Rightarrow> vcp_is_active p | None \<Rightarrow> False)
         ''Supplier commercial access is inactive.'',
       ensure (case sa of Some r \<Rightarrow> at_survey a = vsa_survey r | None \<Rightarrow> True)
         ''Attempt survey does not match the assigned survey.'',
       ensure (sv_client s = Some (vca_client ca))
         ''Survey is not mapped to the allocation's client.'',
       ensure (client_active_now ca now)
         ''Client allocation is inactive or outside its active dates.'',
       ensure (case sa of Some r \<Rightarrow> survey_active_now r now | None \<Rightarrow> True)
         ''Project allocation is inactive or outside its active dates.'',
       ensure (1 \<le> sv_remaining s) ''Upstream survey quantity is exhausted.'']"

definition snapshot_attempt ::
  "db \<Rightarrow> survey \<Rightarrow> vendor_client_allocation \<Rightarrow> vendor_survey_allocation option \<Rightarrow> decimal
   \<Rightarrow> survey_attempt \<Rightarrow> survey_attempt" where
  "snapshot_attempt d s ca sa pct a =
     a\<lparr>at_vendor := Some (vca_vendor ca), at_client := Some (vca_client ca),
       at_client_allocation := Some (vca_id ca), at_survey_allocation := map_option vsa_id sa,
       at_source_cpi_snapshot := sv_cpi s, at_cpi_snapshot_source := ''captured'',
       at_cpi_cut_percent_snapshot := Some pct,
       at_payable_cpi_snapshot := payable_cpi (sv_cpi s) pct,
       at_cpi_currency_snapshot :=
         (case commercial_of_user d (vca_vendor ca) of Some p \<Rightarrow> vcp_currency p | None \<Rightarrow> ''USD'')\<rparr>"

definition new_reservation ::
  "db \<Rightarrow> survey_attempt \<Rightarrow> vendor_client_allocation \<Rightarrow> vendor_survey_allocation option
   \<Rightarrow> timestamp \<Rightarrow> timestamp \<Rightarrow> allocation_reservation" where
  "new_reservation d a ca sa expires now =
     \<lparr>ar_id = next_pk ar_id (reservations d), ar_attempt = at_id a,
      ar_client_allocation = vca_id ca, ar_survey_allocation = map_option vsa_id sa,
      ar_quantity = 1, ar_status = RESERVED, ar_expires_at = expires, ar_finalized_at = None,
      ar_reason = [], ar_created_at = now, ar_updated_at = now\<rparr>"

text \<open>\<open>client_allocation\<close> as passed, or the one of the survey allocation that was passed.\<close>

definition chosen_client_allocation ::
  "db \<Rightarrow> pk option \<Rightarrow> pk option \<Rightarrow> py_error + vendor_client_allocation" where
  "chosen_client_allocation d survey_allocation client_allocation =
     (case client_allocation of
        Some i \<Rightarrow> of_option (DoesNotExist ''VendorClientAllocation'') (get_client_allocation d i)
      | None \<Rightarrow>
          (case survey_allocation of
             None \<Rightarrow> Inl (AllocationUnavailable ''A client allocation is required.'')
           | Some j \<Rightarrow>
               (case get_survey_allocation d j of
                  None \<Rightarrow> Inl (DoesNotExist ''VendorSurveyAllocation'')
                | Some r \<Rightarrow> of_option (DoesNotExist ''VendorClientAllocation'')
                              (get_client_allocation d (vsa_client_allocation r)))))"

definition locked_survey_allocation ::
  "db \<Rightarrow> pk option \<Rightarrow> py_error + vendor_survey_allocation option" where
  "locked_survey_allocation d survey_allocation =
     (case survey_allocation of
        None \<Rightarrow> Inr None
      | Some j \<Rightarrow> (case get_survey_allocation d j of
                    None \<Rightarrow> Inl (DoesNotExist ''VendorSurveyAllocation'') | Some r \<Rightarrow> Inr (Some r)))"

definition reserve_attempt_capacity ::
  "db \<Rightarrow> pk \<Rightarrow> pk option \<Rightarrow> pk option \<Rightarrow> timestamp option \<Rightarrow> int \<Rightarrow> timestamp
   \<Rightarrow> py_error + (allocation_reservation \<times> db)" where
  "reserve_attempt_capacity d attempt_id survey_allocation client_allocation expires_at ttl now =
     (case get_attempt d attempt_id of
        None \<Rightarrow> Inl (DoesNotExist ''SurveyAttempt'')
      | Some a \<Rightarrow>
     (case reservation_of_attempt d attempt_id of
        Some existing \<Rightarrow> Inr (existing, d)
      | None \<Rightarrow>
     (case chosen_client_allocation d survey_allocation client_allocation of
        Inl e \<Rightarrow> Inl e
      | Inr ca \<Rightarrow>
     (case locked_survey_allocation d survey_allocation of
        Inl e \<Rightarrow> Inl e
      | Inr sa \<Rightarrow>
     (case (get_survey d (at_survey a), get_user d (vca_vendor ca), get_client d (vca_client ca)) of
        (Some s, Some vendor, Some cl) \<Rightarrow>
          (case reserve_checks d s vendor cl a ca sa now of
             Inl e \<Rightarrow> Inl e
           | Inr _ \<Rightarrow>
               (case supplier_cut d ca sa of
                  Inl e \<Rightarrow> Inl e
                | Inr pct \<Rightarrow>
                    let d' = update_attempts (\<lambda>b. at_id b = attempt_id) (snapshot_attempt d s ca sa pct) d;
                        expires = (case expires_at of Some t \<Rightarrow> t | None \<Rightarrow> now + minutes ttl);
                        r = new_reservation d a ca sa expires now
                    in Inr (r, d'\<lparr>reservations := reservations d' @ [r]\<rparr>)))
      | _ \<Rightarrow> Inl (DoesNotExist ''related object''))))))"

definition finalized ::
  "reservation_status \<Rightarrow> string \<Rightarrow> timestamp \<Rightarrow> allocation_reservation \<Rightarrow> allocation_reservation" where
  "finalized status reason now r =
     r\<lparr>ar_status := status, ar_reason := reason, ar_finalized_at := Some now, ar_updated_at := now\<rparr>"

text \<open>\<open>attempt\<close> is the object the caller holds; the code reads its status, not the row's.\<close>

definition finalize_attempt_capacity ::
  "db \<Rightarrow> pk \<Rightarrow> attempt_status \<Rightarrow> timestamp \<Rightarrow> allocation_reservation option \<times> db" where
  "finalize_attempt_capacity d attempt_id status now =
     (case reservation_of_attempt d attempt_id of
        None \<Rightarrow> (None, d)
      | Some r \<Rightarrow>
          if ar_status r \<noteq> RESERVED then (Some r, d)
          else
            let change = (if status = COMPLETED then finalized CONSUMED ''Completed survey'' now
                          else finalized RELEASED
                            (''Released for attempt status '' @ attempt_status_value status) now)
            in (Some (change r), update_reservations (\<lambda>q. ar_id q = ar_id r) change d))"

definition expire_reservation ::
  "db \<Rightarrow> pk \<Rightarrow> timestamp \<Rightarrow> timestamp \<Rightarrow> py_error + (allocation_reservation \<times> db)" where
  "expire_reservation d reservation_id now finished =
     (case get_reservation d reservation_id of
        None \<Rightarrow> Inl (DoesNotExist ''AllocationReservation'')
      | Some locked \<Rightarrow>
          if ar_status locked \<noteq> RESERVED then Inr (locked, d)
          else if now < ar_expires_at locked
          then Inl (AllocationUnavailable ''Reservation has not expired yet.'')
          else
            let change = finalized EXPIRED ''Reservation expired before a terminal callback'' finished
            in Inr (change locked, update_reservations (\<lambda>q. ar_id q = reservation_id) change d))"

section \<open>The expiry task\<close>

definition expirable_ids :: "db \<Rightarrow> timestamp \<Rightarrow> nat \<Rightarrow> pk list" where
  "expirable_ids d now batch_size =
     map ar_id (take batch_size (sort_key ar_expires_at
       (filter (\<lambda>r. ar_status r = RESERVED \<and> ar_expires_at r \<le> now) (reservations d))))"

text \<open>One iteration reads the clock twice; each expiry is its own transaction, so an error
  stops the task and keeps what was committed.\<close>

fun expire_loop :: "db \<Rightarrow> (nat \<Rightarrow> timestamp) \<Rightarrow> nat \<Rightarrow> pk list \<Rightarrow> nat \<Rightarrow> db \<times> (py_error + nat)" where
  "expire_loop d clock k [] expired = (d, Inr expired)"
| "expire_loop d clock k (i # ids) expired =
     (case get_reservation d i of
        None \<Rightarrow> expire_loop d clock k ids expired
      | Some r \<Rightarrow>
          if ar_status r \<noteq> RESERVED then expire_loop d clock k ids expired
          else (case expire_reservation d i (clock k) (clock (Suc k)) of
                  Inl e \<Rightarrow> (d, Inl e)
                | Inr (_, d') \<Rightarrow> expire_loop d' clock (k + 2) ids (Suc expired)))"

definition expire_allocation_reservations_task ::
  "db \<Rightarrow> nat \<Rightarrow> (nat \<Rightarrow> timestamp) \<Rightarrow> db \<times> (py_error + nat \<times> nat)" where
  "expire_allocation_reservations_task d batch_size clock =
     (let ids = expirable_ids d (clock 0) batch_size
      in case expire_loop d clock 1 ids 0 of
           (d', Inl e) \<Rightarrow> (d', Inl e)
         | (d', Inr expired) \<Rightarrow> (d', Inr (expired, length ids)))"

section \<open>The reservation life cycle\<close>

inductive reservation_step :: "db \<Rightarrow> db \<Rightarrow> bool" where
  reserve: "reserve_attempt_capacity d a sa ca expires ttl now = Inr (r, d') \<Longrightarrow> reservation_step d d'"
| finalize: "finalize_attempt_capacity d a status now = (r, d') \<Longrightarrow> reservation_step d d'"
| expire: "expire_reservation d i now finished = Inr (r, d') \<Longrightarrow> reservation_step d d'"

inductive_cases reservation_stepE: "reservation_step d d'"

inductive reservation_steps :: "db \<Rightarrow> db \<Rightarrow> bool" where
  none: "reservation_steps d d"
| more: "reservation_steps d d' \<Longrightarrow> reservation_step d' d'' \<Longrightarrow> reservation_steps d d''"

text \<open>A reservation is open without an end, or closed with one; it holds one unit.\<close>

definition reservation_row_ok :: "allocation_reservation \<Rightarrow> bool" where
  "reservation_row_ok r =
     (ar_quantity r = 1 \<and> (ar_status r = RESERVED \<longleftrightarrow> ar_finalized_at r = None))"

definition reservations_ok :: "db \<Rightarrow> bool" where
  "reservations_ok d =
     (reservations_unique (reservations d) \<and> list_all reservation_row_ok (reservations d))"

interpretation finalized_row: keyed_update ar_id "finalized st why now" for st why now
  by unfold_locales (simp add: finalized_def)

interpretation finalized_owner: keyed_update ar_attempt "finalized st why now" for st why now
  by unfold_locales (simp add: finalized_def)

interpretation snapshot_row: keyed_update at_id "snapshot_attempt d s ca sa pct" for d s ca sa pct
  by unfold_locales (simp add: snapshot_attempt_def)

lemma finalized_fields [simp]:
  "ar_status (finalized st why now r) = st" "ar_id (finalized st why now r) = ar_id r"
  "ar_attempt (finalized st why now r) = ar_attempt r"
  "ar_quantity (finalized st why now r) = ar_quantity r"
  "ar_finalized_at (finalized st why now r) = Some now"
  by (simp_all add: finalized_def)

lemma close_row_ok:
  assumes "reservations_ok d" and "st \<noteq> RESERVED"
  shows "reservations_ok (update_reservations P (finalized st why now) d)"
  using assms
  by (auto simp: reservations_ok_def reservations_unique_def update_reservations_def list_all_iff
      set_update_where reservation_row_ok_def finalized_row.unique_kept finalized_owner.unique_kept)

lemma reserve_cases:
  assumes "reserve_attempt_capacity d a sa ca expires ttl now = Inr (r, d')"
  obtains (old) "reservation_of_attempt d a = Some r" "d' = d"
  | (new) att s vendor cl cal sal pct where
      "reservation_of_attempt d a = None" "get_attempt d a = Some att"
      "chosen_client_allocation d sa ca = Inr cal" "locked_survey_allocation d sa = Inr sal"
      "get_survey d (at_survey att) = Some s" "get_user d (vca_vendor cal) = Some vendor"
      "get_client d (vca_client cal) = Some cl"
      "reserve_checks d s vendor cl att cal sal now = Inr ()" "supplier_cut d cal sal = Inr pct"
      "r = new_reservation d att cal sal (case expires of Some t \<Rightarrow> t | None \<Rightarrow> now + minutes ttl) now"
      "d' = (update_attempts (\<lambda>b. at_id b = a) (snapshot_attempt d s cal sal pct) d)
              \<lparr>reservations := reservations d @ [r]\<rparr>"
  using assms
  by (auto simp: reserve_attempt_capacity_def Let_def split: option.splits sum.splits)

lemma reserve_ok:
  assumes ok: "reservations_ok d" and r: "reserve_attempt_capacity d a sa ca expires ttl now = Inr (r, d')"
  shows "reservations_ok d'"
  using r
proof (cases rule: reserve_cases)
  case old
  with ok show ?thesis by simp
next
  case (new att s vendor cl cal sal pct)
  have "at_id att = a" using new(2) by (auto simp: get_attempt_def dest: row_by_pk_Some)
  then have owner: "ar_attempt r = a" and key: "ar_id r = next_pk ar_id (reservations d)"
    and row: "reservation_row_ok r" and rows: "reservations d' = reservations d @ [r]"
    using new by (simp_all add: new_reservation_def reservation_row_ok_def)
  have "ar_attempt r \<notin> ar_attempt ` set (reservations d)"
    using new(1) owner by (auto simp: reservation_of_attempt_def find_None_iff)
  moreover have "ar_id r \<notin> ar_id ` set (reservations d)"
    unfolding key by (rule next_pk_fresh)
  ultimately show ?thesis
    using ok row unfolding reservations_ok_def reservations_unique_def rows
    by (auto intro: unique_insert)
qed

lemma finalize_cases:
  assumes "finalize_attempt_capacity d a status now = (r, d')"
  obtains (same) "r = reservation_of_attempt d a" "\<forall>q. r = Some q \<longrightarrow> ar_status q \<noteq> RESERVED" "d' = d"
  | (closed) q st why where "reservation_of_attempt d a = Some q" "ar_status q = RESERVED"
      "st = (if status = COMPLETED then CONSUMED else RELEASED)"
      "r = Some (finalized st why now q)"
      "d' = update_reservations (\<lambda>p. ar_id p = ar_id q) (finalized st why now) d"
  using assms
  by (auto simp: finalize_attempt_capacity_def Let_def split: option.splits if_splits)

lemma expire_cases:
  assumes "expire_reservation d i now finished = Inr (r, d')"
  obtains (same) "get_reservation d i = Some r" "ar_status r \<noteq> RESERVED" "d' = d"
  | (closed) q where "get_reservation d i = Some q" "ar_status q = RESERVED" "ar_expires_at q \<le> now"
      "r = finalized EXPIRED ''Reservation expired before a terminal callback'' finished q"
      "d' = update_reservations (\<lambda>p. ar_id p = i)
              (finalized EXPIRED ''Reservation expired before a terminal callback'' finished) d"
  using assms
  by (auto simp: expire_reservation_def Let_def not_less split: option.splits if_splits)

lemma reservation_step_ok: "reservation_step d d' \<Longrightarrow> reservations_ok d \<Longrightarrow> reservations_ok d'"
proof (erule reservation_stepE)
  fix a sa ca expires ttl now r
  assume "reservations_ok d" and "reserve_attempt_capacity d a sa ca expires ttl now = Inr (r, d')"
  then show "reservations_ok d'" by (rule reserve_ok)
next
  fix a status now r
  assume ok: "reservations_ok d" and "finalize_attempt_capacity d a status now = (r, d')"
  from this(2) show "reservations_ok d'"
    by (cases rule: finalize_cases) (use ok in \<open>auto intro: close_row_ok\<close>)
next
  fix i now finished r
  assume ok: "reservations_ok d" and "expire_reservation d i now finished = Inr (r, d')"
  from this(2) show "reservations_ok d'"
    by (cases rule: expire_cases) (use ok in \<open>auto intro: close_row_ok\<close>)
qed

lemma closed_row_kept:
  assumes ok: "reservations_ok d" and p: "p \<in> set (reservations d)" "ar_status p \<noteq> RESERVED"
    and q: "q \<in> set (reservations d)" "ar_status q = RESERVED"
  shows "p \<in> set (reservations (update_reservations (\<lambda>x. ar_id x = ar_id q) f d))"
proof -
  have "ar_id p \<noteq> ar_id q"
    using assms by (auto simp: reservations_ok_def reservations_unique_def unique_by_def
        distinct_map dest: inj_onD)
  with p show ?thesis by (simp add: update_reservations_def set_update_where)
qed

lemma reservation_step_closed:
  assumes step: "reservation_step d d'" and ok: "reservations_ok d"
    and p: "p \<in> set (reservations d)" "ar_status p \<noteq> RESERVED"
  shows "p \<in> set (reservations d')"
  using step
proof (rule reservation_stepE)
  fix a sa ca expires ttl now r
  assume "reserve_attempt_capacity d a sa ca expires ttl now = Inr (r, d')"
  then show ?thesis by (cases rule: reserve_cases) (use p in auto)
next
  fix a status now r
  assume "finalize_attempt_capacity d a status now = (r, d')"
  then show ?thesis
  proof (cases rule: finalize_cases)
    case same
    with p show ?thesis by simp
  next
    case (closed q st why)
    then have "q \<in> set (reservations d)" by (auto simp: reservation_of_attempt_def dest: find_SomeD)
    with closed_row_kept [OF ok p] closed show ?thesis by auto
  qed
next
  fix i now finished r
  assume "expire_reservation d i now finished = Inr (r, d')"
  then show ?thesis
  proof (cases rule: expire_cases)
    case same
    with p show ?thesis by simp
  next
    case (closed q)
    then have "q \<in> set (reservations d)" "ar_id q = i"
      by (auto simp: get_reservation_def dest: row_by_pk_Some)
    with closed_row_kept [OF ok p] closed show ?thesis by auto
  qed
qed

lemma reservation_steps_ok: "reservation_steps d d' \<Longrightarrow> reservations_ok d \<Longrightarrow> reservations_ok d'"
  by (induction rule: reservation_steps.induct) (auto intro: reservation_step_ok)

lemma reservation_steps_closed:
  "reservation_steps d d' \<Longrightarrow> reservations_ok d \<Longrightarrow> p \<in> set (reservations d) \<Longrightarrow>
   ar_status p \<noteq> RESERVED \<Longrightarrow> p \<in> set (reservations d')"
  by (induction rule: reservation_steps.induct)
    (auto intro: reservation_step_closed reservation_steps_ok)

section \<open>The expiry task closes what it examined\<close>

lemma expirable_idsD:
  assumes "i \<in> set (expirable_ids d now n)"
  obtains r where "r \<in> set (reservations d)" "ar_id r = i" "ar_status r = RESERVED"
    "ar_expires_at r \<le> now"
proof -
  let ?rows = "filter (\<lambda>r. ar_status r = RESERVED \<and> ar_expires_at r \<le> now) (reservations d)"
  from assms obtain r where "r \<in> set (take n (sort_key ar_expires_at ?rows))" and "ar_id r = i"
    by (auto simp: expirable_ids_def)
  then have "r \<in> set ?rows" by (metis in_set_takeD set_sort)
  with \<open>ar_id r = i\<close> that show thesis by auto
qed

text \<open>While the loop runs, every id still to come is a reservation that has expired by the
  clock, or is closed already.\<close>

definition due_or_closed :: "db \<Rightarrow> timestamp \<Rightarrow> pk \<Rightarrow> bool" where
  "due_or_closed d now i =
     (case get_reservation d i of
        None \<Rightarrow> True | Some r \<Rightarrow> ar_status r = RESERVED \<longrightarrow> ar_expires_at r \<le> now)"

definition closed_now :: "db \<Rightarrow> pk \<Rightarrow> bool" where
  "closed_now d i = (case get_reservation d i of None \<Rightarrow> True | Some r \<Rightarrow> ar_status r \<noteq> RESERVED)"

lemma get_reservation_finalized:
  "get_reservation (update_reservations P (finalized st why now) d) j =
   map_option (\<lambda>r. if P r then finalized st why now r else r) (get_reservation d j)"
  by (simp add: get_reservation_def update_reservations_def row_by_pk_update)

lemma due_or_closed_finalized:
  "due_or_closed d now j \<Longrightarrow> st \<noteq> RESERVED \<Longrightarrow>
   due_or_closed (update_reservations P (finalized st why t) d) now j"
  by (auto simp: due_or_closed_def get_reservation_finalized split: option.splits)

lemma closed_now_finalized:
  "closed_now d j \<Longrightarrow> st \<noteq> RESERVED \<Longrightarrow> closed_now (update_reservations P (finalized st why t) d) j"
  by (auto simp: closed_now_def get_reservation_finalized split: option.splits)

lemma expire_loop_closes:
  assumes "\<And>i. i \<in> set ids \<Longrightarrow> due_or_closed d now i" and "\<And>j. now \<le> clock j"
  shows "\<exists>d' n. expire_loop d clock k ids expired = (d', Inr n)
           \<and> (\<forall>i \<in> set ids. closed_now d' i) \<and> (\<forall>j. closed_now d j \<longrightarrow> closed_now d' j)
           \<and> n \<le> expired + length ids"
  using assms(1)
proof (induction ids arbitrary: d k expired)
  case Nil
  then show ?case by simp
next
  case (Cons i ids)
  show ?case
  proof (cases "closed_now d i")
    case True
    then have skip: "expire_loop d clock k (i # ids) expired = expire_loop d clock k ids expired"
      by (auto simp: closed_now_def split: option.splits)
    have "due_or_closed d now j" if "j \<in> set ids" for j using Cons.prems that by simp
    from Cons.IH [OF this, of k expired] obtain d' n
      where "expire_loop d clock k ids expired = (d', Inr n)" "\<forall>j \<in> set ids. closed_now d' j"
        "\<forall>j. closed_now d j \<longrightarrow> closed_now d' j" "n \<le> expired + length ids" by blast
    with skip True show ?thesis by auto
  next
    case False
    then obtain r where r: "get_reservation d i = Some r" "ar_status r = RESERVED"
      by (auto simp: closed_now_def split: option.splits)
    let ?d = "update_reservations (\<lambda>q. ar_id q = i)
        (finalized EXPIRED ''Reservation expired before a terminal callback'' (clock (Suc k))) d"
    have "ar_expires_at r \<le> clock k"
      using Cons.prems [of i] r assms(2) [of k] by (simp add: due_or_closed_def)
    with r have step: "expire_loop d clock k (i # ids) expired
        = expire_loop ?d clock (k + 2) ids (Suc expired)"
      by (simp add: expire_reservation_def Let_def)
    have "due_or_closed ?d now j" if "j \<in> set ids" for j
      using Cons.prems that by (auto intro: due_or_closed_finalized)
    from Cons.IH [OF this, of "k + 2" "Suc expired"] obtain d' n
      where run: "expire_loop ?d clock (k + 2) ids (Suc expired) = (d', Inr n)"
        "\<forall>j \<in> set ids. closed_now d' j" "\<forall>j. closed_now ?d j \<longrightarrow> closed_now d' j"
        "n \<le> Suc expired + length ids" by blast
    have "ar_id r = i" using r(1) by (auto simp: get_reservation_def dest: row_by_pk_Some)
    then have "closed_now ?d i" by (simp add: closed_now_def get_reservation_finalized r)
    with step run show ?thesis by (auto intro: closed_now_finalized)
  qed
qed

lemma expirable_due:
  assumes "reservations_ok d" and "i \<in> set (expirable_ids d now n)"
  shows "due_or_closed d now i"
  using assms(2)
proof (rule expirable_idsD)
  fix r
  assume r: "r \<in> set (reservations d)" "ar_id r = i" "ar_expires_at r \<le> now"
  have "get_reservation d i = Some r"
    using r(1,2) assms(1) row_by_pk_unique [of ar_id "reservations d" r]
    by (simp add: get_reservation_def reservations_ok_def reservations_unique_def unique_by_def)
  with r show ?thesis by (simp add: due_or_closed_def)
qed

end
