(* ===== verification/Sequences.thy ===== *)
theory Sequences
  imports Database
begin

text \<open>
  \<open>LocalIdSequence\<close>, \<open>SyncLease\<close> and \<open>Survey.save\<close> of \<open>surveys/models.py\<close>: the monthly
  counter that issues the 14-digit project identifiers, the database lease that keeps a
  recurring job single-flight, and the identifiers of a survey row.  A year is one of
  Python's (1 to 9999), so the \<open>%Y%m\<close> prefix has six characters.
\<close>

section \<open>Monthly identifiers\<close>

definition month_prefix :: "nat \<times> nat \<Rightarrow> string" where
  "month_prefix ym = zero_pad 4 (show_nat (fst ym)) @ zero_pad 2 (show_nat (snd ym))"

definition python_month :: "nat \<times> nat \<Rightarrow> bool" where
  "python_month ym = (1 \<le> fst ym \<and> fst ym \<le> 9999 \<and> 1 \<le> snd ym \<and> snd ym \<le> 12)"

definition format_local_id :: "string \<Rightarrow> nat \<Rightarrow> string" where
  "format_local_id ym value = ym @ zero_pad 8 (show_nat value)"

definition last_value :: "db \<Rightarrow> string \<Rightarrow> nat" where
  "last_value d ym =
     (case List.find (\<lambda>s. lis_year_month s = ym) (sequences d) of
        Some s \<Rightarrow> lis_last_value s | None \<Rightarrow> 0)"

text \<open>\<open>get_or_create(year_month=prefix)\<close>, then the locked row.\<close>

definition ensure_sequence :: "db \<Rightarrow> string \<Rightarrow> db" where
  "ensure_sequence d ym =
     (if List.find (\<lambda>s. lis_year_month s = ym) (sequences d) = None
      then d\<lparr>sequences := sequences d @ [\<lparr>lis_year_month = ym, lis_last_value = 0\<rparr>]\<rparr> else d)"

definition set_sequence :: "string \<Rightarrow> nat \<Rightarrow> db \<Rightarrow> db" where
  "set_sequence ym n d =
     d\<lparr>sequences := update_where (\<lambda>s. lis_year_month s = ym) (\<lambda>s. s\<lparr>lis_last_value := n\<rparr>) (sequences d)\<rparr>"

definition next_ids :: "db \<Rightarrow> int \<Rightarrow> nat \<times> nat \<Rightarrow> string list \<times> db" where
  "next_ids d count today =
     (if count < 1 then ([], d)
      else
        let ym = month_prefix today;
            d1 = ensure_sequence d ym;
            first_value = last_value d1 ym + 1;
            last = last_value d1 ym + nat count
        in (map (format_local_id ym) [first_value..<last + 1], set_sequence ym last d1))"

definition next_id :: "db \<Rightarrow> nat \<times> nat \<Rightarrow> string \<times> db" where
  "next_id d today = (let (ids, d') = next_ids d 1 today in (hd ids, d'))"

text \<open>A history of calls, with every identifier issued so far.\<close>

fun issue_all :: "db \<Rightarrow> (int \<times> nat \<times> nat) list \<Rightarrow> string list \<times> db" where
  "issue_all d [] = ([], d)"
| "issue_all d ((count, today) # calls) =
     (let (ids, d') = next_ids d count today; (more, d'') = issue_all d' calls in (ids @ more, d''))"

lemma length_month_prefix:
  assumes "python_month ym" shows "length (month_prefix ym) = 6"
proof -
  have "length (show_nat (fst ym)) \<le> Suc 3" "length (show_nat (snd ym)) \<le> Suc 1"
    using assms by (intro length_show_nat_le; simp add: python_month_def)+
  then show ?thesis by (simp add: month_prefix_def length_zero_pad)
qed

lemma month_prefix_inj:
  assumes "python_month a" "python_month b" "month_prefix a = month_prefix b"
  shows "a = b"
proof -
  have len: "length (zero_pad 4 (show_nat (fst ym))) = 4" if "python_month ym" for ym
    using that length_show_nat_le [of "fst ym" 3]
    by (intro length_zero_pad) (simp add: python_month_def)
  from assms have "zero_pad 4 (show_nat (fst a)) = zero_pad 4 (show_nat (fst b))"
    and "zero_pad 2 (show_nat (snd a)) = zero_pad 2 (show_nat (snd b))"
    using len by (auto simp: month_prefix_def append_eq_append_conv)
  then show ?thesis by (auto dest!: zero_pad_inj intro: prod_eqI)
qed

lemma format_local_id_inj:
  "length ym = length ym' \<Longrightarrow> format_local_id ym v = format_local_id ym' w \<Longrightarrow> ym = ym' \<and> v = w"
  by (auto simp: format_local_id_def append_eq_append_conv dest: zero_pad_inj)

lemma length_format_local_id:
  assumes "python_month ym" "value < 10 ^ 8"
  shows "length (format_local_id (month_prefix ym) value) = 14"
  using assms length_show_nat_le [of "value" 7]
  by (simp add: format_local_id_def length_month_prefix length_zero_pad)

interpretation sequence_row: keyed_update lis_year_month "\<lambda>s. s\<lparr>lis_last_value := n\<rparr>" for n
  by unfold_locales simp

lemma last_value_ensure [simp]: "last_value (ensure_sequence d ym) m = last_value d m"
  by (auto simp: ensure_sequence_def last_value_def find_append split: option.splits)

lemma ensure_sequence_present:
  "List.find (\<lambda>s. lis_year_month s = ym) (sequences (ensure_sequence d ym)) \<noteq> None"
  by (auto simp: ensure_sequence_def find_append split: option.splits)

lemma last_value_set:
  assumes "List.find (\<lambda>s. lis_year_month s = ym) (sequences d) \<noteq> None"
  shows "last_value (set_sequence ym n d) m = (if m = ym then n else last_value d m)"
proof (cases "List.find (\<lambda>s. lis_year_month s = m) (sequences d)")
  case None
  with assms show ?thesis
    by (auto simp: last_value_def set_sequence_def sequence_row.find_kept)
next
  case (Some l)
  then have "lis_year_month l = m" by (auto dest: find_SomeD)
  with Some show ?thesis by (auto simp: last_value_def set_sequence_def sequence_row.find_kept)
qed

lemma last_value_next_ids:
  assumes "next_ids d count today = (ids, d')"
  shows "last_value d' ym = last_value d ym
           + (if ym = month_prefix today then nat count else 0)"
  using assms ensure_sequence_present [of "month_prefix today" d]
  by (cases "count < 1") (auto simp: next_ids_def Let_def last_value_set)

lemma next_ids_values:
  "next_ids d count today = (ids, d') \<Longrightarrow>
   ids = map (format_local_id (month_prefix today))
           [last_value d (month_prefix today) + 1..<last_value d' (month_prefix today) + 1]"
  using last_value_next_ids [of d count today ids d' "month_prefix today"]
  by (cases "count < 1") (auto simp: next_ids_def Let_def)

lemma next_ids_member:
  assumes "next_ids d count today = (ids, d')" and "x \<in> set ids"
  obtains v where "last_value d (month_prefix today) < v" "v \<le> last_value d' (month_prefix today)"
    "x = format_local_id (month_prefix today) v"
proof -
  from assms(2) obtain v where
    "v \<in> set [last_value d (month_prefix today) + 1..<last_value d' (month_prefix today) + 1]"
    and "x = format_local_id (month_prefix today) v"
    unfolding next_ids_values [OF assms(1)] set_map by (rule imageE)
  then show thesis by (intro that [of v]) (simp_all only: set_upt atLeastLessThan_iff, linarith+)
qed

lemma issue_all_range:
  assumes "issue_all d calls = (ids, d')" and "\<forall>call \<in> set calls. python_month (snd call)"
  shows "(\<forall>ym. last_value d ym \<le> last_value d' ym)
    \<and> (\<forall>x \<in> set ids. \<exists>today v. python_month today \<and> last_value d (month_prefix today) < v
         \<and> v \<le> last_value d' (month_prefix today) \<and> x = format_local_id (month_prefix today) v)"
  using assms
proof (induction calls arbitrary: d ids d')
  case Nil
  then show ?case by simp
next
  case (Cons call calls)
  obtain count today where call: "call = (count, today)" by (cases call)
  obtain now d1 where now: "next_ids d count today = (now, d1)" by (cases "next_ids d count today")
  obtain more where more: "issue_all d1 calls = (more, d')" and ids: "ids = now @ more"
    using Cons.prems(1) call now by (auto split: prod.splits)
  note IH = Cons.IH [OF more]
  have mono: "last_value d ym \<le> last_value d1 ym" for ym
    using last_value_next_ids [OF now, of ym] by simp
  have today: "python_month today" using Cons.prems(2) call by simp
  have "\<exists>t v. python_month t \<and> last_value d (month_prefix t) < v
         \<and> v \<le> last_value d' (month_prefix t) \<and> x = format_local_id (month_prefix t) v"
    if x: "x \<in> set ids" for x
  proof (cases "x \<in> set now")
    case True
    then obtain v where "last_value d (month_prefix today) < v" "v \<le> last_value d1 (month_prefix today)"
        "x = format_local_id (month_prefix today) v"
      by (rule next_ids_member [OF now])
    moreover have "last_value d1 (month_prefix today) \<le> last_value d' (month_prefix today)"
      using IH Cons.prems(2) by simp
    ultimately show ?thesis using today by (intro exI [of _ today] exI [of _ v]) simp
  next
    case False
    with x ids have "x \<in> set more" by simp
    with IH Cons.prems(2) obtain t v where "python_month t" "last_value d1 (month_prefix t) < v"
        "v \<le> last_value d' (month_prefix t)" "x = format_local_id (month_prefix t) v" by auto
    moreover have "last_value d (month_prefix t) \<le> last_value d1 (month_prefix t)" by (rule mono)
    ultimately show ?thesis by (intro exI [of _ t] exI [of _ v]) simp
  qed
  with IH mono Cons.prems(2) show ?case by (meson le_trans list.set_intros(2))
qed

lemma issue_all_distinct:
  assumes "issue_all d calls = (ids, d')" and "\<forall>call \<in> set calls. python_month (snd call)"
  shows "distinct ids"
  using assms
proof (induction calls arbitrary: d ids d')
  case Nil
  then show ?case by simp
next
  case (Cons call calls)
  obtain count today where call: "call = (count, today)" by (cases call)
  obtain now d1 where now: "next_ids d count today = (now, d1)" by (cases "next_ids d count today")
  obtain more where more: "issue_all d1 calls = (more, d')" and ids: "ids = now @ more"
    using Cons.prems(1) call now by (auto split: prod.splits)
  have today: "python_month today" and later: "\<forall>call \<in> set calls. python_month (snd call)"
    using Cons.prems(2) call by auto
  have "distinct now"
    using next_ids_values [OF now] by (auto simp: distinct_map inj_on_def dest: format_local_id_inj [OF refl])
  moreover have "distinct more" using Cons.IH [OF more later] .
  moreover have "set now \<inter> set more = {}"
  proof (rule ccontr)
    assume "set now \<inter> set more \<noteq> {}"
    then obtain x where "x \<in> set now" "x \<in> set more" by blast
    obtain v where v: "v \<le> last_value d1 (month_prefix today)"
        "x = format_local_id (month_prefix today) v"
      by (rule next_ids_member [OF now \<open>x \<in> set now\<close>])
    obtain t w where w: "python_month t" "last_value d1 (month_prefix t) < w"
        "x = format_local_id (month_prefix t) w"
      using issue_all_range [OF more later] \<open>x \<in> set more\<close> by blast
    have "month_prefix today = month_prefix t \<and> v = w"
      using v w today length_month_prefix by (intro format_local_id_inj) auto
    with v w show False by simp
  qed
  ultimately show ?case using ids by simp
qed

section \<open>Single-flight lease\<close>

definition lease_until :: "db \<Rightarrow> string \<Rightarrow> timestamp option" where
  "lease_until d name =
     (case List.find (\<lambda>l. sl_name l = name) (leases d) of
        Some l \<Rightarrow> sl_locked_until l | None \<Rightarrow> None)"

text \<open>\<open>get_or_create(name=name)\<close>, then the locked row.\<close>

definition ensure_lease :: "db \<Rightarrow> string \<Rightarrow> db" where
  "ensure_lease d name =
     (if List.find (\<lambda>l. sl_name l = name) (leases d) = None
      then d\<lparr>leases := leases d @ [\<lparr>sl_name = name, sl_locked_until = None\<rparr>]\<rparr> else d)"

definition set_lease :: "string \<Rightarrow> timestamp option \<Rightarrow> db \<Rightarrow> db" where
  "set_lease name until d =
     d\<lparr>leases := update_where (\<lambda>l. sl_name l = name) (\<lambda>l. l\<lparr>sl_locked_until := until\<rparr>) (leases d)\<rparr>"

definition lease_acquire :: "db \<Rightarrow> string \<Rightarrow> int \<Rightarrow> timestamp \<Rightarrow> bool \<times> db" where
  "lease_acquire d name secs now =
     (let d1 = ensure_lease d name
      in if (case lease_until d1 name of Some t \<Rightarrow> now < t | None \<Rightarrow> False) then (False, d1)
         else (True, set_lease name (Some (now + seconds secs)) d1))"

definition lease_release :: "db \<Rightarrow> string \<Rightarrow> db" where
  "lease_release d name = set_lease name None d"

datatype lease_event = Acquire string int timestamp | Release string

fun lease_run :: "db \<Rightarrow> lease_event list \<Rightarrow> bool list \<times> db" where
  "lease_run d [] = ([], d)"
| "lease_run d (Acquire n secs t # es) =
     (let (got, d') = lease_acquire d n secs t; (rest, d'') = lease_run d' es in (got # rest, d''))"
| "lease_run d (Release n # es) = (let (rest, d'') = lease_run (lease_release d n) es in (True # rest, d''))"

interpretation lease_row: keyed_update sl_name "\<lambda>l. l\<lparr>sl_locked_until := v\<rparr>" for v
  by unfold_locales simp

lemma lease_until_ensure [simp]: "lease_until (ensure_lease d n) m = lease_until d m"
  by (auto simp: ensure_lease_def lease_until_def find_append split: option.splits)

lemma ensure_lease_present: "List.find (\<lambda>l. sl_name l = n) (leases (ensure_lease d n)) \<noteq> None"
  by (auto simp: ensure_lease_def find_append split: option.splits)

lemma lease_until_set:
  "lease_until (set_lease n v d) m =
     (if m = n \<and> List.find (\<lambda>l. sl_name l = n) (leases d) \<noteq> None then v else lease_until d m)"
proof (cases "List.find (\<lambda>l. sl_name l = m) (leases d)")
  case None
  then show ?thesis by (auto simp: lease_until_def set_lease_def lease_row.find_kept)
next
  case (Some l)
  then have "sl_name l = m" by (auto dest: find_SomeD)
  with Some show ?thesis by (auto simp: lease_until_def set_lease_def lease_row.find_kept)
qed

lemma lease_acquire_until:
  assumes "lease_acquire d n secs now = (got, d')"
  shows "(got \<longleftrightarrow> (case lease_until d n of Some t \<Rightarrow> t \<le> now | None \<Rightarrow> True))
   \<and> lease_until d' m = (if got \<and> m = n then Some (now + seconds secs) else lease_until d m)"
  using assms ensure_lease_present [of n d]
  by (cases "lease_until d n") (auto simp: lease_acquire_def Let_def lease_until_set split: if_splits)

lemma lease_release_until:
  "lease_until (lease_release d n) m = (if m = n then None else lease_until d m)"
  by (auto simp: lease_release_def lease_until_set) (simp add: lease_until_def)

text \<open>While the lease of a name runs and is not released, no acquisition of it succeeds.\<close>

fun within_lease :: "string \<Rightarrow> timestamp \<Rightarrow> lease_event \<Rightarrow> bool" where
  "within_lease name until (Acquire n secs t) = (n = name \<longrightarrow> t < until)"
| "within_lease name until (Release n) = (n \<noteq> name)"

fun acquires :: "string \<Rightarrow> lease_event \<Rightarrow> bool" where
  "acquires name (Acquire n secs t) = (n = name)"
| "acquires name (Release n) = False"

lemma lease_run_excludes:
  "lease_until d name = Some until \<Longrightarrow> \<forall>e \<in> set es. within_lease name until e \<Longrightarrow>
   lease_run d es = (results, d') \<Longrightarrow>
   lease_until d' name = Some until
   \<and> (\<forall>(e, got) \<in> set (zip es results). acquires name e \<longrightarrow> \<not> got)"
proof (induction es arbitrary: d results)
  case Nil
  then show ?case by simp
next
  case (Cons e es)
  show ?case
  proof (cases e)
    case (Acquire n secs t)
    obtain got d1 where got: "lease_acquire d n secs t = (got, d1)" by (cases "lease_acquire d n secs t")
    obtain rest where rest: "lease_run d1 es = (rest, d')" "results = got # rest"
      using Cons.prems(3) Acquire got by (auto split: prod.splits)
    have "n = name \<Longrightarrow> \<not> got" and kept: "lease_until d1 name = Some until"
      using lease_acquire_until [OF got, of name] Cons.prems(1,2) Acquire by auto
    with Cons.IH [OF kept _ rest(1)] Cons.prems(2) Acquire rest(2) show ?thesis by auto
  next
    case (Release n)
    then have kept: "lease_until (lease_release d n) name = Some until"
      using Cons.prems(1,2) by (auto simp: lease_release_until)
    obtain rest where rest: "lease_run (lease_release d n) es = (rest, d')" "results = True # rest"
      using Cons.prems(3) Release by (auto split: prod.splits)
    with Cons.IH [OF kept _ rest(1)] Cons.prems(2) Release show ?thesis by auto
  qed
qed

section \<open>Survey identifiers\<close>

definition survey_save :: "db \<Rightarrow> survey \<Rightarrow> nat \<times> nat \<Rightarrow> survey \<times> db" where
  "survey_save d s today =
     (let (s1, d1) = (if sv_local_id s = []
                      then let (i, d') = next_id d today in (s\<lparr>sv_local_id := i\<rparr>, d')
                      else (s, d))
      in (case sv_source_id s1 of
            Some n \<Rightarrow> (if sv_source_key s1 = [] then s1\<lparr>sv_source_key := show_nat n\<rparr> else s1)
          | None \<Rightarrow> s1, d1))"

datatype source_identifier = NumericId nat | KeyId string | NoId

definition source_identifier :: "survey \<Rightarrow> source_identifier" where
  "source_identifier s =
     (case sv_source_id s of
        Some n \<Rightarrow>
          if sv_source_key s \<in> {[], show_nat n} then NumericId n
          else KeyId (sv_source_key s)
      | None \<Rightarrow> if sv_source_key s \<noteq> [] then KeyId (sv_source_key s) else NoId)"

lemma survey_save_keeps_id: "sv_local_id s \<noteq> [] \<Longrightarrow> snd (survey_save d s today) = d
    \<and> sv_local_id (fst (survey_save d s today)) = sv_local_id s"
  by (auto simp: survey_save_def split: option.splits)

lemma survey_save_identifier:
  "source_identifier (fst (survey_save d s today)) = source_identifier s"
  by (auto simp: survey_save_def source_identifier_def split: option.splits prod.splits)

end
