(* ===== verification/Lifecycle_Properties.thy ===== *)
theory Lifecycle_Properties
  imports Reservations Sequences Samples
begin

text \<open>
  Properties of reservations, monthly identifiers and leases: what every history of
  reservation operations keeps, that reserving and finalising are idempotent, what a granted
  reservation froze, that the expiry task finishes its batch, that identifiers never repeat and
  that a lease excludes.
\<close>

section \<open>Reservations\<close>

text \<open>C2: In every history of reserve, finalise and expire operations each attempt has at most one
  reservation, each reservation holds one unit and is open exactly while it has no end time, and
  a consumed, released or expired reservation is never changed again.\<close>

theorem reservation_history:
  assumes "reservation_steps d d'" and "reservations_ok d"
  shows "reservations_ok d'
    \<and> (\<forall>p \<in> set (reservations d). ar_status p \<noteq> RESERVED \<longrightarrow> p \<in> set (reservations d'))"
  using reservation_steps_ok [OF assms] reservation_steps_closed [OF assms] by blast

lemmas reserve_defs = reserve_attempt_capacity_def chosen_client_allocation_def
  locked_survey_allocation_def reserve_checks_def ensure_def client_active_now_def
  active_window_def supplier_cut_def effective_cut_def client_cut_def Let_def

lemma sample_reserved:
  obtains r d' where "reserve_attempt_capacity sample_db 9 None (Some 21) None 30 100 = Inr (r, d')"
    "r = new_reservation sample_db sample_attempt (sample_allocation 21 31) None (100 + minutes 30) 100"
    "reservations d' = [r]"
  by (simp add: reserve_defs sample_lookups update_attempts_def)

lemma sample_reservations_ok: "reservations_ok sample_db"
  by (simp add: reservations_ok_def reservations_unique_def unique_by_def)

lemma reservation_history_witness: "\<exists>d'. reservation_step sample_db d' \<and> reservations_ok d'"
proof (rule sample_reserved)
  fix r d'
  assume run: "reserve_attempt_capacity sample_db 9 None (Some 21) None 30 100 = Inr (r, d')"
  then have step: "reservation_step sample_db d'" by (rule reservation_step.reserve)
  then have "reservation_steps sample_db d'" by (rule reservation_steps.more [OF reservation_steps.none])
  from reservation_history [OF this sample_reservations_ok] step show ?thesis by blast
qed

lemma reserve_attempt_kept:
  assumes "reserve_attempt_capacity d a sa ca e ttl now = Inr (r, d')"
  shows "get_attempt d' a \<noteq> None \<and> reservation_of_attempt d' a = Some r"
  using assms
proof (cases rule: reserve_cases)
  case old
  with assms show ?thesis
    by (auto simp: reserve_attempt_capacity_def split: option.splits)
next
  case (new att s vendor cl cal sal pct)
  then have "at_id att = a" by (auto simp: get_attempt_def dest: row_by_pk_Some)
  with new show ?thesis
    using get_attempt_update [of "snapshot_attempt d s cal sal pct" "\<lambda>b. at_id b = a" d a]
    by (simp add: reservation_of_attempt_def find_append new_reservation_def get_attempt_def
        update_attempts_def snapshot_attempt_def)
qed

text \<open>Reserving is idempotent: once an attempt has a reservation, any later call for it, with
  whatever allocations, expiry and clock, returns that reservation and changes nothing.\<close>

theorem reserve_idempotent:
  assumes "reserve_attempt_capacity d a sa ca e ttl now = Inr (r, d')"
  shows "reserve_attempt_capacity d' a sa' ca' e' ttl' now' = Inr (r, d')"
  using reserve_attempt_kept [OF assms]
  by (auto simp: reserve_attempt_capacity_def)

lemma reserve_idempotent_witness:
  "\<exists>r d'. reserve_attempt_capacity sample_db 9 None (Some 21) None 30 100 = Inr (r, d')
     \<and> reserve_attempt_capacity d' 9 None None None 5 900 = Inr (r, d')"
  by (rule sample_reserved) (blast intro: reserve_idempotent)

text \<open>What a reservation demands: the allocations are the ones that were passed -- the client allocation
  is the one of the survey allocation if only that was passed --, supplier and client are active, the
  supplier's commercial profile is active, a survey allocation is for the attempt's survey and running,
  the client allocation is for the survey's client and running, and upstream quantity is left.\<close>

definition named_allocations ::
  "db \<Rightarrow> pk option \<Rightarrow> pk option \<Rightarrow> vendor_survey_allocation option \<Rightarrow> vendor_client_allocation \<Rightarrow> bool" where
  "named_allocations d sa ca sal cal \<longleftrightarrow>
     (case sa of None \<Rightarrow> sal = None | Some j \<Rightarrow> \<exists>x. get_survey_allocation d j = Some x \<and> sal = Some x)
     \<and> (case ca of Some i \<Rightarrow> get_client_allocation d i = Some cal
        | None \<Rightarrow> \<exists>x. sal = Some x \<and> get_client_allocation d (vsa_client_allocation x) = Some cal)"

definition reservable ::
  "db \<Rightarrow> survey_attempt \<Rightarrow> survey \<Rightarrow> vendor_survey_allocation option \<Rightarrow> vendor_client_allocation \<Rightarrow> timestamp \<Rightarrow> bool" where
  "reservable d att s sal cal now \<longleftrightarrow>
     (\<exists>vendor. get_user d (vca_vendor cal) = Some vendor \<and> usr_is_active vendor)
     \<and> (\<exists>cl. get_client d (vca_client cal) = Some cl \<and> cl_is_active cl)
     \<and> (\<exists>p. commercial_of_user d (vca_vendor cal) = Some p \<and> vcp_is_active p)
     \<and> sv_client s = Some (vca_client cal)
     \<and> vca_is_active cal \<and> active_window (vca_starts_at cal) (vca_ends_at cal) now
     \<and> (\<forall>x. sal = Some x \<longrightarrow> vsa_survey x = at_survey att
          \<and> vsa_is_active x \<and> active_window (vsa_starts_at x) (vsa_ends_at x) now)
     \<and> 1 \<le> sv_remaining s"

text \<open>The cut of the supplier: the effective one of the allocations, and none within the house.\<close>

definition agreed_cut ::
  "db \<Rightarrow> vendor_survey_allocation option \<Rightarrow> vendor_client_allocation \<Rightarrow> decimal \<Rightarrow> bool" where
  "agreed_cut d sal cal pct \<longleftrightarrow>
     (\<exists>profile cut. profile_of_user d (vca_vendor cal) = Some profile \<and> effective_cut d cal sal = Inr cut
        \<and> pct = (if ep_account_type profile = INTERNAL_VENDOR then 0 else cut))"

text \<open>C31: A new reservation is only granted under every commercial guard: supplier, client and the
  supplier's commercial profile are active, the allocations are running and belong to the attempt's survey
  and its client, and upstream quantity is left.  It holds one unit for the attempt under these
  allocations until the time asked for, and freezes on the attempt the supplier, the client, the
  allocations, the source CPI, the supplier's cut -- none for an internal vendor -- the payable CPI after
  that cut and the currency.  Every other attempt, the allocations and the surveys stay as they are.\<close>

theorem reserve_grants_and_freezes:
  assumes "reserve_attempt_capacity d a sa ca e ttl now = Inr (r, d')"
    and "reservation_of_attempt d a = None"
  shows "\<exists>att s sal cal pct att'. get_attempt d a = Some att \<and> get_survey d (at_survey att) = Some s
    \<and> named_allocations d sa ca sal cal \<and> reservable d att s sal cal now \<and> agreed_cut d sal cal pct
    \<and> reservations d' = reservations d @ [r] \<and> ar_attempt r = a \<and> ar_status r = RESERVED \<and> ar_quantity r = 1
    \<and> ar_client_allocation r = vca_id cal \<and> ar_survey_allocation r = map_option vsa_id sal
    \<and> ar_expires_at r = (case e of Some t \<Rightarrow> t | None \<Rightarrow> now + minutes ttl)
    \<and> get_attempt d' a = Some att'
    \<and> at_vendor att' = Some (vca_vendor cal) \<and> at_client att' = Some (vca_client cal)
    \<and> at_client_allocation att' = Some (vca_id cal) \<and> at_survey_allocation att' = map_option vsa_id sal
    \<and> at_source_cpi_snapshot att' = sv_cpi s \<and> at_cpi_cut_percent_snapshot att' = Some pct
    \<and> at_payable_cpi_snapshot att' = payable_cpi (sv_cpi s) pct
    \<and> (\<forall>p. commercial_of_user d (vca_vendor cal) = Some p \<longrightarrow> at_cpi_currency_snapshot att' = vcp_currency p)
    \<and> (\<forall>b. b \<noteq> a \<longrightarrow> get_attempt d' b = get_attempt d b)
    \<and> client_allocations d' = client_allocations d \<and> survey_allocations d' = survey_allocations d
    \<and> surveys d' = surveys d"
  using assms(1)
proof (cases rule: reserve_cases)
  case old
  with assms(2) show ?thesis by simp
next
  case (new att s vendor cl cal sal pct)
  have att: "at_id att = a" using new(2) by (auto simp: get_attempt_def dest: row_by_pk_Some)
  have named: "named_allocations d sa ca sal cal"
    using new(3,4) by (cases sa; cases ca; cases "get_survey_allocation d (the sa)")
      (auto simp: named_allocations_def chosen_client_allocation_def locked_survey_allocation_def
        of_option_def split: option.splits)
  have guards: "reservable d att s sal cal now"
    using new(6-8) unfolding reserve_checks_def first_error_ok reservable_def
    by (auto simp: client_active_now_def survey_active_now_def split: option.splits)
  have cut: "agreed_cut d sal cal pct"
    using new(9) by (auto simp: supplier_cut_def agreed_cut_def split: option.splits sum.splits)
  have lookup: "get_attempt d' b = map_option (\<lambda>x. if at_id x = a
      then snapshot_attempt d s cal sal pct x else x) (get_attempt d b)" for b
    using get_attempt_update [of "snapshot_attempt d s cal sal pct" "\<lambda>x. at_id x = a" d b] new(11)
    by (simp add: get_attempt_def snapshot_attempt_def)
  have other: "get_attempt d' b = get_attempt d b" if "b \<noteq> a" for b
    using that lookup [of b]
    by (cases "get_attempt d b") (auto simp: get_attempt_def dest: row_by_pk_Some)
  have frozen: "get_attempt d' a = Some (snapshot_attempt d s cal sal pct att)"
    using lookup [of a] new(2) att by simp
  show ?thesis
    using new(2,5) named guards cut att frozen other new(10,11)
    by (intro exI [of _ att] exI [of _ s] exI [of _ sal] exI [of _ cal] exI [of _ pct]
        exI [of _ "snapshot_attempt d s cal sal pct att"])
      (simp add: new_reservation_def snapshot_attempt_def)
qed

lemma reserve_grants_and_freezes_witness:
  "\<exists>d' att'. get_attempt d' 9 = Some att' \<and> at_source_cpi_snapshot att' = Some (5/2)
     \<and> client_allocations d' = client_allocations sample_db"
proof (rule sample_reserved)
  fix r d'
  assume run: "reserve_attempt_capacity sample_db 9 None (Some 21) None 30 100 = Inr (r, d')"
  have "reservation_of_attempt sample_db 9 = None" by (simp add: reservation_of_attempt_def)
  from reserve_grants_and_freezes [OF run this] show ?thesis
    by (force simp: sample_lookups)
qed

text \<open>The first terminal callback decides: finalising consumes the unit of a completed
  attempt and releases it for any other status, and finalising again, with whatever status and
  clock, changes neither the reservation nor the database.\<close>

theorem finalize_once:
  assumes "finalize_attempt_capacity d a status now = (Some r, d')" and "reservations_ok d"
  shows "finalize_attempt_capacity d' a status' now' = (Some r, d')
    \<and> (reservation_of_attempt d a \<noteq> Some r \<longrightarrow>
         ar_status r = (if status = COMPLETED then CONSUMED else RELEASED) \<and> ar_finalized_at r = Some now)"
  using assms(1)
proof (cases rule: finalize_cases)
  case same
  from same(1) have "reservation_of_attempt d a = Some r" by (rule sym)
  with same(2,3) show ?thesis by (simp add: finalize_attempt_capacity_def)
next
  case (closed q st why)
  have q: "q \<in> set (reservations d)" "ar_attempt q = a"
    using closed(1) by (auto simp: reservation_of_attempt_def dest: find_SomeD)
  have "ar_id p = ar_id q \<longleftrightarrow> ar_attempt p = a" if "p \<in> set (reservations d)" for p
    using that q assms(2)
    by (auto simp: reservations_ok_def reservations_unique_def unique_by_def distinct_map inj_on_def)
  then have "reservation_of_attempt d' a = Some (finalized st why now q)"
    using closed(1,5) finalized_owner.find_kept [of a "\<lambda>p. ar_id p = ar_id q" st why now "reservations d"]
    by (simp add: reservation_of_attempt_def update_reservations_def)
  moreover have "st \<noteq> RESERVED" using closed(3) by simp
  ultimately show ?thesis
    using closed by (simp add: finalize_attempt_capacity_def)
qed

lemma sample_reserved_ok:
  assumes "reserve_attempt_capacity sample_db 9 None (Some 21) None 30 100 = Inr (r, d')"
  shows "reservations_ok d'"
  using reserve_ok [OF sample_reservations_ok assms] .

lemma finalize_once_witness:
  "\<exists>r d'. finalize_attempt_capacity d' 9 TERMINATED 900 = (Some r, d') \<and> ar_status r = CONSUMED"
proof (rule sample_reserved)
  fix r d1
  assume run: "reserve_attempt_capacity sample_db 9 None (Some 21) None 30 100 = Inr (r, d1)"
    and r: "r = new_reservation sample_db sample_attempt (sample_allocation 21 31) None (100 + minutes 30) 100"
    and rows: "reservations d1 = [r]"
  have "reservation_of_attempt d1 9 = Some r" "ar_status r = RESERVED"
    using r rows by (simp_all add: reservation_of_attempt_def new_reservation_def)
  then obtain q d2 where q: "finalize_attempt_capacity d1 9 COMPLETED 500 = (Some q, d2)" "ar_status q = CONSUMED"
    by (simp add: finalize_attempt_capacity_def Let_def)
  from finalize_once [OF q(1) sample_reserved_ok [OF run], of TERMINATED 900] q(2)
  show ?thesis by blast
qed

section \<open>The expiry task\<close>

lemma expire_loop_counts:
  assumes "\<And>i. i \<in> set ids \<Longrightarrow> \<exists>r. get_reservation d i = Some r \<and> ar_status r = RESERVED \<and> ar_expires_at r \<le> now"
    and "distinct ids" and "\<And>j. now \<le> clock j"
  shows "\<exists>d'. expire_loop d clock k ids expired = (d', Inr (expired + length ids))"
  using assms(1,2)
proof (induction ids arbitrary: d k expired)
  case Nil
  then show ?case by simp
next
  case (Cons i ids)
  obtain r where r: "get_reservation d i = Some r" "ar_status r = RESERVED" "ar_expires_at r \<le> now"
    using Cons.prems(1) by auto
  let ?d = "update_reservations (\<lambda>q. ar_id q = i)
      (finalized EXPIRED ''Reservation expired before a terminal callback'' (clock (Suc k))) d"
  have "ar_expires_at r \<le> clock k" using r(3) assms(3) by (rule order_trans)
  with r have step: "expire_loop d clock k (i # ids) expired = expire_loop ?d clock (k + 2) ids (Suc expired)"
    by (simp add: expire_reservation_def Let_def)
  have "\<exists>r. get_reservation ?d j = Some r \<and> ar_status r = RESERVED \<and> ar_expires_at r \<le> now"
    if j: "j \<in> set ids" for j
  proof -
    obtain q where q: "get_reservation d j = Some q" "ar_status q = RESERVED" "ar_expires_at q \<le> now"
      using Cons.prems(1) [of j] j by auto
    moreover have "ar_id q = j" using q(1) by (auto simp: get_reservation_def dest: row_by_pk_Some)
    moreover have "j \<noteq> i" using j Cons.prems(2) by auto
    ultimately show ?thesis by (simp add: get_reservation_finalized)
  qed
  from Cons.IH [OF this, of "k + 2" "Suc expired"] Cons.prems(2) step show ?case by auto
qed

lemma expirable_due_open:
  assumes "reservations_ok d" and "i \<in> set (expirable_ids d now n)"
  shows "\<exists>r. get_reservation d i = Some r \<and> ar_status r = RESERVED \<and> ar_expires_at r \<le> now"
  using assms(2)
proof (rule expirable_idsD)
  fix r
  assume r: "r \<in> set (reservations d)" "ar_id r = i" "ar_status r = RESERVED" "ar_expires_at r \<le> now"
  have "get_reservation d i = Some r"
    using r(1,2) assms(1) row_by_pk_unique [of ar_id "reservations d" r]
    by (simp add: get_reservation_def reservations_ok_def reservations_unique_def unique_by_def)
  with r show ?thesis by blast
qed

lemma expirable_distinct:
  assumes "reservations_ok d"
  shows "distinct (expirable_ids d now n)"
proof -
  let ?rows = "filter (\<lambda>r. ar_status r = RESERVED \<and> ar_expires_at r \<le> now) (reservations d)"
  have "distinct (map ar_id (reservations d))"
    using assms by (simp add: reservations_ok_def reservations_unique_def unique_by_def)
  then have "distinct (map ar_id ?rows)" by (rule distinct_map_filter)
  then have "distinct ?rows" "inj_on ar_id (set ?rows)" by (simp_all add: distinct_map)
  then have "distinct (map ar_id (sort_key ar_expires_at ?rows))" by (simp add: distinct_map)
  then show ?thesis
    unfolding expirable_ids_def take_map [symmetric] by (rule distinct_take)
qed

text \<open>C32: With a clock that never reads earlier than the task's start, the expiry task finishes
  without an error, closes every reservation of its batch, and reports as expired exactly the
  number it examined.\<close>

theorem expiry_task_closes_batch:
  assumes "reservations_ok d" and "\<And>j. clock 0 \<le> clock j"
    and "ids = expirable_ids d (clock 0) batch_size"
  shows "\<exists>d'. expire_allocation_reservations_task d batch_size clock = (d', Inr (length ids, length ids))
    \<and> (\<forall>i \<in> set ids. closed_now d' i)"
proof -
  obtain d' where run: "expire_loop d clock 1 ids 0 = (d', Inr (length ids))"
    using expire_loop_counts [of ids d "clock 0" clock 1 0] expirable_due_open [OF assms(1)]
      expirable_distinct [OF assms(1)] assms(2,3) by auto
  moreover have "\<forall>i \<in> set ids. closed_now d' i"
    using expire_loop_closes [of ids d "clock 0" clock 1 0] expirable_due [OF assms(1)] assms(2,3) run
    by auto
  ultimately show ?thesis
    using assms(3) by (simp add: expire_allocation_reservations_task_def Let_def)
qed

lemma expiry_task_closes_batch_witness:
  "\<exists>d1 d2. expire_allocation_reservations_task d1 500 (\<lambda>j. 100 + minutes 30) = (d2, Inr (1, 1))
     \<and> reservations d1 \<noteq> []"
proof (rule sample_reserved)
  fix r d1
  assume run: "reserve_attempt_capacity sample_db 9 None (Some 21) None 30 100 = Inr (r, d1)"
    and r: "r = new_reservation sample_db sample_attempt (sample_allocation 21 31) None (100 + minutes 30) 100"
    and rows: "reservations d1 = [r]"
  have "ar_expires_at r = 100 + minutes 30" "ar_status r = RESERVED"
    using r by (simp_all add: new_reservation_def)
  then have ids: "expirable_ids d1 (100 + minutes 30) 500 = [ar_id r]"
    using rows by (simp add: expirable_ids_def)
  obtain d2 where "expire_allocation_reservations_task d1 500 (\<lambda>j. 100 + minutes 30) = (d2, Inr (1, 1))"
    using expiry_task_closes_batch [OF sample_reserved_ok [OF run] order_refl refl,
        where clock = "\<lambda>_. 100 + minutes 30" and batch_size = 500] by (auto simp: ids)
  then show ?thesis using rows by auto
qed

section \<open>Identifiers and leases\<close>

text \<open>C29: Over any history of single and batch requests, in whatever months, no project
  identifier is issued twice, and each has 14 digits' length as long as a month stays below
  one hundred million identifiers.\<close>

theorem issued_ids_distinct:
  assumes "issue_all d calls = (ids, d')" and "\<forall>call \<in> set calls. python_month (snd call)"
    and "\<And>ym. last_value d' ym < 10 ^ 8"
  shows "distinct ids \<and> (\<forall>x \<in> set ids. length x = 14)"
proof (intro conjI ballI)
  show "distinct ids" by (rule issue_all_distinct [OF assms(1,2)])
  fix x
  assume "x \<in> set ids"
  then obtain today v where "python_month today" "v \<le> last_value d' (month_prefix today)"
      "x = format_local_id (month_prefix today) v"
    using issue_all_range [OF assms(1,2)] by blast
  moreover from this assms(3) have "v < 10 ^ 8" by (meson le_less_trans)
  ultimately show "length x = 14" by (simp only: length_format_local_id)
qed

lemma issued_ids_distinct_witness:
  "distinct (fst (issue_all empty_db [(2, 2026, 8), (1, 2026, 8), (1, 2026, 9)]))"
proof -
  obtain ids d' where run: "issue_all empty_db [(2, 2026, 8), (1, 2026, 8), (1, 2026, 9)] = (ids, d')"
    by (cases "issue_all empty_db [(2, 2026, 8), (1, 2026, 8), (1, 2026, 9)]")
  have "last_value d' ym \<le> 4" for ym
  proof -
    obtain i1 d1 where s1: "next_ids empty_db 2 (2026, 8) = (i1, d1)" by (cases "next_ids empty_db 2 (2026, 8)")
    obtain i2 d2 where s2: "next_ids d1 1 (2026, 8) = (i2, d2)" by (cases "next_ids d1 1 (2026, 8)")
    obtain i3 d3 where s3: "next_ids d2 1 (2026, 9) = (i3, d3)" by (cases "next_ids d2 1 (2026, 9)")
    have "d' = d3" using run s1 s2 s3 by simp
    moreover have "last_value empty_db ym = 0" by (simp add: last_value_def empty_db_def)
    ultimately show ?thesis
      using last_value_next_ids [OF s1, of ym] last_value_next_ids [OF s2, of ym]
        last_value_next_ids [OF s3, of ym] by (simp split: if_splits)
  qed
  then have "last_value d' ym < 10 ^ 8" for ym
    by (rule le_less_trans) simp
  from issued_ids_distinct [OF run _ this] show ?thesis
    unfolding run by (simp add: python_month_def)
qed

text \<open>A lease excludes: after a successful acquisition no acquisition of the same name
  succeeds before the lease runs out or is released, whatever else happens on other names.\<close>

theorem lease_excludes:
  assumes "lease_acquire d name secs now = (True, d1)"
    and "\<forall>e \<in> set es. within_lease name (now + seconds secs) e"
    and "lease_run d1 es = (results, d')"
  shows "\<forall>(e, got) \<in> set (zip es results). acquires name e \<longrightarrow> \<not> got"
proof -
  have "lease_until d1 name = Some (now + seconds secs)"
    using lease_acquire_until [OF assms(1), of name] by simp
  from lease_run_excludes [OF this assms(2,3)] show ?thesis by (rule conjunct2)
qed

lemma lease_excludes_witness:
  "\<exists>d1 got d2. lease_acquire empty_db ''sync'' 60 0 = (True, d1)
     \<and> lease_acquire d1 ''sync'' 60 59000000 = (got, d2) \<and> \<not> got"
proof -
  have "lease_until empty_db ''sync'' = None" by (simp add: lease_until_def empty_db_def)
  then obtain d1 where first: "lease_acquire empty_db ''sync'' 60 0 = (True, d1)"
    by (simp add: lease_acquire_def Let_def)
  obtain got d2 where second: "lease_acquire d1 ''sync'' 60 59000000 = (got, d2)"
    by (cases "lease_acquire d1 ''sync'' 60 59000000")
  have "lease_run d1 [Acquire ''sync'' 60 59000000] = ([got], d2)" by (simp add: second)
  from lease_excludes [OF first _ this] have "\<not> got" by (simp add: seconds_def)
  with first second show ?thesis by blast
qed

end
