(* ===== verification/Account_Access.thy ===== *)
theory Account_Access
  imports Vendor_Access
begin

text \<open>
  \<open>accounts/access.py\<close>: the permission codes of an account, the decorators that enforce
  them, who an account manages and whose activity it sees, and the roles it may hand out.  A
  caller is the row of an authenticated user, or \<^term>\<open>None\<close> for an anonymous one.  The
  request memo and the shared snapshot around these functions are in \<open>Permission_Cache\<close>.
\<close>

definition EXTERNAL_VENDOR_FORBIDDEN_CODES :: "string set" where
  "EXTERNAL_VENDOR_FORBIDDEN_CODES = set
     [''access.manage'', ''permissions.view'', ''roles.view'',
      ''roles.create'', ''roles.update'', ''roles.delete'',
      ''users.manage'', ''users.view'', ''users.create'',
      ''users.update'', ''users.delete'', ''respondents.create'',
      ''clients.manage'', ''vendors.manage'', ''allocations.manage'',
      ''clients.integration.view'', ''clients.integration.manage'', ''clients.integration.test'',
      ''clients.integration.preview'', ''clients.integration.sync'', ''organization.view'',
      ''organization.manage'', ''organization.clients.manage'', ''termination_reasons.view'',
      ''termination_reasons.filter.rid'', ''termination_reasons.action.refresh'', ''termination_reasons.filter.status'',
      ''termination_reasons.filter.client'', ''termination_reasons.filters.clear'', ''termination_reasons.summary'',
      ''termination_reasons.control.pagination'', ''termination_reasons.action.details'', ''termination_reasons.card.total'',
      ''termination_reasons.card.terminated'', ''termination_reasons.card.quota'', ''termination_reasons.card.quality'',
      ''termination_reasons.column.rid'', ''termination_reasons.column.survey'', ''termination_reasons.column.client'',
      ''termination_reasons.column.respondent'', ''termination_reasons.column.status'', ''termination_reasons.column.ended'',
      ''termination_reasons.column.actions'', ''termination_reasons.field.status'', ''termination_reasons.field.reason'',
      ''termination_reasons.field.respondent'', ''termination_reasons.field.survey'', ''termination_reasons.field.timing'',
      ''termination_reasons.field.audit'', ''studies.card.revenue'', ''dashboard.card.revenue'',
      ''dashboard.card.average_cpi'', ''dashboard.card.rpc'', ''dashboard.graph.finance_filters'',
      ''sync.run'']"

section \<open>Effective permission codes\<close>

definition live_user :: "user option \<Rightarrow> bool" where
  "live_user u = (case u of None \<Rightarrow> False | Some v \<Rightarrow> usr_is_active v)"

definition is_super_admin_account :: "db \<Rightarrow> user option \<Rightarrow> bool" where
  "is_super_admin_account d u =
     (case u of
        None \<Rightarrow> False
      | Some v \<Rightarrow>
          if \<not> usr_is_active v then False
          else if usr_is_superuser v then True
          else (case employee_profile_for_user d u of
                  None \<Rightarrow> False
                | Some p \<Rightarrow> (case role_of_profile d p of
                               None \<Rightarrow> False
                             | Some r \<Rightarrow> role_is_active r
                                 \<and> role_slug r \<in> {''super-admin'', ''superadmin''})))"

definition active_code :: "db \<Rightarrow> pk \<Rightarrow> string option" where
  "active_code d f =
     (case get_function d f of
        Some g \<Rightarrow> if af_is_active g then Some (af_code g) else None | None \<Rightarrow> None)"

definition role_function_codes :: "db \<Rightarrow> role \<Rightarrow> string set" where
  "role_function_codes d r =
     set [c. p \<leftarrow> role_permissions d, rfp_role p = role_id r \<and> rfp_allowed p,
             Some c \<leftarrow> [active_code d (rfp_function p)]]"

definition override_rows :: "db \<Rightarrow> pk \<Rightarrow> (string \<times> effect) list" where
  "override_rows d u =
     [(c, ufo_effect ov). ov \<leftarrow> overrides d, ufo_user ov = u,
        Some c \<leftarrow> [active_code d (ufo_function ov)]]"

fun apply_override :: "string \<times> effect \<Rightarrow> string set \<Rightarrow> string set" where
  "apply_override (code, ALLOW) codes = insert code codes"
| "apply_override (code, DENY) codes = codes - {code}"

definition profile_role_codes :: "db \<Rightarrow> employee_profile option \<Rightarrow> string set" where
  "profile_role_codes d profile =
     (case profile of
        None \<Rightarrow> {}
      | Some p \<Rightarrow> (case role_of_profile d p of
                     None \<Rightarrow> {}
                   | Some r \<Rightarrow> if role_is_active r then role_function_codes d r else {}))"

definition load_permission_codes :: "db \<Rightarrow> user \<Rightarrow> string set" where
  "load_permission_codes d u =
     (if usr_is_superuser u then set [af_code f. f \<leftarrow> access_functions d, af_is_active f]
      else
        let profile = profile_of_user d (usr_id u);
            codes = fold apply_override (override_rows d (usr_id u)) (profile_role_codes d profile)
        in if (case profile of Some p \<Rightarrow> ep_account_type p = EXTERNAL_VENDOR | None \<Rightarrow> False)
           then Set.filter (\<lambda>c. \<not> py_startswith c ''organization.'')
                  (codes - EXTERNAL_VENDOR_FORBIDDEN_CODES)
           else codes)"

definition effective_permission_codes :: "db \<Rightarrow> user option \<Rightarrow> string set" where
  "effective_permission_codes d u =
     (case u of
        None \<Rightarrow> {} | Some v \<Rightarrow> if usr_is_active v then load_permission_codes d v else {})"

definition has_function_access :: "db \<Rightarrow> user option \<Rightarrow> string \<Rightarrow> bool" where
  "has_function_access d u code =
     (case u of
        None \<Rightarrow> False
      | Some v \<Rightarrow> usr_is_active v
          \<and> (usr_is_superuser v \<or> code \<in> effective_permission_codes d u))"

text \<open>The decorators: an anonymous request is redirected to the login page, a caller without
  the code raises, and otherwise the view's own result is returned.\<close>

datatype 'r decorated = RedirectToLogin | ViewResult 'r

definition function_permission_required ::
  "db \<Rightarrow> string \<Rightarrow> (user \<Rightarrow> 'r) \<Rightarrow> user option \<Rightarrow> py_error + 'r decorated" where
  "function_permission_required d code view u =
     (case u of
        None \<Rightarrow> Inr RedirectToLogin
      | Some v \<Rightarrow>
          if \<not> has_function_access d u code
          then Inl (PermissionDenied (''You do not have access to '' @ code @ ''.''))
          else Inr (ViewResult (view v)))"

definition any_function_permission_required ::
  "db \<Rightarrow> string list \<Rightarrow> (user \<Rightarrow> 'r) \<Rightarrow> user option \<Rightarrow> py_error + 'r decorated" where
  "any_function_permission_required d codes view u =
     (case u of
        None \<Rightarrow> Inr RedirectToLogin
      | Some v \<Rightarrow>
          if \<not> list_ex (has_function_access d u) codes
          then Inl (PermissionDenied ''You do not have access to this management area.'')
          else Inr (ViewResult (view v)))"

definition has_permission :: "db \<Rightarrow> string list \<Rightarrow> user option \<Rightarrow> bool" where
  "has_permission d codes u = (codes \<noteq> [] \<and> list_ex (has_function_access d u) codes)"

definition workspace_landing_route :: "db \<Rightarrow> user option \<Rightarrow> string" where
  "workspace_landing_route d u =
     (if has_function_access d u ''dashboard.view'' then ''dashboard'' else ''projects'')"

section \<open>Whom an account manages\<close>

definition creator_edges :: "db \<Rightarrow> (pk \<times> pk option) list" where
  "creator_edges d = map (\<lambda>p. (ep_user p, ep_created_by p)) (profiles d)"

definition subordinate_user_ids :: "db \<Rightarrow> user option \<Rightarrow> pk set" where
  "subordinate_user_ids d u =
     (case u of
        None \<Rightarrow> {}
      | Some v \<Rightarrow>
          if usr_is_superuser v then set (map usr_id (users d))
          else frontier_loop (creator_edges d) {} {usr_id v} - {usr_id v})"

definition workspace_employee_ids :: "db \<Rightarrow> pk \<Rightarrow> pk set" where
  "workspace_employee_ids d owner =
     set [ep_user p. p \<leftarrow> profiles d, ep_account_type p = EMPLOYEE
            \<and> map_option ou_workspace_owner (unit_of_profile d p) = Some owner]"

definition manageable_user_ids :: "db \<Rightarrow> user option \<Rightarrow> pk set" where
  "manageable_user_ids d u =
     (case u of
        None \<Rightarrow> {}
      | Some v \<Rightarrow>
          let ids = subordinate_user_ids d u
          in if usr_is_superuser v then ids
             else (case profile_of_user d (usr_id v) of
                     None \<Rightarrow> ids
                   | Some p \<Rightarrow>
                       if ep_account_type p = INTERNAL_VENDOR
                       then ids \<union> workspace_employee_ids d (usr_id v) else ids))"

section \<open>Whose activity an account sees\<close>

text \<open>\<open>while scope_unit.parent_id and scope_unit.unit_type != "branch"\<close> has no visited set: on a
  cycle of parents it does not return, which is the value \<^term>\<open>None\<close>.\<close>

partial_function (option) climb_to_branch ::
  "organization_unit list \<Rightarrow> organization_unit \<Rightarrow> (py_error + organization_unit) option" where
  "climb_to_branch units u =
     (case ou_parent u of
        None \<Rightarrow> Some (Inr u)
      | Some p \<Rightarrow>
          if ou_unit_type u = BRANCH then Some (Inr u)
          else (case row_by_pk ou_id p units of
                  None \<Rightarrow> Some (Inl (DoesNotExist ''OrganizationUnit''))
                | Some q \<Rightarrow> climb_to_branch units q))"

text \<open>Employees with a role of lower rank: in the units of a scope, or created by one account.\<close>

definition lower_ranked :: "db \<Rightarrow> nat \<Rightarrow> employee_profile \<Rightarrow> bool" where
  "lower_ranked d rank p =
     (ep_account_type p = EMPLOYEE
      \<and> (case role_of_profile d p of Some r \<Rightarrow> role_rank r < rank | None \<Rightarrow> False))"

definition lower_ranked_in_units :: "db \<Rightarrow> nat \<Rightarrow> pk set \<Rightarrow> pk set" where
  "lower_ranked_in_units d rank unit_ids =
     set [ep_user p. p \<leftarrow> profiles d, lower_ranked d rank p
            \<and> (case ep_organization_unit p of Some i \<Rightarrow> i \<in> unit_ids | None \<Rightarrow> False)]"

definition lower_ranked_peers :: "db \<Rightarrow> nat \<Rightarrow> pk \<Rightarrow> pk set" where
  "lower_ranked_peers d rank creator =
     set [ep_user p. p \<leftarrow> profiles d, lower_ranked d rank p \<and> ep_created_by p = Some creator]"

definition team_scope :: "db \<Rightarrow> nat \<Rightarrow> pk \<Rightarrow> (py_error + organization_unit) option" where
  "team_scope d rank unit_id =
     (case get_org_unit d unit_id of
        None \<Rightarrow> Some (Inl (DoesNotExist ''OrganizationUnit''))
      | Some u \<Rightarrow> if 20 < rank then climb_to_branch (org_units d) u else Some (Inr u))"

definition employee_visible_ids :: "db \<Rightarrow> user \<Rightarrow> employee_profile \<Rightarrow> nat \<Rightarrow> (py_error + pk set) option" where
  "employee_visible_ids d v p rank =
     (case ep_organization_unit p of
        Some unit_id \<Rightarrow>
          map_option (map_sum id (\<lambda>scope. insert (usr_id v)
              (lower_ranked_in_units d rank (organization_unit_descendant_ids d (Some scope) True))))
            (team_scope d rank unit_id)
      | None \<Rightarrow>
          Some (Inr (insert (usr_id v)
            (case ep_created_by p of
               None \<Rightarrow> subordinate_user_ids d (Some v)
             | Some creator \<Rightarrow> lower_ranked_peers d rank creator))))"

definition activity_visible_user_ids :: "db \<Rightarrow> user option \<Rightarrow> (py_error + pk set) option" where
  "activity_visible_user_ids d u =
     (case u of
        None \<Rightarrow> Some (Inr {})
      | Some v \<Rightarrow>
          if is_super_admin_account d u then Some (Inr (set (map usr_id (users d))))
          else (case profile_of_user d (usr_id v) of
                  None \<Rightarrow> Some (Inr {usr_id v})
                | Some p \<Rightarrow>
                    (case role_of_profile d p of
                       None \<Rightarrow> Some (Inr {usr_id v})
                     | Some r \<Rightarrow>
                         (case (ep_account_type p, vendor_scope_user_id d u) of
                            (INTERNAL_VENDOR, Some vendor) \<Rightarrow>
                              Some (Inr (insert (usr_id v) (subordinate_user_ids d u
                                          \<union> workspace_employee_ids d vendor)))
                          | (EMPLOYEE, _) \<Rightarrow>
                              if role_rank r < 20 then Some (Inr {usr_id v})
                              else employee_visible_ids d v p (role_rank r)
                          | _ \<Rightarrow> Some (Inr {usr_id v})))))"

section \<open>What an account may hand out\<close>

definition assignable_functions :: "db \<Rightarrow> user \<Rightarrow> access_function list" where
  "assignable_functions d u =
     filter (\<lambda>f. af_is_active f
        \<and> (usr_is_superuser u \<or> af_code f \<in> effective_permission_codes d (Some u)))
       (access_functions d)"

definition assignable_roles :: "db \<Rightarrow> user \<Rightarrow> role list" where
  "assignable_roles d u =
     filter (\<lambda>r. role_is_active r
        \<and> (usr_is_superuser u \<or> role_function_codes d r \<subseteq> effective_permission_codes d (Some u)))
       (roles d)"

definition can_manage_role :: "user \<Rightarrow> role \<Rightarrow> bool" where
  "can_manage_role u r =
     (usr_is_superuser u \<or> (\<not> role_is_system r \<and> role_created_by r = Some (usr_id u)))"

end
