(* ===== verification/Access_Properties.thy ===== *)
theory Access_Properties
  imports Account_Access Hierarchy_Properties
begin

text \<open>
  Properties of permissions and visibility: per-user overrides take precedence over the role,
  an external supplier never holds a management code, roles and visibility cannot be used to
  reach beyond the account's own rank, and the walk up to the Branch returns.
\<close>

section \<open>Overrides\<close>

lemma override_rows_map:
  "override_rows d u = map (\<lambda>ov. (the (active_code d (ufo_function ov)), ufo_effect ov))
     (filter (\<lambda>ov. ufo_user ov = u \<and> active_code d (ufo_function ov) \<noteq> None) (overrides d))"
proof -
  have "concat (map (\<lambda>ov. if ufo_user ov = u
            then concat (map (\<lambda>x. case x of None \<Rightarrow> [] | Some c \<Rightarrow> [(c, ufo_effect ov)]) [active_code d (ufo_function ov)])
            else []) xs)
      = map (\<lambda>ov. (the (active_code d (ufo_function ov)), ufo_effect ov))
          (filter (\<lambda>ov. ufo_user ov = u \<and> active_code d (ufo_function ov) \<noteq> None) xs)" for xs
    by (induction xs) (auto split: option.splits)
  then show ?thesis by (simp add: override_rows_def)
qed

lemma active_code_unique:
  assumes "access_functions_unique (access_functions d)"
    and "active_code d f = Some c" and "active_code d g = Some c"
  shows "f = g"
proof -
  obtain a b where "a \<in> set (access_functions d)" "af_id a = f" "af_code a = c"
      "b \<in> set (access_functions d)" "af_id b = g" "af_code b = c"
    using assms(2,3)
    by (auto simp: active_code_def get_function_def dest!: row_by_pk_Some split: option.splits if_splits)
  with assms(1) show ?thesis
    by (auto simp: access_functions_unique_def unique_by_def distinct_map dest: inj_onD)
qed

lemma override_rows_distinct:
  assumes fns: "access_functions_unique (access_functions d)"
    and overrides: "overrides_unique (overrides d)"
  shows "distinct (map fst (override_rows d u))"
proof -
  let ?rows = "filter (\<lambda>ov. ufo_user ov = u \<and> active_code d (ufo_function ov) \<noteq> None) (overrides d)"
  let ?code = "\<lambda>ov. the (active_code d (ufo_function ov))"
  have pairs: "distinct (map (\<lambda>ov. (ufo_user ov, ufo_function ov)) (overrides d))"
    using overrides by (simp add: overrides_unique_def unique_by_def)
  have "inj_on ?code (set ?rows)"
  proof (rule inj_onI)
    fix x y
    assume xy: "x \<in> set ?rows" "y \<in> set ?rows" "?code x = ?code y"
    then have "ufo_function x = ufo_function y"
      by (intro active_code_unique [OF fns, where c = "?code x"]) auto
    with xy pairs show "x = y" by (auto simp: distinct_map dest: inj_onD)
  qed
  moreover have "distinct ?rows" using pairs by (simp add: distinct_map)
  ultimately show ?thesis
    unfolding override_rows_map by (simp add: distinct_map comp_def)
qed

lemma fold_override_member:
  "distinct (map fst rows) \<Longrightarrow>
   c \<in> fold apply_override rows codes \<longleftrightarrow>
     (c, ALLOW) \<in> set rows \<or> (c \<in> codes \<and> (c, DENY) \<notin> set rows)"
proof (induction rows arbitrary: codes)
  case Nil
  then show ?case by simp
next
  case (Cons row rows)
  obtain k e where row: "row = (k, e)" by (cases row)
  have "(k, x) \<notin> set rows" for x using Cons.prems row by (auto simp: image_iff)
  with Cons row show ?case by (cases e) auto
qed

lemma override_rows_member:
  "(c, e) \<in> set (override_rows d u) \<longleftrightarrow>
   (\<exists>ov \<in> set (overrides d). ufo_user ov = u \<and> active_code d (ufo_function ov) = Some c \<and> ufo_effect ov = e)"
  unfolding override_rows_map by force

text \<open>For an active account that is neither a super admin nor an external supplier, a code is
  effective exactly when an active override allows it, or its active role grants it and no
  active override denies it: the override always wins, in whatever order the rows come.\<close>

theorem override_precedence:
  assumes "access_functions_unique (access_functions d)" and "overrides_unique (overrides d)"
    and "usr_is_active u" and "\<not> usr_is_superuser u"
    and "\<And>p. profile_of_user d (usr_id u) = Some p \<Longrightarrow> ep_account_type p \<noteq> EXTERNAL_VENDOR"
  shows "c \<in> effective_permission_codes d (Some u) \<longleftrightarrow>
    (\<exists>ov \<in> set (overrides d). ufo_user ov = usr_id u \<and> active_code d (ufo_function ov) = Some c
       \<and> ufo_effect ov = ALLOW)
    \<or> (c \<in> profile_role_codes d (profile_of_user d (usr_id u))
       \<and> \<not> (\<exists>ov \<in> set (overrides d). ufo_user ov = usr_id u
              \<and> active_code d (ufo_function ov) = Some c \<and> ufo_effect ov = DENY))"
proof -
  have "effective_permission_codes d (Some u) =
      fold apply_override (override_rows d (usr_id u)) (profile_role_codes d (profile_of_user d (usr_id u)))"
    using assms(3-5)
    by (auto simp: effective_permission_codes_def load_permission_codes_def Let_def split: option.splits)
  then show ?thesis
    using fold_override_member [OF override_rows_distinct [OF assms(1,2)]]
    by (simp add: override_rows_member)
qed

definition sample_function :: "pk \<Rightarrow> string \<Rightarrow> access_function" where
  "sample_function i code = \<lparr>af_id = i, af_code = code, af_name = code, af_module = ''m'',
     af_description = [], af_is_active = True, af_created_at = 0, af_updated_at = 0\<rparr>"

definition sample_override :: "pk \<Rightarrow> pk \<Rightarrow> pk \<Rightarrow> effect \<Rightarrow> user_function_override" where
  "sample_override i u f e = \<lparr>ufo_id = i, ufo_user = u, ufo_function = f, ufo_effect = e,
     ufo_reason = [], ufo_created_at = 0, ufo_updated_at = 0\<rparr>"

definition sample_grant :: "pk \<Rightarrow> pk \<Rightarrow> pk \<Rightarrow> role_function_permission" where
  "sample_grant i r f = \<lparr>rfp_id = i, rfp_role = r, rfp_function = f, rfp_allowed = True,
     rfp_created_at = 0, rfp_updated_at = 0\<rparr>"

lemma sample_access_fields [simp]:
  "af_id (sample_function i c) = i" "af_code (sample_function i c) = c"
  "af_is_active (sample_function i c)"
  "ufo_id (sample_override j u f e) = j" "ufo_user (sample_override j u f e) = u"
  "ufo_function (sample_override j u f e) = f" "ufo_effect (sample_override j u f e) = e"
  "rfp_id (sample_grant k r g) = k" "rfp_role (sample_grant k r g) = r"
  "rfp_function (sample_grant k r g) = g" "rfp_allowed (sample_grant k r g)"
  by (simp_all add: sample_function_def sample_override_def sample_grant_def)

definition access_db :: db where
  "access_db = sample_db\<lparr>
     access_functions := [sample_function 61 ''reports.view'', sample_function 62 ''sync.run''],
     role_permissions := [sample_grant 71 43 61, sample_grant 72 42 61, sample_grant 73 42 62],
     overrides := [sample_override 81 33 61 DENY, sample_override 82 33 62 ALLOW]\<rparr>"

lemma access_db_tables [simp]:
  "access_functions access_db = [sample_function 61 ''reports.view'', sample_function 62 ''sync.run'']"
  "role_permissions access_db = [sample_grant 71 43 61, sample_grant 72 42 61, sample_grant 73 42 62]"
  "overrides access_db = [sample_override 81 33 61 DENY, sample_override 82 33 62 ALLOW]"
  "users access_db = users sample_db" "profiles access_db = profiles sample_db"
  "roles access_db = roles sample_db" "org_units access_db = org_units sample_db"
  by (simp_all add: access_db_def)

lemma access_db_unique:
  "access_functions_unique (access_functions access_db)" "overrides_unique (overrides access_db)"
  by (simp_all add: access_functions_unique_def overrides_unique_def unique_by_def)

lemma override_precedence_witness:
  "''reports.view'' \<notin> effective_permission_codes access_db (Some (sample_user 33))
   \<and> ''sync.run'' \<in> effective_permission_codes access_db (Some (sample_user 33))"
proof -
  have kind: "ep_account_type p \<noteq> EXTERNAL_VENDOR"
    if "profile_of_user access_db (usr_id (sample_user 33)) = Some p" for p
    using that by (auto simp: profile_of_user_def)
  note precedence = override_precedence [OF access_db_unique _ _ kind, of "sample_user 33"]
  show ?thesis
    using precedence [of "''reports.view''"] precedence [of "''sync.run''"]
    by (simp add: active_code_def sample_lookups)
qed

section \<open>External suppliers\<close>

text \<open>An external supplier's account never holds a forbidden management code or an
  organization code, whatever its role grants and its overrides allow, so every view guarded
  by such a code refuses it.\<close>

theorem external_vendor_never_manages:
  assumes "profile_of_user d (usr_id u) = Some p" and "ep_account_type p = EXTERNAL_VENDOR"
    and "\<not> usr_is_superuser u"
    and "code \<in> EXTERNAL_VENDOR_FORBIDDEN_CODES \<or> py_startswith code ''organization.''"
  shows "code \<notin> effective_permission_codes d (Some u)
    \<and> function_permission_required d code view (Some u)
      = Inl (PermissionDenied (''You do not have access to '' @ code @ ''.''))"
proof -
  have "code \<notin> effective_permission_codes d (Some u)"
    using assms by (auto simp: effective_permission_codes_def load_permission_codes_def)
  with assms(3) show ?thesis
    by (simp add: function_permission_required_def has_function_access_def)
qed

lemma external_vendor_never_manages_witness:
  "''sync.run'' \<notin> effective_permission_codes access_db (Some (sample_user 31))
   \<and> ''sync.run'' \<in> role_function_codes access_db (sample_role 42 ''external-vendor'' 10 100)"
proof -
  have profile: "profile_of_user access_db (usr_id (sample_user 31))
      = Some (sample_profile 31 EXTERNAL_VENDOR (Some 42) None None)"
    by (simp add: profile_of_user_def)
  have "''sync.run'' \<in> EXTERNAL_VENDOR_FORBIDDEN_CODES"
    by (simp add: EXTERNAL_VENDOR_FORBIDDEN_CODES_def)
  then have "''sync.run'' \<notin> effective_permission_codes access_db (Some (sample_user 31))"
    using conjunct1 [OF external_vendor_never_manages [OF profile, of "''sync.run''" "\<lambda>_. ()"]] by simp
  then show ?thesis
    by (simp add: role_function_codes_def active_code_def sample_lookups)
qed

section \<open>Roles that may be handed out\<close>

lemma fold_override_denies:
  "(\<And>c e. (c, e) \<in> set rows \<Longrightarrow> e = DENY) \<Longrightarrow> fold apply_override rows codes \<subseteq> codes"
proof (induction rows arbitrary: codes)
  case Nil
  then show ?case by simp
next
  case (Cons row rows)
  obtain k e where row: "row = (k, e)" by (cases row)
  then have "e = DENY" using Cons.prems [of k e] by simp
  moreover have "fold apply_override rows (codes - {k}) \<subseteq> codes - {k}"
    using Cons.prems by (intro Cons.IH) auto
  ultimately show ?case using row by auto
qed

text \<open>Handing out roles cannot raise privileges: an account given a role that another account
  may assign holds no code its assigner lacks, as long as no override allows it more.\<close>

theorem assignable_roles_do_not_escalate:
  assumes "r \<in> set (assignable_roles d u)" and "\<not> usr_is_superuser u" and "roles_unique (roles d)"
    and "profile_of_user d (usr_id w) = Some p" and "ep_role p = Some (role_id r)"
    and "\<not> usr_is_superuser w"
    and "\<forall>ov \<in> set (overrides d). ufo_user ov = usr_id w \<longrightarrow> ufo_effect ov = DENY"
  shows "effective_permission_codes d (Some w) \<subseteq> effective_permission_codes d (Some u)"
proof -
  have r: "r \<in> set (roles d)" "role_function_codes d r \<subseteq> effective_permission_codes d (Some u)"
    using assms(1,2) by (auto simp: assignable_roles_def)
  then have "get_role d (role_id r) = Some r"
    using assms(3) by (simp add: get_role_def roles_unique_def unique_by_def row_by_pk_unique)
  then have "profile_role_codes d (Some p) \<subseteq> effective_permission_codes d (Some u)"
    using assms(5) r(2) by (auto simp: profile_role_codes_def role_of_profile_def)
  moreover have "fold apply_override (override_rows d (usr_id w)) (profile_role_codes d (Some p))
      \<subseteq> profile_role_codes d (Some p)"
    using assms(7) by (intro fold_override_denies) (auto simp: override_rows_member)
  moreover have "effective_permission_codes d (Some w)
      \<subseteq> fold apply_override (override_rows d (usr_id w)) (profile_role_codes d (Some p))"
    using assms(4,6) by (auto simp: effective_permission_codes_def load_permission_codes_def Let_def
        split: if_splits)
  ultimately show ?thesis by blast
qed

lemma assignable_roles_do_not_escalate_witness:
  "effective_permission_codes sample_db (Some (sample_user 33))
   \<subseteq> effective_permission_codes sample_db (Some (sample_user 32))"
proof (rule assignable_roles_do_not_escalate)
  show "sample_role 43 ''executive'' 10 50 \<in> set (assignable_roles sample_db (sample_user 32))"
    by (simp add: assignable_roles_def role_function_codes_def)
  show "profile_of_user sample_db (usr_id (sample_user 33)) = Some (sample_profile 33 EMPLOYEE (Some 43) (Some 31) None)"
    by (simp add: profile_of_user_def)
  show "roles_unique (roles sample_db)" by (simp add: roles_unique_def unique_by_def)
qed simp_all

section \<open>Managing and seeing other accounts\<close>

lemma subordinate_ids_creators:
  "\<not> usr_is_superuser u \<Longrightarrow>
   subordinate_user_ids d (Some u) = (child_rel (creator_edges d))\<^sup>+ `` {usr_id u} - {usr_id u}"
  by (simp add: subordinate_user_ids_def frontier_loop_below)

text \<open>An account that is not a super admin manages the accounts created by it, directly or
  through others, plus for an internal supplier the employees of its workspace; it never
  manages itself, not even when creation records form a cycle.\<close>

theorem manageable_accounts:
  assumes "\<not> usr_is_superuser u" and "profiles_unique (profiles d)"
  shows "usr_id u \<notin> manageable_user_ids d (Some u)
    \<and> (child_rel (creator_edges d))\<^sup>+ `` {usr_id u} - {usr_id u} \<subseteq> manageable_user_ids d (Some u)
    \<and> manageable_user_ids d (Some u)
        \<subseteq> (child_rel (creator_edges d))\<^sup>+ `` {usr_id u} \<union> workspace_employee_ids d (usr_id u)"
proof -
  have "usr_id u \<notin> workspace_employee_ids d (usr_id u)"
    if "profile_of_user d (usr_id u) = Some p" "ep_account_type p = INTERNAL_VENDOR" for p
    using that profile_of_user_unique [OF assms(2)] by (fastforce simp: workspace_employee_ids_def)
  then show ?thesis
    using assms(1) subordinate_ids_creators [OF assms(1), of d]
    by (auto simp: manageable_user_ids_def Let_def split: option.splits)
qed

lemma manageable_accounts_witness:
  "manageable_user_ids sample_db (Some (sample_user 31)) = {33}"
proof -
  have "(child_rel (creator_edges sample_db))\<^sup>+ `` {31} \<subseteq> {33}"
  proof
    fix x
    assume "x \<in> (child_rel (creator_edges sample_db))\<^sup>+ `` {31}"
    then have "(31, x) \<in> (child_rel (creator_edges sample_db))\<^sup>+" by simp
    then show "x \<in> {33}"
      by (induction rule: trancl_induct) (auto simp: child_rel_def creator_edges_def)
  qed
  moreover have "(31, 33) \<in> (child_rel (creator_edges sample_db))\<^sup>+"
    by (rule r_into_trancl) (simp add: child_rel_def creator_edges_def)
  moreover have "workspace_employee_ids sample_db 31 = {}"
    by (simp add: workspace_employee_ids_def unit_of_profile_def)
  ultimately show ?thesis
    using manageable_accounts [of "sample_user 31" sample_db] sample_profiles_unique by auto
qed

lemma climb_to_branch_strict:
  assumes "strict_hierarchy (org_units d)" and "u \<in> set (org_units d)"
  shows "\<exists>q. climb_to_branch (org_units d) u = Some (Inr q) \<and> q \<in> set (org_units d)
    \<and> (ou_id q, ou_id u) \<in> (child_rel (unit_edges d))\<^sup>*"
  using assms(2)
proof (induction "type_depth (ou_unit_type u)" arbitrary: u rule: less_induct)
  case less
  show ?case
  proof (cases "ou_parent u = None \<or> ou_unit_type u = BRANCH")
    case True
    then have "climb_to_branch (org_units d) u = Some (Inr u)"
      by (subst climb_to_branch.simps) (auto split: option.split)
    with less.prems show ?thesis by blast
  next
    case False
    then obtain p where p: "ou_parent u = Some p" by auto
    have "nested_in (org_units d) u"
      using assms(1) less.prems by (auto simp: strict_hierarchy_def list_all_iff)
    with p False obtain q where q: "row_by_pk ou_id p (org_units d) = Some q"
        "type_depth (ou_unit_type q) < type_depth (ou_unit_type u)"
      by (cases "ou_unit_type u") (auto simp: nested_in_def)
    note row = row_by_pk_Some [OF q(1)]
    obtain b where b: "climb_to_branch (org_units d) q = Some (Inr b)" "b \<in> set (org_units d)"
        "(ou_id b, ou_id q) \<in> (child_rel (unit_edges d))\<^sup>*"
      using less.hyps [OF q(2)] row by blast
    have "(ou_id q, ou_id u) \<in> child_rel (unit_edges d)"
      using p row less.prems by (auto simp: unit_edges_rel)
    with b(3) have "(ou_id b, ou_id u) \<in> (child_rel (unit_edges d))\<^sup>*" by (rule rtrancl_into_rtrancl)
    moreover have "climb_to_branch (org_units d) u = Some (Inr b)"
      using p q(1) False b(1) by (subst climb_to_branch.simps) simp
    ultimately show ?thesis using b(2) by blast
  qed
qed

lemma team_scope_strict:
  assumes "strict_hierarchy (org_units d)" and "get_org_unit d i = Some u"
  shows "\<exists>scope. team_scope d rank i = Some (Inr scope)
    \<and> (ou_id scope, i) \<in> (child_rel (unit_edges d))\<^sup>*"
proof -
  have "u \<in> set (org_units d)" "ou_id u = i"
    using assms(2) by (auto simp: get_org_unit_def dest: row_by_pk_Some)
  with climb_to_branch_strict [OF assms(1)] assms(2) show ?thesis
    by (fastforce simp: team_scope_def)
qed

text \<open>In a strict hierarchy the activity query of an employee placed in a unit returns, the
  employee sees itself, and every other account it sees is a lower-ranked employee whose unit
  lies under a common ancestor of its own unit; an employee below rank 20 sees only itself.\<close>

theorem employee_sees_only_lower_ranks:
  assumes "strict_hierarchy (org_units d)" and "get_org_unit d i \<noteq> None"
    and "profile_of_user d (usr_id u) = Some p" and "ep_account_type p = EMPLOYEE"
    and "role_of_profile d p = Some r" and "ep_organization_unit p = Some i"
    and "\<not> is_super_admin_account d (Some u)"
  shows "\<exists>ids. activity_visible_user_ids d (Some u) = Some (Inr ids) \<and> usr_id u \<in> ids
    \<and> (\<forall>x \<in> ids - {usr_id u}. 20 \<le> role_rank r
         \<and> (\<exists>q \<in> set (profiles d). ep_user q = x \<and> lower_ranked d (role_rank r) q
              \<and> (\<exists>b j. ep_organization_unit q = Some j \<and> (b, i) \<in> (child_rel (unit_edges d))\<^sup>*
                     \<and> (b, j) \<in> (child_rel (unit_edges d))\<^sup>*)))"
proof (cases "role_rank r < 20")
  case True
  with assms show ?thesis by (simp add: activity_visible_user_ids_def)
next
  case False
  obtain scope where scope: "team_scope d (role_rank r) i = Some (Inr scope)"
    and above: "(ou_id scope, i) \<in> (child_rel (unit_edges d))\<^sup>*"
    using team_scope_strict [OF assms(1)] assms(2) by blast
  let ?below = "(child_rel (unit_edges d))\<^sup>* `` {ou_id scope}"
  have "activity_visible_user_ids d (Some u)
      = Some (Inr (insert (usr_id u) (lower_ranked_in_units d (role_rank r) ?below)))"
    using assms(3-7) False scope
    by (simp add: activity_visible_user_ids_def employee_visible_ids_def descendant_ids_rtrancl
        split: option.split)
  moreover have "\<exists>q \<in> set (profiles d). ep_user q = x \<and> lower_ranked d (role_rank r) q
      \<and> (\<exists>b j. ep_organization_unit q = Some j \<and> (b, i) \<in> (child_rel (unit_edges d))\<^sup>*
            \<and> (b, j) \<in> (child_rel (unit_edges d))\<^sup>*)"
    if "x \<in> lower_ranked_in_units d (role_rank r) ?below" for x
    using that above by (fastforce simp: lower_ranked_in_units_def split: option.splits)
  ultimately show ?thesis using False by auto
qed

definition team_db :: db where
  "team_db = sample_db\<lparr>
     roles := [sample_role 43 ''executive'' 10 50, sample_role 44 ''lead'' 20 50],
     profiles := [sample_profile 31 EMPLOYEE (Some 44) None (Some 13),
                  sample_profile 33 EMPLOYEE (Some 43) None (Some 13)]\<rparr>"

lemma team_db_tables [simp]:
  "roles team_db = [sample_role 43 ''executive'' 10 50, sample_role 44 ''lead'' 20 50]"
  "profiles team_db = [sample_profile 31 EMPLOYEE (Some 44) None (Some 13),
                  sample_profile 33 EMPLOYEE (Some 43) None (Some 13)]"
  "org_units team_db = org_units sample_db" "users team_db = users sample_db"
  by (simp_all add: team_db_def)

lemma employee_sees_only_lower_ranks_witness:
  "\<exists>ids. activity_visible_user_ids team_db (Some (sample_user 31)) = Some (Inr ids) \<and> 31 \<in> ids"
proof -
  have strict: "strict_hierarchy (org_units team_db)"
    using sample_strict by (simp only: team_db_tables)
  have known: "get_org_unit team_db 13 \<noteq> None" by (simp add: sample_lookups)
  have profile: "profile_of_user team_db (usr_id (sample_user 31)) =
      Some (sample_profile 31 EMPLOYEE (Some 44) None (Some 13))" by (simp add: profile_of_user_def)
  have role: "role_of_profile team_db (sample_profile 31 EMPLOYEE (Some 44) None (Some 13))
      = Some (sample_role 44 ''lead'' 20 50)" by (simp add: sample_lookups)
  have "\<not> is_super_admin_account team_db (Some (sample_user 31))"
    using profile role by (simp add: is_super_admin_account_def employee_profile_for_user_def)
  from employee_sees_only_lower_ranks [OF strict known profile _ role _ this] show ?thesis by auto
qed

end
