(* ===== verification/Permission_Cache.thy ===== *)
theory Permission_Cache
  imports Account_Access
begin

text \<open>
  \<open>config/cache_utils.py\<close>, \<open>accounts/request_cache.py\<close> and the snapshot of the permission
  codes in \<open>accounts/access.py\<close>.  The cache server is a list of keys with a value and an
  expiry.  \<open>up\<close> says whether a call reaches it: an unreachable server raises, and every
  helper fails open.  Random numbers (\<open>secrets.randbelow\<close>, \<open>secrets.randbits\<close>), the clock and
  the SHA-256 digest are arguments.
\<close>

section \<open>The cache server\<close>

text \<open>\<open>CCodes\<close> is the sorted tuple of codes, which is only ever read back as a set.\<close>

datatype cached = CInt int | CStr string | CCodes "string set"

type_synonym cache = "(string \<times> cached \<times> timestamp option) list"

definition cache_get :: "cache \<Rightarrow> timestamp \<Rightarrow> string \<Rightarrow> cached option" where
  "cache_get c now k =
     (case map_of c k of
        None \<Rightarrow> None
      | Some (v, None) \<Rightarrow> Some v
      | Some (v, Some e) \<Rightarrow> if now < e then Some v else None)"

definition cache_set :: "string \<Rightarrow> cached \<Rightarrow> timestamp option \<Rightarrow> cache \<Rightarrow> cache" where
  "cache_set k v e c = AList.update k (v, e) c"

definition cache_delete :: "string \<Rightarrow> cache \<Rightarrow> cache" where
  "cache_delete k c = AList.delete k c"

definition cache_add ::
  "string \<Rightarrow> cached \<Rightarrow> timestamp option \<Rightarrow> timestamp \<Rightarrow> cache \<Rightarrow> bool \<times> cache" where
  "cache_add k v e now c =
     (if cache_get c now k = None then (True, cache_set k v e c) else (False, c))"

text \<open>\<open>incr\<close> raises \<open>ValueError\<close> when the key is missing or not a number.\<close>

definition cache_incr :: "string \<Rightarrow> timestamp \<Rightarrow> cache \<Rightarrow> (int \<times> cache) option" where
  "cache_incr k now c =
     (case cache_get c now k of
        Some (CInt i) \<Rightarrow> Some (i + 1, cache_set k (CInt (i + 1)) (snd (the (map_of c k))) c)
      | _ \<Rightarrow> None)"

section \<open>The fail-open helpers\<close>

definition jittered_ttl :: "int option \<Rightarrow> int option \<Rightarrow> int \<Rightarrow> int \<Rightarrow> int \<Rightarrow> int" where
  "jittered_ttl base_seconds jitter_seconds default_ttl default_jitter rand =
     (let base = max 1 (case base_seconds of Some b \<Rightarrow> if b = 0 then default_ttl else b
                                           | None \<Rightarrow> default_ttl);
          jitter = max 0 (case jitter_seconds of Some j \<Rightarrow> j | None \<Rightarrow> default_jitter)
      in if jitter = 0 then base else max 1 (base - jitter + rand))"

definition safe_cache_get :: "bool \<Rightarrow> cache \<Rightarrow> timestamp \<Rightarrow> string \<Rightarrow> cached option" where
  "safe_cache_get up c now k = (if up then cache_get c now k else None)"

definition safe_cache_set ::
  "bool \<Rightarrow> string \<Rightarrow> cached \<Rightarrow> int \<Rightarrow> timestamp \<Rightarrow> cache \<Rightarrow> bool \<times> cache" where
  "safe_cache_set up k v ttl now c =
     (if up then (True, cache_set k v (Some (now + seconds ttl)) c) else (False, c))"

definition safe_cache_add ::
  "bool \<Rightarrow> string \<Rightarrow> cached \<Rightarrow> int option \<Rightarrow> timestamp \<Rightarrow> cache \<Rightarrow> bool option \<times> cache" where
  "safe_cache_add up k v timeout now c =
     (if up then
        (let (added, c') = cache_add k v
               (map_option (\<lambda>t. now + seconds (max 1 t)) timeout) now c
         in (Some added, c'))
      else (None, c))"

definition safe_cache_delete :: "bool \<Rightarrow> string \<Rightarrow> timestamp \<Rightarrow> cache \<Rightarrow> bool \<times> cache" where
  "safe_cache_delete up k now c =
     (if up then (cache_get c now k \<noteq> None, cache_delete k c) else (False, c))"

text \<open>The compare and the delete are one step, as in the server-side script.\<close>

definition safe_cache_compare_delete ::
  "bool \<Rightarrow> string \<Rightarrow> cached \<Rightarrow> timestamp \<Rightarrow> cache \<Rightarrow> bool \<times> cache" where
  "safe_cache_compare_delete up k expected now c =
     (if up \<and> cache_get c now k = Some expected then (True, cache_delete k c) else (False, c))"

definition safe_cache_get_or_set ::
  "bool \<Rightarrow> bool \<Rightarrow> string \<Rightarrow> (unit \<Rightarrow> cached) \<Rightarrow> int \<Rightarrow> timestamp \<Rightarrow> cache \<Rightarrow> cached \<times> cache" where
  "safe_cache_get_or_set up1 up2 k factory ttl now c =
     (case safe_cache_get up1 c now k of
        Some v \<Rightarrow> (v, c)
      | None \<Rightarrow> let v = factory () in (v, snd (safe_cache_set up2 k v ttl now c)))"

definition int_of_cached :: "cached \<Rightarrow> int option" where
  "int_of_cached v = (case v of CInt i \<Rightarrow> Some i | _ \<Rightarrow> None)"

text \<open>Another process may act between the three calls: \<open>env1\<close> before \<open>add\<close>, \<open>env2\<close> before the
  second \<open>get\<close>.\<close>

definition safe_cache_generation ::
  "(nat \<Rightarrow> bool) \<Rightarrow> (cache \<Rightarrow> cache) \<Rightarrow> (cache \<Rightarrow> cache) \<Rightarrow> int \<Rightarrow> string \<Rightarrow> timestamp \<Rightarrow> cache
   \<Rightarrow> int \<times> cache" where
  "safe_cache_generation up env1 env2 rand k now c =
     (case Option.bind (safe_cache_get (up 0) c now k) int_of_cached of
        Some i \<Rightarrow> (i, c)
      | None \<Rightarrow>
          let seed = (if rand = 0 then 1 else rand);
              (created, c1) = safe_cache_add (up 1) k (CInt seed) None now (env1 c)
          in if created = Some False
             then (let c2 = env2 c1
                   in (case Option.bind (safe_cache_get (up 2) c2 now k) int_of_cached of
                         Some i \<Rightarrow> (i, c2) | None \<Rightarrow> (seed, c2)))
             else (seed, c1))"

definition safe_cache_increment ::
  "(nat \<Rightarrow> bool) \<Rightarrow> string \<Rightarrow> int \<Rightarrow> timestamp \<Rightarrow> cache \<Rightarrow> int \<times> cache" where
  "safe_cache_increment up k initial now c =
     (if \<not> up 0 then (initial, c)
      else let c1 = snd (cache_add k (CInt initial) None now c)
           in if \<not> up 1 then (initial, c1)
              else (case cache_incr k now c1 of
                      Some (i, c2) \<Rightarrow> (i, c2)
                    | None \<Rightarrow> (initial + 1,
                               if up 2 then cache_set k (CInt (initial + 1)) None c1 else c1)))"

section \<open>Keys\<close>

definition stable_cache_key :: "(string \<Rightarrow> string) \<Rightarrow> string \<Rightarrow> string option \<Rightarrow> string" where
  "stable_cache_key digest namespace serialized =
     (case serialized of None \<Rightarrow> namespace | Some s \<Rightarrow> namespace @ '':'' @ digest s)"

text \<open>\<open>json.dumps({"generation": \<dots>, "user_id": \<dots>, "superuser": \<dots>}, sort_keys=True, \<dots>)\<close>\<close>

definition snapshot_payload :: "int \<Rightarrow> pk \<Rightarrow> bool \<Rightarrow> string" where
  "snapshot_payload generation user_id superuser =
     ''{\"generation\":'' @ show_int generation @ '',\"superuser\":''
     @ (if superuser then ''true'' else ''false'') @ '',\"user_id\":'' @ show_nat user_id @ ''}''"

definition PERMISSION_CACHE_GENERATION_KEY :: string where
  "PERMISSION_CACHE_GENERATION_KEY = ''accounts:permissions:generation''"

definition permission_key :: "(string \<Rightarrow> string) \<Rightarrow> int \<Rightarrow> user \<Rightarrow> string" where
  "permission_key digest generation u =
     stable_cache_key digest ''accounts:effective-permissions''
       (Some (snapshot_payload generation (usr_id u) (usr_is_superuser u)))"

section \<open>The shared snapshot of the permission codes\<close>

text \<open>One process at a time: nobody acts between the calls of one read.\<close>

definition permission_cache_generation ::
  "bool \<Rightarrow> int \<Rightarrow> timestamp \<Rightarrow> cache \<Rightarrow> int \<times> cache" where
  "permission_cache_generation up rand now c =
     safe_cache_generation (\<lambda>_. up) id id rand PERMISSION_CACHE_GENERATION_KEY now c"

definition invalidate_effective_permission_cache ::
  "bool \<Rightarrow> int \<Rightarrow> timestamp \<Rightarrow> cache \<Rightarrow> cache" where
  "invalidate_effective_permission_cache up rand now c =
     (let (initial, c1) = permission_cache_generation up rand now c
      in snd (safe_cache_increment (\<lambda>_. up) PERMISSION_CACHE_GENERATION_KEY initial now c1))"

definition cached_permission_codes ::
  "(string \<Rightarrow> string) \<Rightarrow> bool \<Rightarrow> int \<Rightarrow> int \<Rightarrow> timestamp \<Rightarrow> db \<Rightarrow> user \<Rightarrow> cache \<Rightarrow> string set \<times> cache" where
  "cached_permission_codes digest up rand ttl now d u c =
     (let (generation, c1) = permission_cache_generation up rand now c;
          k = permission_key digest generation u
      in case safe_cache_get up c1 now k of
           Some (CCodes codes) \<Rightarrow> (codes, c1)
         | _ \<Rightarrow> let codes = load_permission_codes d u
                in (codes, snd (safe_cache_set up k (CCodes codes) ttl now c1)))"

section \<open>The memo of one request\<close>

text \<open>\<open>None\<close> outside a request; \<open>v\<close> is what the factory would return now.\<close>

definition request_cached :: "'k \<Rightarrow> 'v \<Rightarrow> ('k \<times> 'v) list option \<Rightarrow> 'v \<times> ('k \<times> 'v) list option" where
  "request_cached k v memo =
     (case memo of
        None \<Rightarrow> (v, None)
      | Some m \<Rightarrow> (case map_of m k of
                    Some w \<Rightarrow> (w, Some m)
                  | None \<Rightarrow> (v, Some (AList.update k v m))))"

fun request_run :: "('k \<times> 'v) list \<Rightarrow> ('k \<times> 'v) list option \<Rightarrow> 'v list \<times> ('k \<times> 'v) list option" where
  "request_run [] memo = ([], memo)"
| "request_run ((k, v) # calls) memo =
     (let (w, memo1) = request_cached k v memo; (ws, memo2) = request_run calls memo1
      in (w # ws, memo2))"

end
