(* ===== verification/Permission_Snapshot.thy ===== *)
theory Permission_Snapshot
  imports Permission_Cache Access_Properties
begin

text \<open>
  The permission snapshot under concurrent writers and readers (\<open>accounts/signals.py\<close> with
  \<open>accounts/access.py\<close>).  A writer rotates the generation when it saves a row inside its
  transaction and again after the commit; a reader captures the generation, loads the codes
  from the committed tables and stores them, with any other step in between.  While no commit
  is waiting for its second rotation, a read returns the codes of the committed tables.
\<close>

datatype writer = Quiet | InTransaction db | RotationDue

record snapshot_state =
  committed :: db
  writer_phase :: writer
  shared :: cache
  readers :: "(int \<times> user \<times> string set option) list"

definition rotate :: "timestamp \<Rightarrow> int \<Rightarrow> snapshot_state \<Rightarrow> snapshot_state" where
  "rotate now rand s =
     s\<lparr>shared := invalidate_effective_permission_cache True rand now (shared s)\<rparr>"

inductive snapshot_step :: "(string \<Rightarrow> string) \<Rightarrow> snapshot_state \<Rightarrow> snapshot_state \<Rightarrow> bool"
  for digest where
  save: "writer_phase s \<noteq> RotationDue \<Longrightarrow>
    snapshot_step digest s (rotate now rand s\<lparr>writer_phase := InTransaction d'\<rparr>)"
| commit: "writer_phase s = InTransaction d' \<Longrightarrow>
    snapshot_step digest s (s\<lparr>committed := d', writer_phase := RotationDue\<rparr>)"
| on_commit: "writer_phase s = RotationDue \<Longrightarrow>
    snapshot_step digest s (rotate now rand s\<lparr>writer_phase := Quiet\<rparr>)"
| capture: "permission_cache_generation True rand now (shared s) = (g, c) \<Longrightarrow>
    snapshot_step digest s (s\<lparr>shared := c, readers := (g, u, None) # readers s\<rparr>)"
| load: "(g, u, None) \<in> set (readers s) \<Longrightarrow>
    snapshot_step digest s
      (s\<lparr>readers := (g, u, Some (load_permission_codes (committed s) u)) # readers s\<rparr>)"
| store: "(g, u, Some codes) \<in> set (readers s) \<Longrightarrow>
    snapshot_step digest s
      (s\<lparr>shared := snd (safe_cache_set True (permission_key digest g u) (CCodes codes) ttl now (shared s))\<rparr>)"

inductive snapshot_reachable :: "(string \<Rightarrow> string) \<Rightarrow> snapshot_state \<Rightarrow> snapshot_state \<Rightarrow> bool"
  for digest s where
  here: "snapshot_reachable digest s s"
| further: "snapshot_reachable digest s s' \<Longrightarrow> snapshot_step digest s' s'' \<Longrightarrow>
    snapshot_reachable digest s s''"

inductive_cases snapshot_stepE: "snapshot_step digest s s'"

section \<open>Keys of the snapshot\<close>

lemma show_nat_digits: "c \<in> set (show_nat n) \<Longrightarrow> c \<noteq> CHR '','' \<and> c \<noteq> CHR ''}'' \<and> c \<noteq> CHR ''-''"
proof (induction n rule: less_induct)
  case (less n)
  have digit: "char_of (48 + k) \<noteq> CHR '',''" "char_of (48 + k) \<noteq> CHR ''}''"
    "char_of (48 + k) \<noteq> CHR ''-''" if "k < 10" for k :: nat
  proof -
    have code: "(of_char (char_of (48 + k) :: char) :: nat) = 48 + k" using that by simp
    show "char_of (48 + k) \<noteq> CHR '',''" "char_of (48 + k) \<noteq> CHR ''}''" "char_of (48 + k) \<noteq> CHR ''-''"
      using code that by (auto dest!: arg_cong [where f = "of_char :: char \<Rightarrow> nat"])
  qed
  show ?case
  proof (cases "n < 10")
    case True
    with less.prems digit [of n] show ?thesis by (simp add: show_nat.simps)
  next
    case False
    then have "show_nat n = show_nat (n div 10) @ [char_of (48 + n mod 10)]"
      by (subst show_nat.simps) simp
    with less.prems consider "c \<in> set (show_nat (n div 10))" | "c = char_of (48 + n mod 10)" by auto
    then show ?thesis
    proof cases
      case 1
      moreover have "n div 10 < n" using False by simp
      ultimately show ?thesis by (intro less.IH)
    next
      case 2
      then show ?thesis using digit [of "n mod 10"] by simp
    qed
  qed
qed

lemma show_int_no_comma: "CHR '','' \<notin> set (show_int i)"
  using show_nat_digits by (auto simp: show_int_def)

lemma show_nat_nonempty [simp]: "show_nat n \<noteq> []"
  by (subst show_nat.simps) simp

lemma show_int_inj: "show_int i = show_int j \<Longrightarrow> i = j"
proof -
  assume eq: "show_int i = show_int j"
  have minus: "CHR ''-'' \<in> set (show_int k) \<longleftrightarrow> k < 0" for k
    using show_nat_digits by (auto simp: show_int_def)
  from minus [of i] minus [of j] eq have "i < 0 \<longleftrightarrow> j < 0" by simp
  with eq show ?thesis by (auto simp: show_int_def dest!: show_nat_inj split: if_splits)
qed

lemma until_separator:
  "xs @ c # ys = xs' @ c # ys' \<Longrightarrow> c \<notin> set xs \<Longrightarrow> c \<notin> set xs' \<Longrightarrow> xs = xs' \<and> ys = ys'"
proof (induction xs arbitrary: xs')
  case Nil
  then show ?case by (cases xs') auto
next
  case (Cons x xs)
  then show ?case by (cases xs') auto
qed

lemma snapshot_payload_inj:
  assumes "snapshot_payload g i a = snapshot_payload h j b"
  shows "g = h \<and> i = j \<and> a = b"
proof -
  have tail: "show_int g @ CHR '','' # (''\"superuser\":'' @ (if a then ''true'' else ''false'')
        @ '',\"user_id\":'' @ show_nat i @ ''}'')
    = show_int h @ CHR '','' # (''\"superuser\":'' @ (if b then ''true'' else ''false'')
        @ '',\"user_id\":'' @ show_nat j @ ''}'')"
    using assms by (simp add: snapshot_payload_def)
  from until_separator [OF tail show_int_no_comma show_int_no_comma]
  have g: "show_int g = show_int h" and rest: "(if a then ''true'' else ''false'')
        @ '',\"user_id\":'' @ show_nat i @ ''}''
      = (if b then ''true'' else ''false'') @ '',\"user_id\":'' @ show_nat j @ ''}''"
    by simp_all
  have "a = b" using rest by (cases a; cases b) simp_all
  with rest have "show_nat i = show_nat j" by (cases b) simp_all
  with g \<open>a = b\<close> show ?thesis by (auto dest: show_int_inj show_nat_inj)
qed

lemma permission_key_inj:
  assumes "inj digest" and "permission_key digest g u = permission_key digest h v"
  shows "g = h \<and> usr_id u = usr_id v \<and> usr_is_superuser u = usr_is_superuser v"
  using assms by (auto simp: permission_key_def stable_cache_key_def dest!: injD snapshot_payload_inj)

lemma permission_key_not_generation: "permission_key digest g u \<noteq> PERMISSION_CACHE_GENERATION_KEY"
  by (simp add: permission_key_def stable_cache_key_def PERMISSION_CACHE_GENERATION_KEY_def)

text \<open>The two fields of the key determine the codes.\<close>

lemma permission_key_codes:
  assumes "inj digest" and "permission_key digest g u = permission_key digest h v"
  shows "g = h" and "load_permission_codes d u = load_permission_codes d v"
  using permission_key_inj [OF assms] by (simp_all add: load_permission_codes_def)

section \<open>Generations\<close>

definition generation_is :: "cache \<Rightarrow> int \<Rightarrow> bool" where
  "generation_is c g \<longleftrightarrow> map_of c PERMISSION_CACHE_GENERATION_KEY = Some (CInt g, None)"

lemma cache_get_permanent: "map_of c k = Some (v, None) \<Longrightarrow> cache_get c now k = Some v"
  by (simp add: cache_get_def)

lemma map_of_cache_set: "map_of (cache_set k v e c) = (map_of c)(k \<mapsto> (v, e))"
  by (simp add: cache_set_def update_conv')

lemma generation_read:
  "generation_is c g \<Longrightarrow> permission_cache_generation True rand now c = (g, c)"
  by (simp add: generation_is_def permission_cache_generation_def safe_cache_generation_def
      safe_cache_get_def cache_get_permanent int_of_cached_def)

lemma generation_rotated:
  assumes "generation_is c g"
  shows "map_of (invalidate_effective_permission_cache True rand now c)
    = (map_of c)(PERMISSION_CACHE_GENERATION_KEY \<mapsto> (CInt (g + 1), None))"
proof -
  have "cache_get c now PERMISSION_CACHE_GENERATION_KEY = Some (CInt g)"
    using assms by (simp add: generation_is_def cache_get_permanent)
  then show ?thesis
    using assms generation_read [OF assms]
    by (simp add: invalidate_effective_permission_cache_def safe_cache_increment_def cache_add_def
        cache_incr_def map_of_cache_set generation_is_def)
qed

definition current_ok :: "int \<Rightarrow> snapshot_state \<Rightarrow> int \<Rightarrow> user \<Rightarrow> string set \<Rightarrow> bool" where
  "current_ok g s h u codes \<longleftrightarrow>
     (h = g \<and> writer_phase s \<noteq> RotationDue \<longrightarrow> codes = load_permission_codes (committed s) u)"

definition readers_ok :: "int \<Rightarrow> snapshot_state \<Rightarrow> bool" where
  "readers_ok g s \<longleftrightarrow>
     (\<forall>h u codes. (h, u, codes) \<in> set (readers s) \<longrightarrow>
        h \<le> g \<and> (\<forall>cs. codes = Some cs \<longrightarrow> current_ok g s h u cs))"

definition stored_ok :: "(string \<Rightarrow> string) \<Rightarrow> int \<Rightarrow> snapshot_state \<Rightarrow> bool" where
  "stored_ok digest g s \<longleftrightarrow>
     (\<forall>h u v e. map_of (shared s) (permission_key digest h u) = Some (v, e) \<longrightarrow>
        h \<le> g \<and> (\<exists>codes. v = CCodes codes \<and> current_ok g s h u codes))"

definition snapshot_inv :: "(string \<Rightarrow> string) \<Rightarrow> snapshot_state \<Rightarrow> bool" where
  "snapshot_inv digest s \<longleftrightarrow>
     (\<exists>g. generation_is (shared s) g \<and> readers_ok g s \<and> stored_ok digest g s)"

lemma readers_okD: "readers_ok g s \<Longrightarrow> (h, u, codes) \<in> set (readers s) \<Longrightarrow> h \<le> g"
  by (simp add: readers_ok_def)

lemma stored_okD:
  "stored_ok digest g s \<Longrightarrow> map_of (shared s) (permission_key digest h u) = Some (v, e) \<Longrightarrow>
   h \<le> g \<and> (\<exists>codes. v = CCodes codes \<and> current_ok g s h u codes)"
  unfolding stored_ok_def by blast

lemma snapshot_inv_rotate:
  assumes "snapshot_inv digest s"
  shows "snapshot_inv digest (rotate now rand s\<lparr>writer_phase := w\<rparr>)" (is "snapshot_inv digest ?s")
proof -
  obtain g where g: "generation_is (shared s) g" and readers: "readers_ok g s"
    and stored: "stored_ok digest g s"
    using assms by (auto simp: snapshot_inv_def)
  note new = generation_rotated [OF g, of rand now]
  have later: "h \<le> g \<Longrightarrow> h \<le> g + 1 \<and> current_ok (g + 1) ?s h u codes" for h u codes
    by (auto simp: current_ok_def)
  have "generation_is (shared ?s) (g + 1)" by (simp add: rotate_def generation_is_def new)
  moreover have "readers_ok (g + 1) ?s"
    unfolding readers_ok_def
  proof (intro allI impI)
    fix h u codes
    assume "(h, u, codes) \<in> set (readers ?s)"
    then have "h \<le> g" using readers_okD [OF readers] by (simp add: rotate_def)
    with later show "h \<le> g + 1 \<and> (\<forall>cs. codes = Some cs \<longrightarrow> current_ok (g + 1) ?s h u cs)" by blast
  qed
  moreover have "stored_ok digest (g + 1) ?s"
    unfolding stored_ok_def
  proof (intro allI impI)
    fix h u v e
    assume "map_of (shared ?s) (permission_key digest h u) = Some (v, e)"
    then have "map_of (shared s) (permission_key digest h u) = Some (v, e)"
      by (simp add: rotate_def new permission_key_not_generation)
    from stored_okD [OF stored this] later [of h]
    show "h \<le> g + 1 \<and> (\<exists>codes. v = CCodes codes \<and> current_ok (g + 1) ?s h u codes)" by blast
  qed
  ultimately show ?thesis unfolding snapshot_inv_def by blast
qed

lemma stored_ok_weaken:
  assumes "stored_ok digest g s" and "shared s' = shared s"
    and "\<And>h u codes. current_ok g s h u codes \<Longrightarrow> current_ok g s' h u codes"
  shows "stored_ok digest g s'"
  unfolding stored_ok_def assms(2) using stored_okD [OF assms(1)] assms(3) by blast

lemma stored_ok_store:
  assumes "stored_ok digest g s" and "inj digest" and "h \<le> g" and "current_ok g s h u codes"
  shows "stored_ok digest g (s\<lparr>shared := cache_set (permission_key digest h u) (CCodes codes) e (shared s)\<rparr>)"
    (is "stored_ok digest g ?s")
  unfolding stored_ok_def
proof (intro allI impI)
  fix i w v e'
  assume entry: "map_of (shared ?s) (permission_key digest i w) = Some (v, e')"
  have same: "current_ok g ?s = current_ok g s" by (simp add: current_ok_def fun_eq_iff)
  show "i \<le> g \<and> (\<exists>codes. v = CCodes codes \<and> current_ok g ?s i w codes)"
  proof (cases "permission_key digest i w = permission_key digest h u")
    case True
    note permission_key_codes [OF assms(2) this]
    moreover from True have "v = CCodes codes" using entry by (simp add: map_of_cache_set)
    ultimately show ?thesis
      using assms(3,4) unfolding same by (auto simp: current_ok_def)
  next
    case False
    with entry have "map_of (shared s) (permission_key digest i w) = Some (v, e')"
      by (simp add: map_of_cache_set)
    from stored_okD [OF assms(1) this] show ?thesis unfolding same .
  qed
qed

lemma snapshot_step_inv:
  assumes "snapshot_step digest s s'" and "snapshot_inv digest s" and "inj digest"
  shows "snapshot_inv digest s'"
proof -
  obtain g where g: "generation_is (shared s) g" and readers: "readers_ok g s"
    and stored: "stored_ok digest g s"
    using assms(2) by (auto simp: snapshot_inv_def)
  from assms(1) show ?thesis
  proof cases
    case (save now rand d')
    then show ?thesis using snapshot_inv_rotate [OF assms(2)] by simp
  next
    case (commit d')
    have "readers_ok g s'" using readers commit by (simp add: readers_ok_def current_ok_def)
    moreover have "stored_ok digest g s'"
      using commit by (intro stored_ok_weaken [OF stored]) (simp_all add: current_ok_def)
    ultimately show ?thesis using g commit by (auto simp: snapshot_inv_def)
  next
    case (on_commit now rand)
    then show ?thesis using snapshot_inv_rotate [OF assms(2)] by simp
  next
    case (capture rand now h c u)
    have "c = shared s" "h = g" using capture generation_read [OF g] by auto
    then have s': "s' = s\<lparr>readers := (g, u, None) # readers s\<rparr>" using capture by simp
    have "readers_ok g s'" using readers by (auto simp: s' readers_ok_def current_ok_def)
    moreover have "stored_ok digest g s'"
      by (intro stored_ok_weaken [OF stored]) (simp_all add: s' current_ok_def)
    ultimately show ?thesis using g by (auto simp: snapshot_inv_def s')
  next
    case (load h u)
    have "readers_ok g s'"
      using readers load readers_okD [OF readers load(2)] by (auto simp: readers_ok_def current_ok_def)
    moreover have "stored_ok digest g s'"
      using load by (intro stored_ok_weaken [OF stored]) (simp_all add: current_ok_def)
    ultimately show ?thesis using g load by (auto simp: snapshot_inv_def)
  next
    case (store h u codes ttl now)
    have s': "s' = s\<lparr>shared := cache_set (permission_key digest h u) (CCodes codes)
        (Some (now + seconds ttl)) (shared s)\<rparr>"
      using store by (simp add: safe_cache_set_def)
    have "h \<le> g" "current_ok g s h u codes" using readers store(2) by (auto simp: readers_ok_def)
    from stored_ok_store [OF stored assms(3) this] have "stored_ok digest g s'" unfolding s' .
    moreover have "readers_ok g s'" using readers by (simp add: s' readers_ok_def current_ok_def)
    moreover have "generation_is (shared s') g"
      using g permission_key_not_generation [of digest h u]
      by (auto simp: generation_is_def s' map_of_cache_set)
    ultimately show ?thesis unfolding snapshot_inv_def by blast
  qed
qed

lemma snapshot_reachable_inv:
  "snapshot_reachable digest s s' \<Longrightarrow> snapshot_inv digest s \<Longrightarrow> inj digest \<Longrightarrow> snapshot_inv digest s'"
  by (induction rule: snapshot_reachable.induct) (auto intro: snapshot_step_inv)

definition snapshot_start :: "db \<Rightarrow> int \<Rightarrow> snapshot_state" where
  "snapshot_start d g = \<lparr>committed = d, writer_phase = Quiet,
     shared = [(PERMISSION_CACHE_GENERATION_KEY, CInt g, None)], readers = []\<rparr>"

lemma snapshot_start_inv: "snapshot_inv digest (snapshot_start d g)"
  using permission_key_not_generation [of digest]
  by (auto simp: snapshot_inv_def snapshot_start_def generation_is_def readers_ok_def stored_ok_def)

text \<open>C37: However reads and permission changes interleave, a read of the shared permission
  snapshot returns the codes of the committed tables, except in the gap between a commit and
  its second rotation of the generation: no reader can leave codes it loaded before a commit
  under a generation that is still in use.  The digest of the keys is taken to be injective.\<close>

theorem snapshot_reads_committed_codes:
  assumes "snapshot_reachable digest (snapshot_start d g) s" and "inj digest"
    and "writer_phase s \<noteq> RotationDue"
  shows "fst (cached_permission_codes digest True rand ttl now (committed s) u (shared s))
    = load_permission_codes (committed s) u"
proof -
  from snapshot_reachable_inv [OF assms(1) snapshot_start_inv assms(2)]
  obtain g' where gen: "generation_is (shared s) g'" and stored: "stored_ok digest g' s"
    by (auto simp: snapshot_inv_def)
  have "cache_get (shared s) now (permission_key digest g' u)
      \<in> {None, Some (CCodes (load_permission_codes (committed s) u))}"
  proof (cases "map_of (shared s) (permission_key digest g' u)")
    case (Some entry)
    with stored_okD [OF stored, of g' u "fst entry" "snd entry"] assms(3)
    have "fst entry = CCodes (load_permission_codes (committed s) u)" by (auto simp: current_ok_def)
    with Some show ?thesis by (cases entry) (auto simp: cache_get_def split: option.splits)
  qed (simp add: cache_get_def)
  then show ?thesis
    by (auto simp: cached_permission_codes_def generation_read [OF gen] safe_cache_get_def Let_def)
qed

lemma snapshot_reads_committed_codes_witness:
  "\<exists>s. snapshot_reachable id (snapshot_start sample_db 5) s \<and> committed s = access_db
     \<and> fst (cached_permission_codes id True 0 300 0 (committed s) (sample_user 31) (shared s)) = load_permission_codes access_db (sample_user 31)"
proof -
  let ?s0 = "snapshot_start sample_db 5"
  let ?s1 = "rotate 0 0 ?s0\<lparr>writer_phase := InTransaction access_db\<rparr>"
  let ?s2 = "?s1\<lparr>committed := access_db, writer_phase := RotationDue\<rparr>"
  let ?s3 = "rotate 0 0 ?s2\<lparr>writer_phase := Quiet\<rparr>"
  have "snapshot_reachable id ?s0 ?s1"
    by (rule snapshot_reachable.further [OF snapshot_reachable.here snapshot_step.save])
      (simp add: snapshot_start_def)
  then have "snapshot_reachable id ?s0 ?s2"
    by (rule snapshot_reachable.further [OF _ snapshot_step.commit]) simp
  then have reach: "snapshot_reachable id ?s0 ?s3"
    by (rule snapshot_reachable.further [OF _ snapshot_step.on_commit]) simp
  have "committed ?s3 = access_db" by (simp add: rotate_def)
  moreover have "fst (cached_permission_codes id True 0 300 0 (committed ?s3) (sample_user 31) (shared ?s3))
      = load_permission_codes (committed ?s3) (sample_user 31)"
    by (rule snapshot_reads_committed_codes [OF reach]) simp_all
  ultimately show ?thesis using reach by metis
qed

section \<open>Time-to-live and the request memo\<close>

text \<open>The jittered time-to-live is positive and stays within the jitter of its base, for every
  random number \<open>randbelow\<close> may return.\<close>

theorem jittered_ttl_bounds:
  assumes "0 \<le> rand" and "rand \<le> 2 * max 0 j" and "0 < b"
  shows "1 \<le> jittered_ttl (Some b) (Some j) default_ttl default_jitter rand
    \<and> b - max 0 j \<le> jittered_ttl (Some b) (Some j) default_ttl default_jitter rand
    \<and> jittered_ttl (Some b) (Some j) default_ttl default_jitter rand \<le> b + max 0 j"
  using assms by (auto simp: jittered_ttl_def Let_def max_def)

lemma jittered_ttl_bounds_witness: "1 \<le> jittered_ttl (Some 300) (Some 30) 900 180 60"
  using jittered_ttl_bounds [of 60 30 300 900 180] by simp

lemma request_cached_memo:
  "\<exists>w m1. request_cached k v (Some m) = (w, Some m1) \<and> map_of m1 k = Some w
     \<and> (\<forall>j u. map_of m j = Some u \<longrightarrow> map_of m1 j = Some u)"
  by (cases "map_of m k") (auto simp: request_cached_def update_conv')

lemma request_run_values:
  assumes "request_run calls (Some m) = (ws, m')"
  shows "\<exists>m''. m' = Some m'' \<and> (\<forall>k v. map_of m k = Some v \<longrightarrow> map_of m'' k = Some v)
    \<and> length ws = length calls
    \<and> (\<forall>i < length calls. map_of m'' (fst (calls ! i)) = Some (ws ! i))"
  using assms
proof (induction calls arbitrary: m ws)
  case Nil
  then show ?case by auto
next
  case (Cons call calls)
  obtain k v where call: "call = (k, v)" by (cases call)
  obtain w m1 where now: "request_cached k v (Some m) = (w, Some m1)"
    and kept: "map_of m1 k = Some w" "\<forall>j u. map_of m j = Some u \<longrightarrow> map_of m1 j = Some u"
    using request_cached_memo [of k v m] by blast
  obtain vs where rest: "request_run calls (Some m1) = (vs, m')" and ws: "ws = w # vs"
    using Cons.prems call now by (auto split: prod.splits)
  from Cons.IH [OF rest] obtain m'' where m'': "m' = Some m''"
    "\<forall>j u. map_of m1 j = Some u \<longrightarrow> map_of m'' j = Some u" "length vs = length calls"
    "\<forall>i < length calls. map_of m'' (fst (calls ! i)) = Some (vs ! i)" by blast
  have "map_of m'' (fst ((call # calls) ! i)) = Some (ws ! i)" if "i < length (call # calls)" for i
    using that m'' kept call ws by (cases i) auto
  with m'' kept ws show ?case by auto
qed

text \<open>Within one request every lookup of the same key returns the same value, whatever the
  factory would return later in the request: permission checks of one request are consistent.\<close>

theorem request_memo_consistent:
  assumes "request_run calls (Some []) = (ws, memo)" and "i < length calls" and "j < length calls"
    and "fst (calls ! i) = fst (calls ! j)"
  shows "ws ! i = ws ! j"
proof -
  obtain m where "\<forall>i < length calls. map_of m (fst (calls ! i)) = Some (ws ! i)"
    using request_run_values [OF assms(1)] by blast
  then have "Some (ws ! i) = map_of m (fst (calls ! i))" "Some (ws ! j) = map_of m (fst (calls ! j))"
    using assms(2,3) by simp_all
  then have "Some (ws ! i) = Some (ws ! j)" unfolding assms(4) by (rule trans [OF _ sym])
  then show ?thesis by simp
qed

lemma request_memo_consistent_witness:
  "fst (request_run [(''a'', 1::nat), (''b'', 2), (''a'', 3)] (Some [])) ! 2 = 1"
proof -
  obtain ws memo where run: "request_run [(''a'', 1::nat), (''b'', 2), (''a'', 3)] (Some []) = (ws, memo)"
    by (cases "request_run [(''a'', 1::nat), (''b'', 2), (''a'', 3)] (Some [])")
  from request_memo_consistent [OF run, of 2 0] run show ?thesis
    by (auto simp: request_cached_def)
qed

end
