(* ===== verification/Final_Ids.thy ===== *)
theory Final_Ids
  imports Database
begin

text \<open>
  \<open>surveys/final_ids.py\<close>: reading the respondent identifiers of a client's reconciliation file
  and applying the client's decision to its attempts.  A file is its name, size, the rows
  the CSV or spreadsheet reader yields and whether it then raises (undecodable bytes, a broken
  sheet); a cell is the text \<open>str(value or "")\<close> gives.  The SHA-256 digest of the bytes and the time stamp of
  local midnight are arguments.  The status rows are written as they are decided: the code
  collects them and writes them at the end of the same transaction.
\<close>

definition MAX_UPLOAD_BYTES :: nat where
  "MAX_UPLOAD_BYTES = 15 * 1024 * 1024"

definition MAX_UNIQUE_RIDS :: nat where
  "MAX_UNIQUE_RIDS = 50000"

definition RID_HEADERS :: "string list" where
  "RID_HEADERS = [''rid'', ''respondentid'', ''respondentidentifier'']"

record uploaded_file =
  uf_name :: string
  uf_size :: nat
  uf_rows :: "string list list"
  uf_breaks :: bool
  uf_digest :: string

section \<open>Reading the identifiers\<close>

definition path_name :: "string \<Rightarrow> string" where
  "path_name s =
     (case filter (\<lambda>part. part \<noteq> [] \<and> part \<noteq> ''.'') (py_split (CHR ''/'') s) of
        [] \<Rightarrow> [] | parts \<Rightarrow> last parts)"

definition path_suffix :: "string \<Rightarrow> string" where
  "path_suffix filename =
     (let ending = rev (takeWhile (\<lambda>c. c \<noteq> CHR ''.'') (rev filename))
      in if ending = [] \<or> length filename \<le> Suc (length ending) then []
         else CHR ''.'' # ending)"

definition normalise_header :: "string \<Rightarrow> string" where
  "normalise_header s = filter is_alnum_ascii (py_lower s)"

definition normalise_rid :: "string \<Rightarrow> string" where
  "normalise_rid s =
     (let rid = py_strip s
      in if py_startswith rid [CHR 0x27] \<and> length rid = 11 then tl rid else rid)"

fun find_index :: "('a \<Rightarrow> bool) \<Rightarrow> 'a list \<Rightarrow> nat option" where
  "find_index P [] = None"
| "find_index P (x # xs) = (if P x then Some 0 else map_option Suc (find_index P xs))"

text \<open>\<open>_csv_values\<close> and \<open>_xlsx_values\<close>, with the messages of each format.  Both are generators
  that turn an error of the reader into an \<open>ImportError\<close> only while it reads the header; what
  it raises on a later row passes through to the loop that consumes the values.\<close>

record reader_messages =
  rm_unreadable :: string
  rm_empty :: string

definition csv_messages :: reader_messages where
  "csv_messages = \<lparr>rm_unreadable = ''CSV must be a valid UTF-8 file with an RID column.'',
     rm_empty = ''The CSV file is empty.''\<rparr>"

definition xlsx_messages :: reader_messages where
  "xlsx_messages = \<lparr>rm_unreadable = ''Excel file could not be read. Upload a valid .xlsx file.'',
     rm_empty = ''The Excel file is empty.''\<rparr>"

definition column_values :: "reader_messages \<Rightarrow> uploaded_file \<Rightarrow> py_error + string list" where
  "column_values messages f =
     (case uf_rows f of
        [] \<Rightarrow> Inl (ImportError (if uf_breaks f then rm_unreadable messages else rm_empty messages))
      | headers # body \<Rightarrow>
          if headers = [] then Inl (ImportError (rm_empty messages))
          else (case find_index (\<lambda>h. normalise_header h \<in> set RID_HEADERS) headers of
                  None \<Rightarrow> Inl (ImportError ''The file must contain an RID column.'')
                | Some i \<Rightarrow> Inr [row ! i. row \<leftarrow> body, i < length row]))"

text \<open>The loop over the values: the distinct identifiers so far, rows submitted, rows invalid.\<close>

fun rids_loop :: "string list \<Rightarrow> string list \<Rightarrow> nat \<Rightarrow> nat \<Rightarrow> py_error + string list \<times> nat \<times> nat" where
  "rids_loop [] rids submitted invalid = Inr (rids, submitted, invalid)"
| "rids_loop (v # vs) rids submitted invalid =
     (let rid = normalise_rid v
      in if rid = [] then rids_loop vs rids submitted invalid
         else if length rid \<noteq> 10 \<or> \<not> py_isalnum rid
         then rids_loop vs rids (Suc submitted) (Suc invalid)
         else let rids' = (if rid \<in> set rids then rids else rids @ [rid])
              in if MAX_UNIQUE_RIDS < length rids'
                 then Inl (ImportError ''One upload can contain at most 50,000 unique RIDs.'')
                 else rids_loop vs rids' (Suc submitted) invalid)"

definition read_uploaded_rids :: "uploaded_file \<Rightarrow> py_error + string list \<times> nat \<times> nat \<times> string" where
  "read_uploaded_rids f =
     (let filename = path_name (uf_name f); suffix = py_lower (path_suffix filename)
      in if filename = [] \<or> suffix \<notin> {''.csv'', ''.xlsx''}
         then Inl (ImportError ''Upload a CSV or Excel (.xlsx) file.'')
         else if uf_size f < 1 then Inl (ImportError ''The selected file is empty.'')
         else if MAX_UPLOAD_BYTES < uf_size f
         then Inl (ImportError ''The selected file is larger than the 15 MB limit.'')
         else (case column_values (if suffix = ''.csv'' then csv_messages else xlsx_messages) f of
                 Inl e \<Rightarrow> Inl e
               | Inr cells \<Rightarrow>
                   (case rids_loop cells [] 0 0 of
                      Inl e \<Rightarrow> Inl e
                    | Inr (rids, submitted, invalid) \<Rightarrow>
                        if uf_breaks f then Inl (ValueError ''raised by the reader'')
                        else if rids = [] then
                          Inl (ImportError
                            (if invalid \<noteq> 0
                             then ''No valid 10-character RIDs were found; '' @ show_nat invalid
                                  @ '' invalid row(s) were skipped.''
                             else ''No RID values were found in the uploaded file.''))
                        else Inr (rids, submitted, invalid, uf_digest f))))"

section \<open>Which attempts a decision reaches\<close>

definition attempt_matches_client :: "db \<Rightarrow> survey_attempt \<Rightarrow> pk \<Rightarrow> bool" where
  "attempt_matches_client d a client =
     (Some client \<in> {at_client a,
        Option.bind (get_survey d (at_survey a)) sv_client,
        Option.bind (Option.bind (get_survey d (at_survey a)) sv_integration)
          (\<lambda>i. map_option ci_client (get_integration d i))})"

definition client_attempt_filter :: "db \<Rightarrow> pk \<Rightarrow> survey_attempt \<Rightarrow> bool" where
  "client_attempt_filter d client a =
     (at_client a = Some client
      \<or> Option.bind (get_survey d (at_survey a)) sv_client = Some client
      \<or> Option.bind (Option.bind (get_survey d (at_survey a)) sv_integration)
          (\<lambda>i. map_option ci_client (get_integration d i)) = Some client)"

definition accounting_month_bounds :: "(date \<Rightarrow> timestamp) \<Rightarrow> date \<Rightarrow> timestamp \<times> timestamp" where
  "accounting_month_bounds local_midnight month =
     (case month of (y, m, day) \<Rightarrow>
        let next_month = (if m = 12 then (y + 1, 1, 1) else (y, m + 1, 1))
        in (local_midnight month, local_midnight next_month))"

definition final_lifecycle :: "attempt_status \<Rightarrow> bool" where
  "final_lifecycle s = (s \<in> {COMPLETED, TERMINATED, OVER_QUOTA, QUALITY_TERMINATED})"

definition find_attempt_by_rid :: "db \<Rightarrow> string \<Rightarrow> survey_attempt option" where
  "find_attempt_by_rid d rid = List.find (\<lambda>a. at_rid a = rid) (attempts d)"

definition eligible_rid :: "db \<Rightarrow> pk \<Rightarrow> string \<Rightarrow> bool" where
  "eligible_rid d client rid =
     (case find_attempt_by_rid d rid of
        None \<Rightarrow> False
      | Some a \<Rightarrow> attempt_matches_client d a client \<and> final_lifecycle (at_status a))"

definition final_status_of :: "db \<Rightarrow> pk \<Rightarrow> final_id_status option" where
  "final_status_of d attempt = List.find (\<lambda>s. fs_attempt s = attempt) (final_statuses d)"

definition auto_rejected_attempts ::
  "(date \<Rightarrow> timestamp) \<Rightarrow> db \<Rightarrow> pk \<Rightarrow> date \<Rightarrow> decision \<Rightarrow> string list \<Rightarrow> survey_attempt list" where
  "auto_rejected_attempts local_midnight d client month decided rids =
     (if decided = ACCEPTED \<and> list_ex (eligible_rid d client) rids
      then let (lower, upper) = accounting_month_bounds local_midnight month
           in filter (\<lambda>a. client_attempt_filter d client a \<and> at_status a = COMPLETED
                        \<and> lower \<le> at_initiated_at a \<and> at_initiated_at a < upper
                        \<and> at_rid a \<notin> set rids \<and> final_status_of d (at_id a) = None)
                (attempts d)
      else [])"

section \<open>Applying the decision\<close>

record import_counters =
  ic_applied :: nat
  ic_not_found :: nat
  ic_client_mismatch :: nat
  ic_not_completed :: nat
  ic_auto_rejected :: nat

record import_run =
  run_upload :: pk
  run_client :: pk
  run_month :: date
  run_now :: timestamp

definition add_item ::
  "import_run \<Rightarrow> string \<Rightarrow> pk option \<Rightarrow> item_outcome \<Rightarrow> string \<Rightarrow> string \<Rightarrow> db \<Rightarrow> db" where
  "add_item run rid attempt outcome previous applied d =
     d\<lparr>final_items := final_items d @
        [\<lparr>fi_id = next_pk fi_id (final_items d), fi_upload = run_upload run, fi_rid = rid,
          fi_attempt = attempt, fi_outcome = outcome, fi_previous_status = previous,
          fi_applied_status = applied, fi_created_at = run_now run\<rparr>]\<rparr>"

definition write_status :: "import_run \<Rightarrow> pk \<Rightarrow> decision \<Rightarrow> db \<Rightarrow> db" where
  "write_status run attempt applied d =
     (case final_status_of d attempt of
        None \<Rightarrow>
          d\<lparr>final_statuses := final_statuses d @
             [\<lparr>fs_id = next_pk fs_id (final_statuses d), fs_attempt = attempt,
               fs_client = run_client run, fs_status = applied,
               fs_accounting_month = run_month run, fs_upload = run_upload run,
               fs_updated_at = run_now run\<rparr>]\<rparr>
      | Some _ \<Rightarrow>
          d\<lparr>final_statuses := update_where (\<lambda>s. fs_attempt s = attempt)
              (\<lambda>s. s\<lparr>fs_client := run_client run, fs_status := applied,
                     fs_accounting_month := run_month run, fs_upload := run_upload run,
                     fs_updated_at := run_now run\<rparr>) (final_statuses d)\<rparr>)"

definition apply_status :: "import_run \<Rightarrow> survey_attempt \<Rightarrow> decision \<Rightarrow> string \<Rightarrow> db \<Rightarrow> db" where
  "apply_status run a applied rid d =
     add_item run rid (Some (at_id a)) APPLIED
       (case final_status_of d (at_id a) of Some s \<Rightarrow> decision_value (fs_status s) | None \<Rightarrow> [])
       (decision_value applied)
       (write_status run (at_id a) applied d)"

definition import_rid ::
  "import_run \<Rightarrow> decision \<Rightarrow> string \<Rightarrow> db \<times> import_counters \<Rightarrow> db \<times> import_counters" where
  "import_rid run decided rid dc =
     (case dc of (d, c) \<Rightarrow>
        (case find_attempt_by_rid d rid of
           None \<Rightarrow> (add_item run rid None NOT_FOUND [] [] d, c\<lparr>ic_not_found := Suc (ic_not_found c)\<rparr>)
         | Some a \<Rightarrow>
             if \<not> attempt_matches_client d a (run_client run) then
               (add_item run rid (Some (at_id a)) CLIENT_MISMATCH [] [] d,
                c\<lparr>ic_client_mismatch := Suc (ic_client_mismatch c)\<rparr>)
             else if \<not> final_lifecycle (at_status a) then
               (add_item run rid (Some (at_id a)) NOT_COMPLETED [] [] d,
                c\<lparr>ic_not_completed := Suc (ic_not_completed c)\<rparr>)
             else (apply_status run a decided rid d, c\<lparr>ic_applied := Suc (ic_applied c)\<rparr>)))"

definition import_auto_rejected ::
  "import_run \<Rightarrow> survey_attempt \<Rightarrow> db \<times> import_counters \<Rightarrow> db \<times> import_counters" where
  "import_auto_rejected run a dc =
     (case dc of (d, c) \<Rightarrow>
        (apply_status run a REJECTED (at_rid a) d, c\<lparr>ic_auto_rejected := Suc (ic_auto_rejected c)\<rparr>))"

record import_result =
  ir_upload_id :: pk
  ir_submitted :: nat
  ir_unique :: nat
  ir_invalid :: nat
  ir_counters :: import_counters

definition decision_of_value :: "string \<Rightarrow> decision option" where
  "decision_of_value v =
     (if v = ''accepted'' then Some ACCEPTED else if v = ''rejected'' then Some REJECTED else None)"

definition new_upload ::
  "db \<Rightarrow> uploaded_file \<Rightarrow> pk \<Rightarrow> date \<Rightarrow> decision \<Rightarrow> pk option \<Rightarrow> nat \<Rightarrow> nat \<Rightarrow> nat \<Rightarrow> string
   \<Rightarrow> timestamp \<Rightarrow> final_id_upload" where
  "new_upload d f client month decided uploaded_by submitted unique invalid sha now =
     \<lparr>fu_id = next_pk fu_id (final_uploads d), fu_client = client, fu_accounting_month = month,
      fu_decision = decided, fu_original_filename = path_name (uf_name f), fu_file_sha256 = sha,
      fu_uploaded_by = uploaded_by, fu_submitted_count = submitted, fu_unique_rid_count = unique,
      fu_invalid_count = invalid, fu_applied_count = 0, fu_not_found_count = 0,
      fu_client_mismatch_count = 0, fu_not_completed_count = 0, fu_auto_rejected_count = 0,
      fu_created_at = now\<rparr>"

definition record_counters :: "pk \<Rightarrow> import_counters \<Rightarrow> db \<Rightarrow> db" where
  "record_counters upload c d =
     d\<lparr>final_uploads := update_where (\<lambda>u. fu_id u = upload)
         (\<lambda>u. u\<lparr>fu_applied_count := ic_applied c, fu_not_found_count := ic_not_found c,
                fu_client_mismatch_count := ic_client_mismatch c,
                fu_not_completed_count := ic_not_completed c,
                fu_auto_rejected_count := ic_auto_rejected c\<rparr>) (final_uploads d)\<rparr>"

definition no_counters :: import_counters where
  "no_counters = \<lparr>ic_applied = 0, ic_not_found = 0, ic_client_mismatch = 0, ic_not_completed = 0,
     ic_auto_rejected = 0\<rparr>"

definition import_final_ids ::
  "(date \<Rightarrow> timestamp) \<Rightarrow> db \<Rightarrow> uploaded_file \<Rightarrow> pk \<Rightarrow> date \<Rightarrow> string \<Rightarrow> pk option \<Rightarrow> timestamp
   \<Rightarrow> py_error + (import_result \<times> db)" where
  "import_final_ids local_midnight d f client month decision uploaded_by now =
     (case decision_of_value decision of
        None \<Rightarrow> Inl (ImportError ''Choose Accepted or Rejected.'')
      | Some decided \<Rightarrow>
          if snd (snd month) \<noteq> 1
          then Inl (ImportError ''Accounting month must use the first day of the month.'')
          else (case read_uploaded_rids f of
                  Inl e \<Rightarrow> Inl e
                | Inr (rids, submitted, invalid, sha) \<Rightarrow>
                    (case get_client d client of
                       None \<Rightarrow> Inl (DoesNotExist ''Client'')
                     | Some _ \<Rightarrow>
                         let upload = new_upload d f client month decided uploaded_by submitted
                               (length rids) invalid sha now;
                             d1 = d\<lparr>final_uploads := final_uploads d @ [upload]\<rparr>;
                             run = \<lparr>run_upload = fu_id upload, run_client = client,
                                    run_month = month, run_now = now\<rparr>;
                             auto = auto_rejected_attempts local_midnight d1 client month decided rids;
                             (d2, c2) = fold (import_rid run decided) rids (d1, no_counters);
                             (d3, c3) = fold (import_auto_rejected run) auto (d2, c2)
                         in Inr (\<lparr>ir_upload_id = fu_id upload, ir_submitted = submitted,
                                  ir_unique = length rids, ir_invalid = invalid, ir_counters = c3\<rparr>,
                                 record_counters (fu_id upload) c3 d3))))"

lemma attempt_filter_matches: "client_attempt_filter d client a \<longleftrightarrow> attempt_matches_client d a client"
  by (auto simp: client_attempt_filter_def attempt_matches_client_def)

end
