(* ===== verification/Final_Ids_Properties.thy ===== *)
theory Final_Ids_Properties
  imports Final_Ids Samples
begin

text \<open>
  Properties of the final-ID import: what the reader returns, that every submitted identifier is
  accounted for once, that only attempts of the client change and no attempt gets two final
  statuses, and what an accepted file decides for every attempt.
\<close>

section \<open>The identifiers read\<close>

definition valid_rid :: "string \<Rightarrow> bool" where
  "valid_rid rid = (length rid = 10 \<and> py_isalnum rid)"

lemma rids_loop_ok:
  "rids_loop vs rids submitted invalid = Inr (rids', submitted', invalid') \<Longrightarrow>
   distinct rids \<Longrightarrow> list_all valid_rid rids \<Longrightarrow> length rids \<le> MAX_UNIQUE_RIDS \<Longrightarrow>
   length rids + invalid \<le> submitted \<Longrightarrow>
   distinct rids' \<and> list_all valid_rid rids' \<and> length rids' \<le> MAX_UNIQUE_RIDS
   \<and> length rids' + invalid' \<le> submitted' \<and> submitted' \<le> submitted + length vs"
proof (induction vs rids submitted invalid rule: rids_loop.induct)
  case (1 rids submitted invalid)
  then show ?case by simp
next
  case (2 v vs rids submitted invalid)
  let ?rid = "normalise_rid v"
  consider "?rid = []" | "?rid \<noteq> []" "\<not> valid_rid ?rid" | "?rid \<noteq> []" "valid_rid ?rid" by blast
  then show ?case
  proof cases
    case 1
    with 2 show ?thesis by (simp add: Let_def)
  next
    case bad: 2
    with 2 show ?thesis by (auto simp: Let_def valid_rid_def)
  next
    case ok: 3
    let ?rids = "if ?rid \<in> set rids then rids else rids @ [?rid]"
    have next': "rids_loop vs ?rids (Suc submitted) invalid = Inr (rids', submitted', invalid')"
      and room: "length ?rids \<le> MAX_UNIQUE_RIDS"
      using "2.prems"(1) ok by (auto simp: Let_def valid_rid_def not_less split: if_splits)
    have "distinct ?rids" "list_all valid_rid ?rids" "length ?rids + invalid \<le> Suc submitted"
      using "2.prems" ok by auto
    with "2.IH"(3) [OF refl ok(1) _ refl] ok next' room show ?thesis
      by (fastforce simp: valid_rid_def not_less)
  qed
qed

lemma read_uploaded_rids_loop:
  assumes "read_uploaded_rids f = Inr (rids, submitted, invalid, sha)"
  shows "\<exists>cells. rids_loop cells [] 0 0 = Inr (rids, submitted, invalid) \<and> rids \<noteq> [] \<and> \<not> uf_breaks f"
  using assms
  by (auto simp: read_uploaded_rids_def Let_def split: if_splits sum.splits)

lemma read_rids_valid_counts:
  "read_uploaded_rids f = Inr (rids, submitted, invalid, sha) \<Longrightarrow> length rids + invalid \<le> submitted"
  by (auto dest!: read_uploaded_rids_loop rids_loop_ok)

text \<open>The reader returns at least one and at most 50,000 identifiers, each of them ten
  alphanumeric characters and none twice, and every returned identifier and every row reported
  invalid is one of the submitted rows.\<close>

theorem read_rids_valid:
  assumes "read_uploaded_rids f = Inr (rids, submitted, invalid, sha)"
  shows "rids \<noteq> [] \<and> distinct rids \<and> (\<forall>rid \<in> set rids. length rid = 10 \<and> py_isalnum rid)
    \<and> length rids \<le> 50000 \<and> length rids + invalid \<le> submitted"
proof -
  obtain cells where loop: "rids_loop cells [] 0 0 = Inr (rids, submitted, invalid)" "rids \<noteq> []"
    using read_uploaded_rids_loop [OF assms] by blast
  from rids_loop_ok [OF loop(1)] loop(2) show ?thesis
    by (auto simp: list_all_iff valid_rid_def MAX_UNIQUE_RIDS_def)
qed

definition sample_file :: uploaded_file where
  "sample_file = \<lparr>uf_name = ''final.csv'', uf_size = 40,
     uf_rows = [[''RID''], [''aB3aB3aB3a''], [''zz''], [''aB3aB3aB3a'']], uf_breaks = False,
     uf_digest = ''d''\<rparr>"

lemma sample_header: "normalise_header ''RID'' = ''rid''"
  by (simp add: normalise_header_def py_lower_def lower_char_def is_upper_ascii_def
      is_alnum_ascii_def is_lower_ascii_def is_digit_ascii_def char_of_eq_iff)

lemma sample_strip: "normalise_rid ''aB3aB3aB3a'' = ''aB3aB3aB3a''" "normalise_rid ''zz'' = ''zz''"
  by (simp_all add: normalise_rid_def py_strip_def py_lstrip_def is_ascii_space_def py_startswith_def)

lemma sample_isalnum: "py_isalnum ''aB3aB3aB3a''"
  by (simp add: py_isalnum_def is_alnum_ascii_def is_upper_ascii_def is_lower_ascii_def is_digit_ascii_def)

lemma sample_suffix: "path_name ''final.csv'' = ''final.csv''" "py_lower (path_suffix ''final.csv'') = ''.csv''"
  by (simp_all add: path_name_def path_suffix_def py_lower_def lower_char_def is_upper_ascii_def)

lemma sample_read: "read_uploaded_rids sample_file = Inr ([''aB3aB3aB3a''], 3, 1, ''d'')"
  by (simp add: read_uploaded_rids_def sample_file_def sample_suffix column_values_def sample_header
      RID_HEADERS_def sample_strip sample_isalnum MAX_UPLOAD_BYTES_def MAX_UNIQUE_RIDS_def Let_def)

lemma read_rids_valid_witness: "distinct [''aB3aB3aB3a'']  \<and> length [''aB3aB3aB3a''] + 1 \<le> (3::nat)"
  using read_rids_valid [OF sample_read] by simp

section \<open>One step of the import\<close>

text \<open>What no step of the import changes, and what it may only do to the final statuses: add or
  rewrite the row of an attempt in \<open>touched\<close>, one row per attempt.\<close>

definition import_frame :: "pk set \<Rightarrow> db \<Rightarrow> db \<Rightarrow> bool" where
  "import_frame touched d d' \<longleftrightarrow>
     attempts d' = attempts d \<and> surveys d' = surveys d \<and> integrations d' = integrations d
     \<and> final_uploads d' = final_uploads d
     \<and> (final_id_statuses_unique (final_statuses d) \<longrightarrow> final_id_statuses_unique (final_statuses d'))
     \<and> (\<forall>j. j \<notin> touched \<longrightarrow> final_status_of d' j = final_status_of d j)
     \<and> (\<forall>j. final_status_of d j \<noteq> None \<longrightarrow> final_status_of d' j \<noteq> None)"

lemma import_frame_refl: "import_frame {} d d"
  by (simp add: import_frame_def)

lemma import_frame_trans:
  "import_frame A d d' \<Longrightarrow> import_frame B d' d'' \<Longrightarrow> import_frame (A \<union> B) d d''"
  unfolding import_frame_def by (simp add: ball_Un)

lemma import_frame_mono: "import_frame A d d' \<Longrightarrow> A \<subseteq> B \<Longrightarrow> import_frame B d d'"
  unfolding import_frame_def by blast

interpretation status_row: keyed_update fs_attempt
  "\<lambda>s. s\<lparr>fs_client := c, fs_status := st, fs_accounting_month := m, fs_upload := u, fs_updated_at := t\<rparr>"
  for c st m u t
  by unfold_locales simp

interpretation status_key: keyed_update fs_id
  "\<lambda>s. s\<lparr>fs_client := c, fs_status := st, fs_accounting_month := m, fs_upload := u, fs_updated_at := t\<rparr>"
  for c st m u t
  by unfold_locales simp

lemma final_status_of_attempt: "final_status_of d i = Some s \<Longrightarrow> s \<in> set (final_statuses d) \<and> fs_attempt s = i"
  by (auto simp: final_status_of_def dest: find_SomeD)

lemma final_status_of_insert:
  "final_status_of (d\<lparr>final_statuses := final_statuses d @ [s]\<rparr>) j =
     (case final_status_of d j of Some r \<Rightarrow> Some r | None \<Rightarrow> if fs_attempt s = j then Some s else None)"
  by (simp add: final_status_of_def find_append)

lemma final_status_of_change:
  "final_status_of (d\<lparr>final_statuses := update_where (\<lambda>s. fs_attempt s = i)
        (\<lambda>s. s\<lparr>fs_client := c, fs_status := st, fs_accounting_month := m, fs_upload := u, fs_updated_at := t\<rparr>)
        (final_statuses d)\<rparr>) j =
   map_option (\<lambda>s. if fs_attempt s = i then s\<lparr>fs_client := c, fs_status := st,
        fs_accounting_month := m, fs_upload := u, fs_updated_at := t\<rparr> else s) (final_status_of d j)"
  by (simp add: final_status_of_def status_row.find_kept)

lemma write_status_same:
  "map_option fs_status (final_status_of (write_status run i st d) i) = Some st"
  by (auto simp: write_status_def final_status_of_insert final_status_of_change
      split: option.split dest: final_status_of_attempt)

text \<open>A status an import wrote, with its decision.\<close>

definition decided_by :: "import_run \<Rightarrow> decision \<Rightarrow> final_id_status option \<Rightarrow> bool" where
  "decided_by run st x \<longleftrightarrow>
     (\<exists>s. x = Some s \<and> fs_status s = st \<and> fs_client s = run_client run
        \<and> fs_accounting_month s = run_month run \<and> fs_upload s = run_upload run \<and> fs_updated_at s = run_now run)"

lemma write_status_decides: "decided_by run st (final_status_of (write_status run i st d) i)"
  by (auto simp: write_status_def final_status_of_insert final_status_of_change decided_by_def
      split: option.split dest: final_status_of_attempt)

lemma write_status_other:
  "j \<noteq> i \<Longrightarrow> final_status_of (write_status run i st d) j = final_status_of d j"
  by (auto simp: write_status_def final_status_of_insert final_status_of_change
      split: option.split dest: final_status_of_attempt)

lemma write_status_unique:
  assumes "final_id_statuses_unique (final_statuses d)"
  shows "final_id_statuses_unique (final_statuses (write_status run i st d))"
proof (cases "final_status_of d i")
  case None
  then have "i \<notin> fs_attempt ` set (final_statuses d)"
    by (auto simp: final_status_of_def find_None_iff)
  with None assms next_pk_fresh [of fs_id "final_statuses d"] show ?thesis
    by (auto simp: write_status_def final_id_statuses_unique_def intro!: unique_insert)
next
  case (Some s)
  with assms show ?thesis
    by (simp add: write_status_def final_id_statuses_unique_def status_row.unique_kept status_key.unique_kept)
qed

lemma write_status_tables [simp]:
  "attempts (write_status run i st d) = attempts d" "surveys (write_status run i st d) = surveys d"
  "integrations (write_status run i st d) = integrations d"
  "final_uploads (write_status run i st d) = final_uploads d"
  "final_items (write_status run i st d) = final_items d"
  by (simp_all add: write_status_def split: option.split)

lemma add_item_tables [simp]:
  "attempts (add_item run r a oc p s d) = attempts d" "surveys (add_item run r a oc p s d) = surveys d"
  "integrations (add_item run r a oc p s d) = integrations d"
  "final_uploads (add_item run r a oc p s d) = final_uploads d"
  "final_statuses (add_item run r a oc p s d) = final_statuses d"
  "length (final_items (add_item run r a oc p s d)) = Suc (length (final_items d))"
  "final_status_of (add_item run r a oc p s d) j = final_status_of d j"
  by (simp_all add: add_item_def final_status_of_def)

lemma add_item_frame: "import_frame {} d (add_item run r a oc p s d)"
  by (simp add: import_frame_def)

lemma write_status_frame: "import_frame {i} d (write_status run i st d)"
  unfolding import_frame_def
proof (intro conjI impI allI)
  fix j
  assume "final_status_of d j \<noteq> None"
  then show "final_status_of (write_status run i st d) j \<noteq> None"
    using write_status_same [of run i st d] write_status_other [of j i run st d] by (cases "j = i") auto
qed (simp_all add: write_status_unique write_status_other)

lemma apply_status_frame: "import_frame {at_id a} d (apply_status run a st rid d)"
  using import_frame_trans [OF write_status_frame add_item_frame]
  unfolding apply_status_def Un_empty_right by blast

lemma apply_status_decides: "decided_by run st (final_status_of (apply_status run a st rid d) (at_id a))"
  by (simp add: apply_status_def write_status_decides)

lemma apply_status_other:
  "j \<noteq> at_id a \<Longrightarrow> final_status_of (apply_status run a st rid d) j = final_status_of d j"
  by (simp add: apply_status_def write_status_other)

lemma apply_status_items:
  "length (final_items (apply_status run a st rid d)) = Suc (length (final_items d))"
  by (simp add: apply_status_def)

definition rid_counts :: "import_counters \<Rightarrow> nat" where
  "rid_counts c = ic_applied c + ic_not_found c + ic_client_mismatch c + ic_not_completed c"

definition eligible_ids :: "db \<Rightarrow> pk \<Rightarrow> pk set" where
  "eligible_ids d client =
     {at_id a | a. a \<in> set (attempts d) \<and> attempt_matches_client d a client \<and> final_lifecycle (at_status a)}"

lemma base_lookups:
  assumes tables: "attempts d' = attempts d" "surveys d' = surveys d" "integrations d' = integrations d"
  shows "find_attempt_by_rid d' rid = find_attempt_by_rid d rid"
    and "attempt_matches_client d' a client = attempt_matches_client d a client"
    and "eligible_ids d' client = eligible_ids d client"
    and "eligible_rid d' client rid = eligible_rid d client rid"
proof -
  show find: "find_attempt_by_rid d' rid = find_attempt_by_rid d rid" for rid
    by (simp add: find_attempt_by_rid_def tables)
  show matches: "attempt_matches_client d' a client = attempt_matches_client d a client" for a
    by (simp add: attempt_matches_client_def get_survey_def get_integration_def tables)
  show "eligible_ids d' client = eligible_ids d client"
    by (simp add: eligible_ids_def matches tables)
  show "eligible_rid d' client rid = eligible_rid d client rid"
    by (simp add: eligible_rid_def find matches split: option.split)
qed

lemma frame_lookups:
  assumes "import_frame A d d'"
  shows "find_attempt_by_rid d' rid = find_attempt_by_rid d rid"
    and "eligible_ids d' client = eligible_ids d client"
    and "eligible_rid d' client rid = eligible_rid d client rid"
  using assms by (intro base_lookups; simp add: import_frame_def)+

lemma import_rid_step:
  assumes "import_rid run decided rid (d, c) = (d', c')"
  shows "import_frame (eligible_ids d (run_client run)) d d'"
    and "length (final_items d') = Suc (length (final_items d))"
    and "rid_counts c' = Suc (rid_counts c)" and "ic_auto_rejected c' = ic_auto_rejected c"
    and "ic_applied c' = ic_applied c + (if eligible_rid d (run_client run) rid then 1 else 0)"
proof -
  have "import_frame (eligible_ids d (run_client run)) d d' \<and>
      length (final_items d') = Suc (length (final_items d)) \<and>
      rid_counts c' = Suc (rid_counts c) \<and> ic_auto_rejected c' = ic_auto_rejected c \<and>
      ic_applied c' = ic_applied c + (if eligible_rid d (run_client run) rid then 1 else 0)"
  proof (cases "find_attempt_by_rid d rid")
    case None
    with assms show ?thesis
      by (auto simp: import_rid_def rid_counts_def eligible_rid_def intro: import_frame_mono [OF add_item_frame])
  next
    case (Some a)
    then have row: "a \<in> set (attempts d)" by (auto simp: find_attempt_by_rid_def dest: find_SomeD)
    show ?thesis
    proof (cases "attempt_matches_client d a (run_client run) \<and> final_lifecycle (at_status a)")
      case True
      then have "{at_id a} \<subseteq> eligible_ids d (run_client run)" using row by (auto simp: eligible_ids_def)
      with True Some assms show ?thesis
        by (auto simp: import_rid_def rid_counts_def eligible_rid_def apply_status_items
            intro: import_frame_mono [OF apply_status_frame])
    next
      case False
      with Some assms show ?thesis
        by (auto simp: import_rid_def rid_counts_def eligible_rid_def split: if_splits
            intro: import_frame_mono [OF add_item_frame])
    qed
  qed
  then show "import_frame (eligible_ids d (run_client run)) d d'"
    and "length (final_items d') = Suc (length (final_items d))"
    and "rid_counts c' = Suc (rid_counts c)" and "ic_auto_rejected c' = ic_auto_rejected c"
    and "ic_applied c' = ic_applied c + (if eligible_rid d (run_client run) rid then 1 else 0)"
    by simp_all
qed

text \<open>The identifiers of the file reach the attempts of the client that are over.\<close>

definition reached :: "db \<Rightarrow> pk \<Rightarrow> string list \<Rightarrow> survey_attempt \<Rightarrow> bool" where
  "reached d client rids a \<longleftrightarrow>
     at_rid a \<in> set rids \<and> attempt_matches_client d a client \<and> final_lifecycle (at_status a)"

lemma found_by_rid:
  assumes "attempts_unique (attempts d)" and "a \<in> set (attempts d)"
  shows "find_attempt_by_rid d (at_rid a) = Some a"
  unfolding find_attempt_by_rid_def
  using assms by (intro find_unique [of at_rid]) (auto simp: attempts_unique_def unique_by_def)

lemma same_attempt:
  "attempts_unique (attempts d) \<Longrightarrow> a \<in> set (attempts d) \<Longrightarrow> b \<in> set (attempts d) \<Longrightarrow> at_id a = at_id b \<Longrightarrow> a = b"
  by (auto simp: attempts_unique_def unique_by_def distinct_map inj_on_def)

lemma import_rid_status:
  assumes step: "import_rid run decided rid (d, c) = (d', c')"
    and unique: "attempts_unique (attempts d)" and a: "a \<in> set (attempts d)"
  shows "if reached d (run_client run) [rid] a then decided_by run decided (final_status_of d' (at_id a))
    else final_status_of d' (at_id a) = final_status_of d (at_id a)"
proof (cases "find_attempt_by_rid d rid")
  case None
  then have "at_rid a \<noteq> rid" using found_by_rid [OF unique a] by auto
  with None step show ?thesis by (auto simp: import_rid_def reached_def)
next
  case (Some b)
  then have b: "b \<in> set (attempts d)" "at_rid b = rid" by (auto simp: find_attempt_by_rid_def dest: find_SomeD)
  show ?thesis
  proof (cases "at_rid a = rid")
    case True
    then have "b = a" using found_by_rid [OF unique a] Some by simp
    with Some step True apply_status_decides show ?thesis
      by (auto simp: import_rid_def reached_def split: if_splits)
  next
    case False
    then have "at_id a \<noteq> at_id b" using same_attempt [OF unique a b(1)] b(2) by blast
    with False Some step show ?thesis
      by (auto simp: import_rid_def reached_def apply_status_other split: if_splits)
  qed
qed

section \<open>The whole import\<close>

lemma import_rids_fold:
  assumes "fold (import_rid run decided) rids (d, c) = (d', c')"
  shows "import_frame (eligible_ids d (run_client run)) d d'
    \<and> length (final_items d') = length (final_items d) + length rids
    \<and> rid_counts c' = rid_counts c + length rids \<and> ic_auto_rejected c' = ic_auto_rejected c
    \<and> (ic_applied c < ic_applied c' \<longleftrightarrow> list_ex (eligible_rid d (run_client run)) rids)
    \<and> ic_applied c \<le> ic_applied c'"
  using assms
proof (induction rids arbitrary: d c)
  case Nil
  then show ?case using import_frame_mono [OF import_frame_refl] by simp
next
  case (Cons rid rids)
  obtain d1 c1 where step: "import_rid run decided rid (d, c) = (d1, c1)"
    by (cases "import_rid run decided rid (d, c)")
  note one = import_rid_step [OF step]
  have rest: "fold (import_rid run decided) rids (d1, c1) = (d', c')" using Cons.prems step by simp
  note IH = Cons.IH [OF rest, unfolded frame_lookups [OF one(1)]]
  have frame: "import_frame (eligible_ids d (run_client run)) d d'"
    using import_frame_trans [OF one(1) conjunct1 [OF IH]] by simp
  show ?case
    using frame IH one by (auto split: if_splits)
qed

lemma import_rids_status:
  assumes "fold (import_rid run decided) rids (d, c) = (d', c')"
    and "attempts_unique (attempts d)" and "a \<in> set (attempts d)"
  shows "if reached d (run_client run) rids a then decided_by run decided (final_status_of d' (at_id a))
    else final_status_of d' (at_id a) = final_status_of d (at_id a)"
  using assms
proof (induction rids arbitrary: d c)
  case Nil
  then show ?case by (simp add: reached_def)
next
  case (Cons rid rids)
  obtain d1 c1 where step: "import_rid run decided rid (d, c) = (d1, c1)"
    by (cases "import_rid run decided rid (d, c)")
  note frame = import_rid_step(1) [OF step]
  have attempts: "attempts d1 = attempts d" using frame by (simp add: import_frame_def)
  have matches: "attempt_matches_client d1 a client = attempt_matches_client d a client" for client
    using frame by (intro base_lookups(2)) (simp_all add: import_frame_def)
  have rest: "fold (import_rid run decided) rids (d1, c1) = (d', c')" using Cons.prems(1) step by simp
  from Cons.IH [OF rest] import_rid_status [OF step Cons.prems(2,3)] Cons.prems(2,3)
  show ?case by (auto simp: attempts reached_def matches split: if_splits)
qed

lemma import_auto_rejected_pair:
  "import_auto_rejected run a (d, c) =
   (apply_status run a REJECTED (at_rid a) d, c\<lparr>ic_auto_rejected := Suc (ic_auto_rejected c)\<rparr>)"
  by (simp add: import_auto_rejected_def)

lemma import_auto_fold:
  assumes "fold (import_auto_rejected run) auto (d, c) = (d', c')"
  shows "import_frame (at_id ` set auto) d d'
    \<and> length (final_items d') = length (final_items d) + length auto
    \<and> rid_counts c' = rid_counts c \<and> ic_applied c' = ic_applied c
    \<and> ic_auto_rejected c' = ic_auto_rejected c + length auto
    \<and> (\<forall>a \<in> set auto. decided_by run REJECTED (final_status_of d' (at_id a)))"
  using assms
proof (induction auto arbitrary: d c)
  case Nil
  then show ?case by (simp add: import_frame_refl)
next
  case (Cons a auto)
  let ?d = "apply_status run a REJECTED (at_rid a) d"
  let ?c = "c\<lparr>ic_auto_rejected := Suc (ic_auto_rejected c)\<rparr>"
  have rest: "fold (import_auto_rejected run) auto (?d, ?c) = (d', c')"
    using Cons.prems by (simp add: import_auto_rejected_pair)
  note IH = Cons.IH [OF rest]
  have "import_frame (at_id ` set (a # auto)) d d'"
    using import_frame_trans [OF apply_status_frame conjunct1 [OF IH]] by simp
  moreover have "decided_by run REJECTED (final_status_of d' (at_id a))"
  proof (cases "at_id a \<in> at_id ` set auto")
    case True
    with IH show ?thesis by force
  next
    case False
    with IH have "final_status_of d' (at_id a) = final_status_of ?d (at_id a)" by (simp add: import_frame_def)
    then show ?thesis by (simp add: apply_status_decides)
  qed
  ultimately show ?case using IH by (simp add: apply_status_items rid_counts_def)
qed

lemma import_cases:
  assumes "import_final_ids local_midnight d f client month decision by_user now = Inr (res, d')"
  obtains decided rids submitted invalid sha upload run auto d1 d2 c2 d3 c3 where
    "decision_of_value decision = Some decided" "snd (snd month) = 1"
    "read_uploaded_rids f = Inr (rids, submitted, invalid, sha)"
    "upload = new_upload d f client month decided by_user submitted (length rids) invalid sha now"
    "d1 = d\<lparr>final_uploads := final_uploads d @ [upload]\<rparr>"
    "run = \<lparr>run_upload = fu_id upload, run_client = client, run_month = month, run_now = now\<rparr>"
    "auto = auto_rejected_attempts local_midnight d1 client month decided rids"
    "fold (import_rid run decided) rids (d1, no_counters) = (d2, c2)"
    "fold (import_auto_rejected run) auto (d2, c2) = (d3, c3)"
    "res = \<lparr>ir_upload_id = fu_id upload, ir_submitted = submitted, ir_unique = length rids,
            ir_invalid = invalid, ir_counters = c3\<rparr>"
    "d' = record_counters (fu_id upload) c3 d3"
proof -
  obtain decided where dec: "decision_of_value decision = Some decided"
    using assms by (cases "decision_of_value decision") (simp_all add: import_final_ids_def)
  have day: "snd (snd month) = 1"
    using assms dec by (simp add: import_final_ids_def split: if_splits)
  obtain rids submitted invalid sha where read: "read_uploaded_rids f = Inr (rids, submitted, invalid, sha)"
    using assms dec day by (cases "read_uploaded_rids f") (auto simp: import_final_ids_def)
  obtain row where row: "get_client d client = Some row"
    using assms dec day read by (cases "get_client d client") (simp_all add: import_final_ids_def)
  let ?upload = "new_upload d f client month decided by_user submitted (length rids) invalid sha now"
  let ?d1 = "d\<lparr>final_uploads := final_uploads d @ [?upload]\<rparr>"
  let ?run = "\<lparr>run_upload = fu_id ?upload, run_client = client, run_month = month, run_now = now\<rparr>"
  let ?auto = "auto_rejected_attempts local_midnight ?d1 client month decided rids"
  obtain d2 c2 where f2: "fold (import_rid ?run decided) rids (?d1, no_counters) = (d2, c2)"
    by (cases "fold (import_rid ?run decided) rids (?d1, no_counters)")
  obtain d3 c3 where f3: "fold (import_auto_rejected ?run) ?auto (d2, c2) = (d3, c3)"
    by (cases "fold (import_auto_rejected ?run) ?auto (d2, c2)")
  have "import_final_ids local_midnight d f client month decision by_user now =
      Inr (\<lparr>ir_upload_id = fu_id ?upload, ir_submitted = submitted, ir_unique = length rids,
            ir_invalid = invalid, ir_counters = c3\<rparr>, record_counters (fu_id ?upload) c3 d3)"
    by (simp only: import_final_ids_def dec day read row f2 f3 Let_def option.case sum.case prod.case
        if_False not_True_eq_False simp_thms)
  with assms show thesis
    by (intro that [OF dec day read refl refl refl refl f2 f3]) simp_all
qed

lemma record_counters_tables [simp]:
  "attempts (record_counters i c d) = attempts d" "final_items (record_counters i c d) = final_items d"
  "final_statuses (record_counters i c d) = final_statuses d"
  "final_status_of (record_counters i c d) j = final_status_of d j"
  by (simp_all add: record_counters_def final_status_of_def)

text \<open>Every identifier of the file is accounted for exactly once as applied, not found, of
  another client or not finished, one audit row is written for each of them and for each
  automatic rejection, and the upload row carries the same counts as the result.\<close>

theorem import_accounts_for_every_rid:
  assumes "import_final_ids local_midnight d f client month decision by_user now = Inr (res, d')"
  shows "rid_counts (ir_counters res) = ir_unique res
    \<and> ir_unique res + ir_invalid res \<le> ir_submitted res
    \<and> length (final_items d')
        = length (final_items d) + ir_unique res + ic_auto_rejected (ir_counters res)
    \<and> (\<exists>u. row_by_pk fu_id (ir_upload_id res) (final_uploads d') = Some u
         \<and> fu_unique_rid_count u = ir_unique res
         \<and> fu_applied_count u = ic_applied (ir_counters res)
         \<and> fu_not_found_count u = ic_not_found (ir_counters res)
         \<and> fu_client_mismatch_count u = ic_client_mismatch (ir_counters res)
         \<and> fu_not_completed_count u = ic_not_completed (ir_counters res)
         \<and> fu_auto_rejected_count u = ic_auto_rejected (ir_counters res))"
  using assms
proof (cases rule: import_cases)
  case (1 decided rids submitted invalid sha upload run auto d1 d2 c2 d3 c3)
  note rids = import_rids_fold [OF 1(8)] and auto = import_auto_fold [OF 1(9)]
  have "length rids + invalid \<le> submitted"
    using read_rids_valid_counts [OF 1(3)] .
  moreover have "row_by_pk fu_id (fu_id upload) (final_uploads d3) = Some upload"
  proof -
    have "final_uploads d3 = final_uploads d @ [upload]"
      using rids auto 1(5) by (simp add: import_frame_def)
    moreover have "row_by_pk fu_id (fu_id upload) (final_uploads d) = None"
      using next_pk_fresh [of fu_id "final_uploads d"] by (simp add: row_by_pk_None 1(4) new_upload_def)
    ultimately show ?thesis by (simp add: row_by_pk_append)
  qed
  then have "row_by_pk fu_id (fu_id upload) (final_uploads d') = Some
      (upload\<lparr>fu_applied_count := ic_applied c3, fu_not_found_count := ic_not_found c3,
         fu_client_mismatch_count := ic_client_mismatch c3,
         fu_not_completed_count := ic_not_completed c3, fu_auto_rejected_count := ic_auto_rejected c3\<rparr>)"
    by (simp add: 1(11) record_counters_def row_by_pk_update)
  moreover have "fu_unique_rid_count upload = length rids" by (simp add: 1(4) new_upload_def)
  moreover have "length (final_items d') = length (final_items d) + length rids + length auto"
    using rids auto by (simp add: 1(5,11))
  moreover have "rid_counts c3 = length rids" "ic_auto_rejected c3 = length auto"
    using rids auto by (simp_all add: rid_counts_def no_counters_def)
  ultimately show ?thesis by (simp add: 1(10))
qed

text \<open>An import never changes an attempt itself, keeps at most one final status per attempt,
  and gives or changes a final status only for finished attempts of the selected client.\<close>

theorem import_touches_only_client:
  assumes "import_final_ids local_midnight d f client month decision by_user now = Inr (res, d')"
    and "final_id_statuses_unique (final_statuses d)"
  shows "attempts d' = attempts d \<and> final_id_statuses_unique (final_statuses d')
    \<and> (\<forall>j. final_status_of d' j \<noteq> final_status_of d j \<longrightarrow> j \<in> eligible_ids d client)"
  using assms(1)
proof (cases rule: import_cases)
  case (1 decided rids submitted invalid sha upload run auto d1 d2 c2 d3 c3)
  have d1: "attempts d1 = attempts d" "surveys d1 = surveys d" "integrations d1 = integrations d"
    "final_statuses d1 = final_statuses d" using 1(5) by simp_all
  have "a \<in> set (attempts d1) \<and> attempt_matches_client d1 a client \<and> final_lifecycle (at_status a)"
    if "a \<in> set auto" for a
    using that 1(7)
    by (auto simp: auto_rejected_attempts_def attempt_filter_matches final_lifecycle_def
        split: if_splits prod.splits)
  then have "at_id ` set auto \<subseteq> eligible_ids d1 client" by (auto simp: eligible_ids_def)
  moreover have "import_frame (eligible_ids d1 client \<union> at_id ` set auto) d1 d3"
    using import_frame_trans [OF conjunct1 [OF import_rids_fold [OF 1(8)]]
        conjunct1 [OF import_auto_fold [OF 1(9)]]] 1(6) by simp
  ultimately have "import_frame (eligible_ids d1 client) d1 d3" by (simp add: Un_absorb2)
  moreover have "eligible_ids d1 client = eligible_ids d client" by (rule base_lookups(3) [OF d1(1-3)])
  moreover have "final_status_of d1 j = final_status_of d j" for j by (simp add: final_status_of_def d1)
  ultimately show ?thesis
    using d1 assms(2) 1(11) unfolding import_frame_def by auto
qed

text \<open>C38: An import decides every attempt by these rules and no other.  A listed attempt of the client that
  is over gets the uploaded decision, whatever it had before.  When the file accepts and at least one of its
  identifiers applies, a completed attempt of the client that began in the accounting month, is not listed and
  has no final status is rejected.  Either way the status carries the client, the month and the upload.
  The final status of every other attempt stays as it was.  So an accepted file with an applied identifier
  leaves no completed attempt of its month undecided.\<close>

theorem import_decides_every_attempt:
  assumes "import_final_ids local_midnight d f client month decision by_user now = Inr (res, d')"
    and "read_uploaded_rids f = Inr (rids, counts)" and "decision_of_value decision = Some decided"
    and "run = \<lparr>run_upload = ir_upload_id res, run_client = client, run_month = month, run_now = now\<rparr>"
    and "accounting_month_bounds local_midnight month = (lower, upper)"
    and "attempts_unique (attempts d)" and "a \<in> set (attempts d)"
  shows "if at_rid a \<in> set rids \<and> attempt_matches_client d a client \<and> final_lifecycle (at_status a)
    then decided_by run decided (final_status_of d' (at_id a))
    else if decided = ACCEPTED \<and> 0 < ic_applied (ir_counters res)
      \<and> at_rid a \<notin> set rids \<and> attempt_matches_client d a client \<and> at_status a = COMPLETED
      \<and> lower \<le> at_initiated_at a \<and> at_initiated_at a < upper \<and> final_status_of d (at_id a) = None
    then decided_by run REJECTED (final_status_of d' (at_id a))
    else final_status_of d' (at_id a) = final_status_of d (at_id a)"
  using assms(1)
proof (cases rule: import_cases)
  case (1 decided0 rids0 submitted invalid sha upload run0 auto d1 d2 c2 d3 c3)
  have same: "decided0 = decided" "rids0 = rids" "run0 = run" using 1(1,3,6,10) assms(2-4) by simp_all
  note fold1 = 1(8) [unfolded same] and fold2 = 1(9) [unfolded same]
  have d1: "attempts d1 = attempts d" "surveys d1 = surveys d" "integrations d1 = integrations d"
    "final_statuses d1 = final_statuses d" using 1(5) by simp_all
  have matches: "attempt_matches_client d1 b client = attempt_matches_client d b client" for b
    by (rule base_lookups(2) [OF d1(1-3)])
  have before: "final_status_of d1 j = final_status_of d j" for j by (simp add: final_status_of_def d1)
  have client: "run_client run = client" using assms(4) by simp
  note rids = import_rids_fold [OF fold1, unfolded client] and auto = import_auto_fold [OF fold2]
  have "list_ex (eligible_rid d1 client) rids \<longleftrightarrow> 0 < ic_applied (ir_counters res)"
    using rids auto 1(10) by (simp add: no_counters_def)
  then have auto_set: "set auto = {b \<in> set (attempts d). decided = ACCEPTED \<and> 0 < ic_applied (ir_counters res)
      \<and> attempt_matches_client d b client \<and> at_status b = COMPLETED \<and> lower \<le> at_initiated_at b
      \<and> at_initiated_at b < upper \<and> at_rid b \<notin> set rids \<and> final_status_of d (at_id b) = None}"
    using 1(7) assms(5) by (auto simp: same auto_rejected_attempts_def attempt_filter_matches matches before d1(1))
  have listed: "if reached d client rids a then decided_by run decided (final_status_of d2 (at_id a))
      else final_status_of d2 (at_id a) = final_status_of d (at_id a)"
    using import_rids_status [OF fold1, of a] assms(6,7) by (simp add: client d1(1) reached_def matches before)
  have later: "final_status_of d' (at_id a) = final_status_of d2 (at_id a)" if "a \<notin> set auto"
  proof -
    have "at_id a \<notin> at_id ` set auto" using that same_attempt [OF assms(6,7)] auto_set by auto
    then show ?thesis using auto 1(11) by (simp add: import_frame_def)
  qed
  have rejected: "decided_by run REJECTED (final_status_of d' (at_id a))" if "a \<in> set auto"
    using that auto 1(11) by simp
  show ?thesis
  proof (cases "a \<in> set auto")
    case True
    then have "at_rid a \<notin> set rids" unfolding auto_set by simp
    with True rejected [OF True] show ?thesis unfolding auto_set by simp
  next
    case False
    from False listed later [OF False] assms(7) show ?thesis unfolding auto_set reached_def by auto
  qed
qed

section \<open>A concrete import\<close>

definition late_attempt :: survey_attempt where
  "late_attempt = sample_attempt\<lparr>at_id := 10, at_rid := ''cC4cC4cC4c'', at_pid := ''p'', at_status := COMPLETED\<rparr>"

definition import_db :: db where
  "import_db = sample_db\<lparr>attempts := [sample_attempt\<lparr>at_status := COMPLETED\<rparr>, late_attempt]\<rparr>"

definition sample_midnight :: "date \<Rightarrow> timestamp" where
  "sample_midnight = (\<lambda>(y, m, day). int m - 8)"

lemma late_attempt_fields [simp]:
  "at_id late_attempt = 10" "at_rid late_attempt = ''cC4cC4cC4c''" "at_status late_attempt = COMPLETED"
  "at_survey late_attempt = 7" "at_client late_attempt = None" "at_initiated_at late_attempt = 0"
  by (simp_all add: late_attempt_def)

lemma import_db_tables [simp]:
  "attempts import_db = [sample_attempt\<lparr>at_status := COMPLETED\<rparr>, late_attempt]"
  "surveys import_db = [sample_survey]" "clients import_db = [sample_client]"
  "integrations import_db = []" "final_statuses import_db = []" "final_items import_db = []"
  "final_uploads import_db = []"
  by (simp_all add: import_db_def)

lemma sample_import:
  obtains res d' where
    "import_final_ids sample_midnight import_db sample_file 5 (2026, 8, 1) ''accepted'' None 50 = Inr (res, d')"
    "ic_applied (ir_counters res) = 1" "ic_auto_rejected (ir_counters res) = 1"
proof -
  have "is_ok (import_final_ids sample_midnight import_db sample_file 5 (2026, 8, 1) ''accepted'' None 50)"
    by (simp add: import_final_ids_def decision_of_value_def sample_read sample_lookups Let_def
        split: prod.split)
  then obtain res d' where run:
    "import_final_ids sample_midnight import_db sample_file 5 (2026, 8, 1) ''accepted'' None 50 = Inr (res, d')"
    by (auto elim!: is_okE)
  from run have "ic_applied (ir_counters res) = 1 \<and> ic_auto_rejected (ir_counters res) = 1"
    by (auto simp: import_final_ids_def decision_of_value_def sample_read sample_lookups Let_def
        new_upload_def auto_rejected_attempts_def eligible_rid_def find_attempt_by_rid_def
        attempt_matches_client_def final_lifecycle_def accounting_month_bounds_def sample_midnight_def
        client_attempt_filter_def final_status_of_def import_rid_def import_auto_rejected_def
        no_counters_def next_pk_def)
  with run that show thesis by blast
qed

lemma import_accounts_for_every_rid_witness:
  "\<exists>d' :: db. length (final_items d') = 2 \<and> final_items import_db = []"
proof (rule sample_import)
  fix res d'
  assume run: "import_final_ids sample_midnight import_db sample_file 5 (2026, 8, 1) ''accepted'' None 50 = Inr (res, d')"
    and one: "ic_applied (ir_counters res) = 1" and auto: "ic_auto_rejected (ir_counters res) = 1"
  from run have "ir_unique res = 1"
    by (auto simp: import_final_ids_def decision_of_value_def sample_read sample_lookups Let_def
        split: prod.splits)
  with import_accounts_for_every_rid [OF run] auto show ?thesis by (intro exI [of _ d']) simp
qed

lemma import_touches_only_client_witness:
  "\<exists>d' :: db. attempts d' = attempts import_db \<and> final_id_statuses_unique (final_statuses d')"
proof (rule sample_import)
  fix res d'
  assume run: "import_final_ids sample_midnight import_db sample_file 5 (2026, 8, 1) ''accepted'' None 50 = Inr (res, d')"
  have "final_id_statuses_unique (final_statuses import_db)"
    by (simp add: final_id_statuses_unique_def unique_by_def)
  from import_touches_only_client [OF run this] show ?thesis by (intro exI [of _ d']) simp
qed

lemma import_decides_every_attempt_witness:
  "\<exists>d' s s'. final_status_of import_db 9 = None \<and> final_status_of d' 9 = Some s \<and> fs_status s = ACCEPTED
     \<and> final_status_of import_db 10 = None \<and> final_status_of d' 10 = Some s' \<and> fs_status s' = REJECTED"
proof (rule sample_import)
  fix res d'
  assume run: "import_final_ids sample_midnight import_db sample_file 5 (2026, 8, 1) ''accepted'' None 50 = Inr (res, d')"
    and one: "ic_applied (ir_counters res) = 1"
  let ?first = "sample_attempt\<lparr>at_status := COMPLETED\<rparr>"
  have fields: "at_id ?first = 9" "at_rid ?first = ''aB3aB3aB3a''" by (simp_all add: sample_attempt_def)
  have unique: "attempts_unique (attempts import_db)"
    by (simp add: attempts_unique_def unique_by_def late_attempt_def sample_attempt_def)
  have matches: "attempt_matches_client import_db late_attempt 5" "attempt_matches_client import_db ?first 5"
    by (simp_all add: attempt_matches_client_def sample_lookups)
  have month: "accounting_month_bounds sample_midnight (2026, 8, 1) = (0, 1)"
    by (simp add: accounting_month_bounds_def sample_midnight_def)
  have decision: "decision_of_value ''accepted'' = Some ACCEPTED" by (simp add: decision_of_value_def)
  have none: "final_status_of import_db j = None" for j by (simp add: final_status_of_def)
  note decides = import_decides_every_attempt [OF run sample_read decision refl month unique]
  have "\<exists>s. final_status_of d' 9 = Some s \<and> fs_status s = ACCEPTED"
    using decides [of ?first] matches by (simp add: fields decided_by_def final_lifecycle_def) blast
  moreover have "\<exists>s. final_status_of d' 10 = Some s \<and> fs_status s = REJECTED"
    using decides [of late_attempt] matches by (simp add: one none decided_by_def final_lifecycle_def) blast
  ultimately show ?thesis using none by blast
qed

section \<open>Errors of the reader\<close>

lemma rids_loop_error: "rids_loop vs rids submitted invalid = Inl e \<Longrightarrow> \<exists>m. e = ImportError m"
  by (induction vs rids submitted invalid rule: rids_loop.induct) (auto simp: Let_def split: if_splits)

text \<open>Every failure to read a file is the user-facing import error, unless the CSV or
  spreadsheet reader itself raises after the header row; then, when no limit was hit before,
  its own exception escapes, although the same fault in the header is reported as an import
  error.\<close>

theorem read_errors:
  assumes "read_uploaded_rids f = Inl e"
  shows "(\<exists>m. e = ImportError m) \<or> (uf_breaks f \<and> uf_rows f \<noteq> [] \<and> e = ValueError ''raised by the reader'')"
  using assms
  by (auto simp: read_uploaded_rids_def column_values_def Let_def dest: rids_loop_error
      split: if_splits sum.splits list.splits option.splits)

lemma read_errors_witness:
  "read_uploaded_rids (sample_file\<lparr>uf_breaks := True\<rparr>) = Inl (ValueError ''raised by the reader'')
   \<and> (\<exists>m. read_uploaded_rids (sample_file\<lparr>uf_size := 0\<rparr>) = Inl (ImportError m))"
proof
  show broken: "read_uploaded_rids (sample_file\<lparr>uf_breaks := True\<rparr>) = Inl (ValueError ''raised by the reader'')"
    by (simp add: read_uploaded_rids_def sample_file_def sample_suffix column_values_def sample_header
      RID_HEADERS_def sample_strip sample_isalnum MAX_UPLOAD_BYTES_def MAX_UNIQUE_RIDS_def Let_def)
  have "read_uploaded_rids (sample_file\<lparr>uf_size := 0\<rparr>) = Inl (ImportError ''The selected file is empty.'')"
    by (simp add: read_uploaded_rids_def sample_file_def sample_suffix Let_def)
  from read_errors [OF this] this show "\<exists>m. read_uploaded_rids (sample_file\<lparr>uf_size := 0\<rparr>) = Inl (ImportError m)"
    by blast
qed

end
