(* ===== verification/Py_Values.thy ===== *)
theory Py_Values
  imports Json "HOL-Library.List_Lexorder" "HOL-Library.Char_ord"
begin

text \<open>
  What the code does to loosely typed values: \<open>str(value)\<close> and \<open>str(value or "")\<close> of a decoded
  JSON value, \<open>int(text)\<close>, iteration over a value that should be a list, ordered removal of
  duplicates with \<open>dict.fromkeys\<close>, \<open>sorted({...})\<close>, the few regular expressions used to clean
  text, and \<open>strptime\<close> of the two date formats.  Text is ASCII, as everywhere here.
\<close>

section \<open>Text of a value\<close>

definition hex_digit :: "nat \<Rightarrow> char" where
  "hex_digit n = (if n < 10 then char_of (48 + n) else char_of (87 + n))"

text \<open>\<open>repr\<close> of a string: double quotes only when it holds a single quote and no double one.\<close>

definition repr_char :: "char \<Rightarrow> char \<Rightarrow> string" where
  "repr_char quote c =
     (let n = (of_char c :: nat) in
      if c = quote \<or> n = 92 then [char_of (92::nat), c]
      else if n = 9 then [char_of (92::nat), CHR ''t'']
      else if n = 10 then [char_of (92::nat), CHR ''n'']
      else if n = 13 then [char_of (92::nat), CHR ''r'']
      else if n < 32 \<or> n = 127
        then [char_of (92::nat), CHR ''x'', hex_digit (n div 16), hex_digit (n mod 16)]
      else [c])"

definition py_repr_string :: "string \<Rightarrow> string" where
  "py_repr_string s =
     (let quote = (if char_of (39::nat) \<in> set s \<and> char_of (34::nat) \<notin> set s
                   then char_of (34::nat) else char_of (39::nat))
      in [quote] @ concat (map (repr_char quote) s) @ [quote])"

fun py_repr :: "json \<Rightarrow> string" where
  "py_repr JNull = ''None''"
| "py_repr (JBool b) = (if b then ''True'' else ''False'')"
| "py_repr (JInt i) = show_int i"
| "py_repr (JFloat _ text) = text"
| "py_repr (JStr s) = py_repr_string s"
| "py_repr (JArr xs) = ''['' @ py_join '', '' (map py_repr xs) @ '']''"
| "py_repr (JObj kvs) =
     ''{'' @ py_join '', '' (map (\<lambda>(k, v). py_repr_string k @ '': '' @ py_repr v) kvs) @ ''}''"

definition py_str :: "json \<Rightarrow> string" where
  "py_str v = (case v of JStr s \<Rightarrow> s | _ \<Rightarrow> py_repr v)"

text \<open>\<open>str(value or "")\<close>, and \<open>str(value or other)\<close> for a text \<open>other\<close>.\<close>

definition str_or :: "json \<Rightarrow> string \<Rightarrow> string" where
  "str_or v other = (if truthy v then py_str v else other)"

lemma py_str_JStr [simp]: "py_str (JStr s) = s"
  by (simp add: py_str_def)

lemma str_or_simps [simp]:
  "str_or JNull t = t" "str_or (JStr s) t = (if s = [] then t else s)"
  by (simp_all add: str_or_def)

text \<open>\<open>for item in value\<close>: a list's items, a text's characters, a dict's keys; other values that
  are not empty raise \<open>TypeError\<close>.  \<open>value or []\<close> of an empty value has no items.\<close>

definition items_of :: "json \<Rightarrow> py_error + json list" where
  "items_of v =
     (if \<not> truthy v then Inr []
      else (case v of
              JArr xs \<Rightarrow> Inr xs
            | JStr s \<Rightarrow> Inr (map (\<lambda>c. JStr [c]) s)
            | JObj kvs \<Rightarrow> Inr (map (\<lambda>kv. JStr (fst kv)) kvs)
            | _ \<Rightarrow> Inl (TypeError ''object is not iterable'')))"

lemma items_of_simps [simp]:
  "items_of JNull = Inr []" "items_of (JArr xs) = Inr xs" "items_of (JStr []) = Inr []"
  by (simp_all add: items_of_def)

section \<open>Equality\<close>

text \<open>Python's \<open>==\<close> on decoded JSON: dicts regardless of order, numbers by value, and a
  Boolean as the number it is.\<close>

fun json_number :: "json \<Rightarrow> rat option" where
  "json_number (JBool b) = Some (if b then 1 else 0)"
| "json_number (JInt i) = Some (of_int i)"
| "json_number (JFloat q _) = Some q"
| "json_number _ = None"

function json_eq :: "json \<Rightarrow> json \<Rightarrow> bool" where
  "json_eq (JArr xs) w =
     (case w of
        JArr ys \<Rightarrow> length xs = length ys \<and> (\<forall>(x, y) \<in> set (zip xs ys). json_eq x y)
      | _ \<Rightarrow> False)"
| "json_eq (JObj a) w =
     (case w of
        JObj b \<Rightarrow> length a = length b
          \<and> (\<forall>(k, v) \<in> set a. case map_of b k of None \<Rightarrow> False | Some u \<Rightarrow> json_eq v u)
      | _ \<Rightarrow> False)"
| "json_eq JNull w = (w = JNull)"
| "json_eq (JStr s) w = (w = JStr s)"
| "json_eq (JBool b) w = (json_number w = json_number (JBool b))"
| "json_eq (JInt i) w = (json_number w = json_number (JInt i))"
| "json_eq (JFloat q t) w = (json_number w = json_number (JFloat q t))"
  by pat_completeness auto
termination
proof (relation "measure (\<lambda>(x, _). size x)", goal_cases)
  case (2 xs w ys pair x y)
  then have "x \<in> set xs" by (auto dest: set_zip_leftD)
  then show ?case by (simp add: size_list_estimation' less_Suc_eq_le)
next
  case (3 a w b pair k v u)
  then have "size v \<le> size_list (size_prod (\<lambda>_. 0) size) a"
    by (induction a) (auto simp: trans_le_add1 trans_le_add2)
  then show ?case by (simp add: less_Suc_eq_le)
qed simp

definition dict_eq :: "jdict \<Rightarrow> jdict \<Rightarrow> bool" where
  "dict_eq a b = json_eq (JObj a) (JObj b)"

section \<open>Collections of text\<close>

text \<open>\<open>list(dict.fromkeys(xs))\<close> keeps the first occurrence of each item.\<close>

definition keep_first :: "'a list \<Rightarrow> 'a list" where
  "keep_first xs = rev (remdups (rev xs))"

definition sorted_set :: "string list \<Rightarrow> string list" where
  "sorted_set xs = sort (remdups xs)"

lemma set_keep_first [simp]: "set (keep_first xs) = set xs"
  by (simp add: keep_first_def)

lemma distinct_keep_first [simp]: "distinct (keep_first xs)"
  by (simp add: keep_first_def)

lemma set_sorted_set [simp]: "set (sorted_set xs) = set xs"
  by (simp add: sorted_set_def)

lemma sorted_set_singleton [simp]: "sorted_set [] = []" "sorted_set [x] = [x]"
  by (simp_all add: sorted_set_def)

section \<open>Cleaning text\<close>

text \<open>\<open>re.sub("[P]+", rep, s)\<close>: each maximal run of characters in \<open>P\<close> becomes \<open>rep\<close>.\<close>

fun replace_runs :: "(char \<Rightarrow> bool) \<Rightarrow> string \<Rightarrow> bool \<Rightarrow> string \<Rightarrow> string" where
  "replace_runs P rep in_run [] = []"
| "replace_runs P rep in_run (c # cs) =
     (if P c then (if in_run then [] else rep) @ replace_runs P rep True cs
      else c # replace_runs P rep False cs)"

definition strip_char :: "char \<Rightarrow> string \<Rightarrow> string" where
  "strip_char c s = rev (dropWhile (\<lambda>x. x = c) (rev (dropWhile (\<lambda>x. x = c) s)))"

text \<open>\<open>re.search(r"\b(...)\b", text)\<close> for a phrase of words separated by single blanks, in a text
  of lower-case words and blanks: the words of the phrase stand next to each other.\<close>

fun has_phrase :: "string list \<Rightarrow> string list \<Rightarrow> bool" where
  "has_phrase phrase [] = (phrase = [])"
| "has_phrase phrase (w # ws) =
     (take (length phrase) (w # ws) = phrase \<or> has_phrase phrase ws)"

lemma has_phrase_iff: "has_phrase phrase ws \<longleftrightarrow> (\<exists>before after. ws = before @ phrase @ after)"
proof (induction ws)
  case Nil
  then show ?case by auto
next
  case (Cons w ws)
  have "(\<exists>before after. w # ws = before @ phrase @ after)
      \<longleftrightarrow> (\<exists>after. w # ws = phrase @ after) \<or> (\<exists>before after. ws = before @ phrase @ after)"
    by (metis append_Cons append_Nil list.exhaust list.sel(3))
  moreover have "(\<exists>after. w # ws = phrase @ after) \<longleftrightarrow> take (length phrase) (w # ws) = phrase"
    by (metis append_eq_conv_conj append_take_drop_id)
  ultimately show ?case using Cons.IH by simp
qed

section \<open>Numbers and dates in text\<close>

text \<open>\<open>int(text)\<close>: blanks around, an optional sign, digits with single underscores between.\<close>

fun int_digits :: "bool \<Rightarrow> nat \<Rightarrow> string \<Rightarrow> nat option" where
  "int_digits after_digit acc [] = (if after_digit then Some acc else None)"
| "int_digits after_digit acc (c # cs) =
     (if is_digit_ascii c then int_digits True (acc * 10 + ((of_char c :: nat) - 48)) cs
      else if c = CHR ''_'' \<and> after_digit then int_digits False acc cs
      else None)"

definition parse_int :: "string \<Rightarrow> int option" where
  "parse_int s =
     (case py_strip s of
        [] \<Rightarrow> None
      | c # cs \<Rightarrow>
          if c = CHR ''-'' then map_option (\<lambda>n. - int n) (int_digits False 0 cs)
          else if c = CHR ''+'' then map_option int (int_digits False 0 cs)
          else map_option int (int_digits False 0 (c # cs)))"

definition is_leap :: "int \<Rightarrow> bool" where
  "is_leap y = (4 dvd y \<and> (\<not> 100 dvd y \<or> 400 dvd y))"

definition days_in_month :: "int \<Rightarrow> nat \<Rightarrow> nat" where
  "days_in_month y m =
     (if m = 2 then (if is_leap y then 29 else 28) else if m \<in> {4, 6, 9, 11} then 30 else 31)"

definition valid_date :: "date \<Rightarrow> bool" where
  "valid_date dt = (case dt of (y, m, d) \<Rightarrow>
     1 \<le> y \<and> y \<le> 9999 \<and> 1 \<le> m \<and> m \<le> 12 \<and> 1 \<le> d \<and> d \<le> days_in_month y m)"

definition digits_field :: "string \<Rightarrow> nat option" where
  "digits_field s = (if s \<noteq> [] \<and> list_all is_digit_ascii s then Some (digits_value s) else None)"

text \<open>\<open>%Y\<close> is four digits; \<open>%m\<close> and \<open>%d\<close> are one or two, and \<open>%d\<close> may be padded with a blank.\<close>

definition year_field :: "string \<Rightarrow> nat option" where
  "year_field s = (if length s = 4 then digits_field s else None)"

definition month_field :: "string \<Rightarrow> nat option" where
  "month_field s = (if length s \<le> 2 then digits_field s else None)"

definition day_field :: "string \<Rightarrow> nat option" where
  "day_field s =
     (if length s = 2 \<and> hd s = CHR '' '' then digits_field (tl s)
      else if length s \<le> 2 then digits_field s else None)"

definition date_of_fields :: "nat option \<Rightarrow> nat option \<Rightarrow> nat option \<Rightarrow> date option" where
  "date_of_fields y m d =
     (case (y, m, d) of
        (Some y, Some m, Some d) \<Rightarrow> if valid_date (int y, m, d) then Some (int y, m, d) else None
      | _ \<Rightarrow> None)"

definition strptime_ymd :: "string \<Rightarrow> date option" where
  "strptime_ymd s =
     (case py_split (CHR ''-'') s of
        [y, m, d] \<Rightarrow> date_of_fields (year_field y) (month_field m) (day_field d)
      | _ \<Rightarrow> None)"

definition strptime_dmy :: "string \<Rightarrow> date option" where
  "strptime_dmy s =
     (case py_split (CHR ''-'') s of
        [d, m, y] \<Rightarrow> date_of_fields (year_field y) (month_field m) (day_field d)
      | _ \<Rightarrow> None)"

lemma int_digits_show:
  "list_all is_digit_ascii s \<Longrightarrow> s \<noteq> [] \<or> b \<Longrightarrow>
   int_digits b acc s = Some (foldl (\<lambda>acc c. acc * 10 + ((of_char c :: nat) - 48)) acc s)"
  by (induction s arbitrary: b acc) auto

lemma show_nat_all_digits: "list_all is_digit_ascii (show_nat n) \<and> show_nat n \<noteq> []"
proof (induction n rule: less_induct)
  case (less n)
  have digit: "is_digit_ascii (char_of (48 + k))" if "k < 10" for k :: nat
  proof -
    have "(of_char (char_of (48 + k) :: char) :: nat) = 48 + k" using that by simp
    with that show ?thesis by (simp add: is_digit_ascii_def)
  qed
  show ?case
  proof (cases "n < 10")
    case True
    with digit show ?thesis by (subst (1 2) show_nat.simps) simp
  next
    case False
    then have "n div 10 < n" by simp
    with less digit [of "n mod 10"] False show ?thesis
      by (subst (1 2) show_nat.simps) simp
  qed
qed

lemma digit_not_space: "is_digit_ascii c \<Longrightarrow> \<not> is_ascii_space c"
  by (auto simp: is_digit_ascii_def is_ascii_space_def)

lemma py_strip_unspaced:
  assumes "list_all (\<lambda>c. \<not> is_ascii_space c) s"
  shows "py_strip s = s"
proof -
  have keep: "dropWhile is_ascii_space t = t" if "list_all (\<lambda>c. \<not> is_ascii_space c) t" for t
    using that by (cases t) auto
  have "list_all (\<lambda>c. \<not> is_ascii_space c) (rev s)" using assms by simp
  with assms show ?thesis by (simp add: py_strip_def py_lstrip_def keep)
qed

text \<open>\<open>int(str(n)) == n\<close>\<close>

lemma parse_int_show_nat: "parse_int (show_nat n) = Some (int n)"
proof -
  from show_nat_all_digits [of n] have digits: "list_all is_digit_ascii (show_nat n)" "show_nat n \<noteq> []" by auto
  then have strip: "py_strip (show_nat n) = show_nat n"
    by (intro py_strip_unspaced) (auto simp: list_all_iff digit_not_space)
  obtain c cs where show_n: "show_nat n = c # cs" using digits(2) by (cases "show_nat n") auto
  then have "is_digit_ascii c" using digits(1) by simp
  then have "c \<noteq> CHR ''-''" "c \<noteq> CHR ''+''" by (auto simp: is_digit_ascii_def)
  moreover have "int_digits False 0 (c # cs) = Some n"
    using digits digits_value_show_nat [of n] by (simp add: int_digits_show flip: show_n)
  ultimately show ?thesis using strip by (simp add: parse_int_def show_n del: int_digits.simps)
qed

end
