(* ===== verification/Age_Rules.thy ===== *)
theory Age_Rules
  imports Py_Values
begin

text \<open>
  Age bands of targeting data (\<open>surveys/age_rules.py\<close>): a label such as ``18-24'', ``65 and over'' or
  ``over 50'', or a dict of bounds, becomes a closed interval within 1 and 99.  The regular
  expressions are scanners: a run of more than three digits is no number, and a number is never part
  of a longer run, which is what their look-around assertions say.  The two dashes that are not ASCII
  are their UTF-8 bytes; other characters beyond ASCII are no word characters here.
\<close>

definition OPEN_ENDED_AGE_MAX :: int where
  "OPEN_ENDED_AGE_MAX = 99"

definition EN_DASH :: string where
  "EN_DASH = [CHR 0xE2, CHR 0x80, CHR 0x93]"

definition EM_DASH :: string where
  "EM_DASH = [CHR 0xE2, CHR 0x80, CHR 0x94]"

section \<open>Scanners\<close>

definition skip_spaces :: "string \<Rightarrow> string" where
  "skip_spaces s = dropWhile is_ascii_space s"

text \<open>One of the words, without regard to case, at the front.\<close>

definition strip_word :: "string list \<Rightarrow> string \<Rightarrow> string option" where
  "strip_word words s =
     map_option (\<lambda>w. drop (length w) s) (List.find (\<lambda>w. py_lower (take (length w) s) = w) words)"

definition is_word_char :: "char \<Rightarrow> bool" where
  "is_word_char c = (is_alnum_ascii c \<or> c = CHR ''_'')"

definition at_boundary :: "string \<Rightarrow> bool" where
  "at_boundary s = (case s of [] \<Rightarrow> True | c # _ \<Rightarrow> \<not> is_word_char c)"

text \<open>A number of one to three digits and what follows its run.\<close>

definition short_number :: "string \<Rightarrow> (nat \<times> string) option" where
  "short_number s =
     (let ds = takeWhile is_digit_ascii s in
      if ds = [] \<or> 3 < length ds then None
      else Some (digits_value ds, dropWhile is_digit_ascii s))"

definition closed_range_at :: "string \<Rightarrow> (nat \<times> nat) option" where
  "closed_range_at s =
     (case short_number s of
        None \<Rightarrow> None
      | Some (low, rest) \<Rightarrow>
          (case strip_word [''-'', EN_DASH, EM_DASH, ''to'', ''through''] (skip_spaces rest) of
             None \<Rightarrow> None
           | Some rest' \<Rightarrow> map_option (\<lambda>(high, _). (low, high)) (short_number (skip_spaces rest'))))"

definition or_more :: "string \<Rightarrow> bool" where
  "or_more s =
     (let bare = (\<lambda>t. case strip_word [''older'', ''over'', ''above'', ''more'', ''up''] t of
                        Some rest \<Rightarrow> at_boundary rest | None \<Rightarrow> False) in
      (case s of c # _ \<Rightarrow> c = CHR ''+'' | [] \<Rightarrow> False)
      \<or> (case strip_word [''plus''] s of Some rest \<Rightarrow> at_boundary rest | None \<Rightarrow> False)
      \<or> bare s
      \<or> (case strip_word [''and'', ''or''] s of
           Some rest \<Rightarrow> skip_spaces rest \<noteq> rest \<and> bare (skip_spaces rest) | None \<Rightarrow> False))"

definition open_range_at :: "string \<Rightarrow> nat option" where
  "open_range_at s =
     (case short_number s of
        None \<Rightarrow> None
      | Some (low, rest) \<Rightarrow>
          (let t = skip_spaces rest;
               t = (case strip_word [''years'', ''year'', ''yrs'', ''yr''] t of Some u \<Rightarrow> u | None \<Rightarrow> t)
           in if or_more (skip_spaces t) then Some low else None))"

definition prefix_range_at :: "string \<Rightarrow> nat option" where
  "prefix_range_at s =
     (let older = (case strip_word [''older''] s of
                     Some rest \<Rightarrow> if skip_spaces rest = rest then None else strip_word [''than''] (skip_spaces rest)
                   | None \<Rightarrow> None);
          after = (case strip_word [''over'', ''above''] s of Some rest \<Rightarrow> Some rest | None \<Rightarrow> older)
      in case after of
           None \<Rightarrow> None
         | Some rest \<Rightarrow> (case short_number (skip_spaces rest) of
                          Some (low, tail) \<Rightarrow> if at_boundary tail then Some low else None
                        | None \<Rightarrow> None))"

text \<open>\<open>re.search\<close>: the leftmost place that is not inside a run of the given characters.\<close>

fun search_at :: "(char \<Rightarrow> bool) \<Rightarrow> (string \<Rightarrow> 'a option) \<Rightarrow> bool \<Rightarrow> string \<Rightarrow> 'a option" where
  "search_at inside match prev_inside [] = None"
| "search_at inside match prev_inside (c # cs) =
     (case (if prev_inside then None else match (c # cs)) of
        Some x \<Rightarrow> Some x
      | None \<Rightarrow> search_at inside match (inside c) cs)"

definition closed_range :: "string \<Rightarrow> (nat \<times> nat) option" where
  "closed_range s = search_at is_digit_ascii closed_range_at False s"

definition open_range :: "string \<Rightarrow> nat option" where
  "open_range s = search_at is_digit_ascii open_range_at False s"

definition prefix_open_range :: "string \<Rightarrow> nat option" where
  "prefix_open_range s = search_at is_word_char prefix_range_at False s"

section \<open>Normalisation\<close>

definition bounded_age_range :: "int \<Rightarrow> int \<Rightarrow> (int \<times> int) option" where
  "bounded_age_range low high =
     (if low < 1 \<or> OPEN_ENDED_AGE_MAX < low then None
      else (let high = min high OPEN_ENDED_AGE_MAX in if high < low then None else Some (low, high)))"

definition replace_ampersands :: "string \<Rightarrow> string" where
  "replace_ampersands s = concat (map (\<lambda>c. if c = CHR ''&'' then '' and '' else [c]) s)"

definition age_of_text :: "string \<Rightarrow> (int \<times> int) option" where
  "age_of_text value =
     (let raw = replace_ampersands (py_strip value) in
      case closed_range raw of
        Some (low, high) \<Rightarrow> bounded_age_range (int low) (int high)
      | None \<Rightarrow>
     (case open_range raw of
        Some low \<Rightarrow> bounded_age_range (int low) OPEN_ENDED_AGE_MAX
      | None \<Rightarrow>
     (case prefix_open_range raw of
        Some low \<Rightarrow> bounded_age_range (int low) OPEN_ENDED_AGE_MAX
      | None \<Rightarrow>
          if raw \<noteq> [] \<and> length raw \<le> 3 \<and> list_all is_digit_ascii raw
          then bounded_age_range (int (digits_value raw)) (int (digits_value raw)) else None)))"

definition range_bearing :: "string \<Rightarrow> bool" where
  "range_bearing label =
     (let s = replace_ampersands label in
      label \<noteq> [] \<and> (closed_range s \<noteq> None \<or> open_range s \<noteq> None \<or> prefix_open_range s \<noteq> None))"

definition AGE_LABEL_KEYS :: "string list" where
  "AGE_LABEL_KEYS =
     [''OptionText'', ''Translation'', ''Label'', ''label'', ''Range'', ''range'', ''DisplayText'',
      ''display_text'', ''Name'', ''name'', ''Text'', ''text'', ''Description'', ''description'',
      ''Title'', ''title'']"

text \<open>\<open>first_value\<close>: the first key with a value other than \<^term>\<open>JNull\<close> and the empty text.\<close>

definition first_value_of :: "jdict \<Rightarrow> string list \<Rightarrow> json" where
  "first_value_of kvs keys =
     (case List.find (\<lambda>key. dict_get kvs key \<noteq> JNull \<and> dict_get kvs key \<noteq> JStr []) keys of
        Some key \<Rightarrow> dict_get kvs key | None \<Rightarrow> JNull)"

text \<open>\<open>int(value)\<close>, \<^term>\<open>None\<close> where it raises \<open>TypeError\<close> or \<open>ValueError\<close>.\<close>

definition to_int :: "json \<Rightarrow> int option" where
  "to_int v =
     (case v of
        JInt i \<Rightarrow> Some i
      | JBool b \<Rightarrow> Some (if b then 1 else 0)
      | JFloat q _ \<Rightarrow> Some (if 0 \<le> q then \<lfloor>q\<rfloor> else - \<lfloor>- q\<rfloor>)
      | JStr s \<Rightarrow> parse_int s
      | _ \<Rightarrow> None)"

definition age_of_bounds :: "jdict \<Rightarrow> (int \<times> int) option" where
  "age_of_bounds kvs =
     (let maximum = first_value_of kvs [''max'', ''ageEnd'', ''end'', ''to''] in
      case (to_int (first_value_of kvs [''min'', ''ageStart'', ''start'', ''from'']),
            if maximum = JNull then Some OPEN_ENDED_AGE_MAX else to_int maximum) of
        (Some low, Some high) \<Rightarrow> bounded_age_range low high
      | _ \<Rightarrow> None)"

lemma size_dict_get:
  "dict_get kvs key = JObj inner \<Longrightarrow> size (JObj inner) < size (JObj kvs)"
proof -
  assume "dict_get kvs key = JObj inner"
  then have "map_of kvs key = Some (JObj inner)" by (simp add: dict_get_def split: option.splits)
  then have "(key, JObj inner) \<in> set kvs" by (rule map_of_SomeD)
  then have "size (JObj inner) \<le> size_list (size_prod (\<lambda>_. 0) size) kvs"
    by (induction kvs) auto
  then show ?thesis by simp
qed

text \<open>A dict is read by its label -- a nested dict by its own rules -- and then by its bounds.\<close>

function normalize_age_range :: "json \<Rightarrow> (int \<times> int) option"
  and age_label :: "jdict \<Rightarrow> string list \<Rightarrow> (int \<times> int) + string" where
  "normalize_age_range v =
     (case v of
        JObj kvs \<Rightarrow>
          (case age_label kvs AGE_LABEL_KEYS of
             Inl found \<Rightarrow> Some found
           | Inr label \<Rightarrow>
               (case (if range_bearing label then age_of_text (replace_ampersands label) else None) of
                  Some found \<Rightarrow> Some found
                | None \<Rightarrow> age_of_bounds kvs))
      | _ \<Rightarrow> age_of_text (str_or v []))"
| "age_label kvs [] = Inr []"
| "age_label kvs (key # keys) =
     (case dict_get kvs key of
        JObj inner \<Rightarrow>
          (case normalize_age_range (JObj inner) of
             Some found \<Rightarrow> Inl found | None \<Rightarrow> age_label kvs keys)
      | v \<Rightarrow> (let candidate = py_strip (str_or v []) in
              if candidate \<noteq> [] then Inr candidate else age_label kvs keys))"
  by pat_completeness auto

termination
  by (relation "measures [\<lambda>x. case x of Inl v \<Rightarrow> size v | Inr (kvs, _) \<Rightarrow> size (JObj kvs),
    \<lambda>x. case x of Inl _ \<Rightarrow> Suc (length AGE_LABEL_KEYS) | Inr (_, keys) \<Rightarrow> length keys]")
    (auto dest: size_dict_get)

declare normalize_age_range.simps [simp del]

lemma age_range_of_text:
  "(\<And>kvs. v \<noteq> JObj kvs) \<Longrightarrow> normalize_age_range v = age_of_text (str_or v [])"
  by (subst normalize_age_range.simps) (cases v; auto)

definition age_range_dict :: "json \<Rightarrow> json" where
  "age_range_dict v =
     (case normalize_age_range v of
        Some (low, high) \<Rightarrow> JObj [(''min'', JInt low), (''max'', JInt high)] | None \<Rightarrow> JNull)"

section \<open>Every band lies within 1 and 99\<close>

definition age_band :: "int \<times> int \<Rightarrow> bool" where
  "age_band band = (1 \<le> fst band \<and> fst band \<le> snd band \<and> snd band \<le> OPEN_ENDED_AGE_MAX)"

lemma bounded_age_band: "bounded_age_range low high = Some band \<Longrightarrow> age_band band"
  by (auto simp: bounded_age_range_def age_band_def Let_def split: if_splits)

lemma age_of_text_band: "age_of_text s = Some band \<Longrightarrow> age_band band"
  by (auto simp: age_of_text_def Let_def split: option.splits if_splits intro: bounded_age_band)

lemma age_of_bounds_band: "age_of_bounds kvs = Some band \<Longrightarrow> age_band band"
  by (auto simp: age_of_bounds_def Let_def split: option.splits intro: bounded_age_band)

lemma normalize_age_band:
  "(\<forall>band. normalize_age_range v = Some band \<longrightarrow> age_band band)"
  "(\<forall>band. age_label kvs keys = Inl band \<longrightarrow> age_band band)"
proof (induction v and kvs keys rule: normalize_age_range_age_label.induct)
  case (1 v)
  show ?case
  proof (intro allI impI)
    fix band
    assume found: "normalize_age_range v = Some band"
    show "age_band band"
    proof (cases v)
      case (JObj kvs)
      with found 1 [OF JObj] show ?thesis
        by (subst (asm) normalize_age_range.simps)
          (auto split: sum.splits option.splits if_splits intro: age_of_text_band age_of_bounds_band)
    qed (use found in \<open>simp_all add: age_range_of_text age_of_text_band\<close>)
  qed
next
  case (2 kvs)
  then show ?case by simp
next
  case (3 kvs key keys)
  then show ?case
    by (cases "dict_get kvs key") (auto simp: Let_def split: option.splits if_splits)
qed

end
