(* ===== verification/Vault_Snapshots.thy ===== *)
theory Vault_Snapshots
  imports Database Age_Rules
begin

text \<open>
  The prescreener vault: its tables (\<open>prescreener_vault/models.py\<close>, a database of its own) and
  the reading of a respondent's answers in \<open>prescreener_vault/services.py\<close> -- cleaning a value,
  recognising the attribute a question asks for, the age of a date of birth and the snapshot of
  every answer with the profile dimensions it contributes.

  \<open>surveys.models\<close> has no \<open>ProviderQuestionMapping\<close>, so \<open>_provider_mapping_index\<close> always
  returns the empty dict of its \<open>ImportError\<close> branch, and the branches of the code that need a
  mapping are not reached.  \<open>local_date\<close> is \<open>timezone.localtime(t).date()\<close> of the project's
  time zone.
\<close>

section \<open>Tables\<close>

record prescreener_submission =
  ps_uid :: string
  ps_rid :: string
  ps_source_client_code :: string
  ps_country :: string
  ps_country_code :: string
  ps_language :: string
  ps_language_code :: string
  ps_respondent_age :: "int option"
  ps_respondent_age_group :: string
  ps_respondent_gender :: string
  ps_respondent_ethnicity :: string
  ps_respondent_postal_code :: string
  ps_profile_dimensions :: "(string \<times> string list) list"
  ps_raw_answers :: jdict
  ps_answer_count :: nat
  ps_usage_count :: nat
  ps_last_reused_at :: "timestamp option"
  ps_submitted_at :: timestamp
  ps_captured_at :: timestamp

record prescreener_answer =
  pa_id :: pk
  pa_submission :: string
  pa_position :: nat
  pa_question_record_id :: string
  pa_question_id :: string
  pa_question_key :: string
  pa_question_text :: string
  pa_question_type :: string
  pa_question_category :: string
  pa_canonical_attribute :: string
  pa_answer_values :: "string list"
  pa_answer_labels :: "string list"
  pa_upstream_values :: "string list"

record prescreener_answer_value =
  pv_id :: pk
  pv_answer :: pk
  pv_position :: nat
  pv_value :: string
  pv_label :: string
  pv_normalized_value :: string
  pv_canonical_attribute :: string
  pv_country_code :: string

record vault =
  submissions :: "prescreener_submission list"
  vault_answers :: "prescreener_answer list"
  vault_values :: "prescreener_answer_value list"

text \<open>The UID is the primary key, the RID unique; positions are unique within their parent.\<close>

definition vault_ok :: "vault \<Rightarrow> bool" where
  "vault_ok v =
     (unique_by ps_uid (submissions v) \<and> unique_by ps_rid (submissions v)
      \<and> unique_by pa_id (vault_answers v)
      \<and> unique_by (\<lambda>a. (pa_submission a, pa_position a)) (vault_answers v)
      \<and> unique_by pv_id (vault_values v)
      \<and> unique_by (\<lambda>x. (pv_answer x, pv_position x)) (vault_values v))"

definition get_submission :: "vault \<Rightarrow> string \<Rightarrow> prescreener_submission option" where
  "get_submission v uid = List.find (\<lambda>p. ps_uid p = uid) (submissions v)"

section \<open>Cleaning and classifying\<close>

definition is_token_char :: "char \<Rightarrow> bool" where
  "is_token_char c = (is_lower_ascii c \<or> is_digit_ascii c)"

definition clean_token :: "string \<Rightarrow> string" where
  "clean_token value =
     strip_char (CHR ''_'')
       (replace_runs (\<lambda>c. \<not> is_token_char c) ''_'' False (py_lower (py_strip value)))"

definition canonical_dimension_key :: "string \<Rightarrow> string" where
  "canonical_dimension_key value = clean_token value"

definition attribute_phrases :: "(string \<times> string list list) list" where
  "attribute_phrases =
     [(''date_of_birth'', [[''date'', ''of'', ''birth''], [''birth'', ''date''], [''birthday''], [''dob'']]),
      (''age'', [[''age''], [''years'', ''old'']]),
      (''gender'', [[''gender''], [''sex'']]),
      (''ethnicity'', [[''ethnicity''], [''ethnic''], [''race'']]),
      (''postal_code'', [[''postal''], [''postcode''], [''zip''], [''pincode''], [''pin'', ''code'']]),
      (''country'', [[''country''], [''nation'']]),
      (''language'', [[''language''], [''locale'']])]"

definition canonical_attribute :: "string \<Rightarrow> string \<Rightarrow> string \<Rightarrow> string" where
  "canonical_attribute question_key question_text question_category =
     (let source = map (\<lambda>c. if c = CHR ''_'' then CHR '' '' else c)
            (py_join '' '' [clean_token question_key, clean_token question_text,
                          clean_token question_category]);
          ws = py_split (CHR '' '') source
      in case List.find (\<lambda>(_, phrases). list_ex (\<lambda>p. has_phrase p ws) phrases) attribute_phrases of
           Some (attribute, _) \<Rightarrow> attribute
         | None \<Rightarrow> [])"

definition normalize_profile_value :: "string \<Rightarrow> string \<Rightarrow> string" where
  "normalize_profile_value attribute value =
     (let cleaned = py_strip value in
      if attribute = ''postal_code''
      then take 191 (py_upper (filter (\<lambda>c. \<not> is_ascii_space c \<and> c \<noteq> CHR ''-'') cleaned))
      else if attribute \<in> set [''gender'', ''ethnicity'', ''country'', ''language'']
      then take 191 (py_lower (py_strip (replace_runs is_ascii_space '' '' False cleaned)))
      else take 191 (py_lower cleaned))"

definition age_bands :: "(int \<times> int) list" where
  "age_bands = [(13, 17), (18, 24), (25, 29), (30, 34), (35, 39), (40, 44), (45, 49), (50, 54)]"

definition age_group :: "int option \<Rightarrow> string" where
  "age_group age =
     (case age of
        None \<Rightarrow> []
      | Some a \<Rightarrow>
          (case List.find (\<lambda>(lower, upper). lower \<le> a \<and> a \<le> upper) age_bands of
             Some (lower, upper) \<Rightarrow> show_int lower @ ''-'' @ show_int upper
           | None \<Rightarrow> []))"

definition plausible_age :: "int \<Rightarrow> int option" where
  "plausible_age age = (if 1 \<le> age \<and> age \<le> OPEN_ENDED_AGE_MAX then Some age else None)"

definition years_between :: "date \<Rightarrow> date \<Rightarrow> int" where
  "years_between born reference =
     (case (born, reference) of
        ((by, bm, bd), (ry, rm, rd)) \<Rightarrow>
          ry - by - (if rm < bm \<or> (rm = bm \<and> rd < bd) then 1 else 0))"

definition age_from_value :: "(timestamp \<Rightarrow> date) \<Rightarrow> string \<Rightarrow> timestamp \<Rightarrow> int option" where
  "age_from_value local_date value submitted_at =
     (let text = py_strip value in
      case parse_int text of
        Some age \<Rightarrow> plausible_age age
      | None \<Rightarrow>
          (case (case strptime_ymd text of Some b \<Rightarrow> Some b | None \<Rightarrow> strptime_dmy text) of
             None \<Rightarrow> None
           | Some born \<Rightarrow> plausible_age (years_between born (local_date submitted_at))))"

section \<open>Answer snapshots\<close>

record answer_snapshot =
  as_position :: nat
  as_question_record_id :: string
  as_question_id :: string
  as_question_key :: string
  as_question_text :: string
  as_question_type :: string
  as_question_category :: string
  as_canonical_attribute :: string
  as_answer_values :: "string list"
  as_answer_labels :: "string list"
  as_upstream_values :: "string list"
  as_normalized_values :: "string list"

record profile_reading =
  rd_snapshots :: "answer_snapshot list"
  rd_dimensions :: "(string \<times> string list) list"
  rd_age :: "int option"
  rd_age_group :: string
  rd_gender :: string
  rd_ethnicity :: string
  rd_postal_code :: string

definition dims_get :: "(string \<times> string list) list \<Rightarrow> string \<Rightarrow> string list" where
  "dims_get dims k = (case map_of dims k of None \<Rightarrow> [] | Some values \<Rightarrow> values)"

text \<open>\<open>dimensions.setdefault(k, []).extend(values)\<close>\<close>

definition dims_extend :: "string \<Rightarrow> string list \<Rightarrow> (string \<times> string list) list \<Rightarrow> (string \<times> string list) list" where
  "dims_extend k values dims = AList.update k (dims_get dims k @ values) dims"

text \<open>\<open>questions.get(str(record_id))\<close>: the survey's question whose key is written like that.\<close>

definition question_of_key :: "db \<Rightarrow> pk \<Rightarrow> string list \<Rightarrow> string \<Rightarrow> targeting_question option" where
  "question_of_key d survey_id keys record_id =
     (let ids = List.map_filter (\<lambda>k. if k \<noteq> [] \<and> list_all is_digit_ascii k
                                     then Some (digits_value k) else None) keys
      in List.find (\<lambda>q. show_nat (tq_id q) = record_id)
           (filter (\<lambda>q. tq_survey q = survey_id \<and> tq_id q \<in> set ids) (targeting_questions d)))"

definition option_label :: "json \<Rightarrow> (string \<times> string) option" where
  "option_label v =
     (case as_dict v of
        None \<Rightarrow> None
      | Some item \<Rightarrow>
          if dict_get item ''OptionId'' = JNull then None
          else Some (py_str (dict_get item ''OptionId''),
                     py_str (json_or (dict_get item ''OptionText'') (dict_get item ''OptionId''))))"

definition option_labels :: "json list \<Rightarrow> (string \<times> string) list" where
  "option_labels items = fold (\<lambda>(k, t) m. AList.update k t m) (List.map_filter option_label items) []"

text \<open>The attribute named by the provider's question metadata, else the one its text suggests,
  else a key of the provider's own.\<close>

definition explicit_canonical :: "targeting_question option \<Rightarrow> py_error + string" where
  "explicit_canonical q =
     (case q of
        None \<Rightarrow> Inr []
      | Some question \<Rightarrow>
          if \<not> truthy (tq_raw_data question) then Inr []
          else (case as_dict (tq_raw_data question) of
                  None \<Rightarrow> Inl (AttributeError ''get'')
                | Some raw \<Rightarrow> Inr (str_or (dict_get raw ''canonical_key'') [])))"

definition provider_question_key :: "db \<Rightarrow> survey \<Rightarrow> targeting_question option \<Rightarrow> py_error + string" where
  "provider_question_key d s q =
     (case q of
        None \<Rightarrow> Inr []
      | Some question \<Rightarrow>
          (case Option.bind (sv_integration s) (get_integration d) of
             None \<Rightarrow> Inl (AttributeError ''provider_code'')
           | Some integration \<Rightarrow>
               Inr (ci_provider_code integration @ ''_'' @ show_int (tq_question_id question))))"

definition snapshot_canonical ::
  "db \<Rightarrow> survey \<Rightarrow> targeting_question option \<Rightarrow> string \<Rightarrow> string \<Rightarrow> string \<Rightarrow> py_error + string" where
  "snapshot_canonical d s q key text category =
     (case explicit_canonical q of
        Inl e \<Rightarrow> Inl e
      | Inr explicit \<Rightarrow>
          if explicit \<noteq> [] then Inr (canonical_dimension_key explicit)
          else if canonical_attribute key text category \<noteq> []
          then Inr (canonical_dimension_key (canonical_attribute key text category))
          else (case provider_question_key d s q of
                  Inl e \<Rightarrow> Inl e | Inr own \<Rightarrow> Inr (canonical_dimension_key own)))"

definition first_nonempty :: "'a list \<Rightarrow> 'a list \<Rightarrow> 'a list" where
  "first_nonempty xs ys = (if xs \<noteq> [] then xs else ys)"

definition absorb_values ::
  "(timestamp \<Rightarrow> date) \<Rightarrow> timestamp \<Rightarrow> string \<Rightarrow> string list \<Rightarrow> string list \<Rightarrow> profile_reading \<Rightarrow> profile_reading" where
  "absorb_values local_date submitted_at canonical reusable normalized r =
     (let r1 = (if canonical \<noteq> [] \<and> normalized \<noteq> []
                then r\<lparr>rd_dimensions := dims_extend canonical normalized (rd_dimensions r)\<rparr> else r)
      in if canonical \<in> set [''age'', ''date_of_birth''] \<and> reusable \<noteq> []
         then (case age_from_value local_date (hd reusable) submitted_at of
                 Some a \<Rightarrow> r1\<lparr>rd_age := Some a\<rparr> | None \<Rightarrow> r1)
         else if canonical = ''gender'' \<and> normalized \<noteq> [] then r1\<lparr>rd_gender := hd normalized\<rparr>
         else if canonical = ''ethnicity'' \<and> normalized \<noteq> [] then r1\<lparr>rd_ethnicity := hd normalized\<rparr>
         else if canonical = ''postal_code'' \<and> normalized \<noteq> []
         then r1\<lparr>rd_postal_code := hd normalized\<rparr>
         else r1)"

definition snapshot_answer ::
  "(timestamp \<Rightarrow> date) \<Rightarrow> db \<Rightarrow> survey \<Rightarrow> timestamp \<Rightarrow> string list \<Rightarrow> nat \<Rightarrow> string \<Rightarrow> json
   \<Rightarrow> profile_reading \<Rightarrow> py_error + profile_reading" where
  "snapshot_answer local_date d s submitted_at keys position record_id answer r =
     (let payload = (case as_dict answer of Some kvs \<Rightarrow> kvs | None \<Rightarrow> []);
          q = question_of_key d (sv_id s) keys record_id;
          text_of = (\<lambda>k f. str_or (dict_get payload k) (case q of Some x \<Rightarrow> f x | None \<Rightarrow> []));
          key = text_of ''question_key'' tq_key; text = text_of ''question_text'' tq_text;
          category = text_of ''question_category'' tq_category
      in case items_of (dict_get payload ''values'') of Inl e \<Rightarrow> Inl e | Inr vs \<Rightarrow>
         (case items_of (dict_get payload ''upstream_values'') of Inl e \<Rightarrow> Inl e | Inr us \<Rightarrow>
         (case items_of (case q of Some x \<Rightarrow> tq_options x | None \<Rightarrow> JNull) of Inl e \<Rightarrow> Inl e | Inr options \<Rightarrow>
         (case snapshot_canonical d s q key text category of Inl e \<Rightarrow> Inl e | Inr canonical \<Rightarrow>
            let vals = map py_str vs; upstream = map py_str us; labels_of = option_labels options;
                labels = map (\<lambda>v. case map_of labels_of v of Some t \<Rightarrow> t | None \<Rightarrow> v) vals;
                reusable = first_nonempty labels (first_nonempty vals upstream);
                normalized = filter (\<lambda>v. v \<noteq> []) (map (normalize_profile_value canonical) reusable);
                snapshot = \<lparr>as_position = position, as_question_record_id = record_id,
                  as_question_id = text_of ''question_id'' (\<lambda>x. show_int (tq_question_id x)),
                  as_question_key = key, as_question_text = text,
                  as_question_type = text_of ''question_type'' tq_question_type,
                  as_question_category = category, as_canonical_attribute = canonical,
                  as_answer_values = vals, as_answer_labels = labels,
                  as_upstream_values = upstream, as_normalized_values = normalized\<rparr>;
                r1 = absorb_values local_date submitted_at canonical reusable normalized r
            in Inr (r1\<lparr>rd_snapshots := rd_snapshots r1 @ [snapshot]\<rparr>)))))"

fun snapshot_answers ::
  "(timestamp \<Rightarrow> date) \<Rightarrow> db \<Rightarrow> survey \<Rightarrow> timestamp \<Rightarrow> string list \<Rightarrow> nat \<Rightarrow> jdict
   \<Rightarrow> profile_reading \<Rightarrow> py_error + profile_reading" where
  "snapshot_answers local_date d s submitted_at keys position [] r = Inr r"
| "snapshot_answers local_date d s submitted_at keys position ((record_id, answer) # answers) r =
     (case snapshot_answer local_date d s submitted_at keys position record_id answer r of
        Inl e \<Rightarrow> Inl e
      | Inr r' \<Rightarrow> snapshot_answers local_date d s submitted_at keys (Suc position) answers r')"

definition seed_dimensions :: "survey \<Rightarrow> (string \<times> string list) list" where
  "seed_dimensions s =
     (let country = (if sv_country_code s \<noteq> [] then sv_country_code s else sv_country s);
          language = (if sv_language_code s \<noteq> [] then sv_language_code s else sv_language s)
      in [(''country'', if country \<noteq> [] then [country] else []),
          (''language'', if language \<noteq> [] then [language] else [])])"

definition age_dimensions :: "int option \<Rightarrow> (string \<times> string list) list \<Rightarrow> (string \<times> string list) list" where
  "age_dimensions age dims =
     (case age of
        None \<Rightarrow> dims
      | Some a \<Rightarrow> AList.update ''age_group'' [age_group (Some a)]
                   (AList.update ''age'' [show_int a] dims))"

definition dedupe_dimensions :: "(string \<times> string list) list \<Rightarrow> (string \<times> string list) list" where
  "dedupe_dimensions dims =
     map (\<lambda>(k, values). (k, keep_first (filter (\<lambda>v. v \<noteq> []) values)))
       (filter (\<lambda>(_, values). values \<noteq> []) dims)"

definition question_snapshots ::
  "(timestamp \<Rightarrow> date) \<Rightarrow> db \<Rightarrow> survey_attempt \<Rightarrow> survey \<Rightarrow> jdict \<Rightarrow> timestamp \<Rightarrow> py_error + profile_reading" where
  "question_snapshots local_date d a s answers now =
     (let submitted_at = (case at_submitted_at a of Some t \<Rightarrow> t | None \<Rightarrow> now);
          start = \<lparr>rd_snapshots = [], rd_dimensions = seed_dimensions s, rd_age = None,
            rd_age_group = [], rd_gender = [], rd_ethnicity = [], rd_postal_code = []\<rparr>
      in case snapshot_answers local_date d s submitted_at (map fst answers) 1 answers start of
           Inl e \<Rightarrow> Inl e
         | Inr r \<Rightarrow> Inr (r\<lparr>rd_dimensions := dedupe_dimensions (age_dimensions (rd_age r) (rd_dimensions r)),
                           rd_age_group := age_group (rd_age r)\<rparr>))"

end
