(* ===== verification/Vault_Capture.thy ===== *)
theory Vault_Capture
  imports Vault_Snapshots
begin

text \<open>
  Writing a submission into the vault (\<open>prescreener_vault/services.py\<close>): the stable UID of an
  attempt (\<open>ensure_attempt_prescreener_uid\<close> of \<open>surveys/survey_flow.py\<close>), the answer rows and
  \<open>capture_prescreener_submission\<close> with its bounded retry.

  \<open>candidates\<close> are the draws of \<open>generate_prescreener_uid\<close>.  \<open>faults k\<close> is the database error
  the \<open>k\<close>-th try of the transaction meets, if any; a failed try leaves no trace.
\<close>

section \<open>The UID of an attempt\<close>

definition set_prescreener_uid :: "pk \<Rightarrow> string \<Rightarrow> db \<Rightarrow> db" where
  "set_prescreener_uid i uid d =
     update_attempts (\<lambda>a. at_id a = i) (\<lambda>a. a\<lparr>at_prescreener_uid := Some uid\<rparr>) d"

definition uid_taken :: "db \<Rightarrow> string \<Rightarrow> bool" where
  "uid_taken d uid = list_ex (\<lambda>a. at_prescreener_uid a = Some uid) (attempts d)"

text \<open>One round writes the drawn UID where the column is null -- the unique column may refuse it --
  and otherwise reads what another request wrote.\<close>

fun draw_uid :: "db \<Rightarrow> pk \<Rightarrow> string list \<Rightarrow> py_error + (string \<times> db)" where
  "draw_uid d i [] = Inl (RuntimeError ''Could not allocate a unique prescreener UID'')"
| "draw_uid d i (candidate # candidates) =
     (case get_attempt d i of
        None \<Rightarrow> Inl (DoesNotExist ''SurveyAttempt'')
      | Some row \<Rightarrow>
          (case at_prescreener_uid row of
             None \<Rightarrow> if uid_taken d candidate then draw_uid d i candidates
                     else Inr (candidate, set_prescreener_uid i candidate d)
           | Some uid \<Rightarrow> if uid \<noteq> [] then Inr (uid, d) else draw_uid d i candidates))"

definition ensure_attempt_prescreener_uid ::
  "db \<Rightarrow> survey_attempt \<Rightarrow> string list \<Rightarrow> py_error + (string \<times> db)" where
  "ensure_attempt_prescreener_uid d a candidates =
     (case at_prescreener_uid a of
        Some uid \<Rightarrow> if uid \<noteq> [] then Inr (uid, d) else draw_uid d (at_id a) (take 10 candidates)
      | None \<Rightarrow> draw_uid d (at_id a) (take 10 candidates))"

section \<open>Answers added by the system\<close>

definition system_answer :: "string \<Rightarrow> string \<Rightarrow> string \<Rightarrow> string \<Rightarrow> string \<Rightarrow> json" where
  "system_answer qid key text value upstream =
     JObj [(''question_id'', JStr qid), (''question_key'', JStr key), (''question_text'', JStr text),
           (''values'', JArr [JStr value]), (''upstream_values'', JArr [JStr upstream])]"

definition ip_postal_answer :: "string \<Rightarrow> json" where
  "ip_postal_answer geo_postal =
     system_answer ''system_ip_postal'' ''postal_code'' ''Postal code (derived from entry IP)''
       geo_postal geo_postal"

definition answers_with_entry_postal_code ::
  "(timestamp \<Rightarrow> date) \<Rightarrow> db \<Rightarrow> survey_attempt \<Rightarrow> survey \<Rightarrow> jdict \<Rightarrow> timestamp \<Rightarrow> py_error + jdict" where
  "answers_with_entry_postal_code local_date d a s answers now =
     (case question_snapshots local_date d a s answers now of
        Inl e \<Rightarrow> Inl e
      | Inr r \<Rightarrow>
          (case (if truthy (at_entry_client_data a) then as_dict (at_entry_client_data a) else Some []) of
             None \<Rightarrow> Inl (AttributeError ''get'')
           | Some client_data \<Rightarrow>
               let geo_postal = py_strip (str_or (dict_get client_data ''geo_postal_code'') [])
               in if rd_postal_code r \<noteq> [] \<or> geo_postal = [] then Inr answers
                  else Inr (dict_set ''system_ip_postal'' (ip_postal_answer geo_postal) answers)))"

definition market_text :: "string \<Rightarrow> string \<Rightarrow> string" where
  "market_text code name =
     py_join [CHR '' '', CHR 0xB7, CHR '' ''] (filter (\<lambda>v. v \<noteq> []) [code, name])"

definition wrong_target_country_answers :: "survey \<Rightarrow> jdict \<Rightarrow> jdict" where
  "wrong_target_country_answers s location =
     (let actual_code = py_upper (str_or (dict_get location ''country_code'') []);
          actual_name = py_strip (str_or (dict_get location ''country'') []);
          expected_code = py_upper (sv_country_code s);
          expected_name = py_strip (sv_country s);
          actual = market_text actual_code actual_name;
          expected = market_text expected_code expected_name;
          or_unknown = (\<lambda>t. if t \<noteq> [] then t else ''Unknown'');
          geo_postal = py_strip (str_or (dict_get location ''postal_code'') [])
      in [(''system_target_validation'', system_answer ''system_target_validation''
             ''entry_validation'' ''Entry validation result'' ''Wrong target country'' ''Wrong target country''),
          (''system_detected_market'', system_answer ''system_detected_market'' ''detected_market''
             ''Detected entry market'' (or_unknown actual)
             (or_unknown (first_nonempty actual_code actual))),
          (''system_target_market'', system_answer ''system_target_market'' ''target_market''
             ''Required survey market'' (or_unknown expected)
             (or_unknown (first_nonempty expected_code expected)))]
         @ (if geo_postal \<noteq> [] then [(''system_ip_postal'', ip_postal_answer geo_postal)] else []))"

section \<open>Answer rows\<close>

definition answer_row :: "vault \<Rightarrow> string \<Rightarrow> answer_snapshot \<Rightarrow> prescreener_answer" where
  "answer_row v uid x =
     \<lparr>pa_id = next_pk pa_id (vault_answers v), pa_submission = uid, pa_position = as_position x,
      pa_question_record_id = as_question_record_id x, pa_question_id = as_question_id x,
      pa_question_key = as_question_key x, pa_question_text = as_question_text x,
      pa_question_type = as_question_type x, pa_question_category = as_question_category x,
      pa_canonical_attribute = as_canonical_attribute x, pa_answer_values = as_answer_values x,
      pa_answer_labels = as_answer_labels x, pa_upstream_values = as_upstream_values x\<rparr>"

definition value_row ::
  "vault \<Rightarrow> prescreener_answer \<Rightarrow> survey \<Rightarrow> nat \<Rightarrow> string \<Rightarrow> string \<Rightarrow> string \<Rightarrow> prescreener_answer_value" where
  "value_row v answer s position value label normalized =
     \<lparr>pv_id = next_pk pv_id (vault_values v), pv_answer = pa_id answer, pv_position = position,
      pv_value = value, pv_label = label, pv_normalized_value = normalized,
      pv_canonical_attribute = pa_canonical_attribute answer,
      pv_country_code = py_upper (sv_country_code s)\<rparr>"

text \<open>\<open>xs[p - 1] if p <= len(xs) else default\<close>, for a position counted from one.\<close>

definition at_position :: "'a list \<Rightarrow> nat \<Rightarrow> 'a \<Rightarrow> 'a" where
  "at_position xs p other = (if p \<le> length xs then xs ! (p - 1) else other)"

fun write_values ::
  "prescreener_answer \<Rightarrow> survey \<Rightarrow> string list \<Rightarrow> string list \<Rightarrow> nat \<Rightarrow> string list \<Rightarrow> vault \<Rightarrow> vault" where
  "write_values answer s labels normalized p [] v = v"
| "write_values answer s labels normalized p (value # rest) v =
     (let label = at_position labels p value;
          norm = at_position normalized p
                   (normalize_profile_value (pa_canonical_attribute answer) label)
      in write_values answer s labels normalized (Suc p) rest
           (v\<lparr>vault_values := vault_values v @ [value_row v answer s p value label norm]\<rparr>))"

definition write_answer_row :: "string \<Rightarrow> survey \<Rightarrow> answer_snapshot \<Rightarrow> vault \<Rightarrow> vault" where
  "write_answer_row uid s x v =
     (let answer = answer_row v uid x;
          source = first_nonempty (as_answer_values x) (as_upstream_values x);
          labels = first_nonempty (as_answer_labels x) source
      in write_values answer s labels (as_normalized_values x) 1 source
           (v\<lparr>vault_answers := vault_answers v @ [answer]\<rparr>))"

fun write_answer_rows :: "string \<Rightarrow> survey \<Rightarrow> answer_snapshot list \<Rightarrow> vault \<Rightarrow> vault" where
  "write_answer_rows uid s [] v = v"
| "write_answer_rows uid s (x # xs) v = write_answer_rows uid s xs (write_answer_row uid s x v)"

definition delete_answers :: "string \<Rightarrow> vault \<Rightarrow> vault" where
  "delete_answers uid v =
     (let gone = map pa_id (filter (\<lambda>a. pa_submission a = uid) (vault_answers v))
      in v\<lparr>vault_answers := filter (\<lambda>a. pa_submission a \<noteq> uid) (vault_answers v),
           vault_values := filter (\<lambda>x. pv_answer x \<notin> set gone) (vault_values v)\<rparr>)"

definition update_submission ::
  "string \<Rightarrow> (prescreener_submission \<Rightarrow> prescreener_submission) \<Rightarrow> vault \<Rightarrow> vault" where
  "update_submission uid f v = v\<lparr>submissions := update_where (\<lambda>p. ps_uid p = uid) f (submissions v)\<rparr>"

section \<open>Capture\<close>

definition source_client_code :: "db \<Rightarrow> survey \<Rightarrow> string" where
  "source_client_code d s =
     (case Option.bind (sv_integration s) (get_integration d) of
        None \<Rightarrow> []
      | Some integration \<Rightarrow>
          (case get_client d (ci_client integration) of
             None \<Rightarrow> [] | Some c \<Rightarrow> py_lower (py_strip (cl_code c))))"

definition new_submission ::
  "string \<Rightarrow> string \<Rightarrow> string \<Rightarrow> survey \<Rightarrow> profile_reading \<Rightarrow> jdict \<Rightarrow> timestamp \<Rightarrow> timestamp \<Rightarrow> prescreener_submission" where
  "new_submission uid rid client_code s r answers submitted_at now =
     \<lparr>ps_uid = uid, ps_rid = rid, ps_source_client_code = client_code, ps_country = sv_country s,
      ps_country_code = py_upper (sv_country_code s), ps_language = sv_language s,
      ps_language_code = sv_language_code s, ps_respondent_age = rd_age r,
      ps_respondent_age_group = rd_age_group r, ps_respondent_gender = rd_gender r,
      ps_respondent_ethnicity = rd_ethnicity r, ps_respondent_postal_code = rd_postal_code r,
      ps_profile_dimensions = rd_dimensions r, ps_raw_answers = answers,
      ps_answer_count = length (rd_snapshots r), ps_usage_count = 1, ps_last_reused_at = None,
      ps_submitted_at = submitted_at, ps_captured_at = now\<rparr>"

definition replaced_draft ::
  "survey \<Rightarrow> profile_reading \<Rightarrow> jdict \<Rightarrow> timestamp \<Rightarrow> prescreener_submission \<Rightarrow> prescreener_submission" where
  "replaced_draft s r answers submitted_at p =
     p\<lparr>ps_country := sv_country s, ps_country_code := py_upper (sv_country_code s),
       ps_language := sv_language s, ps_language_code := sv_language_code s,
       ps_respondent_age := rd_age r, ps_respondent_age_group := rd_age_group r,
       ps_respondent_gender := rd_gender r, ps_respondent_ethnicity := rd_ethnicity r,
       ps_respondent_postal_code := rd_postal_code r, ps_profile_dimensions := rd_dimensions r,
       ps_raw_answers := answers, ps_answer_count := length (rd_snapshots r),
       ps_submitted_at := submitted_at\<rparr>"

definition claimed_for_client :: "string \<Rightarrow> prescreener_submission \<Rightarrow> prescreener_submission" where
  "claimed_for_client client_code p =
     (if ps_source_client_code p = [] \<and> client_code \<noteq> []
      then p\<lparr>ps_source_client_code := client_code\<rparr> else p)"

definition persist_once ::
  "vault \<Rightarrow> string \<Rightarrow> string \<Rightarrow> string \<Rightarrow> survey \<Rightarrow> profile_reading \<Rightarrow> jdict \<Rightarrow> timestamp \<Rightarrow> bool \<Rightarrow> timestamp
   \<Rightarrow> py_error + ((prescreener_submission \<times> bool) \<times> vault)" where
  "persist_once v uid rid client_code s r answers submitted_at allow_draft_replace now =
     (case get_submission v uid of
        Some existing \<Rightarrow>
          if ps_rid existing \<noteq> rid
          then Inl (PrescreenerVaultError ''Vault UID is already mapped to a different RID.'')
          else
            let claimed = claimed_for_client client_code existing;
                v1 = update_submission uid (claimed_for_client client_code) v
            in if dict_eq (ps_raw_answers claimed) answers then Inr ((claimed, False), v1)
               else if \<not> allow_draft_replace
               then Inl (PrescreenerVaultError
                           ''This RID/UID already has a different immutable submission.'')
               else
                 let change = replaced_draft s r answers submitted_at
                 in Inr ((change claimed, False),
                      write_answer_rows uid s (rd_snapshots r)
                        (update_submission uid change (delete_answers uid v1)))
      | None \<Rightarrow>
          if list_ex (\<lambda>p. ps_rid p = rid) (submissions v)
          then Inl (PrescreenerVaultError ''Vault RID is already mapped to a different UID.'')
          else
            let p = new_submission uid rid client_code s r answers submitted_at now
            in Inr ((p, True), write_answer_rows uid s (rd_snapshots r)
                                 (v\<lparr>submissions := submissions v @ [p]\<rparr>)))"

definition RETRYABLE_MYSQL_ERROR_CODES :: "nat list" where
  "RETRYABLE_MYSQL_ERROR_CODES = [1205, 1213, 2006, 2013]"

text \<open>The four tries of the retry loop; every error other than the vault's own is reported as one.\<close>

function persist_retry ::
  "(nat \<Rightarrow> nat option) \<Rightarrow> nat \<Rightarrow> py_error + 'a \<Rightarrow> py_error + 'a" where
  "persist_retry faults retry_number result =
     (case faults retry_number of
        None \<Rightarrow> result
      | Some code \<Rightarrow>
          if code \<notin> set RETRYABLE_MYSQL_ERROR_CODES \<or> 3 \<le> retry_number
          then Inl (PrescreenerVaultError ''Prescreener vault write failed'')
          else persist_retry faults (Suc retry_number) result)"
  by auto
termination by (relation "measure (\<lambda>(_, k, _). 3 - k)") auto

declare persist_retry.simps [simp del]

text \<open>The UID is written before the snapshot and the vault transaction, so it stays when they fail.\<close>

definition capture_prescreener_submission ::
  "(timestamp \<Rightarrow> date) \<Rightarrow> bool \<Rightarrow> db \<Rightarrow> vault \<Rightarrow> survey_attempt \<Rightarrow> survey \<Rightarrow> jdict \<Rightarrow> timestamp option \<Rightarrow> bool
   \<Rightarrow> string list \<Rightarrow> (nat \<Rightarrow> nat option) \<Rightarrow> timestamp
   \<Rightarrow> db \<times> vault \<times> (py_error + prescreener_submission \<times> bool)" where
  "capture_prescreener_submission local_date enabled d v a s answers submitted_at allow_draft_replace
     candidates faults now =
     (if \<not> enabled
      then (d, v, Inl (PrescreenerVaultDisabled ''The prescreener vault is not enabled.''))
      else if answers = []
      then (d, v, Inl (PrescreenerVaultError ''Cannot capture an empty prescreener submission.''))
      else
        (case ensure_attempt_prescreener_uid d a candidates of
           Inl e \<Rightarrow> (d, v, Inl e)
         | Inr (uid, d') \<Rightarrow>
             let taken = (case submitted_at of Some t \<Rightarrow> t | None \<Rightarrow> now);
                 a' = a\<lparr>at_prescreener_uid := Some uid, at_submitted_at := Some taken\<rparr>
             in (case question_snapshots local_date d' a' s answers now of
                   Inl e \<Rightarrow> (d', v, Inl e)
                 | Inr r \<Rightarrow>
                     (case persist_retry faults 0 (persist_once v uid (at_rid a)
                             (source_client_code d s) s r answers taken allow_draft_replace now) of
                        Inl e \<Rightarrow> (d', v, Inl e)
                      | Inr (result, v') \<Rightarrow> (d', v', Inr result)))))"

end
