(* ===== verification/Profile_Reuse.thy ===== *)
theory Profile_Reuse
  imports Vault_Capture "HOL-Library.Product_Lexorder" "HOL-Library.Option_ord"
begin

text \<open>
  \<open>prescreener_vault/reuse.py\<close>: the monthly reuse budget of an integration, the choice and
  reservation of a matching profile in the vault, the operational transaction that records the
  reuse, and \<open>maybe_assign_reusable_profile\<close>, which composes them.

  \<open>local_date\<close> and \<open>local_midnight\<close> are the project's time zone.  \<open>locked uid\<close> says that another
  transaction holds the vault row, which \<open>select_for_update(skip_locked=True)\<close> leaves out.  The
  repository has no \<open>prescreener_vault/cache.py\<close>, so \<open>invalidate_vault_cache\<close> is the function of
  the \<open>ImportError\<close> branch, which does nothing.  In an ascending order a null time stamp comes
  first, as in the SQLite and MySQL databases the settings offer, and text is compared exactly, as
  SQLite, the default, does.
\<close>

section \<open>Monthly budget\<close>

definition effective_profile_uid :: "survey_attempt \<Rightarrow> string" where
  "effective_profile_uid a =
     py_strip (if at_provider_profile_uid a \<noteq> [] then at_provider_profile_uid a
               else (case at_prescreener_uid a of None \<Rightarrow> [] | Some uid \<Rightarrow> uid))"

definition calendar_bounds ::
  "(timestamp \<Rightarrow> date) \<Rightarrow> (date \<Rightarrow> timestamp) \<Rightarrow> timestamp \<Rightarrow> timestamp \<times> timestamp \<times> date" where
  "calendar_bounds local_date local_midnight reference =
     (case local_date reference of (y, m, _) \<Rightarrow>
        let current_date = (y, m, 1);
            previous_date = (if m = 1 then (y - 1, 12, 1) else (y, m - 1, 1))
        in (local_midnight previous_date, local_midnight current_date, current_date))"

text \<open>\<open>ROUND_FLOOR\<close> of an exact product: a percentage has five digits, a count at most ten.\<close>

definition target_from_baseline :: "client_integration \<Rightarrow> nat \<Rightarrow> nat" where
  "target_from_baseline i baseline =
     nat \<lfloor>of_nat baseline * ci_profile_reuse_monthly_percentage i / 100\<rfloor>"

definition legacy_pool_targets :: "client_integration \<Rightarrow> nat \<Rightarrow> nat \<times> nat" where
  "legacy_pool_targets i total_target =
     (if \<not> ci_profile_rereuse_enabled i then (total_target, 0)
      else let repeat_target = nat \<lfloor>of_nat total_target * ci_profile_rereuse_percentage i / 100\<rfloor>
           in (total_target - repeat_target, repeat_target))"

definition integration_of_attempt :: "db \<Rightarrow> survey_attempt \<Rightarrow> pk option" where
  "integration_of_attempt d a = Option.bind (get_survey d (at_survey a)) sv_integration"

definition attempts_between :: "db \<Rightarrow> pk \<Rightarrow> timestamp \<Rightarrow> timestamp option \<Rightarrow> nat" where
  "attempts_between d integration_id start stop =
     length (filter (\<lambda>a. integration_of_attempt d a = Some integration_id \<and> start \<le> at_initiated_at a
                        \<and> (case stop of None \<Rightarrow> True | Some t \<Rightarrow> at_initiated_at a < t)) (attempts d))"

datatype baseline_source = PREVIOUS_MONTH | CURRENT_MONTH_BOOTSTRAP

definition monthly_baseline ::
  "(timestamp \<Rightarrow> date) \<Rightarrow> (date \<Rightarrow> timestamp) \<Rightarrow> db \<Rightarrow> client_integration \<Rightarrow> timestamp
   \<Rightarrow> date \<times> nat \<times> nat \<times> baseline_source" where
  "monthly_baseline local_date local_midnight d i now =
     (case calendar_bounds local_date local_midnight now of (previous_start, current_start, period_start) \<Rightarrow>
        let previous_attempts = attempts_between d (ci_id i) previous_start (Some current_start) in
        if 0 < previous_attempts
        then (period_start, previous_attempts, previous_attempts, PREVIOUS_MONTH)
        else (period_start, previous_attempts, attempts_between d (ci_id i) current_start None,
              CURRENT_MONTH_BOOTSTRAP))"

definition find_counter :: "db \<Rightarrow> pk \<Rightarrow> date \<Rightarrow> profile_reuse_monthly_counter option" where
  "find_counter d integration_id period =
     List.find (\<lambda>c. prm_integration c = integration_id \<and> prm_period_start c = period) (monthly_counters d)"

record reuse_month_status =
  ms_period :: date
  ms_previous_month_attempts :: nat
  ms_baseline_attempts :: nat
  ms_baseline_source :: baseline_source
  ms_target_reuses :: nat
  ms_used_reuses :: nat
  ms_remaining_reuses :: nat
  ms_first_reuse_used :: nat
  ms_repeat_reuse_used :: nat
  ms_first_reuse_target :: nat
  ms_first_reuse_remaining :: nat
  ms_repeat_reuse_target :: nat
  ms_repeat_reuse_remaining :: nat
  ms_first_delay_minutes :: nat
  ms_minimum_interval_minutes :: nat
  ms_max_uses_per_window :: nat
  ms_window_minutes :: nat

definition profile_reuse_status_payload ::
  "client_integration \<Rightarrow> date \<Rightarrow> nat \<Rightarrow> nat \<Rightarrow> baseline_source \<Rightarrow> profile_reuse_monthly_counter option
   \<Rightarrow> reuse_month_status" where
  "profile_reuse_status_payload i period previous live source counter =
     (let baseline = (case counter of
            Some c \<Rightarrow> if source = CURRENT_MONTH_BOOTSTRAP then max (prm_baseline_attempts c) live else live
          | None \<Rightarrow> live);
          used = (case counter of Some c \<Rightarrow> prm_allocated_reuses c | None \<Rightarrow> 0);
          first_used = (case counter of Some c \<Rightarrow> prm_first_reuse_allocated c | None \<Rightarrow> 0);
          repeat_used = (case counter of Some c \<Rightarrow> prm_repeat_reuse_allocated c | None \<Rightarrow> 0);
          target = target_from_baseline i baseline
      in case legacy_pool_targets i target of (first_target, repeat_target) \<Rightarrow>
         \<lparr>ms_period = period, ms_previous_month_attempts = previous, ms_baseline_attempts = baseline,
          ms_baseline_source = source, ms_target_reuses = target, ms_used_reuses = used,
          ms_remaining_reuses = target - used, ms_first_reuse_used = first_used,
          ms_repeat_reuse_used = repeat_used, ms_first_reuse_target = first_target,
          ms_first_reuse_remaining = first_target - first_used,
          ms_repeat_reuse_target = repeat_target,
          ms_repeat_reuse_remaining = repeat_target - repeat_used,
          ms_first_delay_minutes = ci_profile_reuse_first_delay_minutes i,
          ms_minimum_interval_minutes = ci_profile_reuse_min_interval_minutes i,
          ms_max_uses_per_window = ci_profile_reuse_max_uses_per_window i,
          ms_window_minutes = ci_profile_reuse_window_minutes i\<rparr>)"

definition profile_reuse_month_status ::
  "(timestamp \<Rightarrow> date) \<Rightarrow> (date \<Rightarrow> timestamp) \<Rightarrow> db \<Rightarrow> client_integration \<Rightarrow> timestamp \<Rightarrow> reuse_month_status" where
  "profile_reuse_month_status local_date local_midnight d i now =
     (case monthly_baseline local_date local_midnight d i now of (period, previous, live, source) \<Rightarrow>
        profile_reuse_status_payload i period previous live source (find_counter d (ci_id i) period))"

text \<open>The two grouped queries of the bulk version: one row of counts per integration that has
  attempts since the previous month, and the counters of the period.\<close>

definition traffic_rows ::
  "db \<Rightarrow> pk list \<Rightarrow> timestamp \<Rightarrow> timestamp \<Rightarrow> (pk \<times> nat \<times> nat) list" where
  "traffic_rows d ids previous_start current_start =
     (let rows = filter (\<lambda>a. previous_start \<le> at_initiated_at a
             \<and> (case integration_of_attempt d a of None \<Rightarrow> False | Some i \<Rightarrow> i \<in> set ids)) (attempts d)
      in map (\<lambda>i. let mine = filter (\<lambda>a. integration_of_attempt d a = Some i) rows
                  in (i, length (filter (\<lambda>a. previous_start \<le> at_initiated_at a
                                            \<and> at_initiated_at a < current_start) mine),
                      length (filter (\<lambda>a. current_start \<le> at_initiated_at a) mine)))
           (keep_first (List.map_filter (integration_of_attempt d) rows)))"

definition counters_of_period :: "db \<Rightarrow> pk list \<Rightarrow> date \<Rightarrow> (pk \<times> profile_reuse_monthly_counter) list" where
  "counters_of_period d ids period =
     map (\<lambda>c. (prm_integration c, c))
       (filter (\<lambda>c. prm_integration c \<in> set ids \<and> prm_period_start c = period) (monthly_counters d))"

definition profile_reuse_month_statuses ::
  "(timestamp \<Rightarrow> date) \<Rightarrow> (date \<Rightarrow> timestamp) \<Rightarrow> db \<Rightarrow> client_integration list \<Rightarrow> timestamp
   \<Rightarrow> (pk \<times> reuse_month_status) list" where
  "profile_reuse_month_statuses local_date local_midnight d is now =
     (case calendar_bounds local_date local_midnight now of (previous_start, current_start, period) \<Rightarrow>
        let ids = map ci_id is;
            traffic = traffic_rows d ids previous_start current_start;
            counters = counters_of_period d ids period
        in fold (\<lambda>i statuses.
             let counts = (case map_of traffic (ci_id i) of None \<Rightarrow> (0, 0) | Some row \<Rightarrow> row);
                 previous = fst counts;
                 live = (if 0 < previous then previous else snd counts);
                 source = (if 0 < previous then PREVIOUS_MONTH else CURRENT_MONTH_BOOTSTRAP)
             in AList.update (ci_id i)
                  (profile_reuse_status_payload i period previous live source
                     (map_of counters (ci_id i))) statuses) is [])"

section \<open>Budget slots\<close>

definition update_counter ::
  "pk \<Rightarrow> (profile_reuse_monthly_counter \<Rightarrow> profile_reuse_monthly_counter) \<Rightarrow> db \<Rightarrow> db" where
  "update_counter k f d = d\<lparr>monthly_counters := update_where (\<lambda>c. prm_id c = k) f (monthly_counters d)\<rparr>"

definition fresh_counter :: "db \<Rightarrow> pk \<Rightarrow> date \<Rightarrow> timestamp \<Rightarrow> profile_reuse_monthly_counter" where
  "fresh_counter d integration_id period now =
     \<lparr>prm_id = next_pk prm_id (monthly_counters d), prm_integration = integration_id,
      prm_period_start = period, prm_baseline_attempts = 0, prm_target_reuses = 0,
      prm_allocated_reuses = 0, prm_first_reuse_allocated = 0, prm_repeat_reuse_allocated = 0,
      prm_updated_at = now\<rparr>"

definition get_or_create_counter ::
  "db \<Rightarrow> pk \<Rightarrow> date \<Rightarrow> timestamp \<Rightarrow> profile_reuse_monthly_counter \<times> bool \<times> db" where
  "get_or_create_counter d integration_id period now =
     (case find_counter d integration_id period of
        Some c \<Rightarrow> (c, False, d)
      | None \<Rightarrow> let c = fresh_counter d integration_id period now
                in (c, True, d\<lparr>monthly_counters := monthly_counters d @ [c]\<rparr>))"

definition claim_month_slot ::
  "(timestamp \<Rightarrow> date) \<Rightarrow> (date \<Rightarrow> timestamp) \<Rightarrow> db \<Rightarrow> client_integration \<Rightarrow> timestamp \<Rightarrow> pk option \<times> db" where
  "claim_month_slot local_date local_midnight d i now =
     (case monthly_baseline local_date local_midnight d i now of (period, _, live, source) \<Rightarrow>
     (case get_or_create_counter d (ci_id i) period now of (c, created, d') \<Rightarrow>
        let baseline = (if created \<or> source = PREVIOUS_MONTH then live
                        else if prm_baseline_attempts c < live then live
                        else prm_baseline_attempts c);
            target = target_from_baseline i baseline;
            budget = (\<lambda>x. x\<lparr>prm_baseline_attempts := baseline, prm_target_reuses := target,
                            prm_updated_at := now\<rparr>)
        in if target \<le> 0 \<or> target \<le> prm_allocated_reuses c
           then (None, update_counter (prm_id c) budget d')
           else (Some (prm_id c),
                 update_counter (prm_id c)
                   (\<lambda>x. (budget x)\<lparr>prm_allocated_reuses := prm_allocated_reuses c + 1\<rparr>) d')))"

definition release_month_slot :: "pk \<Rightarrow> db \<Rightarrow> db" where
  "release_month_slot k d =
     d\<lparr>monthly_counters := update_where (\<lambda>c. prm_id c = k \<and> 0 < prm_allocated_reuses c)
         (\<lambda>c. c\<lparr>prm_allocated_reuses := prm_allocated_reuses c - 1\<rparr>) (monthly_counters d)\<rparr>"

definition FIRST_REUSE_POOL :: string where
  "FIRST_REUSE_POOL = ''first''"

definition RETURNING_REUSE_POOL :: string where
  "RETURNING_REUSE_POOL = ''returning''"

definition mark_pool :: "pk \<Rightarrow> string \<Rightarrow> db \<Rightarrow> db" where
  "mark_pool k pool d =
     update_counter k (\<lambda>c. if pool = FIRST_REUSE_POOL
         then c\<lparr>prm_first_reuse_allocated := prm_first_reuse_allocated c + 1\<rparr>
         else c\<lparr>prm_repeat_reuse_allocated := prm_repeat_reuse_allocated c + 1\<rparr>) d"

end
