(* ===== verification/Reuse_Assignment.thy ===== *)
theory Reuse_Assignment
  imports Profile_Reuse
begin

text \<open>
  Choosing and committing a reusable profile (\<open>prescreener_vault/reuse.py\<close>): what a journey
  requires, which vault row matches, the vault reservation with its undo, the operational
  transaction that re-checks every rule under row locks, and the loop of at most five rounds
  around them.

  A round of the loop reads the clock in the vault transaction and twice in the operational one
  (\<open>now\<close> of the checks and the \<open>auto_now_add\<close> of the rows it creates); \<open>clock\<close> gives the readings
  in order.
\<close>

definition AGE_GROUP_RANGES :: "(string \<times> nat \<times> nat) list" where
  "AGE_GROUP_RANGES =
     [(''13-17'', 13, 17), (''18-24'', 18, 24), (''25-29'', 25, 29), (''30-34'', 30, 34),
      (''35-39'', 35, 39), (''40-44'', 40, 44), (''45-49'', 45, 49), (''50-54'', 50, 54)]"

definition GENDER_ALIASES :: "(string \<times> string list) list" where
  "GENDER_ALIASES = [(''male'', [''male'', ''m'', ''man'']), (''female'', [''female'', ''f'', ''woman''])]"

definition MAX_CANDIDATE_SCAN :: nat where
  "MAX_CANDIDATE_SCAN = 500"

section \<open>What a journey requires\<close>

definition normalized_gender :: "string \<Rightarrow> string" where
  "normalized_gender value =
     (let v = py_lower (py_strip value)
      in case List.find (\<lambda>(_, aliases). v \<in> set aliases) GENDER_ALIASES of
           Some (canonical, _) \<Rightarrow> canonical | None \<Rightarrow> v)"

definition clean_values :: "string list \<Rightarrow> string list" where
  "clean_values values = sorted_set (map (\<lambda>x. py_lower (py_strip x)) (filter (\<lambda>x. py_strip x \<noteq> []) values))"

definition clean_dimensions :: "(string \<times> string list) list \<Rightarrow> (string \<times> string list) list" where
  "clean_dimensions dims = map (\<lambda>(k, values). (k, clean_values values)) (filter (\<lambda>(_, values). values \<noteq> []) dims)"

record profile_signature =
  sg_country_code :: string
  sg_language_code :: string
  sg_age :: "int option"
  sg_age_group :: string
  sg_gender :: string
  sg_dimensions :: "(string \<times> string list) list"

definition profile_signature_of :: "survey \<Rightarrow> profile_reading \<Rightarrow> profile_signature" where
  "profile_signature_of s r =
     (let gender = normalized_gender (rd_gender r);
          dims0 = clean_dimensions (rd_dimensions r);
          dims1 = (if gender \<noteq> [] then AList.update ''gender'' [gender] dims0 else dims0);
          dims2 = (case rd_age r of
                     None \<Rightarrow> dims1
                   | Some a \<Rightarrow> AList.update ''age_group'' [rd_age_group r]
                                (AList.update ''age'' [show_int a] dims1))
      in \<lparr>sg_country_code = py_upper (py_strip (sv_country_code s)),
          sg_language_code = py_upper (py_strip (sv_language_code s)),
          sg_age = rd_age r, sg_age_group = rd_age_group r, sg_gender = gender,
          sg_dimensions = dims2\<rparr>)"

section \<open>Matching a vault row\<close>

text \<open>\<open>dimensions.setdefault(k, values)\<close>\<close>

definition dims_default :: "string \<Rightarrow> string list \<Rightarrow> (string \<times> string list) list \<Rightarrow> (string \<times> string list) list" where
  "dims_default k values dims = (if map_of dims k = None then dims @ [(k, values)] else dims)"

definition first_known_age :: "(timestamp \<Rightarrow> date) \<Rightarrow> timestamp \<Rightarrow> string list \<Rightarrow> int option" where
  "first_known_age local_date now dobs =
     (case List.map_filter (\<lambda>dob. age_from_value local_date dob now) dobs of
        [] \<Rightarrow> None | age # _ \<Rightarrow> Some age)"

definition candidate_age :: "(timestamp \<Rightarrow> date) \<Rightarrow> timestamp \<Rightarrow> (string \<times> string list) list
    \<Rightarrow> prescreener_submission \<Rightarrow> int option" where
  "candidate_age local_date now dims c =
     (case first_known_age local_date now (dims_get dims ''date_of_birth'') of
        Some age \<Rightarrow> Some age | None \<Rightarrow> ps_respondent_age c)"

definition candidate_dimensions ::
  "(timestamp \<Rightarrow> date) \<Rightarrow> timestamp \<Rightarrow> prescreener_submission \<Rightarrow> (string \<times> string list) list" where
  "candidate_dimensions local_date now c =
     (let d0 = clean_dimensions (ps_profile_dimensions c);
          d1 = dims_default ''country'' [py_lower (first_nonempty (ps_country_code c) (ps_country c))] d0;
          d2 = dims_default ''language'' [py_lower (first_nonempty (ps_language_code c) (ps_language c))] d1;
          d3 = (if ps_respondent_gender c \<noteq> []
                then dims_default ''gender'' [normalized_gender (ps_respondent_gender c)] d2 else d2);
          age = candidate_age local_date now d3 c;
          d4 = (case age of
                  Some a \<Rightarrow> if 1 \<le> a \<and> a \<le> OPEN_ENDED_AGE_MAX
                            then AList.update ''age_group'' [age_group (Some a)]
                                   (AList.update ''age'' [show_int a] d3)
                            else d3
                | None \<Rightarrow> d3);
          d5 = (if ps_respondent_ethnicity c \<noteq> []
                then dims_default ''ethnicity'' [normalize_profile_value ''ethnicity'' (ps_respondent_ethnicity c)] d4
                else d4);
          d6 = (if ps_respondent_postal_code c \<noteq> []
                then dims_default ''postal_code''
                       [normalize_profile_value ''postal_code'' (ps_respondent_postal_code c)] d5
                else d5)
      in map (\<lambda>(k, values). (k, sorted_set (filter (\<lambda>v. v \<noteq> []) values))) d6)"

definition matches_all_requirements ::
  "(timestamp \<Rightarrow> date) \<Rightarrow> timestamp \<Rightarrow> prescreener_submission \<Rightarrow> profile_signature \<Rightarrow> bool" where
  "matches_all_requirements local_date now c sg =
     (let have_dims = candidate_dimensions local_date now c; required = sg_dimensions sg
      in list_all (\<lambda>(k, needed).
           (k = ''date_of_birth'' \<and> dims_get required ''age'' \<noteq> [])
           \<or> (dims_get have_dims k \<noteq> [] \<and> set (dims_get have_dims k) = set needed)) required)"

definition candidate_age_groups :: "int option \<Rightarrow> string list" where
  "candidate_age_groups age =
     (case age of
        None \<Rightarrow> []
      | Some a \<Rightarrow> remdups (filter (\<lambda>g. g \<noteq> []) (map (\<lambda>x. age_group (Some x)) [a, a - 1, a - 2])))"

section \<open>Reserving a vault row\<close>

definition gender_values :: "string \<Rightarrow> string list" where
  "gender_values gender = (case map_of GENDER_ALIASES gender of Some aliases \<Rightarrow> aliases | None \<Rightarrow> [gender])"

text \<open>\<open>if len(values) == 1: candidates.filter(column=values[0])\<close>\<close>

definition single_value_filter :: "string list \<Rightarrow> string \<Rightarrow> bool" where
  "single_value_filter values column = (case values of [x] \<Rightarrow> column = x | _ \<Rightarrow> True)"

definition shortlisted ::
  "client_integration \<Rightarrow> string \<Rightarrow> string option \<Rightarrow> profile_signature \<Rightarrow> string list \<Rightarrow> (string \<Rightarrow> bool)
   \<Rightarrow> timestamp \<Rightarrow> prescreener_submission \<Rightarrow> bool" where
  "shortlisted i client_code own_uid sg excluded locked now c =
     (\<not> locked (ps_uid c)
      \<and> ps_source_client_code c = client_code \<and> ps_country_code c = sg_country_code sg
      \<and> ps_respondent_gender c \<in> set (gender_values (sg_gender sg))
      \<and> ps_submitted_at c \<le> now - minutes (int (ci_profile_reuse_first_delay_minutes i))
      \<and> (case ps_last_reused_at c of
           None \<Rightarrow> True | Some t \<Rightarrow> t \<le> now - minutes (int (ci_profile_reuse_min_interval_minutes i)))
      \<and> own_uid \<noteq> Some (ps_uid c)
      \<and> (let groups = candidate_age_groups (sg_age sg)
         in groups \<noteq> [] \<longrightarrow> ps_respondent_age_group c \<in> set groups)
      \<and> single_value_filter (dims_get (sg_dimensions sg) ''postal_code'') (ps_respondent_postal_code c)
      \<and> single_value_filter (dims_get (sg_dimensions sg) ''ethnicity'') (ps_respondent_ethnicity c)
      \<and> ps_uid c \<notin> set excluded)"

definition reuse_order :: "prescreener_submission \<Rightarrow> nat \<times> timestamp option \<times> timestamp \<times> string" where
  "reuse_order c = (ps_usage_count c, ps_last_reused_at c, ps_submitted_at c, ps_uid c)"

definition uids_of_attempt :: "survey_attempt \<Rightarrow> string list" where
  "uids_of_attempt a =
     (case at_prescreener_uid a of None \<Rightarrow> [] | Some u \<Rightarrow> if u = [] then [] else [u])
     @ (if at_provider_profile_uid a = [] then [] else [at_provider_profile_uid a])"

text \<open>The attempts of the survey that carry one of the UIDs contribute both their UIDs.\<close>

definition used_on_project :: "db \<Rightarrow> client_integration \<Rightarrow> pk \<Rightarrow> string list \<Rightarrow> string list" where
  "used_on_project d i survey_id uids =
     map pru_reused_uid (filter (\<lambda>u. pru_integration u = ci_id i \<and> pru_survey u = survey_id
                                     \<and> pru_reused_uid u \<in> set uids) (project_usages d))
     @ concat (map uids_of_attempt
         (filter (\<lambda>a. at_survey a = survey_id
            \<and> ((\<exists>u \<in> set uids. at_prescreener_uid a = Some u) \<or> at_provider_profile_uid a \<in> set uids))
           (attempts d)))"

definition events_since :: "db \<Rightarrow> client_integration \<Rightarrow> string \<Rightarrow> timestamp \<Rightarrow> profile_reuse_event list" where
  "events_since d i uid since =
     filter (\<lambda>e. pre_integration e = ci_id i \<and> pre_reused_uid e = uid \<and> since \<le> pre_created_at e)
       (reuse_events d)"

definition window_start :: "client_integration \<Rightarrow> timestamp \<Rightarrow> timestamp" where
  "window_start i now = now - minutes (int (ci_profile_reuse_window_minutes i))"

definition reserved_row :: "profile_signature \<Rightarrow> timestamp \<Rightarrow> prescreener_submission \<Rightarrow> prescreener_submission" where
  "reserved_row sg now c =
     c\<lparr>ps_usage_count := ps_usage_count c + 1, ps_last_reused_at := Some now,
       ps_respondent_age := sg_age sg, ps_respondent_age_group := sg_age_group sg\<rparr>"

definition eligible_candidate ::
  "(timestamp \<Rightarrow> date) \<Rightarrow> db \<Rightarrow> client_integration \<Rightarrow> pk \<Rightarrow> profile_signature \<Rightarrow> string list \<Rightarrow> timestamp
   \<Rightarrow> prescreener_submission \<Rightarrow> bool" where
  "eligible_candidate local_date d i survey_id sg used now c =
     (ps_uid c \<notin> set used
      \<and> length (events_since d i (ps_uid c) (window_start i now)) < ci_profile_reuse_max_uses_per_window i
      \<and> matches_all_requirements local_date now c sg)"

definition reserve_vault_profile ::
  "(timestamp \<Rightarrow> date) \<Rightarrow> db \<Rightarrow> vault \<Rightarrow> survey_attempt \<Rightarrow> client_integration \<Rightarrow> string \<Rightarrow> profile_signature
   \<Rightarrow> string list \<Rightarrow> (string \<Rightarrow> bool) \<Rightarrow> timestamp
   \<Rightarrow> (prescreener_submission \<times> timestamp option \<times> vault) option" where
  "reserve_vault_profile local_date d v a i client_code sg excluded locked now =
     (let rows = take MAX_CANDIDATE_SCAN (sort_key reuse_order
            (filter (shortlisted i client_code (at_prescreener_uid a) sg excluded locked now) (submissions v)));
          used = used_on_project d i (at_survey a) (map ps_uid rows)
      in case List.find (eligible_candidate local_date d i (at_survey a) sg used now) rows of
           None \<Rightarrow> None
         | Some c \<Rightarrow> Some (reserved_row sg now c, ps_last_reused_at c,
                           update_submission (ps_uid c) (reserved_row sg now) v))"

definition undo_vault_reservation :: "string \<Rightarrow> timestamp option \<Rightarrow> vault \<Rightarrow> vault" where
  "undo_vault_reservation uid previous v =
     v\<lparr>submissions := update_where (\<lambda>p. ps_uid p = uid \<and> 1 < ps_usage_count p)
         (\<lambda>p. p\<lparr>ps_usage_count := ps_usage_count p - 1, ps_last_reused_at := previous\<rparr>) (submissions v)\<rparr>"

section \<open>The operational transaction\<close>

definition events_of_uid :: "db \<Rightarrow> client_integration \<Rightarrow> string \<Rightarrow> profile_reuse_event list" where
  "events_of_uid d i uid =
     filter (\<lambda>e. pre_integration e = ci_id i \<and> pre_reused_uid e = uid) (reuse_events d)"

definition latest_created :: "profile_reuse_event list \<Rightarrow> timestamp option" where
  "latest_created es = (case es of [] \<Rightarrow> None | e # _ \<Rightarrow> Some (foldr max (map pre_created_at es) (pre_created_at e)))"

definition find_state :: "db \<Rightarrow> pk \<Rightarrow> string \<Rightarrow> profile_reuse_state option" where
  "find_state d integration_id uid =
     List.find (\<lambda>x. prs_integration x = integration_id \<and> prs_reused_uid x = uid) (reuse_states d)"

text \<open>\<open>get_or_create\<close>, then the same row under a lock; a lost creation race finds the winner's row.\<close>

definition locked_state ::
  "db \<Rightarrow> client_integration \<Rightarrow> prescreener_submission \<Rightarrow> timestamp \<Rightarrow> profile_reuse_state \<times> db" where
  "locked_state d i c now =
     (case find_state d (ci_id i) (ps_uid c) of
        Some x \<Rightarrow> (x, d)
      | None \<Rightarrow>
          let es = events_of_uid d i (ps_uid c);
              x = \<lparr>prs_id = next_pk prs_id (reuse_states d), prs_integration = ci_id i,
                   prs_reused_uid = ps_uid c, prs_last_reused_at = latest_created es,
                   prs_total_reuses = length es, prs_updated_at = now\<rparr>
          in (x, d\<lparr>reuse_states := reuse_states d @ [x]\<rparr>))"

definition uid_used_by_other :: "db \<Rightarrow> survey_attempt \<Rightarrow> string \<Rightarrow> bool" where
  "uid_used_by_other d a uid =
     list_ex (\<lambda>b. at_survey b = at_survey a \<and> at_id b \<noteq> at_id a
        \<and> (at_prescreener_uid b = Some uid \<or> at_provider_profile_uid b = uid)) (attempts d)"

definition usage_exists :: "db \<Rightarrow> pk \<Rightarrow> pk \<Rightarrow> string \<Rightarrow> bool" where
  "usage_exists d integration_id survey_id uid =
     list_ex (\<lambda>u. pru_integration u = integration_id \<and> pru_survey u = survey_id \<and> pru_reused_uid u = uid)
       (project_usages d)"

definition reuse_conflict :: "db \<Rightarrow> survey_attempt \<Rightarrow> client_integration \<Rightarrow> prescreener_submission
    \<Rightarrow> profile_reuse_state \<Rightarrow> survey_attempt \<Rightarrow> timestamp \<Rightarrow> py_error option" where
  "reuse_conflict d a i c state row now =
     (if at_provider_profile_uid row \<noteq> []
      then Some (ReuseReservationConflict ''Attempt already selected a profile.'')
      else if (case prs_last_reused_at state of
                 None \<Rightarrow> False
               | Some t \<Rightarrow> now - minutes (int (ci_profile_reuse_min_interval_minutes i)) < t)
      then Some (ReuseReservationConflict ''UID minimum interval is still active.'')
      else if uid_used_by_other d a (ps_uid c) \<or> usage_exists d (ci_id i) (at_survey a) (ps_uid c)
      then Some (ReuseReservationConflict ''UID was already used on this project.'')
      else if ci_profile_reuse_max_uses_per_window i
                \<le> length (events_since d i (ps_uid c) (window_start i now))
      then Some (ReuseReservationConflict ''UID rolling-window limit was reached.'')
      else if list_ex (\<lambda>e. pre_attempt e = at_id a) (reuse_events d)
      then Some (IntegrityError ''profile_reuse_event.attempt'')
      else None)"

definition new_usage :: "db \<Rightarrow> survey_attempt \<Rightarrow> client_integration \<Rightarrow> string \<Rightarrow> timestamp \<Rightarrow> profile_reuse_project_usage" where
  "new_usage d a i uid created =
     \<lparr>pru_id = next_pk pru_id (project_usages d), pru_integration = ci_id i, pru_survey = at_survey a,
      pru_reused_uid = uid, pru_first_attempt = Some (at_id a), pru_created_at = created\<rparr>"

definition new_event ::
  "db \<Rightarrow> survey_attempt \<Rightarrow> client_integration \<Rightarrow> prescreener_submission \<Rightarrow> profile_signature \<Rightarrow> string
   \<Rightarrow> timestamp \<Rightarrow> profile_reuse_event" where
  "new_event d a i c sg pool created =
     \<lparr>pre_id = next_pk pre_id (reuse_events d), pre_integration = ci_id i, pre_attempt = at_id a,
      pre_survey = at_survey a,
      pre_registered_uid = (case at_prescreener_uid a of None \<Rightarrow> [] | Some u \<Rightarrow> u),
      pre_reused_rid = ps_rid c, pre_reused_uid = ps_uid c,
      pre_source_registered_at = ps_submitted_at c, pre_source_usage_number = ps_usage_count c,
      pre_reuse_pool = pool, pre_country_code = sg_country_code sg,
      pre_age_group = sg_age_group sg, pre_gender = sg_gender sg, pre_created_at = created\<rparr>"

definition record_reuse ::
  "db \<Rightarrow> survey_attempt \<Rightarrow> client_integration \<Rightarrow> prescreener_submission \<Rightarrow> profile_reuse_state
   \<Rightarrow> profile_reuse_event \<Rightarrow> timestamp \<Rightarrow> timestamp \<Rightarrow> db" where
  "record_reuse d a i c state event now created =
     (update_attempts (\<lambda>b. at_id b = at_id a)
        (\<lambda>b. b\<lparr>at_provider_profile_uid := ps_uid c, at_updated_at := now\<rparr>) d)
       \<lparr>project_usages := project_usages d @ [new_usage d a i (ps_uid c) created],
        reuse_events := reuse_events d @ [event],
        reuse_states := update_where (\<lambda>x. prs_id x = prs_id state)
          (\<lambda>x. x\<lparr>prs_last_reused_at := Some now, prs_total_reuses := prs_total_reuses x + 1,
                 prs_updated_at := created\<rparr>) (reuse_states d)\<rparr>"

text \<open>A missing registered UID would violate the column's \<open>NOT NULL\<close>.\<close>

definition commit_reuse ::
  "db \<Rightarrow> survey_attempt \<Rightarrow> client_integration \<Rightarrow> prescreener_submission \<Rightarrow> profile_signature \<Rightarrow> string
   \<Rightarrow> timestamp \<Rightarrow> timestamp \<Rightarrow> py_error + (profile_reuse_event \<times> db)" where
  "commit_reuse d a i c sg pool now created =
     (case get_attempt d (at_id a) of
        None \<Rightarrow> Inl (DoesNotExist ''SurveyAttempt'')
      | Some row \<Rightarrow>
          (case locked_state d i c now of (state, d1) \<Rightarrow>
             (case reuse_conflict d1 a i c state row now of
                Some e \<Rightarrow> Inl e
              | None \<Rightarrow>
                  if at_prescreener_uid a = None then Inl (IntegrityError ''registered_uid'')
                  else let event = new_event d1 a i c sg pool created
                       in Inr (event, record_reuse d1 a i c state event now created))))"

section \<open>Assigning a profile to a journey\<close>

definition is_conflict :: "py_error \<Rightarrow> bool" where
  "is_conflict e = (case e of ReuseReservationConflict _ \<Rightarrow> True | IntegrityError _ \<Rightarrow> True | _ \<Rightarrow> False)"

definition reuse_pool_of :: "prescreener_submission \<Rightarrow> string" where
  "reuse_pool_of c = (if ps_usage_count c = 2 then FIRST_REUSE_POOL else RETURNING_REUSE_POOL)"

definition client_code_of :: "db \<Rightarrow> client_integration \<Rightarrow> py_error + string" where
  "client_code_of d i =
     (case get_client d (ci_client i) of
        None \<Rightarrow> Inl (DoesNotExist ''Client'') | Some c \<Rightarrow> Inr (py_lower (py_strip (cl_code c))))"

text \<open>\<open>rounds\<close> counts the iterations left of \<open>for _ in range(5)\<close>; \<open>k\<close> the clock readings so far.\<close>

fun reuse_rounds ::
  "(timestamp \<Rightarrow> date) \<Rightarrow> (nat \<Rightarrow> timestamp) \<Rightarrow> (nat \<Rightarrow> string \<Rightarrow> bool) \<Rightarrow> survey_attempt \<Rightarrow> client_integration
   \<Rightarrow> string \<Rightarrow> profile_signature \<Rightarrow> pk \<Rightarrow> nat \<Rightarrow> nat \<Rightarrow> string list \<Rightarrow> db \<Rightarrow> vault
   \<Rightarrow> db \<times> vault \<times> (py_error + profile_reuse_event option)" where
  "reuse_rounds local_date clock locked a i code sg counter_id 0 k excluded d v =
     (release_month_slot counter_id d, v, Inr None)"
| "reuse_rounds local_date clock locked a i code sg counter_id (Suc rounds) k excluded d v =
     (case reserve_vault_profile local_date d v a i code sg excluded (locked k) (clock k) of
        None \<Rightarrow> (release_month_slot counter_id d, v, Inr None)
      | Some (c, previous, v') \<Rightarrow>
          (case commit_reuse d a i c sg (reuse_pool_of c) (clock (k + 1)) (clock (k + 2)) of
             Inr (event, d') \<Rightarrow> (mark_pool counter_id (reuse_pool_of c) d', v', Inr (Some event))
           | Inl e \<Rightarrow>
               if is_conflict e
               then reuse_rounds local_date clock locked a i code sg counter_id rounds (k + 3)
                      (ps_uid c # excluded) d (undo_vault_reservation (ps_uid c) previous v')
               else (release_month_slot counter_id d, v', Inl e)))"

definition reusable_signature :: "client_integration \<Rightarrow> profile_signature \<Rightarrow> bool" where
  "reusable_signature i sg =
     (sg_country_code sg \<noteq> [] \<and> sg_age_group sg \<in> fst ` set AGE_GROUP_RANGES
      \<and> sg_gender sg \<in> fst ` set GENDER_ALIASES
      \<and> sg_age_group sg \<in> set (ci_profile_reuse_age_groups i)
      \<and> sg_gender sg \<in> set (ci_profile_reuse_genders i))"

text \<open>An event the attempt already has is returned, and its UID written to the attempt again.\<close>

definition reapply_event :: "db \<Rightarrow> survey_attempt \<Rightarrow> profile_reuse_event \<Rightarrow> db" where
  "reapply_event d a event =
     (if at_provider_profile_uid a = pre_reused_uid event then d
      else update_attempts (\<lambda>b. at_id b = at_id a)
             (\<lambda>b. b\<lparr>at_provider_profile_uid := pre_reused_uid event\<rparr>) d)"

definition maybe_assign_reusable_profile ::
  "(timestamp \<Rightarrow> date) \<Rightarrow> (date \<Rightarrow> timestamp) \<Rightarrow> bool \<Rightarrow> (nat \<Rightarrow> timestamp) \<Rightarrow> (nat \<Rightarrow> string \<Rightarrow> bool)
   \<Rightarrow> db \<Rightarrow> vault \<Rightarrow> survey_attempt \<Rightarrow> survey \<Rightarrow> jdict
   \<Rightarrow> db \<times> vault \<times> (py_error + profile_reuse_event option)" where
  "maybe_assign_reusable_profile local_date local_midnight enabled clock locked d v a s answers =
     (case Option.bind (sv_integration s) (get_integration d) of
        None \<Rightarrow> (d, v, Inr None)
      | Some i \<Rightarrow>
          if \<not> enabled \<or> \<not> ci_profile_reuse_enabled i then (d, v, Inr None)
          else (case List.find (\<lambda>e. pre_attempt e = at_id a) (reuse_events d) of
            Some event \<Rightarrow> (reapply_event d a event, v, Inr (Some event))
          | None \<Rightarrow>
            (case question_snapshots local_date d a s answers (clock 0) of
               Inl e \<Rightarrow> (d, v, Inl e)
             | Inr r \<Rightarrow>
                 let sg = profile_signature_of s r in
                 if \<not> reusable_signature i sg then (d, v, Inr None)
                 else (case claim_month_slot local_date local_midnight d i (clock 1) of
                         (None, d1) \<Rightarrow> (d1, v, Inr None)
                       | (Some counter_id, d1) \<Rightarrow>
                           (case client_code_of d1 i of
                              Inl e \<Rightarrow> (release_month_slot counter_id d1, v, Inl e)
                            | Inr code \<Rightarrow>
                                reuse_rounds local_date clock locked a i code sg counter_id
                                  5 2 [] d1 v)))))"

end
