(* ===== verification/Reuse_Samples.thy ===== *)
theory Reuse_Samples
  imports Reuse_Assignment Samples
begin

text \<open>
  A vault with one reusable profile and a journey it fits, for the witnesses: the integration
  allows one reuse for one attempt of the previous month.
\<close>

definition reuse_integration :: client_integration where
  "reuse_integration =
     \<lparr>ci_id = 81, ci_client = 5, ci_name = ''Reuse'', ci_provider_code = ''toluna'', ci_base_url = [],
      ci_credential_env_key = [], ci_credential_env_keys = JNull, ci_config = JNull,
      ci_profile_reuse_enabled = True, ci_profile_reuse_eligible_after_days = 60,
      ci_profile_reuse_monthly_percentage = 100, ci_profile_reuse_country_codes = JArr [],
      ci_profile_reuse_age_groups = [''18-24''], ci_profile_reuse_genders = [''male''],
      ci_profile_rereuse_enabled = False, ci_profile_rereuse_percentage = 0,
      ci_profile_rereuse_cooldown_days = 30, ci_profile_reuse_first_delay_minutes = 1,
      ci_profile_reuse_min_interval_minutes = 1, ci_profile_reuse_max_uses_per_window = 1,
      ci_profile_reuse_window_minutes = 1, ci_encrypted_api_token = [], ci_credential_fingerprint = [],
      ci_credential_last_four = [], ci_credential_changed_at = None, ci_supplier_code = [],
      ci_inventory_endpoint = [], ci_paged_inventory_endpoint = [], ci_quota_endpoint_template = [],
      ci_targeting_endpoint_template = [], ci_transaction_endpoint_template = [],
      ci_auth_header_name = [], ci_auth_header_prefix = [], ci_inventory_result_key = [],
      ci_quota_result_key = [], ci_targeting_result_key = [], ci_transaction_result_key = [],
      ci_field_mapping = JNull, ci_scheduled_sync_enabled = False, ci_sync_interval_seconds = 0,
      ci_detail_refresh_batch = 0, ci_last_tested_at = None, ci_last_test_status = [],
      ci_last_test_error = [], ci_last_sync_started_at = None, ci_last_sync_finished_at = None,
      ci_last_sync_status = [], ci_last_sync_error = [], ci_last_sync_summary = JNull,
      ci_is_active = True, ci_created_by = None, ci_created_at = 0, ci_updated_at = 0\<rparr>"

definition reuse_survey :: survey where
  "reuse_survey = sample_survey\<lparr>sv_integration := Some 81\<rparr>"

definition reuse_attempt :: survey_attempt where
  "reuse_attempt = sample_attempt\<lparr>at_prescreener_uid := Some ''Aa11''\<rparr>"

definition reuse_db :: db where
  "reuse_db = sample_db\<lparr>integrations := [reuse_integration], surveys := [reuse_survey],
     attempts := [reuse_attempt]\<rparr>"

definition reuse_candidate :: prescreener_submission where
  "reuse_candidate =
     \<lparr>ps_uid = ''Bb22'', ps_rid = ''r'', ps_source_client_code = ''acme'', ps_country = ''India'',
      ps_country_code = ''IN'', ps_language = ''English'', ps_language_code = ''EN'',
      ps_respondent_age = Some 23, ps_respondent_age_group = ''18-24'', ps_respondent_gender = ''male'',
      ps_respondent_ethnicity = [], ps_respondent_postal_code = [], ps_profile_dimensions = [],
      ps_raw_answers = [(''a'', JNull)], ps_answer_count = 1, ps_usage_count = 1,
      ps_last_reused_at = None, ps_submitted_at = 0, ps_captured_at = 0\<rparr>"

definition reuse_vault :: vault where
  "reuse_vault = \<lparr>submissions = [reuse_candidate], vault_answers = [], vault_values = []\<rparr>"

definition reuse_answers :: jdict where
  "reuse_answers =
     [(''a'', JObj [(''question_key'', JStr ''age''), (''values'', JArr [JStr ''23''])]),
      (''g'', JObj [(''question_key'', JStr ''gender''), (''values'', JArr [JStr ''male''])])]"

text \<open>August 2026, with July starting at 0 and August at 1000.\<close>

definition sample_local_date :: "timestamp \<Rightarrow> date" where
  "sample_local_date t = (2026, 8, 15)"

definition sample_local_midnight :: "date \<Rightarrow> timestamp" where
  "sample_local_midnight dt = (case dt of (y, m, day) \<Rightarrow> if m = 7 then 0 else 1000)"

definition sample_clock :: "nat \<Rightarrow> timestamp" where
  "sample_clock k = 100000000 + int k"

definition sample_signature :: profile_signature where
  "sample_signature =
     \<lparr>sg_country_code = ''IN'', sg_language_code = ''EN'', sg_age = Some 23, sg_age_group = ''18-24'',
      sg_gender = ''male'',
      sg_dimensions = [(''country'', [''in'']), (''language'', [''en'']), (''age'', [''23'']),
        (''gender'', [''male'']), (''age_group'', [''18-24''])]\<rparr>"

lemma reuse_db_tables [simp]:
  "integrations reuse_db = [reuse_integration]" "surveys reuse_db = [reuse_survey]"
  "attempts reuse_db = [reuse_attempt]" "clients reuse_db = [sample_client]"
  "monthly_counters reuse_db = []" "reuse_events reuse_db = []" "project_usages reuse_db = []"
  "reuse_states reuse_db = []" "targeting_questions reuse_db = []"
  by (simp_all add: reuse_db_def)

lemma reuse_row_fields [simp]:
  "ci_id reuse_integration = 81" "ci_client reuse_integration = 5"
  "at_id reuse_attempt = 9" "at_survey reuse_attempt = 7" "at_initiated_at reuse_attempt = 0"
  "at_prescreener_uid reuse_attempt = Some ''Aa11''" "at_provider_profile_uid reuse_attempt = []"
  "sv_id reuse_survey = 7" "sv_integration reuse_survey = Some 81" "at_submitted_at reuse_attempt = None"
  by (simp_all add: reuse_integration_def reuse_attempt_def reuse_survey_def sample_attempt_def sample_survey_def)

lemma sample_canonical:
  "canonical_attribute ''age'' [] [] = ''age''" "canonical_attribute ''gender'' [] [] = ''gender''"
  "canonical_dimension_key ''age'' = ''age''" "canonical_dimension_key ''gender'' = ''gender''"
  "normalize_profile_value ''age'' ''23'' = ''23''" "normalize_profile_value ''gender'' ''male'' = ''male''"
  "age_from_value sample_local_date ''23'' t = Some 23" "age_group (Some 23) = ''18-24''"
  "show_int 23 = ''23''"
  by code_simp+
lemma no_questions: "question_of_key reuse_db i keys k = None"
  by (simp add: question_of_key_def)

lemma sample_answer_age:
  "snapshot_answer sample_local_date reuse_db s t keys p k
     (JObj [(''question_key'', JStr ''age''), (''values'', JArr [JStr ''23''])]) r =
   Inr (r\<lparr>rd_dimensions := dims_extend ''age'' [''23''] (rd_dimensions r), rd_age := Some 23,
     rd_snapshots := rd_snapshots r @ [\<lparr>as_position = p, as_question_record_id = k, as_question_id = [],
       as_question_key = ''age'', as_question_text = [], as_question_type = [], as_question_category = [],
       as_canonical_attribute = ''age'', as_answer_values = [''23''], as_answer_labels = [''23''],
       as_upstream_values = [], as_normalized_values = [''23'']\<rparr>]\<rparr>)"
  by (simp add: snapshot_answer_def Let_def no_questions dict_get_def snapshot_canonical_def
      explicit_canonical_def sample_canonical option_labels_def map_filter_simps first_nonempty_def
      absorb_values_def)

lemma sample_answer_gender:
  "snapshot_answer sample_local_date reuse_db s t keys p k
     (JObj [(''question_key'', JStr ''gender''), (''values'', JArr [JStr ''male''])]) r =
   Inr (r\<lparr>rd_dimensions := dims_extend ''gender'' [''male''] (rd_dimensions r), rd_gender := ''male'',
     rd_snapshots := rd_snapshots r @ [\<lparr>as_position = p, as_question_record_id = k, as_question_id = [],
       as_question_key = ''gender'', as_question_text = [], as_question_type = [], as_question_category = [],
       as_canonical_attribute = ''gender'', as_answer_values = [''male''], as_answer_labels = [''male''],
       as_upstream_values = [], as_normalized_values = [''male'']\<rparr>]\<rparr>)"
  by (simp add: snapshot_answer_def Let_def no_questions dict_get_def snapshot_canonical_def
      explicit_canonical_def sample_canonical option_labels_def map_filter_simps first_nonempty_def
      absorb_values_def)

lemma sample_reading:
  "\<exists>r. question_snapshots sample_local_date reuse_db a reuse_survey reuse_answers now = Inr r
     \<and> profile_signature_of reuse_survey r = sample_signature"
proof -
  have texts: "clean_values [''IN''] = [''in'']" "clean_values [''EN''] = [''en'']"
    "clean_values [''23''] = [''23'']" "clean_values [''male''] = [''male'']"
    "clean_values [''18-24''] = [''18-24'']" "normalized_gender ''male'' = ''male''"
    "py_upper (py_strip ''IN'') = ''IN''" "py_upper (py_strip ''EN'') = ''EN''"
    by code_simp+
  have seeds: "sv_country_code reuse_survey = ''IN''" "sv_language_code reuse_survey = ''EN''"
    by (simp_all add: reuse_survey_def sample_survey_def)
  show ?thesis
    by (simp add: question_snapshots_def reuse_answers_def sample_answer_age sample_answer_gender
        Let_def sample_canonical dims_extend_def dims_get_def
        seed_dimensions_def seeds age_dimensions_def dedupe_dimensions_def keep_first_def
        profile_signature_of_def clean_dimensions_def texts sample_signature_def)
qed

lemma reuse_candidate_fields [simp]:
  "ps_uid reuse_candidate = ''Bb22''" "ps_usage_count reuse_candidate = 1"
  "ps_last_reused_at reuse_candidate = None" "ps_profile_dimensions reuse_candidate = []"
  "ps_country_code reuse_candidate = ''IN''" "ps_language_code reuse_candidate = ''EN''"
  "ps_respondent_gender reuse_candidate = ''male''" "ps_respondent_age reuse_candidate = Some 23"
  "ps_respondent_age_group reuse_candidate = ''18-24''" "ps_respondent_ethnicity reuse_candidate = []"
  "ps_respondent_postal_code reuse_candidate = []" "ps_source_client_code reuse_candidate = ''acme''"
  "ps_submitted_at reuse_candidate = 0"
  by (simp_all add: reuse_candidate_def)

lemma sample_candidate_dimensions:
  "candidate_dimensions sample_local_date t reuse_candidate =
     [(''country'', [''in'']), (''language'', [''en'']), (''gender'', [''male'']), (''age'', [''23'']),
      (''age_group'', [''18-24''])]"
proof -
  have texts: "py_lower ''IN'' = ''in''" "py_lower ''EN'' = ''en''" "normalized_gender ''male'' = ''male''"
    "clean_dimensions [] = []"
    by code_simp+
  have base: "dims_default ''gender'' [''male''] (dims_default ''language'' [''en''] (dims_default ''country'' [''in''] []))
      = [(''country'', [''in'']), (''language'', [''en'']), (''gender'', [''male''])]"
    by (simp add: dims_default_def)
  have age: "candidate_age sample_local_date t
      [(''country'', [''in'']), (''language'', [''en'']), (''gender'', [''male''])] reuse_candidate = Some 23"
    by (simp add: candidate_age_def first_known_age_def dims_get_def map_filter_simps)
  show ?thesis
    unfolding candidate_dimensions_def
    by (simp add: first_nonempty_def texts base age OPEN_ENDED_AGE_MAX_def sample_canonical)
qed

lemma sample_profile_reserved:
  "reserve_vault_profile sample_local_date d reuse_vault reuse_attempt reuse_integration ''acme''
     sample_signature [] (\<lambda>_. False) (sample_clock 2) = 
   Some (reserved_row sample_signature (sample_clock 2) reuse_candidate, None,
     reuse_vault\<lparr>submissions := [reserved_row sample_signature (sample_clock 2) reuse_candidate]\<rparr>)"
  if "reuse_events d = []" "project_usages d = []" "attempts d = [reuse_attempt]"
proof -
  have groups: "candidate_age_groups (Some 23) = [''18-24'']" by code_simp
  have match: "matches_all_requirements sample_local_date t reuse_candidate sample_signature" for t
    by (simp add: matches_all_requirements_def sample_candidate_dimensions sample_signature_def dims_get_def)
  have short: "shortlisted reuse_integration ''acme'' (Some ''Aa11'') sample_signature [] (\<lambda>_. False)
      (sample_clock 2) reuse_candidate"
    by (simp add: shortlisted_def sample_signature_def groups gender_values_def
        GENDER_ALIASES_def single_value_filter_def dims_get_def sample_clock_def minutes_def
        reuse_integration_def)
  have used: "used_on_project d reuse_integration 7 [''Bb22''] = []"
    using that by (simp add: used_on_project_def)
  have eligible: "eligible_candidate sample_local_date d reuse_integration 7 sample_signature []
      (sample_clock 2) reuse_candidate"
    using that match by (simp add: eligible_candidate_def events_since_def reuse_integration_def)
  show ?thesis
    by (simp add: reserve_vault_profile_def reuse_vault_def short Let_def MAX_CANDIDATE_SCAN_def
        used eligible update_submission_def update_where_def)
qed

end
