(* ===== verification/Vault_Properties.thy ===== *)
theory Vault_Properties
  imports Reuse_Samples
begin

text \<open>
  Properties of the vault: a capture keeps its keys and links, never changes an earlier
  submission unless a draft may be replaced, stores exactly what it returns, and gives up after
  a bounded number of tries.
\<close>

section \<open>Snapshots are numbered\<close>

lemma absorb_values_snapshots [simp]:
  "rd_snapshots (absorb_values ld t canonical reusable normalized r) = rd_snapshots r"
  by (auto simp: absorb_values_def Let_def split: option.split)

lemma snapshot_answer_position:
  assumes "snapshot_answer ld d s t keys p k x r = Inr r'"
  shows "map as_position (rd_snapshots r') = map as_position (rd_snapshots r) @ [p]"
  using assms by (auto simp: snapshot_answer_def Let_def split: sum.splits)

lemma snapshot_answers_positions:
  "snapshot_answers ld d s t keys p answers r = Inr r' \<Longrightarrow>
   map as_position (rd_snapshots r') = map as_position (rd_snapshots r) @ [p ..< p + length answers]"
proof (induction answers arbitrary: p r)
  case Nil
  then show ?case by simp
next
  case (Cons x answers)
  obtain k v where x: "x = (k, v)" by (cases x)
  with Cons.prems obtain r1 where "snapshot_answer ld d s t keys p k v r = Inr r1"
    and "snapshot_answers ld d s t keys (Suc p) answers r1 = Inr r'"
    by (auto split: sum.splits)
  moreover have "[p ..< p + length (x # answers)] = p # [Suc p ..< Suc p + length answers]"
    by (subst upt_conv_Cons) simp_all
  ultimately show ?case using Cons.IH [of "Suc p" r1] snapshot_answer_position by simp
qed

lemma question_snapshots_positions:
  "question_snapshots ld d a s answers now = Inr r \<Longrightarrow>
   map as_position (rd_snapshots r) = [1 ..< Suc (length answers)]"
  by (auto simp: question_snapshots_def Let_def dest!: snapshot_answers_positions split: sum.splits)

section \<open>Rows and their keys\<close>

definition answer_keys :: "vault \<Rightarrow> (string \<times> nat) set" where
  "answer_keys v = (\<lambda>a. (pa_submission a, pa_position a)) ` set (vault_answers v)"

definition rows_ok :: "vault \<Rightarrow> bool" where
  "rows_ok v =
     (unique_by pa_id (vault_answers v)
      \<and> unique_by (\<lambda>a. (pa_submission a, pa_position a)) (vault_answers v)
      \<and> unique_by pv_id (vault_values v)
      \<and> unique_by (\<lambda>x. (pv_answer x, pv_position x)) (vault_values v)
      \<and> pv_answer ` set (vault_values v) \<subseteq> pa_id ` set (vault_answers v))"

text \<open>Keys, and every answer belongs to a submission, every value to an answer.\<close>

definition vault_inv :: "vault \<Rightarrow> bool" where
  "vault_inv v =
     (vault_ok v \<and> rows_ok v \<and> pa_submission ` set (vault_answers v) \<subseteq> ps_uid ` set (submissions v))"

lemma write_values_ok:
  assumes "rows_ok v" and "pa_id answer \<in> pa_id ` set (vault_answers v)"
    and "\<forall>x \<in> set (vault_values v). pv_answer x = pa_id answer \<longrightarrow> pv_position x < p"
  shows "rows_ok (write_values answer s labels normalized p vs v)
    \<and> vault_answers (write_values answer s labels normalized p vs v) = vault_answers v
    \<and> submissions (write_values answer s labels normalized p vs v) = submissions v"
  using assms
proof (induction vs arbitrary: p v)
  case Nil
  then show ?case by simp
next
  case (Cons x vs)
  define row where "row = value_row v answer s p x (at_position labels p x)
    (at_position normalized p (normalize_profile_value (pa_canonical_attribute answer) (at_position labels p x)))"
  have row: "pv_id row = next_pk pv_id (vault_values v)" "pv_answer row = pa_id answer" "pv_position row = p"
    by (simp_all add: row_def value_row_def)
  let ?v = "v\<lparr>vault_values := vault_values v @ [row]\<rparr>"
  have key: "(pv_answer row, pv_position row) \<notin> (\<lambda>x. (pv_answer x, pv_position x)) ` set (vault_values v)"
    using Cons.prems(3) row by auto
  have fresh: "pv_id row \<notin> pv_id ` set (vault_values v)"
    unfolding row(1) by (rule next_pk_fresh)
  have ok: "rows_ok ?v"
    using Cons.prems(1,2) row(2) unique_insert [OF _ fresh] unique_insert [OF _ key]
    by (simp add: rows_ok_def)
  have "rows_ok (write_values answer s labels normalized (Suc p) vs ?v)
    \<and> vault_answers (write_values answer s labels normalized (Suc p) vs ?v) = vault_answers ?v
    \<and> submissions (write_values answer s labels normalized (Suc p) vs ?v) = submissions ?v"
    by (rule Cons.IH [OF ok]) (use Cons.prems row in auto)
  then show ?case by (simp add: Let_def row_def)
qed

lemma write_answer_row_ok:
  assumes ok: "rows_ok v" and free: "(uid, as_position x) \<notin> answer_keys v"
  shows "rows_ok (write_answer_row uid s x v)
    \<and> vault_answers (write_answer_row uid s x v) = vault_answers v @ [answer_row v uid x]
    \<and> submissions (write_answer_row uid s x v) = submissions v"
proof -
  let ?a = "answer_row v uid x" and ?v = "v\<lparr>vault_answers := vault_answers v @ [answer_row v uid x]\<rparr>"
  have fresh: "pa_id ?a \<notin> pa_id ` set (vault_answers v)"
    unfolding answer_row_def prescreener_answer.simps by (rule next_pk_fresh)
  have key: "(pa_submission ?a, pa_position ?a) \<notin> (\<lambda>a. (pa_submission a, pa_position a)) ` set (vault_answers v)"
    using free by (simp add: answer_keys_def answer_row_def)
  have start: "rows_ok ?v"
    using ok unique_insert [OF _ fresh] unique_insert [OF _ key] by (auto simp: rows_ok_def)
  have "pv_answer y \<noteq> pa_id ?a" if "y \<in> set (vault_values v)" for y
    using ok fresh that unfolding rows_ok_def by (metis image_eqI subsetD)
  then show ?thesis
    unfolding write_answer_row_def Let_def
    using write_values_ok [OF start, of ?a 1] by simp
qed

lemma write_answer_rows_ok:
  assumes "rows_ok v" and "distinct (map as_position xs)"
    and "\<forall>x \<in> set xs. (uid, as_position x) \<notin> answer_keys v"
  shows "rows_ok (write_answer_rows uid s xs v)
    \<and> submissions (write_answer_rows uid s xs v) = submissions v
    \<and> (\<forall>a \<in> set (vault_answers (write_answer_rows uid s xs v)).
         a \<in> set (vault_answers v) \<or> pa_submission a = uid)"
  using assms
proof (induction xs arbitrary: v)
  case Nil
  then show ?case by simp
next
  case (Cons x xs)
  let ?v = "write_answer_row uid s x v"
  have row: "rows_ok ?v" "vault_answers ?v = vault_answers v @ [answer_row v uid x]" "submissions ?v = submissions v"
    using write_answer_row_ok [of v uid x s] Cons.prems by simp_all
  have keys: "answer_keys ?v = insert (uid, as_position x) (answer_keys v)"
    by (simp add: answer_keys_def row(2) answer_row_def)
  have "as_position y \<noteq> as_position x" if "y \<in> set xs" for y
    using Cons.prems(2) that by (metis distinct.simps(2) image_eqI list.simps(9) set_map)
  then have "\<forall>y \<in> set xs. (uid, as_position y) \<notin> answer_keys ?v"
    using Cons.prems(3) by (simp add: keys)
  then have "rows_ok (write_answer_rows uid s xs ?v)
    \<and> submissions (write_answer_rows uid s xs ?v) = submissions ?v
    \<and> (\<forall>a \<in> set (vault_answers (write_answer_rows uid s xs ?v)).
         a \<in> set (vault_answers ?v) \<or> pa_submission a = uid)"
    using Cons.IH [of ?v] Cons.prems row by simp
  then show ?case using row by (auto simp: answer_row_def)
qed

lemma delete_answers_ok:
  assumes "rows_ok v"
  shows "rows_ok (delete_answers uid v) \<and> (uid, p) \<notin> answer_keys (delete_answers uid v)
    \<and> set (vault_answers (delete_answers uid v)) \<subseteq> set (vault_answers v)"
  using assms
  by (auto simp: rows_ok_def delete_answers_def Let_def answer_keys_def unique_by_def distinct_map
      inj_on_def image_iff dest!: subsetD)

section \<open>One transaction\<close>

lemma update_submission_rows [simp]:
  "vault_answers (update_submission uid f v) = vault_answers v"
  "vault_values (update_submission uid f v) = vault_values v"
  "rows_ok (update_submission uid f v) = rows_ok v"
  by (simp_all add: update_submission_def rows_ok_def)

lemma delete_answers_submissions [simp]: "submissions (delete_answers uid v) = submissions v"
  by (simp add: delete_answers_def Let_def)

lemma claimed_keys [simp]:
  "ps_uid (claimed_for_client code p) = ps_uid p" "ps_rid (claimed_for_client code p) = ps_rid p"
  "ps_raw_answers (claimed_for_client code p) = ps_raw_answers p"
  by (simp_all add: claimed_for_client_def)

lemma replaced_keys [simp]:
  "ps_uid (replaced_draft s r answers t p) = ps_uid p" "ps_rid (replaced_draft s r answers t p) = ps_rid p"
  by (simp_all add: replaced_draft_def)

lemma vault_ok_split: "vault_ok v \<longleftrightarrow> unique_by ps_uid (submissions v) \<and> unique_by ps_rid (submissions v)
    \<and> unique_by pa_id (vault_answers v) \<and> unique_by (\<lambda>a. (pa_submission a, pa_position a)) (vault_answers v)
    \<and> unique_by pv_id (vault_values v) \<and> unique_by (\<lambda>x. (pv_answer x, pv_position x)) (vault_values v)"
  by (simp add: vault_ok_def)

lemma vault_invI:
  assumes "rows_ok v" and "unique_by ps_uid (submissions v)" and "unique_by ps_rid (submissions v)"
    and "pa_submission ` set (vault_answers v) \<subseteq> ps_uid ` set (submissions v)"
  shows "vault_inv v"
  using assms by (simp add: vault_inv_def vault_ok_split rows_ok_def)

lemma submission_uids_kept:
  assumes "\<And>p. ps_uid (f p) = ps_uid p"
  shows "ps_uid ` set (submissions (update_submission uid f v)) = ps_uid ` set (submissions v)"
proof -
  have "map ps_uid (submissions (update_submission uid f v)) = map ps_uid (submissions v)"
    by (simp add: update_submission_def map_update_where assms)
  then show ?thesis by (metis set_map)
qed

lemma update_submission_keys:
  assumes "\<And>p. ps_uid (f p) = ps_uid p" and "\<And>p. ps_rid (f p) = ps_rid p" and "vault_inv v"
  shows "vault_inv (update_submission uid f v)"
proof -
  have keys: "map ps_uid (submissions (update_submission uid f v)) = map ps_uid (submissions v)"
    "map ps_rid (submissions (update_submission uid f v)) = map ps_rid (submissions v)"
    by (simp_all add: update_submission_def map_update_where assms(1,2))
  with assms(3) submission_uids_kept [of f uid v, OF assms(1)] show ?thesis
    by (intro vault_invI) (simp_all add: vault_inv_def vault_ok_def unique_by_def)
qed

lemma vault_inv_rewrite:
  assumes inv: "vault_inv v" and positions: "distinct (map as_position xs)" and f: "\<And>p. ps_uid (f p) = ps_uid p"
    "\<And>p. ps_rid (f p) = ps_rid p" and old: "get_submission v uid = Some p0"
  shows "vault_inv (write_answer_rows uid s xs (update_submission uid f (delete_answers uid v)))
    \<and> submissions (write_answer_rows uid s xs (update_submission uid f (delete_answers uid v)))
      = update_where (\<lambda>p. ps_uid p = uid) f (submissions v)"
proof -
  let ?w = "update_submission uid f (delete_answers uid v)"
  have rows: "rows_ok v" using inv by (simp add: vault_inv_def)
  note deleted = delete_answers_ok [OF rows]
  have links: "pa_submission ` set (vault_answers (delete_answers uid v)) \<subseteq> ps_uid ` set (submissions v)"
    using inv deleted unfolding vault_inv_def by blast
  have "vault_inv (delete_answers uid v)"
    using inv deleted links by (intro vault_invI) (simp_all add: vault_inv_def vault_ok_def)
  then have w: "vault_inv ?w" by (rule update_submission_keys [OF f])
  have written: "rows_ok (write_answer_rows uid s xs ?w) \<and> submissions (write_answer_rows uid s xs ?w) = submissions ?w
      \<and> (\<forall>a \<in> set (vault_answers (write_answer_rows uid s xs ?w)). a \<in> set (vault_answers ?w) \<or> pa_submission a = uid)"
    by (rule write_answer_rows_ok [OF _ positions]) (use deleted in \<open>simp_all add: answer_keys_def\<close>)
  have "uid \<in> ps_uid ` set (submissions ?w)"
    using old f by (auto simp: get_submission_def submission_uids_kept dest!: find_SomeD)
  then have "vault_inv (write_answer_rows uid s xs ?w)"
    using w written by (intro vault_invI) (auto simp: vault_inv_def vault_ok_def)
  with written show ?thesis by (simp add: update_submission_def)
qed

lemma vault_inv_insert:
  assumes inv: "vault_inv v" and positions: "distinct (map as_position xs)"
    and new: "get_submission v (ps_uid p) = None" "ps_rid p \<notin> ps_rid ` set (submissions v)"
  shows "vault_inv (write_answer_rows (ps_uid p) s xs (v\<lparr>submissions := submissions v @ [p]\<rparr>))
    \<and> submissions (write_answer_rows (ps_uid p) s xs (v\<lparr>submissions := submissions v @ [p]\<rparr>)) = submissions v @ [p]"
proof -
  let ?w = "v\<lparr>submissions := submissions v @ [p]\<rparr>"
  have free: "ps_uid p \<notin> ps_uid ` set (submissions v)"
    using new(1) by (auto simp: get_submission_def find_None_iff)
  have "rows_ok ?w" using inv by (simp add: vault_inv_def rows_ok_def)
  moreover have "(ps_uid p, k) \<notin> answer_keys ?w" for k
    using inv free by (auto simp: vault_inv_def answer_keys_def)
  ultimately have written: "rows_ok (write_answer_rows (ps_uid p) s xs ?w)
      \<and> submissions (write_answer_rows (ps_uid p) s xs ?w) = submissions ?w
      \<and> (\<forall>a \<in> set (vault_answers (write_answer_rows (ps_uid p) s xs ?w)).
           a \<in> set (vault_answers ?w) \<or> pa_submission a = ps_uid p)"
    by (intro write_answer_rows_ok positions) auto
  have "vault_inv (write_answer_rows (ps_uid p) s xs ?w)"
    using inv written unique_insert [OF _ free] unique_insert [OF _ new(2)]
    by (intro vault_invI) (auto simp: vault_inv_def vault_ok_def)
  with written show ?thesis by simp
qed

lemma vault_row_kept:
  assumes "\<And>p. ps_uid (f p) = ps_uid p" and "unique_by ps_uid (submissions v)" and "get_submission v uid = Some p0"
  shows "List.find (\<lambda>p. ps_uid p = uid) (update_where (\<lambda>p. ps_uid p = uid) f (submissions v)) = Some (f p0)"
proof -
  have update: "keyed_update ps_uid f" by (simp add: keyed_update_def assms(1))
  show ?thesis
    using keyed_update.find_kept [OF update, of uid "\<lambda>p. ps_uid p = uid" "submissions v"] assms(3)
    by (auto simp: get_submission_def dest: find_SomeD)
qed

text \<open>What one transaction of the capture does.\<close>

definition row_continues :: "bool \<Rightarrow> string \<Rightarrow> prescreener_submission \<Rightarrow> prescreener_submission \<Rightarrow> bool" where
  "row_continues allow_draft_replace rid p p' =
     (ps_uid p' = ps_uid p \<and> ps_rid p' = ps_rid p \<and> ps_usage_count p' = ps_usage_count p
      \<and> ps_last_reused_at p' = ps_last_reused_at p \<and> ps_captured_at p' = ps_captured_at p
      \<and> (ps_source_client_code p' = ps_source_client_code p \<or> ps_source_client_code p = [])
      \<and> (ps_raw_answers p' = ps_raw_answers p \<and> ps_profile_dimensions p' = ps_profile_dimensions p
          \<and> ps_submitted_at p' = ps_submitted_at p
         \<or> allow_draft_replace \<and> ps_rid p = rid))"

lemma row_continues_refl [simp]: "row_continues allow rid p p"
  by (simp add: row_continues_def)

lemma row_continues_claimed: "row_continues allow rid p (claimed_for_client code p)"
  by (simp add: row_continues_def claimed_for_client_def)

lemma row_continues_replaced:
  "row_continues True (ps_rid p) p (replaced_draft s r answers t (claimed_for_client code p))"
  by (simp add: row_continues_def claimed_for_client_def replaced_draft_def)

lemma persist_once_effect:
  assumes "persist_once v uid rid code s r answers t allow now = Inr ((p, created), v')"
    and inv: "vault_inv v" and positions: "distinct (map as_position (rd_snapshots r))"
  shows "vault_inv v' \<and> get_submission v' uid = Some p \<and> ps_uid p = uid \<and> ps_rid p = rid
    \<and> (ps_raw_answers p = answers \<or> dict_eq (ps_raw_answers p) answers)
    \<and> (created \<longleftrightarrow> get_submission v uid = None)
    \<and> (\<forall>q \<in> set (submissions v). \<exists>q' \<in> set (submissions v'). row_continues allow rid q q')"
proof (cases "get_submission v uid")
  case None
  define n where "n = new_submission uid rid code s r answers t now"
  from assms(1) None have free: "\<not> list_ex (\<lambda>p. ps_rid p = rid) (submissions v)" and p: "p = n" "created"
    and v': "v' = write_answer_rows uid s (rd_snapshots r) (v\<lparr>submissions := submissions v @ [n]\<rparr>)"
    by (auto simp: persist_once_def Let_def n_def split: if_splits)
  have n: "ps_uid n = uid" "ps_rid n = rid" "ps_raw_answers n = answers"
    by (simp_all add: n_def new_submission_def)
  have "ps_rid n \<notin> ps_rid ` set (submissions v)" using free n by (auto simp: list_ex_iff)
  then have effect: "vault_inv v' \<and> submissions v' = submissions v @ [n]"
    using vault_inv_insert [OF inv positions, of n s] None n v' by simp
  then have "\<exists>q' \<in> set (submissions v'). row_continues allow rid q q'" if "q \<in> set (submissions v)" for q
    using that by (intro bexI [of _ q]) simp_all
  then show ?thesis
    using effect None p n by (simp add: get_submission_def find_append)
next
  case (Some old)
  define c where "c = claimed_for_client code"
  have old: "old \<in> set (submissions v)" "ps_uid old = uid"
    using Some by (auto simp: get_submission_def dest: find_SomeD)
  have c: "\<And>p. ps_uid (c p) = ps_uid p" "\<And>p. ps_rid (c p) = ps_rid p" by (simp_all add: c_def)
  let ?v = "update_submission uid c v"
  have v: "vault_inv ?v" by (rule update_submission_keys [OF c inv])
  have unique: "unique_by ps_uid (submissions v)" using inv by (simp add: vault_inv_def vault_ok_def)
  have stored: "get_submission ?v uid = Some (c old)"
    using vault_row_kept [OF c(1) unique Some] by (simp add: get_submission_def update_submission_def)
  have continues: "\<exists>q' \<in> set (submissions ?v). row_continues allow rid q q'" if "q \<in> set (submissions v)" for q
    using that row_continues_claimed [of allow rid q code]
    by (intro bexI [of _ "if ps_uid q = uid then c q else q"])
      (auto simp: update_submission_def set_update_where c_def)
  from assms(1) Some have rid: "ps_rid old = rid" and "\<not> created"
    by (auto simp: persist_once_def Let_def split: if_splits)
  show ?thesis
  proof (cases "dict_eq (ps_raw_answers (c old)) answers")
    case True
    with assms(1) Some rid have "p = c old" "v' = ?v" by (auto simp: persist_once_def Let_def c_def)
    then show ?thesis using v stored continues old rid c True Some \<open>\<not> created\<close> by auto
  next
    case False
    define f where "f = replaced_draft s r answers t"
    from False assms(1) Some rid have allow: "allow" and p: "p = f (c old)"
      and v': "v' = write_answer_rows uid s (rd_snapshots r) (update_submission uid f (delete_answers uid ?v))"
      by (auto simp: persist_once_def Let_def c_def f_def split: if_splits)
    have f: "\<And>p. ps_uid (f p) = ps_uid p" "\<And>p. ps_rid (f p) = ps_rid p" by (simp_all add: f_def)
    have rewritten: "vault_inv v'" "submissions v' = update_where (\<lambda>p. ps_uid p = uid) f (submissions ?v)"
      using vault_inv_rewrite [OF v positions f stored] unfolding v' by blast+
    have "unique_by ps_uid (submissions ?v)" using v by (simp add: vault_inv_def vault_ok_def)
    then have "get_submission v' uid = Some p"
      using vault_row_kept [OF f(1) _ stored] by (simp add: get_submission_def rewritten(2) p)
    moreover have "\<exists>q' \<in> set (submissions v'). row_continues allow rid q q'" if q: "q \<in> set (submissions v)" for q
    proof (cases "ps_uid q = uid")
      case True
      with q old unique have "q = old" by (auto simp: unique_by_def distinct_map dest: inj_onD)
      moreover have "f (c old) \<in> set (submissions v')"
        using \<open>get_submission v' uid = Some p\<close> p by (auto simp: get_submission_def dest: find_SomeD)
      ultimately show ?thesis
        using row_continues_replaced [of old s r answers t code] rid allow by (auto simp: f_def c_def)
    next
      case False
      with q have "q \<in> set (submissions v')"
        by (simp add: rewritten(2) set_update_where update_submission_def)
      then show ?thesis by (auto intro: bexI [of _ q])
    qed
    ultimately show ?thesis
      using rewritten(1) old rid c f p Some \<open>\<not> created\<close> by (auto simp: f_def replaced_draft_def)
  qed
qed

section \<open>Captures\<close>

text \<open>The retry loop returns the transaction's result or the vault's own error, and the result
  whenever one of the first four tries meets no fault and the ones before it a transient one.\<close>

lemma persist_retry_result: "persist_retry faults k result \<in>
    {result, Inl (PrescreenerVaultError ''Prescreener vault write failed'')}"
proof (induction faults k result rule: persist_retry.induct)
  case (1 faults k result)
  then show ?case by (subst persist_retry.simps) (auto split: option.split)
qed

lemma persist_retry_Inr: "persist_retry faults k result = Inr x \<Longrightarrow> result = Inr x"
  using persist_retry_result [of faults k result] by auto

lemma persist_retry_succeeds:
  assumes "faults k = None" and "k \<le> 3" and "\<forall>j < k. \<exists>c \<in> set RETRYABLE_MYSQL_ERROR_CODES. faults j = Some c"
    and "i \<le> k"
  shows "persist_retry faults i result = result"
  using assms(4)
proof (induction "k - i" arbitrary: i)
  case 0
  with assms(1) show ?case by (subst persist_retry.simps) simp
next
  case (Suc m)
  then have "i < k" by simp
  with assms(3) obtain c where "c \<in> set RETRYABLE_MYSQL_ERROR_CODES" "faults i = Some c" by blast
  moreover have "persist_retry faults (Suc i) result = result"
    using Suc.hyps Suc.prems by (intro Suc.hyps(1)) auto
  ultimately show ?case using \<open>i < k\<close> assms(2) by (subst persist_retry.simps) simp
qed

lemma persist_retry_gives_up:
  assumes "\<forall>j \<le> 3. faults j \<noteq> None" and "i \<le> 3"
  shows "persist_retry faults i result = Inl (PrescreenerVaultError ''Prescreener vault write failed'')"
  using assms(2)
proof (induction "3 - i" arbitrary: i)
  case 0
  with assms(1) show ?case by (subst persist_retry.simps) (auto split: option.split)
next
  case (Suc m)
  then have "persist_retry faults (Suc i) result = Inl (PrescreenerVaultError ''Prescreener vault write failed'')"
    by (intro Suc.hyps(1)) auto
  with assms(1) Suc.prems show ?case by (subst persist_retry.simps) (auto split: option.split)
qed

lemma capture_cases:
  assumes "capture_prescreener_submission ld enabled d v a s answers submitted_at allow candidates faults now
      = (d', v', result)"
  obtains (failed) e where "result = Inl e" "v' = v"
  | (stored) uid t a1 r p created where "result = Inr (p, created)"
      "ensure_attempt_prescreener_uid d a candidates = Inr (uid, d')"
      "question_snapshots ld d' a1 s answers now = Inr r"
      "persist_once v uid (at_rid a) (source_client_code d s) s r answers t allow now = Inr ((p, created), v')"
  using assms
  by (auto simp: capture_prescreener_submission_def Let_def split: if_splits sum.splits prod.splits
      dest!: persist_retry_Inr)

text \<open>C27: A capture keeps the vault's keys and links whatever it meets; it drops no submission, keeps
  every UID/RID pair and its visit counters, and changes the answers of an earlier submission only
  when the caller allows the draft of this very RID to be replaced.\<close>

theorem captured_submissions_immutable:
  assumes "capture_prescreener_submission ld enabled d v a s answers submitted_at allow candidates faults now
      = (d', v', result)"
    and "vault_inv v"
  shows "vault_inv v' \<and> (\<forall>q \<in> set (submissions v). \<exists>q' \<in> set (submissions v'). row_continues allow (at_rid a) q q')"
  using assms(1)
proof (cases rule: capture_cases)
  case failed
  with assms(2) show ?thesis by (auto intro: row_continues_refl)
next
  case (stored uid t a1 r p created)
  have "distinct (map as_position (rd_snapshots r))"
    using question_snapshots_positions [OF stored(3)] by simp
  from persist_once_effect [OF stored(4) assms(2) this] show ?thesis by blast
qed

text \<open>A capture that succeeds has stored exactly the row it returns, under the journey's RID and
  with the submitted answers; it reports a creation exactly when the vault had no such row.\<close>

lemma capture_stores_result:
  assumes "capture_prescreener_submission ld enabled d v a s answers submitted_at allow candidates faults now
      = (d', v', Inr (p, created))"
    and "vault_inv v"
  shows "get_submission v' (ps_uid p) = Some p \<and> ps_rid p = at_rid a
    \<and> (ps_raw_answers p = answers \<or> dict_eq (ps_raw_answers p) answers)
    \<and> (created \<longleftrightarrow> get_submission v (ps_uid p) = None)"
  using assms(1)
proof (cases rule: capture_cases)
  case failed
  then show ?thesis by simp
next
  case (stored uid t a1 r q c)
  have "distinct (map as_position (rd_snapshots r))"
    using question_snapshots_positions [OF stored(3)] by simp
  from persist_once_effect [OF stored(4) assms(2) this] stored(1) show ?thesis by auto
qed

text \<open>C40: The write is tried at most four times: with a fault on each of them the capture's
  transaction is reported as a vault error, and transient faults before a clean try are absorbed
  -- the outcome is then that of the transaction.\<close>

theorem capture_retries_bounded:
  "((\<forall>j \<le> 3. faults j \<noteq> None) \<longrightarrow> persist_retry faults 0 result
      = Inl (PrescreenerVaultError ''Prescreener vault write failed''))
   \<and> (\<forall>k \<le> 3. faults k = None \<and> (\<forall>j < k. \<exists>c \<in> set RETRYABLE_MYSQL_ERROR_CODES. faults j = Some c)
        \<longrightarrow> persist_retry faults 0 result = result)"
  using persist_retry_gives_up [of faults 0 result] persist_retry_succeeds [of faults _ 0 result] by blast

definition empty_vault :: vault where
  "empty_vault = \<lparr>submissions = [], vault_answers = [], vault_values = []\<rparr>"

lemma empty_vault_inv: "vault_inv empty_vault"
  by (simp add: vault_inv_def vault_ok_def rows_ok_def empty_vault_def unique_by_def)

lemma sample_capture:
  "\<exists>d' v' p. capture_prescreener_submission sample_local_date True reuse_db empty_vault reuse_attempt
     reuse_survey reuse_answers None False [] (\<lambda>_. None) 5 = (d', v', Inr (p, True))"
proof -
  have uid: "ensure_attempt_prescreener_uid reuse_db reuse_attempt [] = Inr (''Aa11'', reuse_db)"
    by (simp add: ensure_attempt_prescreener_uid_def)
  let ?a = "reuse_attempt\<lparr>at_prescreener_uid := Some ''Aa11'', at_submitted_at := Some 5\<rparr>"
  obtain r where r: "question_snapshots sample_local_date reuse_db ?a reuse_survey reuse_answers 5 = Inr r"
    using sample_reading [of ?a 5] by blast
  have "\<exists>v' p. persist_once empty_vault ''Aa11'' (at_rid reuse_attempt) (source_client_code reuse_db reuse_survey)
      reuse_survey r reuse_answers 5 False 5 = Inr ((p, True), v')"
    by (simp add: persist_once_def empty_vault_def get_submission_def Let_def)
  then obtain v' p where persisted: "persist_once empty_vault ''Aa11'' (at_rid reuse_attempt)
      (source_client_code reuse_db reuse_survey) reuse_survey r reuse_answers 5 False 5 = Inr ((p, True), v')"
    by blast
  have retry: "persist_retry (\<lambda>_. None) 0 x = x" for x :: "py_error + 'b" by (subst persist_retry.simps) simp
  have nonempty: "reuse_answers \<noteq> []" by (simp add: reuse_answers_def)
  show ?thesis
    by (simp add: capture_prescreener_submission_def uid nonempty Let_def r persisted retry)
qed

lemma captured_submissions_immutable_witness:
  "\<exists>v'. vault_inv v' \<and> length (submissions v') \<ge> 1"
proof -
  obtain d' v' p where run: "capture_prescreener_submission sample_local_date True reuse_db empty_vault
     reuse_attempt reuse_survey reuse_answers None False [] (\<lambda>_. None) 5 = (d', v', Inr (p, True))"
    using sample_capture by blast
  have "get_submission v' (ps_uid p) = Some p"
    using persist_once_effect capture_cases [OF run] empty_vault_inv question_snapshots_positions
    by (metis Inl_Inr_False Inr_inject distinct_upt fst_conv)
  then have "1 \<le> length (submissions v')"
    by (cases "submissions v'") (auto simp: get_submission_def)
  with captured_submissions_immutable [OF run empty_vault_inv] show ?thesis by blast
qed

lemma capture_stores_result_witness:
  "\<exists>v' p. get_submission v' (ps_uid p) = Some p \<and> ps_rid p = at_rid reuse_attempt"
proof -
  obtain d' v' p where run: "capture_prescreener_submission sample_local_date True reuse_db empty_vault
     reuse_attempt reuse_survey reuse_answers None False [] (\<lambda>_. None) 5 = (d', v', Inr (p, True))"
    using sample_capture by blast
  from capture_stores_result [OF run empty_vault_inv] show ?thesis by blast
qed

lemma capture_retries_bounded_witness:
  "persist_retry (\<lambda>k. if k < 2 then Some 1213 else None) 0 (Inr ()) = Inr ()"
proof -
  let ?faults = "\<lambda>k::nat. if k < 2 then Some (1213::nat) else None"
  have "?faults 2 = None \<and> (\<forall>j < 2. \<exists>c \<in> set RETRYABLE_MYSQL_ERROR_CODES. ?faults j = Some c)"
    by (simp add: RETRYABLE_MYSQL_ERROR_CODES_def)
  with conjunct2 [OF capture_retries_bounded [of ?faults "Inr ()"], rule_format, of 2]
  show ?thesis by simp
qed

end
