(* ===== verification/Reuse_Budget.thy ===== *)
theory Reuse_Budget
  imports Reuse_Assignment Samples
begin

text \<open>
  Properties of the monthly reuse budget: the bulk status query agrees with the single one, and
  what claiming and releasing a slot do to the counters.
\<close>

section \<open>Single and bulk status\<close>

lemma map_of_map_key: "map_of (map (\<lambda>k. (k, f k)) ks) k = (if k \<in> set ks then Some (f k) else None)"
  by (induction ks) auto

lemma length_filter_zero: "(\<And>x. x \<in> set xs \<Longrightarrow> \<not> P x) \<Longrightarrow> length (filter P xs) = 0"
  by (simp add: filter_empty_conv)

lemma traffic_lookup:
  assumes "i \<in> set ids" and "prev \<le> cur"
  shows "(case map_of (traffic_rows d ids prev cur) i of None \<Rightarrow> (0, 0) | Some row \<Rightarrow> row)
    = (attempts_between d i prev (Some cur), attempts_between d i cur None)"
proof -
  define rows where "rows = filter (\<lambda>a. prev \<le> at_initiated_at a
      \<and> (case integration_of_attempt d a of None \<Rightarrow> False | Some j \<Rightarrow> j \<in> set ids)) (attempts d)"
  define mine where "mine = filter (\<lambda>a. integration_of_attempt d a = Some i) rows"
  have previous: "length (filter (\<lambda>a. prev \<le> at_initiated_at a \<and> at_initiated_at a < cur) mine)
      = attempts_between d i prev (Some cur)"
    unfolding mine_def rows_def attempts_between_def filter_filter
    by (rule arg_cong [where f = length], rule filter_cong) (use assms in auto)
  have current: "length (filter (\<lambda>a. cur \<le> at_initiated_at a) mine) = attempts_between d i cur None"
    unfolding mine_def rows_def attempts_between_def filter_filter
    by (rule arg_cong [where f = length], rule filter_cong) (use assms in auto)
  have table: "map_of (traffic_rows d ids prev cur) i =
      (if i \<in> set (List.map_filter (integration_of_attempt d) rows)
       then Some (attempts_between d i prev (Some cur), attempts_between d i cur None) else None)"
    unfolding traffic_rows_def Let_def map_of_map_key rows_def [symmetric] mine_def [symmetric]
    by (simp add: map_of_map_key previous current)
  show ?thesis
  proof (cases "i \<in> set (List.map_filter (integration_of_attempt d) rows)")
    case True
    with table show ?thesis by simp
  next
    case False
    then have "mine = []"
      by (force simp: mine_def filter_empty_conv map_filter_def)
    with previous current table False show ?thesis by simp
  qed
qed

lemma counter_lookup:
  assumes "monthly_counters_unique (monthly_counters d)" and "i \<in> set ids"
  shows "map_of (counters_of_period d ids period) i = find_counter d i period"
proof -
  have "map_of (map (\<lambda>c. (prm_integration c, c))
          (filter (\<lambda>c. prm_integration c \<in> set ids \<and> prm_period_start c = period) cs)) i
      = List.find (\<lambda>c. prm_integration c = i \<and> prm_period_start c = period) cs" for cs
    using assms(2) by (induction cs) auto
  then show ?thesis by (simp add: counters_of_period_def find_counter_def)
qed

lemma fold_update_lookup:
  assumes "distinct (map key xs)" and "x \<in> set xs"
  shows "map_of (fold (\<lambda>x m. AList.update (key x) (val x) m) xs m0) (key x) = Some (val x)"
  using assms
proof (induction xs arbitrary: m0)
  case Nil
  then show ?case by simp
next
  case (Cons y ys)
  have other: "map_of (fold (\<lambda>x m. AList.update (key x) (val x) m) ys m) k = map_of m k"
    if "k \<notin> key ` set ys" for k m
    using that by (induction ys arbitrary: m) (auto simp: update_conv')
  show ?case
  proof (cases "x = y")
    case True
    with Cons.prems other [of "key x"] show ?thesis by (simp add: update_conv')
  next
    case False
    with Cons show ?thesis by simp
  qed
qed

definition months_in_order :: "(timestamp \<Rightarrow> date) \<Rightarrow> (date \<Rightarrow> timestamp) \<Rightarrow> timestamp \<Rightarrow> bool" where
  "months_in_order local_date local_midnight now =
     (case calendar_bounds local_date local_midnight now of (prev, cur, _) \<Rightarrow> prev \<le> cur)"

text \<open>The two grouped queries behind the integration cards give every integration the status
  the single-integration computation gives, whatever traffic and counters there are.\<close>

theorem bulk_status_is_single_status:
  assumes "monthly_counters_unique (monthly_counters d)" and "distinct (map ci_id is)"
    and "months_in_order local_date local_midnight now" and "i \<in> set is"
  shows "map_of (profile_reuse_month_statuses local_date local_midnight d is now) (ci_id i)
    = Some (profile_reuse_month_status local_date local_midnight d i now)"
proof -
  obtain prev cur period where bounds: "calendar_bounds local_date local_midnight now = (prev, cur, period)"
    by (cases "calendar_bounds local_date local_midnight now") auto
  with assms(3) have order: "prev \<le> cur" by (simp add: months_in_order_def)
  have mem: "ci_id i \<in> set (map ci_id is)" using assms(4) by auto
  show ?thesis
    unfolding profile_reuse_month_statuses_def bounds prod.case Let_def
    by (subst fold_update_lookup [OF assms(2,4)])
      (simp add: profile_reuse_month_status_def monthly_baseline_def bounds Let_def
        traffic_lookup [OF mem order] counter_lookup [OF assms(1) mem])
qed

section \<open>Slots\<close>

definition allocated_of :: "db \<Rightarrow> pk \<Rightarrow> nat" where
  "allocated_of d k =
     (case row_by_pk prm_id k (monthly_counters d) of None \<Rightarrow> 0 | Some c \<Rightarrow> prm_allocated_reuses c)"

definition target_of :: "db \<Rightarrow> pk \<Rightarrow> nat" where
  "target_of d k =
     (case row_by_pk prm_id k (monthly_counters d) of None \<Rightarrow> 0 | Some c \<Rightarrow> prm_target_reuses c)"

lemma row_by_pk_update_where:
  assumes "\<And>c. key (f c) = key c"
  shows "row_by_pk key k (update_where P f cs) =
    map_option (\<lambda>c. if P c then f c else c) (row_by_pk key k cs)"
  by (rule row_by_pk_update) (rule assms)

text \<open>The budget operations touch the counters only.\<close>

definition only_counters :: "db \<Rightarrow> db \<Rightarrow> bool" where
  "only_counters d d' = (d' = d\<lparr>monthly_counters := monthly_counters d'\<rparr>)"

lemma only_counters_frame:
  assumes "only_counters d d'"
  shows "reuse_events d' = reuse_events d" "project_usages d' = project_usages d"
    "reuse_states d' = reuse_states d" "attempts d' = attempts d" "surveys d' = surveys d"
    "clients d' = clients d" "integrations d' = integrations d"
  by (subst assms [unfolded only_counters_def], simp)+

lemma only_counters_simps [simp]:
  "only_counters d (update_counter k f d)" "only_counters d (release_month_slot k d)"
  "only_counters d (mark_pool k pool d)" "only_counters d d"
  by (simp_all add: only_counters_def update_counter_def release_month_slot_def mark_pool_def)

lemma only_counters_trans: "only_counters d d1 \<Longrightarrow> only_counters d1 d2 \<Longrightarrow> only_counters d d2"
  by (simp add: only_counters_def) (metis db.surjective db.update_convs(26))

lemma counters_after_update [simp]:
  "monthly_counters (update_counter k f d) = update_where (\<lambda>c. prm_id c = k) f (monthly_counters d)"
  by (simp add: update_counter_def)

lemma unique_after_update:
  "unique_by prm_id cs \<Longrightarrow> (\<And>x. prm_id (f x) = prm_id x) \<Longrightarrow> unique_by prm_id (update_where P f cs)"
  by (simp add: unique_by_def map_update_where)

lemma allocated_release: "allocated_of (release_month_slot k d) j = allocated_of d j - (if j = k then 1 else 0)"
proof -
  have "row_by_pk prm_id j (monthly_counters (release_month_slot k d)) =
      map_option (\<lambda>c. if prm_id c = k \<and> 0 < prm_allocated_reuses c
        then c\<lparr>prm_allocated_reuses := prm_allocated_reuses c - 1\<rparr> else c)
      (row_by_pk prm_id j (monthly_counters d))"
    unfolding release_month_slot_def by (simp add: row_by_pk_update del: One_nat_def)
  then show ?thesis
    by (auto simp: allocated_of_def dest: row_by_pk_Some split: option.splits)
qed

lemma allocated_mark_pool [simp]: "allocated_of (mark_pool k pool d) j = allocated_of d j"
  by (simp add: allocated_of_def mark_pool_def row_by_pk_update split: option.splits)

lemma find_counterD:
  "find_counter d i period = Some c \<Longrightarrow>
   c \<in> set (monthly_counters d) \<and> prm_integration c = i \<and> prm_period_start c = period"
  by (auto simp: find_counter_def find_Some_iff)

lemma get_or_create_counter_row:
  assumes "get_or_create_counter d i period now = (c, created, d')"
    and "unique_by prm_id (monthly_counters d)"
  shows "row_by_pk prm_id (prm_id c) (monthly_counters d') = Some c
    \<and> unique_by prm_id (monthly_counters d')
    \<and> allocated_of d' j = allocated_of d j \<and> prm_allocated_reuses c = allocated_of d (prm_id c)
    \<and> only_counters d d'"
proof (cases "find_counter d i period")
  case (Some x)
  with assms(1) have "x = c" "d' = d" by (auto simp: get_or_create_counter_def)
  moreover have "c \<in> set (monthly_counters d)" using Some \<open>x = c\<close> by (auto dest: find_counterD)
  ultimately show ?thesis
    using assms(2) row_by_pk_unique [of prm_id "monthly_counters d" c]
    by (auto simp: unique_by_def allocated_of_def)
next
  case None
  define n where "n = fresh_counter d i period now"
  from None assms(1) have c: "c = n" and d': "d' = d\<lparr>monthly_counters := monthly_counters d @ [n]\<rparr>"
    by (auto simp: get_or_create_counter_def Let_def n_def)
  have key: "prm_id n \<notin> prm_id ` set (monthly_counters d)" and zero: "prm_allocated_reuses n = 0"
    using next_pk_fresh [of prm_id] by (simp_all add: n_def fresh_counter_def)
  have none: "row_by_pk prm_id (prm_id n) (monthly_counters d) = None"
    using key by (simp add: row_by_pk_None)
  show ?thesis
    using assms(2) key zero none unfolding c d'
    by (auto simp: row_by_pk_append allocated_of_def unique_insert only_counters_def split: option.splits)
qed

lemma allocated_kept:
  assumes "\<And>x. prm_id (f x) = prm_id x" and "\<And>x. prm_allocated_reuses (f x) = prm_allocated_reuses x"
  shows "allocated_of (update_counter k f d) j = allocated_of d j"
  using assms by (simp add: allocated_of_def row_by_pk_update split: option.splits)

lemma allocated_set:
  assumes "\<And>x. prm_id (f x) = prm_id x" and "\<And>x. prm_allocated_reuses (f x) = n"
    and "row_by_pk prm_id k (monthly_counters d) = Some c"
  shows "allocated_of (update_counter k f d) j = (if j = k then n else allocated_of d j)"
  using assms
  by (auto simp: allocated_of_def row_by_pk_update dest: row_by_pk_Some split: option.splits)

lemma claim_month_slot_row:
  assumes "claim_month_slot local_date local_midnight d i now = (slot, d')"
    and "unique_by prm_id (monthly_counters d)"
  shows "unique_by prm_id (monthly_counters d')
    \<and> allocated_of d' j = allocated_of d j + (if slot = Some j then 1 else 0)
    \<and> (slot = Some j \<longrightarrow> allocated_of d' j \<le> target_of d' j)
    \<and> (\<forall>x. slot = Some j \<and> row_by_pk prm_id j (monthly_counters d') = Some x \<longrightarrow>
          prm_target_reuses x = target_from_baseline i (prm_baseline_attempts x))
    \<and> only_counters d d'"
proof -
  obtain period prev live source where base:
    "monthly_baseline local_date local_midnight d i now = (period, prev, live, source)"
    by (cases "monthly_baseline local_date local_midnight d i now") auto
  obtain c created d1 where made: "get_or_create_counter d (ci_id i) period now = (c, created, d1)"
    by (cases "get_or_create_counter d (ci_id i) period now") auto
  note row = get_or_create_counter_row [OF made assms(2)]
  define baseline where "baseline = (if created \<or> source = PREVIOUS_MONTH then live
    else if prm_baseline_attempts c < live then live else prm_baseline_attempts c)"
  define change :: "profile_reuse_monthly_counter \<Rightarrow> profile_reuse_monthly_counter" where "change = (\<lambda>x. x\<lparr>prm_baseline_attempts := baseline,
    prm_target_reuses := target_from_baseline i baseline, prm_updated_at := now\<rparr>)"
  have key: "prm_id (change x) = prm_id x" "prm_allocated_reuses (change x) = prm_allocated_reuses x"
    "prm_target_reuses (change x) = target_from_baseline i baseline"
    "prm_baseline_attempts (change x) = baseline" for x
    by (simp_all add: change_def)
  have cases: "(slot, d') =
      (if target_from_baseline i baseline \<le> 0 \<or> target_from_baseline i baseline \<le> prm_allocated_reuses c
       then (None, update_counter (prm_id c) change d1)
       else (Some (prm_id c), update_counter (prm_id c)
              (\<lambda>x. (change x)\<lparr>prm_allocated_reuses := prm_allocated_reuses c + 1\<rparr>) d1))"
    using assms(1) unfolding claim_month_slot_def base made prod.case Let_def
      baseline_def [symmetric] change_def by simp
  have frame: "only_counters d (update_counter k f d1)" for k f
    by (rule only_counters_trans [of d d1]) (use row in simp_all)
  show ?thesis
  proof (cases "target_from_baseline i baseline \<le> 0 \<or> target_from_baseline i baseline \<le> prm_allocated_reuses c")
    case True
    with cases have "slot = None" and d': "d' = update_counter (prm_id c) change d1" by simp_all
    with row key frame show ?thesis by (simp add: unique_after_update allocated_kept)
  next
    case False
    define f :: "profile_reuse_monthly_counter \<Rightarrow> profile_reuse_monthly_counter"
      where "f = (\<lambda>x. (change x)\<lparr>prm_allocated_reuses := prm_allocated_reuses c + 1\<rparr>)"
    have f: "prm_id (f x) = prm_id x" "prm_allocated_reuses (f x) = prm_allocated_reuses c + 1"
      "prm_target_reuses (f x) = target_from_baseline i baseline"
      "prm_baseline_attempts (f x) = baseline" for x
      by (simp_all add: f_def change_def)
    from False cases have slot: "slot = Some (prm_id c)" and d': "d' = update_counter (prm_id c) f d1"
      by (simp_all add: f_def)
    have stored: "row_by_pk prm_id (prm_id c) (monthly_counters d1) = Some c" using row by simp
    have "allocated_of d' j = (if j = prm_id c then prm_allocated_reuses c + 1 else allocated_of d1 j)"
      unfolding d' by (rule allocated_set [OF f(1,2) stored])
    moreover have "target_of d' (prm_id c) = target_from_baseline i baseline"
      using stored f by (simp add: d' target_of_def row_by_pk_update)
    moreover have "row_by_pk prm_id (prm_id c) (monthly_counters d') = Some (f c)"
      using stored f by (simp add: d' row_by_pk_update)
    ultimately show ?thesis using row False f frame slot d' by (auto simp: unique_after_update)
  qed
qed

lemma claim_month_slot_frame:
  assumes "claim_month_slot local_date local_midnight d i now = (slot, d')"
  shows "only_counters d d'"
proof -
  have made: "only_counters d d1" if "get_or_create_counter d k period now = (c, created, d1)" for k period c created d1
    using that by (auto simp: get_or_create_counter_def only_counters_def Let_def split: option.splits)
  show ?thesis
    using assms made only_counters_trans [OF _ only_counters_simps(1)]
    by (auto simp: claim_month_slot_def Let_def split: prod.splits if_splits)
qed

end
