(* ===== verification/Reuse_Lifecycle.thy ===== *)
theory Reuse_Lifecycle
  imports Reuse_Budget
begin

text \<open>
  Journeys that look for a reusable profile at the same time.  Every transaction of
  \<open>maybe_assign_reusable_profile\<close> is one step of \<open>reuse_step\<close>; between two steps of a journey any
  other journey may move, and the rest of the platform may change everything except the tables
  only this component writes.  A phase records what the journey's process has in its variables.
\<close>

record journey =
  jn_attempt :: survey_attempt
  jn_integration :: client_integration
  jn_client_code :: string
  jn_signature :: profile_signature

datatype reuse_phase =
    Waiting
  | Searching pk "string list" nat
  | Holding pk prescreener_submission "timestamp option" "string list" nat
  | Undoing pk string "timestamp option" "string list" nat
  | Recorded pk profile_reuse_event string
  | Granted pk profile_reuse_event
  | Ended

record reuse_system =
  sys_db :: db
  sys_vault :: vault
  sys_phase :: "nat \<Rightarrow> reuse_phase"

definition move :: "nat \<Rightarrow> reuse_phase \<Rightarrow> db \<Rightarrow> vault \<Rightarrow> reuse_system \<Rightarrow> reuse_system" where
  "move w p d v s = s\<lparr>sys_db := d, sys_vault := v, sys_phase := (sys_phase s)(w := p)\<rparr>"

lemma move_simps [simp]:
  "sys_db (move w p d v s) = d" "sys_vault (move w p d v s) = v"
  "sys_phase (move w p d v s) = (sys_phase s)(w := p)"
  by (simp_all add: move_def)

definition environment_step :: "db \<Rightarrow> db \<Rightarrow> bool" where
  "environment_step d d' =
     (monthly_counters d' = monthly_counters d \<and> reuse_events d' = reuse_events d
      \<and> project_usages d' = project_usages d)"

inductive reuse_step ::
  "(timestamp \<Rightarrow> date) \<Rightarrow> (date \<Rightarrow> timestamp) \<Rightarrow> (nat \<Rightarrow> journey) \<Rightarrow> reuse_system \<Rightarrow> reuse_system \<Rightarrow> bool"
  for ld lm J where
  claim: "sys_phase s w = Waiting \<Longrightarrow>
    claim_month_slot ld lm (sys_db s) (jn_integration (J w)) now = (Some k, d') \<Longrightarrow>
    reuse_step ld lm J s (move w (Searching k [] 5) d' (sys_vault s) s)"
| refuse: "sys_phase s w = Waiting \<Longrightarrow>
    claim_month_slot ld lm (sys_db s) (jn_integration (J w)) now = (None, d') \<Longrightarrow>
    reuse_step ld lm J s (move w Ended d' (sys_vault s) s)"
| reserve: "sys_phase s w = Searching k excluded (Suc n) \<Longrightarrow>
    reserve_vault_profile ld (sys_db s) (sys_vault s) (jn_attempt (J w)) (jn_integration (J w))
      (jn_client_code (J w)) (jn_signature (J w)) excluded locked now = Some (c, previous, v') \<Longrightarrow>
    reuse_step ld lm J s (move w (Holding k c previous excluded n) (sys_db s) v' s)"
| none_left: "sys_phase s w = Searching k excluded (Suc n) \<Longrightarrow>
    reserve_vault_profile ld (sys_db s) (sys_vault s) (jn_attempt (J w)) (jn_integration (J w))
      (jn_client_code (J w)) (jn_signature (J w)) excluded locked now = None \<Longrightarrow>
    reuse_step ld lm J s (move w Ended (release_month_slot k (sys_db s)) (sys_vault s) s)"
| exhausted: "sys_phase s w = Searching k excluded 0 \<Longrightarrow>
    reuse_step ld lm J s (move w Ended (release_month_slot k (sys_db s)) (sys_vault s) s)"
| commit: "sys_phase s w = Holding k c previous excluded n \<Longrightarrow>
    commit_reuse (sys_db s) (jn_attempt (J w)) (jn_integration (J w)) c (jn_signature (J w))
      (reuse_pool_of c) now created = Inr (e, d') \<Longrightarrow>
    reuse_step ld lm J s (move w (Recorded k e (reuse_pool_of c)) d' (sys_vault s) s)"
| conflict: "sys_phase s w = Holding k c previous excluded n \<Longrightarrow>
    commit_reuse (sys_db s) (jn_attempt (J w)) (jn_integration (J w)) c (jn_signature (J w))
      (reuse_pool_of c) now created = Inl err \<Longrightarrow> is_conflict err \<Longrightarrow>
    reuse_step ld lm J s (move w (Undoing k (ps_uid c) previous excluded n) (sys_db s) (sys_vault s) s)"
| failure: "sys_phase s w = Holding k c previous excluded n \<Longrightarrow>
    commit_reuse (sys_db s) (jn_attempt (J w)) (jn_integration (J w)) c (jn_signature (J w))
      (reuse_pool_of c) now created = Inl err \<Longrightarrow> \<not> is_conflict err \<Longrightarrow>
    reuse_step ld lm J s (move w Ended (release_month_slot k (sys_db s)) (sys_vault s) s)"
| undo: "sys_phase s w = Undoing k uid previous excluded n \<Longrightarrow>
    reuse_step ld lm J s (move w (Searching k (uid # excluded) n) (sys_db s)
      (undo_vault_reservation uid previous (sys_vault s)) s)"
| mark: "sys_phase s w = Recorded k e pool \<Longrightarrow>
    reuse_step ld lm J s (move w (Granted k e) (mark_pool k pool (sys_db s)) (sys_vault s) s)"
| environment: "environment_step (sys_db s) d' \<Longrightarrow>
    reuse_step ld lm J s (s\<lparr>sys_db := d', sys_vault := v'\<rparr>)"

inductive reuse_run ::
  "(timestamp \<Rightarrow> date) \<Rightarrow> (date \<Rightarrow> timestamp) \<Rightarrow> (nat \<Rightarrow> journey) \<Rightarrow> reuse_system \<Rightarrow> reuse_system \<Rightarrow> bool"
  for ld lm J where
  start: "reuse_run ld lm J s s"
| step: "reuse_run ld lm J s s' \<Longrightarrow> reuse_step ld lm J s' s'' \<Longrightarrow> reuse_run ld lm J s s''"

section \<open>What a committed reuse adds\<close>

definition event_project :: "profile_reuse_event \<Rightarrow> pk \<times> pk \<times> string" where
  "event_project e = (pre_integration e, pre_survey e, pre_reused_uid e)"

definition usage_project :: "profile_reuse_project_usage \<Rightarrow> pk \<times> pk \<times> string" where
  "usage_project u = (pru_integration u, pru_survey u, pru_reused_uid u)"

text \<open>Every event has its permanent project lock, and no attempt has two events.\<close>

definition reuse_history_ok :: "db \<Rightarrow> bool" where
  "reuse_history_ok d =
     (unique_by usage_project (project_usages d) \<and> unique_by event_project (reuse_events d)
      \<and> unique_by pre_attempt (reuse_events d)
      \<and> event_project ` set (reuse_events d) \<subseteq> usage_project ` set (project_usages d))"

lemma locked_state_frame:
  "locked_state d i c now = (x, d') \<Longrightarrow>
   reuse_events d' = reuse_events d \<and> project_usages d' = project_usages d
   \<and> monthly_counters d' = monthly_counters d \<and> attempts d' = attempts d \<and> surveys d' = surveys d"
  by (auto simp: locked_state_def Let_def split: option.splits)

lemma usage_exists_iff:
  "usage_exists d i sv uid \<longleftrightarrow> (i, sv, uid) \<in> usage_project ` set (project_usages d)"
  by (auto simp: usage_exists_def list_ex_iff usage_project_def image_iff)

lemma record_reuse_tables [simp]:
  "reuse_events (record_reuse d a i c x e now created) = reuse_events d @ [e]"
  "project_usages (record_reuse d a i c x e now created)
     = project_usages d @ [new_usage d a i (ps_uid c) created]"
  "monthly_counters (record_reuse d a i c x e now created) = monthly_counters d"
  "attempts (record_reuse d a i c x e now created) =
     update_where (\<lambda>b. at_id b = at_id a)
       (\<lambda>b. b\<lparr>at_provider_profile_uid := ps_uid c, at_updated_at := now\<rparr>) (attempts d)"
  by (simp_all add: record_reuse_def update_attempts_def)

lemma commit_reuse_cases:
  assumes "commit_reuse d a i c sg pool now created = Inr (e, d')"
  obtains row x d1 where "get_attempt d (at_id a) = Some row" "locked_state d i c now = (x, d1)"
    "reuse_conflict d1 a i c x row now = None" "e = new_event d1 a i c sg pool created"
    "d' = record_reuse d1 a i c x e now created" "at_prescreener_uid a \<noteq> None"
  using assms
  by (auto simp: commit_reuse_def Let_def split: option.splits prod.splits if_splits)

lemma commit_reuse_adds:
  assumes "commit_reuse d a i c sg pool now created = Inr (e, d')"
  shows "monthly_counters d' = monthly_counters d" and "reuse_events d' = reuse_events d @ [e]"
    and "map usage_project (project_usages d')
      = map usage_project (project_usages d) @ [(ci_id i, at_survey a, ps_uid c)]"
    and "event_project e = (ci_id i, at_survey a, ps_uid c)" and "pre_attempt e = at_id a"
    and "(ci_id i, at_survey a, ps_uid c) \<notin> usage_project ` set (project_usages d)"
    and "at_id a \<notin> pre_attempt ` set (reuse_events d)"
proof -
  from assms obtain row x d1 where *: "locked_state d i c now = (x, d1)"
    "reuse_conflict d1 a i c x row now = None" "e = new_event d1 a i c sg pool created"
    "d' = record_reuse d1 a i c x e now created"
    by (rule commit_reuse_cases)
  note frame = locked_state_frame [OF *(1)]
  from *(2) have free: "\<not> usage_exists d1 (ci_id i) (at_survey a) (ps_uid c)"
    "\<not> list_ex (\<lambda>e. pre_attempt e = at_id a) (reuse_events d1)"
    by (auto simp: reuse_conflict_def split: if_splits)
  show "monthly_counters d' = monthly_counters d" "reuse_events d' = reuse_events d @ [e]"
    "map usage_project (project_usages d')
      = map usage_project (project_usages d) @ [(ci_id i, at_survey a, ps_uid c)]"
    using frame by (simp_all add: *(4) new_usage_def usage_project_def)
  show "event_project e = (ci_id i, at_survey a, ps_uid c)" "pre_attempt e = at_id a"
    by (simp_all add: *(3) new_event_def event_project_def)
  show "(ci_id i, at_survey a, ps_uid c) \<notin> usage_project ` set (project_usages d)"
    "at_id a \<notin> pre_attempt ` set (reuse_events d)"
    using free frame by (auto simp: usage_exists_iff list_ex_iff)
qed

lemma commit_keeps_history:
  assumes "commit_reuse d a i c sg pool now created = Inr (e, d')" and "reuse_history_ok d"
  shows "reuse_history_ok d'"
proof -
  note adds = commit_reuse_adds [OF assms(1)]
  have usages: "usage_project ` set (project_usages d')
      = insert (ci_id i, at_survey a, ps_uid c) (usage_project ` set (project_usages d))"
    using arg_cong [OF adds(3), of set] by auto
  have "(ci_id i, at_survey a, ps_uid c) \<notin> event_project ` set (reuse_events d)"
    using adds(6) assms(2) by (auto simp: reuse_history_ok_def)
  then show ?thesis
    using assms(2) adds usages unfolding reuse_history_ok_def unique_by_def
    by (auto simp: adds(2,3))
qed

section \<open>The invariant\<close>

fun slot_of :: "reuse_phase \<Rightarrow> pk option" where
  "slot_of Waiting = None"
| "slot_of (Searching k _ _) = Some k"
| "slot_of (Holding k _ _ _ _) = Some k"
| "slot_of (Undoing k _ _ _ _) = Some k"
| "slot_of (Recorded k _ _) = Some k"
| "slot_of (Granted k _) = Some k"
| "slot_of Ended = None"

definition holders :: "reuse_system \<Rightarrow> pk \<Rightarrow> nat set" where
  "holders s k = {w. slot_of (sys_phase s w) = Some k}"

fun event_of_phase :: "reuse_phase \<Rightarrow> profile_reuse_event option" where
  "event_of_phase (Recorded _ e _) = Some e"
| "event_of_phase (Granted _ e) = Some e"
| "event_of_phase _ = None"

definition reuse_inv :: "(pk \<Rightarrow> nat) \<Rightarrow> (nat \<Rightarrow> journey) \<Rightarrow> reuse_system \<Rightarrow> bool" where
  "reuse_inv base J s =
     (unique_by prm_id (monthly_counters (sys_db s)) \<and> reuse_history_ok (sys_db s)
      \<and> (\<forall>k. finite (holders s k) \<and> allocated_of (sys_db s) k = base k + card (holders s k))
      \<and> (\<forall>w e. event_of_phase (sys_phase s w) = Some e \<longrightarrow>
            e \<in> set (reuse_events (sys_db s)) \<and> pre_attempt e = at_id (jn_attempt (J w))))"

lemma holders_move:
  "holders (move w p d v s) k =
     (if slot_of p = Some k then insert w (holders s k) else holders s k - {w})"
  by (auto simp: holders_def)

lemma holders_same:
  "slot_of p = slot_of (sys_phase s w) \<Longrightarrow> holders (move w p d v s) k = holders s k"
  by (auto simp: holders_def)

lemma allocated_of_cong: "monthly_counters d' = monthly_counters d \<Longrightarrow> allocated_of d' k = allocated_of d k"
  by (simp add: allocated_of_def)

lemma reuse_history_cong:
  "reuse_events d' = reuse_events d \<Longrightarrow> project_usages d' = project_usages d \<Longrightarrow>
   reuse_history_ok d' = reuse_history_ok d"
  by (simp add: reuse_history_ok_def)

text \<open>A step that moves a journey to a phase with the same slot and leaves the counters alone.\<close>

lemma reuse_inv_move:
  assumes inv: "reuse_inv base J s" and slot: "slot_of p = slot_of (sys_phase s w)"
    and same: "monthly_counters d' = monthly_counters (sys_db s)" and hist: "reuse_history_ok d'"
    and kept: "set (reuse_events (sys_db s)) \<subseteq> set (reuse_events d')"
    and new: "\<forall>e. event_of_phase p = Some e \<longrightarrow> e \<in> set (reuse_events d') \<and> pre_attempt e = at_id (jn_attempt (J w))"
  shows "reuse_inv base J (move w p d' v' s)"
  using inv new kept
  by (auto simp: reuse_inv_def holders_same [OF slot] same hist allocated_of_cong [OF same])

lemma reuse_inv_stay:
  assumes inv: "reuse_inv base J s" and "slot_of p = slot_of (sys_phase s w)" "event_of_phase p = None"
  shows "reuse_inv base J (move w p (sys_db s) v' s)"
  by (rule reuse_inv_move [OF inv]) (use assms in \<open>simp_all add: reuse_inv_def\<close>)

lemma reuse_inv_release:
  assumes inv: "reuse_inv base J s" and slot: "slot_of (sys_phase s w) = Some k"
  shows "reuse_inv base J (move w Ended (release_month_slot k (sys_db s)) v' s)"
proof -
  have mem: "w \<in> holders s k" using slot by (simp add: holders_def)
  have frame: "only_counters (sys_db s) (release_month_slot k (sys_db s))" by simp
  note frames = only_counters_frame [OF frame]
  have card: "finite (holders (move w Ended d' v' s) j)
      \<and> allocated_of (release_month_slot k (sys_db s)) j
        = base j + card (holders (move w Ended d' v' s) j)" for j d'
  proof -
    from inv have fin: "finite (holders s j)" and alloc: "allocated_of (sys_db s) j = base j + card (holders s j)"
      by (auto simp: reuse_inv_def)
    show ?thesis
    proof (cases "j = k")
      case True
      with mem fin have "0 < card (holders s j)" by (auto simp: card_gt_0_iff)
      with True mem fin alloc show ?thesis by (simp add: allocated_release holders_move)
    next
      case False
      then have "w \<notin> holders s j" using slot by (simp add: holders_def)
      with False fin alloc show ?thesis by (simp add: allocated_release holders_move)
    qed
  qed
  have "unique_by prm_id (monthly_counters (release_month_slot k (sys_db s)))"
    using inv by (simp add: reuse_inv_def release_month_slot_def unique_after_update)
  then show ?thesis
    using inv card by (auto simp: reuse_inv_def frames reuse_history_cong [OF frames(1,2)])
qed

lemma reuse_inv_claim:
  assumes inv: "reuse_inv base J s" and phase: "sys_phase s w = Waiting"
    and claim: "claim_month_slot ld lm (sys_db s) i now = (slot, d')"
    and p: "slot_of p = slot" "event_of_phase p = None"
  shows "reuse_inv base J (move w p d' v' s)"
proof -
  have unique: "unique_by prm_id (monthly_counters (sys_db s))" using inv by (simp add: reuse_inv_def)
  note row = claim_month_slot_row [OF claim unique]
  note frames = only_counters_frame [of "sys_db s" d']
  have "w \<notin> holders s k" for k using phase by (simp add: holders_def)
  then have card: "finite (holders (move w p d' v' s) k)
      \<and> allocated_of d' k = base k + card (holders (move w p d' v' s) k)" for k
    using inv row p(1) by (auto simp: reuse_inv_def holders_move)
  show ?thesis
    using inv row p(2) card unfolding reuse_inv_def
    by (auto simp: frames reuse_history_cong [OF frames(1,2)])
qed

lemma reuse_step_inv:
  assumes "reuse_step ld lm J s s'" and inv: "reuse_inv base J s"
  shows "reuse_inv base J s'"
  using assms(1)
proof (cases rule: reuse_step.cases)
  case (claim w now k d')
  then show ?thesis using reuse_inv_claim [OF inv claim(2,3)] by simp
next
  case (refuse w now d')
  then show ?thesis using reuse_inv_claim [OF inv refuse(2,3)] by simp
next
  case (commit w k c previous excluded n now created e d')
  note adds = commit_reuse_adds [OF commit(3)]
  have "reuse_history_ok d'"
    using commit_keeps_history [OF commit(3)] inv by (simp add: reuse_inv_def)
  then show ?thesis unfolding commit(1)
    by (intro reuse_inv_move [OF inv]) (auto simp: commit(2) adds)
next
  case (mark w k e pool)
  have frame: "only_counters (sys_db s) (mark_pool k pool (sys_db s))" by simp
  note frames = only_counters_frame [OF frame]
  have "unique_by prm_id (monthly_counters (mark_pool k pool (sys_db s)))"
    using inv by (simp add: reuse_inv_def mark_pool_def unique_after_update)
  moreover have "holders s' k' = holders s k'" for k'
    unfolding mark(1) by (rule holders_same) (simp add: mark(2))
  moreover have "event_of_phase (sys_phase s w) = Some e" using mark(2) by simp
  ultimately show ?thesis
    using inv unfolding mark(1) reuse_inv_def
    by (auto simp: frames reuse_history_cong [OF frames(1,2)] split: if_splits)
next
  case (environment d' v')
  then have same: "monthly_counters d' = monthly_counters (sys_db s)"
    "reuse_events d' = reuse_events (sys_db s)" "project_usages d' = project_usages (sys_db s)"
    by (simp_all add: environment_step_def)
  have "holders s' k = holders s k" for k by (simp add: environment(1) holders_def)
  then show ?thesis
    using inv unfolding environment(1) reuse_inv_def
    by (simp add: same reuse_history_cong [OF same(2,3)] allocated_of_cong [OF same(1)])
qed (auto intro!: reuse_inv_stay [OF inv] reuse_inv_release [OF inv])

lemma reuse_run_inv: "reuse_run ld lm J s s' \<Longrightarrow> reuse_inv base J s \<Longrightarrow> reuse_inv base J s'"
  by (induction rule: reuse_run.induct) (auto intro: reuse_step_inv)

definition all_waiting :: "reuse_system \<Rightarrow> bool" where
  "all_waiting s = (\<forall>w. sys_phase s w = Waiting)"

lemma reuse_inv_start:
  assumes "all_waiting s" and "unique_by prm_id (monthly_counters (sys_db s))"
    and "reuse_history_ok (sys_db s)"
  shows "reuse_inv (allocated_of (sys_db s)) J s"
  using assms by (simp add: reuse_inv_def all_waiting_def holders_def)

end
