(* ===== verification/Reuse_Properties.thy ===== *)
theory Reuse_Properties
  imports Reuse_Lifecycle Reuse_Samples
begin

text \<open>
  Properties of profile reuse: under any interleaving the budget counts exactly the journeys that
  hold or used a slot and no profile reaches one project twice; the sequential function is a run
  of the interleaved system; and a granted profile satisfies every rule of the policy.
\<close>

section \<open>Budget and project locks under interleaving\<close>

definition at_rest :: "reuse_phase \<Rightarrow> bool" where
  "at_rest p = (case p of Waiting \<Rightarrow> True | Granted _ _ \<Rightarrow> True | Ended \<Rightarrow> True | _ \<Rightarrow> False)"

lemma slot_of_at_rest: "at_rest p \<Longrightarrow> slot_of p = Some k \<longleftrightarrow> (\<exists>e. p = Granted k e)"
  by (cases p) (auto simp: at_rest_def)

text \<open>C21: However the transactions of concurrent journeys interleave, a month's counter stands at
  its starting value plus one for every journey that holds one of its slots; once all journeys
  are at rest these are exactly the journeys that were granted a profile, each with its own
  audit event.  No slot is lost by a conflict, an empty shortlist or a failure.\<close>

theorem reuse_slots_accounted:
  assumes "reuse_run ld lm J s0 s" and "all_waiting s0"
    and "unique_by prm_id (monthly_counters (sys_db s0))" and "reuse_history_ok (sys_db s0)"
  shows "allocated_of (sys_db s) k = allocated_of (sys_db s0) k + card (holders s k)
    \<and> ((\<forall>w. at_rest (sys_phase s w)) \<longrightarrow>
        holders s k = {w. \<exists>e. sys_phase s w = Granted k e})
    \<and> (\<forall>w e. sys_phase s w = Granted k e \<longrightarrow>
        e \<in> set (reuse_events (sys_db s)) \<and> pre_attempt e = at_id (jn_attempt (J w)))"
proof -
  have inv: "reuse_inv (allocated_of (sys_db s0)) J s"
    using reuse_run_inv [OF assms(1) reuse_inv_start [OF assms(2-4)]] .
  have "e \<in> set (reuse_events (sys_db s)) \<and> pre_attempt e = at_id (jn_attempt (J w))"
    if "sys_phase s w = Granted k e" for w e
  proof -
    have "event_of_phase (sys_phase s w) = Some e" using that by simp
    with inv show ?thesis unfolding reuse_inv_def by blast
  qed
  then show ?thesis
    using inv by (simp add: reuse_inv_def holders_def slot_of_at_rest)
qed

text \<open>C26: In every state such a system reaches, no project has received the same profile twice for
  one integration and no journey has two reuse events: the permanent project lock is effective
  for all interleavings.\<close>

theorem reused_once_per_project:
  assumes "reuse_run ld lm J s0 s" and "all_waiting s0"
    and "unique_by prm_id (monthly_counters (sys_db s0))" and "reuse_history_ok (sys_db s0)"
    and "e1 \<in> set (reuse_events (sys_db s))" and "e2 \<in> set (reuse_events (sys_db s))"
    and "pre_attempt e1 = pre_attempt e2
      \<or> pre_integration e1 = pre_integration e2 \<and> pre_survey e1 = pre_survey e2
        \<and> pre_reused_uid e1 = pre_reused_uid e2"
  shows "e1 = e2"
proof -
  have "reuse_history_ok (sys_db s)"
    using reuse_run_inv [OF assms(1) reuse_inv_start [OF assms(2-4)]] by (simp add: reuse_inv_def)
  then have "inj_on event_project (set (reuse_events (sys_db s)))"
    "inj_on pre_attempt (set (reuse_events (sys_db s)))"
    by (simp_all add: reuse_history_ok_def unique_by_def distinct_map)
  with assms(5-7) inj_onD [of event_project _ e1 e2] inj_onD [of pre_attempt _ e1 e2]
  show ?thesis by (auto simp: event_project_def)
qed

text \<open>A slot is granted only within the configured percentage of the month's baseline, and a
  refusal leaves every count as it was.\<close>

theorem claim_within_percentage:
  assumes "claim_month_slot ld lm d i now = (slot, d')" and "unique_by prm_id (monthly_counters d)"
  shows "(\<forall>j. allocated_of d' j = allocated_of d j + (if slot = Some j then 1 else 0))
    \<and> (\<forall>k. slot = Some k \<longrightarrow>
        (\<exists>c \<in> set (monthly_counters d'). prm_id c = k
           \<and> of_nat (prm_allocated_reuses c) * 100
              \<le> of_nat (prm_baseline_attempts c) * ci_profile_reuse_monthly_percentage i))"
proof -
  note row = claim_month_slot_row [OF assms]
  have "\<exists>c \<in> set (monthly_counters d'). prm_id c = k
           \<and> of_nat (prm_allocated_reuses c) * 100
              \<le> of_nat (prm_baseline_attempts c) * ci_profile_reuse_monthly_percentage i"
    if slot: "slot = Some k" for k
  proof -
    have grown: "1 \<le> allocated_of d' k" "allocated_of d' k \<le> target_of d' k" using row [of k] slot by auto
    then obtain c where c: "row_by_pk prm_id k (monthly_counters d') = Some c"
      by (cases "row_by_pk prm_id k (monthly_counters d')") (auto simp: allocated_of_def)
    have target: "prm_target_reuses c = target_from_baseline i (prm_baseline_attempts c)"
      using row [of k] slot c by blast
    let ?x = "of_nat (prm_baseline_attempts c) * ci_profile_reuse_monthly_percentage i / 100"
    have le: "1 \<le> prm_allocated_reuses c" "prm_allocated_reuses c \<le> nat \<lfloor>?x\<rfloor>"
      using grown c target by (simp_all add: allocated_of_def target_of_def target_from_baseline_def)
    then have "int (prm_allocated_reuses c) \<le> \<lfloor>?x\<rfloor>" by linarith
    then have "of_int (int (prm_allocated_reuses c)) \<le> ?x" by (simp only: le_floor_iff)
    then have "of_nat (prm_allocated_reuses c) * 100
        \<le> of_nat (prm_baseline_attempts c) * ci_profile_reuse_monthly_percentage i"
      by (simp add: field_simps)
    with c show ?thesis by (auto dest: row_by_pk_Some)
  qed
  with row show ?thesis by blast
qed

section \<open>The sequential function as a run\<close>

lemma move_move [simp]: "move w p d v (move w q d' v' s) = move w p d v s"
  by (simp add: move_def)

lemma move_self: "sys_phase s w = p \<Longrightarrow> move w p (sys_db s) (sys_vault s) s = s"
  by (simp add: move_def fun_upd_idem)

fun phase_of_result :: "pk \<Rightarrow> py_error + profile_reuse_event option \<Rightarrow> reuse_phase" where
  "phase_of_result k (Inr (Some e)) = Granted k e"
| "phase_of_result k (Inr None) = Ended"
| "phase_of_result k (Inl _) = Ended"

lemma reuse_rounds_run:
  assumes "reuse_rounds ld clock locked (jn_attempt (J w)) (jn_integration (J w)) (jn_client_code (J w))
      (jn_signature (J w)) k n t excluded d v = (d', v', r)"
    and "reuse_run ld lm J s0 (move w (Searching k excluded n) d v s)"
  shows "reuse_run ld lm J s0 (move w (phase_of_result k r) d' v' s)"
  using assms
proof (induction n arbitrary: t excluded d v)
  case 0
  then have "reuse_step ld lm J (move w (Searching k excluded 0) d v s) (move w Ended d' v' s)"
    using reuse_step.exhausted [of "move w (Searching k excluded 0) d v s" w k excluded ld lm J] by auto
  with 0 show ?case by (auto intro: reuse_run.step)
next
  case (Suc n)
  let ?s = "move w (Searching k excluded (Suc n)) d v s"
  show ?case
  proof (cases "reserve_vault_profile ld d v (jn_attempt (J w)) (jn_integration (J w))
      (jn_client_code (J w)) (jn_signature (J w)) excluded (locked t) (clock t)")
    case None
    with Suc.prems(1) have r: "r = Inr None" "d' = release_month_slot k d" "v' = v" by simp_all
    have "reuse_step ld lm J ?s (move w Ended d' v' s)"
      using reuse_step.none_left [of ?s w k excluded n ld J "locked t" "clock t" lm] None r by simp
    with Suc.prems(2) r show ?thesis by (auto intro: reuse_run.step)
  next
    case (Some x)
    obtain c previous v1 where x: "x = (c, previous, v1)" by (cases x)
    let ?h = "move w (Holding k c previous excluded n) d v1 s"
    have "reuse_step ld lm J ?s ?h"
      using reuse_step.reserve [of ?s w k excluded n ld J "locked t" "clock t" c previous v1 lm] Some x
      by simp
    with Suc.prems(2) have held: "reuse_run ld lm J s0 ?h" by (rule reuse_run.step)
    show ?thesis
    proof (cases "commit_reuse d (jn_attempt (J w)) (jn_integration (J w)) c (jn_signature (J w))
        (reuse_pool_of c) (clock (t + 1)) (clock (t + 2))")
      case (Inr y)
      obtain e d1 where y: "y = (e, d1)" by (cases y)
      let ?m = "move w (Recorded k e (reuse_pool_of c)) d1 v1 s"
      have "reuse_step ld lm J ?h ?m"
        using reuse_step.commit [of ?h w k c previous excluded n J "clock (t + 1)" "clock (t + 2)" e d1 ld lm]
          Inr y by simp
      with held have "reuse_run ld lm J s0 ?m" by (rule reuse_run.step)
      moreover have "reuse_step ld lm J ?m (move w (Granted k e) (mark_pool k (reuse_pool_of c) d1) v1 s)"
        using reuse_step.mark [of ?m w k e "reuse_pool_of c" ld lm J] by simp
      ultimately have "reuse_run ld lm J s0 (move w (Granted k e) (mark_pool k (reuse_pool_of c) d1) v1 s)"
        by (rule reuse_run.step)
      with Suc.prems(1) Some x Inr y show ?thesis by auto
    next
      case (Inl err)
      show ?thesis
      proof (cases "is_conflict err")
        case True
        let ?u = "move w (Undoing k (ps_uid c) previous excluded n) d v1 s"
        have "reuse_step ld lm J ?h ?u"
          using reuse_step.conflict [of ?h w k c previous excluded n J "clock (t + 1)" "clock (t + 2)" err ld lm]
            Inl True by simp
        with held have "reuse_run ld lm J s0 ?u" by (rule reuse_run.step)
        moreover have "reuse_step ld lm J ?u (move w (Searching k (ps_uid c # excluded) n) d
            (undo_vault_reservation (ps_uid c) previous v1) s)"
          using reuse_step.undo [of ?u w k "ps_uid c" previous excluded n ld lm J] by simp
        ultimately have "reuse_run ld lm J s0 (move w (Searching k (ps_uid c # excluded) n) d
            (undo_vault_reservation (ps_uid c) previous v1) s)"
          by (rule reuse_run.step)
        with Suc.prems(1) Some x Inl True show ?thesis by (intro Suc.IH) simp_all
      next
        case False
        have "reuse_step ld lm J ?h (move w Ended (release_month_slot k d) v1 s)"
          using reuse_step.failure [of ?h w k c previous excluded n J "clock (t + 1)" "clock (t + 2)" err ld lm]
            Inl False by simp
        with held have "reuse_run ld lm J s0 (move w Ended (release_month_slot k d) v1 s)"
          by (rule reuse_run.step)
        with Suc.prems(1) Some x Inl False show ?thesis by auto
      qed
    qed
  qed
qed

text \<open>A journey without an event of its own is assigned by a run of the interleaved system in
  which only that journey moves: the sequential function adds no behaviour, so every property of
  the reachable states is a property of it.\<close>

theorem assignment_is_a_run:
  assumes "maybe_assign_reusable_profile ld lm enabled clock locked d v a s answers = (d', v', r)"
    and "\<not> list_ex (\<lambda>e. pre_attempt e = at_id a) (reuse_events d)"
    and "sys_db st = d" and "sys_vault st = v" and "sys_phase st w = Waiting"
    and "J w = \<lparr>jn_attempt = a, jn_integration = i, jn_client_code = code,
                jn_signature = profile_signature_of s reading\<rparr>"
    and "Option.bind (sv_integration s) (get_integration d) = Some i"
    and "question_snapshots ld d a s answers (clock 0) = Inr reading"
    and "client_code_of d i = Inr code"
  shows "\<exists>p. reuse_run ld lm J st (move w p d' v' st) \<and> (\<forall>e. r = Inr (Some e) \<longrightarrow> (\<exists>k. p = Granted k e))"
proof -
  have self: "move w Waiting d v st = st" using move_self [of st w Waiting] assms(3-5) by simp
  have no_event: "List.find (\<lambda>e. pre_attempt e = at_id a) (reuse_events d) = None"
    using assms(2) by (auto simp: find_None_iff list_ex_iff)
  show ?thesis
  proof (cases "enabled \<and> ci_profile_reuse_enabled i \<and> reusable_signature i (profile_signature_of s reading)")
    case False
    with assms(1,7,8) no_event have "d' = d" "v' = v" "r = Inr None"
      by (auto simp: maybe_assign_reusable_profile_def Let_def split: if_splits)
    with self show ?thesis by (metis reuse_run.start option.distinct(1) sum.inject(2))
  next
    case True
    obtain slot d1 where claim: "claim_month_slot ld lm d i (clock 1) = (slot, d1)"
      by (cases "claim_month_slot ld lm d i (clock 1)")
    show ?thesis
    proof (cases slot)
      case None
      with True assms(1,7,8) no_event claim have r: "d' = d1" "v' = v" "r = Inr None"
        by (auto simp: maybe_assign_reusable_profile_def Let_def)
      have "reuse_step ld lm J st (move w Ended d1 v st)"
        using reuse_step.refuse [of st w ld lm J "clock 1" d1] assms(3-6) claim None by simp
      with r show ?thesis by (metis reuse_run.start reuse_run.step option.distinct(1) sum.inject(2))
    next
      case (Some k)
      have "reuse_step ld lm J st (move w (Searching k [] 5) d1 v st)"
        using reuse_step.claim [of st w ld lm J "clock 1" k d1] assms(3-6) claim Some by simp
      then have claimed: "reuse_run ld lm J st (move w (Searching k [] 5) d1 v st)"
        by (rule reuse_run.step [OF reuse_run.start])
      have "clients d1 = clients d"
        using claim_month_slot_frame [OF claim] only_counters_frame(6) by blast
      then have "client_code_of d1 i = Inr code"
        using assms(9) by (simp add: client_code_of_def get_client_def)
      with True assms(1,7,8) no_event claim Some
      have "reuse_rounds ld clock locked a i code (profile_signature_of s reading) k 5 2 [] d1 v = (d', v', r)"
        by (simp add: maybe_assign_reusable_profile_def Let_def)
      then have "reuse_run ld lm J st (move w (phase_of_result k r) d' v' st)"
        using reuse_rounds_run [OF _ claimed] assms(6) by simp
      then show ?thesis by (intro exI [of _ "phase_of_result k r"]) auto
    qed
  qed
qed

section \<open>What a granted profile satisfies\<close>

lemma reserve_vault_profile_cases:
  assumes "reserve_vault_profile ld d v a i code sg excluded locked now = Some (c, previous, v')"
  obtains c0 used where "c0 \<in> set (submissions v)" "ps_uid c = ps_uid c0"
    "shortlisted i code (at_prescreener_uid a) sg excluded locked now c0"
    "eligible_candidate ld d i (at_survey a) sg used now c0"
    "v' = update_submission (ps_uid c0) (reserved_row sg now) v"
  using assms
  by (auto simp: reserve_vault_profile_def Let_def reserved_row_def split: option.splits
      dest!: find_SomeD in_set_takeD)

text \<open>What the vault transaction, at time \<open>t\<close>, demands of a row; what the operational transaction, at
  time \<open>t\<close>, demands of its UID; and a grant: both, in one round of the loop, with the event and the
  attempt's row that record it.  The last use is the one of the state row, or without such a row the
  newest event.\<close>

definition qualified_row ::
  "(timestamp \<Rightarrow> date) \<Rightarrow> db \<Rightarrow> survey_attempt \<Rightarrow> client_integration \<Rightarrow> string \<Rightarrow> profile_signature
   \<Rightarrow> timestamp \<Rightarrow> prescreener_submission \<Rightarrow> bool" where
  "qualified_row ld d a i code sg t c \<longleftrightarrow>
     ps_source_client_code c = code \<and> ps_country_code c = sg_country_code sg
     \<and> ps_respondent_gender c \<in> set (gender_values (sg_gender sg)) \<and> at_prescreener_uid a \<noteq> Some (ps_uid c)
     \<and> matches_all_requirements ld t c sg
     \<and> ps_submitted_at c + minutes (int (ci_profile_reuse_first_delay_minutes i)) \<le> t
     \<and> (\<forall>used. ps_last_reused_at c = Some used \<longrightarrow>
          used + minutes (int (ci_profile_reuse_min_interval_minutes i)) \<le> t)
     \<and> length (events_since d i (ps_uid c) (window_start i t)) < ci_profile_reuse_max_uses_per_window i"

definition last_use :: "db \<Rightarrow> client_integration \<Rightarrow> string \<Rightarrow> timestamp option" where
  "last_use d i uid =
     (case find_state d (ci_id i) uid of
        Some x \<Rightarrow> prs_last_reused_at x | None \<Rightarrow> latest_created (events_of_uid d i uid))"

definition free_uid :: "db \<Rightarrow> survey_attempt \<Rightarrow> client_integration \<Rightarrow> timestamp \<Rightarrow> string \<Rightarrow> bool" where
  "free_uid d a i t uid \<longleftrightarrow>
     \<not> uid_used_by_other d a uid \<and> \<not> usage_exists d (ci_id i) (at_survey a) uid
     \<and> (\<forall>used. last_use d i uid = Some used \<longrightarrow>
          used + minutes (int (ci_profile_reuse_min_interval_minutes i)) \<le> t)
     \<and> length (events_since d i uid (window_start i t)) < ci_profile_reuse_max_uses_per_window i"

definition granted_by ::
  "(timestamp \<Rightarrow> date) \<Rightarrow> (nat \<Rightarrow> timestamp) \<Rightarrow> nat \<Rightarrow> db \<Rightarrow> survey_attempt \<Rightarrow> client_integration \<Rightarrow> string
   \<Rightarrow> profile_signature \<Rightarrow> prescreener_submission \<Rightarrow> profile_reuse_event \<Rightarrow> db \<Rightarrow> bool" where
  "granted_by ld clock k d a i code sg c e d' \<longleftrightarrow>
     qualified_row ld d a i code sg (clock k) c \<and> free_uid d a i (clock (k + 1)) (ps_uid c)
     \<and> pre_reused_uid e = ps_uid c \<and> pre_attempt e = at_id a \<and> pre_created_at e = clock (k + 2)
     \<and> e \<in> set (reuse_events d')
     \<and> (\<exists>q. get_attempt d (at_id a) = Some q \<and> at_provider_profile_uid q = [])
     \<and> (\<exists>q. get_attempt d' (at_id a) = Some q \<and> at_provider_profile_uid q = ps_uid c)"

lemma locked_state_last_use: "locked_state d i c now = (x, d1) \<Longrightarrow> prs_last_reused_at x = last_use d i (ps_uid c)"
  by (auto simp: locked_state_def last_use_def Let_def split: option.splits)

lemma reserve_vault_profile_qualified:
  assumes "reserve_vault_profile ld d v a i code sg excluded locked now = Some (c, previous, v')"
  obtains c0 where "c0 \<in> set (submissions v)" "ps_uid c = ps_uid c0" "ps_uid c0 \<notin> set excluded"
    "qualified_row ld d a i code sg now c0" "v' = update_submission (ps_uid c0) (reserved_row sg now) v"
proof -
  from assms obtain c0 used where c0: "c0 \<in> set (submissions v)" "ps_uid c = ps_uid c0"
    "shortlisted i code (at_prescreener_uid a) sg excluded locked now c0"
    "eligible_candidate ld d i (at_survey a) sg used now c0"
    "v' = update_submission (ps_uid c0) (reserved_row sg now) v"
    by (rule reserve_vault_profile_cases)
  have "qualified_row ld d a i code sg now c0"
    using c0(3,4) by (auto simp: qualified_row_def shortlisted_def eligible_candidate_def le_diff_eq)
  moreover have "ps_uid c0 \<notin> set excluded" using c0(3) by (simp add: shortlisted_def)
  ultimately show thesis using that c0 by blast
qed

lemma commit_reuse_granted:
  assumes "commit_reuse d a i c sg pool now created = Inr (e, d')"
  shows "free_uid d a i now (ps_uid c)" and "pre_reused_uid e = ps_uid c" and "pre_created_at e = created"
    and "\<exists>q. get_attempt d (at_id a) = Some q \<and> at_provider_profile_uid q = []"
    and "\<exists>q. get_attempt d' (at_id a) = Some q \<and> at_provider_profile_uid q = ps_uid c"
proof -
  from assms obtain q x d1 where *: "get_attempt d (at_id a) = Some q"
    "locked_state d i c now = (x, d1)" "reuse_conflict d1 a i c x q now = None"
    "e = new_event d1 a i c sg pool created" "d' = record_reuse d1 a i c x e now created"
    by (rule commit_reuse_cases)
  note frame = locked_state_frame [OF *(2)]
  from *(3) have checks: "at_provider_profile_uid q = []" "\<not> uid_used_by_other d1 a (ps_uid c)"
    "\<not> usage_exists d1 (ci_id i) (at_survey a) (ps_uid c)"
    "length (events_since d1 i (ps_uid c) (window_start i now)) < ci_profile_reuse_max_uses_per_window i"
    "\<forall>used. prs_last_reused_at x = Some used \<longrightarrow> used + minutes (int (ci_profile_reuse_min_interval_minutes i)) \<le> now"
    by (auto simp: reuse_conflict_def split: if_splits option.splits)
  show "free_uid d a i now (ps_uid c)"
    using checks(2-5) frame unfolding locked_state_last_use [OF *(2)]
    by (simp add: free_uid_def uid_used_by_other_def usage_exists_def events_since_def)
  show "pre_reused_uid e = ps_uid c" "pre_created_at e = created" by (simp_all add: *(4) new_event_def)
  show "\<exists>q. get_attempt d (at_id a) = Some q \<and> at_provider_profile_uid q = []" using *(1) checks(1) by blast
  show "\<exists>q. get_attempt d' (at_id a) = Some q \<and> at_provider_profile_uid q = ps_uid c"
    using *(1) frame by (auto simp: *(5) get_attempt_def row_by_pk_update dest!: row_by_pk_Some)
qed

lemma commit_reuse_event:
  "commit_reuse d a i c sg pool now created = Inr (e, d') \<Longrightarrow> e \<in> set (reuse_events d') \<and> pre_attempt e = at_id a"
  by (simp add: commit_reuse_adds(2,5))

lemma granted_by_mark_pool [simp]:
  "granted_by ld clock k d a i code sg c e (mark_pool counter pool d') = granted_by ld clock k d a i code sg c e d'"
  by (simp add: granted_by_def get_attempt_def mark_pool_def update_counter_def)

lemma reuse_rounds_granted:
  assumes "reuse_rounds ld clock locked a i code sg counter n k excluded d v = (d', v', Inr (Some e))"
    and "\<forall>p \<in> set (submissions v). ps_uid p \<notin> set excluded \<longrightarrow> p \<in> S"
  shows "\<exists>m < n. \<exists>c \<in> S. granted_by ld clock (k + 3 * m) d a i code sg c e d'"
  using assms
proof (induction n arbitrary: k excluded v)
  case 0
  then show ?case by simp
next
  case (Suc n)
  from Suc.prems(1) obtain c previous v1 where
    reserve: "reserve_vault_profile ld d v a i code sg excluded (locked k) (clock k) = Some (c, previous, v1)"
    by (cases "reserve_vault_profile ld d v a i code sg excluded (locked k) (clock k)") auto
  then obtain c0 where c0: "c0 \<in> set (submissions v)" "ps_uid c = ps_uid c0" "ps_uid c0 \<notin> set excluded"
    "qualified_row ld d a i code sg (clock k) c0" "v1 = update_submission (ps_uid c0) (reserved_row sg (clock k)) v"
    by (rule reserve_vault_profile_qualified)
  show ?case
  proof (cases "commit_reuse d a i c sg (reuse_pool_of c) (clock (k + 1)) (clock (k + 2))")
    case (Inr y)
    obtain e1 d1 where y: "y = (e1, d1)" by (cases y)
    from Suc.prems(1) reserve Inr y have e: "e1 = e" and d': "d' = mark_pool counter (reuse_pool_of c) d1" by auto
    note commit = Inr [unfolded y e]
    have "c0 \<in> S" using c0 Suc.prems(2) by blast
    moreover have "granted_by ld clock k d a i code sg c0 e d1"
      unfolding granted_by_def
      using c0(2,4) commit_reuse_granted [OF commit] commit_reuse_event [OF commit] by simp
    ultimately show ?thesis unfolding d' by (intro exI [of _ 0]) auto
  next
    case (Inl err)
    let ?v = "undo_vault_reservation (ps_uid c) previous v1"
    have rest: "reuse_rounds ld clock locked a i code sg counter n (k + 3) (ps_uid c # excluded) d ?v
        = (d', v', Inr (Some e))"
      using Suc.prems(1) reserve Inl by (auto split: if_splits)
    have "\<forall>p \<in> set (submissions ?v). ps_uid p \<notin> set (ps_uid c # excluded) \<longrightarrow> p \<in> S"
      using Suc.prems(2) c0(2)
      by (auto simp: c0(5) undo_vault_reservation_def update_submission_def set_update_where reserved_row_def)
    from Suc.IH [OF rest this] obtain m c where "m < n" "c \<in> S" "granted_by ld clock (k + 3 + 3 * m) d a i code sg c e d'"
      by blast
    then show ?thesis by (intro exI [of _ "Suc m"]) (auto simp: algebra_simps)
  qed
qed

text \<open>C13: A profile granted to a journey satisfies the whole policy, in one of the five rounds.  At the
  moment of the vault transaction its row is of the journey's client, country and gender, is not the
  journey's own, answers every mapped requirement, is past the delay before a first reuse and past the
  minimum interval since the vault's last reuse, and has fewer events in the rolling window than the
  limit.  At the moment of the operational transaction no other journey and no recorded use of the
  project has its UID, the minimum interval since its last recorded use is over, and the window again
  has fewer events than the limit.  The event is recorded for the journey, and the UID is what the
  attempt, which had none, then sends to the provider.\<close>

theorem granted_profile_satisfies_policy:
  assumes "maybe_assign_reusable_profile ld lm enabled clock locked d v a s answers
      = (d', v', Inr (Some e))"
    and "\<not> list_ex (\<lambda>e. pre_attempt e = at_id a) (reuse_events d)"
  shows "\<exists>i code sg. Option.bind (sv_integration s) (get_integration d) = Some i \<and> enabled
    \<and> ci_profile_reuse_enabled i \<and> client_code_of d i = Inr code \<and> reusable_signature i sg
    \<and> (\<exists>reading. question_snapshots ld d a s answers (clock 0) = Inr reading
         \<and> sg = profile_signature_of s reading)
    \<and> (\<exists>n < 5. \<exists>c \<in> set (submissions v). granted_by ld clock (2 + 3 * n) d a i code sg c e d')"
proof -
  have no_event: "List.find (\<lambda>e. pre_attempt e = at_id a) (reuse_events d) = None"
    using assms(2) by (auto simp: find_None_iff list_ex_iff)
  from assms(1) no_event obtain i reading k d1 code where found:
    "Option.bind (sv_integration s) (get_integration d) = Some i" "enabled" "ci_profile_reuse_enabled i"
    "question_snapshots ld d a s answers (clock 0) = Inr reading"
    "reusable_signature i (profile_signature_of s reading)"
    "claim_month_slot ld lm d i (clock 1) = (Some k, d1)" "client_code_of d1 i = Inr code"
    and rounds: "reuse_rounds ld clock locked a i code (profile_signature_of s reading) k 5 2 [] d1 v
      = (d', v', Inr (Some e))"
    by (auto simp: maybe_assign_reusable_profile_def Let_def
        split: option.splits sum.splits prod.splits if_splits)
  have frame: "only_counters d d1" by (rule claim_month_slot_frame [OF found(6)])
  note frames = only_counters_frame [OF frame]
  have "last_use d1 i uid = last_use d i uid" for uid
    by (simp add: last_use_def find_state_def events_of_uid_def frames split: option.split)
  then have same: "granted_by ld clock n d1 a i code sg c e d' = granted_by ld clock n d a i code sg c e d'" for n sg c
    by (simp add: granted_by_def qualified_row_def free_uid_def uid_used_by_other_def usage_exists_def
        events_since_def get_attempt_def frames)
  have "client_code_of d i = Inr code"
    using found(7) by (simp add: client_code_of_def get_client_def frames)
  moreover obtain n c where "n < 5" "c \<in> set (submissions v)"
    "granted_by ld clock (2 + 3 * n) d1 a i code (profile_signature_of s reading) c e d'"
    using reuse_rounds_granted [OF rounds, of "set (submissions v)"] by auto
  ultimately show ?thesis using found same by blast
qed

section \<open>Witnesses\<close>

lemma sample_claim:
  "\<exists>d'. claim_month_slot sample_local_date sample_local_midnight reuse_db reuse_integration now = (Some 1, d')"
proof -
  have "integration_of_attempt reuse_db reuse_attempt = Some 81"
    by (simp add: integration_of_attempt_def get_survey_def row_by_pk_def)
  then have base: "monthly_baseline sample_local_date sample_local_midnight reuse_db reuse_integration now
      = ((2026, 8, 1), 1, 1, PREVIOUS_MONTH)"
    by (simp add: monthly_baseline_def calendar_bounds_def sample_local_date_def sample_local_midnight_def
        attempts_between_def)
  have "target_from_baseline reuse_integration 1 = 1"
    by (simp add: target_from_baseline_def reuse_integration_def)
  then show ?thesis
    by (simp add: claim_month_slot_def base get_or_create_counter_def find_counter_def Let_def
        fresh_counter_def next_pk_def)
qed

definition sample_system :: "db \<Rightarrow> reuse_system" where
  "sample_system d = \<lparr>sys_db = d, sys_vault = reuse_vault, sys_phase = (\<lambda>_. Waiting)\<rparr>"

definition sample_journey :: journey where
  "sample_journey = \<lparr>jn_attempt = reuse_attempt, jn_integration = reuse_integration,
     jn_client_code = ''acme'', jn_signature = sample_signature\<rparr>"

lemma sample_system_simps [simp]:
  "sys_db (sample_system d) = d" "sys_vault (sample_system d) = reuse_vault"
  "sys_phase (sample_system d) w = Waiting" "all_waiting (sample_system d)"
  by (simp_all add: sample_system_def all_waiting_def)

lemma unique_by_Nil [simp]: "unique_by key []"
  by (simp add: unique_by_def)

lemma reuse_db_history [simp]: "reuse_history_ok reuse_db"
  by (simp add: reuse_history_ok_def)

lemma bulk_status_is_single_status_witness:
  "map_of (profile_reuse_month_statuses sample_local_date sample_local_midnight reuse_db
      [reuse_integration] 5) 81
   = Some (profile_reuse_month_status sample_local_date sample_local_midnight reuse_db reuse_integration 5)"
  using bulk_status_is_single_status [of reuse_db "[reuse_integration]" sample_local_date
      sample_local_midnight 5 reuse_integration]
  by (simp add: monthly_counters_unique_def unique_by_def months_in_order_def calendar_bounds_def
      sample_local_date_def sample_local_midnight_def)

lemma claim_within_percentage_witness:
  "\<exists>d'. claim_month_slot sample_local_date sample_local_midnight reuse_db reuse_integration 5 = (Some 1, d')
     \<and> allocated_of d' 1 = 1"
proof -
  obtain d' where claim:
    "claim_month_slot sample_local_date sample_local_midnight reuse_db reuse_integration 5 = (Some 1, d')"
    using sample_claim by blast
  with claim_within_percentage [OF claim] show ?thesis
    by (auto simp: allocated_of_def row_by_pk_def)
qed

lemma reuse_slots_accounted_witness:
  "\<exists>s. reuse_run sample_local_date sample_local_midnight (\<lambda>_. sample_journey) (sample_system reuse_db) s
     \<and> allocated_of (sys_db s) 1 = allocated_of reuse_db 1 + card (holders s 1) \<and> 0 \<in> holders s 1"
proof -
  let ?s = "sample_system reuse_db"
  obtain d' where claim:
    "claim_month_slot sample_local_date sample_local_midnight reuse_db reuse_integration 5 = (Some 1, d')"
    using sample_claim by blast
  let ?t = "move 0 (Searching 1 [] 5) d' reuse_vault ?s"
  have "reuse_step sample_local_date sample_local_midnight (\<lambda>_. sample_journey) ?s ?t"
    using reuse_step.claim [of ?s 0 sample_local_date sample_local_midnight "\<lambda>_. sample_journey" 5 1 d'] claim
    by (simp add: sample_journey_def)
  then have run: "reuse_run sample_local_date sample_local_midnight (\<lambda>_. sample_journey) ?s ?t"
    by (rule reuse_run.step [OF reuse_run.start])
  have "allocated_of (sys_db ?t) 1 = allocated_of (sys_db ?s) 1 + card (holders ?t 1)"
    using reuse_slots_accounted [OF run] by simp
  with run show ?thesis by (intro exI [of _ ?t]) (auto simp: holders_def)
qed

definition sample_event :: profile_reuse_event where
  "sample_event = new_event reuse_db reuse_attempt reuse_integration reuse_candidate sample_signature
     FIRST_REUSE_POOL 0"

lemma reused_once_per_project_witness:
  "\<exists>d. reuse_run sample_local_date sample_local_midnight (\<lambda>_. sample_journey) (sample_system d) (sample_system d)
     \<and> sample_event \<in> set (reuse_events d) \<and> (\<forall>e \<in> set (reuse_events d).
          pre_attempt e = pre_attempt sample_event \<longrightarrow> e = sample_event)"
proof -
  let ?d = "reuse_db\<lparr>reuse_events := [sample_event],
    project_usages := [new_usage reuse_db reuse_attempt reuse_integration ''Bb22'' 0]\<rparr>"
  have run: "reuse_run sample_local_date sample_local_midnight (\<lambda>_. sample_journey) (sample_system ?d) (sample_system ?d)"
    by (rule reuse_run.start)
  have ok: "reuse_history_ok (sys_db (sample_system ?d))"
    by (simp add: reuse_history_ok_def unique_by_def event_project_def usage_project_def sample_event_def
        new_event_def new_usage_def)
  have "e = sample_event" if "e \<in> set (reuse_events ?d)" "pre_attempt e = pre_attempt sample_event" for e
    using reused_once_per_project [OF run _ _ ok, of e sample_event] that by (simp add: unique_by_def)
  with run show ?thesis by (intro exI [of _ ?d]) auto
qed

lemma sample_committed:
  "\<exists>e d'. commit_reuse d reuse_attempt reuse_integration (reserved_row sample_signature t reuse_candidate)
     sample_signature pool now created = Inr (e, d')"
  if "reuse_events d = []" "project_usages d = []" "attempts d = [reuse_attempt]" "reuse_states d = []"
  using that
  by (auto simp: commit_reuse_def get_attempt_def row_by_pk_def locked_state_def find_state_def Let_def
      events_of_uid_def latest_created_def reuse_conflict_def uid_used_by_other_def usage_exists_def
      events_since_def reserved_row_def reuse_integration_def)

lemma sample_granted:
  "\<exists>d' v' e. maybe_assign_reusable_profile sample_local_date sample_local_midnight True sample_clock
      (\<lambda>_ _. False) reuse_db reuse_vault reuse_attempt reuse_survey reuse_answers = (d', v', Inr (Some e))"
proof -
  obtain r where reading:
    "question_snapshots sample_local_date reuse_db reuse_attempt reuse_survey reuse_answers (sample_clock 0) = Inr r"
    "profile_signature_of reuse_survey r = sample_signature"
    using sample_reading by blast
  obtain d1 where claim:
    "claim_month_slot sample_local_date sample_local_midnight reuse_db reuse_integration (sample_clock 1) = (Some 1, d1)"
    using sample_claim by blast
  have frame: "only_counters reuse_db d1" by (rule claim_month_slot_frame [OF claim])
  note frames = only_counters_frame [OF frame]
  have found: "Option.bind (sv_integration reuse_survey) (get_integration reuse_db) = Some reuse_integration"
    by (simp add: get_integration_def row_by_pk_def)
  have policy: "ci_profile_reuse_enabled reuse_integration" "reusable_signature reuse_integration sample_signature"
    by (simp_all add: reuse_integration_def reusable_signature_def sample_signature_def AGE_GROUP_RANGES_def
        GENDER_ALIASES_def)
  have "py_lower (py_strip ''acme'') = ''acme''" by code_simp
  then have code: "client_code_of d1 reuse_integration = Inr ''acme''"
    by (simp add: client_code_of_def get_client_def row_by_pk_def frames sample_client_def)
  have tables: "reuse_events d1 = []" "project_usages d1 = []" "attempts d1 = [reuse_attempt]" "reuse_states d1 = []"
    by (simp_all add: frames)
  obtain e d2 where commit: "commit_reuse d1 reuse_attempt reuse_integration
      (reserved_row sample_signature (sample_clock 2) reuse_candidate) sample_signature
      (reuse_pool_of (reserved_row sample_signature (sample_clock 2) reuse_candidate))
      (sample_clock (2 + 1)) (sample_clock (2 + 2)) = Inr (e, d2)"
    using sample_committed [OF tables] by blast
  let ?rounds = "reuse_rounds sample_local_date sample_clock (\<lambda>_ _. False) reuse_attempt reuse_integration
    ''acme'' sample_signature 1"
  have "?rounds (Suc 4) 2 [] d1 reuse_vault = (mark_pool 1 (reuse_pool_of
      (reserved_row sample_signature (sample_clock 2) reuse_candidate)) d2,
      reuse_vault\<lparr>submissions := [reserved_row sample_signature (sample_clock 2) reuse_candidate]\<rparr>,
      Inr (Some e))"
    by (simp only: reuse_rounds.simps sample_profile_reserved [OF tables(1-3)] option.case prod.case commit sum.case)
  then have rounds: "\<exists>d' v' e. ?rounds 5 2 [] d1 reuse_vault = (d', v', Inr (Some e))"
    by (auto simp: numeral_eq_Suc)
  have no_event: "List.find (\<lambda>e. pre_attempt e = at_id reuse_attempt) (reuse_events reuse_db) = None" by simp
  show ?thesis
    using rounds
    by (simp only: maybe_assign_reusable_profile_def found option.case no_event reading sum.case claim
        prod.case code policy Let_def simp_thms if_True if_False)
qed

lemma granted_profile_satisfies_policy_witness:
  "\<exists>d' v' e. maybe_assign_reusable_profile sample_local_date sample_local_midnight True sample_clock
      (\<lambda>_ _. False) reuse_db reuse_vault reuse_attempt reuse_survey reuse_answers = (d', v', Inr (Some e))
    \<and> pre_reused_uid e = ''Bb22''"
proof -
  obtain d' v' e where run: "maybe_assign_reusable_profile sample_local_date sample_local_midnight True sample_clock
      (\<lambda>_ _. False) reuse_db reuse_vault reuse_attempt reuse_survey reuse_answers = (d', v', Inr (Some e))"
    using sample_granted by blast
  have "\<exists>c \<in> set (submissions reuse_vault). ps_uid c = pre_reused_uid e"
    using granted_profile_satisfies_policy [OF run] by (fastforce simp: granted_by_def)
  with run show ?thesis by (auto simp: reuse_vault_def)
qed

lemma assignment_is_a_run_witness:
  "\<exists>d' v' k e. reuse_run sample_local_date sample_local_midnight (\<lambda>_. sample_journey) (sample_system reuse_db)
     (move 0 (Granted k e) d' v' (sample_system reuse_db))"
proof -
  obtain d' v' e where run: "maybe_assign_reusable_profile sample_local_date sample_local_midnight True sample_clock
      (\<lambda>_ _. False) reuse_db reuse_vault reuse_attempt reuse_survey reuse_answers = (d', v', Inr (Some e))"
    using sample_granted by blast
  obtain r where reading:
    "question_snapshots sample_local_date reuse_db reuse_attempt reuse_survey reuse_answers (sample_clock 0) = Inr r"
    "profile_signature_of reuse_survey r = sample_signature"
    using sample_reading by blast
  have "py_lower (py_strip ''acme'') = ''acme''" by code_simp
  then have "client_code_of reuse_db reuse_integration = Inr ''acme''"
    by (simp add: client_code_of_def get_client_def row_by_pk_def sample_client_def)
  then show ?thesis
    using assignment_is_a_run [OF run, of "sample_system reuse_db" 0 "\<lambda>_. sample_journey" reuse_integration
        "''acme''" r] reading(1)
    by (auto simp: sample_journey_def reading(2) get_integration_def row_by_pk_def)
qed

section \<open>Letters in a postal code\<close>

lemma dims_get_update: "dims_get (AList.update k vs dims) j = (if j = k then vs else dims_get dims j)"
  by (simp add: dims_get_def update_conv')

lemma clean_dimensions_values: "v \<in> set (dims_get (clean_dimensions dims) k) \<Longrightarrow> \<exists>w. v = py_lower w"
  by (induction dims) (auto simp: clean_dimensions_def dims_get_def clean_values_def split: if_splits)

lemma signature_postal_values:
  "v \<in> set (dims_get (sg_dimensions (profile_signature_of s r)) ''postal_code'') \<Longrightarrow> \<exists>w. v = py_lower w"
  by (auto simp: profile_signature_of_def Let_def dims_get_update split: option.splits if_splits
      dest!: clean_dimensions_values)

lemma lower_char_not_upper: "\<not> is_upper_ascii (lower_char c)"
proof (cases "is_upper_ascii c")
  case True
  then have "65 \<le> (of_char c :: nat)" "(of_char c :: nat) \<le> 90" by (auto simp: is_upper_ascii_def)
  then have "(of_char (char_of ((of_char c :: nat) + 32) :: char) :: nat) = of_char c + 32" by simp
  with True \<open>65 \<le> (of_char c :: nat)\<close> show ?thesis by (simp add: lower_char_def is_upper_ascii_def)
qed (simp add: lower_char_def)

lemma upper_char_not_lower: "\<not> is_lower_ascii (upper_char c)"
proof (cases "is_lower_ascii c")
  case True
  then have "97 \<le> (of_char c :: nat)" "(of_char c :: nat) \<le> 122" by (auto simp: is_lower_ascii_def)
  then have "(of_char (char_of ((of_char c :: nat) - 32) :: char) :: nat) = of_char c - 32" by simp
  with \<open>(of_char c :: nat) \<le> 122\<close> \<open>97 \<le> (of_char c :: nat)\<close> True show ?thesis
    by (simp add: upper_char_def is_lower_ascii_def)
qed (simp add: upper_char_def)

text \<open>A journey's postal code is compared in lower case with a vault column written in upper
  case, so a row the vault itself normalised is shortlisted for a journey with one postal code
  only if that code has no letters: profiles of alphanumeric postal codes are never reused.\<close>

theorem postal_letters_never_shortlisted:
  assumes "shortlisted i code own sg excluded locked now c" and "sg = profile_signature_of s r"
    and "dims_get (sg_dimensions sg) ''postal_code'' = [p]"
    and "ps_respondent_postal_code c = normalize_profile_value ''postal_code'' x"
  shows "\<forall>ch \<in> set p. \<not> is_upper_ascii ch \<and> \<not> is_lower_ascii ch"
proof -
  from assms(1,3) have "ps_respondent_postal_code c = p"
    by (simp add: shortlisted_def single_value_filter_def)
  then have "\<not> is_lower_ascii ch" if "ch \<in> set p" for ch
    using that assms(4) upper_char_not_lower
    by (auto simp: normalize_profile_value_def Let_def py_upper_def dest!: in_set_takeD)
  moreover obtain w where "p = py_lower w" using signature_postal_values [of p s r] assms(2,3) by auto
  then have "\<not> is_upper_ascii ch" if "ch \<in> set p" for ch
    using that lower_char_not_upper by (auto simp: py_lower_def)
  ultimately show ?thesis by blast
qed

definition postal_reading :: profile_reading where
  "postal_reading = \<lparr>rd_snapshots = [], rd_dimensions = [(''postal_code'', [''10115''])], rd_age = Some 23,
     rd_age_group = ''18-24'', rd_gender = ''male'', rd_ethnicity = [], rd_postal_code = ''10115''\<rparr>"

lemma postal_letters_never_shortlisted_witness:
  "shortlisted reuse_integration ''acme'' (Some ''Aa11'') (profile_signature_of reuse_survey postal_reading)
     [] (\<lambda>_. False) 100000000 (reuse_candidate\<lparr>ps_respondent_postal_code := ''10115''\<rparr>)
   \<and> \<not> is_upper_ascii (CHR ''5'')"
proof -
  have texts: "clean_values [''10115''] = [''10115'']" "normalized_gender ''male'' = ''male''"
    "py_upper (py_strip ''IN'') = ''IN''" "normalize_profile_value ''postal_code'' ''10115'' = ''10115''"
    by code_simp+
  have sv: "sv_country_code reuse_survey = ''IN''" by (simp add: reuse_survey_def sample_survey_def)
  have dims: "dims_get (sg_dimensions (profile_signature_of reuse_survey postal_reading)) ''postal_code'' = [''10115'']"
    "dims_get (sg_dimensions (profile_signature_of reuse_survey postal_reading)) ''ethnicity'' = []"
    by (simp_all add: profile_signature_of_def postal_reading_def Let_def dims_get_def clean_dimensions_def texts)
  have fields: "sg_country_code (profile_signature_of reuse_survey postal_reading) = ''IN''"
    "sg_gender (profile_signature_of reuse_survey postal_reading) = ''male''"
    "sg_age (profile_signature_of reuse_survey postal_reading) = Some 23"
    by (simp_all add: profile_signature_of_def postal_reading_def Let_def texts sv)
  have "candidate_age_groups (Some 23) = [''18-24'']" by code_simp
  then have short: "shortlisted reuse_integration ''acme'' (Some ''Aa11'')
      (profile_signature_of reuse_survey postal_reading) [] (\<lambda>_. False) 100000000
      (reuse_candidate\<lparr>ps_respondent_postal_code := ''10115''\<rparr>)"
    by (simp add: shortlisted_def fields dims gender_values_def GENDER_ALIASES_def single_value_filter_def
        minutes_def reuse_integration_def)
  with postal_letters_never_shortlisted [OF short refl dims(1), of "''10115''"] show ?thesis
    by (simp only: texts) simp
qed

end
