(* ===== verification/Outcomes.thy ===== *)
theory Outcomes
  imports Vault_Capture
begin

text \<open>
  The outcome of an attempt in words (\<open>surveys/outcomes.py\<close>, \<open>surveys/rfg_outcomes.py\<close>,
  \<open>surveys/rfg_text.py\<close>): a status, a reason and a category read from what the providers sent.
  A value that should be a dict and is not makes the code raise \<open>AttributeError\<close>; that is a
  branch here.  \<open>unescape\<close> is \<open>html.unescape\<close>.
\<close>

section \<open>Display text of RFG\<close>

definition drop_spaces :: "string \<Rightarrow> string" where
  "drop_spaces s = dropWhile is_ascii_space s"

lemma length_drop_spaces: "length (drop_spaces s) \<le> length s"
  by (simp add: drop_spaces_def length_dropWhile_le)

text \<open>One match of \<open>\s*%%\s*(?:rfg[_-]?)?\d{2,}\s*%%\s*\<close> at the start, and what follows it.  Each part
  begins with characters the part before it cannot take, so no match backtracks.\<close>

definition rfg_prefix :: "string \<Rightarrow> string" where
  "rfg_prefix s =
     (if py_lower (take 3 s) = ''rfg''
      then (case drop 3 s of [] \<Rightarrow> [] | c # cs \<Rightarrow> if c = CHR ''_'' \<or> c = CHR ''-'' then cs else c # cs)
      else s)"

definition match_percents :: "string \<Rightarrow> string option" where
  "match_percents s = (if take 2 (drop_spaces s) = ''%%'' then Some (drop_spaces (drop 2 (drop_spaces s)))
                       else None)"

definition match_marker :: "string \<Rightarrow> string option" where
  "match_marker s =
     (case match_percents s of
        None \<Rightarrow> None
      | Some s1 \<Rightarrow>
          let s2 = rfg_prefix s1 in
          if length (takeWhile is_digit_ascii s2) < 2 then None
          else match_percents (dropWhile is_digit_ascii s2))"

lemma match_percents_shorter: "match_percents s = Some r \<Longrightarrow> length r < length s"
proof -
  assume "match_percents s = Some r"
  then have two: "take 2 (drop_spaces s) = ''%%''" and r: "r = drop_spaces (drop 2 (drop_spaces s))"
    by (auto simp: match_percents_def split: if_splits)
  have "min (length (drop_spaces s)) 2 = 2" using arg_cong [OF two, of length] by (simp only: length_take) simp
  then have "2 \<le> length (drop_spaces s)" by linarith
  with length_drop_spaces [of s] length_drop_spaces [of "drop 2 (drop_spaces s)"] show ?thesis
    unfolding r length_drop by linarith
qed

lemma length_rfg_prefix: "length (rfg_prefix s) \<le> length s"
proof (cases "drop 3 s")
  case Nil
  then show ?thesis by (simp add: rfg_prefix_def)
next
  case (Cons c cs)
  have "length (drop 3 s) = Suc (length cs)" by (simp only: Cons list.size)
  then have "Suc (length cs) \<le> length s" by simp
  then show ?thesis by (simp add: rfg_prefix_def Cons)
qed

lemma match_marker_shorter: "match_marker s = Some r \<Longrightarrow> length r < length s"
proof -
  assume "match_marker s = Some r"
  then obtain s1 where 1: "match_percents s = Some s1"
      "match_percents (dropWhile is_digit_ascii (rfg_prefix s1)) = Some r"
    by (auto simp: match_marker_def Let_def split: option.splits if_splits)
  from match_percents_shorter [OF 1(1)] match_percents_shorter [OF 1(2)] show ?thesis
    using length_rfg_prefix [of s1] length_dropWhile_le [of is_digit_ascii "rfg_prefix s1"] by linarith
qed

function remove_markers :: "string \<Rightarrow> string" where
  "remove_markers s =
     (case match_marker s of
        Some rest \<Rightarrow> CHR '' '' # remove_markers rest
      | None \<Rightarrow> (case s of [] \<Rightarrow> [] | c # cs \<Rightarrow> c # remove_markers cs))"
  by pat_completeness auto
termination
  by (relation "measure length") (auto dest: match_marker_shorter)

declare remove_markers.simps [simp del]

text \<open>\<open>re.sub(r"\s+([?.!,;:])", r"\1", text)\<close>\<close>

definition is_stop_char :: "char \<Rightarrow> bool" where
  "is_stop_char c = (c \<in> set ''?.!,;:'')"

fun join_stops :: "string \<Rightarrow> string" where
  "join_stops [] = []"
| "join_stops (c # cs) =
     (let rest = drop_spaces cs in
      if is_ascii_space c \<and> rest \<noteq> [] \<and> is_stop_char (hd rest) then join_stops cs
      else c # join_stops cs)"

definition clean_rfg_display_text :: "(string \<Rightarrow> string) \<Rightarrow> json \<Rightarrow> string" where
  "clean_rfg_display_text unescape v =
     py_strip (replace_runs is_ascii_space '' '' False
       (join_stops (remove_markers (unescape (str_or v [])))))"

definition clean_rfg_option :: "(string \<Rightarrow> string) \<Rightarrow> json \<Rightarrow> json" where
  "clean_rfg_option unescape option =
     (case option of
        JObj item \<Rightarrow>
          (case map_of item ''OptionText'' of
             None \<Rightarrow> JObj item
           | Some label \<Rightarrow>
               JObj (dict_set ''OptionText'' (JStr (clean_rfg_display_text unescape label)) item))
      | _ \<Rightarrow> option)"

definition clean_rfg_options :: "(string \<Rightarrow> string) \<Rightarrow> json \<Rightarrow> py_error + json list" where
  "clean_rfg_options unescape options =
     map_sum id (map (clean_rfg_option unescape)) (items_of options)"

section \<open>RFG result codes\<close>

definition RFG_RESULT_DETAILS :: "(string \<times> attempt_status \<times> string \<times> string \<times> string) list" where
  "RFG_RESULT_DETAILS =
    [(''1'', COMPLETED, ''Survey completed'',
        ''Your response was completed successfully.'', ''success''),
     (''2'', TERMINATED, ''Survey terminated'',
        ''The survey ended because the respondent did not meet its requirements.'', ''warning''),
     (''3'', OVER_QUOTA, ''Quota full'',
        ''The matching survey quota was already full.'', ''warning''),
     (''4'', TERMINATED, ''Survey ended'',
        ''The provider ended this survey attempt.'', ''warning''),
     (''5'', TERMINATED, ''Survey closed'',
        ''The survey closed before this attempt could be completed.'', ''warning''),
     (''7'', TERMINATED, ''Early termination'',
        ''The respondent did not match the survey's targeting criteria.'', ''warning''),
     (''8'', TERMINATED, ''Duplicate respondent'',
        ''This respondent was identified as a previous attempt for this survey or survey group.'', ''warning''),
     (''9'', OVER_QUOTA, ''Quota full'',
        ''A matching quota filled during pre-screening.'', ''warning''),
     (''10'', QUALITY_TERMINATED, ''Security termination'',
        ''The client rejected this attempt for a security or quality reason.'', ''danger''),
     (''11'', TERMINATED, ''No survey found'',
        ''No eligible survey was available for this respondent.'', ''warning''),
     (''12'', TERMINATED, ''All surveys attempted'',
        ''All eligible surveys had already been attempted.'', ''warning''),
     (''13'', TERMINATED, ''Maximum attempts reached'',
        ''The maximum number of routing attempts was reached.'', ''warning''),
     (''19'', TERMINATED, ''Survey paused'',
        ''The survey is temporarily paused.'', ''warning''),
     (''30'', QUALITY_TERMINATED, ''Fraud prevention'',
        ''The attempt was rejected by MaxMind fraud screening.'', ''danger''),
     (''31'', QUALITY_TERMINATED, ''Invalid IP address'',
        ''The respondent IP address was invalid.'', ''danger''),
     (''32'', QUALITY_TERMINATED, ''Blocked IP address'',
        ''The respondent IP address was found on a blocklist.'', ''danger''),
     (''33'', QUALITY_TERMINATED, ''Postal-code distance mismatch'',
        ''The respondent location was too far from the submitted postal code.'', ''danger''),
     (''34'', QUALITY_TERMINATED, ''Blocked respondent'',
        ''The respondent is blocked by provider security rules.'', ''danger''),
     (''35'', QUALITY_TERMINATED, ''Country changed'',
        ''The respondent country changed during the survey journey.'', ''danger''),
     (''36'', QUALITY_TERMINATED, ''Country mismatch'',
        ''The respondent IP country did not match the submitted country.'', ''danger''),
     (''37'', QUALITY_TERMINATED, ''Invalid date of birth'',
        ''The submitted date of birth was invalid.'', ''danger''),
     (''38'', QUALITY_TERMINATED, ''Minimum age not met'',
        ''The respondent was below the provider's minimum age.'', ''danger''),
     (''39'', QUALITY_TERMINATED, ''Age mismatch'',
        ''The submitted age did not match provider profile data.'', ''danger''),
     (''40'', QUALITY_TERMINATED, ''Invalid gender'',
        ''The submitted gender value was invalid.'', ''danger''),
     (''41'', QUALITY_TERMINATED, ''Invalid postal code'',
        ''The submitted postal code was invalid for the selected country.'', ''danger''),
     (''42'', QUALITY_TERMINATED, ''Unsupported device'',
        ''The respondent operating system was not allowed.'', ''danger''),
     (''43'', QUALITY_TERMINATED, ''Provider verification failed'',
        ''The respondent did not pass the provider verification test.'', ''danger''),
     (''44'', QUALITY_TERMINATED, ''Robot check failed'',
        ''The respondent did not pass the robot check.'', ''danger''),
     (''50'', QUALITY_TERMINATED, ''Speeding detected'',
        ''The survey was completed faster than the permitted quality threshold.'', ''danger''),
     (''51'', QUALITY_TERMINATED, ''Invalid callback hash'',
        ''The client callback hash could not be verified.'', ''danger''),
     (''52'', QUALITY_TERMINATED, ''Client IP verification failed'',
        ''The client callback IP was not on the required allowlist.'', ''danger''),
     (''53'', QUALITY_TERMINATED, ''Client verification failed'',
        ''The respondent did not pass the client's verification test.'', ''danger'')]"

definition RFG_STATUS_MAP :: "(string \<times> attempt_status) list" where
  "RFG_STATUS_MAP = map (\<lambda>(code, status, _). (code, status)) RFG_RESULT_DETAILS"

definition RFG_LIVE_SECURITY :: "(string \<times> string) list" where
  "RFG_LIVE_SECURITY =
    [(''1'', ''Blocked panelist''),
     (''2'', ''Suspicious or proxy IP address''),
     (''3'', ''Invalid IP address''),
     (''4'', ''IP country does not match the submitted country'')]"

definition RFG_LIVE_INVALID :: "(string \<times> string) list" where
  "RFG_LIVE_INVALID =
    [(''1'', ''Invalid date of birth''),
     (''2'', ''Invalid gender''),
     (''3'', ''Invalid country''),
     (''4'', ''Invalid postal code''),
     (''5'', ''IP location does not match the submitted country'')]"

definition result_code_for_attempt :: "survey_attempt \<Rightarrow> string" where
  "result_code_for_attempt a =
     (case at_status a of
        COMPLETED \<Rightarrow> ''1'' | TERMINATED \<Rightarrow> ''2'' | OVER_QUOTA \<Rightarrow> ''3'' | QUALITY_TERMINATED \<Rightarrow> ''10''
      | _ \<Rightarrow> [])"

definition text_lookup :: "(string \<times> string) list \<Rightarrow> string \<Rightarrow> string" where
  "text_lookup table key = (case map_of table key of Some t \<Rightarrow> t | None \<Rightarrow> [])"

text \<open>\<open>a or b or \<dots>\<close> of texts.\<close>

fun first_text :: "string list \<Rightarrow> string" where
  "first_text [] = []"
| "first_text (t # ts) = (if t \<noteq> [] then t else first_text ts)"

record rfg_outcome =
  ro_code :: string
  ro_status :: attempt_status
  ro_title :: string
  ro_message :: string
  ro_reason :: string
  ro_tone :: string
  ro_sesskey :: string

definition describe_rfg_outcome ::
  "(string \<Rightarrow> string) \<Rightarrow> jdict \<Rightarrow> survey_attempt option \<Rightarrow> rfg_outcome" where
  "describe_rfg_outcome unescape parameters attempt =
     (let code = str_or (dict_get parameters ''result'')
                   (case attempt of Some a \<Rightarrow> result_code_for_attempt a | None \<Rightarrow> []);
          (status, title, message, tone) =
            (case map_of RFG_RESULT_DETAILS code of
               Some detail \<Rightarrow> detail
             | None \<Rightarrow> (REDIRECTED, ''Result received'', ''The provider result is awaiting confirmation.'', ''info''));
          reason = py_strip (str_or (json_or (dict_get parameters ''ruledOutBy'') (dict_get parameters ''reason'')) []);
          live_invalid = text_lookup RFG_LIVE_INVALID (str_or (dict_get parameters ''liveI'') []);
          live_security = text_lookup RFG_LIVE_SECURITY (str_or (dict_get parameters ''liveS'') []);
          local_reason = py_strip (str_or (dict_get parameters ''local_reason'') []);
          chosen = first_text [local_reason, reason, live_invalid, live_security, message];
          throttled = (str_or (dict_get parameters ''quotaThrottle'') [] = ''1'')
      in \<lparr>ro_code = code, ro_status = status, ro_title = title, ro_message = message,
          ro_reason = clean_rfg_display_text unescape
            (JStr (if throttled
                   then ''The matching quota is temporarily throttled. It may reopen after approximately 10 minutes.''
                   else chosen)),
          ro_tone = tone, ro_sesskey = str_or (dict_get parameters ''sesskey'') []\<rparr>)"


section \<open>Reading loosely typed values\<close>

text \<open>\<open>_nested_value\<close>\<close>

fun value_at :: "json \<Rightarrow> string list \<Rightarrow> json" where
  "value_at value [] = (if value = JNull then JStr [] else value)"
| "value_at value (part # parts) =
     (case value of JObj kvs \<Rightarrow> value_at (dict_get kvs part) parts | _ \<Rightarrow> JStr [])"

definition nested_value :: "json \<Rightarrow> json \<Rightarrow> json" where
  "nested_value payload path =
     (if \<not> truthy path then JStr [] else value_at payload (py_split (CHR ''.'') (py_str path)))"

definition text_keys :: "string list" where
  "text_keys = [''title'', ''label'', ''name'', ''text'', ''value'', ''status'', ''reason'',
     ''message'', ''description'', ''category'', ''code'']"

text \<open>\<open>_text\<close>: a readable scalar.  Of a dict it is the first of the telling keys that has a text,
  of a list the texts of its items without repetitions.\<close>

fun text_of :: "json \<Rightarrow> string" where
  "text_of JNull = []"
| "text_of (JBool _) = []"
| "text_of (JInt i) = show_int i"
| "text_of (JFloat _ t) = t"
| "text_of (JStr s) = py_strip s"
| "text_of (JObj kvs) =
     (let texts = map (\<lambda>(k, v). (k, text_of v)) kvs in first_text (map (text_lookup texts) text_keys))"
| "text_of (JArr xs) =
     py_join '', '' (keep_first (filter (\<lambda>t. t \<noteq> []) (map text_of xs)))"

text \<open>\<open>_casefold_value\<close>: keys compared without regard to case, the last of equal ones counting.\<close>

definition casefold_value :: "json \<Rightarrow> string list \<Rightarrow> string" where
  "casefold_value payload keys =
     (case payload of
        JObj kvs \<Rightarrow>
          (let folded = rev (map (\<lambda>(k, v). (py_lower k, v)) kvs)
           in first_text (map (\<lambda>key. text_of (dict_get folded (py_lower key))) keys))
      | _ \<Rightarrow> [])"

definition TOLUNA_CALLBACK_REJECTIONS :: "(string \<times> jdict) list" where
  "TOLUNA_CALLBACK_REJECTIONS =
    [(''73'',
      [(''reason'', JStr ''Toluna rejected this attempt because the same internet identity has already attempted this survey.''),
       (''category'', JStr ''Duplicate survey attempt'')])]"

definition describe_toluna_callback :: "json \<Rightarrow> json \<Rightarrow> json \<Rightarrow> json \<Rightarrow> jdict" where
  "describe_toluna_callback parameters code status title =
     (let rejection_id = casefold_value parameters [''rejectionID'', ''rejectionId'', ''rejection_id''];
          rejection = (case map_of TOLUNA_CALLBACK_REJECTIONS rejection_id of Some r \<Rightarrow> r | None \<Rightarrow> []);
          outcome = [(''code'', JStr (text_of (json_or code (JStr (casefold_value parameters [''status'']))))),
                     (''status'', JStr (text_of status)), (''title'', JStr (text_of title))];
          outcome = (if rejection_id \<noteq> []
                     then dict_set ''rejection_id'' (JStr (take 40 rejection_id)) outcome else outcome)
      in dict_merge outcome rejection)"

section \<open>The outcome of an attempt\<close>

record outcome =
  oc_status :: string
  oc_reason :: string
  oc_category :: string

text \<open>\<open>(value or {}).get\<close> needs a dict.\<close>

definition dict_or_empty :: "json \<Rightarrow> py_error + jdict" where
  "dict_or_empty v =
     (if \<not> truthy v then Inr [] else of_option (AttributeError ''get'') (as_dict v))"

definition only_dict :: "json \<Rightarrow> jdict" where
  "only_dict v = (case as_dict v of Some kvs \<Rightarrow> kvs | None \<Rightarrow> [])"

definition outcome_data :: "string \<Rightarrow> json \<Rightarrow> jdict" where
  "outcome_data rid raw =
     (case raw of
        JObj kvs \<Rightarrow> kvs
      | JArr items \<Rightarrow>
          (let rows = List.map_filter as_dict items;
               mine = (\<lambda>row. list_ex (\<lambda>key. str_or (dict_get row key) [] = rid)
                         [''PID'', ''pid'', ''trackId'', ''rid'', ''RID''])
           in case List.find mine rows of
                Some row \<Rightarrow> row
              | None \<Rightarrow> (case rows of row # _ \<Rightarrow> row | [] \<Rightarrow> []))
      | _ \<Rightarrow> [])"

definition rfg_outcome_fields :: "rfg_outcome \<Rightarrow> jdict" where
  "rfg_outcome_fields o' =
     [(''code'', JStr (ro_code o')), (''status'', JStr (attempt_status_value (ro_status o'))),
      (''title'', JStr (ro_title o')), (''message'', JStr (ro_message o')),
      (''reason'', JStr (ro_reason o')), (''tone'', JStr (ro_tone o')),
      (''sesskey'', JStr (ro_sesskey o'))]"

definition rfg_provider_outcome ::
  "(string \<Rightarrow> string) \<Rightarrow> jdict \<Rightarrow> survey_attempt \<Rightarrow> py_error + outcome" where
  "rfg_provider_outcome unescape data a =
     (case dict_or_empty (json_or (dict_get data ''rfg_callback'') (dict_get data ''rfg_local_outcome'')) of
        Inl e \<Rightarrow> Inl e
      | Inr parameters \<Rightarrow>
          (let stored = dict_get data ''rfg_outcome'' in
           case (if truthy stored then of_option (AttributeError ''get'') (as_dict stored)
                 else Inr (rfg_outcome_fields (describe_rfg_outcome unescape parameters (Some a)))) of
             Inl e \<Rightarrow> Inl e
           | Inr outcome \<Rightarrow>
               Inr \<lparr>oc_status = text_of (json_or (json_or (dict_get outcome ''title'') (dict_get outcome ''status''))
                                  (JStr (attempt_status_label (at_status a)))),
                    oc_reason = text_of (json_or (json_or (dict_get outcome ''reason'') (dict_get parameters ''ruledOutBy''))
                                  (dict_get parameters ''local_reason'')),
                    oc_category = text_of (dict_get parameters ''ruledOutBy'')\<rparr>))"

text \<open>\<^term>\<open>None\<close> when neither a callback, a stored outcome nor a notification says anything, so
  the code goes on to the fields common to all providers.\<close>

definition toluna_provider_outcome :: "jdict \<Rightarrow> survey_attempt \<Rightarrow> outcome option" where
  "toluna_provider_outcome data a =
     (let stored = only_dict (dict_get data ''toluna_outcome'');
          callback = only_dict (dict_get data ''toluna_callback'');
          stored_rejection_id = text_of (dict_get stored ''rejection_id'');
          described = (if callback = [] \<and> stored_rejection_id \<noteq> []
                       then [(''rejectionID'', JStr stored_rejection_id)] else callback);
          outcome = describe_toluna_callback (JObj described) (dict_get stored ''code'')
                      (dict_get stored ''status'') (dict_get stored ''title'');
          notification = only_dict (dict_get data ''toluna_notification'');
          display = JStr (attempt_status_label (at_status a))
      in if notification \<noteq> [] then
           Some \<lparr>oc_status = text_of (json_or (json_or (dict_get notification ''status'') (dict_get outcome ''status'')) display),
                 oc_reason = text_of (json_or (dict_get notification ''reason'') (dict_get outcome ''reason'')),
                 oc_category = text_of (json_or (json_or (dict_get notification ''category'')
                                 (dict_get notification ''event_type'')) (dict_get outcome ''category''))\<rparr>
         else if callback \<noteq> [] \<or> stored \<noteq> [] then
           Some \<lparr>oc_status = text_of (json_or (json_or (dict_get outcome ''status'') (dict_get outcome ''title'')) display),
                 oc_reason = text_of (dict_get outcome ''reason''),
                 oc_category = text_of (dict_get outcome ''category'')\<rparr>
         else None)"

definition outcome_mapping :: "client_integration option \<Rightarrow> py_error + (string \<Rightarrow> json)" where
  "outcome_mapping integration =
     (case integration of
        None \<Rightarrow> Inr (\<lambda>_. JNull)
      | Some ci \<Rightarrow>
          (case dict_or_empty (ci_config ci) of Inl e \<Rightarrow> Inl e | Inr config \<Rightarrow>
          (case dict_or_empty (dict_get config ''outcome_mapping'') of Inl e \<Rightarrow> Inl e | Inr mapping \<Rightarrow>
          (case dict_or_empty (ci_field_mapping ci) of Inl e \<Rightarrow> Inl e | Inr field_mapping \<Rightarrow>
             Inr (\<lambda>canonical. json_or (dict_get mapping canonical)
                                (dict_get field_mapping (''outcome_'' @ canonical)))))))"

definition outcome_candidates :: "jdict \<Rightarrow> jdict list" where
  "outcome_candidates data =
     data # List.map_filter (\<lambda>key. as_dict (dict_get data key))
       [''transaction'', ''outcome'', ''result'', ''local_country_guard'', ''local_ip_guard'']"

definition mapped_or_common :: "jdict \<Rightarrow> json \<Rightarrow> string list \<Rightarrow> string" where
  "mapped_or_common data path common_keys =
     first_text (text_of (nested_value (JObj data) path)
       # concat (map (\<lambda>candidate. map (\<lambda>key. text_of (dict_get candidate key)) common_keys)
           (outcome_candidates data)))"

definition common_outcome :: "jdict \<Rightarrow> (string \<Rightarrow> json) \<Rightarrow> outcome" where
  "common_outcome data mapping =
     \<lparr>oc_status = mapped_or_common data (mapping ''status'')
        [''status'', ''Status'', ''resultStatus'', ''outcome''],
      oc_reason = mapped_or_common data (mapping ''reason'')
        [''termReason'', ''term_reason'', ''reason'', ''ruledOutBy'', ''message'', ''description''],
      oc_category = mapped_or_common data (mapping ''category'')
        [''termReasonCategory'', ''termReasonCategoryCode'', ''termCategory'', ''reasonCategory'']\<rparr>"

definition redirect_reason :: "string \<Rightarrow> survey_attempt \<Rightarrow> py_error + string" where
  "redirect_reason provider_code a =
     (if provider_code = ''innovatemr'' \<and> at_is_verified a
      then (case dict_or_empty (at_exit_client_data a) of
              Inl e \<Rightarrow> Inl e
            | Inr exit_data \<Rightarrow>
                Inr (text_of (dict_get (only_dict (dict_get exit_data ''innovatemr_callback'')) ''termReason'')))
      else Inr [])"

definition neutral_outcome ::
  "jdict \<Rightarrow> client_integration option \<Rightarrow> string \<Rightarrow> survey_attempt \<Rightarrow> py_error + outcome" where
  "neutral_outcome data integration provider_code a =
     (case outcome_mapping integration of
        Inl e \<Rightarrow> Inl e
      | Inr mapping \<Rightarrow>
          (case redirect_reason provider_code a of
             Inl e \<Rightarrow> Inl e
           | Inr reason \<Rightarrow>
               let outcome = common_outcome data mapping
               in Inr (if reason \<noteq> [] then outcome\<lparr>oc_reason := reason\<rparr> else outcome)))"

definition attempt_integration :: "db \<Rightarrow> survey_attempt \<Rightarrow> py_error + client_integration option" where
  "attempt_integration d a =
     (case get_survey d (at_survey a) of
        None \<Rightarrow> Inl (DoesNotExist ''Survey'')
      | Some s \<Rightarrow> (case sv_integration s of
                    None \<Rightarrow> Inr None
                  | Some i \<Rightarrow> map_sum id Some (of_option (DoesNotExist ''ClientIntegration'') (get_integration d i))))"

definition provider_code_of :: "client_integration option \<Rightarrow> string" where
  "provider_code_of integration =
     py_lower (case integration of Some ci \<Rightarrow> ci_provider_code ci | None \<Rightarrow> ''innovatemr'')"

definition provider_outcome ::
  "(string \<Rightarrow> string) \<Rightarrow> db \<Rightarrow> survey_attempt \<Rightarrow> py_error + outcome" where
  "provider_outcome unescape d a =
     (let data = outcome_data (at_rid a) (at_upstream_transaction_data a) in
      case attempt_integration d a of
        Inl e \<Rightarrow> Inl e
      | Inr integration \<Rightarrow>
          (let provider_code = provider_code_of integration in
           if provider_code = ''rfg'' then rfg_provider_outcome unescape data a
           else if provider_code = ''toluna'' then
             (case toluna_provider_outcome data a of
                Some outcome \<Rightarrow> Inr outcome
              | None \<Rightarrow> neutral_outcome data integration provider_code a)
           else neutral_outcome data integration provider_code a))"

end
