(* ===== verification/Web_Text.thy ===== *)
theory Web_Text
  imports Py_Values
begin

text \<open>
  The parts of Python's \<open>urllib.parse\<close> the callbacks use: percent-encoding of a query, its
  decoding, and taking a URL apart and putting it together.  A character of a URL is a byte, so
  text outside ASCII stands here in its UTF-8 encoding.  Whether the host inside brackets is an
  IP literal is asked of \<open>ip_literal\<close>, which stands for the \<open>ipaddress\<close> module.
\<close>

section \<open>Query strings\<close>

definition is_unreserved :: "char \<Rightarrow> bool" where
  "is_unreserved c = (is_alnum_ascii c \<or> c \<in> set ''_.-~'')"

definition hex_upper :: "nat \<Rightarrow> char" where
  "hex_upper n = (if n < 10 then char_of (48 + n) else char_of (55 + n))"

definition quote_char :: "char \<Rightarrow> string" where
  "quote_char c =
     (if is_unreserved c then [c] else if c = CHR '' '' then ''+''
      else [CHR ''%'', hex_upper ((of_char c :: nat) div 16), hex_upper ((of_char c :: nat) mod 16)])"

definition quote_plus :: "string \<Rightarrow> string" where
  "quote_plus s = concat (map quote_char s)"

definition urlencode :: "(string \<times> string) list \<Rightarrow> string" where
  "urlencode pairs = py_join ''&'' (map (\<lambda>(k, v). quote_plus k @ ''='' @ quote_plus v) pairs)"

definition hex_value :: "char \<Rightarrow> nat option" where
  "hex_value c =
     (let n = (of_char c :: nat) in
      if 48 \<le> n \<and> n \<le> 57 then Some (n - 48)
      else if 65 \<le> n \<and> n \<le> 70 then Some (n - 55)
      else if 97 \<le> n \<and> n \<le> 102 then Some (n - 87) else None)"

fun unquote_plus :: "string \<Rightarrow> string" where
  "unquote_plus [] = []"
| "unquote_plus (c # cs) =
     (if c = CHR ''+'' then CHR '' '' # unquote_plus cs
      else if c = CHR ''%'' then
        (case cs of
           a # b # rest \<Rightarrow>
             (case (hex_value a, hex_value b) of
                (Some x, Some y) \<Rightarrow> char_of (16 * x + y) # unquote_plus rest
              | _ \<Rightarrow> c # unquote_plus cs)
         | _ \<Rightarrow> c # unquote_plus cs)
      else c # unquote_plus cs)"

text \<open>\<open>parse_qsl(query, keep_blank_values=True)\<close>\<close>

definition parse_pair :: "string \<Rightarrow> string \<times> string" where
  "parse_pair item = (case py_partition (CHR ''='') item of (k, _, v) \<Rightarrow> (unquote_plus k, unquote_plus v))"

definition parse_qsl :: "string \<Rightarrow> (string \<times> string) list" where
  "parse_qsl query = map parse_pair (filter (\<lambda>item. item \<noteq> []) (py_split (CHR ''&'') query))"

section \<open>URLs\<close>

record url_parts =
  up_scheme :: string
  up_netloc :: string
  up_path :: string
  up_query :: string
  up_fragment :: string

definition is_scheme_char :: "char \<Rightarrow> bool" where
  "is_scheme_char c = (is_alnum_ascii c \<or> c \<in> set ''+-.'')"

definition url_clean :: "string \<Rightarrow> string" where
  "url_clean url =
     filter (\<lambda>c. c \<noteq> CHR 0x09 \<and> c \<noteq> CHR 0x0A \<and> c \<noteq> CHR 0x0D)
       (dropWhile (\<lambda>c. (of_char c :: nat) \<le> 32) url)"

definition split_scheme :: "string \<Rightarrow> string \<times> string" where
  "split_scheme url =
     (case py_partition (CHR '':'') url of
        (scheme, found, rest) \<Rightarrow>
          if found \<and> scheme \<noteq> [] \<and> (is_upper_ascii (hd scheme) \<or> is_lower_ascii (hd scheme))
             \<and> list_all is_scheme_char scheme
          then (py_lower scheme, rest) else ([], url))"

definition split_netloc :: "string \<Rightarrow> string \<times> string" where
  "split_netloc url =
     (if take 2 url = ''//''
      then (takeWhile (\<lambda>c. c \<notin> set ''/?#'') (drop 2 url), dropWhile (\<lambda>c. c \<notin> set ''/?#'') (drop 2 url))
      else ([], url))"

definition netloc_ok :: "(string \<Rightarrow> bool) \<Rightarrow> string \<Rightarrow> bool" where
  "netloc_ok ip_literal netloc =
     (let opened = CHR ''['' \<in> set netloc; closed = CHR '']'' \<in> set netloc
      in opened = closed \<and> (opened \<longrightarrow> ip_literal netloc))"

definition urlsplit :: "(string \<Rightarrow> bool) \<Rightarrow> string \<Rightarrow> py_error + url_parts" where
  "urlsplit ip_literal url =
     (case split_scheme (url_clean url) of (scheme, url1) \<Rightarrow>
     (case split_netloc url1 of (netloc, url2) \<Rightarrow>
        if \<not> netloc_ok ip_literal netloc then Inl (ValueError ''Invalid IPv6 URL'')
        else (case py_partition (CHR ''#'') url2 of (url3, _, fragment) \<Rightarrow>
             (case py_partition (CHR ''?'') url3 of (path, _, query) \<Rightarrow>
                Inr \<lparr>up_scheme = scheme, up_netloc = netloc, up_path = path, up_query = query,
                     up_fragment = fragment\<rparr>))))"

definition urlunsplit :: "url_parts \<Rightarrow> string" where
  "urlunsplit p =
     (let path = (if up_netloc p \<noteq> []
                  then ''//'' @ up_netloc p
                       @ (if up_path p \<noteq> [] \<and> hd (up_path p) \<noteq> CHR ''/'' then ''/'' @ up_path p else up_path p)
                  else up_path p)
      in (if up_scheme p \<noteq> [] then up_scheme p @ '':'' else []) @ path
         @ (if up_query p \<noteq> [] then ''?'' @ up_query p else [])
         @ (if up_fragment p \<noteq> [] then ''#'' @ up_fragment p else []))"

text \<open>The parts of a network location.  The last \<open>@\<close> ends the user information.\<close>

definition py_rpartition :: "char \<Rightarrow> string \<Rightarrow> string \<times> bool \<times> string" where
  "py_rpartition sep s =
     (case py_partition sep (rev s) of
        (b, found, a) \<Rightarrow> if found then (rev a, True, rev b) else ([], False, s))"

definition host_port :: "string \<Rightarrow> string \<times> string" where
  "host_port netloc =
     (case py_rpartition (CHR ''@'') netloc of (_, _, hostinfo) \<Rightarrow>
     (case py_partition (CHR ''['') hostinfo of (_, bracket, bracketed) \<Rightarrow>
        if bracket
        then (case py_partition (CHR '']'') bracketed of (host, _, rest) \<Rightarrow>
                (host, snd (snd (py_partition (CHR '':'') rest))))
        else (case py_partition (CHR '':'') hostinfo of (host, _, port) \<Rightarrow> (host, port))))"

definition url_hostname :: "url_parts \<Rightarrow> string" where
  "url_hostname p = py_lower (fst (host_port (up_netloc p)))"

definition url_has_user_info :: "url_parts \<Rightarrow> bool" where
  "url_has_user_info p =
     (case py_rpartition (CHR ''@'') (up_netloc p) of (userinfo, found, _) \<Rightarrow>
        found \<and> (case py_partition (CHR '':'') userinfo of (user, _, password) \<Rightarrow>
                   user \<noteq> [] \<or> password \<noteq> []))"

definition url_port :: "url_parts \<Rightarrow> py_error + nat option" where
  "url_port p =
     (let port = snd (host_port (up_netloc p)) in
      if port = [] then Inr None
      else if \<not> list_all is_digit_ascii port then Inl (ValueError ''Port could not be cast'')
      else if 65535 < digits_value port then Inl (ValueError ''Port out of range'')
      else Inr (Some (digits_value port)))"

section \<open>Decoding an encoded query\<close>

lemma hex_value_upper: "n < 16 \<Longrightarrow> hex_value (hex_upper n) = Some n"
  by (cases "n < 10") (auto simp: hex_value_def hex_upper_def Let_def)

lemma unquote_quote_char: "unquote_plus (quote_char c @ s) = c # unquote_plus s"
proof -
  let ?n = "of_char c :: nat"
  have byte: "?n < 256" by simp
  then have digits: "?n div 16 < 16" "?n mod 16 < 16"
    by (simp_all add: less_mult_imp_div_less)
  have whole: "char_of (16 * (?n div 16) + ?n mod 16) = c"
    by (simp only: mult_div_mod_eq char_of_char)
  have plain: "c \<noteq> CHR ''+'' \<and> c \<noteq> CHR ''%''" if "is_unreserved c"
    using that by (auto simp: is_unreserved_def is_alnum_ascii_def is_upper_ascii_def
        is_lower_ascii_def is_digit_ascii_def)
  show ?thesis
  proof (cases "is_unreserved c \<or> c = CHR '' ''")
    case True
    with plain show ?thesis by (auto simp: quote_char_def)
  next
    case False
    then have q: "quote_char c = [CHR ''%'', hex_upper (?n div 16), hex_upper (?n mod 16)]"
      by (simp add: quote_char_def)
    show ?thesis
      unfolding q using hex_value_upper [OF digits(1)] hex_value_upper [OF digits(2)] whole
      by (simp del: char_of_eq_iff)
  qed
qed

lemma unquote_quote [simp]: "unquote_plus (quote_plus s) = s"
  by (induction s) (simp_all add: quote_plus_def unquote_quote_char)

lemma hex_upper_alnum: "n < 16 \<Longrightarrow> is_alnum_ascii (hex_upper n)"
  by (cases "n < 10")
     (auto simp: hex_upper_def is_alnum_ascii_def is_digit_ascii_def is_upper_ascii_def)

lemma quoted_char_safe:
  assumes "x \<in> set (quote_char c)" shows "is_unreserved x \<or> x = CHR ''+'' \<or> x = CHR ''%''"
proof -
  have "(of_char c :: nat) div 16 < 16" "(of_char c :: nat) mod 16 < 16"
    by (simp_all add: less_mult_imp_div_less)
  then have "is_unreserved (hex_upper ((of_char c :: nat) div 16))"
      "is_unreserved (hex_upper ((of_char c :: nat) mod 16))"
    by (simp_all add: is_unreserved_def hex_upper_alnum)
  with assms show ?thesis by (auto simp: quote_char_def split: if_splits)
qed

lemma reserved_not_quoted:
  assumes "x \<in> set ''&=#?/;'' " shows "x \<notin> set (quote_plus s)"
proof
  assume "x \<in> set (quote_plus s)"
  then have "is_unreserved x \<or> x = CHR ''+'' \<or> x = CHR ''%''"
    by (auto simp: quote_plus_def dest: quoted_char_safe)
  with assms show False
    by (auto simp: is_unreserved_def is_alnum_ascii_def is_upper_ascii_def is_lower_ascii_def
        is_digit_ascii_def)
qed

lemma py_partition_found: "sep \<notin> set a \<Longrightarrow> py_partition sep (a @ sep # b) = (a, True, b)"
  by (induction a) auto

lemma py_partition_absent: "sep \<notin> set a \<Longrightarrow> py_partition sep a = (a, False, [])"
  by (induction a) auto

lemma py_split_cons: "sep \<notin> set a \<Longrightarrow> py_split sep (a @ sep # b) = a # py_split sep b"
  by (induction a) auto

lemma py_split_single: "sep \<notin> set a \<Longrightarrow> py_split sep a = [a]"
  by (induction a) auto

lemma py_split_join:
  "ws \<noteq> [] \<Longrightarrow> \<forall>w \<in> set ws. sep \<notin> set w \<Longrightarrow> py_split sep (py_join [sep] ws) = ws"
proof (induction ws)
  case (Cons w ws)
  then show ?case
    by (cases "ws = []") (simp_all add: py_split_single py_join_Cons py_split_cons)
qed simp

lemma parse_pair_quoted: "parse_pair (quote_plus k @ ''='' @ quote_plus v) = (k, v)"
  using py_partition_found [of "CHR ''=''" "quote_plus k" "quote_plus v"] reserved_not_quoted [of "CHR ''=''" k]
  by (simp add: parse_pair_def)

lemma parse_qsl_urlencode [simp]: "parse_qsl (urlencode pairs) = pairs"
proof (cases "pairs = []")
  case True
  then show ?thesis by (simp add: urlencode_def parse_qsl_def)
next
  case False
  let ?item = "\<lambda>(k, v). quote_plus k @ ''='' @ quote_plus v"
  have "\<forall>w \<in> set (map ?item pairs). CHR ''&'' \<notin> set w"
    using reserved_not_quoted [of "CHR ''&''"] by auto
  with False have split: "py_split (CHR ''&'') (urlencode pairs) = map ?item pairs"
    unfolding urlencode_def by (intro py_split_join) simp_all
  have "filter (\<lambda>item. item \<noteq> []) (map ?item pairs) = map ?item pairs"
    by (auto simp: filter_id_conv)
  moreover have "map parse_pair (map ?item pairs) = pairs"
    by (induction pairs) (auto simp: parse_pair_quoted simp del: append.simps)
  ultimately show ?thesis
    by (simp only: parse_qsl_def split)
qed

section \<open>Taking an assembled URL apart\<close>

definition no_breaks :: "string \<Rightarrow> bool" where
  "no_breaks s = list_all (\<lambda>c. c \<noteq> CHR 0x09 \<and> c \<noteq> CHR 0x0A \<and> c \<noteq> CHR 0x0D) s"

text \<open>What \<^const>\<open>urlsplit\<close> guarantees of the parts of an absolute URL.\<close>

definition url_parts_wf :: "(string \<Rightarrow> bool) \<Rightarrow> url_parts \<Rightarrow> bool" where
  "url_parts_wf ip_literal p =
     ((up_scheme p \<noteq> [] \<and> (is_lower_ascii (hd (up_scheme p)))
       \<and> list_all is_scheme_char (up_scheme p) \<and> py_lower (up_scheme p) = up_scheme p)
      \<and> (up_netloc p \<noteq> [] \<and> list_all (\<lambda>c. c \<notin> set ''/?#'') (up_netloc p)
         \<and> netloc_ok ip_literal (up_netloc p))
      \<and> ((up_path p = [] \<or> hd (up_path p) = CHR ''/'')
         \<and> CHR ''?'' \<notin> set (up_path p) \<and> CHR ''#'' \<notin> set (up_path p))
      \<and> CHR ''#'' \<notin> set (up_query p)
      \<and> no_breaks (up_netloc p) \<and> no_breaks (up_path p) \<and> no_breaks (up_query p)
      \<and> no_breaks (up_fragment p))"

lemma lower_char_idem [simp]: "lower_char (lower_char c) = lower_char c"
  by (auto simp: lower_char_def is_upper_ascii_def)

lemma is_lower_lower_char: "is_upper_ascii c \<or> is_lower_ascii c \<Longrightarrow> is_lower_ascii (lower_char c)"
  by (auto simp: lower_char_def is_upper_ascii_def is_lower_ascii_def)

lemma scheme_char_lower:
  assumes "is_scheme_char c" shows "is_scheme_char (lower_char c)"
proof (cases "is_upper_ascii c")
  case True
  then have "is_lower_ascii (lower_char c)" by (simp add: is_lower_lower_char)
  then show ?thesis by (simp add: is_scheme_char_def is_alnum_ascii_def)
next
  case False
  with assms show ?thesis by (simp add: lower_char_def)
qed

lemma py_lower_idem [simp]: "py_lower (py_lower s) = py_lower s"
  by (simp add: py_lower_def)

lemma scheme_char_plain: "is_scheme_char c \<Longrightarrow> c \<noteq> CHR '':'' \<and> 32 < (of_char c :: nat)"
  by (auto simp: is_scheme_char_def is_alnum_ascii_def is_upper_ascii_def is_lower_ascii_def
      is_digit_ascii_def)

lemma py_partition_cases:
  obtains (found) a b where "py_partition sep s = (a, True, b)" "s = a @ sep # b" "sep \<notin> set a"
  | (absent) "py_partition sep s = (s, False, [])" "sep \<notin> set s"
proof (cases "sep \<in> set s")
  case True
  then obtain x y where "s = x @ sep # y" "sep \<notin> set x" by (auto dest: split_list_first)
  then show ?thesis using found [of x y] py_partition_found [of sep x y] by simp
next
  case False
  then show ?thesis using absent py_partition_absent [of sep s] by blast
qed

lemma no_breaks_append [simp]: "no_breaks (a @ b) = (no_breaks a \<and> no_breaks b)"
  by (simp add: no_breaks_def)

lemma no_breaks_Nil [simp]: "no_breaks []"
  by (simp add: no_breaks_def)

lemma no_breaks_Cons:
  "no_breaks (c # s) = (c \<noteq> CHR 0x09 \<and> c \<noteq> CHR 0x0A \<and> c \<noteq> CHR 0x0D \<and> no_breaks s)"
  by (simp add: no_breaks_def)

lemma no_breaks_clean: "no_breaks (url_clean u)"
  by (auto simp: url_clean_def no_breaks_def list_all_iff)

lemma url_clean_id:
  "s \<noteq> [] \<Longrightarrow> 32 < (of_char (hd s) :: nat) \<Longrightarrow> no_breaks s \<Longrightarrow> url_clean s = s"
  by (cases s) (auto simp: url_clean_def no_breaks_def list_all_iff filter_id_conv)

lemma split_scheme_cases:
  assumes "split_scheme u = (scheme, rest)" "scheme \<noteq> []"
  shows "(\<exists>a. u = a @ '':'' @ rest) \<and> is_lower_ascii (hd scheme)
    \<and> list_all is_scheme_char scheme \<and> py_lower scheme = scheme"
proof (cases rule: py_partition_cases [of "CHR '':''" u])
  case (found a b)
  with assms have "scheme = py_lower a" "rest = b" "a \<noteq> []"
      "is_upper_ascii (hd a) \<or> is_lower_ascii (hd a)" "list_all is_scheme_char a"
    by (auto simp: split_scheme_def split: if_splits)
  with found show ?thesis
    by (cases a) (auto simp: py_lower_def list_all_iff scheme_char_lower is_lower_lower_char)
next
  case absent
  with assms show ?thesis by (simp add: split_scheme_def)
qed

lemma split_netloc_cases:
  assumes "split_netloc u = (netloc, rest)" "netloc \<noteq> []"
  shows "u = ''//'' @ netloc @ rest \<and> list_all (\<lambda>c. c \<notin> set ''/?#'') netloc
    \<and> (rest = [] \<or> hd rest \<in> set ''/?#'')"
proof -
  let ?P = "\<lambda>c. c \<notin> set ''/?#''"
  from assms have two: "take 2 u = ''//''" by (auto simp: split_netloc_def split: if_splits)
  with assms have parts: "netloc = takeWhile ?P (drop 2 u)" "rest = dropWhile ?P (drop 2 u)"
    by (auto simp: split_netloc_def)
  have "u = ''//'' @ drop 2 u" using two append_take_drop_id [of 2 u] by simp
  then have "u = ''//'' @ netloc @ rest" using parts takeWhile_dropWhile_id [of ?P] by simp
  moreover have "list_all ?P netloc"
    unfolding parts(1) list_all_iff by (blast dest: set_takeWhileD)
  moreover have "rest = [] \<or> \<not> ?P (hd rest)"
    unfolding parts(2) using hd_dropWhile [of ?P "drop 2 u"] by blast
  ultimately show ?thesis by simp
qed

lemma urlsplit_wf:
  assumes split: "urlsplit ip u = Inr p" and absolute: "up_scheme p \<noteq> []" "up_netloc p \<noteq> []"
  shows "url_parts_wf ip p"
proof -
  obtain scheme u1 netloc u2 where stages: "split_scheme (url_clean u) = (scheme, u1)"
      "split_netloc u1 = (netloc, u2)" by fastforce
  obtain u3 hash frag path mark query where parts: "py_partition (CHR ''#'') u2 = (u3, hash, frag)"
      "py_partition (CHR ''?'') u3 = (path, mark, query)" by (metis prod.exhaust)
  from split stages parts have p: "p = \<lparr>up_scheme = scheme, up_netloc = netloc, up_path = path,
        up_query = query, up_fragment = frag\<rparr>" and ok: "netloc_ok ip netloc"
    by (auto simp: urlsplit_def split: if_splits)
  have s: "(\<exists>a. url_clean u = a @ '':'' @ u1) \<and> is_lower_ascii (hd scheme)
      \<and> list_all is_scheme_char scheme \<and> py_lower scheme = scheme"
    using stages(1) absolute(1) p by (intro split_scheme_cases) simp_all
  have n: "u1 = ''//'' @ netloc @ u2 \<and> list_all (\<lambda>c. c \<notin> set ''/?#'') netloc
      \<and> (u2 = [] \<or> hd u2 \<in> set ''/?#'')"
    using stages(2) absolute(2) p by (intro split_netloc_cases) simp_all
  have f: "CHR ''#'' \<notin> set u3 \<and> (u2 = u3 \<and> frag = [] \<or> u2 = u3 @ ''#'' @ frag)"
    using parts(1) by (cases rule: py_partition_cases [of "CHR ''#''" u2]) auto
  have q: "CHR ''?'' \<notin> set path \<and> (u3 = path \<and> query = [] \<or> u3 = path @ ''?'' @ query)"
    using parts(2) by (cases rule: py_partition_cases [of "CHR ''?''" u3]) auto
  have "no_breaks u1" using no_breaks_clean [of u] s by (auto simp: no_breaks_Cons)
  with n f q have clean: "no_breaks netloc" "no_breaks path" "no_breaks query" "no_breaks frag"
    by (auto simp: no_breaks_Cons)
  have "path = [] \<or> hd path = CHR ''/''"
    using n f q by (cases path) auto
  moreover have "CHR ''#'' \<notin> set path \<and> CHR ''#'' \<notin> set query" using f q by auto
  ultimately show ?thesis
    using s n q clean ok absolute p by (simp add: url_parts_wf_def)
qed

lemma urlsplit_urlunsplit:
  assumes "url_parts_wf ip p" shows "urlsplit ip (urlunsplit p) = Inr p"
proof -
  obtain scheme netloc path query frag where p: "p = \<lparr>up_scheme = scheme, up_netloc = netloc,
      up_path = path, up_query = query, up_fragment = frag\<rparr>" by (cases p)
  let ?q = "if query \<noteq> [] then ''?'' @ query else []"
  let ?f = "if frag \<noteq> [] then ''#'' @ frag else []"
  let ?tail = "path @ ?q @ ?f"
  from assms p have scheme: "scheme \<noteq> []" "is_lower_ascii (hd scheme)"
      "list_all is_scheme_char scheme" "py_lower scheme = scheme"
    and netloc: "netloc \<noteq> []" "list_all (\<lambda>c. c \<notin> set ''/?#'') netloc" "netloc_ok ip netloc"
    and path: "path = [] \<or> hd path = CHR ''/''" "CHR ''?'' \<notin> set path" "CHR ''#'' \<notin> set path"
    and query: "CHR ''#'' \<notin> set query"
    and clean: "no_breaks netloc" "no_breaks path" "no_breaks query" "no_breaks frag"
    by (simp_all add: url_parts_wf_def)
  have whole: "urlunsplit p = scheme @ '':'' @ ''//'' @ netloc @ ?tail"
    using scheme netloc path by (auto simp: urlunsplit_def p)
  have plain: "c \<noteq> CHR '':'' \<and> 32 < (of_char c :: nat)" if "c \<in> set scheme" for c
    using that scheme(3) by (simp add: list_all_iff scheme_char_plain)
  have "no_breaks scheme" using plain by (fastforce simp: no_breaks_def list_all_iff)
  then have "url_clean (urlunsplit p) = urlunsplit p"
    using plain [of "hd scheme"] scheme(1) clean unfolding whole
    by (intro url_clean_id) (simp_all add: no_breaks_Cons)
  moreover have "split_scheme (urlunsplit p) = (scheme, ''//'' @ netloc @ ?tail)"
  proof -
    have "CHR '':'' \<notin> set scheme" using plain by blast
    then have "py_partition (CHR '':'') (urlunsplit p) = (scheme, True, ''//'' @ netloc @ ?tail)"
      unfolding whole using py_partition_found [of "CHR '':''" scheme "''//'' @ netloc @ ?tail"]
      by (simp del: py_partition.simps)
    with scheme show ?thesis by (simp add: split_scheme_def)
  qed
  moreover have "split_netloc (''//'' @ netloc @ ?tail) = (netloc, ?tail)"
  proof -
    let ?P = "\<lambda>c. c \<notin> set ''/?#''"
    have stop: "takeWhile ?P ?tail = [] \<and> dropWhile ?P ?tail = ?tail"
      using path(1) by (cases path) auto
    have inside: "\<And>x. x \<in> set netloc \<Longrightarrow> ?P x" using netloc(2) by (simp only: list_all_iff) blast
    have "takeWhile ?P (netloc @ ?tail) = netloc" "dropWhile ?P (netloc @ ?tail) = ?tail"
      using stop takeWhile_append2 [OF inside, where ys = ?tail]
        dropWhile_append2 [OF inside, where ys = ?tail] by simp_all
    then show ?thesis by (simp add: split_netloc_def)
  qed
  moreover have "py_partition (CHR ''#'') ?tail = (path @ ?q, frag \<noteq> [], frag)"
    using path(3) query py_partition_found [of "CHR ''#''" "path @ ?q" frag]
      py_partition_absent [of "CHR ''#''" "path @ ?q"] by (cases "query = []"; cases "frag = []") simp_all
  moreover have "py_partition (CHR ''?'') (path @ ?q) = (path, query \<noteq> [], query)"
    using path(2) py_partition_found [of "CHR ''?''" path query]
      py_partition_absent [of "CHR ''?''" path] by simp
  ultimately show ?thesis
    using netloc(3) by (simp only: urlsplit_def p prod.case) simp
qed

lemma quote_plus_clean: "no_breaks (quote_plus s)" "CHR ''#'' \<notin> set (quote_plus s)"
proof -
  have "c \<noteq> CHR 0x09 \<and> c \<noteq> CHR 0x0A \<and> c \<noteq> CHR 0x0D" if "c \<in> set (quote_plus s)" for c
  proof -
    from that have "is_unreserved c \<or> c = CHR ''+'' \<or> c = CHR ''%''"
      by (auto simp: quote_plus_def dest: quoted_char_safe)
    then show ?thesis
      by (auto simp: is_unreserved_def is_alnum_ascii_def is_upper_ascii_def is_lower_ascii_def
          is_digit_ascii_def)
  qed
  then show "no_breaks (quote_plus s)" by (auto simp: no_breaks_def list_all_iff)
  show "CHR ''#'' \<notin> set (quote_plus s)" using reserved_not_quoted by simp
qed

lemma urlencode_clean: "no_breaks (urlencode ps) \<and> CHR ''#'' \<notin> set (urlencode ps)"
proof (induction ps)
  case Nil
  then show ?case by (simp add: urlencode_def)
next
  case (Cons kv ps)
  obtain k v where kv: "kv = (k, v)" by (cases kv)
  show ?case
    using Cons quote_plus_clean [of k] quote_plus_clean [of v]
    by (cases "ps = []") (auto simp: urlencode_def kv py_join_Cons no_breaks_Cons)
qed

text \<open>A URL whose query is replaced by an encoded one is taken apart again into its parts.\<close>

lemma urlsplit_replaced_query:
  assumes "urlsplit ip u = Inr p" "up_scheme p \<noteq> []" "up_netloc p \<noteq> []"
  shows "urlsplit ip (urlunsplit (p\<lparr>up_query := urlencode ps\<rparr>)) = Inr (p\<lparr>up_query := urlencode ps\<rparr>)"
  using urlsplit_wf [OF assms] urlencode_clean [of ps]
  by (intro urlsplit_urlunsplit) (simp add: url_parts_wf_def)

section \<open>Text appended to a URL\<close>

lemma url_clean_append:
  assumes "url_clean u \<noteq> []" "no_breaks t" shows "url_clean (u @ t) = url_clean u @ t"
proof -
  let ?blank = "\<lambda>c. (of_char c :: nat) \<le> 32"
  have "\<not> (\<forall>c \<in> set u. ?blank c)"
  proof
    assume "\<forall>c \<in> set u. ?blank c"
    then have "dropWhile ?blank u = []" by simp
    with assms(1) show False by (simp add: url_clean_def)
  qed
  then obtain c where "c \<in> set u" "\<not> ?blank c" by blast
  then have "dropWhile ?blank (u @ t) = dropWhile ?blank u @ t" by (rule dropWhile_append1)
  moreover have "filter (\<lambda>c. c \<noteq> CHR 0x09 \<and> c \<noteq> CHR 0x0A \<and> c \<noteq> CHR 0x0D) t = t"
    using assms(2) by (simp add: no_breaks_def list_all_iff filter_id_conv)
  ultimately show ?thesis by (simp add: url_clean_def)
qed

lemma url_clean_keeps: "c \<in> set u \<Longrightarrow> 32 < (of_char c :: nat) \<Longrightarrow> c \<in> set (url_clean u)"
proof -
  assume c: "c \<in> set u" "32 < (of_char c :: nat)"
  have "c \<in> set (dropWhile (\<lambda>c. (of_char c :: nat) \<le> 32) u)"
    using c by (induction u) auto
  moreover have "c \<noteq> CHR 0x09 \<and> c \<noteq> CHR 0x0A \<and> c \<noteq> CHR 0x0D" using c(2) by auto
  ultimately show ?thesis by (simp add: url_clean_def)
qed

lemma set_url_clean: "set (url_clean u) \<subseteq> set u"
  by (auto simp: url_clean_def dest: set_dropWhileD)

lemma split_scheme_plain:
  assumes "split_scheme u = (scheme, rest)" "scheme \<noteq> []"
  obtains a where "u = a @ '':'' @ rest" "list_all is_scheme_char a"
proof (cases rule: py_partition_cases [of "CHR '':''" u])
  case (found a b)
  with assms that show ?thesis by (auto simp: split_scheme_def split: if_splits)
next
  case absent
  with assms show ?thesis by (simp add: split_scheme_def)
qed

lemma split_scheme_append:
  assumes "split_scheme u = (scheme, rest)" "scheme \<noteq> []"
  shows "split_scheme (u @ t) = (scheme, rest @ t)"
proof (cases rule: py_partition_cases [of "CHR '':''" u])
  case (found a b)
  then have "py_partition (CHR '':'') (u @ t) = (a, True, b @ t)"
    using py_partition_found [of "CHR '':''" a "b @ t"] by simp
  with found assms show ?thesis by (auto simp: split_scheme_def split: if_splits)
next
  case absent
  with assms show ?thesis by (simp add: split_scheme_def)
qed

lemma split_netloc_append:
  assumes netloc: "split_netloc u = (netloc, rest)" "netloc \<noteq> []"
    and stop: "rest \<noteq> [] \<or> t \<noteq> [] \<and> hd t \<in> set ''/?#''"
  shows "split_netloc (u @ t) = (netloc, rest @ t)"
proof -
  let ?P = "\<lambda>c. c \<notin> set ''/?#''"
  from split_netloc_cases [OF netloc] have u: "u = ''//'' @ netloc @ rest"
    and inside: "list_all ?P netloc" and head: "rest = [] \<or> hd rest \<in> set ''/?#''" by simp_all
  from inside have pass: "\<And>x. x \<in> set netloc \<Longrightarrow> ?P x" by (simp only: list_all_iff) blast
  have "rest @ t \<noteq> []" "hd (rest @ t) \<in> set ''/?#''" using stop head by (auto simp: hd_append)
  then have "takeWhile ?P (rest @ t) = [] \<and> dropWhile ?P (rest @ t) = rest @ t"
    by (cases "rest @ t") (simp_all only: list.sel takeWhile.simps dropWhile.simps if_False simp_thms)
  then have "takeWhile ?P (netloc @ rest @ t) = netloc" "dropWhile ?P (netloc @ rest @ t) = rest @ t"
    using takeWhile_append2 [OF pass, where ys = "rest @ t"]
      dropWhile_append2 [OF pass, where ys = "rest @ t"] by simp_all
  then show ?thesis by (simp add: split_netloc_def u)
qed

text \<open>A query appended to the text of a URL joins its query when the URL has no fragment, and
  otherwise becomes part of the fragment.\<close>

lemma urlsplit_append:
  assumes split: "urlsplit ip u = Inr p" and absolute: "up_scheme p \<noteq> []" "up_netloc p \<noteq> []"
    and t: "t = (if CHR ''?'' \<in> set u then ''&'' else ''?'') @ e" and e: "no_breaks e" "CHR ''#'' \<notin> set e"
  shows "urlsplit ip (u @ t) = Inr
    (if CHR ''#'' \<in> set u then p\<lparr>up_fragment := up_fragment p @ t\<rparr>
     else p\<lparr>up_query := (if CHR ''?'' \<in> set u then up_query p @ t else e)\<rparr>)"
proof -
  let ?c = "url_clean u"
  obtain scheme u1 netloc u2 where stages: "split_scheme ?c = (scheme, u1)"
      "split_netloc u1 = (netloc, u2)" by fastforce
  obtain u3 hash frag path mark query where parts: "py_partition (CHR ''#'') u2 = (u3, hash, frag)"
      "py_partition (CHR ''?'') u3 = (path, mark, query)" by (metis prod.exhaust)
  from split stages parts have p: "p = \<lparr>up_scheme = scheme, up_netloc = netloc, up_path = path,
        up_query = query, up_fragment = frag\<rparr>" and ok: "netloc_ok ip netloc"
    by (auto simp: urlsplit_def split: if_splits)
  obtain a where s: "?c = a @ '':'' @ u1" "list_all is_scheme_char a"
    using split_scheme_plain [OF stages(1)] absolute(1) p by auto
  have n: "u1 = ''//'' @ netloc @ u2" "list_all (\<lambda>c. c \<notin> set ''/?#'') netloc"
    using split_netloc_cases [OF stages(2)] absolute(2) p by simp_all
  have f: "CHR ''#'' \<notin> set u3" "u2 = u3 \<and> frag = [] \<and> \<not> hash \<or> u2 = u3 @ ''#'' @ frag \<and> hash"
    using parts(1) by (cases rule: py_partition_cases [of "CHR ''#''" u2]; auto)+
  have q: "CHR ''?'' \<notin> set path" "u3 = path \<and> query = [] \<and> \<not> mark \<or> u3 = path @ ''?'' @ query \<and> mark"
    using parts(2) by (cases rule: py_partition_cases [of "CHR ''?''" u3]; auto)+
  have here: "c \<in> set u \<longleftrightarrow> c \<in> set u2" if "c = CHR ''?'' \<or> c = CHR ''#''" for c
  proof -
    have big: "32 < (of_char c :: nat)" using that by auto
    have "\<not> is_scheme_char c"
      using that by (auto simp: is_scheme_char_def is_alnum_ascii_def
          is_upper_ascii_def is_lower_ascii_def is_digit_ascii_def)
    with s(2) have "c \<notin> set a" by (auto simp: list_all_iff)
    moreover have "c \<notin> set netloc"
    proof
      assume "c \<in> set netloc"
      with n(2) have "c \<notin> set ''/?#''" unfolding list_all_iff by blast
      with that show False by simp
    qed
    moreover have "c \<noteq> CHR '':''" "c \<noteq> CHR ''/''" using that by auto
    ultimately have "c \<in> set ?c \<longleftrightarrow> c \<in> set u2" unfolding s(1) n(1) by simp
    then show ?thesis using url_clean_keeps [OF _ big] set_url_clean [of u] by blast
  qed
  have "no_breaks t" using e(1) unfolding t by (simp add: no_breaks_Cons)
  moreover have "?c \<noteq> []" using s(1) by simp
  ultimately have clean: "url_clean (u @ t) = ?c @ t" by (simp add: url_clean_append)
  have stage1: "split_scheme (?c @ t) = (scheme, u1 @ t)"
    using absolute(1) p by (intro split_scheme_append stages(1)) simp
  have "u2 \<noteq> [] \<or> t \<noteq> [] \<and> hd t \<in> set ''/?#''"
  proof (cases "u2 = []")
    case True
    then show ?thesis using here [of "CHR ''?''"] unfolding t by simp
  qed simp
  then have stage2: "split_netloc (u1 @ t) = (netloc, u2 @ t)"
    using absolute(2) p by (intro split_netloc_append stages(2)) simp_all
  have tail: "urlsplit ip (u @ t) =
      (case py_partition (CHR ''#'') (u2 @ t) of (u3, _, fragment) \<Rightarrow>
       (case py_partition (CHR ''?'') u3 of (path, _, query) \<Rightarrow>
          Inr \<lparr>up_scheme = scheme, up_netloc = netloc, up_path = path, up_query = query,
               up_fragment = fragment\<rparr>))"
    using ok by (simp add: urlsplit_def clean stage1 stage2)
  show ?thesis
  proof (cases hash)
    case True
    with f have u2: "u2 = u3 @ ''#'' @ frag" by auto
    then have "CHR ''#'' \<in> set u" using here [of "CHR ''#''"] by simp
    moreover have "py_partition (CHR ''#'') (u2 @ t) = (u3, True, frag @ t)"
      using f(1) py_partition_found [of "CHR ''#''" u3 "frag @ t"] by (simp add: u2)
    ultimately show ?thesis using parts(2) by (simp add: tail p)
  next
    case False
    with f have u2: "u2 = u3" "frag = []" by auto
    then have none: "CHR ''#'' \<notin> set u" using here [of "CHR ''#''"] f(1) by simp
    have "CHR ''#'' \<notin> set t" using e(2) unfolding t by simp
    then have first: "py_partition (CHR ''#'') (u2 @ t) = (u3 @ t, False, [])"
      using f(1) py_partition_absent [of "CHR ''#''" "u3 @ t"] by (simp add: u2)
    show ?thesis
    proof (cases mark)
      case True
      with q have u3: "u3 = path @ ''?'' @ query" by auto
      then have "CHR ''?'' \<in> set u" using here [of "CHR ''?''"] u2 by simp
      moreover have "py_partition (CHR ''?'') (u3 @ t) = (path, True, query @ t)"
        using q(1) py_partition_found [of "CHR ''?''" path "query @ t"] by (simp add: u3)
      ultimately show ?thesis using none first by (simp add: tail p u2(2))
    next
      case False
      with q have u3: "u3 = path" "query = []" by auto
      then have "CHR ''?'' \<notin> set u" using here [of "CHR ''?''"] u2 q(1) by simp
      moreover from this have "py_partition (CHR ''?'') (u3 @ t) = (path, True, e)"
        using q(1) py_partition_found [of "CHR ''?''" path e] by (simp add: u3 t)
      ultimately show ?thesis using none first by (simp add: tail p u2(2))
    qed
  qed
qed

lemma urlsplit_no_query:
  assumes "urlsplit ip u = Inr p" "CHR ''?'' \<notin> set u" shows "up_query p = []"
proof -
  let ?c = "url_clean u"
  obtain scheme u1 netloc u2 where stages: "split_scheme ?c = (scheme, u1)"
      "split_netloc u1 = (netloc, u2)" by fastforce
  obtain u3 hash frag path mark query where parts: "py_partition (CHR ''#'') u2 = (u3, hash, frag)"
      "py_partition (CHR ''?'') u3 = (path, mark, query)" by (metis prod.exhaust)
  from assms stages parts have p: "up_query p = query"
    by (auto simp: urlsplit_def split: if_splits)
  have "set u1 \<subseteq> set ?c"
  proof (cases "scheme = []")
    case True
    then have "u1 = ?c"
      using stages(1) by (auto simp: split_scheme_def py_lower_def split: prod.splits if_splits)
    then show ?thesis by simp
  next
    case False
    obtain a where "?c = a @ '':'' @ u1" using split_scheme_plain [OF stages(1) False] by blast
    then show ?thesis by auto
  qed
  moreover have "set u2 \<subseteq> set u1"
    using stages(2) by (auto simp: split_netloc_def split: if_splits dest: set_dropWhileD in_set_dropD)
  moreover have "set u3 \<subseteq> set u2"
    using parts(1) by (cases rule: py_partition_cases [of "CHR ''#''" u2]) auto
  ultimately have "CHR ''?'' \<notin> set u3" using assms(2) set_url_clean by blast
  then show ?thesis using parts(2) p by (simp add: py_partition_absent)
qed

lemma py_split_append: "py_split sep (a @ sep # b) = py_split sep a @ py_split sep b"
proof (induction a)
  case (Cons c a)
  then show ?case by (cases "py_split sep a") auto
qed simp

lemma parse_qsl_append: "parse_qsl (q @ ''&'' @ urlencode ps) = parse_qsl q @ ps"
  using parse_qsl_urlencode [of ps] py_split_append [of "CHR ''&''" q "urlencode ps"]
  by (simp add: parse_qsl_def)

end
