(* ===== verification/Callback_Urls.thy ===== *)
theory Callback_Urls
  imports Outcomes Web_Text
begin

text \<open>
  The result URL of an external supplier (\<open>build_supplier_result_url\<close> and
  \<open>resolve_public_callback_destination\<close> of \<open>surveys/supplier_callbacks.py\<close>,
  \<open>_external_supplier_result_url\<close> of \<open>surveys/views.py\<close>, \<open>sign_supplier_callback\<close> of
  \<open>vendors/security.py\<close>, \<open>decrypt_secret\<close> of \<open>vendors/credentials.py\<close>).  What lies outside the
  repository is a field of \<open>callback_services\<close>: the HMAC, the decryption under the deployment
  key (\<^term>\<open>None\<close> for \<open>InvalidToken\<close>), the text of a time and its parser, \<open>html.unescape\<close>, and
  of the \<open>ipaddress\<close> and \<open>socket\<close> modules an address, whether it is global, its text, and the
  addresses a name resolves to (\<^term>\<open>None\<close> when it does not).
\<close>

record callback_services =
  cs_ip_literal :: "string \<Rightarrow> bool"
  cs_unescape :: "string \<Rightarrow> string"
  cs_decrypt :: "string \<Rightarrow> string option"
  cs_hmac :: "string \<Rightarrow> string \<Rightarrow> string"
  cs_isoformat :: "timestamp \<Rightarrow> string"
  cs_parse_datetime :: "string \<Rightarrow> py_error + timestamp option"
  cs_ip_address :: "string \<Rightarrow> string option"
  cs_is_global :: "string \<Rightarrow> bool"
  cs_getaddrinfo :: "string \<Rightarrow> nat \<Rightarrow> string list option"

definition TERMINAL_STATUS_CODES :: "string list" where
  "TERMINAL_STATUS_CODES =
     map attempt_status_value [COMPLETED, TERMINATED, OVER_QUOTA, QUALITY_TERMINATED]"

definition delivery_event_id :: "survey_attempt \<Rightarrow> string \<Rightarrow> string" where
  "delivery_event_id a status_code = at_pid a @ ''-'' @ status_code"

section \<open>Signing\<close>

definition sign_supplier_callback ::
  "(string \<Rightarrow> string \<Rightarrow> string) \<Rightarrow> (string \<times> string) list \<Rightarrow> string \<Rightarrow> string" where
  "sign_supplier_callback hmac parameters secret = hmac secret (urlencode (sort_key fst parameters))"

definition decrypt_secret :: "(string \<Rightarrow> string option) \<Rightarrow> string \<Rightarrow> py_error + string" where
  "decrypt_secret decrypt stored =
     (let value = py_strip stored in
      if value = [] then Inr []
      else of_option (ValueError ''Stored supplier callback secret cannot be decrypted.'') (decrypt value))"

text \<open>The hash a key adds to the parameters, \<^term>\<open>None\<close> where the code gives up on the URL.\<close>

definition signature_parameters ::
  "callback_services \<Rightarrow> vendor_api_key \<Rightarrow> (string \<times> string) list \<Rightarrow> (string \<times> string) list option" where
  "signature_parameters svc key parameters =
     (if \<not> vak_callback_signing_enabled key then Some []
      else (case decrypt_secret (cs_decrypt svc) (vak_encrypted_callback_secret key) of
              Inl _ \<Rightarrow> None
            | Inr secret \<Rightarrow>
                if secret = [] then None
                else Some [(''hash'', sign_supplier_callback (cs_hmac svc) parameters secret)]))"

section \<open>The result URL\<close>

definition supplier_api_key :: "db \<Rightarrow> survey_attempt \<Rightarrow> vendor_api_key option" where
  "supplier_api_key d a =
     (case at_supplier_api_key_id a of
        None \<Rightarrow> None
      | Some i \<Rightarrow> if i = 0 then None else row_by_pk vak_id i (api_keys d))"

definition delivered_survey_id :: "survey_attempt \<Rightarrow> survey \<Rightarrow> py_error + string" where
  "delivered_survey_id a s =
     (case dict_or_empty (at_supplier_delivery_config a) of
        Inl e \<Rightarrow> Inl e
      | Inr delivery \<Rightarrow> Inr (str_or (dict_get delivery ''survey_id'') (sv_local_id s)))"

definition result_timestamp :: "survey_attempt \<Rightarrow> timestamp \<Rightarrow> timestamp" where
  "result_timestamp a now =
     (case at_callback_at a of
        Some t \<Rightarrow> t
      | None \<Rightarrow> (case at_last_callback_at a of Some t \<Rightarrow> t | None \<Rightarrow> now))"

definition status_source_text :: "survey_attempt \<Rightarrow> string" where
  "status_source_text a = (if at_status_source a \<noteq> [] then at_status_source a else ''browser_callback'')"

definition result_parameters ::
  "callback_services \<Rightarrow> survey_attempt \<Rightarrow> survey \<Rightarrow> string \<Rightarrow> outcome \<Rightarrow> string \<Rightarrow> timestamp
   \<Rightarrow> (string \<times> string) list" where
  "result_parameters svc a s survey_id oc status_code now =
     [(''status'', status_code), (''surveyId'', survey_id), (''projectId'', sv_local_id s),
      (''pid'', at_pid a), (''eventId'', delivery_event_id a status_code),
      (''timestamp'', cs_isoformat svc (result_timestamp a now)),
      (''statusSource'', status_source_text a), (''termReason'', oc_reason oc),
      (''termCategory'', oc_category oc)]"

definition safe_callback_parts :: "url_parts \<Rightarrow> bool" where
  "safe_callback_parts p = (up_scheme p = ''https'' \<and> url_hostname p \<noteq> [] \<and> \<not> url_has_user_info p)"

definition reserved_parameter :: "(string \<times> string) list \<Rightarrow> string \<Rightarrow> bool" where
  "reserved_parameter parameters name =
     (py_lower name \<in> set (map (\<lambda>(k, _). py_lower k) parameters) \<or> py_lower name = ''hash'')"

definition signed_result_url ::
  "callback_services \<Rightarrow> vendor_api_key \<Rightarrow> url_parts \<Rightarrow> (string \<times> string) list \<Rightarrow> string" where
  "signed_result_url svc key parts parameters =
     (let existing = parse_qsl (up_query parts) in
      if list_ex (\<lambda>(name, _). reserved_parameter parameters name) existing then []
      else (case signature_parameters svc key parameters of
              None \<Rightarrow> []
            | Some signature \<Rightarrow>
                urlunsplit (parts\<lparr>up_query := urlencode (existing @ parameters @ signature)\<rparr>)))"

definition build_supplier_result_url ::
  "callback_services \<Rightarrow> db \<Rightarrow> survey_attempt \<Rightarrow> string \<Rightarrow> timestamp \<Rightarrow> py_error + string" where
  "build_supplier_result_url svc d a status_code now =
     (if status_code \<notin> set TERMINAL_STATUS_CODES then Inr []
      else (case supplier_api_key d a of
              None \<Rightarrow> Inr []
            | Some key \<Rightarrow>
                (let callback_url = callback_url_for_status key status_code in
                 if callback_url = [] then Inr []
                 else (case urlsplit (cs_ip_literal svc) callback_url of
                         Inl e \<Rightarrow> Inl e
                       | Inr parts \<Rightarrow>
                           if \<not> safe_callback_parts parts then Inr []
                           else (case provider_outcome (cs_unescape svc) d a of
                                   Inl e \<Rightarrow> Inl e
                                 | Inr oc \<Rightarrow>
                                (case of_option (DoesNotExist ''Survey'') (get_survey d (at_survey a)) of
                                   Inl e \<Rightarrow> Inl e
                                 | Inr s \<Rightarrow>
                                (case delivered_survey_id a s of
                                   Inl e \<Rightarrow> Inl e
                                 | Inr survey_id \<Rightarrow>
                                     Inr (signed_result_url svc key parts
                                       (result_parameters svc a s survey_id oc status_code now)))))))))"

text \<open>The redirect of \<open>survey_status\<close>: it appends the parameters to the text of the URL, sends the
  RID along and does not look at the URL's scheme or at the parameters it already has.\<close>

definition redirect_parameters ::
  "survey_attempt \<Rightarrow> survey \<Rightarrow> string \<Rightarrow> outcome \<Rightarrow> string \<Rightarrow> (string \<times> string) list" where
  "redirect_parameters a s survey_id oc status_code =
     [(''status'', status_code), (''surveyId'', survey_id), (''projectId'', sv_local_id s),
      (''rid'', at_rid a), (''pid'', if at_pid a \<noteq> [] then at_pid a else at_rid a),
      (''statusSource'', status_source_text a), (''termReason'', oc_reason oc),
      (''termCategory'', oc_category oc)]"

definition append_query :: "string \<Rightarrow> (string \<times> string) list \<Rightarrow> string" where
  "append_query url parameters =
     url @ (if CHR ''?'' \<in> set url then ''&'' else ''?'') @ urlencode parameters"

definition external_supplier_result_url ::
  "callback_services \<Rightarrow> db \<Rightarrow> survey_attempt \<Rightarrow> string \<Rightarrow> py_error + string" where
  "external_supplier_result_url svc d a status_code =
     (case supplier_api_key d a of
        None \<Rightarrow> Inr []
      | Some key \<Rightarrow>
          (let callback_url = callback_url_for_status key status_code in
           if callback_url = [] then Inr []
           else (case provider_outcome (cs_unescape svc) d a of
                   Inl e \<Rightarrow> Inl e
                 | Inr oc \<Rightarrow>
                (case of_option (DoesNotExist ''Survey'') (get_survey d (at_survey a)) of
                   Inl e \<Rightarrow> Inl e
                 | Inr s \<Rightarrow>
                (case delivered_survey_id a s of
                   Inl e \<Rightarrow> Inl e
                 | Inr survey_id \<Rightarrow>
                     (let parameters = redirect_parameters a s survey_id oc status_code in
                      case signature_parameters svc key parameters of
                        None \<Rightarrow> Inr []
                      | Some signature \<Rightarrow> Inr (append_query callback_url (parameters @ signature))))))))"

section \<open>Where a callback may go\<close>

record callback_destination =
  cd_parts :: url_parts
  cd_hostname :: string
  cd_port :: nat
  cd_address :: string

definition callback_hostname :: "url_parts \<Rightarrow> string" where
  "callback_hostname p = rev (dropWhile (\<lambda>c. c = CHR ''.'') (rev (url_hostname p)))"

definition resolved_addresses ::
  "callback_services \<Rightarrow> string \<Rightarrow> nat \<Rightarrow> py_error + string list" where
  "resolved_addresses svc hostname port =
     (case cs_ip_address svc hostname of
        Some address \<Rightarrow> Inr [address]
      | None \<Rightarrow>
          (case cs_getaddrinfo svc hostname port of
             None \<Rightarrow> Inl (SupplierCallbackRetryableError ''Supplier callback hostname could not be resolved.'')
           | Some rows \<Rightarrow> Inr (List.map_filter (cs_ip_address svc) rows)))"

definition resolve_public_callback_destination ::
  "callback_services \<Rightarrow> string \<Rightarrow> py_error + callback_destination" where
  "resolve_public_callback_destination svc callback_url =
     (case urlsplit (cs_ip_literal svc) callback_url of
        Inl e \<Rightarrow> Inl e
      | Inr parts \<Rightarrow>
          (let hostname = callback_hostname parts in
           if up_scheme parts \<noteq> ''https'' \<or> hostname = [] \<or> url_has_user_info parts
              \<or> hostname = ''localhost'' \<or> py_endswith hostname ''.localhost''
           then Inl (UnsafeSupplierCallbackURL ''Supplier callback destination is not allowed.'')
           else (case url_port parts of
                   Inl _ \<Rightarrow> Inl (UnsafeSupplierCallbackURL ''Supplier callback destination has an invalid port.'')
                 | Inr given \<Rightarrow>
                     (let port = (case given of Some p \<Rightarrow> if p = 0 then 443 else p | None \<Rightarrow> 443) in
                      case resolved_addresses svc hostname port of
                        Inl e \<Rightarrow> Inl e
                      | Inr addresses \<Rightarrow>
                          if addresses = [] \<or> list_ex (\<lambda>address. \<not> cs_is_global svc address) addresses
                          then Inl (UnsafeSupplierCallbackURL ''Supplier callback destination is not public.'')
                          else Inr \<lparr>cd_parts = parts, cd_hostname = hostname, cd_port = port,
                                    cd_address = hd addresses\<rparr>))))"

end
