(* ===== verification/Supplier_Callbacks.thy ===== *)
theory Supplier_Callbacks
  imports Callback_Urls
begin

text \<open>
  Delivery of results to suppliers (\<open>surveys/supplier_callbacks.py\<close> and the two Celery tasks of
  \<open>surveys/tasks.py\<close>).  The delivery record of an attempt is the dict under
  \<open>supplier_callback_delivery\<close> in its \<open>upstream_transaction_data\<close>.  Every operation below is one
  transaction on the row locked by \<open>select_for_update\<close> and reads the clock once, as \<open>now\<close>.  The
  HTTP request is the parameter \<open>request\<close>: the status of the response, or \<^term>\<open>None\<close> for a
  transport error.
\<close>

definition DELIVERY_AUDIT_KEY :: string where
  "DELIVERY_AUDIT_KEY = ''supplier_callback_delivery''"

section \<open>The delivery record\<close>

definition delivery_audit :: "survey_attempt \<Rightarrow> jdict" where
  "delivery_audit a = only_dict (at_upstream_transaction_data a)"

definition delivery_record :: "survey_attempt \<Rightarrow> jdict" where
  "delivery_record a = only_dict (dict_get (delivery_audit a) DELIVERY_AUDIT_KEY)"

definition put_delivery :: "jdict \<Rightarrow> timestamp \<Rightarrow> survey_attempt \<Rightarrow> survey_attempt" where
  "put_delivery record now a =
     a\<lparr>at_upstream_transaction_data := JObj (dict_set DELIVERY_AUDIT_KEY (JObj record) (delivery_audit a)),
       at_updated_at := now\<rparr>"

definition save_delivery :: "pk \<Rightarrow> jdict \<Rightarrow> timestamp \<Rightarrow> db \<Rightarrow> db" where
  "save_delivery i record now d = update_attempts (\<lambda>a. at_id a = i) (put_delivery record now) d"

definition locked_attempt :: "db \<Rightarrow> pk \<Rightarrow> py_error + survey_attempt" where
  "locked_attempt d i = of_option (DoesNotExist ''SurveyAttempt'') (get_attempt d i)"

section \<open>Queueing\<close>

definition requeued_record :: "callback_services \<Rightarrow> jdict \<Rightarrow> timestamp \<Rightarrow> jdict" where
  "requeued_record svc record now =
     dict_merge record [(''state'', JStr ''queued''), (''last_error'', JStr []),
       (''updated_at'', JStr (cs_isoformat svc now))]"

definition new_delivery_record :: "callback_services \<Rightarrow> string \<Rightarrow> string \<Rightarrow> timestamp \<Rightarrow> jdict" where
  "new_delivery_record svc event_id status_code now =
     [(''event_id'', JStr event_id), (''status'', JStr status_code), (''state'', JStr ''queued''),
      (''attempt_count'', JInt 0), (''queued_at'', JStr (cs_isoformat svc now)),
      (''updated_at'', JStr (cs_isoformat svc now)), (''last_error'', JStr [])]"

text \<open>The record to store for an event, \<^term>\<open>None\<close> when nothing is to be dispatched.\<close>

definition queued_record ::
  "callback_services \<Rightarrow> jdict \<Rightarrow> string \<Rightarrow> string \<Rightarrow> timestamp \<Rightarrow> jdict option" where
  "queued_record svc existing event_id status_code now =
     (if dict_get existing ''event_id'' = JStr event_id
      then (if dict_get existing ''state'' = JStr ''queue_failed''
            then Some (requeued_record svc existing now) else None)
      else if existing \<noteq> [] then None
      else Some (new_delivery_record svc event_id status_code now))"

definition queue_supplier_result_callback ::
  "callback_services \<Rightarrow> db \<Rightarrow> survey_attempt \<Rightarrow> timestamp \<Rightarrow> py_error + (bool \<times> db)" where
  "queue_supplier_result_callback svc d a now =
     (let status_code = attempt_status_value (at_status a);
          event_id = delivery_event_id a status_code in
      if status_code \<notin> set TERMINAL_STATUS_CODES then Inr (False, d)
      else (case build_supplier_result_url svc d a status_code now of
              Inl e \<Rightarrow> Inl e
            | Inr url \<Rightarrow>
                if url = [] then Inr (False, d)
                else (case locked_attempt d (at_id a) of
                        Inl e \<Rightarrow> Inl e
                      | Inr locked \<Rightarrow>
                          if attempt_status_value (at_status locked) \<noteq> status_code then Inr (False, d)
                          else (case queued_record svc (delivery_record locked) event_id status_code now of
                                  None \<Rightarrow> Inr (False, d)
                                | Some record \<Rightarrow> Inr (True, save_delivery (at_id a) record now d)))))"

definition mark_queue_failure ::
  "callback_services \<Rightarrow> db \<Rightarrow> pk \<Rightarrow> string \<Rightarrow> timestamp \<Rightarrow> py_error + db" where
  "mark_queue_failure svc d i event_id now =
     (case locked_attempt d i of
        Inl e \<Rightarrow> Inl e
      | Inr a \<Rightarrow>
          (let record = delivery_record a in
           if dict_get record ''event_id'' \<noteq> JStr event_id \<or> dict_get record ''state'' \<noteq> JStr ''queued''
           then Inr d
           else Inr (save_delivery i
             (dict_merge record [(''state'', JStr ''queue_failed''),
               (''last_error'', JStr ''Callback worker queue unavailable.''),
               (''updated_at'', JStr (cs_isoformat svc now))]) now d)))"

text \<open>\<open>_dispatch_supplier_callback\<close>: the job reaches the broker, or the failure is recorded.\<close>

definition dispatch_supplier_callback ::
  "callback_services \<Rightarrow> bool \<Rightarrow> db \<Rightarrow> pk \<Rightarrow> string \<Rightarrow> timestamp \<Rightarrow> py_error + db" where
  "dispatch_supplier_callback svc broker_up d i event_id now =
     (if broker_up then Inr d else mark_queue_failure svc d i event_id now)"

section \<open>Delivering\<close>

datatype delivery_result =
    Skipped string
  | Delivered int
  | Not_Delivered "string option" "int option"

definition int_of_json :: "json \<Rightarrow> py_error + int" where
  "int_of_json v =
     (case v of
        JInt i \<Rightarrow> Inr i
      | JBool b \<Rightarrow> Inr (if b then 1 else 0)
      | JFloat q _ \<Rightarrow> Inr (if 0 \<le> q then \<lfloor>q\<rfloor> else - \<lfloor>- q\<rfloor>)
      | JStr s \<Rightarrow> of_option (ValueError ''invalid literal for int()'') (parse_int s)
      | _ \<Rightarrow> Inl (TypeError ''int() argument''))"

definition recently_claimed :: "callback_services \<Rightarrow> jdict \<Rightarrow> timestamp \<Rightarrow> py_error + bool" where
  "recently_claimed svc record now =
     (case cs_parse_datetime svc (str_or (dict_get record ''last_attempt_at'') []) of
        Inl e \<Rightarrow> Inl e
      | Inr None \<Rightarrow> Inr False
      | Inr (Some last_attempt_at) \<Rightarrow> Inr (now - seconds 30 < last_attempt_at))"

definition deliverable_state :: "json \<Rightarrow> py_error + bool" where
  "deliverable_state v =
     (case v of
        JStr s \<Rightarrow> Inr (s \<in> set [''queued'', ''failed'', ''queue_failed'', ''delivering''])
      | JArr _ \<Rightarrow> Inl (TypeError ''unhashable type'')
      | JObj _ \<Rightarrow> Inl (TypeError ''unhashable type'')
      | _ \<Rightarrow> Inr False)"

definition claimed_record :: "callback_services \<Rightarrow> jdict \<Rightarrow> int \<Rightarrow> timestamp \<Rightarrow> jdict" where
  "claimed_record svc record count now =
     dict_merge record [(''state'', JStr ''delivering''), (''attempt_count'', JInt (count + 1)),
       (''last_attempt_at'', JStr (cs_isoformat svc now)), (''updated_at'', JStr (cs_isoformat svc now)),
       (''last_error'', JStr [])]"

datatype claim = Skip string | Claim survey_attempt jdict

text \<open>The first transaction of \<open>deliver_supplier_result_callback\<close>.\<close>

definition claim_delivery ::
  "callback_services \<Rightarrow> db \<Rightarrow> pk \<Rightarrow> string \<Rightarrow> timestamp \<Rightarrow> py_error + (claim \<times> db)" where
  "claim_delivery svc d i event_id now =
     (case locked_attempt d i of
        Inl e \<Rightarrow> Inl e
      | Inr a \<Rightarrow>
          (let record = delivery_record a; state = dict_get record ''state'' in
           if dict_get record ''event_id'' \<noteq> JStr event_id then Inr (Skip ''event mismatch'', d)
           else if state = JStr ''delivered'' then Inr (Skip ''already delivered'', d)
           else (case (if state = JStr ''delivering'' then recently_claimed svc record now else Inr False) of
                   Inl e \<Rightarrow> Inl e
                 | Inr True \<Rightarrow> Inl (SupplierCallbackRetryableError ''Supplier callback delivery is already running.'')
                 | Inr False \<Rightarrow>
                     (case deliverable_state state of
                        Inl e \<Rightarrow> Inl e
                      | Inr False \<Rightarrow> Inr (Skip ''event is not deliverable'', d)
                      | Inr True \<Rightarrow>
                          (case (if truthy (dict_get record ''attempt_count'')
                                 then int_of_json (dict_get record ''attempt_count'') else Inr 0) of
                             Inl e \<Rightarrow> Inl e
                           | Inr count \<Rightarrow>
                               let claimed = claimed_record svc record count now
                               in Inr (Claim (put_delivery claimed now a) claimed,
                                       save_delivery i claimed now d))))))"

text \<open>What the worker found out about a claimed event, and what it returns or raises.\<close>

record finding =
  fd_state :: string
  fd_http :: json
  fd_error :: string
  fd_result :: "py_error + delivery_result"

definition failed_finding :: "string \<Rightarrow> py_error + delivery_result \<Rightarrow> finding" where
  "failed_finding error result =
     \<lparr>fd_state = ''failed'', fd_http = JNull, fd_error = error, fd_result = result\<rparr>"

definition response_error :: "int \<Rightarrow> string" where
  "response_error code = ''Supplier callback returned HTTP '' @ show_int code @ ''.''"

definition response_finding :: "int \<Rightarrow> finding" where
  "response_finding code =
     (if 200 \<le> code \<and> code < 300
      then \<lparr>fd_state = ''delivered'', fd_http = JInt code, fd_error = [], fd_result = Inr (Delivered code)\<rparr>
      else \<lparr>fd_state = ''failed'', fd_http = JInt code, fd_error = response_error code,
            fd_result = (if code = 429 \<or> 500 \<le> code
                         then Inl (SupplierCallbackRetryableError (response_error code))
                         else Inr (Not_Delivered None (Some code)))\<rparr>)"

definition send_callback ::
  "callback_services \<Rightarrow> (callback_destination \<Rightarrow> string \<Rightarrow> int option) \<Rightarrow> string \<Rightarrow> string
   \<Rightarrow> py_error + int" where
  "send_callback svc request url event_id =
     (case resolve_public_callback_destination svc url of
        Inl e \<Rightarrow> Inl e
      | Inr destination \<Rightarrow>
          of_option (SupplierCallbackRetryableError ''Supplier callback request failed.'')
            (request destination event_id))"

text \<open>Between the transactions; \<^term>\<open>Inl e\<close> is an exception that leaves the claim as it is.\<close>

definition work_delivery ::
  "callback_services \<Rightarrow> (callback_destination \<Rightarrow> string \<Rightarrow> int option) \<Rightarrow> db \<Rightarrow> survey_attempt
   \<Rightarrow> jdict \<Rightarrow> string \<Rightarrow> timestamp \<Rightarrow> py_error + finding" where
  "work_delivery svc request d a record event_id now =
     (case of_option (KeyError ''status'') (map_of record ''status'') of
        Inl e \<Rightarrow> Inl e
      | Inr status \<Rightarrow>
          (case build_supplier_result_url svc d a (py_str status) now of
             Inl e \<Rightarrow> Inl e
           | Inr url \<Rightarrow>
               if url = [] then
                 Inr (failed_finding ''Callback configuration is unavailable.''
                   (Inr (Not_Delivered (Some ''callback unavailable'') None)))
               else (case send_callback svc request url event_id of
                       Inr code \<Rightarrow> Inr (response_finding code)
                     | Inl (UnsafeSupplierCallbackURL _) \<Rightarrow>
                         Inr (failed_finding ''Callback destination is not allowed.''
                           (Inr (Not_Delivered (Some ''unsafe destination'') None)))
                     | Inl (SupplierCallbackRetryableError text) \<Rightarrow>
                         Inr (failed_finding ''Supplier callback request failed.''
                           (Inl (SupplierCallbackRetryableError text)))
                     | Inl e \<Rightarrow> Inl e)))"

definition finished_record :: "callback_services \<Rightarrow> jdict \<Rightarrow> finding \<Rightarrow> timestamp \<Rightarrow> jdict" where
  "finished_record svc record f now =
     dict_merge record
       ([(''state'', JStr (fd_state f)), (''http_status'', fd_http f),
         (''last_error'', JStr (take 240 (fd_error f))), (''updated_at'', JStr (cs_isoformat svc now))]
        @ (if fd_state f = ''delivered'' then [(''delivered_at'', JStr (cs_isoformat svc now))] else []))"

definition finish_delivery ::
  "callback_services \<Rightarrow> db \<Rightarrow> pk \<Rightarrow> string \<Rightarrow> finding \<Rightarrow> timestamp \<Rightarrow> py_error + (bool \<times> db)" where
  "finish_delivery svc d i event_id f now =
     (case locked_attempt d i of
        Inl e \<Rightarrow> Inl e
      | Inr a \<Rightarrow>
          (let record = delivery_record a in
           if dict_get record ''event_id'' \<noteq> JStr event_id then Inr (False, d)
           else Inr (True, save_delivery i (finished_record svc record f now) now d)))"

text \<open>The whole of \<open>deliver_supplier_result_callback\<close> run without interruption: the claim at
  \<open>now\<close>, the end at \<open>later\<close>.  The database it leaves comes with what it returns or raises.\<close>

definition deliver_supplier_result_callback ::
  "callback_services \<Rightarrow> (callback_destination \<Rightarrow> string \<Rightarrow> int option) \<Rightarrow> db \<Rightarrow> pk \<Rightarrow> string
   \<Rightarrow> timestamp \<Rightarrow> timestamp \<Rightarrow> db \<times> (py_error + delivery_result)" where
  "deliver_supplier_result_callback svc request d i event_id now later =
     (case claim_delivery svc d i event_id now of
        Inl e \<Rightarrow> (d, Inl e)
      | Inr (Skip reason, d1) \<Rightarrow> (d1, Inr (Skipped reason))
      | Inr (Claim a record, d1) \<Rightarrow>
          (case work_delivery svc request d1 a record event_id later of
             Inl e \<Rightarrow> (d1, Inl e)
           | Inr f \<Rightarrow>
               (case finish_delivery svc d1 i event_id f later of
                  Inl e \<Rightarrow> (d1, Inl e)
                | Inr (_, d2) \<Rightarrow> (d2, fd_result f))))"

section \<open>The tasks\<close>

datatype task_outcome = Task_Done delivery_result | Task_Retry nat | Task_Failed py_error

definition max_delivery_retries :: nat where
  "max_delivery_retries = 5"

definition retry_countdown :: "nat \<Rightarrow> nat" where
  "retry_countdown retries = min 300 (5 * 2 ^ retries)"

text \<open>\<open>self.retry\<close> schedules another run until the retries are used up, then the error is raised.\<close>

definition delivery_task_outcome :: "nat \<Rightarrow> py_error + delivery_result \<Rightarrow> task_outcome" where
  "delivery_task_outcome retries result =
     (case result of
        Inr r \<Rightarrow> Task_Done r
      | Inl (SupplierCallbackRetryableError text) \<Rightarrow>
          if retries < max_delivery_retries then Task_Retry (retry_countdown retries)
          else Task_Failed (SupplierCallbackRetryableError text)
      | Inl e \<Rightarrow> Task_Failed e)"

definition recovery_candidate :: "timestamp \<Rightarrow> survey_attempt \<Rightarrow> bool" where
  "recovery_candidate lookback a =
     (at_status a \<in> {COMPLETED, TERMINATED, OVER_QUOTA, QUALITY_TERMINATED}
      \<and> (case at_callback_at a of None \<Rightarrow> False | Some t \<Rightarrow> lookback \<le> t)
      \<and> dict_get (delivery_record a) ''state''
          \<in> set (map JStr [''queued'', ''queue_failed'', ''delivering'']))"

definition recovery_order :: "survey_attempt list \<Rightarrow> survey_attempt list" where
  "recovery_order as = sort_key (\<lambda>a. case at_callback_at a of Some t \<Rightarrow> - t | None \<Rightarrow> 0) as"

definition recoverable_event ::
  "callback_services \<Rightarrow> timestamp \<Rightarrow> survey_attempt \<Rightarrow> py_error + (pk \<times> string) option" where
  "recoverable_event svc stale_before a =
     (let record = delivery_record a; event_id = str_or (dict_get record ''event_id'') [] in
      if event_id = [] then Inr None
      else (case cs_parse_datetime svc (str_or (dict_get record ''updated_at'') []) of
              Inl e \<Rightarrow> Inl e
            | Inr updated_at \<Rightarrow>
                if dict_get record ''state'' \<noteq> JStr ''queue_failed''
                   \<and> (case updated_at of None \<Rightarrow> False | Some t \<Rightarrow> stale_before < t)
                then Inr None else Inr (Some (at_id a, event_id))))"

record recovery =
  rc_queued :: "(pk \<times> string) list"
  rc_failures :: nat

text \<open>\<open>delivers\<close> tells whether the broker takes a job.\<close>

fun recover_events ::
  "callback_services \<Rightarrow> (pk \<Rightarrow> bool) \<Rightarrow> timestamp \<Rightarrow> recovery \<Rightarrow> survey_attempt list \<Rightarrow> py_error + recovery" where
  "recover_events svc delivers stale_before acc [] = Inr acc"
| "recover_events svc delivers stale_before acc (a # as) =
     (case recoverable_event svc stale_before a of
        Inl e \<Rightarrow> Inl e
      | Inr None \<Rightarrow> recover_events svc delivers stale_before acc as
      | Inr (Some job) \<Rightarrow>
          recover_events svc delivers stale_before
            (if delivers (fst job) then acc\<lparr>rc_queued := rc_queued acc @ [job]\<rparr>
             else acc\<lparr>rc_failures := rc_failures acc + 1\<rparr>) as)"

definition dispatch_pending_supplier_callbacks ::
  "callback_services \<Rightarrow> (pk \<Rightarrow> bool) \<Rightarrow> nat \<Rightarrow> nat \<Rightarrow> db \<Rightarrow> timestamp \<Rightarrow> py_error + recovery" where
  "dispatch_pending_supplier_callbacks svc delivers lookback_hours batch d now =
     recover_events svc delivers (now - seconds 60) \<lparr>rc_queued = [], rc_failures = 0\<rparr>
       (take batch (recovery_order
         (filter (recovery_candidate (now - minutes (60 * int lookback_hours))) (attempts d))))"

end
