(* ===== verification/Web_Requests.thy ===== *)
theory Web_Requests
  imports Outcomes Web_Text
begin

text \<open>
  An HTTP request as the views read it, and the signatures of provider redirects: InnovateMR and
  BioBrain in \<open>surveys/innovatemr_callbacks.py\<close>, Toluna's \<open>verify_callback\<close> in
  \<open>surveys/providers/toluna.py\<close>, environment references of \<open>surveys/providers/base.py\<close>.  Django's
  \<open>request.GET\<close> is the decoded raw query.  \<open>hmac algorithm key text\<close> is the hexadecimal HMAC of
  the standard library, and \<open>environment\<close> the process environment.  Host and path are taken as
  URL text.
\<close>

section \<open>Requests\<close>

record http_request =
  rq_scheme :: string
  rq_host :: string
  rq_path :: string
  rq_query_string :: string
  rq_meta :: "string \<Rightarrow> string option"

definition request_get :: "http_request \<Rightarrow> (string \<times> string) list" where
  "request_get r = parse_qsl (rq_query_string r)"

definition get_values :: "http_request \<Rightarrow> string \<Rightarrow> string list" where
  "get_values r name = map snd (filter (\<lambda>kv. fst kv = name) (request_get r))"

text \<open>\<open>request.GET.get(name)\<close> is the last value; \<open>str(request.GET.get(name) or "").strip()\<close>.\<close>

definition get_param :: "http_request \<Rightarrow> string \<Rightarrow> string option" where
  "get_param r name = map_of (rev (request_get r)) name"

definition param_text :: "http_request \<Rightarrow> string \<Rightarrow> string" where
  "param_text r name = py_strip (case get_param r name of Some v \<Rightarrow> v | None \<Rightarrow> [])"

text \<open>\<open>dict(request.GET.items())\<close>: each name once, with its last value.\<close>

definition get_items :: "http_request \<Rightarrow> (string \<times> string) list" where
  "get_items r = map (\<lambda>k. (k, last (get_values r k))) (keep_first (map fst (request_get r)))"

definition has_exact_query :: "http_request \<Rightarrow> string list \<Rightarrow> bool" where
  "has_exact_query r expected_names =
     (set (map fst (request_get r)) = set expected_names
      \<and> list_all (\<lambda>name. length (get_values r name) = 1) expected_names)"

definition request_url :: "http_request \<Rightarrow> string" where
  "request_url r = rq_scheme r @ ''://'' @ rq_host r @ rq_path r"

definition request_full_url :: "http_request \<Rightarrow> string" where
  "request_full_url r =
     request_url r @ (if rq_query_string r \<noteq> [] then ''?'' @ rq_query_string r else [])"

text \<open>\<open>status_identifiers_from_request\<close> and \<open>status_rid_from_request\<close> of \<open>surveys/survey_flow.py\<close>.\<close>

definition STATUS_IDENTIFIER_NAMES :: "string list" where
  "STATUS_IDENTIFIER_NAMES =
    [''tid'', ''TID'', ''trackId'', ''rid'', ''RID'', ''pid'', ''PID'', ''qsid'', ''QSID'',
     ''token'', ''vq_token'', ''vendor_user_id'', ''vq_uid'']"

definition status_identifiers_from_request :: "http_request \<Rightarrow> string list" where
  "status_identifiers_from_request r =
     keep_first (filter (\<lambda>v. v \<noteq> []) (map (param_text r) STATUS_IDENTIFIER_NAMES))"

definition status_rid_from_request :: "http_request \<Rightarrow> string" where
  "status_rid_from_request r =
     (case status_identifiers_from_request r of v # _ \<Rightarrow> v | [] \<Rightarrow> [])"

section \<open>Signed redirects\<close>

record signature_settings =
  sg_secret :: string
  sg_algorithm :: string
  sg_public_base :: string

record callback_verification =
  vf_valid :: bool
  vf_error :: string

definition SUPPORTED_ALGORITHMS :: "string list" where
  "SUPPORTED_ALGORITHMS = [''sha256'', ''sha1'', ''md5'']"

definition HASH_PARAMETER_NAMES :: "string list" where
  "HASH_PARAMETER_NAMES = [''hash'', ''hashdata'']"

definition sign_callback_url ::
  "(string \<Rightarrow> string \<Rightarrow> string \<Rightarrow> string) \<Rightarrow> string \<Rightarrow> string \<Rightarrow> string \<Rightarrow> py_error + string" where
  "sign_callback_url hmac unsigned_url secret algorithm =
     (let name = py_lower (py_strip algorithm) in
      if name \<in> set SUPPORTED_ALGORITHMS then Inr (hmac name secret unsigned_url)
      else Inl (ValueError ''Unsupported InnovateMR callback hash algorithm.''))"

definition hash_segment :: "string \<Rightarrow> bool" where
  "hash_segment segment =
     (py_lower (py_strip (unquote_plus (fst (py_partition (CHR ''='') segment)))) \<in> set HASH_PARAMETER_NAMES)"

definition segment_value :: "string \<Rightarrow> string" where
  "segment_value segment = py_strip (unquote_plus (snd (snd (py_partition (CHR ''='') segment))))"

definition blanked_segment :: "string \<Rightarrow> string" where
  "blanked_segment segment = fst (py_partition (CHR ''='') segment) @ ''=''"

definition query_segments :: "string \<Rightarrow> string list" where
  "query_segments raw_query = (if raw_query = [] then [] else py_split (CHR ''&'') raw_query)"

definition unsigned_query_and_hash :: "string \<Rightarrow> bool \<Rightarrow> (string \<times> string) option" where
  "unsigned_query_and_hash raw_query remove_hash_parameter =
     (let segments = query_segments raw_query in
      case filter hash_segment segments of
        [segment] \<Rightarrow>
          Some (py_join ''&''
                  (if remove_hash_parameter then filter (\<lambda>s. \<not> hash_segment s) segments
                   else map (\<lambda>s. if hash_segment s then blanked_segment s else s) segments),
                segment_value segment)
      | _ \<Rightarrow> None)"

definition rstrip_slashes :: "string \<Rightarrow> string" where
  "rstrip_slashes s = rev (dropWhile (\<lambda>c. c = CHR ''/'') (rev s))"

definition with_query :: "url_parts \<Rightarrow> string \<Rightarrow> string \<Rightarrow> string" where
  "with_query p path query = urlunsplit (p\<lparr>up_path := path, up_query := query, up_fragment := []\<rparr>)"

definition candidate_unsigned_urls ::
  "(string \<Rightarrow> bool) \<Rightarrow> string \<Rightarrow> http_request \<Rightarrow> string \<Rightarrow> py_error + string list" where
  "candidate_unsigned_urls ip_literal public_app_base r unsigned_query =
     (case urlsplit ip_literal (request_url r) of
        Inl e \<Rightarrow> Inl e
      | Inr parts \<Rightarrow>
          (let own = with_query parts (up_path parts) unsigned_query;
               public_base = rstrip_slashes (py_strip public_app_base)
           in if public_base = [] then Inr [own]
              else (case urlsplit ip_literal public_base of
                      Inl e \<Rightarrow> Inl e
                    | Inr public_parts \<Rightarrow>
                        (let public = with_query public_parts
                               (rstrip_slashes (up_path public_parts) @ rq_path r) unsigned_query
                         in Inr (if public = own then [own] else [own, public])))))"

definition rejected :: "string \<Rightarrow> callback_verification" where
  "rejected error = \<lparr>vf_valid = False, vf_error = error\<rparr>"

definition verify_signed_request ::
  "(string \<Rightarrow> string \<Rightarrow> string \<Rightarrow> string) \<Rightarrow> (string \<Rightarrow> bool) \<Rightarrow> signature_settings \<Rightarrow> bool \<Rightarrow> http_request
   \<Rightarrow> py_error + callback_verification" where
  "verify_signed_request hmac ip_literal cfg remove_hash_parameter r =
     (let algorithm = py_lower (py_strip (if sg_algorithm cfg \<noteq> [] then sg_algorithm cfg else ''sha256'')) in
      if sg_secret cfg = [] then Inr (rejected ''not_configured'')
      else if algorithm \<notin> set SUPPORTED_ALGORITHMS then Inr (rejected ''unsupported_algorithm'')
      else (case unsigned_query_and_hash (rq_query_string r) remove_hash_parameter of
              None \<Rightarrow> Inr (rejected ''missing_or_duplicate_hash'')
            | Some (unsigned_query, received_hash) \<Rightarrow>
                if received_hash = [] then Inr (rejected ''empty_hash'')
                else (case candidate_unsigned_urls ip_literal (sg_public_base cfg) r unsigned_query of
                        Inl e \<Rightarrow> Inl e
                      | Inr urls \<Rightarrow>
                          Inr (if list_ex (\<lambda>url. py_lower received_hash = py_lower (hmac algorithm (sg_secret cfg) url)) urls
                               then \<lparr>vf_valid = True, vf_error = []\<rparr> else rejected ''hash_mismatch''))))"

definition verify_callback_request ::
  "(string \<Rightarrow> string \<Rightarrow> string \<Rightarrow> string) \<Rightarrow> (string \<Rightarrow> bool) \<Rightarrow> signature_settings \<Rightarrow> http_request
   \<Rightarrow> py_error + callback_verification" where
  "verify_callback_request hmac ip_literal cfg r = verify_signed_request hmac ip_literal cfg False r"

definition verify_biobrain_callback_request ::
  "(string \<Rightarrow> string \<Rightarrow> string \<Rightarrow> string) \<Rightarrow> (string \<Rightarrow> bool) \<Rightarrow> signature_settings \<Rightarrow> http_request
   \<Rightarrow> py_error + callback_verification" where
  "verify_biobrain_callback_request hmac ip_literal cfg r =
     verify_signed_request hmac ip_literal cfg True r"

section \<open>Toluna\<close>

definition valid_environment_name :: "string \<Rightarrow> bool" where
  "valid_environment_name s =
     (s \<noteq> [] \<and> \<not> is_digit_ascii (hd s) \<and> list_all (\<lambda>c. is_alnum_ascii c \<or> c = CHR ''_'') s)"

definition environment_value :: "(string \<Rightarrow> string option) \<Rightarrow> json \<Rightarrow> string \<Rightarrow> py_error + string" where
  "environment_value environment given label =
     (let reference = py_strip (str_or given []) in
      if \<not> valid_environment_name reference
      then Inl (ProviderError (''Configure a valid environment-variable name for '' @ label @ ''.''))
      else (case environment reference of
              Some value \<Rightarrow>
                if value = [] then Inl (ProviderError (''Environment variable '' @ reference @ '' is not configured.''))
                else Inr value
            | None \<Rightarrow> Inl (ProviderError (''Environment variable '' @ reference @ '' is not configured.''))))"

definition is_hex_lower :: "char \<Rightarrow> bool" where
  "is_hex_lower c = (is_digit_ascii c \<or> c \<in> set ''abcdef'')"

definition toluna_unsigned_url :: "url_parts \<Rightarrow> string" where
  "toluna_unsigned_url parts =
     with_query parts (up_path parts)
       (py_join ''&'' (filter (\<lambda>segment. segment \<noteq> []
            \<and> py_lower (unquote_plus (fst (py_partition (CHR ''='') segment))) \<noteq> ''hash'')
          (py_split (CHR ''&'') (up_query parts)))) @ ''&''"

definition toluna_verify_callback ::
  "(string \<Rightarrow> string \<Rightarrow> string \<Rightarrow> string) \<Rightarrow> (string \<Rightarrow> bool) \<Rightarrow> (string \<Rightarrow> string option)
   \<Rightarrow> client_integration \<Rightarrow> http_request \<Rightarrow> py_error + bool" where
  "toluna_verify_callback hmac ip_literal environment ci r =
     (case dict_or_empty (ci_config ci) of
        Inl e \<Rightarrow> Inl e
      | Inr config \<Rightarrow>
          (if \<not> (case map_of config ''callback_hash_required'' of Some v \<Rightarrow> truthy v | None \<Rightarrow> True) then Inr False
           else (let supplied = py_lower (param_text r ''hash'') in
             if length supplied \<noteq> 64 \<or> \<not> list_all is_hex_lower supplied
             then Inl (ProviderError ''Toluna callback hash is missing or invalid.'')
             else (case dict_or_empty (ci_credential_env_keys ci) of
                     Inl e \<Rightarrow> Inl e
                   | Inr keys \<Rightarrow>
                  (case environment_value environment (dict_get keys ''hmac_key'') ''Toluna callback HMAC key'' of
                     Inl e \<Rightarrow> Inl e
                   | Inr hmac_key \<Rightarrow>
                  (case urlsplit ip_literal (request_full_url r) of
                     Inl e \<Rightarrow> Inl e
                   | Inr parts \<Rightarrow>
                       if supplied = hmac ''sha256'' hmac_key (toluna_unsigned_url parts) then Inr True
                       else Inl (ProviderError ''Toluna callback hash verification failed.'')))))))"

section \<open>What a signature covers\<close>

text \<open>The query a provider signs when the hash stands between \<open>before\<close> and \<open>after\<close>.\<close>

definition signed_query :: "bool \<Rightarrow> string list \<Rightarrow> string \<Rightarrow> string list \<Rightarrow> string" where
  "signed_query remove_hash_parameter before segment after =
     py_join ''&'' (before @ (if remove_hash_parameter then [] else [blanked_segment segment]) @ after)"

lemma filter_single:
  "filter P xs = [x] \<longleftrightarrow>
   (\<exists>before after. xs = before @ x # after \<and> P x \<and> (\<forall>y \<in> set before \<union> set after. \<not> P y))"
proof
  assume "filter P xs = [x]"
  then obtain us vs where xs: "xs = us @ x # vs" "\<forall>u \<in> set us. \<not> P u" "P x" "[] = filter P vs"
    unfolding filter_eq_Cons_iff by blast
  then have "\<forall>v \<in> set vs. \<not> P v" by (metis filter_empty_conv)
  with xs show "\<exists>before after. xs = before @ x # after \<and> P x \<and> (\<forall>y \<in> set before \<union> set after. \<not> P y)"
    by blast
next
  assume "\<exists>before after. xs = before @ x # after \<and> P x \<and> (\<forall>y \<in> set before \<union> set after. \<not> P y)"
  then obtain before after where "xs = before @ x # after" "P x" "\<forall>y \<in> set before \<union> set after. \<not> P y"
    by blast
  then show "filter P xs = [x]" by (simp add: filter_empty_conv)
qed

lemma unsigned_query_iff:
  "unsigned_query_and_hash raw remove = Some (query, received) \<longleftrightarrow>
   (\<exists>before segment after. query_segments raw = before @ segment # after \<and> hash_segment segment
      \<and> (\<forall>s \<in> set before \<union> set after. \<not> hash_segment s)
      \<and> query = signed_query remove before segment after \<and> received = segment_value segment)"
  (is "?L \<longleftrightarrow> ?R")
proof -
  have marked: "map (\<lambda>s. if hash_segment s then blanked_segment s else s) ss = ss"
      "filter (\<lambda>s. \<not> hash_segment s) ss = ss" if "\<forall>s \<in> set ss. \<not> hash_segment s" for ss
    using that by (auto intro: map_idI)
  have query: "py_join ''&'' (if remove then filter (\<lambda>s. \<not> hash_segment s) (query_segments raw)
        else map (\<lambda>s. if hash_segment s then blanked_segment s else s) (query_segments raw))
      = signed_query remove before segment after"
    if "query_segments raw = before @ segment # after" "hash_segment segment"
      "\<forall>s \<in> set before \<union> set after. \<not> hash_segment s" for before segment after
    using that marked [of before] marked [of after] by (simp add: signed_query_def)
  show ?thesis
  proof
    assume ?L
    then obtain segment where one: "filter hash_segment (query_segments raw) = [segment]"
      and out: "received = segment_value segment"
        "query = py_join ''&'' (if remove then filter (\<lambda>s. \<not> hash_segment s) (query_segments raw)
           else map (\<lambda>s. if hash_segment s then blanked_segment s else s) (query_segments raw))"
      by (auto simp: unsigned_query_and_hash_def Let_def split: list.splits)
    from one [unfolded filter_single] show ?R using out query by blast
  next
    assume ?R
    then obtain before segment after where r: "query_segments raw = before @ segment # after"
      "hash_segment segment" "\<forall>s \<in> set before \<union> set after. \<not> hash_segment s"
      "query = signed_query remove before segment after" "received = segment_value segment" by blast
    then have "filter hash_segment (query_segments raw) = [segment]" unfolding filter_single by blast
    then show ?L using query [OF r(1-3)] r(4,5) by (simp add: unsigned_query_and_hash_def Let_def)
  qed
qed

definition signing_algorithm :: "signature_settings \<Rightarrow> string" where
  "signing_algorithm cfg = py_lower (py_strip (if sg_algorithm cfg \<noteq> [] then sg_algorithm cfg else ''sha256''))"

definition carries_signature ::
  "(string \<Rightarrow> string \<Rightarrow> string \<Rightarrow> string) \<Rightarrow> (string \<Rightarrow> bool) \<Rightarrow> signature_settings \<Rightarrow> bool \<Rightarrow> http_request \<Rightarrow> bool" where
  "carries_signature hmac ip_literal cfg remove_hash_parameter r \<longleftrightarrow>
     sg_secret cfg \<noteq> [] \<and> signing_algorithm cfg \<in> set SUPPORTED_ALGORITHMS
     \<and> (\<exists>before segment after urls url.
          query_segments (rq_query_string r) = before @ segment # after \<and> hash_segment segment
          \<and> (\<forall>s \<in> set before \<union> set after. \<not> hash_segment s) \<and> segment_value segment \<noteq> []
          \<and> candidate_unsigned_urls ip_literal (sg_public_base cfg) r
              (signed_query remove_hash_parameter before segment after) = Inr urls
          \<and> url \<in> set urls
          \<and> py_lower (segment_value segment) = py_lower (hmac (signing_algorithm cfg) (sg_secret cfg) url))"

lemma verified_iff_signature:
  "verify_signed_request hmac ip_literal cfg remove r = Inr v \<Longrightarrow>
   vf_valid v \<longleftrightarrow> carries_signature hmac ip_literal cfg remove r"
  (is "?V \<Longrightarrow> ?L \<longleftrightarrow> ?R")
proof -
  assume v: ?V
  show "?L \<longleftrightarrow> ?R"
  proof
    assume ?L
    with v obtain query received urls where r: "sg_secret cfg \<noteq> []" "signing_algorithm cfg \<in> set SUPPORTED_ALGORITHMS"
      "unsigned_query_and_hash (rq_query_string r) remove = Some (query, received)" "received \<noteq> []"
      "candidate_unsigned_urls ip_literal (sg_public_base cfg) r query = Inr urls"
      "list_ex (\<lambda>url. py_lower received = py_lower (hmac (signing_algorithm cfg) (sg_secret cfg) url)) urls"
      unfolding verify_signed_request_def Let_def signing_algorithm_def [symmetric]
      by (auto simp: rejected_def split: if_splits option.splits sum.splits)
    then show ?R
      unfolding carries_signature_def list_ex_iff unsigned_query_iff by blast
  next
    assume ?R
    then obtain before segment after urls url where r: "sg_secret cfg \<noteq> []"
      "signing_algorithm cfg \<in> set SUPPORTED_ALGORITHMS"
      "query_segments (rq_query_string r) = before @ segment # after" "hash_segment segment"
      "\<forall>s \<in> set before \<union> set after. \<not> hash_segment s" "segment_value segment \<noteq> []"
      "candidate_unsigned_urls ip_literal (sg_public_base cfg) r (signed_query remove before segment after) = Inr urls"
      "url \<in> set urls" "py_lower (segment_value segment) = py_lower (hmac (signing_algorithm cfg) (sg_secret cfg) url)"
      unfolding carries_signature_def by blast
    have "unsigned_query_and_hash (rq_query_string r) remove
        = Some (signed_query remove before segment after, segment_value segment)"
      unfolding unsigned_query_iff using r(3-5) by blast
    with r v show ?L
      unfolding verify_signed_request_def Let_def signing_algorithm_def [symmetric]
      by (auto simp: list_ex_iff split: if_splits)
  qed
qed

end
