(* ===== verification/Survey_Flow.thy ===== *)
theory Survey_Flow
  imports Web_Requests
begin

text \<open>
  The helpers of a respondent's journey (\<open>surveys/survey_flow.py\<close>): the client's address and
  browser, creating the attempt, the one-entry-per-address guard and the URLs that send the
  respondent to InnovateMR and BioBrain.  \<open>ip_text\<close> stands for the \<open>ipaddress\<close> module: the
  canonical text of an address, and whether it is loopback or unspecified.  Identifiers drawn at
  random are arguments.
\<close>

section \<open>The client\<close>

definition normalize_client_ip :: "(string \<Rightarrow> (string \<times> bool) option) \<Rightarrow> string option \<Rightarrow> string option" where
  "normalize_client_ip ip_text value =
     (case value of
        None \<Rightarrow> None
      | Some v \<Rightarrow>
          if v = [] then None
          else (case ip_text (py_strip v) of
                  None \<Rightarrow> None
                | Some (canonical, local) \<Rightarrow> if local then None else Some canonical))"

fun first_some :: "'a option list \<Rightarrow> 'a option" where
  "first_some [] = None"
| "first_some (x # xs) = (case x of Some y \<Rightarrow> Some y | None \<Rightarrow> first_some xs)"

definition get_request_ip ::
  "(string \<Rightarrow> (string \<times> bool) option) \<Rightarrow> bool \<Rightarrow> http_request \<Rightarrow> string option" where
  "get_request_ip ip_text trust_forwarded r =
     (let forwarded = (case rq_meta r ''HTTP_X_FORWARDED_FOR'' of Some v \<Rightarrow> v | None \<Rightarrow> []);
          candidates = [rq_meta r ''HTTP_CF_CONNECTING_IP'']
            @ map Some (filter (\<lambda>part. part \<noteq> []) (map py_strip (py_split (CHR '','') forwarded)))
            @ [rq_meta r ''HTTP_X_REAL_IP'']
      in first_some ((if trust_forwarded then map (normalize_client_ip ip_text) candidates else [])
           @ [normalize_client_ip ip_text (rq_meta r ''REMOTE_ADDR'')]))"

text \<open>\<open>_versioned_match\<close>: the leftmost place where one of the prefixes, without regard to case, is
  followed by a version.\<close>

definition version_at :: "string list \<Rightarrow> (char \<Rightarrow> bool) \<Rightarrow> string \<Rightarrow> (string \<times> string) option" where
  "version_at heads version_char s =
     (case List.find (\<lambda>p. py_lower (take (length p) s) = py_lower p
             \<and> (case drop (length p) s of c # _ \<Rightarrow> version_char c | [] \<Rightarrow> False)) heads of
        None \<Rightarrow> None
      | Some p \<Rightarrow> Some (takeWhile version_char (drop (length p) s), dropWhile version_char (drop (length p) s)))"

fun search_version :: "(string \<Rightarrow> (string \<times> string) option) \<Rightarrow> (string \<Rightarrow> bool) \<Rightarrow> string \<Rightarrow> string option" where
  "search_version match rest_ok [] = None"
| "search_version match rest_ok (c # cs) =
     (case match (c # cs) of
        Some (version, rest) \<Rightarrow> if rest_ok rest then Some version else search_version match rest_ok cs
      | None \<Rightarrow> search_version match rest_ok cs)"

definition is_version_char :: "char \<Rightarrow> bool" where
  "is_version_char c = (is_digit_ascii c \<or> c = CHR ''.'')"

definition is_underscored_version_char :: "char \<Rightarrow> bool" where
  "is_underscored_version_char c = (is_digit_ascii c \<or> c = CHR ''_'')"

definition contains_text :: "string \<Rightarrow> string \<Rightarrow> bool" where
  "contains_text needle s = list_ex (\<lambda>t. take (length needle) t = needle) (suffixes s)"

text \<open>A blank in a pattern (\<open>\s\<close>) is any blank; the prefixes below are tried with each.\<close>

definition with_blank :: "string list \<Rightarrow> string list" where
  "with_blank names =
     concat (map (\<lambda>name. map (\<lambda>c. name @ [c])
       [CHR '' '', CHR 0x09, CHR 0x0A, CHR 0x0B, CHR 0x0C, CHR 0x0D, CHR 0x1C, CHR 0x1D, CHR 0x1E, CHR 0x1F])
       names)"

definition anything :: "string \<Rightarrow> bool" where
  "anything _ = True"

definition safari_follows :: "string \<Rightarrow> bool" where
  "safari_follows rest = contains_text ''safari'' (py_lower (takeWhile (\<lambda>c. c \<noteq> CHR 0x0A) rest))"

definition browser_patterns :: "(string \<times> string list \<times> (string \<Rightarrow> bool)) list" where
  "browser_patterns =
    [(''Edge'', [''Edg/'', ''EdgiOS/'', ''EdgA/''], anything),
     (''Opera'', [''OPR/'', ''Opera/''], anything),
     (''Chrome'', [''Chrome/'', ''CriOS/''], anything),
     (''Firefox'', [''Firefox/'', ''FxiOS/''], anything),
     (''Safari'', [''Version/''], safari_follows),
     (''Internet Explorer'', with_blank [''MSIE''] @ [''rv:''], anything)]"

definition versioned :: "string \<Rightarrow> string \<Rightarrow> string" where
  "versioned name version = py_strip (name @ '' '' @ map (\<lambda>c. if c = CHR ''_'' then CHR ''.'' else c) version)"

definition request_browser :: "string \<Rightarrow> string" where
  "request_browser user_agent =
     (case first_some (map (\<lambda>(name, heads, rest_ok).
             map_option (versioned name)
               (search_version (version_at heads is_version_char) rest_ok user_agent)) browser_patterns) of
        Some b \<Rightarrow> b | None \<Rightarrow> ''Unknown'')"

text \<open>\<open>CrOS\s[^\s]+\s([\d.]+)\<close>\<close>

definition chrome_os_at :: "string \<Rightarrow> (string \<times> string) option" where
  "chrome_os_at s =
     (if py_lower (take 4 s) \<noteq> ''cros'' then None
      else (case drop 4 s of
              b # t \<Rightarrow>
                if \<not> is_ascii_space b \<or> takeWhile (\<lambda>c. \<not> is_ascii_space c) t = [] then None
                else (case dropWhile (\<lambda>c. \<not> is_ascii_space c) t of
                        _ # v \<Rightarrow> if takeWhile is_version_char v = [] then None
                                 else Some (takeWhile is_version_char v, dropWhile is_version_char v)
                      | [] \<Rightarrow> None)
            | [] \<Rightarrow> None))"

definition os_matchers :: "(string \<times> (string \<Rightarrow> (string \<times> string) option)) list" where
  "os_matchers =
    [(''Windows'', version_at (with_blank [''Windows NT'']) is_version_char),
     (''Android'', version_at (with_blank [''Android'']) is_version_char),
     (''iOS'', version_at (with_blank [''iPhone OS'', ''CPU OS'']) is_underscored_version_char),
     (''macOS'', version_at (with_blank [''Mac OS X'']) is_underscored_version_char),
     (''Chrome OS'', chrome_os_at)]"

definition request_os :: "string \<Rightarrow> string" where
  "request_os user_agent =
     (case first_some (map (\<lambda>(name, match).
             map_option (versioned name) (search_version match anything user_agent)) os_matchers) of
        Some o' \<Rightarrow> o' | None \<Rightarrow> ''Unknown'')"

definition request_device :: "string \<Rightarrow> string" where
  "request_device user_agent =
     (let lowered = py_lower user_agent; has = (\<lambda>token. contains_text token lowered) in
      if list_ex has [''bot'', ''crawler'', ''spider'', ''slurp''] then ''Bot''
      else if has ''ipad'' \<or> has ''tablet'' then ''Tablet''
      else if list_ex has [''mobile'', ''iphone'', ''android''] then ''Mobile''
      else if user_agent \<noteq> [] then ''Desktop'' else ''Unknown'')"

definition meta_text :: "http_request \<Rightarrow> string \<Rightarrow> nat \<Rightarrow> string" where
  "meta_text r name limit = take limit (case rq_meta r name of Some v \<Rightarrow> v | None \<Rightarrow> [])"

definition get_request_client_data :: "http_request \<Rightarrow> jdict" where
  "get_request_client_data r =
     (let user_agent = meta_text r ''HTTP_USER_AGENT'' 4000 in
      [(''user_agent'', JStr user_agent), (''browser'', JStr (request_browser user_agent)),
       (''device'', JStr (request_device user_agent)), (''os'', JStr (request_os user_agent)),
       (''accept_language'', JStr (meta_text r ''HTTP_ACCEPT_LANGUAGE'' 500)),
       (''referrer'', JStr (meta_text r ''HTTP_REFERER'' 4000)),
       (''sec_ch_ua'', JStr (meta_text r ''HTTP_SEC_CH_UA'' 500)),
       (''sec_ch_ua_mobile'', JStr (meta_text r ''HTTP_SEC_CH_UA_MOBILE'' 40)),
       (''sec_ch_ua_platform'', JStr (meta_text r ''HTTP_SEC_CH_UA_PLATFORM'' 120))])"

definition client_text :: "jdict \<Rightarrow> string \<Rightarrow> string" where
  "client_text data key = (case dict_get data key of JStr s \<Rightarrow> s | _ \<Rightarrow> [])"

section \<open>Attempts\<close>

text \<open>\<open>backfill_attempt_entry_audit\<close>: entry data recorded later, never replacing what is there.\<close>

definition fill_text :: "string \<Rightarrow> string \<Rightarrow> string" where
  "fill_text recorded found = (if recorded = [] then found else recorded)"

definition backfilled_attempt ::
  "(string \<Rightarrow> (string \<times> bool) option) \<Rightarrow> bool \<Rightarrow> http_request \<Rightarrow> survey_attempt \<Rightarrow> survey_attempt" where
  "backfilled_attempt ip_text trust_forwarded r a =
     (let client_data = get_request_client_data r;
          a = (case (at_initiation_ip a, get_request_ip ip_text trust_forwarded r) of
                 (Some ip, found) \<Rightarrow> if ip = [] then a\<lparr>at_initiation_ip := (case found of Some f \<Rightarrow> Some f | None \<Rightarrow> Some ip)\<rparr> else a
               | (None, found) \<Rightarrow> a\<lparr>at_initiation_ip := found\<rparr>);
          signal = list_ex (\<lambda>key. client_text client_data key \<noteq> [])
            [''user_agent'', ''accept_language'', ''referrer'', ''sec_ch_ua'', ''sec_ch_ua_platform'']
      in if \<not> signal then a
         else a\<lparr>at_entry_user_agent := fill_text (at_entry_user_agent a) (client_text client_data ''user_agent''),
                at_entry_browser := fill_text (at_entry_browser a) (client_text client_data ''browser''),
                at_entry_device := fill_text (at_entry_device a) (client_text client_data ''device''),
                at_entry_os := fill_text (at_entry_os a) (client_text client_data ''os''),
                at_entry_referrer := fill_text (at_entry_referrer a) (client_text client_data ''referrer''),
                at_entry_accept_language := fill_text (at_entry_accept_language a) (client_text client_data ''accept_language''),
                at_entry_client_data := (if truthy (at_entry_client_data a) then at_entry_client_data a
                                         else JObj client_data)\<rparr>)"

text \<open>Only the columns that changed on the object are written.\<close>

definition written :: "'a \<Rightarrow> 'a \<Rightarrow> 'a \<Rightarrow> 'a" where
  "written old new row = (if new = old then row else new)"

definition write_entry_audit :: "survey_attempt \<Rightarrow> survey_attempt \<Rightarrow> survey_attempt \<Rightarrow> survey_attempt" where
  "write_entry_audit a b row =
     row\<lparr>at_initiation_ip := written (at_initiation_ip a) (at_initiation_ip b) (at_initiation_ip row),
       at_entry_user_agent := written (at_entry_user_agent a) (at_entry_user_agent b) (at_entry_user_agent row),
       at_entry_browser := written (at_entry_browser a) (at_entry_browser b) (at_entry_browser row),
       at_entry_device := written (at_entry_device a) (at_entry_device b) (at_entry_device row),
       at_entry_os := written (at_entry_os a) (at_entry_os b) (at_entry_os row),
       at_entry_referrer := written (at_entry_referrer a) (at_entry_referrer b) (at_entry_referrer row),
       at_entry_accept_language := written (at_entry_accept_language a) (at_entry_accept_language b)
         (at_entry_accept_language row),
       at_entry_client_data := written (at_entry_client_data a) (at_entry_client_data b) (at_entry_client_data row)\<rparr>"

definition backfill_attempt_entry_audit ::
  "(string \<Rightarrow> (string \<times> bool) option) \<Rightarrow> bool \<Rightarrow> http_request \<Rightarrow> survey_attempt \<Rightarrow> db
   \<Rightarrow> survey_attempt \<times> db" where
  "backfill_attempt_entry_audit ip_text trust_forwarded r a d =
     (let b = backfilled_attempt ip_text trust_forwarded r a
      in (b, update_attempts (\<lambda>row. at_id row = at_id a) (write_entry_audit a b) d))"

definition supplier_code_from_entry_link :: "(string \<Rightarrow> bool) \<Rightarrow> string \<Rightarrow> py_error + string" where
  "supplier_code_from_entry_link ip_literal entry_link =
     (case urlsplit ip_literal entry_link of
        Inl e \<Rightarrow> Inl e
      | Inr parts \<Rightarrow>
          (let query = rev (parse_qsl (up_query parts)) in
           Inr (first_text [text_lookup query ''supCode'', text_lookup query ''supplierCode''])))"

text \<open>What one try of \<open>create_attempt\<close> draws: the RID, the PID and the prescreener UID.\<close>

record drawn_ids =
  dr_rid :: string
  dr_pid :: string
  dr_uid :: string

definition new_attempt ::
  "pk \<Rightarrow> drawn_ids \<Rightarrow> survey \<Rightarrow> user \<Rightarrow> string option \<Rightarrow> jdict \<Rightarrow> string \<Rightarrow> timestamp \<Rightarrow> survey_attempt" where
  "new_attempt i ids s u ip_address client_data supplier_code now =
     \<lparr>at_id = i, at_rid = dr_rid ids, at_pid = dr_pid ids, at_prescreener_uid = Some (dr_uid ids),
      at_provider_profile_uid = [], at_survey = sv_id s, at_platform_user = Some (usr_id u),
      at_vendor = None, at_client = None, at_client_allocation = None, at_survey_allocation = None,
      at_supplier_api_key_id = None, at_supplier_delivery_config = JObj [],
      at_user_id = show_nat (usr_id u), at_supplier_code = supplier_code,
      at_source_cpi_snapshot = sv_cpi s, at_cpi_snapshot_source = ''captured'',
      at_cpi_cut_percent_snapshot = None, at_payable_cpi_snapshot = sv_cpi s,
      at_cpi_currency_snapshot = ''USD'', at_status = INITIATED, at_initiated_at = now,
      at_submitted_at = None, at_redirected_at = None, at_callback_at = None,
      at_last_callback_at = None, at_loi_seconds = None, at_initiation_ip = ip_address,
      at_callback_ip = None, at_entry_user_agent = client_text client_data ''user_agent'',
      at_exit_user_agent = [], at_entry_browser = client_text client_data ''browser'',
      at_exit_browser = [], at_entry_device = client_text client_data ''device'',
      at_exit_device = [], at_entry_os = client_text client_data ''os'', at_exit_os = [],
      at_entry_referrer = client_text client_data ''referrer'',
      at_entry_accept_language = client_text client_data ''accept_language'',
      at_entry_client_data = JObj client_data, at_exit_client_data = JObj [], at_status_source = [],
      at_upstream_checked_at = None, at_upstream_transaction_data = JObj [], at_answers = JObj [],
      at_outbound_url = [], at_callback_count = 0, at_is_verified = False, at_created_at = now,
      at_updated_at = now\<rparr>"

definition ids_taken :: "db \<Rightarrow> drawn_ids \<Rightarrow> bool" where
  "ids_taken d ids =
     list_ex (\<lambda>a. at_rid a = dr_rid ids \<or> at_pid a = dr_pid ids \<or> at_prescreener_uid a = Some (dr_uid ids))
       (attempts d)"

fun create_attempt_tries ::
  "drawn_ids list \<Rightarrow> db \<Rightarrow> (drawn_ids \<Rightarrow> survey_attempt) \<Rightarrow> py_error + (survey_attempt \<times> db)" where
  "create_attempt_tries [] d row_for = Inl (RuntimeError ''Could not allocate a unique RID'')"
| "create_attempt_tries (ids # draws) d row_for =
     (if ids_taken d ids then create_attempt_tries draws d row_for
      else Inr (row_for ids, d\<lparr>attempts := attempts d @ [row_for ids]\<rparr>))"

definition create_attempt ::
  "(string \<Rightarrow> bool) \<Rightarrow> drawn_ids list \<Rightarrow> db \<Rightarrow> survey \<Rightarrow> user \<Rightarrow> string option \<Rightarrow> jdict \<Rightarrow> timestamp
   \<Rightarrow> py_error + (survey_attempt \<times> db)" where
  "create_attempt ip_literal draws d s u ip_address client_data now =
     (case supplier_code_from_entry_link ip_literal (sv_entry_link s) of
        Inl e \<Rightarrow> Inl e
      | Inr supplier_code \<Rightarrow>
          create_attempt_tries (take 10 draws) d
            (\<lambda>ids. new_attempt (next_pk at_id (attempts d)) ids s u ip_address client_data supplier_code now))"

text \<open>\<open>claim_project_entry_ip\<close>: the earlier attempt of this survey from the same address.\<close>

definition prior_entries :: "db \<Rightarrow> survey \<Rightarrow> string \<Rightarrow> survey_attempt list" where
  "prior_entries d s ip =
     sort_key (\<lambda>a. at_initiated_at a) (sort_key at_id
       (filter (\<lambda>a. at_survey a = sv_id s \<and> at_initiation_ip a = Some ip
            \<and> at_status_source a \<noteq> ''local_duplicate_ip_guard'') (attempts d)))"

definition claim_project_entry_ip ::
  "bool \<Rightarrow> db \<Rightarrow> survey \<Rightarrow> string option \<Rightarrow> survey_attempt option \<times> bool" where
  "claim_project_entry_ip enforced d s ip_address =
     (case ip_address of
        None \<Rightarrow> (None, False)
      | Some ip \<Rightarrow>
          if \<not> enforced \<or> ip = [] then (None, False)
          else (case prior_entries d s ip of a # _ \<Rightarrow> (Some a, True) | [] \<Rightarrow> (None, False)))"

section \<open>Outbound URLs\<close>

definition RESERVED_PROFILE_KEYS :: "string list" where
  "RESERVED_PROFILE_KEYS = [''pid'', ''trackid'', ''survnum'', ''supcode'']"

text \<open>The pairs of one answer; a value is iterated as Python does.\<close>

definition answer_pairs :: "json \<Rightarrow> py_error + (string \<times> string) list" where
  "answer_pairs answer =
     (case of_option (AttributeError ''get'') (as_dict answer) of
        Inl e \<Rightarrow> Inl e
      | Inr fields_of \<Rightarrow>
          (let question_key = py_strip (str_or (dict_get fields_of ''question_key'') []) in
           if question_key = [] \<or> py_lower question_key \<in> set RESERVED_PROFILE_KEYS then Inr []
           else map_sum id (\<lambda>items. map (\<lambda>v. (question_key, py_strip (py_str v)))
                  (filter (\<lambda>v. v \<noteq> JNull \<and> py_strip (py_str v) \<noteq> []) items))
                (items_of (dict_get fields_of ''upstream_values''))))"

fun all_answer_pairs :: "jdict \<Rightarrow> py_error + (string \<times> string) list" where
  "all_answer_pairs [] = Inr []"
| "all_answer_pairs ((k, answer) # answers) =
     (case answer_pairs answer of
        Inl e \<Rightarrow> Inl e
      | Inr pairs \<Rightarrow> map_sum id (\<lambda>rest. pairs @ rest) (all_answer_pairs answers))"

definition profile_pairs :: "jdict \<Rightarrow> py_error + (string \<times> string) list" where
  "profile_pairs answers = map_sum id keep_first (all_answer_pairs answers)"

definition routed_query :: "string \<Rightarrow> (string \<times> string) list \<Rightarrow> (string \<times> string) list \<Rightarrow> (string \<times> string) list" where
  "routed_query rid query pairs =
     (let kept = List.map_filter (\<lambda>(k, v).
            if py_lower k = ''pid'' then Some (k, rid)
            else if py_lower k \<noteq> ''trackid'' \<and> py_lower k \<notin> set (map (\<lambda>(q, _). py_lower q) pairs)
              then Some (k, v) else None) query;
          has_pid = list_ex (\<lambda>(k, _). py_lower k = ''pid'') query
      in kept @ (if has_pid then [] else [(''PID'', rid)]) @ [(''trackId'', rid)] @ pairs)"

definition build_outbound_url :: "(string \<Rightarrow> bool) \<Rightarrow> string \<Rightarrow> string \<Rightarrow> jdict \<Rightarrow> py_error + string" where
  "build_outbound_url ip_literal entry_link rid answers =
     (case urlsplit ip_literal entry_link of
        Inl e \<Rightarrow> Inl e
      | Inr parts \<Rightarrow>
          (case profile_pairs answers of
             Inl e \<Rightarrow> Inl e
           | Inr pairs \<Rightarrow>
               Inr (urlunsplit (parts\<lparr>up_query :=
                 urlencode (routed_query rid (parse_qsl (up_query parts)) pairs)\<rparr>))))"

text \<open>\<open>re.sub(r"\[#(?:vq_tid|vq_tuid)#\]", "", link)\<close>\<close>

fun drop_macros :: "string \<Rightarrow> nat \<Rightarrow> string" where
  "drop_macros [] skip = []"
| "drop_macros (c # cs) skip =
     (if 0 < skip then drop_macros cs (skip - 1)
      else if py_lower (take 10 (c # cs)) = ''[#vq_tid#]'' then drop_macros cs 9
      else if py_lower (take 11 (c # cs)) = ''[#vq_tuid#]'' then drop_macros cs 10
      else c # drop_macros cs 0)"

definition BIOBRAIN_RESERVED :: "string list" where
  "BIOBRAIN_RESERVED = [''vq_token'', ''vq_uid'', ''pid'', ''trackid'', ''age'', ''gender'', ''zip'']"

definition biobrain_query :: "string \<Rightarrow> (string \<times> string) list \<Rightarrow> (string \<times> string) list" where
  "biobrain_query rid query =
     filter (\<lambda>(k, _). py_lower k \<notin> set BIOBRAIN_RESERVED \<and> \<not> py_startswith (py_lower k) ''q'') query
     @ [(''vq_token'', rid), (''vq_uid'', rid)]"

definition build_biobrain_outbound_url :: "(string \<Rightarrow> bool) \<Rightarrow> string \<Rightarrow> string \<Rightarrow> py_error + string" where
  "build_biobrain_outbound_url ip_literal link rid =
     (case urlsplit ip_literal (drop_macros link 0) of
        Inl e \<Rightarrow> Inl e
      | Inr parts \<Rightarrow>
          (let hostname = url_hostname parts in
           if up_scheme parts \<noteq> ''https'' \<or> hostname = [] \<or> url_has_user_info parts
              \<or> (hostname \<noteq> ''voqall.com'' \<and> \<not> py_endswith hostname ''.voqall.com'')
           then Inl (ValueError ''BioBrain returned an invalid respondent entry link.'')
           else Inr (urlunsplit (parts\<lparr>up_query :=
             urlencode (biobrain_query rid (parse_qsl (up_query parts)))\<rparr>))))"

end
