(* ===== verification/Prescreener_Questions.thy ===== *)
theory Prescreener_Questions
  imports Survey_Flow Outcomes Age_Rules "HOL-Library.Product_Lexorder"
begin

text \<open>
  The prescreener form (\<open>_prescreener_questions\<close> of \<open>surveys/views.py\<close> and its helpers): from the
  targeting questions of a survey, the questions a respondent is shown, the answers that are offered,
  the values that qualify and the ages that are admitted.  Questions a provider asks twice -- RFG's
  required profile -- are shown once and answer their aliases too.  A stored row must hold options
  that can be iterated and a dict as raw data, with lists under the keys that are lists; reading
  another row raises, as the code does where it uses the value.  What the page shows again after an
  error (the submitted values) and its fixed captions are left out.
\<close>

section \<open>Rows\<close>

text \<open>A targeting question, or one of the two rows the platform adds for Cint: the primary key as
  text and the question's id as it is stored with an answer.\<close>

record form_question =
  fq_pk :: string
  fq_question_id :: json
  fq_key :: string
  fq_text :: string
  fq_type :: string
  fq_category :: string
  fq_options :: "json list"
  fq_raw :: jdict

definition RAW_LISTS :: "string list" where
  "RAW_LISTS = [''targeting_choices'', ''allowed_answer_values'', ''allowed_answer_ids'', ''targeting_age_ranges'']"

definition raw_items :: "form_question \<Rightarrow> string \<Rightarrow> json list" where
  "raw_items q key = (case items_of (dict_get (fq_raw q) key) of Inr xs \<Rightarrow> xs | Inl _ \<Rightarrow> [])"

definition read_question :: "targeting_question \<Rightarrow> py_error + form_question" where
  "read_question q =
     (case dict_or_empty (tq_raw_data q) of
        Inl e \<Rightarrow> Inl e
      | Inr raw \<Rightarrow>
     (case items_of (tq_options q) of
        Inl e \<Rightarrow> Inl e
      | Inr options \<Rightarrow>
          if list_all (\<lambda>key. is_ok (items_of (dict_get raw key))) RAW_LISTS
          then Inr \<lparr>fq_pk = show_nat (tq_id q), fq_question_id = JInt (tq_question_id q), fq_key = tq_key q,
                    fq_text = tq_text q, fq_type = tq_question_type q, fq_category = tq_category q,
                    fq_options = options, fq_raw = raw\<rparr>
          else Inl (TypeError ''object is not iterable'')))"

fun read_questions :: "targeting_question list \<Rightarrow> py_error + form_question list" where
  "read_questions [] = Inr []"
| "read_questions (q # qs) =
     (case read_question q of
        Inl e \<Rightarrow> Inl e
      | Inr r \<Rightarrow> map_sum id (\<lambda>rs. r # rs) (read_questions qs))"

definition platform_age :: form_question where
  "platform_age =
     \<lparr>fq_pk = ''platform_profile_age'', fq_question_id = JStr [], fq_key = ''AGE'',
      fq_text = ''What is your age?'', fq_type = ''Numeric'', fq_category = ''Required profile'',
      fq_options = [],
      fq_raw = [(''platform_only'', JBool True),
                (''targeting_age_ranges'', JArr [JObj [(''min'', JInt 13), (''max'', JInt OPEN_ENDED_AGE_MAX)]])]\<rparr>"

definition platform_gender :: form_question where
  "platform_gender =
     \<lparr>fq_pk = ''platform_profile_gender'', fq_question_id = JStr [], fq_key = ''GENDER'',
      fq_text = ''What is your gender?'', fq_type = ''Single Punch'', fq_category = ''Required profile'',
      fq_options = [JObj [(''OptionId'', JStr ''male''), (''OptionText'', JStr ''Male'')],
                    JObj [(''OptionId'', JStr ''female''), (''OptionText'', JStr ''Female'')]],
      fq_raw = [(''platform_only'', JBool True)]\<rparr>"

definition survey_questions :: "db \<Rightarrow> survey \<Rightarrow> targeting_question list" where
  "survey_questions d s =
     sort_key tq_question_id (filter (\<lambda>q. tq_survey q = sv_id s) (targeting_questions d))"

definition question_rows :: "string \<Rightarrow> db \<Rightarrow> survey \<Rightarrow> py_error + form_question list" where
  "question_rows provider d s =
     (if provider = ''cint'' \<and> survey_questions d s = [] then Inr [platform_age, platform_gender]
      else read_questions (survey_questions d s))"

section \<open>Qualifying values\<close>

definition gender_code :: "string \<Rightarrow> string" where
  "gender_code value = (if value = ''1'' then ''M'' else if value = ''2'' then ''F'' else value)"

text \<open>A set of texts is a list here; \<^term>\<open>None\<close> is no restriction.\<close>

definition some_unless_empty :: "'a list \<Rightarrow> 'a list option" where
  "some_unless_empty xs = (if xs = [] then None else Some xs)"

definition qualifying_option_values :: "form_question \<Rightarrow> string list option" where
  "qualifying_option_values q =
     (let allowed = map py_str (raw_items q ''targeting_choices'') in
      some_unless_empty (if fq_key q = ''RFG_GENDER'' then map gender_code allowed else allowed))"

definition answer_type_open :: "form_question \<Rightarrow> bool" where
  "answer_type_open q = contains_text ''open'' (py_lower (str_or (dict_get (fq_raw q) ''reference_answer_type'') []))"

definition answer_texts :: "form_question \<Rightarrow> string list" where
  "answer_texts q =
     filter (\<lambda>t. t \<noteq> []) (map (\<lambda>v. py_strip (py_str v)) (raw_items q ''allowed_answer_values''))"

definition toluna_required_option_values :: "form_question \<Rightarrow> string list option" where
  "toluna_required_option_values q =
     (if \<not> truthy (dict_get (fq_raw q) ''required_by_provider'') then None
      else if dict_get (fq_raw q) ''toluna_kind'' = JStr ''postal'' \<or> answer_type_open q
      then some_unless_empty (answer_texts q)
      else (case map py_str (raw_items q ''allowed_answer_ids'') of
              [] \<Rightarrow> some_unless_empty (map (\<lambda>v. py_str v)
                (filter (\<lambda>v. v \<noteq> JNull)
                  (List.map_filter (\<lambda>option. map_option (\<lambda>kvs. dict_get kvs ''OptionId'') (as_dict option)) (fq_options q))))
            | allowed \<Rightarrow> Some allowed))"

definition restrict_to :: "string list option \<Rightarrow> string list \<Rightarrow> string list option" where
  "restrict_to allowed values =
     (case allowed of None \<Rightarrow> Some values | Some xs \<Rightarrow> Some (filter (\<lambda>x. x \<in> set values) xs))"

section \<open>What a question asks for\<close>

text \<open>The words of a text: the rest is one blank each.\<close>

definition plain_words :: "string \<Rightarrow> string list" where
  "plain_words s =
     py_split (CHR '' '') (py_strip (replace_runs
       (\<lambda>c. \<not> (is_lower_ascii c \<or> is_digit_ascii c)) '' '' False (py_lower s)))"

definition says_one_of :: "string list list \<Rightarrow> string list \<Rightarrow> bool" where
  "says_one_of phrases ws = list_ex (\<lambda>phrase. has_phrase phrase ws) phrases"

definition POSTAL_PHRASES :: "string list list" where
  "POSTAL_PHRASES =
     concat (map (\<lambda>w. [[w, ''code''], [w, ''codes''], [w @ ''code''], [w @ ''codes'']])
       [''zip'', ''postal'', ''post'', ''pin''])"

definition is_postal_targeting_question :: "string \<Rightarrow> string \<Rightarrow> bool" where
  "is_postal_targeting_question key text = says_one_of POSTAL_PHRASES (plain_words (key @ '' '' @ text))"

definition rfg_profile_dimension :: "(string \<Rightarrow> string) \<Rightarrow> form_question \<Rightarrow> string" where
  "rfg_profile_dimension unescape q =
     (let ws = plain_words (fq_key q) @ plain_words (clean_rfg_display_text unescape (JStr (fq_text q))) in
      if says_one_of [[''gender''], [''sex'']] ws then ''gender''
      else if says_one_of [[''date'', ''of'', ''birth''], [''birthday''], [''dob''], [''age'']] ws then ''age''
      else if says_one_of [[''postal'', ''code''], [''postcode''], [''zip'', ''code''], [''zipcode''], [''zip'']] ws
      then ''postal'' else [])"

text \<open>The first spelling of each text, without regard to case.\<close>

fun keep_first_spelling :: "string list \<Rightarrow> string list \<Rightarrow> string list" where
  "keep_first_spelling seen [] = []"
| "keep_first_spelling seen (t # ts) =
     (if t \<noteq> [] \<and> py_lower t \<notin> set seen then t # keep_first_spelling (py_lower t # seen) ts
      else keep_first_spelling seen ts)"

definition given :: "json \<Rightarrow> bool" where
  "given v = (v \<noteq> JNull \<and> v \<noteq> JStr [])"

definition postal_option_value :: "json \<Rightarrow> json" where
  "postal_option_value option =
     (case option of
        JObj kvs \<Rightarrow>
          if given (dict_get kvs ''OptionText'') then dict_get kvs ''OptionText''
          else json_or (dict_get kvs ''OptionCode'') (json_or (dict_get kvs ''OptionValue'') (dict_get kvs ''Value''))
      | _ \<Rightarrow> option)"

definition innovatemr_postal_targeting_values :: "(string \<Rightarrow> string) \<Rightarrow> form_question \<Rightarrow> string list" where
  "innovatemr_postal_targeting_values unescape q =
     keep_first_spelling []
       (map (\<lambda>option. py_strip (clean_rfg_display_text unescape (JStr (str_or (postal_option_value option) []))))
         (fq_options q))"

definition normalized_postal_targeting_value :: "string \<Rightarrow> string" where
  "normalized_postal_targeting_value value =
     py_lower (filter (\<lambda>c. \<not> is_ascii_space c \<and> c \<noteq> CHR ''-'') value)"

section \<open>Questions asked twice\<close>

definition required_profile :: "form_question \<Rightarrow> bool" where
  "required_profile q =
     (py_lower (py_strip (fq_category q)) = ''required profile''
      \<or> py_upper (fq_key q) \<in> {''RFG_BIRTHDAY'', ''RFG_GENDER'', ''RFG_POSTAL_CODE''})"

text \<open>The row shown for a dimension is the last required one; the other rows of the dimension are
  its aliases.\<close>

definition primary_of ::
  "(string \<Rightarrow> string) \<Rightarrow> form_question list \<Rightarrow> form_question \<Rightarrow> form_question option" where
  "primary_of unescape rows q =
     (let dimension = rfg_profile_dimension unescape q in
      if dimension = [] then None
      else List.find (\<lambda>p. required_profile p \<and> rfg_profile_dimension unescape p = dimension) (rev rows))"

definition aliased :: "(string \<Rightarrow> string) \<Rightarrow> form_question list \<Rightarrow> form_question \<Rightarrow> bool" where
  "aliased unescape rows q =
     (case primary_of unescape rows q of Some p \<Rightarrow> fq_pk p \<noteq> fq_pk q | None \<Rightarrow> False)"

definition profile_aliases ::
  "(string \<Rightarrow> string) \<Rightarrow> string \<Rightarrow> form_question list \<Rightarrow> form_question \<Rightarrow> form_question list" where
  "profile_aliases unescape provider rows q =
     (if provider = ''rfg''
      then filter (\<lambda>a. aliased unescape rows a \<and> map_option fq_pk (primary_of unescape rows a) = Some (fq_pk q)) rows
      else [])"

definition shown_rows ::
  "(string \<Rightarrow> string) \<Rightarrow> string \<Rightarrow> form_question list \<Rightarrow> form_question list" where
  "shown_rows unescape provider rows =
     (if provider = ''rfg''
      then filter (\<lambda>q. fq_pk q \<notin> set (map fq_pk (filter (aliased unescape rows) rows))) rows
      else rows)"

definition rfg_alias_allowed_values :: "form_question \<Rightarrow> string \<Rightarrow> string list" where
  "rfg_alias_allowed_values q dimension =
     (let choices = map py_str (raw_items q ''targeting_choices'')
      in if dimension = ''gender'' then map gender_code choices else choices)"

definition rfg_alias_upstream_values ::
  "(string \<Rightarrow> string) \<Rightarrow> form_question \<Rightarrow> string \<Rightarrow> string list \<Rightarrow> string list" where
  "rfg_alias_upstream_values unescape q dimension values =
     (case values of
        [] \<Rightarrow> []
      | value # _ \<Rightarrow>
          if dimension \<noteq> ''gender'' then values
          else (let wanted = (if py_upper value \<in> {''M'', ''1''} then ''male'' else ''female'') in
                case List.find (\<lambda>kvs. py_strip (py_lower (clean_rfg_display_text unescape (dict_get kvs ''OptionText''))) = wanted
                                     \<and> given (dict_get kvs ''OptionId''))
                       (List.map_filter as_dict (fq_options q)) of
                  Some kvs \<Rightarrow> [py_str (dict_get kvs ''OptionId'')]
                | None \<Rightarrow> [if wanted = ''male'' then ''1'' else ''2'']))"

section \<open>Options\<close>

definition option_dict :: "json \<Rightarrow> jdict" where
  "option_dict option =
     (case option of
        JObj kvs \<Rightarrow> kvs
      | _ \<Rightarrow> [(''OptionId'', option), (''OptionText'', JStr (py_str option))])"

definition range_label :: "int \<times> int \<Rightarrow> string" where
  "range_label band = show_int (fst band) @ EN_DASH @ show_int (snd band)"

definition option_range :: "bool \<Rightarrow> json \<Rightarrow> (int \<times> int) option" where
  "option_range aged option = (if aged then normalize_age_range (JObj (option_dict option)) else None)"

definition option_label :: "(string \<Rightarrow> string) \<Rightarrow> bool \<Rightarrow> json \<Rightarrow> string" where
  "option_label unescape aged option =
     (case option_range aged option of
        Some band \<Rightarrow> range_label band
      | None \<Rightarrow>
          (let kvs = option_dict option in
           clean_rfg_display_text unescape
             (json_or (dict_get kvs ''OptionText'') (JStr (str_or (dict_get kvs ''OptionId'') ''Option'')))))"

definition option_value :: "(string \<Rightarrow> string) \<Rightarrow> bool \<Rightarrow> json \<Rightarrow> string" where
  "option_value unescape aged option =
     (let option_id = dict_get (option_dict option) ''OptionId'' in
      if option_id \<noteq> JNull then py_str option_id else option_label unescape aged option)"

text \<open>No values allowed, or an empty set of them, is no restriction.\<close>

definition option_qualified :: "string list option \<Rightarrow> string \<Rightarrow> bool" where
  "option_qualified allowed value =
     (case allowed of None \<Rightarrow> True | Some values \<Rightarrow> values = [] \<or> value \<in> set values)"

section \<open>Ages\<close>

definition targeting_ranges :: "form_question \<Rightarrow> (int \<times> int) list" where
  "targeting_ranges q = List.map_filter normalize_age_range (raw_items q ''targeting_age_ranges'')"

definition alias_option_id :: "json \<Rightarrow> json" where
  "alias_option_id option = (case option of JObj kvs \<Rightarrow> dict_get kvs ''OptionId'' | _ \<Rightarrow> option)"

definition alias_age_ranges :: "form_question \<Rightarrow> (int \<times> int) list" where
  "alias_age_ranges a =
     (let allowed = map py_str (raw_items a ''targeting_choices'') in
      List.map_filter normalize_age_range
        (filter (\<lambda>option. allowed = [] \<or> py_str (alias_option_id option) \<in> set allowed) (fq_options a))
      @ targeting_ranges a)"

definition intersect_ranges :: "(int \<times> int) list \<Rightarrow> (int \<times> int) list \<Rightarrow> (int \<times> int) list" where
  "intersect_ranges ps qs =
     filter (\<lambda>band. fst band \<le> snd band)
       (concat (map (\<lambda>p. map (\<lambda>q. (max (fst p) (fst q), min (snd p) (snd q))) qs) ps))"

text \<open>One alias: its ranges narrow those that are in effect, or are the first ones.\<close>

definition narrow :: "(int \<times> int) list \<times> bool \<Rightarrow> (int \<times> int) list \<Rightarrow> (int \<times> int) list \<times> bool" where
  "narrow state layer =
     (case state of (ranges, effective) \<Rightarrow>
        if layer \<noteq> [] \<and> effective then (intersect_ranges ranges layer, effective)
        else if layer \<noteq> [] then (layer, True) else (ranges, effective))"

definition effective_ranges :: "(int \<times> int) list \<Rightarrow> (int \<times> int) list list \<Rightarrow> (int \<times> int) list" where
  "effective_ranges primary layers = fst (foldl narrow (primary, primary \<noteq> []) layers)"

text \<open>Ranges that overlap or touch become one.\<close>

definition merge_step :: "(int \<times> int) list \<Rightarrow> int \<times> int \<Rightarrow> (int \<times> int) list" where
  "merge_step merged band =
     (if merged \<noteq> [] \<and> fst band \<le> snd (last merged) + 1
      then butlast merged @ [(fst (last merged), max (snd (last merged)) (snd band))]
      else merged @ [band])"

definition merge_ranges :: "(int \<times> int) list \<Rightarrow> (int \<times> int) list" where
  "merge_ranges ranges = foldl merge_step [] (sort (remdups ranges))"

definition has_age_data :: "form_question \<Rightarrow> bool" where
  "has_age_data q = (fq_options q \<noteq> [] \<or> raw_items q ''targeting_age_ranges'' \<noteq> [])"

section \<open>Notes on the qualifying values\<close>

text \<open>\<open>f"{n:,}"\<close>\<close>

fun grouped_number :: "nat \<Rightarrow> string" where
  "grouped_number n =
     (if n < 1000 then show_nat n else grouped_number (n div 1000) @ '','' @ zero_pad 3 (show_nat (n mod 1000)))"

declare grouped_number.simps [simp del]

definition toluna_required_value_note :: "form_question \<Rightarrow> bool \<Rightarrow> string" where
  "toluna_required_value_note q is_postal =
     (let values = (if truthy (dict_get (fq_raw q) ''required_by_provider'') then keep_first (answer_texts q) else []);
          label = (if is_postal then (if length values = 1 then ''Required postal code or prefix''
                                      else ''Required postal codes or prefixes'')
                   else if length values = 1 then ''Required value'' else ''Required values'')
      in if values = [] then []
         else if is_postal \<and> 20 < length values
         then label @ '': all '' @ grouped_number (length values) @ '' accepted values are listed below.''
         else label @ '': '' @ py_join '', '' values)"

function chunks :: "nat \<Rightarrow> 'a list \<Rightarrow> 'a list list" where
  "chunks n xs = (if xs = [] \<or> n = 0 then [] else take n xs # chunks n (drop n xs))"
  by pat_completeness auto
termination by (relation "measure (\<lambda>(_, xs). length xs)") auto

declare chunks.simps [simp del]

definition toluna_required_value_groups :: "form_question \<Rightarrow> bool \<Rightarrow> string list list" where
  "toluna_required_value_groups q is_postal =
     (let values = keep_first_spelling [] (answer_texts q) in
      if \<not> is_postal \<or> \<not> truthy (dict_get (fq_raw q) ''required_by_provider'') \<or> length values \<le> 20 then []
      else chunks 25 values)"

definition innovatemr_postal_targeting_note :: "string list \<Rightarrow> string" where
  "innovatemr_postal_targeting_note values =
     (let shown = py_join '', '' (take 12 values) in
      if values = [] then []
      else if length values \<le> 12 then ''Required ZIP/postal codes: '' @ shown
      else ''Required ZIP/postal codes: '' @ grouped_number (length values)
           @ '' provider-approved codes (examples: '' @ shown @ '')'')"

section \<open>The prepared questions\<close>

datatype input_kind = Date_Mask | Number_Input | Text_Input | Checkbox_Input | Radio_Input

record prepared_question =
  pq_model :: form_question
  pq_profile_dimension :: string
  pq_aliases :: "form_question list"
  pq_display_text :: string
  pq_input_kind :: input_kind
  pq_options :: "(string \<times> string) list"
  pq_is_dob :: bool
  pq_is_age :: bool
  pq_is_postal :: bool
  pq_postal_values :: "string list"
  pq_postal_prefix_match :: bool
  pq_allowed_values :: "string list"
  pq_enforce_allowed :: bool
  pq_age_ranges :: "(int \<times> int) list"
  pq_age_constraints :: bool
  pq_targeting_note :: string
  pq_value_groups :: "string list list"

definition pq_field_name :: "prepared_question \<Rightarrow> string" where
  "pq_field_name p = ''question_'' @ fq_pk (pq_model p)"

text \<open>What a question is about, read off its key and text.\<close>

definition shown_text :: "(string \<Rightarrow> string) \<Rightarrow> form_question \<Rightarrow> string" where
  "shown_text unescape q =
     clean_rfg_display_text unescape (JStr (if fq_text q \<noteq> [] then fq_text q else fq_key q))"

definition is_dob_question :: "(string \<Rightarrow> string) \<Rightarrow> form_question \<Rightarrow> bool" where
  "is_dob_question unescape q =
     (py_upper (fq_key q) \<in> {''DOB'', ''BIRTHDAY'', ''RFG_BIRTHDAY''}
      \<or> contains_text ''date of birth'' (py_lower (shown_text unescape q))
      \<or> contains_text ''birthday'' (py_lower (shown_text unescape q)))"

definition is_age_question :: "(string \<Rightarrow> string) \<Rightarrow> form_question \<Rightarrow> bool" where
  "is_age_question unescape q =
     (py_upper (fq_key q) = ''AGE''
      \<or> contains_text ''your age'' (py_lower (shown_text unescape q)) \<and> \<not> is_dob_question unescape q)"

definition is_postal_question :: "(string \<Rightarrow> string) \<Rightarrow> form_question \<Rightarrow> bool" where
  "is_postal_question unescape q =
     is_postal_targeting_question (py_upper (fq_key q)) (py_lower (shown_text unescape q))"

definition postal_targeting_values :: "(string \<Rightarrow> string) \<Rightarrow> string \<Rightarrow> form_question \<Rightarrow> string list" where
  "postal_targeting_values unescape provider q =
     (if provider = ''innovatemr'' \<and> is_postal_question unescape q
      then innovatemr_postal_targeting_values unescape q else [])"

definition postal_constrained :: "(string \<Rightarrow> string) \<Rightarrow> string \<Rightarrow> form_question \<Rightarrow> bool" where
  "postal_constrained unescape provider q =
     (provider = ''toluna'' \<and> is_postal_question unescape q \<and> answer_texts q \<noteq> [])"

text \<open>The values a respondent may give, from the provider's choices, Toluna's required answers and
  postal prefixes, the aliases of a profile question and InnovateMR's postal codes, in that order.\<close>

definition allowed_values ::
  "(string \<Rightarrow> string) \<Rightarrow> string \<Rightarrow> string \<Rightarrow> form_question list \<Rightarrow> form_question \<Rightarrow> string list option" where
  "allowed_values unescape provider dimension aliases q =
     (let allowed = qualifying_option_values q;
          allowed = (if provider = ''toluna''
                     then (case toluna_required_option_values q of
                             None \<Rightarrow> allowed | Some required \<Rightarrow> restrict_to allowed required)
                     else allowed);
          allowed = (if postal_constrained unescape provider q
                     then Some (filter (\<lambda>t. normalized_postal_targeting_value t \<noteq> []) (answer_texts q))
                     else allowed);
          allowed = foldl restrict_to allowed
                      (map (\<lambda>a. rfg_alias_allowed_values a dimension)
                        (filter (\<lambda>a. raw_items a ''targeting_choices'' \<noteq> []) aliases));
          postal = postal_targeting_values unescape provider q
      in if postal \<noteq> [] then Some postal else allowed)"

definition question_input_kind ::
  "(string \<Rightarrow> string) \<Rightarrow> string \<Rightarrow> form_question \<Rightarrow> bool \<Rightarrow> input_kind" where
  "question_input_kind unescape provider q has_options =
     (let lowered_type = py_lower (fq_type q) in
      if is_dob_question unescape q then Date_Mask
      else if is_age_question unescape q then Number_Input
      else if is_postal_question unescape q then Text_Input
      else if provider = ''toluna'' \<and> answer_type_open q then Text_Input
      else if contains_text ''date'' lowered_type then Date_Mask
      else if contains_text ''multi'' lowered_type then Checkbox_Input
      else if has_options then Radio_Input
      else if py_upper (fq_key q) = ''AGE'' \<or> contains_text ''numeric'' lowered_type then Number_Input
      else Text_Input)"

definition targeting_note ::
  "(string \<Rightarrow> string) \<Rightarrow> string \<Rightarrow> bool \<Rightarrow> form_question \<Rightarrow> input_kind \<Rightarrow> (string \<times> string) list
   \<Rightarrow> string list \<Rightarrow> string list \<Rightarrow> (int \<times> int) list \<Rightarrow> string" where
  "targeting_note unescape provider qualifying_only q kind options allowed postal ranges =
     (let provider_note = clean_rfg_display_text unescape (dict_get (fq_raw q) ''targeting_note'');
          required_note = (if provider = ''toluna'' \<and> kind \<notin> {Radio_Input, Checkbox_Input}
                           then toluna_required_value_note q (is_postal_question unescape q) else [])
      in if provider_note \<noteq> [] then provider_note
         else if (is_age_question unescape q \<or> is_dob_question unescape q) \<and> ranges \<noteq> []
         then ''Qualifying age: '' @ py_join '', '' (map range_label ranges)
         else if required_note \<noteq> [] then required_note
         else if postal \<noteq> [] then innovatemr_postal_targeting_note postal
         else if qualifying_only \<and> (allowed \<noteq> []
                \<or> provider = ''toluna'' \<and> truthy (dict_get (fq_raw q) ''required_by_provider'') \<and> options \<noteq> [])
         then ''Only answers accepted by this survey are shown.'' else [])"

definition prepare_question ::
  "(string \<Rightarrow> string) \<Rightarrow> string \<Rightarrow> bool \<Rightarrow> form_question list \<Rightarrow> form_question \<Rightarrow> prepared_question" where
  "prepare_question unescape provider qualifying_only rows q =
     (let dob = is_dob_question unescape q;
          age = is_age_question unescape q;
          aged = (dob \<or> age);
          dimension = (if provider = ''rfg'' then rfg_profile_dimension unescape q else []);
          aliases = profile_aliases unescape provider rows q;
          allowed = allowed_values unescape provider dimension aliases q;
          postal = postal_targeting_values unescape provider q;
          rendered = (if postal \<noteq> [] then [] else fq_options q);
          value = option_value unescape aged;
          qualified = (\<lambda>option. option_qualified allowed (value option));
          options = map (\<lambda>option. (value option, option_label unescape aged option))
            (filter (\<lambda>option. qualifying_only \<longrightarrow> qualified option) rendered);
          primary = List.map_filter (option_range aged) (filter qualified rendered)
            @ (if aged then targeting_ranges q else []);
          ranges = merge_ranges (effective_ranges primary (if aged then map alias_age_ranges aliases else []));
          kind = question_input_kind unescape provider q (options \<noteq> [])
      in \<lparr>pq_model = q, pq_profile_dimension = dimension, pq_aliases = aliases,
          pq_display_text = (if dob then ''What is your date of birth?''
                             else if age then ''What is your age?'' else shown_text unescape q),
          pq_input_kind = kind, pq_options = options, pq_is_dob = dob, pq_is_age = age,
          pq_is_postal = is_postal_question unescape q, pq_postal_values = postal,
          pq_postal_prefix_match = postal_constrained unescape provider q,
          pq_allowed_values = sorted_set (case allowed of None \<Rightarrow> [] | Some values \<Rightarrow> values),
          pq_enforce_allowed = (provider \<noteq> ''rfg''), pq_age_ranges = ranges,
          pq_age_constraints =
            (aged \<and> (has_age_data q \<or> (case allowed of None \<Rightarrow> False | Some values \<Rightarrow> values \<noteq> [])
                     \<or> list_ex (\<lambda>a. has_age_data a \<or> raw_items a ''targeting_choices'' \<noteq> []) aliases)),
          pq_targeting_note = targeting_note unescape provider qualifying_only q kind options
            (case allowed of None \<Rightarrow> [] | Some values \<Rightarrow> values) postal ranges,
          pq_value_groups = (if provider = ''toluna'' \<and> kind \<notin> {Radio_Input, Checkbox_Input}
                             then toluna_required_value_groups q (is_postal_question unescape q) else [])\<rparr>)"

definition prescreener_questions ::
  "(string \<Rightarrow> string) \<Rightarrow> bool \<Rightarrow> db \<Rightarrow> survey \<Rightarrow> py_error + prepared_question list" where
  "prescreener_questions unescape qualifying_only d s =
     (case (case sv_integration s of
              None \<Rightarrow> Inr None
            | Some i \<Rightarrow> map_sum id Some (of_option (DoesNotExist ''ClientIntegration'') (get_integration d i))) of
        Inl e \<Rightarrow> Inl e
      | Inr integration \<Rightarrow>
          (let provider = provider_code_of integration in
           map_sum id (\<lambda>rows. map (prepare_question unescape provider qualifying_only rows)
                                 (shown_rows unescape provider rows))
             (question_rows provider d s)))"

section \<open>Ages admitted\<close>

definition admits :: "(int \<times> int) list \<Rightarrow> int \<Rightarrow> bool" where
  "admits ranges age = list_ex (\<lambda>band. fst band \<le> age \<and> age \<le> snd band) ranges"

text \<open>Ascending and apart: between two merged ranges there is an age that neither has.\<close>

fun apart :: "(int \<times> int) list \<Rightarrow> bool" where
  "apart (a # b # rest) = (snd a + 1 < fst b \<and> apart (b # rest))"
| "apart _ = True"

lemma admits_simps [simp]:
  "admits [] age = False" "admits (r # rs) age = (fst r \<le> age \<and> age \<le> snd r \<or> admits rs age)"
  "admits (rs @ ts) age = (admits rs age \<or> admits ts age)"
  by (simp_all add: admits_def)

lemma intersect_admits [simp]: "admits (intersect_ranges ps qs) age \<longleftrightarrow> admits ps age \<and> admits qs age"
proof -
  have one: "admits (filter (\<lambda>band. fst band \<le> snd band) (map (\<lambda>q. (max (fst p) (fst q), min (snd p) (snd q))) qs)) age
      \<longleftrightarrow> (fst p \<le> age \<and> age \<le> snd p) \<and> admits qs age" for p
    by (induction qs) auto
  show ?thesis unfolding intersect_ranges_def by (induction ps) (auto simp: one)
qed

text \<open>An age is in effect when some layer has ranges and every layer that has any contains it.\<close>

lemma narrow_admits:
  assumes "effective \<longleftrightarrow> primary_layers \<noteq> []"
    and "\<forall>age. admits ranges age \<longleftrightarrow> effective \<and> (\<forall>l \<in> set primary_layers. admits l age)"
  shows "admits (fst (foldl narrow (ranges, effective) layers)) age \<longleftrightarrow>
     (primary_layers @ filter (\<lambda>l. l \<noteq> []) layers \<noteq> []
      \<and> (\<forall>l \<in> set (primary_layers @ filter (\<lambda>l. l \<noteq> []) layers). admits l age))"
  using assms
proof (induction layers arbitrary: ranges effective primary_layers)
  case Nil
  then show ?case by simp
next
  case (Cons l layers)
  show ?case
  proof (cases "l = []")
    case True
    then have "narrow (ranges, effective) l = (ranges, effective)" by (simp add: narrow_def)
    with True Cons.IH [OF Cons.prems] show ?thesis by simp
  next
    case False
    let ?next = "narrow (ranges, effective) l"
    have "snd ?next" using False by (simp add: narrow_def)
    moreover have "\<forall>age. admits (fst ?next) age \<longleftrightarrow> (\<forall>k \<in> set (primary_layers @ [l]). admits k age)"
      using False Cons.prems by (auto simp: narrow_def)
    ultimately show ?thesis
      using Cons.IH [of "snd ?next" "primary_layers @ [l]" "fst ?next"] False
      by (cases ?next) simp
  qed
qed

lemma effective_admits:
  "admits (effective_ranges primary layers) age \<longleftrightarrow>
     filter (\<lambda>l. l \<noteq> []) (primary # layers) \<noteq> [] \<and> (\<forall>l \<in> set (filter (\<lambda>l. l \<noteq> []) (primary # layers)). admits l age)"
  unfolding effective_ranges_def
  using narrow_admits [of "primary \<noteq> []" "filter (\<lambda>l. l \<noteq> []) [primary]" primary layers age]
  by auto

lemma apart_snoc: "apart (xs @ [b]) \<longleftrightarrow> apart xs \<and> (xs \<noteq> [] \<longrightarrow> snd (last xs) + 1 < fst b)"
  by (induction xs rule: apart.induct) auto

lemma merge_step_ok:
  assumes "apart merged" and "merged \<noteq> [] \<Longrightarrow> fst (last merged) \<le> fst band"
  shows "apart (merge_step merged band)"
    and "admits (merge_step merged band) age \<longleftrightarrow> admits merged age \<or> fst band \<le> age \<and> age \<le> snd band"
    and "merge_step merged band \<noteq> []" and "fst (last (merge_step merged band)) \<le> fst band"
proof -
  consider (empty) "merged = []" | (snoc) init final where "merged = init @ [final]"
    by (cases merged rule: rev_cases) auto
  then have "apart (merge_step merged band)
      \<and> (admits (merge_step merged band) age \<longleftrightarrow> admits merged age \<or> fst band \<le> age \<and> age \<le> snd band)
      \<and> merge_step merged band \<noteq> [] \<and> fst (last (merge_step merged band)) \<le> fst band"
  proof cases
    case empty
    then show ?thesis by (simp add: merge_step_def)
  next
    case snoc
    have two: "apart (init @ [final, band]) \<longleftrightarrow> apart (init @ [final]) \<and> snd final + 1 < fst band"
      using apart_snoc [of "init @ [final]" band] by simp
    from snoc assms show ?thesis by (auto simp: merge_step_def two apart_snoc)
  qed
  then show "apart (merge_step merged band)"
    and "admits (merge_step merged band) age \<longleftrightarrow> admits merged age \<or> fst band \<le> age \<and> age \<le> snd band"
    and "merge_step merged band \<noteq> []" and "fst (last (merge_step merged band)) \<le> fst band"
    by blast+
qed

lemma merge_fold:
  assumes "sorted bands" and "apart merged" and "\<And>band. band \<in> set bands \<Longrightarrow> merged \<noteq> [] \<Longrightarrow> fst (last merged) \<le> fst band"
  shows "apart (foldl merge_step merged bands)
    \<and> (admits (foldl merge_step merged bands) age \<longleftrightarrow> admits merged age \<or> admits bands age)"
  using assms
proof (induction bands arbitrary: merged)
  case Nil
  then show ?case by simp
next
  case (Cons band bands)
  note step = merge_step_ok [OF Cons.prems(2), of band]
  have low: "merged \<noteq> [] \<Longrightarrow> fst (last merged) \<le> fst band" using Cons.prems(3) by simp
  have "fst band \<le> fst b" if "b \<in> set bands" for b
    using Cons.prems(1) that by (auto simp: less_eq_prod_def)
  then have "fst (last (merge_step merged band)) \<le> fst b" if "b \<in> set bands" for b
    using order_trans [OF step(4) [OF low]] that by blast
  then show ?case
    using Cons.IH [of "merge_step merged band"] Cons.prems(1) step(1,2) [OF low] by auto
qed

lemma merge_admits [simp]: "admits (merge_ranges ranges) age \<longleftrightarrow> admits ranges age"
proof -
  have "admits (sort (remdups ranges)) age \<longleftrightarrow> admits ranges age"
    by (simp add: admits_def list_ex_iff)
  with merge_fold [of "sort (remdups ranges)" "[]" age] show ?thesis by (simp add: merge_ranges_def)
qed

lemma merge_apart: "apart (merge_ranges ranges)"
  using merge_fold [of "sort (remdups ranges)" "[]"] by (simp add: merge_ranges_def)

section \<open>The fields of a prepared question\<close>

lemma prepared_fields [simp]:
  "pq_model (prepare_question unescape provider qualifying_only rows q) = q"
  "pq_aliases (prepare_question unescape provider qualifying_only rows q) = profile_aliases unescape provider rows q"
  "pq_is_dob (prepare_question unescape provider qualifying_only rows q) = is_dob_question unescape q"
  "pq_is_age (prepare_question unescape provider qualifying_only rows q) = is_age_question unescape q"
  "pq_is_postal (prepare_question unescape provider qualifying_only rows q) = is_postal_question unescape q"
  "pq_postal_values (prepare_question unescape provider qualifying_only rows q)
     = postal_targeting_values unescape provider q"
  "pq_enforce_allowed (prepare_question unescape provider qualifying_only rows q) = (provider \<noteq> ''rfg'')"
  unfolding prepare_question_def Let_def by (rule prepared_question.select_convs)+

text \<open>The values allowed of a prepared question, and the layers of its age ranges.\<close>

definition question_allowed ::
  "(string \<Rightarrow> string) \<Rightarrow> string \<Rightarrow> form_question list \<Rightarrow> form_question \<Rightarrow> string list option" where
  "question_allowed unescape provider rows q =
     allowed_values unescape provider (if provider = ''rfg'' then rfg_profile_dimension unescape q else [])
       (profile_aliases unescape provider rows q) q"

definition own_ranges ::
  "(string \<Rightarrow> string) \<Rightarrow> string \<Rightarrow> form_question list \<Rightarrow> form_question \<Rightarrow> (int \<times> int) list" where
  "own_ranges unescape provider rows q =
     List.map_filter (option_range True)
       (filter (\<lambda>option. option_qualified (question_allowed unescape provider rows q) (option_value unescape True option))
         (if postal_targeting_values unescape provider q \<noteq> [] then [] else fq_options q))
     @ targeting_ranges q"

lemma prepared_allowed:
  "pq_allowed_values (prepare_question unescape provider qualifying_only rows q)
     = sorted_set (case question_allowed unescape provider rows q of None \<Rightarrow> [] | Some values \<Rightarrow> values)"
  unfolding prepare_question_def Let_def question_allowed_def by (rule prepared_question.select_convs)

lemma prepared_ranges:
  assumes "is_dob_question unescape q \<or> is_age_question unescape q"
  shows "pq_age_ranges (prepare_question unescape provider qualifying_only rows q)
     = merge_ranges (effective_ranges (own_ranges unescape provider rows q)
         (map alias_age_ranges (profile_aliases unescape provider rows q)))"
  using assms unfolding prepare_question_def Let_def own_ranges_def question_allowed_def prepared_question.select_convs
  by simp

lemma prepared_kind:
  "is_dob_question unescape q \<Longrightarrow> pq_input_kind (prepare_question unescape provider qualifying_only rows q) = Date_Mask"
  "is_age_question unescape q \<Longrightarrow> \<not> is_dob_question unescape q \<Longrightarrow>
     pq_input_kind (prepare_question unescape provider qualifying_only rows q) = Number_Input"
  unfolding prepare_question_def Let_def question_input_kind_def prepared_question.select_convs by simp_all

end
