(* ===== verification/Prescreener_Answers.thy ===== *)
theory Prescreener_Answers
  imports Prescreener_Questions Web_Requests
begin

text \<open>
  Reading a submitted prescreener (\<open>_collect_prescreener_answers\<close> of \<open>surveys/views.py\<close>): the
  values of each question, the checks of its kind, the age checks, and the answers that are stored
  and sent on.  The form is the list of its fields in order, as Django's \<open>QueryDict\<close> reads it.  Where
  two allowed postal codes are the same code in another spelling the code keeps whichever its set
  yields first; the model keeps the first in order.
\<close>

section \<open>The form\<close>

type_synonym form_data = "(string \<times> string) list"

definition form_values :: "form_data \<Rightarrow> string \<Rightarrow> string list" where
  "form_values form name = map snd (filter (\<lambda>field. fst field = name) form)"

definition form_value :: "form_data \<Rightarrow> string \<Rightarrow> string" where
  "form_value form name = (case rev (form_values form name) of [] \<Rightarrow> [] | value # _ \<Rightarrow> value)"

section \<open>Dates\<close>

definition iso_date :: "date \<Rightarrow> string" where
  "iso_date day =
     (case day of (y, m, d) \<Rightarrow>
        zero_pad 4 (show_int y) @ ''-'' @ zero_pad 2 (show_nat m) @ ''-'' @ zero_pad 2 (show_nat d))"

text \<open>\<open>date(y, m, d)\<close>: \<open>OverflowError\<close> beyond a C int, \<^term>\<open>None\<close> where it raises \<open>ValueError\<close>.\<close>

definition make_date :: "int \<Rightarrow> int \<Rightarrow> int \<Rightarrow> py_error + date option" where
  "make_date y m d =
     (if list_ex (\<lambda>n. 2147483647 < n \<or> n < - 2147483648) [y, m, d]
      then Inl (OverflowError ''Python int too large to convert to C int'')
      else if 1 \<le> m \<and> 1 \<le> d \<and> valid_date (y, nat m, nat d) then Inr (Some (y, nat m, nat d)) else Inr None)"

definition read_date :: "string \<Rightarrow> py_error + date option" where
  "read_date raw =
     (case py_split (CHR ''-'') raw of
        [opening, month, closing] \<Rightarrow>
          (let (year, day) = (if length opening = 4 then (opening, closing) else (closing, opening)) in
           case (parse_int year, parse_int month, parse_int day) of
             (Some y, Some m, Some d) \<Rightarrow> make_date y m d
           | _ \<Rightarrow> Inr None)
      | _ \<Rightarrow> Inr None)"

definition age_on :: "date \<Rightarrow> date \<Rightarrow> int" where
  "age_on today born =
     (case (today, born) of
        ((ty, tm, td), (by', bm, bd)) \<Rightarrow> ty - by' - (if tm < bm \<or> tm = bm \<and> td < bd then 1 else 0))"

section \<open>One question\<close>

text \<open>The values given, and the age a date of birth says; an error message otherwise.\<close>

definition given_values ::
  "date \<Rightarrow> form_data \<Rightarrow> prepared_question \<Rightarrow> py_error + (string + string list \<times> int option)" where
  "given_values today form p =
     (if pq_input_kind p = Date_Mask
      then map_sum id
        (\<lambda>found. case found of
           None \<Rightarrow> Inl (''Enter a valid date in DD-MM-YYYY format for: '' @ pq_display_text p)
         | Some born \<Rightarrow> Inr ([iso_date born], if pq_is_dob p then Some (age_on today born) else None))
        (read_date (py_strip (form_value form (pq_field_name p))))
      else (case filter (\<lambda>v. v \<noteq> []) (map py_strip (form_values form (pq_field_name p))) of
              [] \<Rightarrow> Inr (Inl (''Please answer: '' @ pq_display_text p))
            | values \<Rightarrow> Inr (Inr (values, None))))"

definition enforced_values :: "bool \<Rightarrow> prepared_question \<Rightarrow> string list" where
  "enforced_values bypass p = (if pq_enforce_allowed p \<and> \<not> bypass then pq_allowed_values p else [])"

definition canonical_postal :: "bool \<Rightarrow> prepared_question \<Rightarrow> string \<Rightarrow> string option" where
  "canonical_postal bypass p value =
     (let normalized = normalized_postal_targeting_value value;
          accepted = filter (\<lambda>v. normalized_postal_targeting_value v \<noteq> []) (enforced_values bypass p)
      in if pq_postal_prefix_match p
         then (if list_ex (\<lambda>v. py_startswith normalized (normalized_postal_targeting_value v)) accepted
               then Some value else None)
         else List.find (\<lambda>v. normalized_postal_targeting_value v = normalized) accepted)"

text \<open>The checks of the question's kind: the values stored, those sent upstream and the age.\<close>

definition checked_values ::
  "bool \<Rightarrow> prepared_question \<Rightarrow> string list \<Rightarrow> int option \<Rightarrow> string + (string list \<times> string list \<times> int option)" where
  "checked_values bypass p values age =
     (if pq_input_kind p \<in> {Radio_Input, Checkbox_Input}
      then (if list_all (\<lambda>v. v \<in> fst ` set (pq_options p)
                 \<and> (enforced_values bypass p = [] \<or> v \<in> set (enforced_values bypass p))) values
            then Inr (values, values, age) else Inl (''Invalid answer for: '' @ pq_display_text p))
      else if pq_input_kind p = Number_Input
      then (case parse_int (hd values) of
              None \<Rightarrow> Inl (''Enter a valid number for: '' @ pq_display_text p)
            | Some n \<Rightarrow> Inr (values, [show_int n], if pq_is_age p then Some n else age))
      else if \<not> bypass \<and> pq_is_postal p \<and> (enforced_values bypass p \<noteq> [] \<or> pq_postal_prefix_match p)
      then (case canonical_postal bypass p (hd values) of
              None \<Rightarrow> Inl (''Enter a ZIP/postal code accepted by this survey for: '' @ pq_display_text p)
            | Some value \<Rightarrow>
                if pq_postal_prefix_match p then Inr (values, values, age) else Inr ([value], [value], age))
      else Inr (values, values, age))"

definition age_error :: "bool \<Rightarrow> prepared_question \<Rightarrow> int option \<Rightarrow> string option" where
  "age_error bypass p age =
     (case age of
        None \<Rightarrow> None
      | Some a \<Rightarrow>
          if bypass
          then (if 18 \<le> a \<and> a \<le> OPEN_ENDED_AGE_MAX then None
                else Some (''Enter an age between 18 and '' @ show_int OPEN_ENDED_AGE_MAX @ ''.''))
          else if \<not> (1 \<le> a \<and> a \<le> OPEN_ENDED_AGE_MAX)
                  \<or> pq_age_ranges p \<noteq> [] \<and> \<not> admits (pq_age_ranges p) a
                  \<or> pq_age_constraints p \<and> pq_age_ranges p = []
          then Some (''Enter an age within the accepted range for: '' @ pq_display_text p) else None)"

definition texts :: "string list \<Rightarrow> json" where
  "texts values = JArr (map JStr values)"

definition stored_answer :: "prepared_question \<Rightarrow> string list \<Rightarrow> string list \<Rightarrow> json" where
  "stored_answer p values upstream =
     (let q = pq_model p in
      JObj [(''question_id'', fq_question_id q), (''question_key'', JStr (fq_key q)),
            (''question_text'', JStr (pq_display_text p)), (''question_type'', JStr (fq_type q)),
            (''question_category'', JStr (fq_category q)), (''values'', texts values),
            (''upstream_values'', texts upstream),
            (''platform_only'', JBool (truthy (dict_get (fq_raw q) ''platform_only'')))])"

definition alias_answer ::
  "(string \<Rightarrow> string) \<Rightarrow> prepared_question \<Rightarrow> string list \<Rightarrow> string list \<Rightarrow> form_question \<Rightarrow> json" where
  "alias_answer unescape p values upstream a =
     JObj [(''question_id'', fq_question_id a), (''question_key'', JStr (fq_key a)),
           (''question_text'', JStr (shown_text unescape a)), (''values'', texts values),
           (''upstream_values'', texts (rfg_alias_upstream_values unescape a (pq_profile_dimension p) upstream)),
           (''profile_alias'', JStr (fq_key (pq_model p)))]"

definition answer_entries ::
  "(string \<Rightarrow> string) \<Rightarrow> prepared_question \<Rightarrow> string list \<Rightarrow> string list \<Rightarrow> jdict" where
  "answer_entries unescape p values upstream =
     (let sent = (if truthy (dict_get (fq_raw (pq_model p)) ''platform_only'') then [] else upstream) in
      (fq_pk (pq_model p), stored_answer p values sent)
      # map (\<lambda>a. (fq_pk a, alias_answer unescape p values sent a)) (pq_aliases p))"

definition collect_question ::
  "(string \<Rightarrow> string) \<Rightarrow> bool \<Rightarrow> date \<Rightarrow> form_data \<Rightarrow> prepared_question \<Rightarrow> py_error + (string + jdict)" where
  "collect_question unescape bypass today form p =
     map_sum id
       (\<lambda>given. case given of
          Inl message \<Rightarrow> Inl message
        | Inr (values, age) \<Rightarrow>
            (case checked_values bypass p values age of
               Inl message \<Rightarrow> Inl message
             | Inr (values, upstream, age) \<Rightarrow>
                 (case age_error bypass p age of
                    Some message \<Rightarrow> Inl message
                  | None \<Rightarrow> Inr (answer_entries unescape p values upstream))))
       (given_values today form p)"

section \<open>The form as a whole\<close>

fun collect_questions ::
  "(string \<Rightarrow> string) \<Rightarrow> bool \<Rightarrow> date \<Rightarrow> form_data \<Rightarrow> prepared_question list \<Rightarrow> jdict \<times> string list
   \<Rightarrow> py_error + jdict \<times> string list" where
  "collect_questions unescape bypass today form [] collected = Inr collected"
| "collect_questions unescape bypass today form (p # ps) (answers, errors) =
     (case collect_question unescape bypass today form p of
        Inl e \<Rightarrow> Inl e
      | Inr (Inl message) \<Rightarrow>
          collect_questions unescape bypass today form ps (answers, errors @ [message])
      | Inr (Inr entries) \<Rightarrow>
          collect_questions unescape bypass today form ps (dict_merge answers entries, errors))"

text \<open>BioBrain and Voqall check the answers themselves.\<close>

definition collect_prescreener_answers ::
  "(string \<Rightarrow> string) \<Rightarrow> date \<Rightarrow> form_data \<Rightarrow> db \<Rightarrow> survey \<Rightarrow> py_error + jdict \<times> string list" where
  "collect_prescreener_answers unescape today form d s =
     (case prescreener_questions unescape False d s of
        Inl e \<Rightarrow> Inl e
      | Inr ps \<Rightarrow>
          collect_questions unescape
            (provider_code_of (Option.bind (sv_integration s) (get_integration d)) \<in> {''biobrain'', ''voqall''})
            today form ps ([], []))"

end
