(* ===== verification/Callback_Recording.thy ===== *)
theory Callback_Recording
  imports Callback_Urls Survey_Flow Reservations
begin

text \<open>
  Recording the result of an attempt: the browser callback \<open>survey_status\<close> and the RFG callback
  and result page of \<open>surveys/views.py\<close>, and the verified notification shown with a result
  (\<open>surveys/status_context.py\<close>).  A view is a function from the request and the database to the
  database it leaves and the response, or the exception that escapes; work committed before an
  exception stays.  Pages are represented by what the code passes to the template.
\<close>

record web_services =
  ws_hmac :: "string \<Rightarrow> string \<Rightarrow> string \<Rightarrow> string"
  ws_environment :: "string \<Rightarrow> string option"
  ws_ip_text :: "string \<Rightarrow> (string \<times> bool) option"
  ws_trust_forwarded :: bool
  ws_innovate :: signature_settings
  ws_innovate_required :: bool
  ws_biobrain :: signature_settings
  ws_biobrain_required :: bool
  ws_status_path :: string
  ws_callbacks :: callback_services

record result_page =
  rp_title :: string
  rp_status_label :: string
  rp_identifier :: string
  rp_ip_address :: "string option"
  rp_loi_seconds :: "nat option"
  rp_reason :: string

datatype view_response =
    Error_Page nat
  | Result_Page result_page
  | Redirect_To string

section \<open>The notification behind a status\<close>

fun split_camel :: "string \<Rightarrow> string" where
  "split_camel [] = []"
| "split_camel [c] = [c]"
| "split_camel (c # e # cs) =
     (if (is_lower_ascii c \<or> is_digit_ascii c) \<and> is_upper_ascii e
      then c # CHR '' '' # split_camel (e # cs) else c # split_camel (e # cs))"

definition friendly_text :: "string \<Rightarrow> nat \<Rightarrow> string" where
  "friendly_text value limit =
     (let text = map (\<lambda>c. if c = CHR ''_'' \<or> c = CHR ''-'' then CHR '' '' else c) (py_strip value);
          words = py_strip (replace_runs is_ascii_space '' '' False (split_camel text))
      in case words of [] \<Rightarrow> [] | c # cs \<Rightarrow> take limit (upper_char c # cs))"

definition RESPONDENT_NOTIFICATION_TYPES :: "event_type list" where
  "RESPONDENT_NOTIFICATION_TYPES =
     [MEMBER_COMPLETE, MEMBER_TERMINATE, ENHANCED_TERMINATION, RECONCILIATION]"

fun event_type_display :: "event_type \<Rightarrow> string" where
  "event_type_display MEMBER_COMPLETE = ''Member completion''"
| "event_type_display MEMBER_TERMINATE = ''Member termination''"
| "event_type_display ENHANCED_TERMINATION = ''Enhanced termination''"
| "event_type_display QUOTA_STATUS = ''Quota status''"
| "event_type_display SURVEY_CLOSED = ''Survey closed''"
| "event_type_display RECONCILIATION = ''Reconciliation''"

definition pk_of_json :: "json \<Rightarrow> py_error + int" where
  "pk_of_json v =
     (case v of
        JInt i \<Rightarrow> Inr i
      | JBool b \<Rightarrow> Inr (if b then 1 else 0)
      | JStr s \<Rightarrow> of_option (ValueError ''id'') (parse_int s)
      | _ \<Rightarrow> Inl (TypeError ''id''))"

record notification_summary =
  ns_outcome :: string
  ns_reason :: string

definition notification_of_attempt ::
  "db \<Rightarrow> survey_attempt \<Rightarrow> pk option \<Rightarrow> int \<Rightarrow> toluna_notification option" where
  "notification_of_attempt d a integration event_id =
     List.find (\<lambda>n. int (tn_id n) = event_id \<and> tn_attempt n = Some (at_id a)
         \<and> tn_integration n = integration \<and> tn_applied n
         \<and> tn_event_type n \<in> set RESPONDENT_NOTIFICATION_TYPES) (notifications d)"

definition verified_toluna_notification_summary ::
  "db \<Rightarrow> survey_attempt \<Rightarrow> py_error + notification_summary option" where
  "verified_toluna_notification_summary d a =
     (if \<not> at_is_verified a \<or> \<not> py_startswith (at_status_source a) ''toluna_notification_'' then Inr None
      else (case attempt_integration d a of
              Inl e \<Rightarrow> Inl e
            | Inr None \<Rightarrow> Inr None
            | Inr (Some ci) \<Rightarrow>
                if ci_provider_code ci \<noteq> ''toluna'' then Inr None
                else (case dict_or_empty (at_upstream_transaction_data a) of
                        Inl e \<Rightarrow> Inl e
                      | Inr upstream \<Rightarrow>
                     (case dict_or_empty (dict_get upstream ''toluna_notification'') of
                        Inl e \<Rightarrow> Inl e
                      | Inr audit \<Rightarrow>
                          (let event_id = dict_get audit ''event_id'' in
                           if \<not> truthy event_id then Inr None
                           else (case pk_of_json event_id of
                                   Inl e \<Rightarrow> Inl e
                                 | Inr pk \<Rightarrow>
                                     (case notification_of_attempt d a (Some (ci_id ci)) pk of
                                        None \<Rightarrow> Inr None
                                      | Some n \<Rightarrow>
                                          if at_status_source a \<noteq> ''toluna_notification_'' @ event_type_value (tn_event_type n)
                                          then Inr None
                                          else (let outcome = friendly_text (tn_provider_status n) 80 in
                                                Inr (Some
                                                  \<lparr>ns_outcome = (if outcome \<noteq> [] then outcome
                                                      else event_type_display (tn_event_type n)),
                                                   ns_reason = friendly_text (if tn_rejection_name n \<noteq> []
                                                      then tn_rejection_name n else tn_reason n) 200\<rparr>)))))))))"

section \<open>Status pages\<close>

record status_page =
  sp_title :: string
  sp_label :: "string option"

definition STATUS_PAGES :: "(string \<times> status_page) list" where
  "STATUS_PAGES =
    [(''1'', \<lparr>sp_title = ''Thank you for participating!'', sp_label = None\<rparr>),
     (''2'', \<lparr>sp_title = ''Survey ended'', sp_label = None\<rparr>),
     (''3'', \<lparr>sp_title = ''Quota already filled'', sp_label = None\<rparr>),
     (''4'', \<lparr>sp_title = ''Quality check unsuccessful'', sp_label = None\<rparr>)]"

definition TOLUNA_STATUS_PAGES :: "(string \<times> status_page) list" where
  "TOLUNA_STATUS_PAGES =
    [(''1'', \<lparr>sp_title = ''Survey qualified'', sp_label = Some ''Qualified''\<rparr>),
     (''2'', \<lparr>sp_title = ''Survey terminated'', sp_label = Some ''Terminated''\<rparr>),
     (''3'', \<lparr>sp_title = ''Quota already filled'', sp_label = Some ''Quota full''\<rparr>),
     (''4'', \<lparr>sp_title = ''Fraud check unsuccessful'', sp_label = Some ''Fraud terminated''\<rparr>),
     (''7'', \<lparr>sp_title = ''Survey not available'', sp_label = Some ''Survey not available''\<rparr>),
     (''8'', \<lparr>sp_title = ''No surveys available'', sp_label = Some ''No surveys''\<rparr>),
     (''9'', \<lparr>sp_title = ''Cookies are required'', sp_label = Some ''No cookies''\<rparr>),
     (''10'', \<lparr>sp_title = ''Survey limit reached'', sp_label = Some ''Maximum surveys reached''\<rparr>),
     (''11'', \<lparr>sp_title = ''Not qualified'', sp_label = Some ''Not qualified''\<rparr>),
     (''12'', \<lparr>sp_title = ''Survey already taken'', sp_label = Some ''Survey already taken''\<rparr>)]"

definition status_of_code :: "string \<Rightarrow> attempt_status option" where
  "status_of_code code =
     List.find (\<lambda>st. attempt_status_value st = code)
       [INITIATED, REDIRECTED, COMPLETED, TERMINATED, OVER_QUOTA, QUALITY_TERMINATED,
        SURVEY_NOT_AVAILABLE, NO_SURVEYS, NO_COOKIES, MAX_SURVEYS_REACHED, NOT_QUALIFIED, SURVEY_TAKEN]"

definition status_value :: "survey_attempt \<Rightarrow> string" where
  "status_value a = attempt_status_value (at_status a)"

definition is_terminal :: "survey_attempt \<Rightarrow> bool" where
  "is_terminal a = (status_value a \<in> set (map fst STATUS_PAGES))"

definition is_pending :: "survey_attempt \<Rightarrow> bool" where
  "is_pending a = (at_status a \<in> {INITIATED, REDIRECTED})"

definition page_label :: "status_page \<Rightarrow> survey_attempt \<Rightarrow> string" where
  "page_label p a =
     (case sp_label p of Some l \<Rightarrow> l | None \<Rightarrow> attempt_status_label (at_status a))"

text \<open>\<open>_status_presentation_for_attempt\<close>: title and label.\<close>

definition status_presentation ::
  "survey_attempt \<Rightarrow> string \<Rightarrow> string \<Rightarrow> py_error + (string \<times> string)" where
  "status_presentation a title label =
     (case dict_or_empty (at_upstream_transaction_data a) of
        Inl e \<Rightarrow> (if at_status_source a = ''local_duplicate_ip_guard''
                  then Inr (''Duplicate entry blocked'', ''Duplicate IP blocked'') else Inl e)
      | Inr audit \<Rightarrow>
          if at_status_source a = ''local_country_guard'' then
            map_sum id (\<lambda>_. (''Location not eligible'', ''Wrong target country''))
              (dict_or_empty (dict_get audit ''local_country_guard''))
          else if at_status_source a = ''local_duplicate_ip_guard'' then
            Inr (''Duplicate entry blocked'', ''Duplicate IP blocked'')
          else (let recorded = only_dict (dict_get audit ''toluna_outcome'');
                    described = describe_toluna_callback
                      (json_or (dict_get audit ''toluna_callback'') (JObj [])) (JStr []) (JStr []) (JStr []);
                    rejection = str_or (json_or (dict_get recorded ''rejection_id'')
                                  (dict_get described ''rejection_id'')) []
                in Inr (if at_status_source a = ''toluna_callback'' \<and> at_is_verified a \<and> rejection = ''73''
                        then (''Survey already attempted'', label) else (title, label))))"

section \<open>The browser callback\<close>

definition duplicate_security_parameters :: "http_request \<Rightarrow> bool" where
  "duplicate_security_parameters r =
     (list_ex (\<lambda>name. 1 < length (get_values r name)) (map fst (request_get r))
      \<or> length (get_values r ''status'') \<noteq> 1
      \<or> list_ex (\<lambda>name. 1 < length (get_values r name)) STATUS_IDENTIFIER_NAMES)"

text \<open>\<open>_resolve_status_attempt\<close>: the identifiers must select one journey; only then, and without
  one, does a reused profile UID select its newest journey.\<close>

definition anchored_attempts :: "db \<Rightarrow> string list \<Rightarrow> survey_attempt list" where
  "anchored_attempts d ids =
     filter (\<lambda>a. at_rid a \<in> set ids \<or> at_pid a \<in> set ids
        \<or> (case at_prescreener_uid a of Some u \<Rightarrow> u \<in> set ids | None \<Rightarrow> False)) (attempts d)"

definition newest_with_profile :: "db \<Rightarrow> string list \<Rightarrow> survey_attempt option" where
  "newest_with_profile d ids =
     (case sort_key (\<lambda>a. - at_initiated_at a)
             (filter (\<lambda>a. at_provider_profile_uid a \<in> set ids) (attempts d)) of
        a # _ \<Rightarrow> Some a | [] \<Rightarrow> None)"

definition resolve_status_attempt :: "db \<Rightarrow> string list \<Rightarrow> survey_attempt option" where
  "resolve_status_attempt d identifiers =
     (let ids = filter (\<lambda>v. v \<noteq> []) (map py_strip identifiers) in
      if ids = [] then None
      else (case anchored_attempts d ids of
              [] \<Rightarrow> newest_with_profile d ids
            | a # as \<Rightarrow> if list_all (\<lambda>b. at_id b = at_id a) as then Some a else None))"

definition redacted :: "string list \<Rightarrow> http_request \<Rightarrow> jdict" where
  "redacted secret_names r =
     map (\<lambda>(k, v). (k, JStr (if py_lower k \<in> set secret_names then ''[redacted]'' else v))) (get_items r)"

text \<open>\<open>{**(value or {}), key: entry, ...}\<close> needs a dict.\<close>

definition spread_with :: "json \<Rightarrow> jdict \<Rightarrow> py_error + json" where
  "spread_with value entries =
     (if \<not> truthy value then Inr (JObj (dict_merge [] entries))
      else (case as_dict value of
              None \<Rightarrow> Inl (TypeError ''not a mapping'')
            | Some kvs \<Rightarrow> Inr (JObj (dict_merge kvs entries))))"

datatype verified_by = Nobody | By_Toluna | By_Innovate | By_Biobrain

text \<open>Who vouches for a callback that is not the platform's own link; \<^term>\<open>Inl n\<close> is the error page
  shown instead.\<close>

definition authenticate_callback ::
  "web_services \<Rightarrow> db \<Rightarrow> http_request \<Rightarrow> client_integration option \<Rightarrow> string \<Rightarrow> bool
   \<Rightarrow> py_error + (nat + verified_by)" where
  "authenticate_callback ws d r integration provider_code canonical =
     (let ip_literal = cs_ip_literal (ws_callbacks ws) in
      if provider_code = ''toluna'' then
        (if canonical then Inr (Inr Nobody)
         else (case integration of
                 None \<Rightarrow> Inr (Inl 403)
               | Some ci \<Rightarrow>
                   (case toluna_verify_callback (ws_hmac ws) ip_literal (ws_environment ws) ci r of
                      Inl (ProviderError _) \<Rightarrow> Inr (Inl 403)
                    | Inl e \<Rightarrow> Inl e
                    | Inr False \<Rightarrow> Inr (Inl 403)
                    | Inr True \<Rightarrow> Inr (Inr By_Toluna))))
      else if provider_code = ''innovatemr'' \<and> \<not> canonical \<and> ws_innovate_required ws then
        map_sum id (\<lambda>v. if vf_valid v then Inr By_Innovate else Inl 403)
          (verify_callback_request (ws_hmac ws) ip_literal (ws_innovate ws) r)
      else if provider_code \<in> {''biobrain'', ''voqall''} \<and> ws_biobrain_required ws then
        map_sum id (\<lambda>v. if vf_valid v then Inr By_Biobrain else Inl 403)
          (verify_biobrain_callback_request (ws_hmac ws) ip_literal (ws_biobrain ws) r)
      else Inr (Inr Nobody))"

definition toluna_finalized :: "string \<Rightarrow> survey_attempt \<Rightarrow> bool" where
  "toluna_finalized provider_code a =
     (provider_code = ''toluna'' \<and> at_is_verified a
      \<and> (at_status_source a = ''toluna_callback'' \<or> py_startswith (at_status_source a) ''toluna_notification_''))"

definition callback_source :: "string \<Rightarrow> verified_by \<Rightarrow> string" where
  "callback_source provider_code by' =
     (if provider_code = ''toluna'' then ''toluna_callback''
      else if by' = By_Innovate then ''innovatemr_signed_redirect''
      else if by' = By_Biobrain then ''biobrain_signed_redirect'' else ''browser_callback'')"

definition innovate_evidence :: "web_services \<Rightarrow> http_request \<Rightarrow> string \<Rightarrow> timestamp \<Rightarrow> json" where
  "innovate_evidence ws r status_code now =
     (let value = (\<lambda>name. case get_param r name of Some v \<Rightarrow> v | None \<Rightarrow> []) in
      JObj [(''status'', JStr status_code),
            (''termReason'', JStr (take 1000 (py_strip (first_text
               [value ''termReason'', value ''term_reason'', value ''reason''])))),
            (''closeQuotaId'', JStr (take 160 (param_text r ''closeQuotaId''))),
            (''surveyId'', JStr (take 160 (param_text r ''surveyId''))),
            (''verifiedAt'', JStr (cs_isoformat (ws_callbacks ws) now))])"

definition exit_data :: "web_services \<Rightarrow> http_request \<Rightarrow> verified_by \<Rightarrow> string \<Rightarrow> timestamp \<Rightarrow> jdict" where
  "exit_data ws r by' status_code now =
     get_request_client_data r
     @ (if by' = By_Innovate then [(''innovatemr_callback'', innovate_evidence ws r status_code now)] else [])"

text \<open>The exit columns every recorder of a result fills from the request.\<close>

definition with_exit_data :: "jdict \<Rightarrow> survey_attempt \<Rightarrow> survey_attempt" where
  "with_exit_data client_data a =
     a\<lparr>at_exit_user_agent := client_text client_data ''user_agent'',
       at_exit_browser := client_text client_data ''browser'',
       at_exit_device := client_text client_data ''device'',
       at_exit_os := client_text client_data ''os'',
       at_exit_client_data := JObj client_data\<rparr>"

text \<open>A result taken over for the first time -- Toluna's also later, until it is final.\<close>

definition take_over_status ::
  "web_services \<Rightarrow> http_request \<Rightarrow> string \<Rightarrow> verified_by \<Rightarrow> attempt_status \<Rightarrow> status_page \<Rightarrow> string option
   \<Rightarrow> timestamp \<Rightarrow> survey_attempt \<Rightarrow> py_error + survey_attempt" where
  "take_over_status ws r provider_code by' status page ip_address now a =
     (let code = attempt_status_value status;
          b = (with_exit_data (exit_data ws r by' code now) a)
                \<lparr>at_callback_at := Some now, at_callback_ip := ip_address,
                 at_loi_seconds := Some (calculate_loi_seconds a now), at_status := status,
                 at_status_source := callback_source provider_code by'\<rparr>
      in if provider_code \<noteq> ''toluna'' then Inr b
         else (let data = redacted [''hash''] r in
               map_sum id (\<lambda>upstream. b\<lparr>at_is_verified := (by' = By_Toluna), at_upstream_transaction_data := upstream\<rparr>)
                 (spread_with (at_upstream_transaction_data a)
                   [(''toluna_callback'', JObj data),
                    (''toluna_outcome'', JObj (describe_toluna_callback (JObj data) (JStr code)
                       (JStr (case sp_label page of Some l \<Rightarrow> l | None \<Rightarrow> [])) (JStr (sp_title page))))])))"

definition keep_evidence ::
  "web_services \<Rightarrow> http_request \<Rightarrow> verified_by \<Rightarrow> string \<Rightarrow> timestamp \<Rightarrow> survey_attempt \<Rightarrow> py_error + survey_attempt" where
  "keep_evidence ws r by' status_code now a =
     (if by' = By_Innovate then
        map_sum id (\<lambda>upstream. a\<lparr>at_upstream_transaction_data := upstream,
            at_exit_client_data := JObj (exit_data ws r by' status_code now), at_is_verified := True\<rparr>)
          (spread_with (at_upstream_transaction_data a)
            [(''innovatemr_browser_return'', JObj (redacted [''hash'', ''hashdata''] r))])
      else if by' = By_Biobrain then
        map_sum id (\<lambda>upstream. a\<lparr>at_upstream_transaction_data := upstream, at_is_verified := True\<rparr>)
          (spread_with (at_upstream_transaction_data a)
            [(''biobrain_browser_return'', JObj (redacted [''hash''] r))])
      else Inr a)"

text \<open>The row after an applied callback.\<close>

definition applied_callback ::
  "web_services \<Rightarrow> http_request \<Rightarrow> string \<Rightarrow> verified_by \<Rightarrow> attempt_status \<Rightarrow> status_page \<Rightarrow> string option
   \<Rightarrow> timestamp \<Rightarrow> survey_attempt \<Rightarrow> py_error + survey_attempt" where
  "applied_callback ws r provider_code by' status page ip_address now a =
     (case (if at_callback_at a = None \<or> provider_code = ''toluna''
            then take_over_status ws r provider_code by' status page ip_address now a else Inr a) of
        Inl e \<Rightarrow> Inl e
      | Inr b \<Rightarrow>
          map_sum id (\<lambda>c. c\<lparr>at_last_callback_at := Some now, at_callback_count := at_callback_count c + 1,
                          at_updated_at := now\<rparr>)
            (keep_evidence ws r by' (attempt_status_value status) now b))"

definition save_attempt :: "survey_attempt \<Rightarrow> db \<Rightarrow> db" where
  "save_attempt a d = update_attempts (\<lambda>row. at_id row = at_id a) (\<lambda>_. a) d"

text \<open>The transaction: nothing applied, refused, or the new row and its finalised capacity.\<close>

datatype recording = Refused | Replayed survey_attempt | Applied survey_attempt

definition record_callback ::
  "web_services \<Rightarrow> http_request \<Rightarrow> string \<Rightarrow> verified_by \<Rightarrow> attempt_status \<Rightarrow> status_page \<Rightarrow> string option
   \<Rightarrow> timestamp \<Rightarrow> pk \<Rightarrow> db \<Rightarrow> py_error + (recording \<times> db)" where
  "record_callback ws r provider_code by' status page ip_address now i d =
     (case of_option (DoesNotExist ''SurveyAttempt'') (get_attempt d i) of
        Inl e \<Rightarrow> Inl e
      | Inr a \<Rightarrow>
          if provider_code \<in> {''biobrain'', ''voqall''}
             \<and> (is_terminal a \<or> \<not> is_pending a \<or> at_callback_at a \<noteq> None)
          then Inr (Refused, d)
          else if toluna_finalized provider_code a then Inr (Replayed a, d)
          else map_sum id
                 (\<lambda>b. (Applied b, snd (finalize_attempt_capacity (save_attempt b d) i (at_status b) now)))
                 (applied_callback ws r provider_code by' status page ip_address now a))"

end
