(* ===== verification/Status_Views.thy ===== *)
theory Status_Views
  imports Callback_Recording
begin

text \<open>
  The views that record and show results (\<open>surveys/views.py\<close>): \<open>survey_status\<close>, \<open>rfg_result\<close>, the RFG
  callback, the local endings of a journey (\<open>_finish_*\<close>) and the release of a prepared Toluna
  invitation.
\<close>

section \<open>Showing a result\<close>

definition request_ip :: "web_services \<Rightarrow> http_request \<Rightarrow> string option" where
  "request_ip ws r = get_request_ip (ws_ip_text ws) (ws_trust_forwarded ws) r"

definition recorded_status_url :: "web_services \<Rightarrow> string \<Rightarrow> survey_attempt \<Rightarrow> string \<Rightarrow> string" where
  "recorded_status_url ws provider_code a status_code =
     (let by_pid = provider_code \<in> {''biobrain'', ''voqall''} in
      ws_status_path ws @ ''?'' @ urlencode
        [(''status'', status_code), if by_pid then (''pid'', at_pid a) else (''rid'', at_rid a)])"

definition current_page :: "string \<Rightarrow> survey_attempt \<Rightarrow> status_page \<Rightarrow> status_page" where
  "current_page provider_code a page =
     (case map_of (if provider_code = ''toluna'' then TOLUNA_STATUS_PAGES else STATUS_PAGES) (status_value a) of
        Some p \<Rightarrow> p | None \<Rightarrow> page)"

definition show_result ::
  "web_services \<Rightarrow> db \<Rightarrow> survey_attempt \<Rightarrow> string \<Rightarrow> status_page \<Rightarrow> string option \<Rightarrow> py_error + view_response" where
  "show_result ws d a provider_code requested ip_address =
     (let page = current_page provider_code a requested in
      case status_presentation a (sp_title page) (page_label page a) of
        Inl e \<Rightarrow> Inl e
      | Inr (title, label) \<Rightarrow>
          map_sum id (\<lambda>oc. Result_Page
              \<lparr>rp_title = title, rp_status_label = label, rp_identifier = at_rid a,
               rp_ip_address = ip_address, rp_loi_seconds = at_loi_seconds a, rp_reason = oc_reason oc\<rparr>)
            (provider_outcome (cs_unescape (ws_callbacks ws)) d a))"

text \<open>The page of a BioBrain link back to the recorded result.\<close>

definition first_ip :: "string option list \<Rightarrow> string option" where
  "first_ip ips = first_some (filter (\<lambda>ip. ip \<noteq> Some []) ips)"

definition biobrain_result :: "survey_attempt \<Rightarrow> string \<Rightarrow> string option \<Rightarrow> py_error + view_response" where
  "biobrain_result a status_code ip_address =
     (if \<not> is_terminal a \<or> status_value a \<noteq> status_code then Inr (Error_Page 409)
      else (case map_of STATUS_PAGES (status_value a) of
              None \<Rightarrow> Inl (KeyError ''status'')
            | Some page \<Rightarrow>
                map_sum id (\<lambda>(title, label). Result_Page
                    \<lparr>rp_title = title, rp_status_label = label, rp_identifier = at_pid a,
                     rp_ip_address = first_ip [ip_address, at_callback_ip a, at_initiation_ip a],
                     rp_loi_seconds = at_loi_seconds a, rp_reason = []\<rparr>)
                  (status_presentation a (sp_title page) (attempt_status_label (at_status a)))))"

section \<open>survey_status\<close>

definition provider_code_or_innovate :: "client_integration option \<Rightarrow> string" where
  "provider_code_or_innovate integration =
     (case integration of Some ci \<Rightarrow> ci_provider_code ci | None \<Rightarrow> ''innovatemr'')"

definition trusted_recorded_source :: "string \<Rightarrow> survey_attempt \<Rightarrow> notification_summary option \<Rightarrow> bool" where
  "trusted_recorded_source provider_code a notification =
     (at_status_source a \<in> {''local_country_guard'', ''local_duplicate_ip_guard'', ''toluna_invite_rejection''}
      \<or> (provider_code = ''toluna'' \<and> at_status_source a = ''toluna_callback'' \<and> at_is_verified a)
      \<or> (provider_code = ''toluna'' \<and> notification \<noteq> None))"

definition canonical_query ::
  "http_request \<Rightarrow> string \<Rightarrow> survey_attempt \<Rightarrow> string \<Rightarrow> notification_summary option \<Rightarrow> bool" where
  "canonical_query r status_code a provider_code notification =
     (has_exact_query r [''status'', ''rid''] \<and> param_text r ''rid'' = at_rid a
      \<and> trusted_recorded_source provider_code a notification \<and> status_value a = status_code)"

definition biobrain_canonical_query :: "http_request \<Rightarrow> survey_attempt \<Rightarrow> string \<Rightarrow> bool" where
  "biobrain_canonical_query r a provider_code =
     (provider_code \<in> {''biobrain'', ''voqall''} \<and> has_exact_query r [''status'', ''pid'']
      \<and> param_text r ''pid'' = at_pid a)"

text \<open>After the transaction: the supplier's URL for an applied callback, the platform's own result
  link for Toluna and BioBrain, or the page.\<close>

definition after_recording ::
  "web_services \<Rightarrow> db \<Rightarrow> survey_attempt \<Rightarrow> bool \<Rightarrow> string \<Rightarrow> string \<Rightarrow> status_page \<Rightarrow> string option
   \<Rightarrow> py_error + view_response" where
  "after_recording ws d a applied provider_code status_code page ip_address =
     (case (if applied then external_supplier_result_url (ws_callbacks ws) d a status_code else Inr []) of
        Inl e \<Rightarrow> Inl e
      | Inr url \<Rightarrow>
          if url \<noteq> [] then Inr (Redirect_To url)
          else if provider_code \<in> {''toluna'', ''biobrain'', ''voqall''}
          then Inr (Redirect_To (recorded_status_url ws provider_code a (status_value a)))
          else show_result ws d a provider_code page ip_address)"

definition handle_status_callback ::
  "web_services \<Rightarrow> db \<Rightarrow> http_request \<Rightarrow> string \<Rightarrow> survey_attempt \<Rightarrow> client_integration option
   \<Rightarrow> notification_summary option \<Rightarrow> timestamp \<Rightarrow> db \<times> (py_error + view_response)" where
  "handle_status_callback ws d r status_code a integration notification now =
     (let provider_code = provider_code_or_innovate integration;
          canonical = canonical_query r status_code a provider_code notification;
          ip_address = request_ip ws r in
      if biobrain_canonical_query r a provider_code then (d, biobrain_result a status_code ip_address)
      else if status_code \<notin> set (map fst STATUS_PAGES) \<and> provider_code \<noteq> ''toluna''
      then (d, Inr (Error_Page 400))
      else (case (status_of_code status_code,
                  map_of (if provider_code = ''toluna'' then TOLUNA_STATUS_PAGES else STATUS_PAGES) status_code) of
              (Some status, Some page) \<Rightarrow>
                (case authenticate_callback ws d r integration provider_code canonical of
                   Inl e \<Rightarrow> (d, Inl e)
                 | Inr (Inl code) \<Rightarrow> (d, Inr (Error_Page code))
                 | Inr (Inr by') \<Rightarrow>
                     if canonical then (d, show_result ws d a provider_code page ip_address)
                     else (case record_callback ws r provider_code by' status page ip_address now (at_id a) d of
                             Inl e \<Rightarrow> (d, Inl e)
                           | Inr (Refused, d') \<Rightarrow> (d', Inr (Error_Page 409))
                           | Inr (Replayed b, d') \<Rightarrow>
                               (d', after_recording ws d' b False provider_code status_code page ip_address)
                           | Inr (Applied b, d') \<Rightarrow>
                               (d', after_recording ws d' b True provider_code status_code page ip_address)))
            | _ \<Rightarrow> (d, Inr (Error_Page 400))))"

definition survey_status ::
  "web_services \<Rightarrow> db \<Rightarrow> http_request \<Rightarrow> timestamp \<Rightarrow> db \<times> (py_error + view_response)" where
  "survey_status ws d r now =
     (if duplicate_security_parameters r then (d, Inr (Error_Page 409))
      else (let status_code = param_text r ''status''; identifiers = status_identifiers_from_request r in
        if (map_of STATUS_PAGES status_code = None \<and> map_of TOLUNA_STATUS_PAGES status_code = None)
           \<or> identifiers = []
        then (d, Inr (Error_Page 400))
        else (case resolve_status_attempt d identifiers of
                None \<Rightarrow> (d, Inr (Error_Page 404))
              | Some a \<Rightarrow>
                  (case verified_toluna_notification_summary d a of
                     Inl e \<Rightarrow> (d, Inl e)
                   | Inr notification \<Rightarrow>
                       (case attempt_integration d a of
                          Inl e \<Rightarrow> (d, Inl e)
                        | Inr integration \<Rightarrow>
                            handle_status_callback ws d r status_code a integration notification now)))))"

section \<open>RFG\<close>

definition RFG_CALLBACK_IPS :: "string list" where
  "RFG_CALLBACK_IPS =
    [''15.222.163.99'', ''3.97.223.177'', ''3.97.28.227'', ''3.230.105.121'',
     ''52.21.20.32'', ''52.45.41.61'']"

definition rfg_attempt :: "db \<Rightarrow> string \<Rightarrow> (survey_attempt \<times> client_integration) option" where
  "rfg_attempt d rid =
     (case List.find (\<lambda>a. at_rid a = rid
             \<and> (case attempt_integration d a of Inr (Some ci) \<Rightarrow> ci_provider_code ci = ''rfg'' | _ \<Rightarrow> False))
           (attempts d) of
        None \<Rightarrow> None
      | Some a \<Rightarrow> (case attempt_integration d a of Inr (Some ci) \<Rightarrow> Some (a, ci) | _ \<Rightarrow> None))"

definition items_dict :: "http_request \<Rightarrow> jdict" where
  "items_dict r = map (\<lambda>(k, v). (k, JStr v)) (get_items r)"

text \<open>The respondent's return from RFG: it records the exit data, never a status.\<close>

definition rfg_return_row :: "http_request \<Rightarrow> timestamp \<Rightarrow> survey_attempt \<Rightarrow> py_error + survey_attempt" where
  "rfg_return_row r now a =
     map_sum id (\<lambda>upstream. (with_exit_data (get_request_client_data r) a)
         \<lparr>at_last_callback_at := Some now, at_upstream_transaction_data := upstream, at_updated_at := now\<rparr>)
       (spread_with (at_upstream_transaction_data a) [(''rfg_browser_return'', JObj (items_dict r))])"

definition rfg_shown_outcome :: "web_services \<Rightarrow> http_request \<Rightarrow> survey_attempt \<Rightarrow> py_error + rfg_outcome" where
  "rfg_shown_outcome ws r a =
     (case dict_or_empty (at_upstream_transaction_data a) of
        Inl e \<Rightarrow> Inl e
      | Inr stored \<Rightarrow>
          (let parameters = (if at_is_verified a then dict_get stored ''rfg_callback''
                             else json_or (dict_get stored ''rfg_local_outcome'') (JObj (items_dict r)))
           in map_sum id (\<lambda>p. describe_rfg_outcome (cs_unescape (ws_callbacks ws)) p (Some a))
                (dict_or_empty parameters)))"

definition rfg_result ::
  "web_services \<Rightarrow> db \<Rightarrow> http_request \<Rightarrow> timestamp \<Rightarrow> db \<times> (py_error + (nat + rfg_outcome))" where
  "rfg_result ws d r now =
     (case rfg_attempt d (status_rid_from_request r) of
        None \<Rightarrow> (d, Inr (Inl 404))
      | Some (a, _) \<Rightarrow>
          (case rfg_return_row r now a of
             Inl e \<Rightarrow> (d, Inl e)
           | Inr b \<Rightarrow> (save_attempt b d, map_sum id Inr (rfg_shown_outcome ws r b))))"

text \<open>The server callback, accepted from listed addresses only.  An address list that holds a list or
  a dict cannot be made a set.\<close>

definition address_listed :: "json \<Rightarrow> string \<Rightarrow> py_error + bool" where
  "address_listed listing address =
     (case items_of listing of
        Inl e \<Rightarrow> Inl e
      | Inr items \<Rightarrow>
          if list_ex (\<lambda>v. case v of JArr _ \<Rightarrow> True | JObj _ \<Rightarrow> True | _ \<Rightarrow> False) items
          then Inl (TypeError ''unhashable type'') else Inr (JStr address \<in> set items))"

definition rfg_source_trusted :: "web_services \<Rightarrow> http_request \<Rightarrow> jdict \<Rightarrow> py_error + bool" where
  "rfg_source_trusted ws r config =
     (let listing = json_or (dict_get config ''callback_ip_allowlist'') (JArr (map JStr RFG_CALLBACK_IPS)) in
      case request_ip ws r of
        None \<Rightarrow> map_sum id (\<lambda>_. False) (address_listed listing [])
      | Some ip \<Rightarrow>
          (case ws_ip_text ws ip of
             None \<Rightarrow> map_sum id (\<lambda>_. False) (address_listed listing [])
           | Some (canonical, _) \<Rightarrow> address_listed listing canonical))"

definition rfg_callback_row ::
  "web_services \<Rightarrow> http_request \<Rightarrow> attempt_status \<Rightarrow> timestamp \<Rightarrow> survey_attempt \<Rightarrow> py_error + survey_attempt" where
  "rfg_callback_row ws r status now a =
     map_sum id (\<lambda>upstream.
         a\<lparr>at_status := status,
           at_callback_at := (case at_callback_at a of Some t \<Rightarrow> Some t | None \<Rightarrow> Some now),
           at_last_callback_at := Some now, at_callback_ip := request_ip ws r,
           at_callback_count := at_callback_count a + 1, at_status_source := ''rfg_callback'',
           at_is_verified := True, at_loi_seconds := Some (calculate_loi_seconds a now),
           at_upstream_transaction_data := upstream, at_updated_at := now\<rparr>)
       (spread_with (at_upstream_transaction_data a)
         [(''rfg_callback'', JObj (items_dict r)),
          (''rfg_outcome'', JObj (rfg_outcome_fields
             (describe_rfg_outcome (cs_unescape (ws_callbacks ws)) (items_dict r) None)))])"

datatype api_response = Api_Error nat | Api_Ok string string

definition rfg_callback ::
  "web_services \<Rightarrow> db \<Rightarrow> http_request \<Rightarrow> timestamp \<Rightarrow> db \<times> (py_error + api_response)" where
  "rfg_callback ws d r now =
     (case (rfg_attempt d (status_rid_from_request r), map_of RFG_STATUS_MAP (param_text r ''result'')) of
        (Some (a, ci), Some status) \<Rightarrow>
          (case dict_or_empty (ci_config ci) of
             Inl e \<Rightarrow> (d, Inl e)
           | Inr config \<Rightarrow>
               if (case map_of config ''callback_security_mode'' of Some v \<Rightarrow> v | None \<Rightarrow> JStr ''ip'') \<noteq> JStr ''ip''
               then (d, Inr (Api_Error 503))
               else (case rfg_source_trusted ws r config of
                       Inl e \<Rightarrow> (d, Inl e)
                     | Inr False \<Rightarrow> (d, Inr (Api_Error 403))
                     | Inr True \<Rightarrow>
                         (case rfg_callback_row ws r status now a of
                            Inl e \<Rightarrow> (d, Inl e)
                          | Inr b \<Rightarrow> (snd (finalize_attempt_capacity (save_attempt b d) (at_id b) status now),
                                     Inr (Api_Ok (status_rid_from_request r) (attempt_status_value status))))))
      | _ \<Rightarrow> (d, Inr (Api_Error 400)))"

section \<open>Endings the platform decides\<close>

text \<open>The common part of the \<open>_finish_*\<close> functions: nothing unless the attempt is still initiated.
  \<open>answers\<close> is what the operational database keeps of the answers, if the function stores them.\<close>

definition local_ending ::
  "web_services \<Rightarrow> http_request \<Rightarrow> jdict \<Rightarrow> attempt_status \<Rightarrow> string \<Rightarrow> jdict \<Rightarrow> json option \<Rightarrow> timestamp
   \<Rightarrow> survey_attempt \<Rightarrow> py_error + survey_attempt" where
  "local_ending ws r client_data status source entries answers now a =
     map_sum id (\<lambda>upstream. (with_exit_data client_data a)
         \<lparr>at_answers := (case answers of Some v \<Rightarrow> v | None \<Rightarrow> at_answers a),
          at_submitted_at := Some now, at_callback_at := Some now, at_last_callback_at := Some now,
          at_callback_ip := (case request_ip ws r of Some ip \<Rightarrow> Some ip | None \<Rightarrow> at_initiation_ip a),
          at_status := status, at_status_source := source,
          at_loi_seconds := Some (calculate_loi_seconds a now),
          at_upstream_transaction_data := upstream, at_updated_at := now\<rparr>)
       (spread_with (at_upstream_transaction_data a) entries)"

definition finish_locally ::
  "web_services \<Rightarrow> http_request \<Rightarrow> jdict \<Rightarrow> attempt_status \<Rightarrow> string \<Rightarrow> jdict \<Rightarrow> json option \<Rightarrow> timestamp
   \<Rightarrow> pk \<Rightarrow> db \<Rightarrow> py_error + (survey_attempt \<times> db)" where
  "finish_locally ws r client_data status source entries answers now i d =
     (case of_option (DoesNotExist ''SurveyAttempt'') (get_attempt d i) of
        Inl e \<Rightarrow> Inl e
      | Inr a \<Rightarrow>
          if at_status a \<noteq> INITIATED then Inr (a, d)
          else map_sum id (\<lambda>b. (b, snd (finalize_attempt_capacity (save_attempt b d) i status now)))
                 (local_ending ws r client_data status source entries answers now a))"

definition operational_answer_value :: "bool \<Rightarrow> jdict \<Rightarrow> json" where
  "operational_answer_value vault_enabled answers = JObj (if vault_enabled then [] else answers)"

definition finish_local_rfg_attempt ::
  "web_services \<Rightarrow> bool \<Rightarrow> http_request \<Rightarrow> jdict \<Rightarrow> string \<Rightarrow> string \<Rightarrow> timestamp \<Rightarrow> pk \<Rightarrow> db
   \<Rightarrow> py_error + (survey_attempt \<times> db)" where
  "finish_local_rfg_attempt ws vault_enabled r answers result reason now i d =
     (case of_option (KeyError result) (map_of RFG_STATUS_MAP result) of
        Inl e \<Rightarrow> (case of_option (DoesNotExist ''SurveyAttempt'') (get_attempt d i) of
                    Inr a \<Rightarrow> if at_status a \<noteq> INITIATED then Inr (a, d) else Inl e
                  | Inl e' \<Rightarrow> Inl e')
      | Inr status \<Rightarrow>
          finish_locally ws r (get_request_client_data r) status ''local_prescreener''
            [(''rfg_local_outcome'', JObj [(''result'', JStr result), (''local_reason'', JStr reason)])]
            (Some (operational_answer_value vault_enabled answers)) now i d)"

record invite_rejection =
  ir_status :: attempt_status
  ir_result :: json
  ir_result_code :: json
  ir_text :: string

definition finish_toluna_invite_rejection ::
  "web_services \<Rightarrow> bool \<Rightarrow> http_request \<Rightarrow> jdict \<Rightarrow> invite_rejection \<Rightarrow> timestamp \<Rightarrow> pk \<Rightarrow> db
   \<Rightarrow> py_error + (survey_attempt \<times> db)" where
  "finish_toluna_invite_rejection ws vault_enabled r answers rejection now i d =
     finish_locally ws r (get_request_client_data r) (ir_status rejection) ''toluna_invite_rejection''
       [(''toluna_invite_rejection'', JObj [(''result'', ir_result rejection),
          (''result_code'', ir_result_code rejection), (''reason'', JStr (ir_text rejection))])]
       (Some (operational_answer_value vault_enabled answers)) now i d"

definition finish_duplicate_ip_attempt ::
  "web_services \<Rightarrow> http_request \<Rightarrow> survey_attempt option \<Rightarrow> timestamp \<Rightarrow> pk \<Rightarrow> db
   \<Rightarrow> py_error + (survey_attempt \<times> db)" where
  "finish_duplicate_ip_attempt ws r prior now i d =
     finish_locally ws r (get_request_client_data r) QUALITY_TERMINATED ''local_duplicate_ip_guard''
       [(''local_ip_guard'', JObj [(''status'', JStr ''Security terminated''),
          (''reason'', JStr ''Duplicate IP address''),
          (''first_attempt_rid'', JStr (case prior of Some p \<Rightarrow> at_rid p | None \<Rightarrow> []))])]
       None now i d"

definition clean_country_code :: "string \<Rightarrow> string" where
  "clean_country_code value =
     (let code = py_upper (py_strip value) in
      if length code = 2 \<and> list_all (\<lambda>c. is_upper_ascii c \<or> is_lower_ascii c) code then code else [])"

definition survey_target_country_code :: "survey \<Rightarrow> string" where
  "survey_target_country_code s =
     first_text [clean_country_code (sv_country_code s), clean_country_code (sv_country s)]"

definition is_wrong_target_country :: "bool \<Rightarrow> survey \<Rightarrow> jdict \<Rightarrow> bool" where
  "is_wrong_target_country enforced s location =
     (let expected = survey_target_country_code s;
          actual = clean_country_code (str_or (dict_get location ''country_code'') [])
      in enforced \<and> expected \<noteq> [] \<and> actual \<noteq> [] \<and> expected \<noteq> actual)"

definition geolocation_client_data :: "jdict \<Rightarrow> jdict" where
  "geolocation_client_data location =
     (let value = (\<lambda>key. case map_of location key of Some v \<Rightarrow> v | None \<Rightarrow> JStr []) in
      if location = [] then []
      else [(''geo_country_code'', value ''country_code''), (''geo_country'', value ''country''),
            (''geo_postal_code'', value ''postal_code''), (''geo_source'', value ''source'')])"

text \<open>\<open>_finish_wrong_target_country_attempt\<close>: the vault first, whose own errors are logged only.\<close>

definition capture_for_ending ::
  "(timestamp \<Rightarrow> date) \<Rightarrow> bool \<Rightarrow> db \<Rightarrow> vault \<Rightarrow> survey_attempt \<Rightarrow> survey \<Rightarrow> jdict \<Rightarrow> string list
   \<Rightarrow> (nat \<Rightarrow> nat option) \<Rightarrow> timestamp \<Rightarrow> db \<times> vault \<times> (py_error + unit)" where
  "capture_for_ending local_date enabled d v a s answers candidates faults now =
     (if \<not> enabled then (d, v, Inr ())
      else (case capture_prescreener_submission local_date enabled d v a s answers (Some now) False
                   candidates faults now of
              (d', v', Inr _) \<Rightarrow> (d', v', Inr ())
            | (d', v', Inl (PrescreenerVaultError _)) \<Rightarrow> (d', v', Inr ())
            | (d', v', Inl (PrescreenerVaultDisabled _)) \<Rightarrow> (d', v', Inr ())
            | (d', v', Inl e) \<Rightarrow> (d', v', Inl e)))"

definition country_ending ::
  "web_services \<Rightarrow> bool \<Rightarrow> http_request \<Rightarrow> survey \<Rightarrow> jdict \<Rightarrow> jdict \<Rightarrow> timestamp \<Rightarrow> pk \<Rightarrow> db
   \<Rightarrow> py_error + (survey_attempt \<times> db)" where
  "country_ending ws vault_enabled r s location answers now i d =
     finish_locally ws r (dict_merge (get_request_client_data r) (geolocation_client_data location))
       QUALITY_TERMINATED ''local_country_guard''
       [(''local_country_guard'', JObj [(''status'', JStr ''Wrong target country''),
          (''reason'', JStr ''Wrong target country''),
          (''expected_country'', JStr (survey_target_country_code s)),
          (''detected_country'', JStr (py_upper (str_or (dict_get location ''country_code'') []))),
          (''geo_source'', JStr (str_or (dict_get location ''source'') []))])]
       (Some (operational_answer_value vault_enabled answers)) now i d"

definition finish_wrong_target_country_attempt ::
  "web_services \<Rightarrow> (timestamp \<Rightarrow> date) \<Rightarrow> bool \<Rightarrow> http_request \<Rightarrow> survey_attempt \<Rightarrow> survey \<Rightarrow> jdict
   \<Rightarrow> string list \<Rightarrow> (nat \<Rightarrow> nat option) \<Rightarrow> timestamp \<Rightarrow> db \<Rightarrow> vault
   \<Rightarrow> db \<times> vault \<times> (py_error + survey_attempt)" where
  "finish_wrong_target_country_attempt ws local_date vault_enabled r a s location candidates faults now d v =
     (let answers = wrong_target_country_answers s location in
      case capture_for_ending local_date vault_enabled d v a s answers candidates faults now of
        (d1, v1, Inl e) \<Rightarrow> (d1, v1, Inl e)
      | (d1, v1, Inr _) \<Rightarrow>
          (case country_ending ws vault_enabled r s location answers now (at_id a) d1 of
             Inl e \<Rightarrow> (d1, v1, Inl e)
           | Inr (b, d2) \<Rightarrow> (d2, v1, Inr b)))"

section \<open>Releasing a prepared invitation\<close>

definition release_prepared_toluna_invite ::
  "pk \<Rightarrow> timestamp \<Rightarrow> db \<Rightarrow> py_error + (string option \<times> db)" where
  "release_prepared_toluna_invite i now d =
     (case of_option (DoesNotExist ''SurveyAttempt'') (get_attempt d i) of
        Inl e \<Rightarrow> Inl e
      | Inr a \<Rightarrow>
          if at_status a \<noteq> INITIATED \<or> at_submitted_at a = None \<or> at_outbound_url a = []
          then Inr (None, d)
          else Inr (Some (at_outbound_url a),
                 save_attempt (a\<lparr>at_redirected_at := Some now, at_status := REDIRECTED, at_updated_at := now\<rparr>) d))"

end
