(* ===== verification/Survey_Entry.thy ===== *)
theory Survey_Entry
  imports Status_Views Supplier_Callbacks Account_Access
begin

text \<open>
  Entering a survey (\<open>survey_start\<close> of \<open>surveys/views.py\<close>, the request without an RID): the
  checks of the entry link, the delivery token of an API supplier (\<open>vendors/security.py\<close>), and the
  transaction that resolves the supplier's allocation, claims the address, creates the attempt and
  reserves capacity.  It composes the supplier context, the attempt, the reservation and the local
  ending of their own theories.  Between the checks and the transaction the view may refresh the
  survey from its provider; the transaction takes the survey as it is then.  \<open>es_decode\<close> is Django's
  \<open>signing.loads\<close>.
\<close>

record entry_services =
  es_web :: web_services
  es_decode :: "string \<Rightarrow> py_error + json"
  es_supplier_code :: string
  es_unique_ip :: bool
  es_ttl_minutes :: int
  es_start_path :: string

section \<open>The entry link\<close>

definition decode_delivery_token :: "(string \<Rightarrow> py_error + json) \<Rightarrow> string \<Rightarrow> py_error + jdict" where
  "decode_delivery_token loads token =
     (case loads token of
        Inl e \<Rightarrow> Inl e
      | Inr value \<Rightarrow> of_option (ValueError ''Invalid supplier delivery token.'') (as_dict value))"

definition required_int :: "jdict \<Rightarrow> string \<Rightarrow> py_error + int" where
  "required_int kvs key =
     (case map_of kvs key of None \<Rightarrow> Inl (KeyError key) | Some v \<Rightarrow> int_of_json v)"

definition row_by_int :: "('r \<Rightarrow> pk) \<Rightarrow> int \<Rightarrow> 'r list \<Rightarrow> 'r option" where
  "row_by_int key i rows = (if i < 0 then None else row_by_pk key (nat i) rows)"

text \<open>The key and the survey a delivery token binds.  Every error raised here is one the view turns
  into the invalid-link page.\<close>

definition delivery_of_token ::
  "entry_services \<Rightarrow> db \<Rightarrow> string \<Rightarrow> py_error + (vendor_api_key \<times> int)" where
  "delivery_of_token es d token =
     (case decode_delivery_token (es_decode es) token of
        Inl e \<Rightarrow> Inl e
      | Inr delivery \<Rightarrow>
     (case required_int delivery ''api_key_id'' of
        Inl e \<Rightarrow> Inl e
      | Inr i \<Rightarrow>
     (case row_by_int vak_id i (api_keys d) of
        None \<Rightarrow> Inl (DoesNotExist ''VendorAPIKey'')
      | Some k \<Rightarrow> map_sum id (\<lambda>survey. (k, survey)) (required_int delivery ''survey_id''))))"

definition key_usable :: "vendor_api_key \<Rightarrow> string \<Rightarrow> timestamp \<Rightarrow> bool" where
  "key_usable k user_id now =
     (vak_is_active k \<and> vak_revoked_at k = None
      \<and> (case vak_expires_at k of None \<Rightarrow> True | Some t \<Rightarrow> now < t)
      \<and> show_nat (vak_vendor k) = user_id)"

text \<open>\<open>str(survey.source_identifier)\<close>\<close>

definition source_identifier :: "survey \<Rightarrow> string" where
  "source_identifier s =
     (case sv_source_id s of
        Some i \<Rightarrow> if sv_source_key s \<in> {[], show_nat i} then show_nat i
                  else sv_source_key s
      | None \<Rightarrow> if sv_source_key s \<noteq> [] then sv_source_key s else ''None'')"

definition expected_survey_id :: "vendor_api_key option \<Rightarrow> survey \<Rightarrow> string" where
  "expected_survey_id key s =
     (case key of
        Some k \<Rightarrow> if vak_survey_id_mode k = PROJECT_ID then sv_local_id s else source_identifier s
      | None \<Rightarrow> source_identifier s)"

definition has_digits :: "string \<Rightarrow> bool" where
  "has_digits s = (s \<noteq> [] \<and> list_all is_digit_ascii s)"

text \<open>The text of the parameters: their number, their form and the accounts behind them.\<close>

definition link_parameters_ok :: "http_request \<Rightarrow> bool" where
  "link_parameters_ok r =
     (has_exact_query r ([''surveyId'', ''supplierCode'', ''userId'', ''code'']
        @ (if get_param r ''delivery'' \<noteq> None then [''delivery''] else []))
      \<and> param_text r ''surveyId'' \<noteq> [] \<and> length (param_text r ''surveyId'') \<le> 160
      \<and> has_digits (param_text r ''userId'') \<and> has_digits (param_text r ''code'')
      \<and> length (param_text r ''code'') = 14)"

definition entry_user :: "db \<Rightarrow> string \<Rightarrow> user option" where
  "entry_user d user_id =
     (case get_user d (digits_value user_id) of
        Some u \<Rightarrow> if usr_is_active u \<and> has_function_access d (Some u) ''projects.view''
                     \<and> has_function_access d (Some u) ''survey_links.copy'' then Some u else None
      | None \<Rightarrow> None)"

text \<open>The survey the link names, among those its user -- and the API key -- may enter.\<close>

definition entry_survey ::
  "db \<Rightarrow> user \<Rightarrow> (vendor_api_key \<times> int) option \<Rightarrow> string \<Rightarrow> timestamp \<Rightarrow> survey option" where
  "entry_survey d u delivery code now =
     List.find (\<lambda>s. sv_local_id s = code \<and> sv_status s = LIVE
        \<and> (case delivery of Some (_, i) \<Rightarrow> i = 0 \<or> i = int (sv_id s) | None \<Rightarrow> True))
       (scope_surveys_for_api_key d (scope_surveys_for_user d (surveys d) u True now)
         (map_option fst delivery) now)"

definition dynamic_provider :: "string list \<Rightarrow> db \<Rightarrow> survey \<Rightarrow> bool" where
  "dynamic_provider installed d s =
     (case Option.bind (sv_integration s) (get_integration d) of
        Some ci \<Rightarrow> ci_provider_code ci \<in> set installed | None \<Rightarrow> False)"

text \<open>Everything the view checks before it looks at the survey's freshness; \<^term>\<open>None\<close> is the
  invalid-link page.\<close>

definition checked_entry ::
  "entry_services \<Rightarrow> string list \<Rightarrow> db \<Rightarrow> http_request \<Rightarrow> timestamp
   \<Rightarrow> (user \<times> survey \<times> vendor_api_key option) option" where
  "checked_entry es installed d r now =
     (if \<not> link_parameters_ok r then None
      else (let user_id = param_text r ''userId'';
                delivery = (if get_param r ''delivery'' = None then Inr None
                            else map_sum id Some (delivery_of_token es d (param_text r ''delivery'')))
            in case delivery of
                 Inl _ \<Rightarrow> None
               | Inr bound \<Rightarrow>
                   if (case bound of Some (k, _) \<Rightarrow> \<not> key_usable k user_id now | None \<Rightarrow> False) then None
                   else (case entry_user d user_id of
                           None \<Rightarrow> None
                         | Some u \<Rightarrow>
                        (case entry_survey d u bound (param_text r ''code'') now of
                           None \<Rightarrow> None
                         | Some s \<Rightarrow>
                             if param_text r ''surveyId'' = expected_survey_id (map_option fst bound) s
                                \<and> (sv_entry_link s \<noteq> [] \<or> dynamic_provider installed d s)
                                \<and> param_text r ''supplierCode'' = es_supplier_code es
                             then Some (u, s, map_option fst bound) else None))))"

section \<open>The entry transaction\<close>

text \<open>What the supplier asked to be told about later is frozen on the attempt.\<close>

definition delivery_config :: "vendor_api_key \<Rightarrow> survey \<Rightarrow> json" where
  "delivery_config k s =
     JObj [(''survey_id_mode'', JStr (survey_id_mode_value (vak_survey_id_mode k))),
           (''survey_id'', JStr (expected_survey_id (Some k) s)),
           (''project_id'', JStr (sv_local_id s)),
           (''supplier_id'', JInt (int (vak_vendor k)))]"

definition with_delivery :: "vendor_api_key option \<Rightarrow> survey \<Rightarrow> pk \<Rightarrow> db \<Rightarrow> db" where
  "with_delivery key s i d =
     (case key of
        None \<Rightarrow> d
      | Some k \<Rightarrow> update_attempts (\<lambda>a. at_id a = i)
          (\<lambda>a. a\<lparr>at_supplier_api_key_id := Some (vak_id k), at_supplier_delivery_config := delivery_config k s\<rparr>) d)"

text \<open>One transaction: an error leaves the database as it was.\<close>

definition entry_transaction ::
  "entry_services \<Rightarrow> http_request \<Rightarrow> user \<Rightarrow> survey \<Rightarrow> vendor_api_key option \<Rightarrow> jdict \<Rightarrow> drawn_ids list
   \<Rightarrow> timestamp \<Rightarrow> db \<Rightarrow> py_error + (survey_attempt \<times> (survey_attempt option \<times> bool) \<times> db)" where
  "entry_transaction es r u s key location draws now d =
     (case resolve_vendor_survey_context d u s True now of
        Inl e \<Rightarrow> Inl e
      | Inr ctx \<Rightarrow>
          (let ip = request_ip (es_web es) r;
               client_data = dict_merge (get_request_client_data r) (geolocation_client_data location) in
           case create_attempt (cs_ip_literal (ws_callbacks (es_web es))) draws d s u ip client_data now of
             Inl e \<Rightarrow> Inl e
           | Inr (a, d1) \<Rightarrow>
               map_sum id (\<lambda>d2. (a, claim_project_entry_ip (es_unique_ip es) d s ip,
                                 with_delivery key s (at_id a) d2))
                 (case ctx of
                    None \<Rightarrow> Inr d1
                  | Some c \<Rightarrow>
                      map_sum id snd (reserve_attempt_capacity d1 (at_id a)
                        (map_option vsa_id (ctx_survey_allocation c))
                        (Some (vca_id (ctx_client_allocation c))) None (es_ttl_minutes es) now))))"

text \<open>\<open>quote(rid)\<close> of an RID is the RID.\<close>

definition start_url :: "entry_services \<Rightarrow> survey_attempt \<Rightarrow> string" where
  "start_url es a = es_start_path es @ ''?rid='' @ concat (map quote_char (at_rid a))"

definition enter_survey ::
  "entry_services \<Rightarrow> http_request \<Rightarrow> user \<Rightarrow> survey \<Rightarrow> vendor_api_key option \<Rightarrow> jdict \<Rightarrow> drawn_ids list
   \<Rightarrow> timestamp \<Rightarrow> db \<Rightarrow> db \<times> (py_error + view_response)" where
  "enter_survey es r u s key location draws now d =
     (case entry_transaction es r u s key location draws now d of
        Inl (AllocationUnavailable _) \<Rightarrow> (d, Inr (Error_Page 409))
      | Inl e \<Rightarrow> (d, Inl e)
      | Inr (a, (prior, duplicate), d') \<Rightarrow>
          if \<not> duplicate then (d', Inr (Redirect_To (start_url es a)))
          else (case finish_duplicate_ip_attempt (es_web es) r prior now (at_id a) d' of
                  Inl e \<Rightarrow> (d', Inl e)
                | Inr (b, d'') \<Rightarrow>
                    (d'', (case attempt_integration d'' b of
                             Inl e \<Rightarrow> Inl e
                           | Inr integration \<Rightarrow>
                               Inr (Redirect_To (recorded_status_url (es_web es)
                                      (provider_code_or_innovate integration) b ''4''))))))"

end
