(* ===== verification/Prescreener_Submission.thy ===== *)
theory Prescreener_Submission
  imports Prescreener_Answers Reuse_Assignment Survey_Entry
begin

text \<open>
  The second half of entering a survey (\<open>survey_start\<close> of \<open>surveys/views.py\<close>, the requests with an
  RID): the country guard, the release of a prepared invitation, and the submission of the
  prescreener with its provider checks, the reuse of a profile, the capture of the answers and the
  transaction that sends the respondent out.  The adapter of a provider is a parameter
  (\<open>provider_port\<close>): what it answers to the checks and the URL it builds; the rows it keeps for
  itself are not modelled.  One request reads the clock once here, apart from the readings of the
  reuse; the object of the attempt that was read first is kept while the rows change, as in the view.
\<close>

section \<open>Parameters\<close>

record provider_outbound =
  po_url :: string
  po_source_cpi :: "decimal option"
  po_payable_cpi :: "decimal option"
  po_cpi_source :: string
  po_transaction_data :: json

datatype provider_failure = Invite_Rejected invite_rejection | Raised py_error

record provider_port =
  pp_installed :: "string list"
  pp_get :: "db \<Rightarrow> survey \<Rightarrow> py_error + unit"
  pp_validate :: "db \<Rightarrow> survey \<Rightarrow> jdict \<Rightarrow> py_error + (bool \<times> string)"
  pp_duplicate :: "db \<Rightarrow> survey \<Rightarrow> survey_attempt \<Rightarrow> string option \<Rightarrow> string option \<Rightarrow> py_error + bool"
  pp_outbound :: "db \<Rightarrow> survey \<Rightarrow> survey_attempt \<Rightarrow> jdict \<Rightarrow> provider_failure + provider_outbound"

record submission_services =
  ss_web :: web_services
  ss_unescape :: "string \<Rightarrow> string"
  ss_local_date :: "timestamp \<Rightarrow> date"
  ss_local_midnight :: "date \<Rightarrow> timestamp"
  ss_today :: date
  ss_vault_enabled :: bool
  ss_reuse_enabled :: bool
  ss_country_guard :: bool
  ss_clock :: "nat \<Rightarrow> timestamp"
  ss_locked :: "nat \<Rightarrow> string \<Rightarrow> bool"
  ss_candidates :: "string list"
  ss_faults :: "nat \<Rightarrow> nat option"
  ss_port :: provider_port
  ss_location :: "http_request \<Rightarrow> jdict"
  ss_start_path :: string
  ss_rfg_path :: string

text \<open>What the respondent gets: the provider's URL, a page of the platform, or the form.\<close>

datatype submission_response =
    Sent_Out string
  | Moved_To string
  | Link_Error nat
  | Already_Initiated
  | Form_Shown "string list"

section \<open>Sending the respondent out\<close>

definition sent_out_row :: "jdict \<Rightarrow> bool \<Rightarrow> provider_outbound \<Rightarrow> timestamp \<Rightarrow> survey_attempt \<Rightarrow> survey_attempt" where
  "sent_out_row answers vault_enabled out now a =
     a\<lparr>at_answers := operational_answer_value vault_enabled answers, at_submitted_at := Some now,
       at_outbound_url := po_url out, at_redirected_at := Some now, at_status := REDIRECTED,
       at_source_cpi_snapshot := po_source_cpi out, at_payable_cpi_snapshot := po_payable_cpi out,
       at_cpi_snapshot_source := po_cpi_source out,
       at_upstream_transaction_data := po_transaction_data out, at_updated_at := now\<rparr>"

text \<open>A URL the platform builds itself leaves the commercial columns as they are.\<close>

definition plain_outbound :: "survey_attempt \<Rightarrow> string \<Rightarrow> provider_outbound" where
  "plain_outbound a url =
     \<lparr>po_url = url, po_source_cpi = at_source_cpi_snapshot a, po_payable_cpi = at_payable_cpi_snapshot a,
      po_cpi_source = at_cpi_snapshot_source a, po_transaction_data = at_upstream_transaction_data a\<rparr>"

definition outbound_of ::
  "submission_services \<Rightarrow> string \<Rightarrow> db \<Rightarrow> survey \<Rightarrow> survey_attempt \<Rightarrow> jdict
   \<Rightarrow> provider_failure + provider_outbound" where
  "outbound_of ss provider d s a answers =
     (let ip_literal = cs_ip_literal (ws_callbacks (ss_web ss)) in
      if provider \<in> set (pp_installed (ss_port ss)) then pp_outbound (ss_port ss) d s a answers
      else map_sum Raised (plain_outbound a)
             (if provider \<in> {''biobrain'', ''voqall''}
              then build_biobrain_outbound_url ip_literal (sv_entry_link s) (at_pid a)
              else build_outbound_url ip_literal (sv_entry_link s) (at_rid a) answers))"

text \<open>The transaction under the lock of the attempt's row; an error leaves the rows as they were.\<close>

definition redirect_transaction ::
  "submission_services \<Rightarrow> string \<Rightarrow> jdict \<Rightarrow> timestamp \<Rightarrow> pk \<Rightarrow> db
   \<Rightarrow> provider_failure + (submission_response \<times> db)" where
  "redirect_transaction ss provider answers now i d =
     (case get_attempt d i of
        None \<Rightarrow> Inl (Raised (DoesNotExist ''SurveyAttempt''))
      | Some a \<Rightarrow>
     (case get_survey d (at_survey a) of
        None \<Rightarrow> Inl (Raised (DoesNotExist ''Survey''))
      | Some s \<Rightarrow>
          if at_status a \<noteq> INITIATED
          then Inr (Moved_To (ss_start_path ss @ ''?rid='' @ concat (map quote_char (at_rid a))), d)
          else if provider = ''toluna'' \<and> at_submitted_at a \<noteq> None \<and> at_outbound_url a \<noteq> []
          then Inr (Sent_Out (at_outbound_url a),
                 save_attempt (a\<lparr>at_redirected_at := Some now, at_status := REDIRECTED, at_updated_at := now\<rparr>) d)
          else if provider = ''toluna'' \<and> sv_detail_synced_at s = None
          then Inl (Raised (ProviderError ''Toluna targeting changed while this page was open. Please review the updated questions and submit again.''))
          else map_sum id
                 (\<lambda>out. (Sent_Out (po_url out), save_attempt (sent_out_row answers (ss_vault_enabled ss) out now a) d))
                 (outbound_of ss provider d s a answers)))"

section \<open>The submission\<close>

definition failure_text :: "py_error \<Rightarrow> string" where
  "failure_text e =
     ''Survey provider could not continue: ''
     @ (case e of
          PrescreenerVaultError _ \<Rightarrow> ''Secure prescreener storage is temporarily unavailable. Please submit again shortly.''
        | PrescreenerVaultDisabled _ \<Rightarrow> ''Secure prescreener storage is temporarily unavailable. Please submit again shortly.''
        | ProviderError message \<Rightarrow> message
        | _ \<Rightarrow> ''The upstream provider is temporarily unavailable.'')"

text \<open>After an error the form is shown again, unless the attempt was already used when it was read.\<close>

definition form_again :: "survey_attempt \<Rightarrow> string list \<Rightarrow> submission_response" where
  "form_again a errors = (if at_status a \<noteq> INITIATED then Already_Initiated else Form_Shown errors)"

definition rfg_result_url :: "submission_services \<Rightarrow> string \<Rightarrow> string \<Rightarrow> string" where
  "rfg_result_url ss rid result = ss_rfg_path ss @ ''?'' @ urlencode [(''rid'', rid), (''result'', result)]"

text \<open>A local ending of RFG or UniMarket and the redirect to its result page.\<close>

definition end_locally ::
  "submission_services \<Rightarrow> http_request \<Rightarrow> jdict \<Rightarrow> string \<Rightarrow> string \<Rightarrow> timestamp \<Rightarrow> survey_attempt \<Rightarrow> db
   \<Rightarrow> py_error + (submission_response \<times> db)" where
  "end_locally ss r answers result reason now a d =
     map_sum id (\<lambda>(_, d'). (Moved_To (rfg_result_url ss (at_rid a) result), d'))
       (finish_local_rfg_attempt (ss_web ss) (ss_vault_enabled ss) r answers result reason now (at_id a) d)"

definition capture_answers ::
  "submission_services \<Rightarrow> db \<Rightarrow> vault \<Rightarrow> survey_attempt \<Rightarrow> survey \<Rightarrow> jdict \<Rightarrow> bool \<Rightarrow> timestamp
   \<Rightarrow> db \<times> vault \<times> (py_error + unit)" where
  "capture_answers ss d v a s answers allow_draft_replace now =
     (if \<not> ss_vault_enabled ss then (d, v, Inr ())
      else (case answers_with_entry_postal_code (ss_local_date ss) d a s answers now of
              Inl e \<Rightarrow> (d, v, Inl e)
            | Inr full \<Rightarrow>
                (case capture_prescreener_submission (ss_local_date ss) True d v a s full None allow_draft_replace
                        (ss_candidates ss) (ss_faults ss) now of
                   (d', v', res) \<Rightarrow> (d', v', map_sum id (\<lambda>_. ()) res))))"

text \<open>The profile is reused or the answers are captured; the event says which.\<close>

definition assign_or_capture ::
  "submission_services \<Rightarrow> db \<Rightarrow> vault \<Rightarrow> survey_attempt \<Rightarrow> survey \<Rightarrow> jdict \<Rightarrow> timestamp
   \<Rightarrow> db \<times> vault \<times> (py_error + profile_reuse_event option)" where
  "assign_or_capture ss d v a s answers now =
     (case maybe_assign_reusable_profile (ss_local_date ss) (ss_local_midnight ss) (ss_reuse_enabled ss)
             (ss_clock ss) (ss_locked ss) d v a s answers of
        (d1, v1, Inl e) \<Rightarrow> (d1, v1, Inl e)
      | (d1, v1, Inr (Some event)) \<Rightarrow> (d1, v1, Inr (Some event))
      | (d1, v1, Inr None) \<Rightarrow>
          (case capture_answers ss d1 v1 a s answers
                  (at_status a = INITIATED \<and> at_redirected_at a = None \<and> at_outbound_url a = []) now of
             (d2, v2, res) \<Rightarrow> (d2, v2, map_sum id (\<lambda>_. None) res)))"

text \<open>A check of the provider under which the attempt ends here: the reason, or none.\<close>

definition duplicate_reason ::
  "submission_services \<Rightarrow> string \<Rightarrow> db \<Rightarrow> survey \<Rightarrow> survey_attempt \<Rightarrow> http_request \<Rightarrow> form_data
   \<Rightarrow> py_error + string option" where
  "duplicate_reason ss provider d s a r form =
     (let ip = (case request_ip (ss_web ss) r of Some ip \<Rightarrow> Some ip | None \<Rightarrow> at_initiation_ip a);
          fingerprint = (case form_values form ''rfg_fingerprint'' of [] \<Rightarrow> ''0'' | vs \<Rightarrow> last vs) in
      if provider = ''rfg''
      then map_sum id (\<lambda>seen. if seen then Some ''This respondent has already attempted this survey or survey group.'' else None)
             (pp_duplicate (ss_port ss) d s a ip (Some fingerprint))
      else if provider = ''unimarket''
      then map_sum id (\<lambda>seen. if seen then Some ''This respondent has already attempted a survey in the same UniMarket group.'' else None)
             (pp_duplicate (ss_port ss) d s a ip None)
      else Inr None)"

text \<open>What follows the answers that were accepted; \<open>Raised\<close> shows the form again, a rejected
  invitation ends the attempt.\<close>

definition send_out ::
  "submission_services \<Rightarrow> string \<Rightarrow> http_request \<Rightarrow> form_data \<Rightarrow> jdict \<Rightarrow> timestamp \<Rightarrow> survey_attempt \<Rightarrow> survey
   \<Rightarrow> db \<Rightarrow> vault \<Rightarrow> db \<times> vault \<times> (provider_failure + submission_response)" where
  "send_out ss provider r form answers now a s d v =
     (case assign_or_capture ss d v a s answers now of
        (d1, v1, Inl e) \<Rightarrow> (d1, v1, Inl (Raised e))
      | (d1, v1, Inr _) \<Rightarrow>
     (case duplicate_reason ss provider d1 s a r form of
        Inl e \<Rightarrow> (d1, v1, Inl (Raised e))
      | Inr (Some reason) \<Rightarrow>
          (case end_locally ss r answers ''8'' reason now a d1 of
             Inl e \<Rightarrow> (d1, v1, Inl (Raised e)) | Inr (response, d2) \<Rightarrow> (d2, v1, Inr response))
      | Inr None \<Rightarrow>
          (case redirect_transaction ss provider answers now (at_id a) d1 of
             Inl e \<Rightarrow> (d1, v1, Inl e) | Inr (response, d2) \<Rightarrow> (d2, v1, Inr response))))"

definition validated_submission ::
  "submission_services \<Rightarrow> string \<Rightarrow> http_request \<Rightarrow> form_data \<Rightarrow> jdict \<Rightarrow> timestamp \<Rightarrow> survey_attempt \<Rightarrow> survey
   \<Rightarrow> db \<Rightarrow> vault \<Rightarrow> db \<times> vault \<times> (provider_failure + submission_response)" where
  "validated_submission ss provider r form answers now a s d v =
     (case (if provider \<in> set (pp_installed (ss_port ss)) then pp_get (ss_port ss) d s else Inr ()) of
        Inl e \<Rightarrow> (d, v, Inl (Raised e))
      | Inr _ \<Rightarrow>
     (case (if provider = ''rfg'' then pp_validate (ss_port ss) d s answers else Inr (True, [])) of
        Inl e \<Rightarrow> (d, v, Inl (Raised e))
      | Inr (eligible, reason) \<Rightarrow>
          if eligible then send_out ss provider r form answers now a s d v
          else (case capture_answers ss d v a s answers True now of
                  (d1, v1, Inl e) \<Rightarrow> (d1, v1, Inl (Raised e))
                | (d1, v1, Inr _) \<Rightarrow>
                    (case end_locally ss r answers ''7'' reason now a d1 of
                       Inl e \<Rightarrow> (d1, v1, Inl (Raised e)) | Inr (response, d2) \<Rightarrow> (d2, v1, Inr response)))))"

text \<open>BioBrain's attempts have their UID before anything else is tried.\<close>

definition with_prescreener_uid ::
  "submission_services \<Rightarrow> string \<Rightarrow> survey_attempt \<Rightarrow> db \<Rightarrow> py_error + (survey_attempt \<times> db)" where
  "with_prescreener_uid ss provider a d =
     (if provider \<noteq> ''biobrain'' then Inr (a, d)
      else map_sum id (\<lambda>(uid, d'). (a\<lparr>at_prescreener_uid := Some uid\<rparr>, d'))
             (ensure_attempt_prescreener_uid d a (ss_candidates ss)))"

definition submit_answers ::
  "submission_services \<Rightarrow> string \<Rightarrow> http_request \<Rightarrow> form_data \<Rightarrow> jdict \<Rightarrow> timestamp \<Rightarrow> survey_attempt \<Rightarrow> survey
   \<Rightarrow> db \<Rightarrow> vault \<Rightarrow> db \<times> vault \<times> (py_error + submission_response)" where
  "submit_answers ss provider r form answers now a s d v =
     (case with_prescreener_uid ss provider a d of
        Inl e \<Rightarrow> (d, v, Inr (form_again a [failure_text e]))
      | Inr (a', d0) \<Rightarrow>
     (case validated_submission ss provider r form answers now a' s d0 v of
        (d1, v1, Inr response) \<Rightarrow> (d1, v1, Inr response)
      | (d1, v1, Inl (Raised e)) \<Rightarrow> (d1, v1, Inr (form_again a' [failure_text e]))
      | (d1, v1, Inl (Invite_Rejected rejection)) \<Rightarrow>
          (case finish_toluna_invite_rejection (ss_web ss) (ss_vault_enabled ss) r answers rejection now (at_id a') d1 of
             Inl e \<Rightarrow> (d1, v1, Inl e)
           | Inr (_, d2) \<Rightarrow>
               (d2, v1, Inr (Moved_To (recorded_status_url (ss_web ss) ''toluna'' a' (attempt_status_value (ir_status rejection))))))))"

text \<open>The request with an RID: from the link, or the form.\<close>

definition journey_attempt :: "db \<Rightarrow> string \<Rightarrow> nat + (survey_attempt \<times> survey)" where
  "journey_attempt d rid =
     (if length rid \<noteq> 10 \<or> \<not> py_isalnum rid then Inl 400
      else (case List.find (\<lambda>a. at_rid a = rid) (attempts d) of
              None \<Rightarrow> Inl 404
            | Some a \<Rightarrow>
                (case (Option.bind (at_platform_user a) (get_user d), get_survey d (at_survey a)) of
                   (Some u, Some s) \<Rightarrow> if usr_is_active u then Inr (a, s) else Inl 404
                 | _ \<Rightarrow> Inl 404)))"

definition stored_location :: "survey_attempt \<Rightarrow> py_error + jdict" where
  "stored_location a =
     map_sum id
       (\<lambda>data. let value = (\<lambda>key. case map_of data key of Some v \<Rightarrow> v | None \<Rightarrow> JStr []) in
          [(''ip'', JStr (case at_initiation_ip a of Some ip \<Rightarrow> ip | None \<Rightarrow> [])), (''country_code'', value ''geo_country_code''),
           (''country'', value ''geo_country''), (''postal_code'', value ''geo_postal_code''), (''source'', value ''geo_source'')])
       (dict_or_empty (at_entry_client_data a))"

text \<open>The location of the entry, resolved and stored when a link is opened without one.\<close>

definition entry_location ::
  "submission_services \<Rightarrow> bool \<Rightarrow> http_request \<Rightarrow> survey_attempt \<Rightarrow> db
   \<Rightarrow> py_error + (jdict \<times> survey_attempt \<times> db)" where
  "entry_location ss posted r a d =
     (case (stored_location a, dict_or_empty (at_entry_client_data a)) of
        (Inr stored, Inr client_data) \<Rightarrow>
          if truthy (dict_get stored ''country_code'') \<or> posted then Inr (stored, a, d)
          else (let location = ss_location ss r;
                    merged = JObj (dict_merge client_data (geolocation_client_data location)) in
                if geolocation_client_data location = [] then Inr (location, a, d)
                else Inr (location, a\<lparr>at_entry_client_data := merged\<rparr>,
                       update_attempts (\<lambda>b. at_id b = at_id a) (\<lambda>b. b\<lparr>at_entry_client_data := merged\<rparr>) d))
      | (Inl e, _) \<Rightarrow> Inl e
      | (_, Inl e) \<Rightarrow> Inl e)"

text \<open>What becomes of a request: the guard, a prepared invitation, then the form.  \<open>refreshed\<close> is the
  message of a Toluna refresh before the answers are read.\<close>

definition answer_form ::
  "submission_services \<Rightarrow> string \<Rightarrow> bool \<Rightarrow> http_request \<Rightarrow> form_data \<Rightarrow> string option \<Rightarrow> timestamp
   \<Rightarrow> survey_attempt \<Rightarrow> survey \<Rightarrow> db \<Rightarrow> vault \<Rightarrow> db \<times> vault \<times> (py_error + submission_response)" where
  "answer_form ss provider posted r form refreshed now a s d v =
     (if \<not> posted then (d, v, Inr (form_again a []))
      else (case refreshed of
              Some message \<Rightarrow> (d, v, Inr (form_again a [message]))
            | None \<Rightarrow>
                (case collect_prescreener_answers (ss_unescape ss) (ss_today ss) form d s of
                   Inl e \<Rightarrow> (d, v, Inl e)
                 | Inr (answers, errors) \<Rightarrow>
                     if errors \<noteq> [] then (d, v, Inr (form_again a errors))
                     else submit_answers ss provider r form answers now a s d v)))"

definition provider_or_blank :: "db \<Rightarrow> survey \<Rightarrow> py_error + string" where
  "provider_or_blank d s =
     (case sv_integration s of
        None \<Rightarrow> Inr []
      | Some i \<Rightarrow> map_sum id ci_provider_code (of_option (DoesNotExist ''ClientIntegration'') (get_integration d i)))"

definition released_invite ::
  "string \<Rightarrow> survey_attempt \<Rightarrow> timestamp \<Rightarrow> db \<Rightarrow> py_error + (string option \<times> db)" where
  "released_invite provider a now d =
     (if provider = ''toluna'' \<and> at_status a = INITIATED \<and> at_submitted_at a \<noteq> None \<and> at_outbound_url a \<noteq> []
      then release_prepared_toluna_invite (at_id a) now d else Inr (None, d))"

definition guarded_journey ::
  "submission_services \<Rightarrow> bool \<Rightarrow> http_request \<Rightarrow> form_data \<Rightarrow> string option \<Rightarrow> timestamp \<Rightarrow> survey_attempt \<Rightarrow> survey
   \<Rightarrow> db \<Rightarrow> vault \<Rightarrow> db \<times> vault \<times> (py_error + submission_response)" where
  "guarded_journey ss posted r form refreshed now a s d v =
     (case entry_location ss posted r a d of
        Inl e \<Rightarrow> (d, v, Inl e)
      | Inr (location, a1, d1) \<Rightarrow>
     (case provider_or_blank d1 s of
        Inl e \<Rightarrow> (d1, v, Inl e)
      | Inr provider \<Rightarrow>
          if at_status a1 = INITIATED \<and> is_wrong_target_country (ss_country_guard ss) s location
          then (case finish_wrong_target_country_attempt (ss_web ss) (ss_local_date ss) (ss_vault_enabled ss) r a1 s
                       location (ss_candidates ss) (ss_faults ss) now d1 v of
                  (d2, v2, Inl e) \<Rightarrow> (d2, v2, Inl e)
                | (d2, v2, Inr b) \<Rightarrow>
                    (d2, v2, Inr (Moved_To (recorded_status_url (ss_web ss)
                       (if provider = [] then ''innovatemr'' else provider) b ''4''))))
          else (case released_invite provider a1 now d1 of
                  Inl e \<Rightarrow> (d1, v, Inl e)
                | Inr (Some url, d2) \<Rightarrow> (d2, v, Inr (Sent_Out url))
                | Inr (None, d2) \<Rightarrow> answer_form ss provider posted r form refreshed now a1 s d2 v)))"

definition requested_rid :: "bool \<Rightarrow> http_request \<Rightarrow> form_data \<Rightarrow> string" where
  "requested_rid posted r form = (if posted then py_strip (form_value form ''rid'') else param_text r ''rid'')"

definition continue_survey ::
  "submission_services \<Rightarrow> bool \<Rightarrow> http_request \<Rightarrow> form_data \<Rightarrow> string option \<Rightarrow> timestamp \<Rightarrow> db \<Rightarrow> vault
   \<Rightarrow> db \<times> vault \<times> (py_error + submission_response)" where
  "continue_survey ss posted r form refreshed now d v =
     (if \<not> posted \<and> \<not> has_exact_query r [''rid''] then (d, v, Inr (Link_Error 400))
      else (case journey_attempt d (requested_rid posted r form) of
              Inl status \<Rightarrow> (d, v, Inr (Link_Error status))
            | Inr (a, s) \<Rightarrow>
                (case backfill_attempt_entry_audit (ws_ip_text (ss_web ss)) (ws_trust_forwarded (ss_web ss)) r a d of
                   (a0, d0) \<Rightarrow> guarded_journey ss posted r form refreshed now a0 s d0 v)))"

end
