(* ===== verification/Reconciliation.thy ===== *)
theory Reconciliation
  imports Status_Views Sequences
begin

text \<open>
  Asking a provider for the result of an attempt whose redirect bypassed the callback:
  \<open>reconcile_attempt_status\<close> with its helpers (\<open>surveys/services.py\<close>), the periodic task
  (\<open>surveys/tasks.py\<close>) and \<open>_refresh_provider_outcome\<close> (\<open>surveys/views.py\<close>).  The provider's answer is
  the list of transaction rows \<open>fetch\<close> gives for an attempt, or the error of the HTTP client;
  \<open>parse\<close> is dateutil's parser followed by the conversion to UTC, \<^term>\<open>None\<close> where it fails.
\<close>

definition transaction_status :: "json \<Rightarrow> attempt_status option" where
  "transaction_status value =
     (let normalized = filter is_alnum_ascii (py_lower (str_or value []));
          has = (\<lambda>part. contains_text part normalized) in
      if normalized \<in> {''1'', ''complete'', ''completed'', ''success'', ''qualified''} then Some COMPLETED
      else if normalized \<in> {''4'', ''8''} \<or> has ''quality'' \<or> has ''qualterm'' then Some QUALITY_TERMINATED
      else if normalized \<in> {''3'', ''7''} \<or> has ''quota'' then Some OVER_QUOTA
      else if normalized \<in> {''2'', ''5''} \<or> has ''fail'' \<or> has ''term'' then Some TERMINATED
      else None)"

definition parse_upstream_datetime :: "(string \<Rightarrow> timestamp option) \<Rightarrow> json \<Rightarrow> timestamp option" where
  "parse_upstream_datetime parse value = (if truthy value then parse (py_str value) else None)"

text \<open>\<open>max\<close> over the rows by their time, the first of the latest; a row without a time is the
  earliest.\<close>

definition row_time :: "(string \<Rightarrow> timestamp option) \<Rightarrow> jdict \<Rightarrow> timestamp option" where
  "row_time parse row =
     parse_upstream_datetime parse
       (json_or (json_or (dict_get row ''completeDateTime'') (dict_get row ''st_date_time''))
         (dict_get row ''clkDateTime''))"

definition time_before :: "timestamp option \<Rightarrow> timestamp option \<Rightarrow> bool" where
  "time_before a b =
     (case (a, b) of (_, None) \<Rightarrow> False | (None, Some _) \<Rightarrow> True | (Some s, Some t) \<Rightarrow> s < t)"

fun latest_row :: "(string \<Rightarrow> timestamp option) \<Rightarrow> jdict \<Rightarrow> jdict list \<Rightarrow> jdict" where
  "latest_row parse best [] = best"
| "latest_row parse best (row # rows) =
     latest_row parse (if time_before (row_time parse best) (row_time parse row) then row else best) rows"

definition attempt_transaction :: "(string \<Rightarrow> timestamp option) \<Rightarrow> string \<Rightarrow> jdict list \<Rightarrow> jdict" where
  "attempt_transaction parse rid rows =
     (case List.find (\<lambda>row. rid \<in> set (map (\<lambda>key. str_or (dict_get row key) []) [''trackId'', ''PID'', ''pid''])) rows of
        Some row \<Rightarrow> row
      | None \<Rightarrow> (case rows of [] \<Rightarrow> [] | row # rest \<Rightarrow> latest_row parse row rest))"

definition json_text :: "json \<Rightarrow> string option" where
  "json_text v = (if truthy v then Some (py_str v) else None)"

definition reconciled_end ::
  "(string \<Rightarrow> timestamp option) \<Rightarrow> jdict \<Rightarrow> timestamp \<Rightarrow> survey_attempt \<Rightarrow> timestamp" where
  "reconciled_end parse upstream checked_at a =
     (let completed_at = (case parse_upstream_datetime parse
              (json_or (dict_get upstream ''completeDateTime'') (dict_get upstream ''st_date_time'')) of
            Some t \<Rightarrow> t | None \<Rightarrow> checked_at)
      in if completed_at < loi_started_at a then checked_at else completed_at)"

definition reconciled_attempt ::
  "(string \<Rightarrow> (string \<times> bool) option) \<Rightarrow> (string \<Rightarrow> timestamp option) \<Rightarrow> jdict \<Rightarrow> timestamp
   \<Rightarrow> survey_attempt \<Rightarrow> survey_attempt" where
  "reconciled_attempt ip_text parse upstream checked_at locked =
     (let upstream_ip = normalize_client_ip ip_text (json_text (dict_get upstream ''ip''));
          a = locked\<lparr>at_upstream_checked_at := Some checked_at,
                at_upstream_transaction_data := JObj upstream, at_updated_at := checked_at,
                at_initiation_ip := (if upstream_ip \<noteq> None \<and> normalize_client_ip ip_text (at_initiation_ip locked) = None
                                     then upstream_ip else at_initiation_ip locked)\<rparr>
      in case transaction_status (dict_get upstream ''status'') of
           None \<Rightarrow> a
         | Some status \<Rightarrow>
             if at_callback_at locked = None \<and> is_pending locked
             then (let completed_at = reconciled_end parse upstream checked_at a in
                   a\<lparr>at_status := status, at_status_source := ''innovatemr_transaction'',
                     at_callback_at := Some completed_at, at_last_callback_at := Some completed_at,
                     at_callback_ip := upstream_ip, at_loi_seconds := Some (calculate_loi_seconds a completed_at),
                     at_is_verified := (py_lower (str_or (dict_get upstream ''verifyToken'') []) = ''valid'')\<rparr>)
             else a)"

definition reconcile_attempt_status ::
  "(string \<Rightarrow> (string \<times> bool) option) \<Rightarrow> (string \<Rightarrow> timestamp option) \<Rightarrow> jdict list \<Rightarrow> survey_attempt
   \<Rightarrow> timestamp \<Rightarrow> db \<Rightarrow> py_error + (bool \<times> db)" where
  "reconcile_attempt_status ip_text parse rows a checked_at d =
     (let upstream = attempt_transaction parse (at_rid a) rows;
          terminal = transaction_status (dict_get upstream ''status'') in
      case of_option (DoesNotExist ''SurveyAttempt'') (get_attempt d (at_id a)) of
        Inl e \<Rightarrow> Inl e
      | Inr locked \<Rightarrow>
          (let b = reconciled_attempt ip_text parse upstream checked_at locked;
               d' = save_attempt b d
           in Inr (terminal \<noteq> None,
                   if terminal \<noteq> None then snd (finalize_attempt_capacity d' (at_id b) (at_status b) checked_at)
                   else d')))"

section \<open>The periodic task\<close>

definition null_first :: "timestamp option \<Rightarrow> int \<times> int" where
  "null_first t = (case t of None \<Rightarrow> (0, 0) | Some x \<Rightarrow> (1, x))"

definition pending_attempts ::
  "string list \<Rightarrow> nat \<Rightarrow> nat \<Rightarrow> nat \<Rightarrow> timestamp \<Rightarrow> db \<Rightarrow> survey_attempt list" where
  "pending_attempts installed interval_seconds lookback_hours batch now d =
     (let due = (\<lambda>a. case at_upstream_checked_at a of
                       None \<Rightarrow> True | Some t \<Rightarrow> t \<le> now - seconds (int interval_seconds));
          foreign = (\<lambda>a. case attempt_integration d a of
                       Inr (Some ci) \<Rightarrow> ci_provider_code ci \<in> set installed | _ \<Rightarrow> False)
      in take batch
           (sort_key (\<lambda>a. fst (null_first (at_upstream_checked_at a)))
             (sort_key (\<lambda>a. snd (null_first (at_upstream_checked_at a)))
               (sort_key (\<lambda>a. - at_initiated_at a)
                 (filter (\<lambda>a. at_status a = REDIRECTED \<and> at_callback_at a = None
                     \<and> now - minutes (60 * int lookback_hours) \<le> at_initiated_at a
                     \<and> \<not> foreign a \<and> due a) (attempts d))))))"

record reconcile_counts =
  rk_checked :: nat
  rk_terminal :: nat
  rk_failures :: nat

text \<open>\<open>fetch\<close> gives \<^term>\<open>None\<close> for an \<open>InnovateMRAPIError\<close>.  Each attempt is its own transaction.\<close>

fun reconcile_loop ::
  "(string \<Rightarrow> (string \<times> bool) option) \<Rightarrow> (string \<Rightarrow> timestamp option) \<Rightarrow> (survey_attempt \<Rightarrow> jdict list option)
   \<Rightarrow> (pk \<Rightarrow> timestamp) \<Rightarrow> timestamp \<Rightarrow> reconcile_counts \<Rightarrow> survey_attempt list \<Rightarrow> db
   \<Rightarrow> db \<times> (py_error + reconcile_counts)" where
  "reconcile_loop ip_text parse fetch clock now acc [] d = (d, Inr acc)"
| "reconcile_loop ip_text parse fetch clock now acc (a # as) d =
     (case fetch a of
        None \<Rightarrow>
          reconcile_loop ip_text parse fetch clock now (acc\<lparr>rk_failures := rk_failures acc + 1\<rparr>) as
            (update_attempts (\<lambda>row. at_id row = at_id a) (\<lambda>row. row\<lparr>at_upstream_checked_at := Some now\<rparr>) d)
      | Some rows \<Rightarrow>
          (case reconcile_attempt_status ip_text parse rows a (clock (at_id a)) d of
             Inl e \<Rightarrow> (d, Inl e)
           | Inr (terminal, d') \<Rightarrow>
               reconcile_loop ip_text parse fetch clock now
                 (acc\<lparr>rk_checked := rk_checked acc + 1,
                      rk_terminal := rk_terminal acc + (if terminal then 1 else 0)\<rparr>) as d'))"

definition RECONCILE_LEASE :: string where
  "RECONCILE_LEASE = ''innovatemr-attempt-reconciliation''"

text \<open>\<^term>\<open>None\<close> when an earlier run still holds the lease.  The lease is given back on every way out.\<close>

definition reconcile_pending_attempts_task ::
  "(string \<Rightarrow> (string \<times> bool) option) \<Rightarrow> (string \<Rightarrow> timestamp option) \<Rightarrow> (survey_attempt \<Rightarrow> jdict list option)
   \<Rightarrow> (pk \<Rightarrow> timestamp) \<Rightarrow> string list \<Rightarrow> nat \<Rightarrow> nat \<Rightarrow> nat \<Rightarrow> timestamp \<Rightarrow> db
   \<Rightarrow> db \<times> (py_error + reconcile_counts option)" where
  "reconcile_pending_attempts_task ip_text parse fetch clock installed interval_seconds lookback_hours batch now d =
     (case lease_acquire d RECONCILE_LEASE 300 now of
        (False, d1) \<Rightarrow> (d1, Inr None)
      | (True, d1) \<Rightarrow>
          (case reconcile_loop ip_text parse fetch clock now \<lparr>rk_checked = 0, rk_terminal = 0, rk_failures = 0\<rparr>
                  (pending_attempts installed interval_seconds lookback_hours batch now d1) d1 of
             (d2, result) \<Rightarrow> (lease_release d2 RECONCILE_LEASE, map_sum id Some result)))"

section \<open>Refreshing a result on demand\<close>

definition refreshed_row :: "string \<Rightarrow> jdict list \<Rightarrow> jdict option" where
  "refreshed_row rid rows =
     (case rows of
        [] \<Rightarrow> None
      | first # _ \<Rightarrow>
          Some (case List.find (\<lambda>row. list_ex (\<lambda>key. str_or (dict_get row key) [] = rid)
                      [''PID'', ''pid'', ''trackId'', ''rid'', ''RID'', ''respondentId'']) rows of
                  Some row \<Rightarrow> row | None \<Rightarrow> first))"

definition refresh_provider_outcome ::
  "(string \<Rightarrow> (string \<times> bool) option) \<Rightarrow> (string \<Rightarrow> timestamp option) \<Rightarrow> jdict list
   \<Rightarrow> client_integration option \<Rightarrow> survey_attempt \<Rightarrow> timestamp \<Rightarrow> db \<Rightarrow> py_error + db" where
  "refresh_provider_outcome ip_text parse rows integration a now d =
     (if provider_code_of integration = ''innovatemr''
      then map_sum id snd (reconcile_attempt_status ip_text parse rows a now d)
      else Inr (update_attempts (\<lambda>row. at_id row = at_id a)
             (\<lambda>row. row\<lparr>at_upstream_checked_at := Some now, at_updated_at := now,
                at_upstream_transaction_data := (case refreshed_row (at_rid a) rows of
                    Some found \<Rightarrow> JObj found | None \<Rightarrow> at_upstream_transaction_data row)\<rparr>) d))"

end
