(* ===== verification/Toluna_Payloads.thy ===== *)
theory Toluna_Payloads
  imports Py_Values Web_Text
begin

text \<open>
  How the Toluna code reads a decoded JSON payload: keys regardless of case (\<open>_pick\<close>), numbers,
  text and Booleans in any of their spellings, the provider's time stamps with \<open>strptime\<close>, and
  the canonical text of a payload (\<open>json.dumps\<close> with sorted keys) whose digest identifies an event.
\<close>

section \<open>Keys\<close>

text \<open>The first of the names that is a key; then the first that is one in lower case, where a later
  key of the payload hides an earlier one with the same lower-case text.\<close>

fun first_key :: "jdict \<Rightarrow> string list \<Rightarrow> json option" where
  "first_key kvs [] = None"
| "first_key kvs (n # ns) = (case map_of kvs n of Some v \<Rightarrow> Some v | None \<Rightarrow> first_key kvs ns)"

definition lowered_keys :: "jdict \<Rightarrow> jdict" where
  "lowered_keys kvs = rev (map (\<lambda>(k, v). (py_lower k, v)) kvs)"

definition pick_default :: "json \<Rightarrow> json \<Rightarrow> string list \<Rightarrow> json" where
  "pick_default other payload names =
     (case payload of
        JObj kvs \<Rightarrow>
          (case first_key kvs names of
             Some v \<Rightarrow> v
           | None \<Rightarrow> (case first_key (lowered_keys kvs) (map py_lower names) of
                        Some v \<Rightarrow> v | None \<Rightarrow> other))
      | _ \<Rightarrow> other)"

definition pick :: "json \<Rightarrow> string list \<Rightarrow> json" where
  "pick = pick_default JNull"

section \<open>Values\<close>

text \<open>\<open>int(value)\<close> of a value that is not empty; what raises \<open>TypeError\<close> or \<open>ValueError\<close> is no
  number.  \<open>int\<close> of a float drops its fraction.\<close>

definition toluna_integer :: "json \<Rightarrow> int option" where
  "toluna_integer v =
     (case v of
        JBool b \<Rightarrow> Some (if b then 1 else 0)
      | JInt i \<Rightarrow> Some i
      | JFloat q _ \<Rightarrow> Some (if 0 \<le> q then \<lfloor>q\<rfloor> else \<lceil>q\<rceil>)
      | JStr s \<Rightarrow> parse_int s
      | _ \<Rightarrow> None)"

definition text_value :: "json \<Rightarrow> string" where
  "text_value v = (if v = JNull then [] else py_strip (py_str v))"

definition toluna_boolean :: "json \<Rightarrow> bool option" where
  "toluna_boolean v =
     (case v of
        JBool b \<Rightarrow> Some b
      | JInt i \<Rightarrow> Some (i \<noteq> 0)
      | JFloat q _ \<Rightarrow> Some (q \<noteq> 0)
      | _ \<Rightarrow> (let text = py_lower (text_value v) in
              if text \<in> {''true'', ''1'', ''yes''} then Some True
              else if text \<in> {''false'', ''0'', ''no''} then Some False else None))"

lemma toluna_integer_JInt [simp]: "toluna_integer (JInt i) = Some i"
  by (simp add: toluna_integer_def)

section \<open>Time stamps\<close>

text \<open>Days from the first of January 1970 to a date of the Gregorian calendar.\<close>

definition days_of_date :: "date \<Rightarrow> int" where
  "days_of_date dt =
     (case dt of (year, m, d) \<Rightarrow>
        let y = (if m \<le> 2 then year - 1 else year);
            era = y div 400;
            yoe = y - era * 400;
            mp = (if 2 < m then int m - 3 else int m + 9);
            doy = (153 * mp + 2) div 5 + int d - 1;
            doe = yoe * 365 + yoe div 4 - yoe div 100 + doy
        in era * 146097 + doe - 719468)"

lemma days_of_date_samples:
  "days_of_date (1970, 1, 1) = 0" "days_of_date (2000, 3, 1) = 11017" "days_of_date (2024, 12, 31) = 20088"
  by (simp_all add: days_of_date_def)

definition at_midnight :: "date \<Rightarrow> timestamp" where
  "at_midnight dt = seconds (days_of_date dt * 86400)"

text \<open>\<open>%H:%M:%S\<close>: one or two digits each; the sixty-first second of \<open>%S\<close> is not a time.\<close>

definition clock_field :: "string \<Rightarrow> nat \<Rightarrow> nat option" where
  "clock_field s bound =
     (case (if length s \<le> 2 then digits_field s else None) of
        Some n \<Rightarrow> if n < bound then Some n else None
      | None \<Rightarrow> None)"

definition clock_seconds :: "string \<Rightarrow> string \<Rightarrow> string \<Rightarrow> int option" where
  "clock_seconds h m s =
     (case (clock_field h 24, clock_field m 60, clock_field s 60) of
        (Some h, Some m, Some s) \<Rightarrow> Some (int h * 3600 + int m * 60 + int s)
      | _ \<Rightarrow> None)"

text \<open>The date and what follows the day.  \<open>%d\<close> may be padded with a blank; the blank of the format
  stands for a run of white space.\<close>

definition split_date :: "string \<Rightarrow> (date \<times> string) option" where
  "split_date raw =
     (case py_partition (CHR ''-'') raw of (y, _, rest) \<Rightarrow>
       (case py_partition (CHR ''-'') rest of (m, _, rest) \<Rightarrow>
         (let day = (if rest \<noteq> [] \<and> hd rest = CHR '' '' then take 2 rest else takeWhile is_digit_ascii rest);
              after = drop (length day) rest
          in if after \<noteq> [] \<and> is_ascii_space (hd after)
             then map_option (\<lambda>dt. (dt, py_lstrip after))
                    (date_of_fields (year_field y) (month_field m) (day_field day))
             else None)))"

text \<open>\<open>%z\<close>: \<open>Z\<close>, or a sign and hours and minutes with an optional colon, and seconds likewise.\<close>

definition offset_pairs :: "string \<Rightarrow> (nat \<times> nat \<times> nat) option" where
  "offset_pairs s =
     (case py_split (CHR '':'') s of
        [t] \<Rightarrow>
          (if list_all is_digit_ascii t \<and> length t = 4
           then Some (digits_value (take 2 t), digits_value (drop 2 t), 0)
           else if list_all is_digit_ascii t \<and> length t = 6
           then Some (digits_value (take 2 t), digits_value (take 2 (drop 2 t)), digits_value (drop 4 t))
           else None)
      | [h, m] \<Rightarrow>
          (if list_all is_digit_ascii (h @ m) \<and> length h = 2 \<and> length m = 2
           then Some (digits_value h, digits_value m, 0) else None)
      | [h, m, s] \<Rightarrow>
          (if list_all is_digit_ascii (h @ m @ s) \<and> length h = 2 \<and> length m = 2 \<and> length s = 2
           then Some (digits_value h, digits_value m, digits_value s) else None)
      | _ \<Rightarrow> None)"

definition utc_offset :: "string \<Rightarrow> int option" where
  "utc_offset s =
     (case s of
        [] \<Rightarrow> None
      | c # cs \<Rightarrow>
          if s = ''Z'' then Some 0
          else if c = CHR ''+'' \<or> c = CHR ''-'' then
            (case offset_pairs cs of
               Some (h, m, sec) \<Rightarrow>
                 if h < 24 \<and> m < 60 \<and> sec < 60
                 then Some ((if c = CHR ''-'' then - 1 else 1) * (int h * 3600 + int m * 60 + int sec))
                 else None
             | None \<Rightarrow> None)
          else None)"

text \<open>\<open>strptime(raw, "%Y-%m-%d %H:%M:%S")\<close>, read in UTC, and \<open>"%Y-%m-%d %H:%M:%S.%f %z"\<close>.\<close>

definition strptime_seconds :: "string \<Rightarrow> timestamp option" where
  "strptime_seconds raw =
     (case split_date raw of
        None \<Rightarrow> None
      | Some (dt, rest) \<Rightarrow>
          (case py_split (CHR '':'') rest of
             [h, m, s] \<Rightarrow> map_option (\<lambda>t. at_midnight dt + seconds t) (clock_seconds h m s)
           | _ \<Rightarrow> None))"

definition strptime_micros_zone :: "string \<Rightarrow> timestamp option" where
  "strptime_micros_zone raw =
     (case split_date raw of
        None \<Rightarrow> None
      | Some (dt, rest) \<Rightarrow>
          (case py_partition (CHR ''.'') rest of (clock, _, rest) \<Rightarrow>
            (let f = takeWhile is_digit_ascii rest; after = drop (length f) rest in
             if f = [] \<or> 6 < length f \<or> after = [] \<or> \<not> is_ascii_space (hd after) then None
             else (case (py_split (CHR '':'') clock, utc_offset (py_lstrip after)) of
                     ([h, m, s], Some z) \<Rightarrow>
                       map_option (\<lambda>t. at_midnight dt + seconds t
                                       + int (digits_value f) * 10 ^ (6 - length f) - seconds z)
                         (clock_seconds h m s)
                   | _ \<Rightarrow> None))))"

lemma strptime_samples:
  "strptime_seconds ''2024-12-31   23:59:07'' = Some (seconds (20088 * 86400 + 86347))"
  "strptime_micros_zone ''2024-12-31 01:00:00.25 +0100'' = Some (seconds (20088 * 86400) + 250000)"
  "strptime_seconds ''2024-02-30 01:00:00'' = None"
  by code_simp+

section \<open>Canonical text\<close>

text \<open>A text of \<open>json.dumps(..., ensure_ascii=True)\<close>.\<close>

definition dumps_char :: "char \<Rightarrow> string" where
  "dumps_char c =
     (let n = (of_char c :: nat) in
      if n = 34 \<or> n = 92 then [char_of (92::nat), c]
      else if n = 8 then [char_of (92::nat), CHR ''b'']
      else if n = 9 then [char_of (92::nat), CHR ''t'']
      else if n = 10 then [char_of (92::nat), CHR ''n'']
      else if n = 12 then [char_of (92::nat), CHR ''f'']
      else if n = 13 then [char_of (92::nat), CHR ''r'']
      else if n < 32 \<or> 126 < n
        then [char_of (92::nat)] @ ''u00'' @ [hex_digit (n div 16), hex_digit (n mod 16)]
      else [c])"

definition dumps_text :: "string \<Rightarrow> string" where
  "dumps_text s = [char_of (34::nat)] @ concat (map dumps_char s) @ [char_of (34::nat)]"

definition key_order :: "(string \<times> 'a) list \<Rightarrow> (string \<times> 'a) list" where
  "key_order kvs = sort_key fst kvs"

fun dumps_sorted :: "json \<Rightarrow> string" where
  "dumps_sorted JNull = ''null''"
| "dumps_sorted (JBool b) = (if b then ''true'' else ''false'')"
| "dumps_sorted (JInt i) = show_int i"
| "dumps_sorted (JFloat _ text) = text"
| "dumps_sorted (JStr s) = dumps_text s"
| "dumps_sorted (JArr xs) = ''['' @ py_join '','' (map dumps_sorted xs) @ '']''"
| "dumps_sorted (JObj kvs) =
     ''{'' @ py_join '','' (map (\<lambda>(k, t). dumps_text k @ '':'' @ t)
               (key_order (map (\<lambda>(k, v). (k, dumps_sorted v)) kvs))) @ ''}''"

lemma dumps_sorted_sample:
  "dumps_sorted (JObj [(''b'', JArr [JInt (-2), JNull]), (''a'', JStr ''x'')]) =
     ''{'' @ dumps_text ''a'' @ '':'' @ dumps_text ''x'' @ '','' @ dumps_text ''b'' @ '':[-2,null]}''"
  by code_simp

end
