(* ===== verification/Toluna_Notifications.thy ===== *)
theory Toluna_Notifications
  imports Toluna_Payloads Callback_Recording
begin

text \<open>
  Toluna's server notifications, \<open>surveys/toluna_notifications.py\<close>: validating a payload, finding the
  survey and the journey it is about, its digest, the audit row, applying it to the attempt, the
  survey or a quota, and the repeated reconciliation of stored notifications.  The SHA-256 digest and
  Django's \<open>parse_datetime\<close> (a naive result read in UTC; a well-formed text that is no date raises)
  are parameters.  One request reads the clock once.
\<close>

record notification_services =
  nv_sha256 :: "string \<Rightarrow> string"
  nv_parse_datetime :: "string \<Rightarrow> py_error + timestamp option"
  nv_ip_literal :: "string \<Rightarrow> bool"

section \<open>Reading a payload\<close>

definition TERMINATION_STATUS_MAP :: "(string \<times> attempt_status) list" where
  "TERMINATION_STATUS_MAP =
    [(''quotafull'', OVER_QUOTA), (''surveytaken'', SURVEY_TAKEN), (''terminated'', TERMINATED),
     (''surveynotavailable'', SURVEY_NOT_AVAILABLE), (''nosurveysavailable'', NO_SURVEYS),
     (''nocookie'', NO_COOKIES), (''maxsurveysreached'', MAX_SURVEYS_REACHED),
     (''notqualified'', NOT_QUALIFIED)]"

definition OPERATIONAL_EVENT_TYPES :: "event_type list" where
  "OPERATIONAL_EVENT_TYPES = [QUOTA_STATUS, SURVEY_CLOSED]"

definition OPERATIONAL_IDENTITY_CHUNK_SIZE :: nat where
  "OPERATIONAL_IDENTITY_CHUNK_SIZE = 100"

definition OPERATIONAL_RECONCILE_BATCH_SIZE :: nat where
  "OPERATIONAL_RECONCILE_BATCH_SIZE = 200"

definition survey_id_in :: "json \<Rightarrow> int option" where
  "survey_id_in p = toluna_integer (pick p [''SurveyId'', ''SurveyID''])"

definition wave_id_in :: "json \<Rightarrow> int option" where
  "wave_id_in p = toluna_integer (pick p [''WaveId'', ''WaveID''])"

definition quota_id_in :: "json \<Rightarrow> int option" where
  "quota_id_in p = toluna_integer (pick p [''QuotaId'', ''QuotaID''])"

definition provider_datetime :: "notification_services \<Rightarrow> json \<Rightarrow> py_error + timestamp option" where
  "provider_datetime nv v =
     (let raw = text_value v in
      if raw = [] then Inr None
      else (case nv_parse_datetime nv raw of
              Inl e \<Rightarrow> Inl e
            | Inr (Some t) \<Rightarrow> Inr (Some t)
            | Inr None \<Rightarrow> Inr (case strptime_seconds raw of
                                Some t \<Rightarrow> Some t | None \<Rightarrow> strptime_micros_zone raw)))"

definition json_id :: "int option \<Rightarrow> json" where
  "json_id i = (case i of None \<Rightarrow> JNull | Some i \<Rightarrow> JInt i)"

text \<open>A completion is identified by survey, wave and member code; any other event by its payload.\<close>

definition event_identity :: "event_type \<Rightarrow> json \<Rightarrow> pk option \<Rightarrow> json" where
  "event_identity ev p integration =
     (let owner = (''IntegrationId'', json_id (map_option int integration)) in
      if ev = MEMBER_COMPLETE
      then JObj [owner, (''SurveyId'', json_id (survey_id_in p)), (''WaveId'', json_id (wave_id_in p)),
                 (''UniqueCode'', JStr (text_value (pick p [''UniqueCode''])))]
      else JObj [owner, (''Payload'', p)])"

definition canonical_payload_hash ::
  "notification_services \<Rightarrow> event_type \<Rightarrow> json \<Rightarrow> pk option \<Rightarrow> string" where
  "canonical_payload_hash nv ev p integration = nv_sha256 nv (dumps_sorted (event_identity ev p integration))"

definition has_scheme_mark :: "string \<Rightarrow> bool" where
  "has_scheme_mark s = sublist ''://'' s"

definition rid_from_additional_data :: "notification_services \<Rightarrow> json \<Rightarrow> py_error + string" where
  "rid_from_additional_data nv p =
     (let additional = text_value (pick p [''AdditionalData'', ''additionalData'']) in
      if additional = [] then Inr []
      else map_sum id
             (\<lambda>query. case List.find (\<lambda>(k, v). py_lower k \<in> {''rid'', ''trackid'', ''pid''} \<and> v \<noteq> [])
                             (parse_qsl query) of
                        Some (k, v) \<Rightarrow> py_strip v | None \<Rightarrow> [])
             (if has_scheme_mark additional then map_sum id up_query (urlsplit (nv_ip_literal nv) additional)
              else Inr (dropWhile (\<lambda>c. c = CHR ''?'') additional)))"

section \<open>What it is about\<close>

definition is_toluna_survey :: "db \<Rightarrow> survey \<Rightarrow> bool" where
  "is_toluna_survey d s =
     (case Option.bind (sv_integration s) (get_integration d) of
        Some ci \<Rightarrow> ci_provider_code ci = ''toluna'' | None \<Rightarrow> False)"

definition survey_identity_q :: "int \<Rightarrow> int option \<Rightarrow> survey \<Rightarrow> bool" where
  "survey_identity_q survey_id wave_id s =
     (case wave_id of
        Some w \<Rightarrow> sv_source_key s = show_int survey_id @ '':'' @ show_int w
      | None \<Rightarrow> map_option int (sv_source_id s) = Some survey_id
               \<or> sv_source_key s = show_int survey_id
               \<or> py_startswith (sv_source_key s) (show_int survey_id @ '':''))"

definition toluna_surveys :: "db \<Rightarrow> int option \<Rightarrow> int option \<Rightarrow> survey list" where
  "toluna_surveys d survey_id wave_id =
     (case survey_id of
        None \<Rightarrow> []
      | Some i \<Rightarrow> filter (\<lambda>s. is_toluna_survey d s \<and> survey_identity_q i wave_id s) (surveys d))"

definition unambiguous_survey :: "survey list \<Rightarrow> survey option" where
  "unambiguous_survey matches = (case matches of [s] \<Rightarrow> Some s | _ \<Rightarrow> None)"

definition toluna_attempts :: "db \<Rightarrow> int option \<Rightarrow> int option \<Rightarrow> survey_attempt list" where
  "toluna_attempts d survey_id wave_id =
     filter (\<lambda>a. case get_survey d (at_survey a) of
                   None \<Rightarrow> False
                 | Some s \<Rightarrow> is_toluna_survey d s
                     \<and> (case survey_id of None \<Rightarrow> True | Some i \<Rightarrow> survey_identity_q i wave_id s))
       (attempts d)"

definition newest_journey :: "string \<Rightarrow> survey_attempt list \<Rightarrow> survey_attempt option" where
  "newest_journey unique_code rows =
     (case sort_key (\<lambda>a. - at_initiated_at a)
             (filter (\<lambda>a. at_provider_profile_uid a = unique_code \<or> at_prescreener_uid a = Some unique_code) rows) of
        a # _ \<Rightarrow> Some a | [] \<Rightarrow> None)"

record notification_links =
  lk_survey :: "survey option"
  lk_attempt :: "survey_attempt option"
  lk_integration :: "pk option"

definition linked_attempt :: "string \<Rightarrow> string \<Rightarrow> survey_attempt list \<Rightarrow> survey_attempt option" where
  "linked_attempt rid unique_code rows =
     (case (if rid \<noteq> [] then List.find (\<lambda>a. at_rid a = rid) rows else None) of
        Some a \<Rightarrow> Some a
      | None \<Rightarrow> if unique_code \<noteq> [] then newest_journey unique_code rows else None)"

definition resolve_links :: "notification_services \<Rightarrow> db \<Rightarrow> json \<Rightarrow> py_error + notification_links" where
  "resolve_links nv d p =
     map_sum id
       (\<lambda>rid. let own = unambiguous_survey (toluna_surveys d (survey_id_in p) (wave_id_in p));
                  attempt = linked_attempt rid (text_value (pick p [''UniqueCode'']))
                              (toluna_attempts d (survey_id_in p) (wave_id_in p));
                  survey = (case attempt of Some a \<Rightarrow> get_survey d (at_survey a) | None \<Rightarrow> own)
              in \<lparr>lk_survey = survey, lk_attempt = attempt,
                  lk_integration = Option.bind survey sv_integration\<rparr>)
       (rid_from_additional_data nv p)"

section \<open>Validation\<close>

definition MEMBER_EVENTS :: "event_type list" where
  "MEMBER_EVENTS = [MEMBER_COMPLETE, MEMBER_TERMINATE, ENHANCED_TERMINATION, RECONCILIATION]"

definition validate_payload :: "event_type \<Rightarrow> json \<Rightarrow> py_error + unit" where
  "validate_payload ev p =
     (if as_dict p = None then Inl (TolunaNotificationError ''A JSON object is required.'')
      else if survey_id_in p = None then Inl (TolunaNotificationError ''SurveyId is required.'')
      else if wave_id_in p = None then Inl (TolunaNotificationError ''WaveID is required.'')
      else if ev \<in> set MEMBER_EVENTS \<and> text_value (pick p [''UniqueCode'']) = []
      then Inl (TolunaNotificationError ''UniqueCode is required.'')
      else if ev \<in> {MEMBER_TERMINATE, ENHANCED_TERMINATION} \<and> text_value (pick p [''Reason'']) = []
      then Inl (TolunaNotificationError ''Reason is required.'')
      else if ev = QUOTA_STATUS \<and> quota_id_in p = None
      then Inl (TolunaNotificationError ''QuotaID is required.'')
      else if ev = QUOTA_STATUS \<and> toluna_boolean (pick p [''IsLive'']) = None
      then Inl (TolunaNotificationError ''IsLive must be true or false.'')
      else Inr ())"

section \<open>The audit row\<close>

definition provider_status_text :: "event_type \<Rightarrow> json \<Rightarrow> string" where
  "provider_status_text ev p =
     (let reason = text_value (pick p [''Reason'']);
          rejection = text_value (pick p [''RejectionName'']) in
      case ev of
        MEMBER_COMPLETE \<Rightarrow> ''Completed''
      | MEMBER_TERMINATE \<Rightarrow> (if reason \<noteq> [] then reason else ''Terminated'')
      | ENHANCED_TERMINATION \<Rightarrow>
          (if rejection \<noteq> [] then rejection else if reason \<noteq> [] then reason else ''Enhanced termination'')
      | QUOTA_STATUS \<Rightarrow> (if toluna_boolean (pick p [''IsLive'']) = Some True then ''Open'' else ''Unavailable'')
      | SURVEY_CLOSED \<Rightarrow> (let t = text_value (pick p [''Status'']) in if t \<noteq> [] then t else ''Closed'')
      | RECONCILIATION \<Rightarrow> ''Reconciled'')"

definition occurred_value :: "event_type \<Rightarrow> json \<Rightarrow> json" where
  "occurred_value ev p =
     (if ev = QUOTA_STATUS then pick p [''UpdateDateTimeUTC'']
      else if ev = RECONCILIATION then pick p [''ReconciliationDateTime'']
      else pick p [''DateTime''])"

text \<open>The row \<open>get_or_create\<close> writes: \<open>_notification_defaults\<close> under its digest.\<close>

definition new_notification ::
  "pk \<Rightarrow> event_type \<Rightarrow> string \<Rightarrow> json \<Rightarrow> notification_links \<Rightarrow> timestamp option \<Rightarrow> timestamp \<Rightarrow> toluna_notification" where
  "new_notification i ev hash p links occurred now =
     \<lparr>tn_id = i, tn_event_type = ev, tn_payload_hash = hash,
      tn_integration = lk_integration links, tn_survey = map_option sv_id (lk_survey links),
      tn_attempt = map_option at_id (lk_attempt links),
      tn_unique_code = text_value (pick p [''UniqueCode'']), tn_provider_survey_id = survey_id_in p,
      tn_survey_ref = text_value (pick p [''SurveyRef'']), tn_wave_id = wave_id_in p, tn_quota_id = quota_id_in p,
      tn_provider_status = provider_status_text ev p, tn_reason = text_value (pick p [''Reason'']),
      tn_rejection_id = toluna_integer (pick p [''RejectionId'', ''RejectionID'']),
      tn_rejection_name = text_value (pick p [''RejectionName'']),
      tn_reconciliation_id = toluna_integer (pick p [''ReconciliationId'', ''ReconciliationID'']),
      tn_revenue_cents = toluna_integer (pick p [''Revenue'']),
      tn_is_live = toluna_boolean (pick p [''IsLive'']), tn_occurred_at = occurred, tn_raw_payload = p,
      tn_applied = False, tn_processing_message = [], tn_duplicate_count = 0,
      tn_received_at = now, tn_last_received_at = now\<rparr>"

section \<open>Applying it to the journey\<close>

definition termination_status :: "string \<Rightarrow> string \<Rightarrow> attempt_status" where
  "termination_status rejection_name reason =
     (if \<exists>token \<in> set [''fraud'', ''quality'', ''security'', ''threat'']. sublist token (py_lower rejection_name)
      then QUALITY_TERMINATED
      else (case map_of TERMINATION_STATUS_MAP (py_lower (filter (\<lambda>c. c \<noteq> CHR '' '') reason)) of
              Some st \<Rightarrow> st | None \<Rightarrow> TERMINATED))"

definition attempt_status_for :: "toluna_notification \<Rightarrow> attempt_status option" where
  "attempt_status_for n =
     (case tn_event_type n of
        MEMBER_COMPLETE \<Rightarrow> Some COMPLETED
      | RECONCILIATION \<Rightarrow> Some QUALITY_TERMINATED
      | MEMBER_TERMINATE \<Rightarrow> Some (termination_status (tn_rejection_name n) (tn_reason n))
      | ENHANCED_TERMINATION \<Rightarrow> Some (termination_status (tn_rejection_name n) (tn_reason n))
      | _ \<Rightarrow> None)"

definition notification_evidence :: "toluna_notification \<Rightarrow> json" where
  "notification_evidence n = JObj
     [(''event_id'', JInt (int (tn_id n))), (''event_type'', JStr (event_type_value (tn_event_type n))),
      (''status'', JStr (tn_provider_status n)),
      (''reason'', JStr (if tn_rejection_name n \<noteq> [] then tn_rejection_name n else tn_reason n)),
      (''category'', JStr (if tn_rejection_name n \<noteq> [] then tn_reason n else [])),
      (''quota_id'', json_id (tn_quota_id n)), (''rejection_id'', json_id (tn_rejection_id n)),
      (''reconciliation_id'', json_id (tn_reconciliation_id n))]"

definition notified_row ::
  "toluna_notification \<Rightarrow> attempt_status \<Rightarrow> timestamp \<Rightarrow> survey_attempt \<Rightarrow> py_error + survey_attempt" where
  "notified_row n status now a =
     (let ended = (case tn_occurred_at n of Some t \<Rightarrow> t | None \<Rightarrow> now) in
      map_sum id
        (\<lambda>evidence. a\<lparr>at_status := status,
           at_callback_at := Some (case at_callback_at a of Some t \<Rightarrow> t | None \<Rightarrow> ended),
           at_last_callback_at := Some now, at_callback_count := at_callback_count a + 1,
           at_loi_seconds := Some (calculate_loi_seconds a ended),
           at_status_source := ''toluna_notification_'' @ event_type_value (tn_event_type n),
           at_is_verified := True, at_upstream_transaction_data := evidence, at_updated_at := now\<rparr>)
        (spread_with (at_upstream_transaction_data a) [(''toluna_notification'', notification_evidence n)]))"

text \<open>An event is applied or not, with the message kept on its row.\<close>

type_synonym application = "bool \<times> string \<times> db"

definition apply_attempt_event :: "toluna_notification \<Rightarrow> timestamp \<Rightarrow> db \<Rightarrow> py_error + application" where
  "apply_attempt_event n now d =
     (case tn_attempt n of
        None \<Rightarrow> Inr (False, ''Accepted; matching respondent journey was not found yet.'', d)
      | Some i \<Rightarrow>
          (case of_option (DoesNotExist ''SurveyAttempt'') (get_attempt d i) of
             Inl e \<Rightarrow> Inl e
           | Inr a \<Rightarrow>
               (case attempt_status_for n of
                  None \<Rightarrow> Inr (False, ''Accepted as an operational notification.'', d)
                | Some status \<Rightarrow>
                    if at_status a = COMPLETED \<and> tn_event_type n \<notin> {MEMBER_COMPLETE, RECONCILIATION}
                    then Inr (False, ''Accepted; a late termination did not replace the verified completion.'', d)
                    else map_sum id
                           (\<lambda>b. (True, ''Respondent journey updated.'',
                                 snd (finalize_attempt_capacity (save_attempt b d) (at_id b) (at_status b) now)))
                           (notified_row n status now a))))"

section \<open>Applying it to the inventory\<close>

definition notification_survey_label :: "toluna_notification \<Rightarrow> string" where
  "notification_survey_label n =
     (case tn_provider_survey_id n of
        None \<Rightarrow> ''(identifier not supplied)''
      | Some i \<Rightarrow> (case tn_wave_id n of
                     Some w \<Rightarrow> show_int i @ '' / wave '' @ show_int w | None \<Rightarrow> show_int i))"

definition show_id :: "int option \<Rightarrow> string" where
  "show_id i = (case i of None \<Rightarrow> ''None'' | Some i \<Rightarrow> show_int i)"

text \<open>The provider's time decides, then the time of delivery, then the key; no time is the oldest.\<close>

definition supersedes :: "toluna_notification \<Rightarrow> toluna_notification \<Rightarrow> bool" where
  "supersedes m n =
     (let tie = tn_received_at n < tn_received_at m
                \<or> tn_received_at m = tn_received_at n \<and> tn_id n < tn_id m in
      case (tn_occurred_at m, tn_occurred_at n) of
        (Some s, None) \<Rightarrow> True
      | (None, None) \<Rightarrow> tie
      | (Some s, Some t) \<Rightarrow> t < s \<or> s = t \<and> tie
      | (None, Some t) \<Rightarrow> False)"

definition same_quota :: "toluna_notification \<Rightarrow> toluna_notification \<Rightarrow> bool" where
  "same_quota m n = (tn_event_type m = QUOTA_STATUS \<and> tn_survey m = tn_survey n \<and> tn_quota_id m = tn_quota_id n)"

definition newer_applied_quota_notification_exists :: "db \<Rightarrow> toluna_notification \<Rightarrow> bool" where
  "newer_applied_quota_notification_exists d n =
     list_ex (\<lambda>m. same_quota m n \<and> tn_applied m \<and> tn_id m \<noteq> tn_id n \<and> supersedes m n) (notifications d)"

definition locked_quota :: "db \<Rightarrow> pk \<Rightarrow> int option \<Rightarrow> survey_quota option" where
  "locked_quota d survey_id quota_id =
     (if (case get_survey d survey_id of Some s \<Rightarrow> is_toluna_survey d s | None \<Rightarrow> False)
      then (case sort_key sq_id (filter (\<lambda>q. sq_survey q = survey_id \<and> sq_quota_id q = quota_id) (quotas d)) of
              q # _ \<Rightarrow> Some q | [] \<Rightarrow> None)
      else None)"

definition quota_after :: "bool option \<Rightarrow> timestamp \<Rightarrow> survey_quota \<Rightarrow> survey_quota" where
  "quota_after is_live now q =
     q\<lparr>sq_status := (if is_live = Some True then ''Open'' else ''Full''),
       sq_remaining := (if is_live = Some False then 0 else if sq_remaining q = 0 then 1 else sq_remaining q),
       sq_updated_at := now\<rparr>"

definition save_quota :: "survey_quota \<Rightarrow> db \<Rightarrow> db" where
  "save_quota q d = d\<lparr>quotas := update_where (\<lambda>row. sq_id row = sq_id q) (\<lambda>_. q) (quotas d)\<rparr>"

definition close_survey :: "pk \<Rightarrow> timestamp \<Rightarrow> db \<Rightarrow> db" where
  "close_survey i now d =
     d\<lparr>surveys := update_where (\<lambda>s. sv_id s = i)
         (\<lambda>s. s\<lparr>sv_status := CLOSED, sv_remaining := 0, sv_updated_at := now\<rparr>) (surveys d)\<rparr>"

definition pending_survey_message :: "toluna_notification \<Rightarrow> string" where
  "pending_survey_message n =
     ''Pending reconciliation; exact Toluna survey '' @ notification_survey_label n @ '' is not in local inventory.''"

definition apply_quota_event :: "toluna_notification \<Rightarrow> timestamp \<Rightarrow> db \<Rightarrow> application" where
  "apply_quota_event n now d =
     (let label = notification_survey_label n in
      case tn_survey n of
        None \<Rightarrow> (False, pending_survey_message n, d)
      | Some i \<Rightarrow>
          (case locked_quota d i (tn_quota_id n) of
             None \<Rightarrow> (False, ''Pending reconciliation; quota '' @ show_id (tn_quota_id n)
                       @ '' is not available on exact Toluna survey '' @ label @ '' yet.'', d)
           | Some q \<Rightarrow>
               if newer_applied_quota_notification_exists d n
               then (True, ''Processed without mutation; a newer provider update already controls quota ''
                       @ show_id (tn_quota_id n) @ '' on Toluna survey '' @ label @ ''.'', d)
               else (True, ''Applied to exact Toluna survey '' @ label @ '' and quota ''
                       @ show_id (tn_quota_id n) @ ''.'', save_quota (quota_after (tn_is_live n) now q) d)))"

definition apply_survey_closed :: "toluna_notification \<Rightarrow> timestamp \<Rightarrow> db \<Rightarrow> application" where
  "apply_survey_closed n now d =
     (case tn_survey n of
        None \<Rightarrow> (False, pending_survey_message n, d)
      | Some i \<Rightarrow> (True, ''Applied to exact Toluna survey '' @ notification_survey_label n
                     @ ''; survey marked closed.'', close_survey i now d))"

definition apply_operational_event :: "toluna_notification \<Rightarrow> timestamp \<Rightarrow> db \<Rightarrow> py_error + application" where
  "apply_operational_event n now d =
     (if tn_event_type n = QUOTA_STATUS then Inr (apply_quota_event n now d)
      else if tn_event_type n = SURVEY_CLOSED then Inr (apply_survey_closed n now d)
      else apply_attempt_event n now d)"

section \<open>Reconciling one stored notification\<close>

definition survey_provider_identity :: "survey \<Rightarrow> int option \<times> int option" where
  "survey_provider_identity s =
     (let raw = json_or (sv_raw_data s) (JObj []);
          survey_id = toluna_integer (pick raw [''SurveyID'', ''SurveyId'']);
          wave_id = toluna_integer (pick raw [''WaveID'', ''WaveId'']) in
      case survey_id of
        Some _ \<Rightarrow> (survey_id, wave_id)
      | None \<Rightarrow>
          (case py_partition (CHR '':'') (sv_source_key s) of (i, separator, w) \<Rightarrow>
             (parse_int i, if separator \<and> wave_id = None then parse_int w else wave_id)))"

definition save_notification :: "toluna_notification \<Rightarrow> db \<Rightarrow> db" where
  "save_notification n d = d\<lparr>notifications := update_where (\<lambda>m. tn_id m = tn_id n) (\<lambda>_. n) (notifications d)\<rparr>"

definition get_notification :: "db \<Rightarrow> pk \<Rightarrow> toluna_notification option" where
  "get_notification d i = row_by_pk tn_id i (notifications d)"

text \<open>The links of a fresh look, falling back on those the row has.\<close>

definition relinked :: "db \<Rightarrow> notification_links \<Rightarrow> toluna_notification \<Rightarrow> toluna_notification" where
  "relinked d links n =
     (let kept = (case Option.bind (tn_survey n) (get_survey d) of
                    Some s \<Rightarrow> if survey_provider_identity s = (tn_provider_survey_id n, tn_wave_id n)
                               then Some s else None
                  | None \<Rightarrow> None);
          survey = (case lk_survey links of Some s \<Rightarrow> Some s | None \<Rightarrow> kept);
          integration = (case lk_integration links of
                           Some i \<Rightarrow> Some i
                         | None \<Rightarrow> (case Option.bind survey sv_integration of
                                     Some i \<Rightarrow> Some i | None \<Rightarrow> tn_integration n))
      in n\<lparr>tn_survey := map_option sv_id survey,
           tn_attempt := (case lk_attempt links of Some a \<Rightarrow> Some (at_id a) | None \<Rightarrow> tn_attempt n),
           tn_integration := integration\<rparr>)"

definition reconcile_notification ::
  "notification_services \<Rightarrow> bool \<Rightarrow> pk \<Rightarrow> timestamp \<Rightarrow> db \<Rightarrow> py_error + (toluna_notification \<times> db)" where
  "reconcile_notification nv replay_applied i now d =
     (case of_option (DoesNotExist ''TolunaNotification'') (get_notification d i) of
        Inl e \<Rightarrow> Inl e
      | Inr locked \<Rightarrow>
          if tn_applied locked \<and> \<not> replay_applied then Inr (locked, d)
          else (case resolve_links nv d (json_or (tn_raw_payload locked) (JObj [])) of
                  Inl e \<Rightarrow> Inl e
                | Inr links \<Rightarrow>
                    (let n = relinked d links locked in
                     map_sum id
                       (\<lambda>(applied, message, d'). let m = n\<lparr>tn_applied := applied, tn_processing_message := message\<rparr>
                                                in (m, save_notification m d'))
                       (apply_operational_event n now d))))"

section \<open>A delivery\<close>

definition event_type_of_value :: "string \<Rightarrow> event_type option" where
  "event_type_of_value s =
     List.find (\<lambda>ev. event_type_value ev = s)
       [MEMBER_COMPLETE, MEMBER_TERMINATE, ENHANCED_TERMINATION, QUOTA_STATUS, SURVEY_CLOSED, RECONCILIATION]"

definition notification_with_hash :: "db \<Rightarrow> event_type \<Rightarrow> string \<Rightarrow> toluna_notification option" where
  "notification_with_hash d ev hash =
     List.find (\<lambda>n. tn_event_type n = ev \<and> tn_payload_hash n = hash) (notifications d)"

text \<open>Counted again; then applied if it was not before.\<close>

definition deliver_again ::
  "notification_services \<Rightarrow> toluna_notification \<Rightarrow> timestamp \<Rightarrow> db \<Rightarrow> db \<times> (py_error + (toluna_notification \<times> bool))" where
  "deliver_again nv n now d =
     (let m = n\<lparr>tn_duplicate_count := tn_duplicate_count n + 1, tn_last_received_at := now\<rparr>;
          d1 = save_notification m d in
      if tn_applied m then (d1, Inr (m, True))
      else (case reconcile_notification nv False (tn_id m) now d1 of
              Inl e \<Rightarrow> (d1, Inl e)
            | Inr (m', d2) \<Rightarrow> (d2, Inr (m', True))))"

definition deliver_first ::
  "notification_services \<Rightarrow> toluna_notification \<Rightarrow> timestamp \<Rightarrow> db \<Rightarrow> db \<times> (py_error + (toluna_notification \<times> bool))" where
  "deliver_first nv n now d =
     (let d1 = d\<lparr>notifications := notifications d @ [n]\<rparr> in
      case reconcile_notification nv False (tn_id n) now d1 of
        Inl e \<Rightarrow> (d1, Inl e)
      | Inr (m, d2) \<Rightarrow> (d2, Inr (m, False)))"

text \<open>What validation, links and dates raise leaves the database as it was; an error of the
  application leaves the audit row, not applied.\<close>

definition ingest_toluna_notification ::
  "notification_services \<Rightarrow> string \<Rightarrow> json \<Rightarrow> timestamp \<Rightarrow> db \<Rightarrow> db \<times> (py_error + (toluna_notification \<times> bool))" where
  "ingest_toluna_notification nv event p now d =
     (case event_type_of_value event of
        None \<Rightarrow> (d, Inl (TolunaNotificationError ''Unsupported Toluna notification type.''))
      | Some ev \<Rightarrow>
          (case validate_payload ev p of
             Inl e \<Rightarrow> (d, Inl e)
           | Inr _ \<Rightarrow>
               (case resolve_links nv d p of
                  Inl e \<Rightarrow> (d, Inl e)
                | Inr links \<Rightarrow>
                    (let hash = canonical_payload_hash nv ev p (lk_integration links);
                         anonymous = canonical_payload_hash nv ev p None in
                     case provider_datetime nv (occurred_value ev p) of
                       Inl e \<Rightarrow> (d, Inl e)
                     | Inr occurred \<Rightarrow>
                         (case (case notification_with_hash d ev hash of
                                  Some n \<Rightarrow> Some n | None \<Rightarrow> notification_with_hash d ev anonymous) of
                            Some n \<Rightarrow> deliver_again nv n now d
                          | None \<Rightarrow>
                              deliver_first nv
                                (new_notification (next_pk tn_id (notifications d)) ev hash p links occurred now)
                                now d)))))"

section \<open>Reconciling stored notifications in batches\<close>

text \<open>Order by provider time descending with missing times last, then delivery and key descending.\<close>

definition latest_of :: "toluna_notification list \<Rightarrow> toluna_notification option" where
  "latest_of ns =
     foldr (\<lambda>n best. case best of None \<Rightarrow> Some n | Some m \<Rightarrow> if supersedes m n then Some m else Some n) ns None"

text \<open>Equality of two columns in SQL: never between nulls.\<close>

definition sql_eq :: "'a option \<Rightarrow> 'a option \<Rightarrow> bool" where
  "sql_eq x y = (x \<noteq> None \<and> x = y)"

definition same_operational_identity :: "toluna_notification \<Rightarrow> toluna_notification \<Rightarrow> bool" where
  "same_operational_identity m n =
     (tn_event_type m = tn_event_type n \<and> sql_eq (tn_provider_survey_id m) (tn_provider_survey_id n)
      \<and> sql_eq (tn_wave_id m) (tn_wave_id n)
      \<and> (tn_event_type n = QUOTA_STATUS \<longrightarrow> sql_eq (tn_quota_id m) (tn_quota_id n)))"

definition is_latest_applied :: "db \<Rightarrow> toluna_notification \<Rightarrow> bool" where
  "is_latest_applied d n =
     (case latest_of (filter (\<lambda>m. tn_applied m \<and> same_operational_identity m n) (notifications d)) of
        Some m \<Rightarrow> tn_id m = tn_id n | None \<Rightarrow> False)"

definition received_order :: "toluna_notification list \<Rightarrow> toluna_notification list" where
  "received_order ns = sort_key tn_received_at (sort_key tn_id ns)"

definition latest_applied_operational_ids ::
  "db \<Rightarrow> toluna_notification list \<Rightarrow> event_type list \<Rightarrow> nat \<Rightarrow> pk list" where
  "latest_applied_operational_ids d rows event_types limit =
     (let of_type = (\<lambda>ev. map tn_id (received_order
             (filter (\<lambda>n. tn_applied n \<and> tn_event_type n = ev \<and> is_latest_applied d n) rows)));
          wanted = (\<lambda>ev. ev \<in> set event_types \<and> ev \<in> set OPERATIONAL_EVENT_TYPES);
          close_ids = (if wanted SURVEY_CLOSED then take limit (of_type SURVEY_CLOSED) else [])
      in close_ids @ (if wanted QUOTA_STATUS then take (limit - length close_ids) (of_type QUOTA_STATUS) else []))"

text \<open>\<open>order_by("occurred_at", "received_at", "pk")\<close>; missing times come first, as MySQL and SQLite sort them.\<close>

definition pending_order :: "toluna_notification list \<Rightarrow> toluna_notification list" where
  "pending_order ns =
     (let sorted_rows = received_order ns in
      filter (\<lambda>n. tn_occurred_at n = None) sorted_rows
      @ sort_key (\<lambda>n. the (tn_occurred_at n)) (filter (\<lambda>n. tn_occurred_at n \<noteq> None) sorted_rows))"

definition operational_notification_ids ::
  "db \<Rightarrow> toluna_notification list \<Rightarrow> event_type list \<Rightarrow> timestamp option \<Rightarrow> nat \<Rightarrow> pk list" where
  "operational_notification_ids d rows replay_event_types applied_since limit =
     (if limit = 0 then []
      else (let applied_rows = (case applied_since of
                  None \<Rightarrow> rows | Some t \<Rightarrow> filter (\<lambda>n. t \<le> tn_received_at n) rows);
                applied_ids = latest_applied_operational_ids d applied_rows replay_event_types limit;
                pending_ids = take (limit - length applied_ids)
                  (map tn_id (pending_order (filter (\<lambda>n. \<not> tn_applied n) rows)))
            in keep_first (applied_ids @ pending_ids)))"

text \<open>One after the other; an error stops the run, and what was reconciled before it stays.\<close>

fun reconcile_each ::
  "notification_services \<Rightarrow> bool \<Rightarrow> pk list \<Rightarrow> timestamp \<Rightarrow> db \<Rightarrow> db \<times> (py_error + unit)" where
  "reconcile_each nv replay [] now d = (d, Inr ())"
| "reconcile_each nv replay (i # is) now d =
     (case reconcile_notification nv replay i now d of
        Inl e \<Rightarrow> (d, Inl e)
      | Inr (_, d') \<Rightarrow> reconcile_each nv replay is now d')"

definition operational_rows :: "db \<Rightarrow> (int \<times> int) list \<Rightarrow> toluna_notification list" where
  "operational_rows d identities =
     filter (\<lambda>n. tn_event_type n \<in> set OPERATIONAL_EVENT_TYPES
        \<and> (\<exists>(i, w) \<in> set identities. tn_provider_survey_id n = Some i \<and> tn_wave_id n = Some w)) (notifications d)"

definition reconcile_toluna_operational_notifications ::
  "notification_services \<Rightarrow> survey \<Rightarrow> bool \<Rightarrow> timestamp option \<Rightarrow> timestamp \<Rightarrow> db \<Rightarrow> db \<times> (py_error + nat)" where
  "reconcile_toluna_operational_notifications nv s replay_applied applied_since now d =
     (if \<not> is_toluna_survey d s then (d, Inr 0)
      else (case survey_provider_identity s of
              (Some i, Some w) \<Rightarrow>
                (let ids = operational_notification_ids d (operational_rows d [(i, w)])
                             (if replay_applied then OPERATIONAL_EVENT_TYPES else []) applied_since
                             OPERATIONAL_RECONCILE_BATCH_SIZE
                 in case reconcile_each nv replay_applied ids now d of
                      (d', res) \<Rightarrow> (d', map_sum id (\<lambda>_. length ids) res))
            | _ \<Rightarrow> (d, Inr 0)))"

fun chunks_of :: "nat \<Rightarrow> nat \<Rightarrow> 'a list \<Rightarrow> 'a list list" where
  "chunks_of 0 n xs = []"
| "chunks_of (Suc fuel) n xs = (if xs = [] then [] else take n xs # chunks_of fuel n (drop n xs))"

fun reconcile_chunks ::
  "notification_services \<Rightarrow> event_type list \<Rightarrow> timestamp option \<Rightarrow> (int \<times> int) list list \<Rightarrow> nat \<Rightarrow> nat
   \<Rightarrow> timestamp \<Rightarrow> db \<Rightarrow> db \<times> (py_error + nat)" where
  "reconcile_chunks nv types since [] left reconciled now d = (d, Inr reconciled)"
| "reconcile_chunks nv types since (c # cs) left reconciled now d =
     (if left = 0 then (d, Inr reconciled)
      else (let ids = operational_notification_ids d (operational_rows d c) types since left in
            case reconcile_each nv True ids now d of
              (d', Inl e) \<Rightarrow> (d', Inl e)
            | (d', Inr _) \<Rightarrow> reconcile_chunks nv types since cs (left - length ids)
                               (reconciled + length ids) now d'))"

definition known_identities :: "survey list \<Rightarrow> (int \<times> int) list" where
  "known_identities ss =
     concat (map (\<lambda>s. case survey_provider_identity s of (Some i, Some w) \<Rightarrow> [(i, w)] | _ \<Rightarrow> []) ss)"

definition sorted_identities :: "survey list \<Rightarrow> (int \<times> int) list" where
  "sorted_identities ss = sort_key fst (sort_key snd (remdups (known_identities ss)))"

definition reconcile_toluna_operational_notifications_for_surveys ::
  "notification_services \<Rightarrow> survey list \<Rightarrow> event_type list \<Rightarrow> timestamp option \<Rightarrow> timestamp \<Rightarrow> db
   \<Rightarrow> db \<times> (py_error + nat)" where
  "reconcile_toluna_operational_notifications_for_surveys nv ss include_types applied_since now d =
     (let identities = sorted_identities ss in
      reconcile_chunks nv (filter (\<lambda>ev. ev \<in> set OPERATIONAL_EVENT_TYPES) include_types) applied_since
        (chunks_of (length identities) OPERATIONAL_IDENTITY_CHUNK_SIZE identities)
        OPERATIONAL_RECONCILE_BATCH_SIZE 0 now d)"

end
