(* ===== verification/Attempt_Lifecycle.thy ===== *)
theory Attempt_Lifecycle
  imports Prescreener_Submission Reconciliation Toluna_Notifications
begin

text \<open>
  The life of an attempt under the operations that create, redirect and end it.  \<open>attempt_step\<close> is
  one of them succeeding -- entering a survey, reserving, expiring, releasing a prepared invitation,
  the browser callback, the RFG callback and return, a server notification of Toluna, a local ending,
  the reconciliation with the provider -- or any other writer that leaves status, result time and
  length of the interview alone.  Every operation changes the attempts in one of three ways, so the invariants are proved
  for these ways once.
\<close>

section \<open>One attempt's row written\<close>

lemma save_attempt_attempts [simp]:
  "attempts (save_attempt b d) = update_where (\<lambda>row. at_id row = at_id b) (\<lambda>_. b) (attempts d)"
  "reservations (save_attempt b d) = reservations d" "surveys (save_attempt b d) = surveys d"
  by (simp_all add: save_attempt_def update_attempts_def)

lemma save_attempt_ids [simp]: "map at_id (attempts (save_attempt b d)) = map at_id (attempts d)"
  by (simp add: update_where_def)

lemma get_attempt_save:
  "get_attempt (save_attempt b d) i =
     (if i = at_id b then map_option (\<lambda>_. b) (get_attempt d i) else get_attempt d i)"
proof -
  have "row_by_pk at_id i (update_where (\<lambda>row. at_id row = at_id b) (\<lambda>_. b) rows) =
      (if i = at_id b then map_option (\<lambda>_. b) (row_by_pk at_id i rows) else row_by_pk at_id i rows)" for rows
    by (induction rows) (auto simp: row_by_pk_def update_where_def)
  then show ?thesis by (simp add: get_attempt_def)
qed

lemma finalize_attempts:
  "finalize_attempt_capacity d i status now = (r, d') \<Longrightarrow>
   attempts d' = attempts d \<and> surveys d' = surveys d \<and> integrations d' = integrations d"
  by (auto simp: finalize_attempt_capacity_def Let_def update_reservations_def split: option.splits if_splits)

lemma get_attempt_finalized [simp]:
  "get_attempt (snd (finalize_attempt_capacity d i status now)) j = get_attempt d j"
  using finalize_attempts [of d i status now] by (simp add: get_attempt_def) (metis prod.collapse)

text \<open>What every operation leaves alone unless it records a result.\<close>

definition same_result :: "survey_attempt \<Rightarrow> survey_attempt \<Rightarrow> bool" where
  "same_result a b \<longleftrightarrow>
     at_id b = at_id a \<and> at_survey b = at_survey a \<and> at_status b = at_status a
     \<and> at_callback_at b = at_callback_at a \<and> at_loi_seconds b = at_loi_seconds a"

lemma same_result_refl [simp]: "same_result a a"
  by (simp add: same_result_def)

lemma same_result_pending: "same_result a b \<Longrightarrow> is_pending b = is_pending a"
  by (simp add: same_result_def is_pending_def)

definition provider_of :: "db \<Rightarrow> survey_attempt \<Rightarrow> string" where
  "provider_of d a =
     (case attempt_integration d a of Inr ci \<Rightarrow> provider_code_or_innovate ci | Inl _ \<Rightarrow> [])"

text \<open>A row written by an operation: nothing of the result, the redirect of a journey, or its end --
  a first end, or for two providers a later one.\<close>

definition row_change :: "string \<Rightarrow> survey_attempt \<Rightarrow> survey_attempt \<Rightarrow> bool \<Rightarrow> bool" where
  "row_change provider a b closing \<longleftrightarrow>
     at_id b = at_id a \<and> at_survey b = at_survey a
     \<and> (same_result a b
        \<or> (at_status a = INITIATED \<and> at_status b = REDIRECTED \<and> at_callback_at b = at_callback_at a \<and> \<not> closing)
        \<or> (closing \<and> \<not> is_pending b \<and> at_callback_at b \<noteq> None
           \<and> (at_callback_at a = None \<or> is_pending a \<or> provider \<in> {''toluna'', ''rfg''})))"

definition row_written :: "db \<Rightarrow> survey_attempt \<Rightarrow> survey_attempt \<Rightarrow> bool \<Rightarrow> timestamp \<Rightarrow> db \<Rightarrow> bool" where
  "row_written d a b closing now d' \<longleftrightarrow>
     get_attempt d (at_id a) = Some a \<and> row_change (provider_of d a) a b closing
     \<and> d' = (if closing then snd (finalize_attempt_capacity (save_attempt b d) (at_id b) (at_status b) now)
             else save_attempt b d)"

lemma row_writtenI:
  "get_attempt d i = Some a \<Longrightarrow> row_change (provider_of d a) a b closing \<Longrightarrow>
   d' = (if closing then snd (finalize_attempt_capacity (save_attempt b d) (at_id b) (at_status b) now)
         else save_attempt b d) \<Longrightarrow> row_written d a b closing now d'"
  by (auto simp: row_written_def dest: get_attempt_id)

section \<open>The operations as row changes\<close>

lemma status_of_code_SomeD: "status_of_code code = Some st \<Longrightarrow> attempt_status_value st = code"
  unfolding status_of_code_def by (drule find_SomeD) blast

lemma status_code_ends:
  assumes "status_of_code code = Some st" and "code \<in> set (map fst (STATUS_PAGES @ TOLUNA_STATUS_PAGES))"
  shows "st \<noteq> INITIATED \<and> st \<noteq> REDIRECTED"
  using assms(2) status_of_code_SomeD [OF assms(1)]
  by (auto simp: STATUS_PAGES_def TOLUNA_STATUS_PAGES_def)

lemma take_over_fields:
  assumes "take_over_status ws r provider by' status page ip now a = Inr b"
  shows "at_id b = at_id a \<and> at_survey b = at_survey a \<and> at_status b = status \<and> at_callback_at b = Some now"
  using assms by (auto simp: take_over_status_def with_exit_data_def Let_def split: if_splits dest!: spread_keeps)

lemma keep_evidence_same: "keep_evidence ws r by' code now a = Inr b \<Longrightarrow> same_result a b"
  by (auto simp: keep_evidence_def same_result_def split: if_splits dest!: spread_keeps)

lemma applied_callback_change:
  assumes "applied_callback ws r provider by' status page ip now a = Inr b"
    and "status \<noteq> INITIATED" "status \<noteq> REDIRECTED"
  shows "row_change provider a b True"
proof (cases "at_callback_at a = None \<or> provider = ''toluna''")
  case True
  then obtain c e where c: "take_over_status ws r provider by' status page ip now a = Inr c"
    and e: "keep_evidence ws r by' (attempt_status_value status) now c = Inr e"
    and b: "b = e\<lparr>at_last_callback_at := Some now, at_callback_count := at_callback_count e + 1, at_updated_at := now\<rparr>"
    using assms(1) by (auto simp: applied_callback_def split: sum.splits dest!: spread_keeps)
  show ?thesis
    using take_over_fields [OF c] keep_evidence_same [OF e] True assms(2,3)
    unfolding b row_change_def same_result_def is_pending_def by auto
next
  case False
  then obtain e where e: "keep_evidence ws r by' (attempt_status_value status) now a = Inr e"
    and b: "b = e\<lparr>at_last_callback_at := Some now, at_callback_count := at_callback_count e + 1, at_updated_at := now\<rparr>"
    using assms(1) by (auto simp: applied_callback_def dest!: spread_keeps)
  show ?thesis
    using keep_evidence_same [OF e] unfolding b row_change_def same_result_def by auto
qed

lemma record_callback_cases:
  assumes "record_callback ws r provider by' status page ip now i d = Inr (x, d')"
    and "status \<noteq> INITIATED" "status \<noteq> REDIRECTED"
  obtains (same) "d' = d" "\<And>b. x \<noteq> Applied b"
  | (applied) a b where "x = Applied b" "get_attempt d i = Some a" "row_change provider a b True" "at_id b = i"
      "d' = snd (finalize_attempt_capacity (save_attempt b d) (at_id b) (at_status b) now)"
proof -
  obtain a where a: "get_attempt d i = Some a"
    using assms(1) by (auto simp: record_callback_def split: sum.splits)
  consider (quiet) "d' = d" "\<And>b. x \<noteq> Applied b"
    | (row) b where "applied_callback ws r provider by' status page ip now a = Inr b"
        "x = Applied b" "d' = snd (finalize_attempt_capacity (save_attempt b d) i (at_status b) now)"
    using assms(1) a by (auto simp: record_callback_def split: if_splits dest!: spread_keeps)
  then show thesis
  proof cases
    case quiet
    then show thesis by (rule same)
  next
    case row
    from applied_callback_change [OF row(1) assms(2,3)] have "row_change provider a b True" .
    moreover from this get_attempt_id [OF a] have "at_id b = i" by (simp add: row_change_def)
    ultimately show thesis using applied a row by simp
  qed
qed

lemma resolved_attempt_row:
  "resolve_status_attempt d ids = Some a \<Longrightarrow> a \<in> set (attempts d)"
  by (auto simp: resolve_status_attempt_def anchored_attempts_def newest_with_profile_def Let_def
      filter_eq_Cons_iff split: if_splits list.splits dest!: arg_cong [of "sort_key _ _" _ set])

lemma row_lookup:
  "unique_by at_id (attempts d) \<Longrightarrow> a \<in> set (attempts d) \<Longrightarrow> get_attempt d (at_id a) = Some a"
  by (simp add: get_attempt_def row_by_pk_unique unique_by_def)

text \<open>The browser callback changes the database only by recording a result it has authenticated.\<close>

lemma handle_status_cases:
  assumes "handle_status_callback ws d r status_code a integration notification now = (d', res)"
  obtains (same) "d' = d"
  | (recorded) by' status page x where
      "authenticate_callback ws d r integration (provider_code_or_innovate integration) False = Inr (Inr by')"
      "status_of_code status_code = Some status"
      "status_code \<in> set (map fst (STATUS_PAGES @ TOLUNA_STATUS_PAGES))"
      "record_callback ws r (provider_code_or_innovate integration) by' status page (request_ip ws r) now (at_id a) d
         = Inr (x, d')"
      "\<And>b. x = Applied b \<Longrightarrow> res = after_recording ws d' b True (provider_code_or_innovate integration)
         status_code page (request_ip ws r)"
proof -
  let ?p = "provider_code_or_innovate integration"
  let ?c = "canonical_query r status_code a ?p notification"
  have key: "map_of l k = Some v \<Longrightarrow> k \<in> fst ` set l" for l :: "(string \<times> status_page) list" and k v
    by (metis map_of_SomeD image_eqI fst_conv)
  from assms consider "d' = d"
    | status page by' where "\<not> ?c" "status_of_code status_code = Some status"
        "map_of (if ?p = ''toluna'' then TOLUNA_STATUS_PAGES else STATUS_PAGES) status_code = Some page"
        "authenticate_callback ws d r integration ?p ?c = Inr (Inr by')"
        "(case record_callback ws r ?p by' status page (request_ip ws r) now (at_id a) d of
                             Inl e \<Rightarrow> (d, Inl e)
                           | Inr (Refused, d') \<Rightarrow> (d', Inr (Error_Page 409))
                           | Inr (Replayed b, d') \<Rightarrow>
                               (d', after_recording ws d' b False ?p status_code page (request_ip ws r))
                           | Inr (Applied b, d') \<Rightarrow>
                               (d', after_recording ws d' b True ?p status_code page (request_ip ws r))) = (d', res)"
    unfolding handle_status_callback_def Let_def
    by (auto split: if_split_asm option.split_asm sum.split_asm)
  then show thesis
  proof cases
    case 1
    then show thesis by (rule same)
  next
    case (2 status page by')
    show thesis
    proof (cases "record_callback ws r ?p by' status page (request_ip ws r) now (at_id a) d")
      case (Inl e)
      with 2(5) have "d' = d" by simp
      then show thesis by (rule same)
    next
      case (Inr xd)
      obtain x d1 where xd: "xd = (x, d1)" by (cases xd)
      with Inr 2(5) have "d1 = d'" and res: "\<And>b. x = Applied b \<Longrightarrow> res = after_recording ws d' b True ?p
          status_code page (request_ip ws r)"
        by (auto split: recording.splits)
      with Inr xd have rec: "record_callback ws r ?p by' status page (request_ip ws r) now (at_id a) d = Inr (x, d')"
        by simp
      have "authenticate_callback ws d r integration ?p False = Inr (Inr by')" using 2(1,4) by simp
      moreover have "status_code \<in> set (map fst (STATUS_PAGES @ TOLUNA_STATUS_PAGES))"
        using 2(3) by (auto split: if_split_asm dest!: key)
      ultimately show thesis using recorded 2(2) rec res by blast
    qed
  qed
qed

lemma survey_status_cases:
  assumes "survey_status ws d r now = (d', res)"
  obtains (same) "d' = d"
  | (recorded) a integration by' status page x where
      "resolve_status_attempt d (status_identifiers_from_request r) = Some a"
      "attempt_integration d a = Inr integration" "\<not> duplicate_security_parameters r"
      "authenticate_callback ws d r integration (provider_code_or_innovate integration) False = Inr (Inr by')"
      "status_of_code (param_text r ''status'') = Some status" "status \<noteq> INITIATED" "status \<noteq> REDIRECTED"
      "record_callback ws r (provider_code_or_innovate integration) by' status page (request_ip ws r) now (at_id a) d
         = Inr (x, d')"
      "\<And>b. x = Applied b \<Longrightarrow> res = after_recording ws d' b True (provider_code_or_innovate integration)
         (param_text r ''status'') page (request_ip ws r)"
proof -
  from assms consider "d' = d"
    | a integration notification where "resolve_status_attempt d (status_identifiers_from_request r) = Some a"
        "attempt_integration d a = Inr integration" "\<not> duplicate_security_parameters r"
        "handle_status_callback ws d r (param_text r ''status'') a integration notification now = (d', res)"
    by (auto simp: survey_status_def Let_def split: if_splits option.splits sum.splits)
  then show thesis
  proof cases
    case 1
    then show thesis by (rule same)
  next
    case (2 a integration notification)
    from 2(4) show thesis
    proof (cases rule: handle_status_cases)
      case same
      then show thesis by (rule that(1))
    next
      case (recorded by' status page x)
      with status_code_ends [OF recorded(2,3)] 2 that(2) show thesis by blast
    qed
  qed
qed

lemma survey_status_row:
  assumes "survey_status ws d r now = (d', res)" and "unique_by at_id (attempts d)"
  obtains (same) "d' = d" | (written) a b where "row_written d a b True now d'"
  using assms(1)
proof (cases rule: survey_status_cases)
  case same
  then show thesis by (rule that(1))
next
  case (recorded a integration by' status page x)
  have a: "get_attempt d (at_id a) = Some a"
    using resolved_attempt_row [OF recorded(1)] assms(2) by (simp add: row_lookup)
  have p: "provider_of d a = provider_code_or_innovate integration"
    using recorded(2) by (simp add: provider_of_def)
  from recorded(8) recorded(6,7) show thesis
  proof (cases rule: record_callback_cases)
    case same
    then show thesis by (simp add: that(1))
  next
    case (applied a' b)
    then have "a' = a" using a by simp
    with applied p a show thesis by (intro that(2) [of a b]) (simp add: row_written_def)
  qed
qed

lemma rfg_status_ends: "map_of RFG_STATUS_MAP code = Some st \<Longrightarrow> st \<noteq> INITIATED \<and> st \<noteq> REDIRECTED"
  by (auto simp: RFG_STATUS_MAP_def RFG_RESULT_DETAILS_def split: if_splits)

lemma rfg_attemptD:
  "rfg_attempt d rid = Some (a, ci) \<Longrightarrow> a \<in> set (attempts d) \<and> provider_of d a = ''rfg''"
  by (auto simp: rfg_attempt_def provider_of_def provider_code_or_innovate_def
      split: option.splits sum.splits dest!: find_SomeD)

lemma rfg_callback_row_written:
  assumes "rfg_callback ws d r now = (d', res)" and "unique_by at_id (attempts d)"
  obtains (same) "d' = d" | (written) a b where "row_written d a b True now d'"
proof -
  from assms(1) consider "d' = d"
    | a ci status b where "rfg_attempt d (status_rid_from_request r) = Some (a, ci)"
        "map_of RFG_STATUS_MAP (param_text r ''result'') = Some status"
        "rfg_callback_row ws r status now a = Inr b"
        "d' = snd (finalize_attempt_capacity (save_attempt b d) (at_id b) status now)"
    unfolding rfg_callback_def
    by (auto split: if_split_asm option.split_asm sum.split_asm bool.split_asm prod.split_asm)
  then show thesis
  proof cases
    case 1
    then show thesis by (rule same)
  next
    case (2 a ci status b)
    from 2(3) have b: "at_id b = at_id a" "at_survey b = at_survey a" "at_status b = status" "at_callback_at b \<noteq> None"
      by (auto simp: rfg_callback_row_def split: option.splits dest!: spread_keeps)
    have "row_change (provider_of d a) a b True"
      using b rfg_status_ends [OF 2(2)] rfg_attemptD [OF 2(1)] by (simp add: row_change_def is_pending_def)
    moreover have "get_attempt d (at_id a) = Some a"
      using rfg_attemptD [OF 2(1)] assms(2) by (simp add: row_lookup)
    ultimately show thesis using 2(4) b(3) by (intro written [of a b]) (simp add: row_written_def)
  qed
qed

lemma rfg_result_row_written:
  assumes "rfg_result ws d r now = (d', res)" and "unique_by at_id (attempts d)"
  obtains (same) "d' = d" | (written) a b where "row_written d a b False now d'"
proof -
  from assms(1) consider "d' = d"
    | a ci b where "rfg_attempt d (status_rid_from_request r) = Some (a, ci)"
        "rfg_return_row r now a = Inr b" "d' = save_attempt b d"
    unfolding rfg_result_def by (auto split: option.split_asm sum.split_asm prod.split_asm)
  then show thesis
  proof cases
    case 1
    then show thesis by (rule same)
  next
    case (2 a ci b)
    from 2(2) have "same_result a b"
      by (auto simp: rfg_return_row_def with_exit_data_def same_result_def dest!: spread_keeps)
    moreover have "get_attempt d (at_id a) = Some a"
      using rfg_attemptD [OF 2(1)] assms(2) by (simp add: row_lookup)
    ultimately show thesis using 2(3)
      by (intro written [of a b]) (simp add: row_written_def row_change_def same_result_def)
  qed
qed

lemma finish_locally_row:
  assumes "finish_locally ws r client_data status source entries answers now i d = Inr (b, d')"
    and "status \<noteq> INITIATED" "status \<noteq> REDIRECTED"
  obtains (same) "d' = d" "get_attempt d i = Some b" "at_status b \<noteq> INITIATED"
  | (written) a where "row_written d a b True now d'" "at_status a = INITIATED" "at_id a = i"
      "at_status b = status" "at_status_source b = source"
proof -
  from assms(1) obtain a where a: "get_attempt d i = Some a"
    and alt: "(at_status a \<noteq> INITIATED \<and> b = a \<and> d' = d)
      \<or> (at_status a = INITIATED \<and> local_ending ws r client_data status source entries answers now a = Inr b
         \<and> d' = snd (finalize_attempt_capacity (save_attempt b d) i status now))"
    by (auto simp: finish_locally_def split: sum.splits if_splits dest!: spread_keeps)
  from alt show thesis
  proof (elim disjE conjE)
    assume "at_status a \<noteq> INITIATED" "b = a" "d' = d"
    with a same show thesis by blast
  next
    assume ini: "at_status a = INITIATED"
      and b: "local_ending ws r client_data status source entries answers now a = Inr b"
      and d': "d' = snd (finalize_attempt_capacity (save_attempt b d) i status now)"
    from b have f: "at_id b = at_id a" "at_survey b = at_survey a" "at_status b = status"
        "at_callback_at b \<noteq> None" "at_status_source b = source"
      by (auto simp: local_ending_def with_exit_data_def dest!: spread_keeps)
    have "row_change (provider_of d a) a b True"
      using f assms(2,3) ini by (simp add: row_change_def is_pending_def)
    with a f d' get_attempt_id [OF a] ini show thesis
      by (intro written [of a]) (simp_all add: row_written_def)
  qed
qed

lemma redirect_row:
  assumes "redirect_transaction ss provider answers now i d = Inr (response, d')"
  obtains (same) "d' = d" "\<And>url. response \<noteq> Sent_Out url"
  | (written) a b url where "row_written d a b False now d'" "response = Sent_Out url" "get_attempt d i = Some a"
      "at_status a = INITIATED" "at_status b = REDIRECTED" "at_outbound_url b = url" "d' = save_attempt b d" "at_id b = i"
      "at_submitted_at b \<noteq> None"
      "provider \<noteq> ''toluna'' \<longrightarrow> at_answers b = operational_answer_value (ss_vault_enabled ss) answers"
proof -
  from assms obtain a s where a: "get_attempt d i = Some a" and s: "get_survey d (at_survey a) = Some s"
    by (auto simp: redirect_transaction_def split: option.splits)
  note run = assms [unfolded redirect_transaction_def a s option.simps]
  have row: "row_written d a b False now (save_attempt b d)"
    if "at_id b = at_id a" "at_survey b = at_survey a" "at_status a = INITIATED" "at_status b = REDIRECTED"
      "at_callback_at b = at_callback_at a" for b
    using a that by (intro row_writtenI) (simp_all add: row_change_def)
  show thesis
  proof (cases "at_status a = INITIATED")
    case False
    with run show thesis by (intro same) auto
  next
    case True
    show thesis
    proof (cases "provider = ''toluna'' \<and> at_submitted_at a \<noteq> None \<and> at_outbound_url a \<noteq> []")
      case prepared: True
      let ?b = "a\<lparr>at_redirected_at := Some now, at_status := REDIRECTED, at_updated_at := now\<rparr>"
      have out: "response = Sent_Out (at_outbound_url a)" "d' = save_attempt ?b d" using run True prepared by simp_all
      have "row_written d a ?b False now d'" unfolding out by (rule row) (simp_all add: True)
      from written [OF this out(1) a True] show thesis using out(2) get_attempt_id [OF a] prepared by simp
    next
      case fresh: False
      with run True have "\<not> (provider = ''toluna'' \<and> sv_detail_synced_at s = None)" by (auto split: if_splits)
      with run True fresh obtain out where out: "response = Sent_Out (po_url out)"
        "d' = save_attempt (sent_out_row answers (ss_vault_enabled ss) out now a) d"
        by (auto dest!: spread_keeps)
      have "row_written d a (sent_out_row answers (ss_vault_enabled ss) out now a) False now d'"
        unfolding out by (rule row) (simp_all add: True sent_out_row_def)
      from written [OF this out(1) a True] show thesis using out(2) get_attempt_id [OF a] by (simp add: sent_out_row_def)
    qed
  qed
qed

lemma release_row:
  assumes "release_prepared_toluna_invite i now d = Inr (url, d')"
  obtains (same) "d' = d" | (written) a b where "row_written d a b False now d'"
proof -
  from assms obtain a where a: "get_attempt d i = Some a"
    and "d' = d \<or> (at_status a = INITIATED
      \<and> d' = save_attempt (a\<lparr>at_redirected_at := Some now, at_status := REDIRECTED, at_updated_at := now\<rparr>) d)"
    by (auto simp: release_prepared_toluna_invite_def split: sum.splits if_splits)
  then show thesis
  proof (elim disjE conjE)
    assume "d' = d"
    then show thesis by (rule same)
  next
    assume "at_status a = INITIATED"
      "d' = save_attempt (a\<lparr>at_redirected_at := Some now, at_status := REDIRECTED, at_updated_at := now\<rparr>) d"
    with a get_attempt_id [OF a] show thesis
      by (intro written [of a "a\<lparr>at_redirected_at := Some now, at_status := REDIRECTED, at_updated_at := now\<rparr>"])
        (auto simp: row_written_def row_change_def)
  qed
qed

lemma reconciled_change:
  "row_change p a (reconciled_attempt ip_text parse upstream t a)
     (transaction_status (dict_get upstream ''status'') \<noteq> None)"
proof (cases "transaction_status (dict_get upstream ''status'')")
  case None
  then show ?thesis
    by (simp add: reconciled_attempt_def Let_def row_change_def same_result_def)
next
  case (Some status)
  have "status \<noteq> INITIATED \<and> status \<noteq> REDIRECTED"
    using Some by (auto simp: transaction_status_def Let_def split: if_splits)
  with Some show ?thesis
    by (simp add: reconciled_attempt_def Let_def row_change_def same_result_def is_pending_def)
qed

lemma reconcile_row:
  assumes "reconcile_attempt_status ip_text parse rows a t d = Inr (terminal, d')"
  obtains old b where "row_written d old b terminal t d'" "at_id old = at_id a"
proof -
  let ?up = "attempt_transaction parse (at_rid a) rows"
  from assms obtain old where old: "get_attempt d (at_id a) = Some old"
    and out: "terminal \<longleftrightarrow> transaction_status (dict_get ?up ''status'') \<noteq> None"
      "d' = (if terminal then snd (finalize_attempt_capacity
                (save_attempt (reconciled_attempt ip_text parse ?up t old) d)
                (at_id (reconciled_attempt ip_text parse ?up t old))
                (at_status (reconciled_attempt ip_text parse ?up t old)) t)
             else save_attempt (reconciled_attempt ip_text parse ?up t old) d)"
    by (auto simp: reconcile_attempt_status_def Let_def split: sum.splits)
  show thesis
    using that [of old "reconciled_attempt ip_text parse ?up t old"] old out reconciled_change
      get_attempt_id [OF old] by (simp add: row_written_def)
qed

text \<open>A server notification that is linked to a journey of Toluna.\<close>

definition toluna_journey :: "db \<Rightarrow> toluna_notification \<Rightarrow> bool" where
  "toluna_journey d n \<longleftrightarrow>
     (\<forall>i a. tn_attempt n = Some i \<longrightarrow> get_attempt d i = Some a \<longrightarrow> provider_of d a = ''toluna'')"

lemma attempt_status_for_ends: "attempt_status_for n = Some st \<Longrightarrow> st \<noteq> INITIATED \<and> st \<noteq> REDIRECTED"
  by (auto simp: attempt_status_for_def termination_status_def TERMINATION_STATUS_MAP_def
      split: event_type.splits if_splits option.splits dest!: map_of_SomeD)

lemma apply_attempt_event_cases:
  assumes "apply_attempt_event n now d = Inr (applied, message, d')"
  obtains (same) "d' = d" "\<not> applied"
  | (written) i a status b where "tn_attempt n = Some i" "get_attempt d i = Some a"
      "attempt_status_for n = Some status" "notified_row n status now a = Inr b" "applied"
      "\<not> (at_status a = COMPLETED \<and> tn_event_type n \<notin> {MEMBER_COMPLETE, RECONCILIATION})"
      "d' = snd (finalize_attempt_capacity (save_attempt b d) (at_id b) (at_status b) now)"
proof (cases "tn_attempt n")
  case None
  with assms show thesis by (intro same) (simp_all add: apply_attempt_event_def)
next
  case (Some i)
  then obtain a where a: "get_attempt d i = Some a"
    using assms by (cases "get_attempt d i") (simp_all add: apply_attempt_event_def)
  note run = assms [unfolded apply_attempt_event_def Some a option.simps of_option_simps sum.simps]
  show thesis
  proof (cases "attempt_status_for n")
    case None
    with run show thesis by (intro same) simp_all
  next
    case status: (Some status)
    show thesis
    proof (cases "at_status a = COMPLETED \<and> tn_event_type n \<notin> {MEMBER_COMPLETE, RECONCILIATION}")
      case True
      with run status show thesis by (intro same) simp_all
    next
      case False
      from run [unfolded status option.simps if_not_P [OF False]] obtain b where
        "notified_row n status now a = Inr b" "applied"
        "d' = snd (finalize_attempt_capacity (save_attempt b d) (at_id b) (at_status b) now)"
        by (auto dest!: spread_keeps)
      with Some a status False show thesis by (intro written)
    qed
  qed
qed

lemma apply_attempt_event_row:
  assumes "apply_attempt_event n now d = Inr (applied, message, d')" and "toluna_journey d n"
  obtains (same) "d' = d" "\<not> applied"
  | (written) a b where "row_written d a b True now d'" "applied" "tn_attempt n = Some (at_id a)"
      "get_attempt d (at_id a) = Some a"
      "\<not> (at_status a = COMPLETED \<and> tn_event_type n \<notin> {MEMBER_COMPLETE, RECONCILIATION})"
  using assms(1)
proof (cases rule: apply_attempt_event_cases)
  case same
  then show thesis by (rule that(1))
next
  case (written i a status b)
  have b: "at_id b = at_id a" "at_survey b = at_survey a" "at_status b = status" "at_callback_at b \<noteq> None"
    using written(4) by (auto simp: notified_row_def Let_def dest!: spread_keeps)
  have "row_change (provider_of d a) a b True"
    using b attempt_status_for_ends [OF written(3)] assms(2) written(1,2)
    by (simp add: row_change_def is_pending_def toluna_journey_def)
  with written b get_attempt_id [OF written(2)] show thesis by (intro that(2) [of a b]) (simp_all add: row_written_def)
qed

section \<open>The invariant\<close>

text \<open>An attempt has a result time exactly when it has ended; a reservation is open only while its
  attempt is under way.\<close>

definition open_reservations_pending :: "db \<Rightarrow> bool" where
  "open_reservations_pending d \<longleftrightarrow>
     (\<forall>q \<in> set (reservations d). ar_status q = RESERVED \<longrightarrow>
        (\<forall>a \<in> set (attempts d). at_id a = ar_attempt q \<longrightarrow> is_pending a))"

definition attempts_ok :: "db \<Rightarrow> bool" where
  "attempts_ok d \<longleftrightarrow>
     unique_by at_id (attempts d) \<and> reservations_ok d
     \<and> (\<forall>a \<in> set (attempts d). at_callback_at a = None \<longleftrightarrow> is_pending a)
     \<and> open_reservations_pending d"

lemma attempts_okD:
  assumes "attempts_ok d" and "get_attempt d i = Some a"
  shows "at_callback_at a = None \<longleftrightarrow> is_pending a" "a \<in> set (attempts d)"
  using assms by (auto simp: attempts_ok_def get_attempt_def dest: row_by_pk_Some)

lemma unique_save: "unique_by at_id (attempts d) \<Longrightarrow> unique_by at_id (attempts (save_attempt b d))"
  by (simp only: unique_by_def save_attempt_ids)

lemma reservations_ok_save [simp]: "reservations_ok (save_attempt b d) = reservations_ok d"
  by (simp add: reservations_ok_def)

lemma finalize_reservations_ok:
  "reservations_ok d \<Longrightarrow> reservations_ok (snd (finalize_attempt_capacity d i status now))"
  using reservation_step.finalize [of d i status now] reservation_step_ok
  by (metis prod.collapse)

text \<open>After finalising, the attempt's reservation is not open; the others are as they were.\<close>

lemma finalize_closes:
  assumes "reservations_ok d" and "q \<in> set (reservations (snd (finalize_attempt_capacity d i status now)))"
    and "ar_status q = RESERVED"
  shows "q \<in> set (reservations d) \<and> ar_attempt q \<noteq> i"
proof -
  obtain x d' where fin: "finalize_attempt_capacity d i status now = (x, d')"
    by (cases "finalize_attempt_capacity d i status now")
  have owner: "p = p'" if "p \<in> set (reservations d)" "p' \<in> set (reservations d)" "ar_attempt p = ar_attempt p'" for p p'
    using that assms(1) by (auto simp: reservations_ok_def reservations_unique_def unique_by_def distinct_map
        dest: inj_onD)
  from fin show ?thesis
  proof (cases rule: finalize_cases)
    case same
    have "q \<in> set (reservations d)" using assms(2) fin same(3) by simp
    moreover have "ar_attempt q \<noteq> i"
    proof
      assume "ar_attempt q = i"
      with \<open>q \<in> set (reservations d)\<close> obtain p where p: "reservation_of_attempt d i = Some p"
        unfolding reservation_of_attempt_def
        by (metis (mono_tags) find_None_iff option.exhaust)
      then have "p \<in> set (reservations d)" "ar_attempt p = i"
        by (auto simp: reservation_of_attempt_def dest: find_SomeD)
      with owner \<open>q \<in> set (reservations d)\<close> \<open>ar_attempt q = i\<close> have "p = q" by blast
      with p same(1,2) assms(3) show False by simp
    qed
    ultimately show ?thesis by blast
  next
    case (closed p st why)
    have p: "p \<in> set (reservations d)" "ar_attempt p = i"
      using closed(1) by (auto simp: reservation_of_attempt_def dest: find_SomeD)
    have "st \<noteq> RESERVED" using closed(3) by simp
    with assms(2,3) fin closed(5) have q: "q \<in> set (reservations d)" "ar_id q \<noteq> ar_id p"
      by (auto simp: update_reservations_def set_update_where)
    moreover from this p owner have "ar_attempt q \<noteq> i" by metis
    ultimately show ?thesis by blast
  qed
qed

lemma row_change_ends:
  assumes "row_change p a b closing" and "at_callback_at a = None \<longleftrightarrow> is_pending a"
  shows "at_callback_at b = None \<longleftrightarrow> is_pending b" "\<not> closing \<Longrightarrow> is_pending b = is_pending a"
  using assms by (auto simp: row_change_def same_result_def is_pending_def)

lemma row_written_attempts:
  assumes "row_written d a b closing now d'"
  shows "attempts d' = attempts (save_attempt b d)"
  using assms finalize_attempts [of "save_attempt b d" "at_id b" "at_status b" now]
  by (auto simp: row_written_def split: if_splits) (metis prod.collapse)+

lemma row_written_ok:
  assumes w: "row_written d a b closing now d'" and ok: "attempts_ok d"
  shows "attempts_ok d'"
proof -
  have a: "get_attempt d (at_id a) = Some a" and c: "row_change (provider_of d a) a b closing"
    using w by (simp_all add: row_written_def)
  have id: "at_id b = at_id a" using c by (simp add: row_change_def)
  note ends = row_change_ends [OF c attempts_okD(1) [OF ok a]]
  have rows: "attempts d' = attempts (save_attempt b d)" by (rule row_written_attempts [OF w])
  have res: "reservations_ok d'"
    using w ok finalize_reservations_ok [of "save_attempt b d"] by (auto simp: row_written_def attempts_ok_def)
  have ended: "\<forall>x \<in> set (attempts d'). at_callback_at x = None \<longleftrightarrow> is_pending x"
    unfolding rows using ok ends(1) by (auto simp: attempts_ok_def set_update_where)
  have open_q: "open_reservations_pending d'"
    unfolding open_reservations_pending_def
  proof (intro ballI impI)
    fix q x
    assume q: "q \<in> set (reservations d')" "ar_status q = RESERVED"
      and x: "x \<in> set (attempts d')" "at_id x = ar_attempt q"
    have old: "is_pending y" if "y \<in> set (attempts d)" "at_id y = ar_attempt q" "q \<in> set (reservations d)" for y
      using that q(2) ok by (auto simp: attempts_ok_def open_reservations_pending_def)
    have aset: "a \<in> set (attempts d)" using attempts_okD(2) [OF ok a] .
    show "is_pending x"
    proof (cases closing)
      case True
      then have "d' = snd (finalize_attempt_capacity (save_attempt b d) (at_id b) (at_status b) now)"
        using w by (simp add: row_written_def)
      with q finalize_closes [of "save_attempt b d"] ok
      have "q \<in> set (reservations d)" "ar_attempt q \<noteq> at_id b" by (auto simp: attempts_ok_def)
      with x rows old show ?thesis by (auto simp: set_update_where split: if_splits)
    next
      case False
      then have "q \<in> set (reservations d)" using q w by (simp add: row_written_def)
      with x rows old [of x] old [OF aset] ends(2) [OF False] id show ?thesis
        by (auto simp: set_update_where)
    qed
  qed
  show ?thesis
    using ok res ended open_q unique_save [of d b] by (simp only: attempts_ok_def rows simp_thms)
qed

section \<open>Writers that leave results alone\<close>

definition quiet_change :: "db \<Rightarrow> db \<Rightarrow> bool" where
  "quiet_change d d' \<longleftrightarrow>
     list_all2 same_result (attempts d) (attempts d') \<and> reservations d' = reservations d
     \<and> (\<forall>a. attempt_integration d' a = attempt_integration d a)"

lemma quiet_ids: "list_all2 same_result xs ys \<Longrightarrow> map at_id ys = map at_id xs"
  by (induction rule: list_all2_induct) (auto simp: same_result_def)

lemma quiet_rows:
  "list_all2 same_result xs ys \<Longrightarrow> b \<in> set ys \<Longrightarrow> \<exists>a \<in> set xs. same_result a b"
  by (induction rule: list_all2_induct) auto

lemma quiet_lookup:
  assumes "list_all2 same_result (attempts d) (attempts d')" and "get_attempt d i = Some a"
  shows "\<exists>b. get_attempt d' i = Some b \<and> same_result a b"
proof -
  have "List.find (\<lambda>r. at_id r = i) xs = Some a \<Longrightarrow>
      \<exists>b. List.find (\<lambda>r. at_id r = i) ys = Some b \<and> same_result a b"
    if "list_all2 same_result xs ys" for xs ys
    using that by (induction rule: list_all2_induct) (auto simp: same_result_def split: if_splits)
  with assms show ?thesis by (simp add: get_attempt_def row_by_pk_def)
qed

lemma quiet_ok:
  assumes "quiet_change d d'" and ok: "attempts_ok d"
  shows "attempts_ok d'"
proof -
  have rows: "list_all2 same_result (attempts d) (attempts d')" and res: "reservations d' = reservations d"
    using assms(1) by (simp_all add: quiet_change_def)
  have ended: "\<forall>b \<in> set (attempts d'). at_callback_at b = None \<longleftrightarrow> is_pending b"
    using quiet_rows [OF rows] ok by (fastforce simp: attempts_ok_def same_result_def is_pending_def)
  have "open_reservations_pending d'"
    unfolding open_reservations_pending_def res
  proof (intro ballI impI)
    fix q b
    assume q: "q \<in> set (reservations d)" "ar_status q = RESERVED" and b: "b \<in> set (attempts d')" "at_id b = ar_attempt q"
    obtain a where a: "a \<in> set (attempts d)" "same_result a b" using quiet_rows [OF rows b(1)] by blast
    then have "is_pending a" using q b(2) ok
      by (auto simp: attempts_ok_def open_reservations_pending_def same_result_def)
    with a(2) show "is_pending b" by (simp add: same_result_pending)
  qed
  with ended ok res quiet_ids [OF rows] show ?thesis
    by (simp add: attempts_ok_def reservations_ok_def unique_by_def)
qed

lemma attempt_integration_frame:
  assumes "surveys d' = surveys d" and "integrations d' = integrations d"
  shows "attempt_integration d' a = attempt_integration d a"
  unfolding attempt_integration_def get_survey_def get_integration_def assms ..

lemma update_attempts_integrations [simp]:
  "integrations (update_attempts P f d) = integrations d"
  by (simp add: update_attempts_def)

lemma quiet_update:
  "(\<And>a. same_result a (f a)) \<Longrightarrow> quiet_change d (update_attempts P f d)"
  unfolding quiet_change_def
  by (intro conjI allI attempt_integration_frame)
    (simp_all add: update_attempts_def update_where_def list_all2_map2 list_all2_same)

text \<open>The entry audit, the delivery records of \<open>surveys/supplier_callbacks.py\<close>, the frozen delivery
  settings and the marks of the reconciliation task are such writers.\<close>

lemma backfill_quiet:
  "backfill_attempt_entry_audit ip_text trust r a d = (b, d') \<Longrightarrow> quiet_change d d'"
  by (auto simp: backfill_attempt_entry_audit_def Let_def write_entry_audit_def same_result_def
      intro!: quiet_update)

lemma save_delivery_quiet: "quiet_change d (save_delivery i record' now d)"
  unfolding save_delivery_def by (rule quiet_update) (simp add: same_result_def put_delivery_def)

lemma with_delivery_quiet: "quiet_change d (with_delivery key s i d)"
proof (cases key)
  case None
  then show ?thesis by (simp add: with_delivery_def quiet_change_def list_all2_same)
next
  case (Some k)
  then show ?thesis unfolding with_delivery_def by (simp add: quiet_update same_result_def)
qed

section \<open>New attempts and reservations\<close>

lemma create_attempt_cases:
  assumes "create_attempt ip_literal draws d s u ip client_data now = Inr (a, d')"
  shows "d' = d\<lparr>attempts := attempts d @ [a]\<rparr> \<and> at_id a = next_pk at_id (attempts d)
    \<and> at_status a = INITIATED \<and> at_callback_at a = None \<and> at_survey a = sv_id s \<and> at_loi_seconds a = None
    \<and> at_upstream_transaction_data a = JObj [] \<and> at_status_source a = [] \<and> at_initiation_ip a = ip"
proof -
  have "create_attempt_tries ids d row_for = Inr (a, d') \<Longrightarrow>
      d' = d\<lparr>attempts := attempts d @ [a]\<rparr> \<and> (\<exists>i. a = row_for i)" for ids row_for
    by (induction ids) (auto split: if_splits)
  with assms show ?thesis
    by (fastforce simp: create_attempt_def new_attempt_def split: sum.splits)
qed

lemma added_attempt_ok:
  assumes ok: "attempts_ok d" and a: "at_id a = next_pk at_id (attempts d)" "at_status a = INITIATED" "at_callback_at a = None"
  shows "attempts_ok (d\<lparr>attempts := attempts d @ [a]\<rparr>)"
proof -
  have "unique_by at_id (attempts d @ [a])"
    using ok a(1) next_pk_fresh [of at_id "attempts d"] by (intro unique_insert) (simp_all add: attempts_ok_def)
  with ok a(2,3) show ?thesis
    by (auto simp: attempts_ok_def open_reservations_pending_def reservations_ok_def is_pending_def)
qed

lemma snapshot_same: "same_result a (snapshot_attempt d s ca sa pct a)"
  by (simp add: same_result_def snapshot_attempt_def)

lemma reserve_attempts_ok:
  assumes run: "reserve_attempt_capacity d i sa ca expires ttl now = Inr (r, d')" and ok: "attempts_ok d"
    and a: "get_attempt d i = Some a" "is_pending a"
  shows "attempts_ok d'"
  using run
proof (cases rule: reserve_cases)
  case old
  with ok show ?thesis by simp
next
  case (new att s vendor cl cal sal pct)
  let ?d = "update_attempts (\<lambda>b. at_id b = i) (snapshot_attempt d s cal sal pct) d"
  have mid: "attempts_ok ?d" by (rule quiet_ok [OF quiet_update ok]) (rule snapshot_same)
  have rows: "attempts d' = attempts ?d" "reservations d' = reservations ?d @ [r]" using new(11) by simp_all
  have "ar_attempt r = i" using new(2,10) by (simp add: new_reservation_def get_attempt_id)
  moreover have "is_pending b" if b: "b \<in> set (attempts ?d)" "at_id b = i" for b
  proof -
    have "get_attempt ?d i = Some b"
      using row_lookup [of ?d b] b mid by (simp add: attempts_ok_def)
    moreover have "get_attempt ?d i = Some (snapshot_attempt d s cal sal pct a)"
      using a(1) get_attempt_update [of "snapshot_attempt d s cal sal pct" "\<lambda>b. at_id b = i" d i]
      by (simp add: snapshot_attempt_def get_attempt_id)
    ultimately show ?thesis using a(2) by (auto simp: snapshot_attempt_def is_pending_def)
  qed
  ultimately have "open_reservations_pending d'"
    using mid rows by (auto simp: attempts_ok_def open_reservations_pending_def)
  with mid rows reserve_ok [OF _ run] ok show ?thesis
    by (simp add: attempts_ok_def)
qed

lemma expire_attempts_ok:
  assumes run: "expire_reservation d i now finished = Inr (r, d')" and ok: "attempts_ok d"
  shows "attempts_ok d'"
proof -
  have "reservations_ok d'"
    using reservation_step_ok [OF reservation_step.expire [OF run]] ok by (simp add: attempts_ok_def)
  moreover have "attempts d' = attempts d
    \<and> (\<forall>q \<in> set (reservations d'). ar_status q = RESERVED \<longrightarrow> q \<in> set (reservations d))"
    using run by (cases rule: expire_cases) (auto simp: update_reservations_def set_update_where)
  ultimately show ?thesis
    using ok by (auto simp: attempts_ok_def open_reservations_pending_def)
qed

section \<open>Results that stay\<close>

text \<open>Whatever the provider: the row stays, for the same survey, and keeps having a result.\<close>

definition result_stays :: "survey_attempt \<Rightarrow> survey_attempt \<Rightarrow> bool" where
  "result_stays a b \<longleftrightarrow>
     at_survey b = at_survey a \<and> (at_callback_at a \<noteq> None \<longrightarrow> at_callback_at b \<noteq> None)"

lemma same_result_stays: "same_result a b \<Longrightarrow> result_stays a b"
  by (simp add: same_result_def result_stays_def)

lemma row_change_stays: "row_change p a b closing \<Longrightarrow> result_stays a b"
  by (auto simp: row_change_def same_result_def result_stays_def)

lemma result_stays_trans: "result_stays a b \<Longrightarrow> result_stays b c \<Longrightarrow> result_stays a c"
  by (simp add: result_stays_def)

text \<open>Providers whose result is final: those that report once, through the respondent's browser or
  the reconciliation.  Toluna and RFG may correct a result with a verified call of their own.\<close>

definition final_result :: "db \<Rightarrow> survey_attempt \<Rightarrow> bool" where
  "final_result d a = (at_callback_at a \<noteq> None \<and> provider_of d a \<notin> {''toluna'', ''rfg''})"

definition results_kept :: "db \<Rightarrow> db \<Rightarrow> bool" where
  "results_kept d d' \<longleftrightarrow>
     (\<forall>a. attempt_integration d' a = attempt_integration d a)
     \<and> (\<forall>i a. get_attempt d i = Some a \<longrightarrow> final_result d a \<longrightarrow>
          (\<exists>b. get_attempt d' i = Some b \<and> same_result a b))
     \<and> (\<forall>i a. get_attempt d i = Some a \<longrightarrow> (\<exists>b. get_attempt d' i = Some b \<and> result_stays a b))"

lemma results_keptI:
  assumes "\<And>a. attempt_integration d' a = attempt_integration d a"
    and "\<And>i a. get_attempt d i = Some a \<Longrightarrow> final_result d a \<Longrightarrow> \<exists>b. get_attempt d' i = Some b \<and> same_result a b"
    and "\<And>i a. get_attempt d i = Some a \<Longrightarrow> \<exists>b. get_attempt d' i = Some b \<and> result_stays a b"
  shows "results_kept d d'"
  using assms by (simp add: results_kept_def)

lemma results_keptD:
  "results_kept d d' \<Longrightarrow> get_attempt d i = Some a \<Longrightarrow> final_result d a \<Longrightarrow>
   \<exists>b. get_attempt d' i = Some b \<and> same_result a b"
  unfolding results_kept_def by blast

lemma results_kept_stays:
  "results_kept d d' \<Longrightarrow> get_attempt d i = Some a \<Longrightarrow> \<exists>b. get_attempt d' i = Some b \<and> result_stays a b"
  unfolding results_kept_def by blast

lemma attempt_integration_survey:
  "at_survey b = at_survey a \<Longrightarrow> attempt_integration d b = attempt_integration d a"
  by (simp add: attempt_integration_def)

lemma final_result_kept:
  assumes "results_kept d d'" and "same_result a b" and "final_result d a"
  shows "final_result d' b"
  using assms attempt_integration_survey [of b a d]
  by (simp add: results_kept_def final_result_def provider_of_def same_result_def)

lemma results_kept_refl [simp]: "results_kept d d"
  by (rule results_keptI) (auto simp: result_stays_def)

lemma same_result_trans: "same_result a b \<Longrightarrow> same_result b c \<Longrightarrow> same_result a c"
  by (simp add: same_result_def)

lemma results_kept_trans:
  assumes "results_kept d d1" and "results_kept d1 d2"
  shows "results_kept d d2"
proof (rule results_keptI)
  show "attempt_integration d2 a = attempt_integration d a" for a
    using assms by (simp add: results_kept_def)
  show "\<exists>c. get_attempt d2 i = Some c \<and> result_stays a c" if "get_attempt d i = Some a" for i a
    using results_kept_stays [OF assms(1) that] results_kept_stays [OF assms(2)]
    by (blast intro: result_stays_trans)
  fix i a
  assume a: "get_attempt d i = Some a" "final_result d a"
  then obtain b where b: "get_attempt d1 i = Some b" "same_result a b"
    using results_keptD [OF assms(1)] by blast
  obtain c where "get_attempt d2 i = Some c" "same_result b c"
    using results_keptD [OF assms(2) b(1)] final_result_kept [OF assms(1) b(2) a(2)] by blast
  with b(2) show "\<exists>c. get_attempt d2 i = Some c \<and> same_result a c"
    by (blast intro: same_result_trans)
qed

lemma row_written_kept:
  assumes w: "row_written d a b closing now d'" and ok: "attempts_ok d"
  shows "results_kept d d'"
proof (rule results_keptI)
  have d': "d' = (if closing then snd (finalize_attempt_capacity (save_attempt b d) (at_id b) (at_status b) now)
      else save_attempt b d)" and a: "get_attempt d (at_id a) = Some a"
    and c: "row_change (provider_of d a) a b closing"
    using w by (simp_all add: row_written_def)
  have "surveys d' = surveys d \<and> integrations d' = integrations d"
    using finalize_attempts [of "save_attempt b d" "at_id b" "at_status b" now] d'
    by (cases "finalize_attempt_capacity (save_attempt b d) (at_id b) (at_status b) now")
      (auto simp: save_attempt_def)
  then show "attempt_integration d' x = attempt_integration d x" for x
    by (intro attempt_integration_frame) simp_all
  have look: "get_attempt d' i = get_attempt (save_attempt b d) i" for i
    using row_written_attempts [OF w] by (simp add: get_attempt_def)
  show "\<exists>y. get_attempt d' i = Some y \<and> result_stays x y" if x: "get_attempt d i = Some x" for i x
  proof (cases "i = at_id b")
    case True
    then have "x = a" using x a c by (simp add: row_change_def)
    with True x row_change_stays [OF c] show ?thesis by (simp add: look get_attempt_save)
  next
    case False
    then show ?thesis using x by (auto simp: look get_attempt_save result_stays_def)
  qed
  fix i x
  assume x: "get_attempt d i = Some x" "final_result d x"
  show "\<exists>y. get_attempt d' i = Some y \<and> same_result x y"
  proof (cases "i = at_id b")
    case True
    then have "x = a" using x(1) a c by (simp add: row_change_def)
    moreover have "same_result a b"
      using c x(2) attempts_okD(1) [OF ok a] unfolding \<open>x = a\<close>
      by (auto simp: row_change_def final_result_def is_pending_def)
    ultimately show ?thesis using True x(1) look by (simp add: get_attempt_save)
  next
    case False
    then show ?thesis using x(1) look by (auto simp: get_attempt_save)
  qed
qed

lemma quiet_kept: "quiet_change d d' \<Longrightarrow> results_kept d d'"
  by (rule results_keptI) (auto simp: quiet_change_def dest: quiet_lookup, blast dest: quiet_lookup same_result_stays)

lemma added_attempt_kept: "results_kept d (d\<lparr>attempts := attempts d @ [a]\<rparr>)"
  by (rule results_keptI)
    (auto simp: get_attempt_def row_by_pk_append result_stays_def intro!: attempt_integration_frame)

lemma same_attempts_kept:
  "attempts d' = attempts d \<Longrightarrow> surveys d' = surveys d \<Longrightarrow> integrations d' = integrations d \<Longrightarrow> results_kept d d'"
  by (rule results_keptI) (auto simp: get_attempt_def result_stays_def intro!: attempt_integration_frame)

lemma reserve_kept:
  assumes "reserve_attempt_capacity d i sa ca expires ttl now = Inr (r, d')"
  shows "results_kept d d'"
  using assms
proof (cases rule: reserve_cases)
  case old
  then show ?thesis by simp
next
  case (new att s vendor cl cal sal pct)
  let ?d = "update_attempts (\<lambda>b. at_id b = i) (snapshot_attempt d s cal sal pct) d"
  have "results_kept d ?d" by (rule quiet_kept, rule quiet_update, rule snapshot_same)
  moreover have "results_kept ?d d'"
    using new(11) by (intro same_attempts_kept) simp_all
  ultimately show ?thesis by (rule results_kept_trans)
qed

lemma expire_kept:
  assumes "expire_reservation d i now finished = Inr (r, d')"
  shows "results_kept d d'"
  using assms by (cases rule: expire_cases) (auto simp: update_reservations_def intro!: same_attempts_kept)

section \<open>Entering a survey\<close>

lemma entry_transaction_cases:
  assumes "entry_transaction es r u s key location draws now d = Inr (a, claim, d')"
  obtains ctx d1 d2 where "resolve_vendor_survey_context d u s True now = Inr ctx"
    "d1 = d\<lparr>attempts := attempts d @ [a]\<rparr>" "at_id a = next_pk at_id (attempts d)" "at_status a = INITIATED"
    "at_callback_at a = None" "at_survey a = sv_id s" "at_upstream_transaction_data a = JObj []"
    "at_initiation_ip a = request_ip (es_web es) r"
    "claim = claim_project_entry_ip (es_unique_ip es) d s (request_ip (es_web es) r)"
    "d' = with_delivery key s (at_id a) d2"
    "ctx = None \<and> d2 = d1 \<or> (\<exists>c q. ctx = Some c \<and> reserve_attempt_capacity d1 (at_id a)
        (map_option vsa_id (ctx_survey_allocation c)) (Some (vca_id (ctx_client_allocation c))) None
        (es_ttl_minutes es) now = Inr (q, d2))"
proof -
  from assms obtain ctx d1 d2 where res: "resolve_vendor_survey_context d u s True now = Inr ctx"
    and create: "create_attempt (cs_ip_literal (ws_callbacks (es_web es))) draws d s u (request_ip (es_web es) r)
        (dict_merge (get_request_client_data r) (geolocation_client_data location)) now = Inr (a, d1)"
    and claim: "claim = claim_project_entry_ip (es_unique_ip es) d s (request_ip (es_web es) r)"
    and d': "d' = with_delivery key s (at_id a) d2"
    and alt: "ctx = None \<and> d2 = d1 \<or> (\<exists>c q. ctx = Some c \<and> reserve_attempt_capacity d1 (at_id a)
        (map_option vsa_id (ctx_survey_allocation c)) (Some (vca_id (ctx_client_allocation c))) None
        (es_ttl_minutes es) now = Inr (q, d2))"
    by (auto simp: entry_transaction_def Let_def split: sum.splits option.splits dest!: spread_keeps)
  from create_attempt_cases [OF create] res claim d' alt show thesis
    by (intro that) simp_all
qed

lemma entry_transaction_ok:
  assumes run: "entry_transaction es r u s key location draws now d = Inr (a, claim, d')" and ok: "attempts_ok d"
  shows "attempts_ok d' \<and> results_kept d d'"
  using run
proof (cases rule: entry_transaction_cases)
  case (1 ctx d1 d2)
  have mid: "attempts_ok d1" using 1 ok by (simp add: added_attempt_ok)
  have kept: "results_kept d d1" using 1 by (simp add: added_attempt_kept)
  have row: "get_attempt d1 (at_id a) = Some a" "is_pending a"
    using row_lookup [of d1 a] mid 1 by (simp_all add: attempts_ok_def is_pending_def)
  from 1(11) have "attempts_ok d2 \<and> results_kept d1 d2"
  proof (elim disjE conjE exE)
    assume "d2 = d1"
    with mid show ?thesis by simp
  next
    fix c q
    assume "reserve_attempt_capacity d1 (at_id a) (map_option vsa_id (ctx_survey_allocation c))
        (Some (vca_id (ctx_client_allocation c))) None (es_ttl_minutes es) now = Inr (q, d2)"
    from reserve_attempts_ok [OF this mid row] reserve_kept [OF this] show ?thesis by simp
  qed
  with kept 1(10) with_delivery_quiet [of d2 key s "at_id a"] show ?thesis
    by (auto intro: quiet_ok quiet_kept results_kept_trans)
qed

lemma row_written_both:
  "row_written d a b closing now d' \<Longrightarrow> attempts_ok d \<Longrightarrow> attempts_ok d' \<and> results_kept d d'"
  by (simp add: row_written_ok row_written_kept)

lemma finish_locally_both:
  assumes "finish_locally ws r client_data status source entries answers now i d = Inr (b, d')"
    and "status \<noteq> INITIATED" "status \<noteq> REDIRECTED" and "attempts_ok d"
  shows "attempts_ok d' \<and> results_kept d d'"
  using assms(1-3) by (cases rule: finish_locally_row) (use assms(4) in \<open>auto dest: row_written_both\<close>)

lemma enter_survey_cases:
  assumes "enter_survey es r u s key location draws now d = (d', res)"
  obtains (failed) "d' = d" "\<And>url. res \<noteq> Inr (Redirect_To url)"
  | (entered) a prior where "entry_transaction es r u s key location draws now d = Inr (a, (prior, False), d')"
      "res = Inr (Redirect_To (start_url es a))"
  | (duplicate) a prior d1 where "entry_transaction es r u s key location draws now d = Inr (a, (prior, True), d1)"
      "(\<exists>e. finish_duplicate_ip_attempt (es_web es) r prior now (at_id a) d1 = Inl e \<and> d' = d1 \<and> res = Inl e)
       \<or> (\<exists>b. finish_duplicate_ip_attempt (es_web es) r prior now (at_id a) d1 = Inr (b, d'))"
proof (cases "entry_transaction es r u s key location draws now d")
  case (Inl e)
  with assms have "d' = d \<and> (\<forall>url. res \<noteq> Inr (Redirect_To url))"
    by (cases e) (auto simp: enter_survey_def)
  then show thesis using failed by blast
next
  case (Inr x)
  obtain a prior dup d1 where x: "x = (a, (prior, dup), d1)" by (metis prod.collapse)
  show thesis
  proof (cases dup)
    case True
    show thesis
    proof (cases "finish_duplicate_ip_attempt (es_web es) r prior now (at_id a) d1")
      case (Inl e)
      with assms Inr x True duplicate [of a prior d1] show thesis by (simp add: enter_survey_def)
    next
      case fin: (Inr y)
      obtain b d2 where y: "y = (b, d2)" by (cases y)
      from assms Inr x True fin y have "d' = d2" by (auto simp: enter_survey_def)
      with Inr x True fin y duplicate [of a prior d1] show thesis by simp
    qed
  next
    case False
    with assms Inr x entered [of a prior] show thesis by (simp add: enter_survey_def)
  qed
qed

lemma enter_survey_both:
  assumes run: "enter_survey es r u s key location draws now d = (d', res)" and ok: "attempts_ok d"
  shows "attempts_ok d' \<and> results_kept d d'"
  using run
proof (cases rule: enter_survey_cases)
  case failed
  with ok show ?thesis by simp
next
  case (entered a prior)
  from entry_transaction_ok [OF entered(1) ok] show ?thesis .
next
  case (duplicate a prior d1)
  have mid: "attempts_ok d1 \<and> results_kept d d1" by (rule entry_transaction_ok [OF duplicate(1) ok])
  from duplicate(2) show ?thesis
  proof (elim disjE exE conjE)
    fix b
    assume "finish_duplicate_ip_attempt (es_web es) r prior now (at_id a) d1 = Inr (b, d')"
    then have "attempts_ok d' \<and> results_kept d1 d'"
      unfolding finish_duplicate_ip_attempt_def by (rule finish_locally_both) (use mid in simp_all)
    with mid show ?thesis by (blast intro: results_kept_trans)
  qed (use mid in simp)
qed

section \<open>The steps\<close>

inductive attempt_step :: "db \<Rightarrow> db \<Rightarrow> bool" where
  enter: "enter_survey es r u s key location draws now d = (d', res) \<Longrightarrow> attempt_step d d'"
| reserve: "reserve_attempt_capacity d i sa ca expires ttl now = Inr (q, d') \<Longrightarrow>
    get_attempt d i = Some a \<Longrightarrow> is_pending a \<Longrightarrow> attempt_step d d'"
| expire: "expire_reservation d i now finished = Inr (q, d') \<Longrightarrow> attempt_step d d'"
| release: "release_prepared_toluna_invite i now d = Inr (url, d') \<Longrightarrow> attempt_step d d'"
| redirect: "redirect_transaction ss provider answers now i d = Inr (response, d') \<Longrightarrow> attempt_step d d'"
| browser: "survey_status ws d r now = (d', res) \<Longrightarrow> attempt_step d d'"
| rfg_server: "rfg_callback ws d r now = (d', res') \<Longrightarrow> attempt_step d d'"
| rfg_return: "rfg_result ws d r now = (d', shown) \<Longrightarrow> attempt_step d d'"
| notified: "apply_attempt_event n now d = Inr (applied, message, d') \<Longrightarrow> toluna_journey d n \<Longrightarrow> attempt_step d d'"
| local_end: "finish_locally ws r client_data status source entries answers now i d = Inr (b, d') \<Longrightarrow>
    status \<noteq> INITIATED \<Longrightarrow> status \<noteq> REDIRECTED \<Longrightarrow> attempt_step d d'"
| reconcile: "reconcile_attempt_status ip_text parse rows a now d = Inr (terminal, d') \<Longrightarrow> attempt_step d d'"
| other: "quiet_change d d' \<Longrightarrow> attempt_step d d'"

inductive attempt_steps :: "db \<Rightarrow> db \<Rightarrow> bool" where
  none: "attempt_steps d d"
| more: "attempt_steps d d' \<Longrightarrow> attempt_step d' d'' \<Longrightarrow> attempt_steps d d''"

lemma attempt_step_both:
  assumes "attempt_step d d'" and ok: "attempts_ok d"
  shows "attempts_ok d' \<and> results_kept d d'"
  using assms
proof (induction rule: attempt_step.induct)
  case (enter es r u s key location draws now d d' res)
  then show ?case by (blast dest: enter_survey_both)
next
  case (reserve d i sa ca expires ttl now q d' a)
  then show ?case by (blast intro: reserve_attempts_ok reserve_kept)
next
  case (expire d i now finished q d')
  then show ?case by (blast intro: expire_attempts_ok expire_kept)
next
  case (release i now d url d')
  from release(1) show ?case by (cases rule: release_row) (use release(2) in \<open>auto dest: row_written_both\<close>)
next
  case (redirect ss provider answers now i d response d')
  from redirect(1) show ?case by (cases rule: redirect_row) (use redirect(2) in \<open>auto dest: row_written_both\<close>)
next
  case (browser ws d r now d' res)
  then have "unique_by at_id (attempts d)" by (simp add: attempts_ok_def)
  with browser(1) show ?case by (cases rule: survey_status_row) (use browser(2) in \<open>auto dest: row_written_both\<close>)
next
  case (rfg_server ws d r now d' res')
  then have "unique_by at_id (attempts d)" by (simp add: attempts_ok_def)
  with rfg_server(1) show ?case
    by (cases rule: rfg_callback_row_written) (use rfg_server(2) in \<open>auto dest: row_written_both\<close>)
next
  case (rfg_return ws d r now d' shown)
  then have "unique_by at_id (attempts d)" by (simp add: attempts_ok_def)
  with rfg_return(1) show ?case
    by (cases rule: rfg_result_row_written) (use rfg_return(2) in \<open>auto dest: row_written_both\<close>)
next
  case (notified n now d applied message d')
  from notified(1,2) show ?case
    by (cases rule: apply_attempt_event_row) (use notified(3) in \<open>auto dest: row_written_both\<close>)
next
  case (local_end ws r client_data status source entries answers now i d b d')
  then show ?case by (blast dest: finish_locally_both)
next
  case (reconcile ip_text parse rows a now d terminal d')
  from reconcile(1) show ?case by (cases rule: reconcile_row) (use reconcile(2) in \<open>auto dest: row_written_both\<close>)
next
  case (other d d')
  then show ?case by (simp add: quiet_ok quiet_kept)
qed

lemma attempt_steps_both:
  "attempt_steps d d' \<Longrightarrow> attempts_ok d \<Longrightarrow> attempts_ok d' \<and> results_kept d d'"
  by (induction rule: attempt_steps.induct) (auto dest: attempt_step_both intro: results_kept_trans)

lemma attempt_steps_trans: "attempt_steps d1 d2 \<Longrightarrow> attempt_steps d d1 \<Longrightarrow> attempt_steps d d2"
  by (induction rule: attempt_steps.induct) (auto intro: attempt_steps.more)

end
