(* ===== verification/Callback_Lifecycle.thy ===== *)
theory Callback_Lifecycle
  imports Supplier_Callbacks Attempt_Lifecycle
begin

text \<open>
  The life of the delivery records under concurrent workers.  \<open>deliveries d\<close> is what the
  operations of \<open>surveys/supplier_callbacks.py\<close> see of the database: the delivery record of each
  attempt.  \<open>callback_step\<close> interleaves the transactions of requests, workers and the recovery
  task with lost workers, a broker that is down, time, and other code writing to the attempts.
  Most of that code merges what it learns into the transaction data and leaves the delivery record
  there; \<open>reconcile_attempt_status\<close> (\<open>surveys/services.py\<close>) and \<open>_refresh_provider_outcome\<close>
  (\<open>surveys/views.py\<close>) replace the data by the provider's row, and the record is lost with it.
\<close>

section \<open>The records the operations see\<close>

definition deliveries :: "db \<Rightarrow> pk \<rightharpoonup> jdict" where
  "deliveries d i = map_option delivery_record (get_attempt d i)"

lemma delivery_record_put [simp]: "delivery_record (put_delivery record now a) = record"
  by (simp add: delivery_record_def delivery_audit_def put_delivery_def only_dict_def)

lemma at_id_put [simp]: "at_id (put_delivery record now a) = at_id a"
  by (simp add: put_delivery_def)

lemma deliveries_save_at:
  "deliveries (save_delivery i record now d) j =
     (if j = i then map_option (\<lambda>_. record) (deliveries d i) else deliveries d j)"
proof (cases "get_attempt d j")
  case None
  then show ?thesis by (auto simp: deliveries_def save_delivery_def get_attempt_update)
next
  case (Some a)
  then have "at_id a = j" by (rule get_attempt_id)
  with Some show ?thesis by (auto simp: deliveries_def save_delivery_def get_attempt_update)
qed

lemma deliveries_save:
  "deliveries d i = Some old \<Longrightarrow>
   deliveries (save_delivery i record now d) = (deliveries d)(i \<mapsto> record)"
  by (simp add: fun_eq_iff deliveries_save_at)

lemma deliveries_locked: "get_attempt d i = Some a \<Longrightarrow> deliveries d i = Some (delivery_record a)"
  by (simp add: deliveries_def)

text \<open>Each operation as a change of one record.\<close>

lemma locked_attempt_eq [simp]: "locked_attempt d i = Inr a \<longleftrightarrow> get_attempt d i = Some a"
  by (simp add: locked_attempt_def)

lemma queue_changes:
  assumes "queue_supplier_result_callback svc d a now = Inr (True, d')"
  shows "\<exists>record record'. deliveries d (at_id a) = Some record
    \<and> queued_record svc record (delivery_event_id a (attempt_status_value (at_status a)))
        (attempt_status_value (at_status a)) now = Some record'
    \<and> deliveries d' = (deliveries d)(at_id a \<mapsto> record')"
proof -
  from assms obtain locked record' where "get_attempt d (at_id a) = Some locked"
    "queued_record svc (delivery_record locked) (delivery_event_id a (attempt_status_value (at_status a)))
        (attempt_status_value (at_status a)) now = Some record'" "d' = save_delivery (at_id a) record' now d"
    by (auto simp: queue_supplier_result_callback_def Let_def split: if_splits sum.splits option.splits)
  then show ?thesis using deliveries_locked deliveries_save by metis
qed

definition unqueued_record :: "callback_services \<Rightarrow> jdict \<Rightarrow> timestamp \<Rightarrow> jdict" where
  "unqueued_record svc record now =
     dict_merge record [(''state'', JStr ''queue_failed''),
       (''last_error'', JStr ''Callback worker queue unavailable.''),
       (''updated_at'', JStr (cs_isoformat svc now))]"

lemma mark_failure_changes:
  assumes "mark_queue_failure svc d i event_id now = Inr d'"
  shows "d' = d \<or> (\<exists>record. deliveries d i = Some record \<and> dict_get record ''event_id'' = JStr event_id
    \<and> dict_get record ''state'' = JStr ''queued'' \<and> deliveries d' = (deliveries d)(i \<mapsto> unqueued_record svc record now))"
proof -
  from assms obtain a where a: "get_attempt d i = Some a"
    and d': "d' = d \<or> dict_get (delivery_record a) ''event_id'' = JStr event_id
      \<and> dict_get (delivery_record a) ''state'' = JStr ''queued''
      \<and> d' = save_delivery i (unqueued_record svc (delivery_record a) now) now d"
    by (auto simp: mark_queue_failure_def unqueued_record_def Let_def split: if_splits sum.splits)
  then show ?thesis using deliveries_locked [OF a] deliveries_save by blast
qed

definition claimable :: "callback_services \<Rightarrow> jdict \<Rightarrow> timestamp \<Rightarrow> bool" where
  "claimable svc record now =
     (deliverable_state (dict_get record ''state'') = Inr True
      \<and> (dict_get record ''state'' = JStr ''delivering'' \<longrightarrow> recently_claimed svc record now = Inr False)
      \<and> dict_get record ''state'' \<noteq> JStr ''delivered'')"

lemma claim_changes:
  assumes "claim_delivery svc d i event_id now = Inr (Claim a r, d')"
  shows "\<exists>record count. deliveries d i = Some record \<and> dict_get record ''event_id'' = JStr event_id
    \<and> claimable svc record now \<and> r = claimed_record svc record count now
    \<and> deliveries d' = (deliveries d)(i \<mapsto> r)"
proof -
  from assms obtain locked count where locked: "get_attempt d i = Some locked"
    and rest: "dict_get (delivery_record locked) ''event_id'' = JStr event_id"
      "claimable svc (delivery_record locked) now" "r = claimed_record svc (delivery_record locked) count now"
      "d' = save_delivery i r now d"
    by (auto simp: claim_delivery_def claimable_def Let_def split: if_splits sum.splits bool.splits)
  show ?thesis
    using rest deliveries_locked [OF locked] deliveries_save [OF deliveries_locked [OF locked]] by blast
qed

lemma finish_changes:
  assumes "finish_delivery svc d i event_id f now = Inr (ok, d')"
  shows "(\<not> ok \<and> d' = d) \<or> (ok \<and> (\<exists>record. deliveries d i = Some record
    \<and> dict_get record ''event_id'' = JStr event_id
    \<and> deliveries d' = (deliveries d)(i \<mapsto> finished_record svc record f now)))"
proof -
  from assms obtain locked where locked: "get_attempt d i = Some locked"
    and rest: "(\<not> ok \<and> d' = d) \<or> (ok \<and> dict_get (delivery_record locked) ''event_id'' = JStr event_id
      \<and> d' = save_delivery i (finished_record svc (delivery_record locked) f now) now d)"
    by (auto simp: finish_delivery_def Let_def split: if_splits sum.splits)
  show ?thesis
    using rest deliveries_locked [OF locked] deliveries_save [OF deliveries_locked [OF locked]] by blast
qed

text \<open>The two writers that replace the transaction data touch one attempt.\<close>

lemma deliveries_save_attempt: "j \<noteq> at_id b \<Longrightarrow> deliveries (save_attempt b d) j = deliveries d j"
  by (simp add: deliveries_def get_attempt_save)

lemma reconciled_fields [simp]:
  "at_id (reconciled_attempt ip_text parse upstream now a) = at_id a"
  "at_upstream_transaction_data (reconciled_attempt ip_text parse upstream now a) = JObj upstream"
  by (simp_all add: reconciled_attempt_def Let_def split: option.split)

lemma reconcile_rows:
  assumes "reconcile_attempt_status ip_text parse rows a now d = Inr (terminal, d')"
  obtains locked where "get_attempt d (at_id a) = Some locked"
    "\<And>j. get_attempt d' j = get_attempt (save_attempt
       (reconciled_attempt ip_text parse (attempt_transaction parse (at_rid a) rows) now locked) d) j"
  using assms
  by (auto simp: reconcile_attempt_status_def Let_def of_option_def split: option.splits)

lemma reconcile_changes_one:
  assumes "reconcile_attempt_status ip_text parse rows a now d = Inr (terminal, d')" and "j \<noteq> at_id a"
  shows "deliveries d' j = deliveries d j"
  using assms(1)
proof (rule reconcile_rows)
  fix locked
  let ?b = "reconciled_attempt ip_text parse (attempt_transaction parse (at_rid a) rows) now locked"
  assume locked: "get_attempt d (at_id a) = Some locked" and rows: "\<And>j. get_attempt d' j = get_attempt (save_attempt ?b d) j"
  have "j \<noteq> at_id ?b" using assms(2) get_attempt_id [OF locked] by simp
  from deliveries_save_attempt [OF this, of d] show ?thesis by (simp add: deliveries_def rows)
qed

text \<open>The row that replaces the transaction data.\<close>

definition provider_row ::
  "(string \<Rightarrow> timestamp option) \<Rightarrow> jdict list \<Rightarrow> client_integration option \<Rightarrow> survey_attempt \<Rightarrow> jdict option" where
  "provider_row parse rows integration a =
     (if provider_code_of integration = ''innovatemr'' then Some (attempt_transaction parse (at_rid a) rows)
      else refreshed_row (at_rid a) rows)"

lemma refresh_replaces:
  assumes "refresh_provider_outcome ip_text parse rows integration a now d = Inr d'"
    and "provider_row parse rows integration a = Some found" and "get_attempt d' (at_id a) = Some b"
  shows "at_upstream_transaction_data b = JObj found"
proof (cases "provider_code_of integration = ''innovatemr''")
  case True
  then obtain terminal where "reconcile_attempt_status ip_text parse rows a now d = Inr (terminal, d')"
    using assms(1) by (auto simp: refresh_provider_outcome_def dest!: spread_keeps)
  then show ?thesis
  proof (rule reconcile_rows)
    fix locked
    let ?b = "reconciled_attempt ip_text parse (attempt_transaction parse (at_rid a) rows) now locked"
    assume locked: "get_attempt d (at_id a) = Some locked" and rows: "\<And>j. get_attempt d' j = get_attempt (save_attempt ?b d) j"
    have "at_id ?b = at_id a" using get_attempt_id [OF locked] by simp
    with locked rows [of "at_id a"] assms(3) have "b = ?b" by (simp add: get_attempt_save)
    with assms(2) True show ?thesis by (simp add: provider_row_def)
  qed
next
  case False
  have "get_attempt d' (at_id a) = map_option (\<lambda>q. if at_id q = at_id a then q\<lparr>at_upstream_checked_at := Some now,
      at_updated_at := now, at_upstream_transaction_data := JObj found\<rparr> else q) (get_attempt d (at_id a))"
    using assms(1,2) False by (auto simp: refresh_provider_outcome_def provider_row_def get_attempt_update)
  with assms(3) get_attempt_id [of d "at_id a"] show ?thesis by auto
qed

lemma refresh_changes_one:
  assumes "refresh_provider_outcome ip_text parse rows integration a now d = Inr d'" and "j \<noteq> at_id a"
  shows "deliveries d' j = deliveries d j"
proof (cases "provider_code_of integration = ''innovatemr''")
  case True
  with assms show ?thesis
    by (auto simp: refresh_provider_outcome_def dest!: spread_keeps reconcile_changes_one)
next
  case False
  with assms(1) have "get_attempt d' j = map_option (\<lambda>q. if at_id q = at_id a then q\<lparr>at_upstream_checked_at := Some now,
      at_updated_at := now, at_upstream_transaction_data := (case refreshed_row (at_rid a) rows of
        Some found \<Rightarrow> JObj found | None \<Rightarrow> at_upstream_transaction_data q)\<rparr> else q) (get_attempt d j)"
    by (auto simp: refresh_provider_outcome_def get_attempt_update)
  then show ?thesis
    using assms(2) by (cases "get_attempt d j") (auto simp: deliveries_def dest: get_attempt_id)
qed

text \<open>The fields of the records the operations write.\<close>

lemma new_record_fields [simp]:
  "dict_get (new_delivery_record svc e st now) ''event_id'' = JStr e"
  "dict_get (new_delivery_record svc e st now) ''state'' = JStr ''queued''"
  by (simp_all add: new_delivery_record_def dict_get_def)

lemma requeued_record_fields [simp]:
  "dict_get (requeued_record svc r now) ''event_id'' = dict_get r ''event_id''"
  "dict_get (requeued_record svc r now) ''state'' = JStr ''queued''"
  by (simp_all add: requeued_record_def)

lemma claimed_record_fields [simp]:
  "dict_get (claimed_record svc r n now) ''event_id'' = dict_get r ''event_id''"
  "dict_get (claimed_record svc r n now) ''state'' = JStr ''delivering''"
  "dict_get (claimed_record svc r n now) ''last_attempt_at'' = JStr (cs_isoformat svc now)"
  by (simp_all add: claimed_record_def)

lemma finished_record_fields [simp]:
  "dict_get (finished_record svc r f now) ''event_id'' = dict_get r ''event_id''"
  "dict_get (finished_record svc r f now) ''state'' = JStr (fd_state f)"
  by (simp_all add: finished_record_def)

lemma unqueued_record_fields [simp]:
  "dict_get (unqueued_record svc r now) ''event_id'' = dict_get r ''event_id''"
  "dict_get (unqueued_record svc r now) ''state'' = JStr ''queue_failed''"
  by (simp_all add: unqueued_record_def)

lemma queued_record_fields:
  "queued_record svc r e st now = Some r' \<Longrightarrow>
   dict_get r' ''event_id'' = JStr e \<and> dict_get r' ''state'' = JStr ''queued''
   \<and> (r = [] \<or> dict_get r ''event_id'' = JStr e \<and> dict_get r ''state'' = JStr ''queue_failed'')"
  by (auto simp: queued_record_def split: if_splits)

section \<open>The steps\<close>

record callback_system =
  cy_db :: db
  cy_now :: timestamp
  cy_jobs :: "(pk \<times> string) set"
  cy_flights :: "(pk \<times> string \<times> timestamp) list"
  cy_requests :: "(pk \<times> string) list"
  cy_accepted :: "pk list"
  cy_erased :: "pk set"

text \<open>\<open>cy_jobs\<close> are the messages at the broker, delivered at least once; \<open>cy_flights\<close> the claims whose
  worker is still at it, with the time of the claim; \<open>cy_requests\<close> the HTTP requests sent so far and
  \<open>cy_accepted\<close> the attempts whose delivery was recorded, in order.  \<open>cy_erased\<close> are the attempts whose
  record a reconciliation or a refresh has replaced; no operation reads it.  \<open>findings\<close> are the ends
  a worker can come to.\<close>

definition findings :: "callback_services \<Rightarrow> finding set" where
  "findings svc = {f. \<exists>request d a record event_id now.
     work_delivery svc request d a record event_id now = Inr f}"

definition erased_by :: "pk \<Rightarrow> db \<Rightarrow> callback_system \<Rightarrow> callback_system" where
  "erased_by i d s = s\<lparr>cy_db := d,
     cy_erased := (if deliveries d i = deliveries (cy_db s) i then cy_erased s else insert i (cy_erased s))\<rparr>"

text \<open>The last rule stands for the other code that writes attempts: new rows without a record, and the
  callbacks, notifications and local endings, which spread the transaction data they find (\<open>**(... or
  {})\<close>) and never touch the key of the record.  Attempts are not deleted.\<close>

inductive callback_step :: "callback_services \<Rightarrow> callback_system \<Rightarrow> callback_system \<Rightarrow> bool"
  for svc where
  pass: "cy_now s \<le> later \<Longrightarrow> callback_step svc s (s\<lparr>cy_now := later\<rparr>)"
| queue: "queue_supplier_result_callback svc (cy_db s) a (cy_now s) = Inr (True, d) \<Longrightarrow>
    event_id = delivery_event_id a (attempt_status_value (at_status a)) \<Longrightarrow>
    dispatch_supplier_callback svc broker_up d (at_id a) event_id (cy_now s) = Inr d' \<Longrightarrow>
    callback_step svc s (s\<lparr>cy_db := d',
      cy_jobs := (if broker_up then insert (at_id a, event_id) (cy_jobs s) else cy_jobs s)\<rparr>)"
| recover: "a \<in> set (attempts (cy_db s)) \<Longrightarrow> get_attempt (cy_db s) (at_id a) = Some a \<Longrightarrow>
    recovery_candidate lookback a \<Longrightarrow> recoverable_event svc stale_before a = Inr (Some (i, event_id)) \<Longrightarrow>
    callback_step svc s (s\<lparr>cy_jobs := insert (i, event_id) (cy_jobs s)\<rparr>)"
| claim: "(i, event_id) \<in> cy_jobs s \<Longrightarrow>
    claim_delivery svc (cy_db s) i event_id (cy_now s) = Inr (Claim a r, d) \<Longrightarrow>
    callback_step svc s (s\<lparr>cy_db := d, cy_flights := (i, event_id, cy_now s) # cy_flights s\<rparr>)"
| forget: "callback_step svc s (s\<lparr>cy_jobs := cy_jobs s - {job}\<rparr>)"
| send: "(i, event_id, t) \<in> set (cy_flights s) \<Longrightarrow>
    callback_step svc s (s\<lparr>cy_requests := cy_requests s @ [(i, event_id)]\<rparr>)"
| finish: "(i, event_id, t) \<in> set (cy_flights s) \<Longrightarrow> f \<in> findings svc \<Longrightarrow>
    finish_delivery svc (cy_db s) i event_id f (cy_now s) = Inr (ok, d) \<Longrightarrow>
    callback_step svc s (s\<lparr>cy_db := d, cy_flights := remove1 (i, event_id, t) (cy_flights s),
      cy_accepted := (if ok \<and> fd_state f = ''delivered'' then cy_accepted s @ [i] else cy_accepted s)\<rparr>)"
| die: "(i, event_id, t) \<in> set (cy_flights s) \<Longrightarrow>
    callback_step svc s (s\<lparr>cy_flights := remove1 (i, event_id, t) (cy_flights s)\<rparr>)"
| reconcile: "reconcile_attempt_status ip_text parse rows a checked_at (cy_db s) = Inr (terminal, d) \<Longrightarrow>
    callback_step svc s (erased_by (at_id a) d s)"
| refresh: "refresh_provider_outcome ip_text parse rows integration a now (cy_db s) = Inr d \<Longrightarrow>
    callback_step svc s (erased_by (at_id a) d s)"
| other: "(\<And>i. deliveries d i = deliveries (cy_db s) i
       \<or> deliveries (cy_db s) i = None \<and> deliveries d i = Some []) \<Longrightarrow>
    callback_step svc s (s\<lparr>cy_db := d\<rparr>)"

definition fresh_system :: "callback_system \<Rightarrow> bool" where
  "fresh_system s =
     (cy_jobs s = {} \<and> cy_flights s = [] \<and> cy_requests s = [] \<and> cy_accepted s = []
      \<and> cy_erased s = {} \<and> (\<forall>i record. deliveries (cy_db s) i = Some record \<longrightarrow> record = []))"

section \<open>One event for each attempt\<close>

text \<open>Of the attempts in \<open>E\<close> nothing is known.\<close>

definition known_events :: "pk set \<Rightarrow> (pk \<rightharpoonup> jdict) \<Rightarrow> bool" where
  "known_events E D = (\<forall>i r. D i = Some r \<longrightarrow> i \<in> E \<or> r = [] \<or> (\<exists>e. dict_get r ''event_id'' = JStr e))"

definition has_event :: "(pk \<rightharpoonup> jdict) \<Rightarrow> pk \<times> string \<Rightarrow> bool" where
  "has_event D job = (case job of (i, e) \<Rightarrow> \<exists>r. D i = Some r \<and> dict_get r ''event_id'' = JStr e)"

definition carries :: "pk set \<Rightarrow> (pk \<rightharpoonup> jdict) \<Rightarrow> pk \<times> string \<Rightarrow> bool" where
  "carries E D job = (fst job \<in> E \<or> has_event D job)"

definition event_inv :: "callback_system \<Rightarrow> bool" where
  "event_inv s =
     (let E = cy_erased s; D = deliveries (cy_db s) in
      known_events E D \<and> (\<forall>job \<in> cy_jobs s. carries E D job)
      \<and> (\<forall>(i, e, t) \<in> set (cy_flights s). carries E D (i, e))
      \<and> (\<forall>job \<in> set (cy_requests s). carries E D job))"

lemma dict_get_Nil [simp]: "dict_get [] k = JNull"
  by (simp add: dict_get_def)

lemma carries_unique: "carries E D (i, e) \<Longrightarrow> carries E D (i, e') \<Longrightarrow> i \<notin> E \<Longrightarrow> e = e'"
  by (auto simp: carries_def has_event_def)

lemma carries_upd:
  assumes "carries E D job" "D k = Some r" "r = [] \<or> dict_get r' ''event_id'' = dict_get r ''event_id''"
  shows "carries E (D(k \<mapsto> r')) job"
proof -
  have "has_event D job \<Longrightarrow> has_event (D(k \<mapsto> r')) job" using assms(2,3) by (auto simp: has_event_def)
  then show ?thesis using assms(1) by (auto simp: carries_def)
qed

lemma known_events_upd:
  "known_events E D \<Longrightarrow> dict_get r ''event_id'' = JStr e \<Longrightarrow> known_events E (D(k \<mapsto> r))"
  by (simp add: known_events_def)

text \<open>An operation rewrites one record, which keeps its event.\<close>

definition rewrites_one :: "(pk \<rightharpoonup> jdict) \<Rightarrow> (pk \<rightharpoonup> jdict) \<Rightarrow> pk \<Rightarrow> bool" where
  "rewrites_one D D' k =
     (\<exists>r r' e. D k = Some r \<and> D' = D(k \<mapsto> r') \<and> dict_get r' ''event_id'' = JStr e
        \<and> (r = [] \<or> dict_get r ''event_id'' = JStr e))"

lemma rewrites_one_keeps:
  "rewrites_one D D' k \<Longrightarrow> (known_events E D \<longrightarrow> known_events E D') \<and> (carries E D job \<longrightarrow> carries E D' job)"
  by (auto simp: rewrites_one_def carries_upd known_events_upd)

lemma rewrites_carries: "D k = Some r \<Longrightarrow> dict_get r ''event_id'' = JStr e \<Longrightarrow> carries E D (k, e)"
  by (simp add: carries_def has_event_def)

lemma event_inv_db:
  assumes "event_inv s" "known_events (cy_erased s) (deliveries (cy_db s)) \<longrightarrow> known_events (cy_erased s) (deliveries d)"
    "\<And>job. carries (cy_erased s) (deliveries (cy_db s)) job \<Longrightarrow> carries (cy_erased s) (deliveries d) job"
  shows "event_inv (s\<lparr>cy_db := d\<rparr>)"
  using assms by (fastforce simp: event_inv_def Let_def)

text \<open>A record that is replaced takes its attempt out of account.\<close>

lemma event_inv_erased:
  assumes inv: "event_inv s" and others: "\<And>j. j \<noteq> i \<Longrightarrow> deliveries d j = deliveries (cy_db s) j"
  shows "event_inv (erased_by i d s)"
proof -
  let ?E = "if deliveries d i = deliveries (cy_db s) i then cy_erased s else insert i (cy_erased s)"
  have same: "j \<notin> ?E \<Longrightarrow> j \<notin> cy_erased s \<and> deliveries d j = deliveries (cy_db s) j" for j
    using others [of j] by (cases "j = i") (auto split: if_splits)
  have "carries ?E (deliveries d) job" if "carries (cy_erased s) (deliveries (cy_db s)) job" for job
  proof (cases "fst job \<in> ?E")
    case False
    with same have "fst job \<notin> cy_erased s" "deliveries d (fst job) = deliveries (cy_db s) (fst job)" by blast+
    with that show ?thesis by (simp add: carries_def has_event_def split_beta)
  qed (simp add: carries_def del: if_split)
  moreover have "known_events ?E (deliveries d)"
    using inv same unfolding event_inv_def known_events_def Let_def by metis
  ultimately show ?thesis
    using inv by (simp add: event_inv_def erased_by_def Let_def split_beta del: if_split)
qed

lemma queue_rewrites:
  assumes "queue_supplier_result_callback svc d a now = Inr (True, d')"
  shows "rewrites_one (deliveries d) (deliveries d') (at_id a)
    \<and> carries E (deliveries d') (at_id a, delivery_event_id a (attempt_status_value (at_status a)))"
proof -
  obtain r r' where q: "deliveries d (at_id a) = Some r" "deliveries d' = (deliveries d)(at_id a \<mapsto> r')"
    "queued_record svc r (delivery_event_id a (attempt_status_value (at_status a)))
       (attempt_status_value (at_status a)) now = Some r'"
    using queue_changes [OF assms] by blast
  show ?thesis using q(1,2) queued_record_fields [OF q(3)] by (auto simp: rewrites_one_def carries_def has_event_def)
qed

lemma dispatch_rewrites:
  assumes "dispatch_supplier_callback svc up d i e now = Inr d'"
  shows "d' = d \<or> rewrites_one (deliveries d) (deliveries d') i"
proof (cases up)
  case True
  with assms show ?thesis by (simp add: dispatch_supplier_callback_def)
next
  case False
  then have "mark_queue_failure svc d i e now = Inr d'"
    using assms by (simp add: dispatch_supplier_callback_def)
  from mark_failure_changes [OF this] show ?thesis
    unfolding rewrites_one_def by (metis unqueued_record_fields(1))
qed

lemma event_inv_step:
  assumes "callback_step svc s s'" "event_inv s" shows "event_inv s'"
  using assms
proof (induction rule: callback_step.induct)
  case (pass s later)
  then show ?case by (simp add: event_inv_def)
next
  case (queue s a d event_id broker_up d')
  have "rewrites_one (deliveries (cy_db s)) (deliveries d) (at_id a)"
    and job: "carries (cy_erased s) (deliveries d) (at_id a, event_id)"
    using queue_rewrites [OF queue.hyps(1)] queue.hyps(2) by auto
  then have kept: "known_events (cy_erased s) (deliveries (cy_db s)) \<longrightarrow> known_events (cy_erased s) (deliveries d')"
      "\<And>job. carries (cy_erased s) (deliveries (cy_db s)) job \<Longrightarrow> carries (cy_erased s) (deliveries d') job"
      "carries (cy_erased s) (deliveries d') (at_id a, event_id)"
    using dispatch_rewrites [OF queue.hyps(3)] rewrites_one_keeps by blast+
  from event_inv_db [OF queue.prems kept(1,2)] kept(3) show ?case by (simp add: event_inv_def Let_def)
next
  case (recover a s lookback stale_before i event_id)
  then have "i = at_id a" and named: "event_id \<noteq> []" "str_or (dict_get (delivery_record a) ''event_id'') [] = event_id"
    by (auto simp: recoverable_event_def Let_def split: if_splits sum.splits option.splits)
  moreover have rec: "deliveries (cy_db s) (at_id a) = Some (delivery_record a)"
    using recover.hyps(2) by (rule deliveries_locked)
  moreover have "dict_get (delivery_record a) ''event_id'' = JStr event_id" if "at_id a \<notin> cy_erased s"
  proof -
    have "delivery_record a = [] \<or> (\<exists>e. dict_get (delivery_record a) ''event_id'' = JStr e)"
      using recover.prems rec that by (auto simp: event_inv_def known_events_def Let_def)
    with named show ?thesis by (auto split: if_splits)
  qed
  ultimately have "carries (cy_erased s) (deliveries (cy_db s)) (i, event_id)"
    by (cases "i \<in> cy_erased s") (simp_all add: carries_def has_event_def)
  with recover.prems show ?case by (simp add: event_inv_def Let_def)
next
  case (claim i event_id s a r d)
  obtain old where "deliveries (cy_db s) i = Some old" "dict_get old ''event_id'' = JStr event_id"
    "dict_get r ''event_id'' = JStr event_id" "deliveries d = (deliveries (cy_db s))(i \<mapsto> r)"
    using claim_changes [OF claim.hyps(2)] by auto
  then have "rewrites_one (deliveries (cy_db s)) (deliveries d) i" "carries (cy_erased s) (deliveries d) (i, event_id)"
    by (auto simp: rewrites_one_def carries_def has_event_def)
  with event_inv_db [OF claim.prems, of d] rewrites_one_keeps show ?case
    by (simp add: event_inv_def Let_def)
next
  case (forget s job)
  then show ?case by (simp add: event_inv_def Let_def)
next
  case (send i event_id t s)
  then show ?case by (fastforce simp: event_inv_def Let_def)
next
  case (finish i event_id t s f ok d)
  from finish_changes [OF finish.hyps(3)]
  have "d = cy_db s \<or> rewrites_one (deliveries (cy_db s)) (deliveries d) i" by (force simp: rewrites_one_def)
  with event_inv_db [OF finish.prems, of d] finish.prems rewrites_one_keeps
  have "event_inv (s\<lparr>cy_db := d\<rparr>)" by auto
  then show ?case by (auto simp: event_inv_def Let_def dest: set_remove1_subset [THEN subsetD])
next
  case (die i event_id t s)
  then show ?case by (auto simp: event_inv_def Let_def dest: set_remove1_subset [THEN subsetD])
next
  case (reconcile ip_text parse rows a checked_at s terminal d)
  show ?case by (rule event_inv_erased [OF reconcile.prems]) (rule reconcile_changes_one [OF reconcile.hyps])
next
  case (refresh ip_text parse rows integration a now s d)
  show ?case by (rule event_inv_erased [OF refresh.prems]) (rule refresh_changes_one [OF refresh.hyps])
next
  case (other d s)
  have "carries (cy_erased s) (deliveries d) job" if "carries (cy_erased s) (deliveries (cy_db s)) job" for job
    using that other.hyps [of "fst job"] by (auto simp: carries_def has_event_def)
  moreover have "known_events (cy_erased s) (deliveries (cy_db s)) \<longrightarrow> known_events (cy_erased s) (deliveries d)"
  proof (intro impI)
    assume known: "known_events (cy_erased s) (deliveries (cy_db s))"
    show "known_events (cy_erased s) (deliveries d)"
      unfolding known_events_def
    proof (intro allI impI)
      fix i r assume r: "deliveries d i = Some r"
      show "i \<in> cy_erased s \<or> r = [] \<or> (\<exists>e. dict_get r ''event_id'' = JStr e)"
        using other.hyps [of i]
      proof
        assume "deliveries d i = deliveries (cy_db s) i"
        with r known show ?thesis by (simp add: known_events_def)
      next
        assume "deliveries (cy_db s) i = None \<and> deliveries d i = Some []"
        with r show ?thesis by simp
      qed
    qed
  qed
  ultimately show ?case using event_inv_db [OF other.prems] by blast
qed

lemma event_inv_reach: "(callback_step svc)\<^sup>*\<^sup>* s s' \<Longrightarrow> event_inv s \<Longrightarrow> event_inv s'"
  by (induction rule: rtranclp_induct) (auto intro: event_inv_step)

lemma event_inv_fresh: "fresh_system s \<Longrightarrow> event_inv s"
  by (auto simp: fresh_system_def event_inv_def known_events_def Let_def)

section \<open>Prompt workers\<close>

text \<open>A worker is prompt when it is done less than 30 seconds after its claim; a claim as old as that
  can be taken over.\<close>

definition prompt :: "callback_system \<Rightarrow> bool" where
  "prompt s = (\<forall>(i, e, t) \<in> set (cy_flights s). cy_now s < t + seconds 30)"

text \<open>Steps with prompt workers, of a system in which no record was replaced.\<close>

definition prompt_step :: "callback_services \<Rightarrow> callback_system \<Rightarrow> callback_system \<Rightarrow> bool" where
  "prompt_step svc s s' = (callback_step svc s s' \<and> prompt s' \<and> cy_erased s' = {})"

text \<open>\<open>parse_datetime(t.isoformat())\<close> gives the time back.\<close>

definition clock_roundtrip :: "callback_services \<Rightarrow> bool" where
  "clock_roundtrip svc = (\<forall>t. cs_parse_datetime svc (cs_isoformat svc t) = Inr (Some t))"

definition claimed_by :: "callback_services \<Rightarrow> (pk \<rightharpoonup> jdict) \<Rightarrow> pk \<times> string \<times> timestamp \<Rightarrow> bool" where
  "claimed_by svc D flight = (case flight of (i, e, t) \<Rightarrow>
     \<exists>r. D i = Some r \<and> dict_get r ''state'' = JStr ''delivering''
       \<and> dict_get r ''last_attempt_at'' = JStr (cs_isoformat svc t))"

definition recorded :: "(pk \<rightharpoonup> jdict) \<Rightarrow> pk \<Rightarrow> bool" where
  "recorded D i = (\<exists>r. D i = Some r \<and> dict_get r ''state'' = JStr ''delivered'')"

definition flight_inv :: "callback_services \<Rightarrow> callback_system \<Rightarrow> bool" where
  "flight_inv svc s =
     ((\<forall>flight \<in> set (cy_flights s). claimed_by svc (deliveries (cy_db s)) flight)
      \<and> (\<forall>i \<in> set (cy_accepted s). recorded (deliveries (cy_db s)) i)
      \<and> distinct (map fst (cy_flights s)) \<and> distinct (cy_accepted s))"

lemma claimed_by_state:
  "claimed_by svc D (i, e, t) \<Longrightarrow> D i = Some r \<Longrightarrow> dict_get r ''state'' = JStr ''delivering''"
  by (auto simp: claimed_by_def)

lemma recorded_state: "recorded D i \<Longrightarrow> D i = Some r \<Longrightarrow> dict_get r ''state'' = JStr ''delivered''"
  by (auto simp: recorded_def)

lemma claimed_by_other: "k \<noteq> fst flight \<Longrightarrow> claimed_by svc (D(k \<mapsto> r)) flight = claimed_by svc D flight"
  by (cases flight) (simp add: claimed_by_def)

lemma recorded_other: "k \<noteq> i \<Longrightarrow> recorded (D(k \<mapsto> r)) i = recorded D i"
  by (simp add: recorded_def)

text \<open>A record in neither state can be rewritten.\<close>

lemma flight_inv_rewrite:
  assumes "flight_inv svc s" "deliveries (cy_db s) k = Some r"
    and "dict_get r ''state'' \<noteq> JStr ''delivering''" "dict_get r ''state'' \<noteq> JStr ''delivered''"
    and "deliveries d = (deliveries (cy_db s))(k \<mapsto> r')"
  shows "flight_inv svc (s\<lparr>cy_db := d\<rparr>)"
proof -
  let ?D = "deliveries (cy_db s)"
  have "fst flight \<noteq> k" if "flight \<in> set (cy_flights s)" for flight
    using that assms(1-3) claimed_by_state [of svc ?D k "fst (snd flight)" "snd (snd flight)" r]
    by (cases flight) (auto simp: flight_inv_def)
  moreover have "i \<noteq> k" if "i \<in> set (cy_accepted s)" for i
    using that assms(1,2,4) recorded_state [of ?D k r] by (auto simp: flight_inv_def)
  ultimately show ?thesis
    using assms(1,5) by (fastforce simp: flight_inv_def claimed_by_other recorded_other)
qed

lemma recently_claimed_flight:
  assumes "clock_roundtrip svc" "dict_get r ''last_attempt_at'' = JStr (cs_isoformat svc t)"
  shows "recently_claimed svc r now = Inr (now - seconds 30 < t)"
  using assms by (simp add: recently_claimed_def clock_roundtrip_def)

text \<open>A claim is granted only where no prompt worker is at it.\<close>

lemma claim_free:
  assumes "clock_roundtrip svc" "flight_inv svc s" "prompt s"
    and "deliveries (cy_db s) i = Some r" "claimable svc r (cy_now s)"
  shows "i \<notin> fst ` set (cy_flights s) \<and> i \<notin> set (cy_accepted s)"
proof
  show "i \<notin> fst ` set (cy_flights s)"
  proof
    assume "i \<in> fst ` set (cy_flights s)"
    then obtain e t where flight: "(i, e, t) \<in> set (cy_flights s)" by force
    with assms(2,4) have r: "dict_get r ''state'' = JStr ''delivering''"
        "dict_get r ''last_attempt_at'' = JStr (cs_isoformat svc t)"
      by (fastforce simp: flight_inv_def claimed_by_def)+
    then have "recently_claimed svc r (cy_now s) = Inr False" using assms(5) by (simp add: claimable_def)
    moreover have "cy_now s < t + seconds 30" using flight assms(3) by (auto simp: prompt_def)
    ultimately show False using recently_claimed_flight [OF assms(1) r(2), of "cy_now s"] by simp
  qed
  show "i \<notin> set (cy_accepted s)"
    using assms(2,4,5) recorded_state [of "deliveries (cy_db s)" i r]
    by (auto simp: flight_inv_def claimable_def)
qed

lemma flight_inv_same:
  "flight_inv svc s \<Longrightarrow> deliveries d = deliveries (cy_db s) \<Longrightarrow> flight_inv svc (s\<lparr>cy_db := d\<rparr>)"
  by (simp add: flight_inv_def)

lemma flight_inv_erased:
  assumes "flight_inv svc s" and "cy_erased (erased_by i d s) = {}"
    and "\<And>j. j \<noteq> i \<Longrightarrow> deliveries d j = deliveries (cy_db s) j"
  shows "flight_inv svc (erased_by i d s)"
proof -
  have "deliveries d i = deliveries (cy_db s) i" using assms(2) by (auto simp: erased_by_def split: if_splits)
  then have "deliveries d j = deliveries (cy_db s) j" for j using assms(3) [of j] by (cases "j = i") simp_all
  then have "deliveries d = deliveries (cy_db s)" by (rule ext)
  with assms(1) show ?thesis by (simp add: flight_inv_def erased_by_def)
qed

lemma queued_record_state:
  "queued_record svc r e st now = Some r' \<Longrightarrow>
   dict_get r ''state'' \<noteq> JStr ''delivering'' \<and> dict_get r ''state'' \<noteq> JStr ''delivered''"
  using queued_record_fields [of svc r e st now r'] by auto

lemma flight_inv_queue:
  assumes "flight_inv svc s" "queue_supplier_result_callback svc (cy_db s) a now = Inr (True, d)"
    and "dispatch_supplier_callback svc up d (at_id a) e now = Inr d'"
  shows "flight_inv svc (s\<lparr>cy_db := d'\<rparr>)"
proof -
  obtain r r' where q: "deliveries (cy_db s) (at_id a) = Some r"
    "deliveries d = (deliveries (cy_db s))(at_id a \<mapsto> r')"
    "queued_record svc r (delivery_event_id a (attempt_status_value (at_status a)))
       (attempt_status_value (at_status a)) now = Some r'"
    using queue_changes [OF assms(2)] by blast
  have queued: "dict_get r' ''state'' = JStr ''queued''" using queued_record_fields [OF q(3)] by simp
  have inv: "flight_inv svc (s\<lparr>cy_db := d\<rparr>)"
    using flight_inv_rewrite [OF assms(1) q(1) _ _ q(2)] queued_record_state [OF q(3)] by simp
  show ?thesis
  proof (cases up)
    case True
    with assms(3) inv show ?thesis by (simp add: dispatch_supplier_callback_def)
  next
    case False
    then have "mark_queue_failure svc d (at_id a) e now = Inr d'"
      using assms(3) by (simp add: dispatch_supplier_callback_def)
    from mark_failure_changes [OF this] show ?thesis
    proof
      assume "d' = d" with inv show ?thesis by simp
    next
      assume "\<exists>rec. deliveries d (at_id a) = Some rec \<and> dict_get rec ''event_id'' = JStr e
        \<and> dict_get rec ''state'' = JStr ''queued''
        \<and> deliveries d' = (deliveries d)(at_id a \<mapsto> unqueued_record svc rec now)"
      then obtain rec where "deliveries d (at_id a) = Some rec"
        "dict_get rec ''state'' = JStr ''queued''"
        "deliveries d' = (deliveries d)(at_id a \<mapsto> unqueued_record svc rec now)" by blast
      then show ?thesis
        using flight_inv_rewrite [of svc "s\<lparr>cy_db := d\<rparr>" "at_id a" rec d'] inv by simp
    qed
  qed
qed

lemma flight_inv_claim:
  assumes "clock_roundtrip svc" "flight_inv svc s" "prompt s"
    and "claim_delivery svc (cy_db s) i e (cy_now s) = Inr (Claim a r, d)"
  shows "flight_inv svc (s\<lparr>cy_db := d, cy_flights := (i, e, cy_now s) # cy_flights s\<rparr>)"
proof -
  let ?D = "deliveries (cy_db s)"
  obtain old count where c: "?D i = Some old" "claimable svc old (cy_now s)"
    "r = claimed_record svc old count (cy_now s)" "deliveries d = ?D(i \<mapsto> r)"
    using claim_changes [OF assms(4)] by blast
  from claim_free [OF assms(1-3) c(1,2)] have free: "i \<notin> fst ` set (cy_flights s)" "i \<notin> set (cy_accepted s)"
    by auto
  have "claimed_by svc (deliveries d) (i, e, cy_now s)" using c by (simp add: claimed_by_def)
  moreover have "claimed_by svc (deliveries d) flight" if "flight \<in> set (cy_flights s)" for flight
    using that free(1) assms(2) unfolding c(4) by (subst claimed_by_other) (auto simp: flight_inv_def)
  moreover have "recorded (deliveries d) j" if "j \<in> set (cy_accepted s)" for j
    using that free(2) assms(2) unfolding c(4) by (subst recorded_other) (auto simp: flight_inv_def)
  ultimately show ?thesis using assms(2) free(1) by (simp add: flight_inv_def)
qed

lemma flight_inv_fewer:
  "flight_inv svc s \<Longrightarrow> flight_inv svc (s\<lparr>cy_flights := remove1 flight (cy_flights s)\<rparr>)"
  by (auto simp: flight_inv_def distinct_map distinct_remove1
      dest: set_remove1_subset [THEN subsetD] elim: inj_on_subset)

lemma flight_inv_finish:
  assumes "flight_inv svc s" "(i, e, t) \<in> set (cy_flights s)"
    and "finish_delivery svc (cy_db s) i e f now = Inr (ok, d)"
  shows "flight_inv svc (s\<lparr>cy_db := d, cy_flights := remove1 (i, e, t) (cy_flights s),
    cy_accepted := (if ok \<and> fd_state f = ''delivered'' then cy_accepted s @ [i] else cy_accepted s)\<rparr>)"
proof (cases ok)
  case False
  with finish_changes [OF assms(3)] have "d = cy_db s" by auto
  with False flight_inv_fewer [OF assms(1), of "(i, e, t)"] show ?thesis by simp
next
  case True
  let ?D = "deliveries (cy_db s)"
  obtain old where f: "?D i = Some old" "deliveries d = ?D(i \<mapsto> finished_record svc old f now)"
    using finish_changes [OF assms(3)] True by blast
  have "dict_get old ''state'' = JStr ''delivering''"
    using assms(1,2) claimed_by_state [of svc ?D i e t old] f(1) by (auto simp: flight_inv_def)
  then have new: "i \<notin> set (cy_accepted s)"
    using assms(1) recorded_state [of ?D i old] f(1) by (auto simp: flight_inv_def)
  have dist: "distinct (map fst (cy_flights s))" using assms(1) by (simp add: flight_inv_def)
  have others: "fst flight \<noteq> i" if "flight \<in> set (remove1 (i, e, t) (cy_flights s))" for flight
  proof -
    have "flight \<in> set (cy_flights s)" "flight \<noteq> (i, e, t)"
      using that dist by (auto simp: distinct_map dest: set_remove1_subset [THEN subsetD])
    then show ?thesis
      using dist assms(2) inj_onD [of fst "set (cy_flights s)" flight "(i, e, t)"]
      by (auto simp: distinct_map)
  qed
  have "claimed_by svc (deliveries d) flight" if "flight \<in> set (remove1 (i, e, t) (cy_flights s))" for flight
    using that others [OF that] assms(1) unfolding f(2)
    by (subst claimed_by_other) (auto simp: flight_inv_def dest: set_remove1_subset [THEN subsetD])
  moreover have "recorded (deliveries d) j" if "j \<in> set (cy_accepted s)" for j
    using that new assms(1) unfolding f(2) by (subst recorded_other) (auto simp: flight_inv_def)
  moreover have "recorded (deliveries d) i" if "fd_state f = ''delivered''"
    using that unfolding f(2) by (simp add: recorded_def)
  moreover have "distinct (map fst (remove1 (i, e, t) (cy_flights s)))"
    using flight_inv_fewer [OF assms(1), of "(i, e, t)"] by (simp add: flight_inv_def)
  ultimately show ?thesis using True new assms(1) by (auto simp: flight_inv_def)
qed

lemma flight_inv_step:
  assumes "clock_roundtrip svc" "callback_step svc s s'" "flight_inv svc s" "prompt s" "cy_erased s' = {}"
  shows "flight_inv svc s'"
  using assms(2-5)
proof (induction rule: callback_step.induct)
  case (queue s a d event_id broker_up d')
  from flight_inv_queue [OF queue.prems(1) queue.hyps(1,3)] show ?case by (simp add: flight_inv_def)
next
  case (claim i event_id s a r d)
  from flight_inv_claim [OF assms(1) claim.prems(1,2) claim.hyps(2)] show ?case .
next
  case (finish i event_id t s f ok d)
  from flight_inv_finish [OF finish.prems(1) finish.hyps(1,3)] show ?case .
next
  case (die i event_id t s)
  from flight_inv_fewer [OF die.prems(1)] show ?case .
next
  case (reconcile ip_text parse rows a checked_at s terminal d)
  show ?case by (rule flight_inv_erased [OF reconcile.prems(1,3)]) (rule reconcile_changes_one [OF reconcile.hyps])
next
  case (refresh ip_text parse rows integration a now s d)
  show ?case by (rule flight_inv_erased [OF refresh.prems(1,3)]) (rule refresh_changes_one [OF refresh.hyps])
next
  case (other d s)
  have "claimed_by svc (deliveries d) flight" if "claimed_by svc (deliveries (cy_db s)) flight" for flight
    using that other.hyps [of "fst flight"] by (auto simp: claimed_by_def)
  moreover have "recorded (deliveries d) i" if "recorded (deliveries (cy_db s)) i" for i
    using that other.hyps [of i] by (auto simp: recorded_def)
  ultimately show ?case using other.prems by (simp add: flight_inv_def)
qed (auto simp: flight_inv_def)

lemma flight_inv_reach:
  assumes "clock_roundtrip svc" "(prompt_step svc)\<^sup>*\<^sup>* s s'" "flight_inv svc s" "prompt s"
  shows "flight_inv svc s' \<and> prompt s'"
  using assms(2,3,4)
  by (induction rule: rtranclp_induct) (auto simp: prompt_step_def dest: flight_inv_step [OF assms(1)])

lemma fresh_flight_inv: "fresh_system s \<Longrightarrow> flight_inv svc s \<and> prompt s"
  by (simp add: fresh_system_def flight_inv_def prompt_def)

section \<open>Operations that go through\<close>

lemma claim_granted:
  assumes "deliveries d i = Some r" "dict_get r ''event_id'' = JStr e" "claimable svc r now"
    and "(if truthy (dict_get r ''attempt_count'') then int_of_json (dict_get r ''attempt_count'') else Inr 0) = Inr n"
  shows "\<exists>a d'. claim_delivery svc d i e now = Inr (Claim a (claimed_record svc r n now), d')
    \<and> deliveries d' = (deliveries d)(i \<mapsto> claimed_record svc r n now)"
proof -
  from assms(1) obtain a where a: "get_attempt d i = Some a" "delivery_record a = r"
    by (auto simp: deliveries_def)
  have "claim_delivery svc d i e now = Inr (Claim (put_delivery (claimed_record svc r n now) now a)
      (claimed_record svc r n now), save_delivery i (claimed_record svc r n now) now d)"
    using assms(2-4) a by (auto simp: claim_delivery_def claimable_def Let_def locked_attempt_def)
  then show ?thesis using deliveries_save [OF assms(1)] by blast
qed

lemma finish_granted:
  assumes "deliveries d i = Some r" "dict_get r ''event_id'' = JStr e"
  shows "\<exists>d'. finish_delivery svc d i e f now = Inr (True, d')
    \<and> deliveries d' = (deliveries d)(i \<mapsto> finished_record svc r f now)"
proof -
  from assms(1) obtain a where a: "get_attempt d i = Some a" "delivery_record a = r"
    by (auto simp: deliveries_def)
  then have "finish_delivery svc d i e f now = Inr (True, save_delivery i (finished_record svc r f now) now d)"
    using assms(2) by (simp add: finish_delivery_def Let_def locked_attempt_def)
  then show ?thesis using deliveries_save [OF assms(1)] by blast
qed

lemma claim_step:
  assumes "(i, e) \<in> cy_jobs s" "deliveries (cy_db s) i = Some r" "dict_get r ''event_id'' = JStr e"
    "claimable svc r (cy_now s)"
    "(if truthy (dict_get r ''attempt_count'') then int_of_json (dict_get r ''attempt_count'') else Inr 0) = Inr n"
  shows "\<exists>d. callback_step svc s (s\<lparr>cy_db := d, cy_flights := (i, e, cy_now s) # cy_flights s\<rparr>)
    \<and> deliveries d i = Some (claimed_record svc r n (cy_now s))"
  using claim_granted [OF assms(2-5)] callback_step.claim [OF assms(1)] by fastforce

lemma finish_step:
  assumes "(i, e, t) \<in> set (cy_flights s)" "f \<in> findings svc" "deliveries (cy_db s) i = Some r"
    "dict_get r ''event_id'' = JStr e"
  shows "\<exists>d. callback_step svc s (s\<lparr>cy_db := d, cy_flights := remove1 (i, e, t) (cy_flights s),
      cy_accepted := (if fd_state f = ''delivered'' then cy_accepted s @ [i] else cy_accepted s)\<rparr>)
    \<and> deliveries d i = Some (finished_record svc r f (cy_now s))"
  using finish_granted [OF assms(3,4), of svc f "cy_now s"] callback_step.finish [OF assms(1,2)] by fastforce

end
