(* ===== verification/Callback_Properties.thy ===== *)
theory Callback_Properties
  imports Callback_Lifecycle Samples
begin

text \<open>
  What the supplier reads from the URL it is called with: the parameters of the code, unharmed by
  the encoding and by the query the supplier configured, with a hash the supplier's own
  computation confirms.  The redirect of the status page has this only for a URL without fragment.
  Then the deliveries: one event for each attempt under concurrent workers while the record of the
  delivery is kept, and the refresh of an attempt that loses it.
\<close>

section \<open>Reading the result URL\<close>

lemma filter_reserved:
  assumes "\<not> list_ex (\<lambda>(name, _). reserved_parameter params name) existing"
    and "\<forall>(name, _) \<in> set sent. reserved_parameter params name"
  shows "filter (\<lambda>(name, _). reserved_parameter params name) (existing @ sent) = sent"
  using assms by (auto simp: list_ex_iff filter_empty_conv filter_id_conv split: prod.splits)

lemma reserved_own: "(k, v) \<in> set params \<Longrightarrow> reserved_parameter params k"
  by (force simp: reserved_parameter_def)

lemma reserved_hash: "reserved_parameter params ''hash''"
  by (simp add: reserved_parameter_def py_lower_def lower_char_def is_upper_ascii_def)

lemma signature_reserved:
  "signature_parameters svc key params = Some signature \<Longrightarrow>
   \<forall>(name, _) \<in> set (params @ signature). reserved_parameter params name"
  by (auto simp: signature_parameters_def reserved_own reserved_hash split: if_splits sum.splits)

lemma hostname_netloc: "url_hostname p \<noteq> [] \<Longrightarrow> up_netloc p \<noteq> []"
  by (auto simp: url_hostname_def host_port_def py_rpartition_def py_lower_def)

text \<open>What a signed URL says to its receiver.\<close>

definition confirmed_signature ::
  "callback_services \<Rightarrow> vendor_api_key \<Rightarrow> (string \<times> string) list \<Rightarrow> (string \<times> string) list \<Rightarrow> bool" where
  "confirmed_signature svc key sent received =
     (if vak_callback_signing_enabled key
      then (case decrypt_secret (cs_decrypt svc) (vak_encrypted_callback_secret key) of
              Inl _ \<Rightarrow> False
            | Inr secret \<Rightarrow>
                secret \<noteq> []
                \<and> received = sent @ [(''hash'', sign_supplier_callback (cs_hmac svc) sent secret)])
      else received = sent)"

lemma signature_confirmed:
  "signature_parameters svc key params = Some signature \<Longrightarrow>
   confirmed_signature svc key params (params @ signature)"
  by (auto simp: signature_parameters_def confirmed_signature_def split: if_splits sum.splits)

lemma signed_url_read:
  assumes url: "signed_result_url svc key parts params = url" "url \<noteq> []"
    and split: "urlsplit (cs_ip_literal svc) source = Inr parts" and safe: "safe_callback_parts parts"
  shows "\<exists>p. urlsplit (cs_ip_literal svc) url = Inr p \<and> safe_callback_parts p
    \<and> confirmed_signature svc key params
        (filter (\<lambda>(name, _). reserved_parameter params name) (parse_qsl (up_query p)))"
proof -
  let ?existing = "parse_qsl (up_query parts)"
  from url obtain signature where free: "\<not> list_ex (\<lambda>(name, _). reserved_parameter params name) ?existing"
    and signature: "signature_parameters svc key params = Some signature"
    and whole: "url = urlunsplit (parts\<lparr>up_query := urlencode (?existing @ params @ signature)\<rparr>)"
    by (auto simp: signed_result_url_def Let_def split: if_splits option.splits)
  let ?p = "parts\<lparr>up_query := urlencode (?existing @ params @ signature)\<rparr>"
  have absolute: "up_scheme parts \<noteq> []" "up_netloc parts \<noteq> []"
    using safe by (auto simp: safe_callback_parts_def hostname_netloc)
  have "urlsplit (cs_ip_literal svc) url = Inr ?p"
    unfolding whole by (rule urlsplit_replaced_query [OF split absolute])
  moreover have "safe_callback_parts ?p"
    using safe by (simp add: safe_callback_parts_def url_hostname_def url_has_user_info_def)
  moreover have "filter (\<lambda>(name, _). reserved_parameter params name) (parse_qsl (up_query ?p))
      = params @ signature"
    using filter_reserved [OF free signature_reserved [OF signature]] by simp
  ultimately show ?thesis using signature_confirmed [OF signature] by auto
qed

lemma build_result_urlE:
  assumes "build_supplier_result_url svc d a status_code now = Inr url" "url \<noteq> []"
  obtains key parts oc s survey_id where "supplier_api_key d a = Some key"
    "status_code \<in> set TERMINAL_STATUS_CODES"
    "urlsplit (cs_ip_literal svc) (callback_url_for_status key status_code) = Inr parts"
    "safe_callback_parts parts" "provider_outcome (cs_unescape svc) d a = Inr oc"
    "get_survey d (at_survey a) = Some s" "delivered_survey_id a s = Inr survey_id"
    "signed_result_url svc key parts (result_parameters svc a s survey_id oc status_code now) = url"
  using assms by (auto simp: build_supplier_result_url_def Let_def split: if_splits option.splits sum.splits)

text \<open>C22: Round trip of the supplier callback.  Whenever the code builds a result URL, the receiver
  that splits it and decodes its query finds an https URL without credentials in it and, among
  the parameters with the names the code reserves, exactly the ones the code meant to send -- the
  status, the survey and project numbers, the public PID, the event id and the provider's reason,
  each with the value it had before the encoding -- followed, when the key signs, by the hash which
  the signing function computes of just these parameters.  The parameters the supplier configured
  in its own URL cannot be mistaken for them.\<close>

theorem result_url_roundtrip:
  assumes "build_supplier_result_url svc d a status_code now = Inr url" "url \<noteq> []"
  shows "\<exists>key s oc survey_id p. supplier_api_key d a = Some key \<and> get_survey d (at_survey a) = Some s
    \<and> provider_outcome (cs_unescape svc) d a = Inr oc \<and> delivered_survey_id a s = Inr survey_id
    \<and> urlsplit (cs_ip_literal svc) url = Inr p \<and> safe_callback_parts p
    \<and> (let sent = result_parameters svc a s survey_id oc status_code now
       in confirmed_signature svc key sent
            (filter (\<lambda>(name, _). reserved_parameter sent name) (parse_qsl (up_query p))))"
proof -
  obtain key parts oc s survey_id where b: "supplier_api_key d a = Some key"
    "urlsplit (cs_ip_literal svc) (callback_url_for_status key status_code) = Inr parts"
    "safe_callback_parts parts" "provider_outcome (cs_unescape svc) d a = Inr oc"
    "get_survey d (at_survey a) = Some s" "delivered_survey_id a s = Inr survey_id"
    "signed_result_url svc key parts (result_parameters svc a s survey_id oc status_code now) = url"
    using build_result_urlE [OF assms] by metis
  from signed_url_read [OF b(7) assms(2) b(2,3)] b show ?thesis by (auto simp: Let_def)
qed

section \<open>Reading the redirect\<close>

lemma external_urlE:
  assumes "external_supplier_result_url svc d a status_code = Inr url" "url \<noteq> []"
  obtains key oc s survey_id signature where "supplier_api_key d a = Some key"
    "provider_outcome (cs_unescape svc) d a = Inr oc" "get_survey d (at_survey a) = Some s"
    "delivered_survey_id a s = Inr survey_id"
    "signature_parameters svc key (redirect_parameters a s survey_id oc status_code) = Some signature"
    "url = append_query (callback_url_for_status key status_code)
       (redirect_parameters a s survey_id oc status_code @ signature)"
  using assms by (auto simp: external_supplier_result_url_def Let_def split: if_splits option.splits sum.splits)

lemma append_query_read:
  assumes split: "urlsplit ip u = Inr parts" and absolute: "up_scheme parts \<noteq> []" "up_netloc parts \<noteq> []"
  shows "\<exists>p. urlsplit ip (append_query u ps) = Inr p \<and> up_netloc p = up_netloc parts
    \<and> parse_qsl (up_query p) = parse_qsl (up_query parts) @ (if CHR ''#'' \<in> set u then [] else ps)"
proof -
  have e: "no_breaks (urlencode ps)" "CHR ''#'' \<notin> set (urlencode ps)" using urlencode_clean by auto
  let ?t = "(if CHR ''?'' \<in> set u then ''&'' else ''?'') @ urlencode ps"
  have read: "urlsplit ip (append_query u ps) = Inr
      (if CHR ''#'' \<in> set u then parts\<lparr>up_fragment := up_fragment parts @ ?t\<rparr>
       else parts\<lparr>up_query := (if CHR ''?'' \<in> set u then up_query parts @ ?t else urlencode ps)\<rparr>)"
    unfolding append_query_def by (rule urlsplit_append [OF split absolute refl e])
  have blank: "parse_qsl (up_query parts) = []" if "CHR ''?'' \<notin> set u"
    using urlsplit_no_query [OF split that] by (simp add: parse_qsl_def)
  show ?thesis
    unfolding read using blank parse_qsl_append [of "up_query parts" ps]
    by auto
qed

text \<open>The redirect of the status page reaches an external supplier with the parameters the code
  chose -- the public PID, the status, the survey numbers, the provider's reason, and the hash over
  them when the key signs -- behind the parameters of the configured URL, whenever that URL is
  absolute and has no fragment.  With a fragment the code appends them to the fragment, so the
  query the supplier receives is the configured one alone: the result and its signature are
  lost on the way.\<close>

theorem redirect_carries_result:
  assumes url: "external_supplier_result_url svc d a status_code = Inr url" "url \<noteq> []"
    and key: "supplier_api_key d a = Some key"
    and split: "urlsplit ip (callback_url_for_status key status_code) = Inr parts"
    and absolute: "up_scheme parts \<noteq> []" "up_netloc parts \<noteq> []"
  shows "\<exists>s oc survey_id received p. get_survey d (at_survey a) = Some s
    \<and> provider_outcome (cs_unescape svc) d a = Inr oc \<and> delivered_survey_id a s = Inr survey_id
    \<and> confirmed_signature svc key (redirect_parameters a s survey_id oc status_code) received
    \<and> urlsplit ip url = Inr p \<and> up_netloc p = up_netloc parts
    \<and> parse_qsl (up_query p) = parse_qsl (up_query parts)
        @ (if CHR ''#'' \<in> set (callback_url_for_status key status_code) then [] else received)"
proof -
  obtain oc s survey_id signature where b: "provider_outcome (cs_unescape svc) d a = Inr oc"
    "get_survey d (at_survey a) = Some s" "delivered_survey_id a s = Inr survey_id"
    "signature_parameters svc key (redirect_parameters a s survey_id oc status_code) = Some signature"
    "url = append_query (callback_url_for_status key status_code)
       (redirect_parameters a s survey_id oc status_code @ signature)"
    using external_urlE [OF url] key by (metis option.inject)
  show ?thesis
    using append_query_read [OF split absolute] signature_confirmed [OF b(4)] b unfolding b(5) by blast
qed

section \<open>A delivered result\<close>

text \<open>Attempt 9 ended with status 2 and came through key 3, which signs.\<close>

definition sample_api_key :: "string \<Rightarrow> vendor_api_key" where
  "sample_api_key url =
     \<lparr>vak_id = 3, vak_vendor = 31, vak_client_allocations = [], vak_name = ''K'', vak_prefix = [],
      vak_last_four = [], vak_key_hash = ''h'', vak_survey_id_mode = PROJECT_ID,
      vak_complete_callback_url = [], vak_terminate_callback_url = url, vak_quota_callback_url = [],
      vak_quality_callback_url = [], vak_callback_signing_enabled = True,
      vak_encrypted_callback_secret = ''sealed'', vak_callback_secret_last_four = [],
      vak_is_active = True, vak_expires_at = None, vak_last_used_at = None, vak_revoked_at = None,
      vak_created_by = None, vak_created_at = 0, vak_updated_at = 0\<rparr>"

definition sample_services :: callback_services where
  "sample_services =
     \<lparr>cs_ip_literal = (\<lambda>_. False), cs_unescape = (\<lambda>s. s), cs_decrypt = Some,
      cs_hmac = (\<lambda>secret text. secret @ text), cs_isoformat = show_int,
      cs_parse_datetime = (\<lambda>s. Inr (parse_int s)), cs_ip_address = Some,
      cs_is_global = (\<lambda>_. True), cs_getaddrinfo = (\<lambda>_ _. None)\<rparr>"

definition ended_attempt :: survey_attempt where
  "ended_attempt = sample_attempt\<lparr>at_status := TERMINATED, at_supplier_api_key_id := Some 3,
     at_callback_at := Some 0, at_upstream_checked_at := Some 0, at_updated_at := 0\<rparr>"

definition callback_db :: "string \<Rightarrow> db" where
  "callback_db url = sample_db\<lparr>api_keys := [sample_api_key url], attempts := [ended_attempt]\<rparr>"

lemma ended_attempt_fields [simp]:
  "at_id ended_attempt = 9" "at_rid ended_attempt = ''aB3aB3aB3a''" "at_pid ended_attempt = ''aB3aB3aB3aB3''"
  "at_survey ended_attempt = 7" "at_status ended_attempt = TERMINATED"
  "at_supplier_api_key_id ended_attempt = Some 3" "at_supplier_delivery_config ended_attempt = JObj []"
  "at_upstream_transaction_data ended_attempt = JObj []" "at_is_verified ended_attempt = False"
  "at_callback_at ended_attempt = Some 0" "at_status_source ended_attempt = []"
  by (simp_all add: ended_attempt_def sample_attempt_def)

lemma callback_db_fields [simp]:
  "supplier_api_key (callback_db url) ended_attempt = Some (sample_api_key url)"
  "get_survey (callback_db url) 7 = Some sample_survey"
  "get_attempt (callback_db url) 9 = Some ended_attempt"
  "callback_url_for_status (sample_api_key url) ''2'' = url"
  by (simp_all add: supplier_api_key_def callback_db_def sample_api_key_def get_survey_def
      get_attempt_def row_by_pk_def sample_db_def sample_survey_def callback_url_for_status_def)

lemma sample_services_fields [simp]:
  "cs_ip_literal sample_services = (\<lambda>_. False)" "cs_decrypt sample_services = Some"
  "cs_hmac sample_services = (\<lambda>secret text. secret @ text)" "cs_isoformat sample_services = show_int"
  "cs_parse_datetime sample_services = (\<lambda>s. Inr (parse_int s))"
  by (simp_all add: sample_services_def)

lemma sample_outcome:
  "\<exists>oc. provider_outcome unescape (callback_db url) ended_attempt = Inr oc"
  by (simp add: provider_outcome_def outcome_data_def attempt_integration_def sample_survey_def
      provider_code_of_def neutral_outcome_def outcome_mapping_def redirect_reason_def py_lower_def
      lower_char_def is_upper_ascii_def Let_def)

lemma sample_survey_id:
  "delivered_survey_id ended_attempt sample_survey = Inr ''20260800000001''"
  by (simp add: delivered_survey_id_def dict_or_empty_def dict_get_def sample_survey_def)

lemma sample_signature_known:
  "\<exists>signature. signature_parameters sample_services (sample_api_key url) params = Some signature"
proof -
  have "py_strip ''sealed'' = ''sealed''" by code_simp
  then show ?thesis
    by (simp add: signature_parameters_def sample_api_key_def decrypt_secret_def Let_def)
qed

lemma sample_url_parts:
  "urlsplit (\<lambda>_. False) ''https://s.example/r?x=1'' = Inr
     \<lparr>up_scheme = ''https'', up_netloc = ''s.example'', up_path = ''/r'', up_query = ''x=1'', up_fragment = []\<rparr>"
  by code_simp

lemma sample_build:
  "\<exists>url. build_supplier_result_url sample_services (callback_db ''https://s.example/r?x=1'')
     ended_attempt ''2'' now = Inr url \<and> url \<noteq> []
     \<and> (\<exists>p. urlsplit (\<lambda>_. False) url = Inr p \<and> up_scheme p = ''https'' \<and> up_netloc p = ''s.example'')"
proof -
  let ?u = "''https://s.example/r?x=1''"
  let ?p = "\<lparr>up_scheme = ''https'', up_netloc = ''s.example'', up_path = ''/r'', up_query = ''x=1'', up_fragment = []\<rparr>"
  obtain oc where oc: "provider_outcome (cs_unescape sample_services) (callback_db ?u) ended_attempt = Inr oc"
    using sample_outcome by blast
  let ?params = "result_parameters sample_services ended_attempt sample_survey ''20260800000001'' oc ''2'' now"
  obtain signature where sign: "signature_parameters sample_services (sample_api_key ?u) ?params = Some signature"
    using sample_signature_known by blast
  have safe: "safe_callback_parts ?p" by code_simp
  have names: "map (\<lambda>(k, _). py_lower k) ?params
      = map py_lower [''status'', ''surveyId'', ''projectId'', ''pid'', ''eventId'', ''timestamp'',
          ''statusSource'', ''termReason'', ''termCategory'']"
    by (simp add: result_parameters_def)
  have query: "parse_qsl ''x=1'' = [(''x'', ''1'')]" by code_simp
  have "py_lower ''x'' \<notin> set (map py_lower [''status'', ''surveyId'', ''projectId'', ''pid'', ''eventId'',
      ''timestamp'', ''statusSource'', ''termReason'', ''termCategory'']) \<and> py_lower ''x'' \<noteq> ''hash''"
    by code_simp
  then have free: "\<not> reserved_parameter ?params ''x''" unfolding reserved_parameter_def names by simp
  let ?q = "?p\<lparr>up_query := urlencode (parse_qsl ''x=1'' @ ?params @ signature)\<rparr>"
  have url: "signed_result_url sample_services (sample_api_key ?u) ?p ?params = urlunsplit ?q"
    by (simp add: signed_result_url_def query free sign)
  have "urlunsplit ?q \<noteq> []" by (simp add: urlunsplit_def)
  moreover have "urlsplit (\<lambda>_. False) (urlunsplit ?q) = Inr ?q"
    by (rule urlsplit_replaced_query [OF sample_url_parts]) simp_all
  moreover have "build_supplier_result_url sample_services (callback_db ?u) ended_attempt ''2'' now
      = Inr (urlunsplit ?q)"
    unfolding build_supplier_result_url_def
    by (simp add: oc safe sample_url_parts sample_survey_id TERMINAL_STATUS_CODES_def url [simplified])
  ultimately show ?thesis by fastforce
qed

lemma result_url_roundtrip_witness:
  "\<exists>url p. build_supplier_result_url sample_services (callback_db ''https://s.example/r?x=1'')
       ended_attempt ''2'' 0 = Inr url
     \<and> urlsplit (\<lambda>_. False) url = Inr p \<and> safe_callback_parts p"
proof -
  obtain url where url: "build_supplier_result_url sample_services (callback_db ''https://s.example/r?x=1'')
      ended_attempt ''2'' 0 = Inr url" "url \<noteq> []" using sample_build by blast
  from result_url_roundtrip [OF url] url(1) show ?thesis by (auto simp: Let_def)
qed

text \<open>The redirect to a URL with a fragment.\<close>

lemma fragment_url_parts:
  "urlsplit (\<lambda>_. False) ''https://s.example/r#top'' = Inr
     \<lparr>up_scheme = ''https'', up_netloc = ''s.example'', up_path = ''/r'', up_query = [], up_fragment = ''top''\<rparr>"
  by code_simp

lemma sample_redirect:
  "\<exists>url. external_supplier_result_url sample_services (callback_db ''https://s.example/r#top'')
     ended_attempt ''2'' = Inr url \<and> url \<noteq> []"
proof -
  let ?u = "''https://s.example/r#top''"
  obtain oc where oc: "provider_outcome (cs_unescape sample_services) (callback_db ?u) ended_attempt = Inr oc"
    using sample_outcome by blast
  obtain signature where sign: "signature_parameters sample_services (sample_api_key ?u)
      (redirect_parameters ended_attempt sample_survey ''20260800000001'' oc ''2'') = Some signature"
    using sample_signature_known by blast
  show ?thesis
    unfolding external_supplier_result_url_def
    by (simp add: oc sample_survey_id sign append_query_def)
qed

lemma redirect_carries_result_witness:
  "\<exists>url p. external_supplier_result_url sample_services (callback_db ''https://s.example/r#top'')
       ended_attempt ''2'' = Inr url
     \<and> urlsplit (\<lambda>_. False) url = Inr p \<and> parse_qsl (up_query p) = []"
proof -
  let ?u = "''https://s.example/r#top''"
  obtain url where url: "external_supplier_result_url sample_services (callback_db ?u)
      ended_attempt ''2'' = Inr url" "url \<noteq> []" using sample_redirect by blast
  have parts: "urlsplit (\<lambda>_. False) (callback_url_for_status (sample_api_key ?u) ''2'') = Inr
     \<lparr>up_scheme = ''https'', up_netloc = ''s.example'', up_path = ''/r'', up_query = [], up_fragment = ''top''\<rparr>"
    by (simp add: fragment_url_parts)
  have blank: "parse_qsl [] = []" by code_simp
  from redirect_carries_result [OF url _ parts] url(1) show ?thesis by (auto simp: blank)
qed

section \<open>Where requests go\<close>

lemma send_callback_public:
  assumes "\<And>destination event. cs_is_global svc (cd_address destination) \<Longrightarrow>
      request destination event = request' destination event"
  shows "send_callback svc request url event = send_callback svc request' url event"
proof (cases "resolve_public_callback_destination svc url")
  case (Inr destination)
  then have "cs_is_global svc (cd_address destination)"
    by (auto simp: resolve_public_callback_destination_def Let_def list_ex_iff hd_in_set
        split: sum.splits if_splits)
  with assms Inr show ?thesis by (simp add: send_callback_def)
qed (simp add: send_callback_def)

text \<open>C33: A delivery talks to public addresses only.  Two networks that answer alike at every globally
  routable address, and differ as they like at loopback, private and link-local ones, are the same
  to a delivery: it ends in the same state, the same record and the same result.\<close>

theorem private_network_unreachable:
  assumes "\<And>destination event. cs_is_global svc (cd_address destination) \<Longrightarrow>
      request destination event = request' destination event"
  shows "deliver_supplier_result_callback svc request d i event_id now later
    = deliver_supplier_result_callback svc request' d i event_id now later"
proof -
  have same: "send_callback svc request = send_callback svc request'"
    by (intro ext send_callback_public assms)
  have "work_delivery svc request = work_delivery svc request'"
    by (intro ext) (simp only: work_delivery_def same)
  then show ?thesis by (simp only: deliver_supplier_result_callback_def)
qed

lemma private_network_unreachable_witness:
  "deliver_supplier_result_callback (sample_services\<lparr>cs_is_global := (\<lambda>a. a \<noteq> ''127.0.0.1'')\<rparr>)
      (\<lambda>destination _. if cd_address destination = ''127.0.0.1'' then Some 200 else None)
      (callback_db ''https://s.example/r?x=1'') 9 ''e'' 0 0
   = deliver_supplier_result_callback (sample_services\<lparr>cs_is_global := (\<lambda>a. a \<noteq> ''127.0.0.1'')\<rparr>)
      (\<lambda>_ _. None) (callback_db ''https://s.example/r?x=1'') 9 ''e'' 0 0"
  by (rule private_network_unreachable) simp

section \<open>Deliveries by many workers\<close>

text \<open>C19: Whatever requests, workers, recoveries, lost workers, reconciliations, refreshes and other
  writers do, and in whatever order, all callbacks sent for an attempt carry the same event id, which
  the supplier can use to recognise a repetition -- unless a reconciliation or a refresh replaced the
  transaction data in which the attempt's delivery record is kept.  So the attempt is never reported
  under a second event, even if its status is changed afterwards, as long as its record stays.\<close>

theorem one_event_per_attempt:
  assumes "fresh_system s0" "(callback_step svc)\<^sup>*\<^sup>* s0 s"
    and "(i, e) \<in> set (cy_requests s)" "(i, e') \<in> set (cy_requests s)" and "i \<notin> cy_erased s"
  shows "e = e'"
proof -
  have "event_inv s" using event_inv_reach [OF assms(2)] event_inv_fresh [OF assms(1)] by blast
  with assms(3,4) have "carries (cy_erased s) (deliveries (cy_db s)) (i, e)"
    "carries (cy_erased s) (deliveries (cy_db s)) (i, e')"
    by (auto simp: event_inv_def Let_def)
  then show ?thesis using assms(5) by (rule carries_unique)
qed

lemma distinct_singleton_length:
  assumes "distinct (map f xs)" "set (map f xs) \<subseteq> {i}" shows "length xs \<le> 1"
proof -
  have "card (set (map f xs)) \<le> card {i}" by (intro card_mono assms(2)) simp
  moreover have "card (set (map f xs)) = length (map f xs)" by (rule distinct_card [OF assms(1)])
  ultimately show ?thesis by simp
qed

lemma count_list_distinct: "distinct xs \<Longrightarrow> count_list xs x \<le> 1"
  by (induction xs) auto

text \<open>As long as no record is replaced and every worker is done less than 30 seconds after its claim, the acceptance of a
  result is recorded at most once for an attempt: a recorded delivery is final, no other worker
  holds a claim on it and none gets one.\<close>

theorem prompt_delivery_once:
  assumes "clock_roundtrip svc" "fresh_system s0" "(prompt_step svc)\<^sup>*\<^sup>* s0 s"
  shows "distinct (cy_accepted s)
    \<and> (\<forall>i. count_list (cy_accepted s) i + length (filter (\<lambda>flight. fst flight = i) (cy_flights s)) \<le> 1)"
proof -
  have inv: "flight_inv svc s"
    using flight_inv_reach [OF assms(1,3)] fresh_flight_inv [OF assms(2)] by blast
  have "count_list (cy_accepted s) i + length (filter (\<lambda>flight. fst flight = i) (cy_flights s)) \<le> 1" for i
  proof (cases "i \<in> set (cy_accepted s)")
    case True
    then have "\<not> claimed_by svc (deliveries (cy_db s)) (i, e, t)" for e t
      using inv by (auto simp: flight_inv_def recorded_def claimed_by_def)
    then have "filter (\<lambda>flight. fst flight = i) (cy_flights s) = []"
      using inv by (auto simp: flight_inv_def filter_empty_conv)
    moreover have "count_list (cy_accepted s) i \<le> 1"
      using inv count_list_distinct by (auto simp: flight_inv_def)
    ultimately show ?thesis by simp
  next
    case False
    have "distinct (map fst (filter (\<lambda>flight. fst flight = i) (cy_flights s)))"
      using inv by (simp add: flight_inv_def distinct_map_filter)
    moreover have "set (map fst (filter (\<lambda>flight. fst flight = i) (cy_flights s))) \<subseteq> {i}" by auto
    ultimately have "length (filter (\<lambda>flight. fst flight = i) (cy_flights s)) \<le> 1"
      by (rule distinct_singleton_length)
    with False show ?thesis by simp
  qed
  with inv show ?thesis by (simp add: flight_inv_def)
qed

section \<open>A run\<close>

abbreviation sample_url :: string where
  "sample_url \<equiv> ''https://s.example/r?x=1''"

definition sample_event_id :: string where
  "sample_event_id = ''aB3aB3aB3aB3-2''"

definition sample_start :: callback_system where
  "sample_start = \<lparr>cy_db = callback_db sample_url, cy_now = 0, cy_jobs = {}, cy_flights = [],
     cy_requests = [], cy_accepted = [], cy_erased = {}\<rparr>"

lemma sample_work:
  assumes "map_of record ''status'' = Some (JStr ''2'')"
  shows "\<exists>f. work_delivery sample_services (\<lambda>_ _. answer) (callback_db sample_url) ended_attempt record e now = Inr f
    \<and> fd_state f = (case answer of Some code \<Rightarrow> fd_state (response_finding code) | None \<Rightarrow> ''failed'')"
proof -
  obtain url p where url: "build_supplier_result_url sample_services (callback_db sample_url) ended_attempt ''2'' now = Inr url"
    "url \<noteq> []" "urlsplit (\<lambda>_. False) url = Inr p" "up_scheme p = ''https''" "up_netloc p = ''s.example''"
    using sample_build [of now] by blast
  have host: "host_port ''s.example'' = (''s.example'', [])" by code_simp
  have rp: "py_rpartition (CHR ''@'') ''s.example'' = ([], False, ''s.example'')" by code_simp
  have names: "callback_hostname p = ''s.example''" "url_port p = Inr None" "\<not> url_has_user_info p"
    using url(5) host rp by (simp_all add: callback_hostname_def url_hostname_def url_port_def
        url_has_user_info_def py_lower_def lower_char_def is_upper_ascii_def)
  have other: "\<not> py_endswith ''s.example'' ''.localhost''" by code_simp
  have "\<exists>destination. resolve_public_callback_destination sample_services url = Inr destination"
    using url(3,4) names other
    by (simp add: resolve_public_callback_destination_def resolved_addresses_def sample_services_def Let_def)
  then obtain destination where "resolve_public_callback_destination sample_services url = Inr destination" ..
  with url(1,2) assms show ?thesis
    by (cases answer) (simp_all add: work_delivery_def send_callback_def failed_finding_def)
qed

lemma sample_findings:
  "\<exists>f \<in> findings sample_services. fd_state f = ''delivered''"
  "\<exists>f \<in> findings sample_services. fd_state f = ''failed''"
  using sample_work [of "[(''status'', JStr ''2'')]" "Some 200"] sample_work [of "[(''status'', JStr ''2'')]" None]
  by (force simp: findings_def response_finding_def)+

lemma ended_record [simp]: "delivery_record ended_attempt = []"
  by (simp add: delivery_record_def delivery_audit_def only_dict_def as_dict_def)

lemma sample_fresh: "fresh_system sample_start"
proof -
  have "deliveries (callback_db sample_url) i = Some r \<Longrightarrow> r = []" for i r
    by (auto simp: deliveries_def callback_db_def get_attempt_def row_by_pk_def split: if_splits)
  then show ?thesis by (auto simp: fresh_system_def sample_start_def)
qed

lemma parse_int_show_int: "parse_int (show_int t) = Some t"
proof (cases "t < 0")
  case True
  let ?n = "nat (- t)"
  have digits: "list_all is_digit_ascii (show_nat ?n)" "show_nat ?n \<noteq> []"
    using show_nat_all_digits by auto
  have minus: "\<not> is_ascii_space (CHR ''-'')" by code_simp
  from digits have "py_strip (CHR ''-'' # show_nat ?n) = CHR ''-'' # show_nat ?n"
    by (intro py_strip_unspaced) (auto simp: list_all_iff digit_not_space minus)
  moreover have "int_digits False 0 (show_nat ?n) = Some ?n"
    using digits digits_value_show_nat [of ?n] by (simp add: int_digits_show)
  ultimately show ?thesis using True by (simp add: show_int_def parse_int_def)
next
  case False
  then show ?thesis by (simp add: show_int_def parse_int_show_nat)
qed

lemma sample_clock: "clock_roundtrip sample_services"
  by (simp add: clock_roundtrip_def parse_int_show_int)

lemma sample_unerased [simp]: "cy_erased sample_start = {}"
  by (simp add: sample_start_def)

text \<open>The result is queued and claimed at once.\<close>

lemma sample_queue_step:
  "\<exists>d. callback_step sample_services sample_start
      (sample_start\<lparr>cy_db := d, cy_jobs := {(9, sample_event_id)}\<rparr>)
    \<and> deliveries d 9 = Some (new_delivery_record sample_services sample_event_id ''2'' 0)"
proof -
  let ?d = "callback_db sample_url"
  let ?r = "new_delivery_record sample_services sample_event_id ''2'' 0"
  have event: "delivery_event_id ended_attempt ''2'' = sample_event_id"
    by (simp add: delivery_event_id_def sample_event_id_def)
  obtain url where "build_supplier_result_url sample_services ?d ended_attempt ''2'' 0 = Inr url" "url \<noteq> []"
    using sample_build [of 0] by blast
  then have "queue_supplier_result_callback sample_services ?d ended_attempt 0 = Inr (True, save_delivery 9 ?r 0 ?d)"
    by (simp add: queue_supplier_result_callback_def TERMINAL_STATUS_CODES_def locked_attempt_def
        queued_record_def event)
  from callback_step.queue [of sample_services sample_start ended_attempt "save_delivery 9 ?r 0 ?d"
      sample_event_id True "save_delivery 9 ?r 0 ?d"] this event
  have "callback_step sample_services sample_start
      (sample_start\<lparr>cy_db := save_delivery 9 ?r 0 ?d, cy_jobs := {(9, sample_event_id)}\<rparr>)"
    by (simp add: sample_start_def dispatch_supplier_callback_def)
  moreover have "deliveries (save_delivery 9 ?r 0 ?d) 9 = Some ?r"
    by (simp add: deliveries_save_at) (simp add: deliveries_def)
  ultimately show ?thesis by blast
qed

definition sample_claimed :: "db \<Rightarrow> callback_system" where
  "sample_claimed d = sample_start\<lparr>cy_db := d, cy_jobs := {(9, sample_event_id)},
     cy_flights := [(9, sample_event_id, 0)]\<rparr>"

lemma claimed_unerased [simp]: "cy_erased (sample_claimed d) = {}"
  by (simp add: sample_claimed_def)

lemma sample_claim_run:
  "\<exists>d. (prompt_step sample_services)\<^sup>*\<^sup>* sample_start (sample_claimed d)
    \<and> deliveries d 9 = Some (claimed_record sample_services
        (new_delivery_record sample_services sample_event_id ''2'' 0) 0 0)"
proof -
  let ?r = "new_delivery_record sample_services sample_event_id ''2'' 0"
  obtain d1 where 1: "callback_step sample_services sample_start
      (sample_start\<lparr>cy_db := d1, cy_jobs := {(9, sample_event_id)}\<rparr>)" "deliveries d1 9 = Some ?r"
    using sample_queue_step by blast
  let ?s1 = "sample_start\<lparr>cy_db := d1, cy_jobs := {(9, sample_event_id)}\<rparr>"
  have start: "cy_now sample_start = 0" "cy_flights sample_start = []" by (simp_all add: sample_start_def)
  have "claimable sample_services ?r 0" by (simp add: claimable_def deliverable_state_def)
  moreover have "dict_get ?r ''attempt_count'' = JInt 0" by (simp add: new_delivery_record_def dict_get_def)
  ultimately obtain d2 where 2: "callback_step sample_services ?s1
      (?s1\<lparr>cy_db := d2, cy_flights := (9, sample_event_id, 0) # cy_flights ?s1\<rparr>)"
      "deliveries d2 9 = Some (claimed_record sample_services ?r 0 0)"
    using claim_step [of 9 sample_event_id ?s1 ?r sample_services 0] 1(2) start by auto
  have claimed: "?s1\<lparr>cy_db := d2, cy_flights := (9, sample_event_id, 0) # cy_flights ?s1\<rparr> = sample_claimed d2"
    by (simp add: sample_claimed_def sample_start_def)
  have "prompt_step sample_services sample_start ?s1" "prompt_step sample_services ?s1 (sample_claimed d2)"
    using 1(1) 2(1) start unfolding claimed
    by (simp_all add: prompt_step_def prompt_def sample_claimed_def seconds_def)
  then have "(prompt_step sample_services)\<^sup>*\<^sup>* sample_start (sample_claimed d2)"
    by (meson converse_rtranclp_into_rtranclp r_into_rtranclp)
  with 2(2) show ?thesis by blast
qed

lemma prompt_run_is_run:
  "(prompt_step svc)\<^sup>*\<^sup>* s s' \<Longrightarrow> (callback_step svc)\<^sup>*\<^sup>* s s'"
  by (induction rule: rtranclp_induct) (auto simp: prompt_step_def intro: rtranclp.rtrancl_into_rtrancl)

lemma one_event_per_attempt_witness:
  "\<exists>s e e'. (callback_step sample_services)\<^sup>*\<^sup>* sample_start s \<and> cy_requests s = [(9, e), (9, e')] \<and> e = e'"
proof -
  let ?e = sample_event_id
  obtain d where run: "(callback_step sample_services)\<^sup>*\<^sup>* sample_start (sample_claimed d)"
    using sample_claim_run prompt_run_is_run by blast
  let ?s1 = "(sample_claimed d)\<lparr>cy_requests := [(9, ?e)]\<rparr>" and ?s2 = "(sample_claimed d)\<lparr>cy_requests := [(9, ?e), (9, ?e)]\<rparr>"
  have "callback_step sample_services (sample_claimed d) ?s1" "callback_step sample_services ?s1 ?s2"
    using callback_step.send [of 9 ?e 0 "sample_claimed d" sample_services]
      callback_step.send [of 9 ?e 0 ?s1 sample_services]
    by (simp_all add: sample_claimed_def sample_start_def)
  with run have reach: "(callback_step sample_services)\<^sup>*\<^sup>* sample_start ?s2"
    by (meson rtranclp.rtrancl_into_rtrancl)
  from one_event_per_attempt [OF sample_fresh reach, of 9 ?e ?e] reach show ?thesis by fastforce
qed

lemma prompt_delivery_once_witness:
  "\<exists>s. (prompt_step sample_services)\<^sup>*\<^sup>* sample_start s \<and> cy_accepted s = [9] \<and> distinct (cy_accepted s)"
proof -
  let ?e = sample_event_id
  let ?r = "claimed_record sample_services (new_delivery_record sample_services ?e ''2'' 0) 0 0"
  obtain d where run: "(prompt_step sample_services)\<^sup>*\<^sup>* sample_start (sample_claimed d)"
    and r: "deliveries d 9 = Some ?r" using sample_claim_run by blast
  obtain f where f: "f \<in> findings sample_services" "fd_state f = ''delivered''" using sample_findings(1) by blast
  obtain d' where step: "callback_step sample_services (sample_claimed d)
      ((sample_claimed d)\<lparr>cy_db := d', cy_flights := [], cy_accepted := [9]\<rparr>)"
    using finish_step [of 9 ?e 0 "sample_claimed d" f sample_services ?r] f r
    by (auto simp: sample_claimed_def sample_start_def)
  then have "prompt_step sample_services (sample_claimed d)
      ((sample_claimed d)\<lparr>cy_db := d', cy_flights := [], cy_accepted := [9]\<rparr>)"
    by (simp add: prompt_step_def prompt_def)
  with run have reach: "(prompt_step sample_services)\<^sup>*\<^sup>* sample_start
      ((sample_claimed d)\<lparr>cy_db := d', cy_flights := [], cy_accepted := [9]\<rparr>)"
    by (rule rtranclp.rtrancl_into_rtrancl)
  from prompt_delivery_once [OF sample_clock sample_fresh reach] reach show ?thesis by fastforce
qed

text \<open>Without that a recorded delivery can be lost.  A worker held up for 30 seconds, which the task's
  own limits of 45 and 60 seconds allow, is overtaken by a second one; when that one has recorded
  the delivery and the first then fails, its failure replaces the record, so the event counts as
  undelivered again and is open to a third attempt.\<close>

theorem late_failure_revokes_delivery:
  "\<exists>s r. (callback_step sample_services)\<^sup>*\<^sup>* sample_start s \<and> cy_accepted s = [9]
    \<and> deliveries (cy_db s) 9 = Some r \<and> dict_get r ''state'' = JStr ''failed''
    \<and> claimable sample_services r (cy_now s)"
proof -
  let ?e = sample_event_id and ?t = "30000000 :: int"
  let ?r0 = "claimed_record sample_services (new_delivery_record sample_services ?e ''2'' 0) 0 0"
  obtain d where run: "(callback_step sample_services)\<^sup>*\<^sup>* sample_start (sample_claimed d)"
    and r0: "deliveries d 9 = Some ?r0" using sample_claim_run prompt_run_is_run by blast
  let ?s0 = "(sample_claimed d)\<lparr>cy_now := ?t\<rparr>"
  have wait: "callback_step sample_services (sample_claimed d) ?s0"
    by (rule callback_step.pass) (simp add: sample_claimed_def sample_start_def)
  let ?r1 = "claimed_record sample_services ?r0 1 ?t"
  have "recently_claimed sample_services ?r0 ?t = Inr (?t - seconds 30 < 0)"
    by (rule recently_claimed_flight [OF sample_clock]) simp
  then have "claimable sample_services ?r0 ?t"
    by (simp add: claimable_def deliverable_state_def seconds_def)
  moreover have "dict_get ?r0 ''attempt_count'' = JInt 1"
    by (simp add: claimed_record_def)
  ultimately obtain d1 where claim: "callback_step sample_services ?s0
      (?s0\<lparr>cy_db := d1, cy_flights := [(9, ?e, ?t), (9, ?e, 0)]\<rparr>)" and r1: "deliveries d1 9 = Some ?r1"
    using claim_step [of 9 ?e ?s0 ?r0 sample_services 1] r0
    by (auto simp: sample_claimed_def sample_start_def int_of_json_def)
  let ?s1 = "?s0\<lparr>cy_db := d1, cy_flights := [(9, ?e, ?t), (9, ?e, 0)]\<rparr>"
  obtain ok where ok: "ok \<in> findings sample_services" "fd_state ok = ''delivered''" using sample_findings(1) by blast
  let ?r2 = "finished_record sample_services ?r1 ok ?t"
  obtain d2 where finish: "callback_step sample_services ?s1
      (?s1\<lparr>cy_db := d2, cy_flights := [(9, ?e, 0)], cy_accepted := [9]\<rparr>)" and r2: "deliveries d2 9 = Some ?r2"
    using finish_step [of 9 ?e ?t ?s1 ok sample_services ?r1] ok r1
    by (auto simp: sample_claimed_def sample_start_def)
  let ?s2 = "?s1\<lparr>cy_db := d2, cy_flights := [(9, ?e, 0)], cy_accepted := [9]\<rparr>"
  obtain late where late: "late \<in> findings sample_services" "fd_state late = ''failed''" using sample_findings(2) by blast
  let ?r3 = "finished_record sample_services ?r2 late ?t"
  obtain d3 where fail: "callback_step sample_services ?s2 (?s2\<lparr>cy_db := d3, cy_flights := []\<rparr>)"
    and r3: "deliveries d3 9 = Some ?r3"
    using finish_step [of 9 ?e 0 ?s2 late sample_services ?r2] late r2
    by (auto simp: sample_claimed_def sample_start_def)
  let ?s3 = "?s2\<lparr>cy_db := d3, cy_flights := []\<rparr>"
  from run wait claim finish fail have "(callback_step sample_services)\<^sup>*\<^sup>* sample_start ?s3"
    by (meson rtranclp.rtrancl_into_rtrancl)
  moreover have "dict_get ?r3 ''state'' = JStr ''failed''" using late(2) by simp
  moreover from this have "claimable sample_services ?r3 ?t"
    by (simp add: claimable_def deliverable_state_def)
  ultimately show ?thesis using r3 by (intro exI [of _ ?s3] exI [of _ ?r3]) simp
qed

section \<open>A record that is lost\<close>

text \<open>C34: Refreshing an attempt's result on demand forgets that it was delivered.  While the record says
  that the supplier accepted the result, no call queues it again.  Once the transaction data is replaced by
  the provider's row, which has no such record, the next call for the terminal attempt queues it anew, with
  a fresh record of no deliveries.\<close>

theorem refresh_forgets_delivery:
  assumes "refresh_provider_outcome ip_text parse rows integration a now d = Inr d'"
    and "provider_row parse rows integration a = Some found" and "dict_get found DELIVERY_AUDIT_KEY = JNull"
    and "get_attempt d (at_id a) = Some c" and "dict_get (delivery_record c) ''state'' = JStr ''delivered''"
    and "get_attempt d' (at_id a) = Some b" and "st = attempt_status_value (at_status b)" and "st \<in> set TERMINAL_STATUS_CODES"
    and "build_supplier_result_url svc d' b st later = Inr url" and "url \<noteq> []"
  shows "(\<forall>d1. queue_supplier_result_callback svc d c later \<noteq> Inr (True, d1))
    \<and> (\<exists>d2. queue_supplier_result_callback svc d' b later = Inr (True, d2)
         \<and> deliveries d2 (at_id a) = Some (new_delivery_record svc (delivery_event_id b st) st later))"
proof -
  have ids: "at_id c = at_id a" "at_id b = at_id a" using assms(4,6) by (auto dest: get_attempt_id)
  have "queue_supplier_result_callback svc d c later \<noteq> Inr (True, d1)" for d1
  proof
    assume "queue_supplier_result_callback svc d c later = Inr (True, d1)"
    then obtain event status r where "queued_record svc (delivery_record c) event status later = Some r"
      using queue_changes deliveries_locked [OF assms(4)] ids by force
    with assms(5) show False using queued_record_state by blast
  qed
  moreover have "at_upstream_transaction_data b = JObj found" by (rule refresh_replaces [OF assms(1,2,6)])
  then have "delivery_record b = []"
    using assms(3) by (simp add: delivery_record_def delivery_audit_def only_dict_def as_dict_def)
  then have "queued_record svc (delivery_record b) (delivery_event_id b st) st later
      = Some (new_delivery_record svc (delivery_event_id b st) st later)"
    by (simp add: queued_record_def)
  with assms(6-10) ids have "queue_supplier_result_callback svc d' b later
      = Inr (True, save_delivery (at_id a) (new_delivery_record svc (delivery_event_id b st) st later) later d')"
    by (simp add: queue_supplier_result_callback_def locked_attempt_def Let_def)
  moreover have "deliveries (save_delivery (at_id a) r later d') (at_id a) = Some r" for r
    using deliveries_locked [OF assms(6)] by (simp add: deliveries_save_at)
  ultimately show ?thesis by blast
qed

text \<open>InnovateMR knows no transaction of the delivered attempt: its data becomes empty.\<close>

definition delivered_attempt :: survey_attempt where
  "delivered_attempt = ended_attempt\<lparr>at_upstream_transaction_data := JObj [(DELIVERY_AUDIT_KEY,
     JObj [(''event_id'', JStr sample_event_id), (''status'', JStr ''2''), (''state'', JStr ''delivered'')])]\<rparr>"

definition delivered_db :: db where
  "delivered_db = callback_db sample_url\<lparr>attempts := [delivered_attempt]\<rparr>"

lemma delivered_refreshed:
  "refresh_provider_outcome (\<lambda>_. None) (\<lambda>_. None) [] None delivered_attempt 0 delivered_db = Inr (callback_db sample_url)"
proof -
  have code: "provider_code_of None = ''innovatemr''" by code_simp
  have status: "transaction_status JNull = None" by code_simp
  have upstream: "attempt_transaction (\<lambda>_. None) rid [] = []" for rid by (simp add: attempt_transaction_def)
  have locked: "get_attempt delivered_db 9 = Some delivered_attempt"
    by (simp add: delivered_db_def get_attempt_def row_by_pk_def delivered_attempt_def)
  have at_id: "at_id delivered_attempt = 9" by (simp add: delivered_attempt_def)
  have ip: "normalize_client_ip (\<lambda>_. None) None = None" by (simp add: normalize_client_ip_def)
  have "reconciled_attempt (\<lambda>_. None) (\<lambda>_. None) [] 0 delivered_attempt = ended_attempt"
    by (simp add: reconciled_attempt_def status ip json_text_def) (simp add: delivered_attempt_def ended_attempt_def)
  moreover have "save_attempt ended_attempt delivered_db = callback_db sample_url"
    by (simp add: save_attempt_def delivered_db_def update_attempts_def update_where_def delivered_attempt_def callback_db_def)
  ultimately show ?thesis
    using locked at_id by (simp add: refresh_provider_outcome_def code reconcile_attempt_status_def upstream status Let_def)
qed

lemma refresh_forgets_delivery_witness:
  "refresh_provider_outcome (\<lambda>_. None) (\<lambda>_. None) [] None delivered_attempt 0 delivered_db = Inr (callback_db sample_url)
   \<and> dict_get (delivery_record delivered_attempt) ''state'' = JStr ''delivered''
   \<and> (\<exists>d2. queue_supplier_result_callback sample_services (callback_db sample_url) ended_attempt 7 = Inr (True, d2)
        \<and> deliveries d2 9 = Some (new_delivery_record sample_services sample_event_id ''2'' 7))"
proof -
  have code: "provider_code_of None = ''innovatemr''" by code_simp
  have upstream: "attempt_transaction (\<lambda>_. None) rid [] = []" for rid by (simp add: attempt_transaction_def)
  have delivered: "dict_get (delivery_record delivered_attempt) ''state'' = JStr ''delivered''"
    by (simp add: delivery_record_def delivery_audit_def delivered_attempt_def only_dict_def as_dict_def dict_get_def)
  have row: "get_attempt delivered_db 9 = Some delivered_attempt" "at_id delivered_attempt = 9"
    by (simp_all add: delivered_db_def get_attempt_def row_by_pk_def delivered_attempt_def)
  obtain url where url: "build_supplier_result_url sample_services (callback_db sample_url) ended_attempt ''2'' 7 = Inr url"
    "url \<noteq> []" using sample_build by blast
  have event: "delivery_event_id ended_attempt ''2'' = sample_event_id"
    by (simp add: delivery_event_id_def sample_event_id_def)
  have "''2'' \<in> set TERMINAL_STATUS_CODES" by (simp add: TERMINAL_STATUS_CODES_def)
  with refresh_forgets_delivery [OF delivered_refreshed _ _ _ delivered, of "[]" ended_attempt "''2''" sample_services 7 url]
    delivered_refreshed delivered url row
  show ?thesis by (simp add: provider_row_def code upstream event)
qed

end
