(* ===== verification/Attempt_Samples.thy ===== *)
theory Attempt_Samples
  imports Attempt_Lifecycle Samples
begin

text \<open>
  Concrete requests and databases for the witnesses of the attempt properties: an InnovateMR journey
  of an API supplier that ended as terminated, a request with a status, and the services of a
  deployment whose HMAC marks its key and text.
\<close>

definition sample_callbacks :: callback_services where
  "sample_callbacks =
     \<lparr>cs_ip_literal = (\<lambda>_. False), cs_unescape = (\<lambda>s. s), cs_decrypt = Some,
      cs_hmac = (\<lambda>key text. ''5i9''), cs_isoformat = show_int,
      cs_parse_datetime = (\<lambda>s. Inr (parse_int s)), cs_ip_address = Some,
      cs_is_global = (\<lambda>_. True), cs_getaddrinfo = (\<lambda>_ _. None)\<rparr>"

definition sample_web :: "bool \<Rightarrow> web_services" where
  "sample_web required =
     \<lparr>ws_hmac = (\<lambda>algorithm key text. ''ab'' @ show_nat (length text)), ws_environment = (\<lambda>_. None),
      ws_ip_text = (\<lambda>s. Some (s, False)), ws_trust_forwarded = False,
      ws_innovate = \<lparr>sg_secret = ''k'', sg_algorithm = ''sha256'', sg_public_base = []\<rparr>,
      ws_innovate_required = required,
      ws_biobrain = \<lparr>sg_secret = ''k'', sg_algorithm = ''sha256'', sg_public_base = []\<rparr>,
      ws_biobrain_required = True, ws_status_path = ''/survey/status/'', ws_callbacks = sample_callbacks\<rparr>"

definition status_request :: "string \<Rightarrow> http_request" where
  "status_request query =
     \<lparr>rq_scheme = ''https'', rq_host = ''s.example'', rq_path = ''/survey/status/'', rq_query_string = query,
      rq_meta = (\<lambda>name. if name = ''REMOTE_ADDR'' then Some ''192.0.2.7'' else None)\<rparr>"

definition both_urls_key :: vendor_api_key where
  "both_urls_key =
     \<lparr>vak_id = 3, vak_vendor = 31, vak_client_allocations = [], vak_name = ''K'', vak_prefix = [],
      vak_last_four = [], vak_key_hash = ''h'', vak_survey_id_mode = PROJECT_ID,
      vak_complete_callback_url = ''https://s.example/complete'',
      vak_terminate_callback_url = ''https://s.example/terminate'', vak_quota_callback_url = [],
      vak_quality_callback_url = [], vak_callback_signing_enabled = False,
      vak_encrypted_callback_secret = [], vak_callback_secret_last_four = [],
      vak_is_active = True, vak_expires_at = None, vak_last_used_at = None, vak_revoked_at = None,
      vak_created_by = None, vak_created_at = 0, vak_updated_at = 0\<rparr>"

definition terminated_attempt :: survey_attempt where
  "terminated_attempt = sample_attempt\<lparr>at_status := TERMINATED, at_supplier_api_key_id := Some 3,
     at_callback_at := Some 5, at_last_callback_at := Some 5, at_loi_seconds := Some 0,
     at_status_source := ''browser_callback''\<rparr>"

definition journey_db :: "survey_attempt \<Rightarrow> db" where
  "journey_db a = sample_db\<lparr>api_keys := [both_urls_key], attempts := [a]\<rparr>"

text \<open>The request as the views read it.\<close>

definition status_query :: "string \<Rightarrow> string" where
  "status_query code = ''status='' @ code @ ''&rid=aB3aB3aB3a''"

lemma sample_query_1: "request_get (status_request (status_query ''1'')) = [(''status'', ''1''), (''rid'', ''aB3aB3aB3a'')]"
  by (simp add: request_get_def status_request_def status_query_def) code_simp

lemma sample_query_2: "request_get (status_request (status_query ''2'')) = [(''status'', ''2''), (''rid'', ''aB3aB3aB3a'')]"
  by (simp add: request_get_def status_request_def status_query_def) code_simp

lemma rid_unspaced [simp]: "py_strip ''aB3aB3aB3a'' = ''aB3aB3aB3a''" "py_strip ''1'' = ''1''" "py_strip ''2'' = ''2''"
  "py_strip [] = []"
  by code_simp+

lemma sample_request_reads:
  assumes "request_get (status_request q) = [(''status'', code), (''rid'', ''aB3aB3aB3a'')]"
    and "py_strip code = code"
  shows "\<not> duplicate_security_parameters (status_request q)"
    "param_text (status_request q) ''status'' = code"
    "status_identifiers_from_request (status_request q) = [''aB3aB3aB3a'']"
    "param_text (status_request q) ''rid'' = ''aB3aB3aB3a''"
  using assms
  by (simp_all add: duplicate_security_parameters_def get_values_def STATUS_IDENTIFIER_NAMES_def
      param_text_def get_param_def status_identifiers_from_request_def keep_first_def)

lemma terminated_attempt_fields [simp]:
  "at_id terminated_attempt = 9" "at_rid terminated_attempt = ''aB3aB3aB3a''"
  "at_survey terminated_attempt = 7" "at_status terminated_attempt = TERMINATED"
  "at_supplier_api_key_id terminated_attempt = Some 3" "at_supplier_delivery_config terminated_attempt = JObj []"
  "at_upstream_transaction_data terminated_attempt = JObj []" "at_is_verified terminated_attempt = False"
  "at_callback_at terminated_attempt = Some 5" "at_status_source terminated_attempt = ''browser_callback''"
  "at_pid terminated_attempt = ''aB3aB3aB3aB3''" "at_prescreener_uid terminated_attempt = None"
  "at_provider_profile_uid terminated_attempt = []" "at_callback_count terminated_attempt = 0"
  by (simp_all add: terminated_attempt_def sample_attempt_def)

lemma sample_attempt_journey [simp]:
  "at_id sample_attempt = 9" "at_rid sample_attempt = ''aB3aB3aB3a''" "at_survey sample_attempt = 7"
  "at_status sample_attempt = REDIRECTED" "at_callback_at sample_attempt = None"
  "at_upstream_transaction_data sample_attempt = JObj []" "at_is_verified sample_attempt = False"
  "at_status_source sample_attempt = []" "at_supplier_api_key_id sample_attempt = None"
  by (simp_all add: sample_attempt_def)

lemma journey_db_fields [simp]:
  "attempts (journey_db a) = [a]" "surveys (journey_db a) = [sample_survey]" "integrations (journey_db a) = []"
  "reservations (journey_db a) = []" "api_keys (journey_db a) = [both_urls_key]"
  by (simp_all add: journey_db_def)

lemma sample_survey_integration [simp]: "sv_id sample_survey = 7" "sv_integration sample_survey = None"
  "sv_local_id sample_survey = ''20260800000001''"
  by (simp_all add: sample_survey_def)

lemma journey_integration [simp]: "at_survey a = 7 \<Longrightarrow> attempt_integration (journey_db a) b = (if at_survey b = 7 then Inr None else Inl (DoesNotExist ''Survey''))"
  by (simp add: attempt_integration_def get_survey_def row_by_pk_def)

lemma sample_db_ok: "attempts_ok sample_db"
  by (simp add: attempts_ok_def unique_by_def reservations_ok_def reservations_unique_def is_pending_def
      open_reservations_pending_def)

definition replayed_attempt :: "timestamp \<Rightarrow> survey_attempt" where
  "replayed_attempt now = terminated_attempt\<lparr>at_last_callback_at := Some now, at_callback_count := 1, at_updated_at := now\<rparr>"

lemma replay_run:
  "survey_status (sample_web False) (journey_db terminated_attempt) (status_request (status_query ''1'')) now =
     (journey_db (replayed_attempt now),
      after_recording (sample_web False) (journey_db (replayed_attempt now)) (replayed_attempt now) True ''innovatemr''
        ''1'' \<lparr>sp_title = ''Thank you for participating!'', sp_label = None\<rparr> (Some ''192.0.2.7''))"
proof -
  let ?ws = "sample_web False" and ?d = "journey_db terminated_attempt" and ?r = "status_request (status_query ''1'')"
  note reads = sample_request_reads [OF sample_query_1 rid_unspaced(2)]
  have ip: "request_ip ?ws ?r = Some ''192.0.2.7''"
    by (simp add: request_ip_def get_request_ip_def sample_web_def status_request_def normalize_client_ip_def) code_simp
  have found: "resolve_status_attempt ?d [''aB3aB3aB3a''] = Some terminated_attempt"
    by (simp add: resolve_status_attempt_def anchored_attempts_def)
  have pages: "map_of STATUS_PAGES ''1'' = Some \<lparr>sp_title = ''Thank you for participating!'', sp_label = None\<rparr>"
    "''1'' \<in> fst ` set STATUS_PAGES"
    by (simp_all add: STATUS_PAGES_def)
  have code: "status_of_code ''1'' = Some COMPLETED" by code_simp
  have rec: "record_callback ?ws ?r ''innovatemr'' Nobody COMPLETED page ip now 9 ?d
      = Inr (Applied (replayed_attempt now), journey_db (replayed_attempt now))" for page ip
    by (simp add: record_callback_def get_attempt_def row_by_pk_def toluna_finalized_def applied_callback_def
        keep_evidence_def replayed_attempt_def [symmetric] finalize_attempt_capacity_def reservation_of_attempt_def)
      (simp add: save_attempt_def update_attempts_def update_where_def journey_db_def replayed_attempt_def)
  have auth: "authenticate_callback ?ws ?d ?r None ''innovatemr'' False = Inr (Inr Nobody)"
    by (simp add: authenticate_callback_def sample_web_def)
  show ?thesis
    by (simp add: survey_status_def reads found pages verified_toluna_notification_summary_def handle_status_callback_def
        Let_def provider_code_or_innovate_def biobrain_canonical_query_def canonical_query_def trusted_recorded_source_def
        code auth rec ip)
qed

end
