(* ===== verification/Attempt_Properties.thy ===== *)
theory Attempt_Properties
  imports Attempt_Samples Lifecycle_Properties
begin

text \<open>
  Properties of attempts: a result is final, capacity is held only while an attempt is under way, a
  recorded browser result is authenticated and touches one attempt, what entering a survey leaves,
  and what a replayed result tells the supplier.
\<close>

section \<open>Results\<close>

text \<open>C1: Whatever follows -- entries, callbacks of any provider, local endings, reconciliation,
  expiry and other writers -- an attempt that has a result keeps having one: it belongs to the same
  survey and is never under way again.  For every provider but Toluna and RFG the result is final too:
  its status, end time and length of interview stay.  (Toluna and RFG may correct a result with a
  verified call of their own, so for them the status may change.)\<close>

theorem result_is_final:
  assumes "attempt_steps d d'" and "attempts_ok d"
    and "get_attempt d i = Some a" and "at_callback_at a \<noteq> None"
  shows "\<exists>b. get_attempt d' i = Some b \<and> at_survey b = at_survey a
    \<and> at_callback_at b \<noteq> None \<and> at_status b \<notin> {INITIATED, REDIRECTED}
    \<and> (provider_of d a \<notin> {''toluna'', ''rfg''} \<longrightarrow>
         at_status b = at_status a \<and> at_callback_at b = at_callback_at a \<and> at_loi_seconds b = at_loi_seconds a)"
proof -
  note both = attempt_steps_both [OF assms(1,2)]
  obtain b where b: "get_attempt d' i = Some b" "result_stays a b"
    using results_kept_stays [OF _ assms(3)] both by blast
  have "\<not> is_pending b" using attempts_okD(1) [OF _ b(1)] both b(2) assms(4) by (simp add: result_stays_def)
  moreover have "final_result d a \<Longrightarrow> same_result a b" using results_keptD [OF _ assms(3)] both b(1) by force
  ultimately show ?thesis
    using b assms(4) by (auto simp: same_result_def result_stays_def final_result_def is_pending_def)
qed

lemma journey_ok: "at_status a = TERMINATED \<Longrightarrow> at_callback_at a \<noteq> None \<Longrightarrow> attempts_ok (journey_db a)"
  by (simp add: attempts_ok_def unique_by_def reservations_ok_def reservations_unique_def is_pending_def
      open_reservations_pending_def)

lemma replay_step: "attempt_step (journey_db terminated_attempt) (journey_db (replayed_attempt 90))"
  by (rule attempt_step.browser [OF replay_run])

lemma result_is_final_witness:
  "\<exists>d'. attempt_step (journey_db terminated_attempt) d' \<and> d' \<noteq> journey_db terminated_attempt
     \<and> (\<exists>b. get_attempt d' 9 = Some b \<and> at_status b = TERMINATED)"
proof -
  have steps: "attempt_steps (journey_db terminated_attempt) (journey_db (replayed_attempt 90))"
    by (rule attempt_steps.more [OF attempt_steps.none replay_step])
  have row: "get_attempt (journey_db terminated_attempt) 9 = Some terminated_attempt"
    by (simp add: get_attempt_def row_by_pk_def)
  have provider: "provider_of (journey_db terminated_attempt) terminated_attempt \<notin> {''toluna'', ''rfg''}"
    by (simp add: provider_of_def provider_code_or_innovate_def)
  have "journey_db (replayed_attempt 90) \<noteq> journey_db terminated_attempt"
    by (auto simp: replayed_attempt_def dest!: arg_cong [of _ _ "\<lambda>d. map at_callback_count (attempts d)"])
  with result_is_final [OF steps journey_ok row] provider replay_step show ?thesis by auto
qed

text \<open>C6: At every moment of every history, an open reservation belongs to an attempt that is still
  under way and has no result: ending an attempt, by whoever, closes its reservation with it.\<close>

theorem capacity_held_only_under_way:
  assumes "attempt_steps d d'" and "attempts_ok d"
    and "q \<in> set (reservations d')" and "ar_status q = RESERVED" and "get_attempt d' (ar_attempt q) = Some a"
  shows "at_status a \<in> {INITIATED, REDIRECTED} \<and> at_callback_at a = None \<and> ar_finalized_at q = None"
proof -
  have ok: "attempts_ok d'" using attempt_steps_both [OF assms(1,2)] by simp
  have "a \<in> set (attempts d')" "at_id a = ar_attempt q"
    using attempts_okD(2) [OF ok assms(5)] get_attempt_id [OF assms(5)] by simp_all
  with ok assms(3,4) have "is_pending a" "reservation_row_ok q"
    by (auto simp: attempts_ok_def open_reservations_pending_def reservations_ok_def list_all_iff)
  with attempts_okD(1) [OF ok assms(5)] assms(4) show ?thesis
    by (simp add: is_pending_def reservation_row_ok_def)
qed

lemma capacity_held_only_under_way_witness:
  "\<exists>d' q. q \<in> set (reservations d') \<and> ar_status q = RESERVED
     \<and> (\<exists>a. get_attempt d' 9 = Some a \<and> at_callback_at a = None)"
proof (rule sample_reserved)
  fix r d'
  assume run: "reserve_attempt_capacity sample_db 9 None (Some 21) None 30 100 = Inr (r, d')"
    and r: "r = new_reservation sample_db sample_attempt (sample_allocation 21 31) None (100 + minutes 30) 100"
    and rows: "reservations d' = [r]"
  have "attempt_step sample_db d'"
    by (rule attempt_step.reserve [OF run, of sample_attempt]) (simp_all add: get_attempt_def row_by_pk_def is_pending_def)
  then have steps: "attempt_steps sample_db d'" by (rule attempt_steps.more [OF attempt_steps.none])
  have q: "r \<in> set (reservations d')" "ar_status r = RESERVED" "ar_attempt r = 9"
    using r rows by (simp_all add: new_reservation_def)
  obtain a where a: "get_attempt d' 9 = Some a"
    using reserve_attempt_kept [OF run] by auto
  have "at_callback_at a = None"
    using capacity_held_only_under_way [OF steps sample_db_ok q(1,2), of a] a q(3) by simp
  with a q(1,2) show ?thesis by (intro exI [of _ d'] exI [of _ r]) simp
qed

section \<open>Browser callbacks\<close>

lemma authenticated_toluna:
  assumes "authenticate_callback ws d r integration ''toluna'' False = Inr (Inr by')"
  shows "\<exists>ci. integration = Some ci
      \<and> toluna_verify_callback (ws_hmac ws) (cs_ip_literal (ws_callbacks ws)) (ws_environment ws) ci r = Inr True"
proof (cases integration)
  case None
  with assms show ?thesis by (simp add: authenticate_callback_def Let_def)
next
  case (Some ci)
  show ?thesis
  proof (cases "toluna_verify_callback (ws_hmac ws) (cs_ip_literal (ws_callbacks ws)) (ws_environment ws) ci r")
    case (Inl e)
    with assms Some show ?thesis by (cases e) (simp_all add: authenticate_callback_def Let_def)
  next
    case (Inr v)
    with assms Some show ?thesis by (cases v) (simp_all add: authenticate_callback_def Let_def)
  qed
qed

lemma authenticated_innovate:
  assumes "authenticate_callback ws d r integration ''innovatemr'' False = Inr (Inr by')" and "ws_innovate_required ws"
  shows "carries_signature (ws_hmac ws) (cs_ip_literal (ws_callbacks ws)) (ws_innovate ws) False r"
proof -
  obtain v where v: "verify_signed_request (ws_hmac ws) (cs_ip_literal (ws_callbacks ws)) (ws_innovate ws) False r = Inr v"
    "vf_valid v"
    using assms by (auto simp: authenticate_callback_def Let_def verify_callback_request_def dest!: spread_keeps split: if_splits)
  then show ?thesis using verified_iff_signature [OF v(1)] by simp
qed

lemma authenticated_biobrain:
  assumes "authenticate_callback ws d r integration provider False = Inr (Inr by')" and "ws_biobrain_required ws"
    and "provider = ''biobrain'' \<or> provider = ''voqall''"
  shows "carries_signature (ws_hmac ws) (cs_ip_literal (ws_callbacks ws)) (ws_biobrain ws) True r"
proof -
  have "map_sum id (\<lambda>v. if vf_valid v then Inr By_Biobrain else Inl 403)
      (verify_signed_request (ws_hmac ws) (cs_ip_literal (ws_callbacks ws)) (ws_biobrain ws) True r)
      = (Inr (Inr by') :: py_error + (nat + verified_by))"
    using assms(3,1,2)
    by (elim disjE) (simp_all add: authenticate_callback_def Let_def verify_biobrain_callback_request_def)
  then obtain v where v: "verify_signed_request (ws_hmac ws) (cs_ip_literal (ws_callbacks ws)) (ws_biobrain ws) True r = Inr v"
    "vf_valid v"
    by (cases "verify_signed_request (ws_hmac ws) (cs_ip_literal (ws_callbacks ws)) (ws_biobrain ws) True r")
      (simp_all split: if_splits)
  then show ?thesis using verified_iff_signature [OF v(1)] by simp
qed

text \<open>C12: A browser callback changes the database only for the attempt its identifiers select, and
  only with the provider's signature: for Toluna the HMAC of the redirect, for InnovateMR and
  BioBrain, where the deployment requires it, a hash of exactly the query it came with.\<close>

theorem recorded_callback_is_authentic:
  assumes "survey_status ws d r now = (d', res)" and "d' \<noteq> d" and "unique_by at_id (attempts d)"
  shows "\<exists>a integration. resolve_status_attempt d (status_identifiers_from_request r) = Some a
    \<and> attempt_integration d a = Inr integration
    \<and> (\<forall>j. j \<noteq> at_id a \<longrightarrow> get_attempt d' j = get_attempt d j)
    \<and> (provider_code_or_innovate integration = ''toluna'' \<longrightarrow> (\<exists>ci. integration = Some ci
        \<and> toluna_verify_callback (ws_hmac ws) (cs_ip_literal (ws_callbacks ws)) (ws_environment ws) ci r = Inr True))
    \<and> (provider_code_or_innovate integration = ''innovatemr'' \<and> ws_innovate_required ws \<longrightarrow>
        carries_signature (ws_hmac ws) (cs_ip_literal (ws_callbacks ws)) (ws_innovate ws) False r)
    \<and> (provider_code_or_innovate integration \<in> {''biobrain'', ''voqall''} \<and> ws_biobrain_required ws \<longrightarrow>
        carries_signature (ws_hmac ws) (cs_ip_literal (ws_callbacks ws)) (ws_biobrain ws) True r)"
  using assms(1)
proof (cases rule: survey_status_cases)
  case same
  with assms(2) show ?thesis by simp
next
  case (recorded a integration by' status page x)
  have "\<forall>j. j \<noteq> at_id a \<longrightarrow> get_attempt d' j = get_attempt d j"
    using recorded(8,6,7)
  proof (cases rule: record_callback_cases)
    case same
    then show ?thesis by simp
  next
    case (applied a' b)
    then show ?thesis by (simp add: get_attempt_save)
  qed
  moreover have "provider_code_or_innovate integration = ''toluna'' \<longrightarrow> (\<exists>ci. integration = Some ci
      \<and> toluna_verify_callback (ws_hmac ws) (cs_ip_literal (ws_callbacks ws)) (ws_environment ws) ci r = Inr True)"
    using recorded(4) authenticated_toluna by metis
  moreover have "provider_code_or_innovate integration = ''innovatemr'' \<and> ws_innovate_required ws \<longrightarrow>
      carries_signature (ws_hmac ws) (cs_ip_literal (ws_callbacks ws)) (ws_innovate ws) False r"
    using recorded(4) authenticated_innovate by metis
  moreover have "provider_code_or_innovate integration \<in> {''biobrain'', ''voqall''} \<and> ws_biobrain_required ws \<longrightarrow>
      carries_signature (ws_hmac ws) (cs_ip_literal (ws_callbacks ws)) (ws_biobrain ws) True r"
    using authenticated_biobrain [OF recorded(4)] by simp
  ultimately show ?thesis using recorded(1,2) by blast
qed

definition signed_web :: web_services where
  "signed_web = (sample_web True)\<lparr>ws_hmac := (\<lambda>algorithm key text. ''ab'')\<rparr>"

lemma signed_reads:
  "request_get (status_request (status_query ''2'' @ ''&hash=ab'')) = [(''status'', ''2''), (''rid'', ''aB3aB3aB3a''), (''hash'', ''ab'')]"
  by (simp add: request_get_def status_request_def status_query_def) code_simp

lemma signed_verified:
  "verify_callback_request (\<lambda>algorithm key text. ''ab'') (\<lambda>_. False)
     \<lparr>sg_secret = ''k'', sg_algorithm = ''sha256'', sg_public_base = []\<rparr>
     (status_request (status_query ''2'' @ ''&hash=ab'')) = Inr \<lparr>vf_valid = True, vf_error = []\<rparr>"
  by (simp add: verify_callback_request_def verify_signed_request_def status_request_def status_query_def) code_simp

lemma signed_run:
  "\<exists>b res. survey_status signed_web (journey_db sample_attempt) (status_request (status_query ''2'' @ ''&hash=ab'')) now
     = (journey_db b, res) \<and> at_status b = TERMINATED"
proof -
  let ?d = "journey_db sample_attempt" and ?r = "status_request (status_query ''2'' @ ''&hash=ab'')"
  have reads: "\<not> duplicate_security_parameters ?r" "param_text ?r ''status'' = ''2''"
    "status_identifiers_from_request ?r = [''aB3aB3aB3a'']" "\<not> has_exact_query ?r [''status'', ''rid'']"
    "\<not> has_exact_query ?r [''status'', ''pid'']"
    by (simp_all add: duplicate_security_parameters_def get_values_def STATUS_IDENTIFIER_NAMES_def
      param_text_def get_param_def status_identifiers_from_request_def keep_first_def has_exact_query_def signed_reads
      insert_eq_iff)
  have found: "resolve_status_attempt ?d [''aB3aB3aB3a''] = Some sample_attempt"
    by (simp add: resolve_status_attempt_def anchored_attempts_def)
  have pages: "map_of STATUS_PAGES ''2'' = Some \<lparr>sp_title = ''Survey ended'', sp_label = None\<rparr>" "''2'' \<in> fst ` set STATUS_PAGES"
    by (simp_all add: STATUS_PAGES_def)
  have code: "status_of_code ''2'' = Some TERMINATED" by code_simp
  obtain b where rec: "record_callback signed_web ?r ''innovatemr'' By_Innovate TERMINATED
      \<lparr>sp_title = ''Survey ended'', sp_label = None\<rparr> (request_ip signed_web ?r) now 9 ?d
      = Inr (Applied b, journey_db b)" "at_status b = TERMINATED"
    by (simp add: record_callback_def get_attempt_def row_by_pk_def toluna_finalized_def applied_callback_def
        take_over_status_def with_exit_data_def Let_def keep_evidence_def spread_with_def as_dict_def
        finalize_attempt_capacity_def reservation_of_attempt_def)
      (simp add: save_attempt_def update_attempts_def update_where_def journey_db_def)
  have auth: "authenticate_callback signed_web ?d ?r None ''innovatemr'' False = Inr (Inr By_Innovate)"
    using signed_verified by (simp add: authenticate_callback_def signed_web_def sample_web_def sample_callbacks_def)
  have "survey_status signed_web ?d ?r now = (journey_db b,
      after_recording signed_web (journey_db b) b True ''innovatemr'' ''2'' \<lparr>sp_title = ''Survey ended'', sp_label = None\<rparr>
        (request_ip signed_web ?r))"
    by (simp add: survey_status_def reads found pages verified_toluna_notification_summary_def handle_status_callback_def
        Let_def provider_code_or_innovate_def biobrain_canonical_query_def canonical_query_def trusted_recorded_source_def
        code auth rec)
  with rec(2) show ?thesis by blast
qed

lemma recorded_callback_is_authentic_witness:
  "carries_signature (ws_hmac signed_web) (cs_ip_literal (ws_callbacks signed_web)) (ws_innovate signed_web) False
     (status_request (status_query ''2'' @ ''&hash=ab''))"
proof -
  let ?r = "status_request (status_query ''2'' @ ''&hash=ab'')"
  obtain b res where run: "survey_status signed_web (journey_db sample_attempt) ?r 60 = (journey_db b, res)"
    and b: "at_status b = TERMINATED" using signed_run by blast
  have "journey_db b \<noteq> journey_db sample_attempt"
    using b by (auto dest!: arg_cong [of _ _ "\<lambda>d. map at_status (attempts d)"])
  from recorded_callback_is_authentic [OF run this] show ?thesis
    by (auto simp: unique_by_def provider_code_or_innovate_def signed_web_def sample_web_def split: if_splits)
qed

section \<open>What a replayed result tells the supplier\<close>

text \<open>A later browser callback for an attempt that has its result leaves the recorded status, but
  what it sends the respondent's supplier is the status of the new request: the redirect is the
  supplier's URL for that status, not for the recorded one.\<close>

theorem replay_reports_requested_status:
  assumes "survey_status ws d r now = (d', res)" and "d' \<noteq> d" and "attempts_ok d"
    and "resolve_status_attempt d (status_identifiers_from_request r) = Some a"
    and "at_callback_at a \<noteq> None" and "provider_of d a \<notin> {''toluna'', ''rfg''}"
  shows "\<exists>b. get_attempt d' (at_id a) = Some b \<and> at_status b = at_status a
    \<and> (\<forall>url. external_supplier_result_url (ws_callbacks ws) d' b (param_text r ''status'') = Inr url \<and> url \<noteq> []
        \<longrightarrow> res = Inr (Redirect_To url))"
  using assms(1)
proof (cases rule: survey_status_cases)
  case same
  with assms(2) show ?thesis by simp
next
  case (recorded a' integration by' status page x)
  have a': "a' = a" using recorded(1) assms(4) by simp
  from recorded(8,6,7) show ?thesis
  proof (cases rule: record_callback_cases)
    case same
    with assms(2) show ?thesis by simp
  next
    case (applied old b)
    have old: "old = a"
      using applied(2) row_lookup [OF _ resolved_attempt_row [OF assms(4)]] assms(3) a' by (simp add: attempts_ok_def)
    have "same_result a b"
      using applied(3) assms(5,6) recorded(2) attempts_okD(1) [OF assms(3), of "at_id a" a] applied(2)
      unfolding old a' by (auto simp: row_change_def is_pending_def provider_of_def)
    moreover have "get_attempt d' (at_id a) = Some b"
      using applied(2,4,5) unfolding old a' by (simp add: get_attempt_save)
    ultimately show ?thesis
      using recorded(9) [OF applied(1)] by (auto simp: same_result_def after_recording_def)
  qed
qed

lemma replayed_fields [simp]:
  "at_supplier_api_key_id (replayed_attempt now) = Some 3" "at_supplier_delivery_config (replayed_attempt now) = JObj []"
  "at_survey (replayed_attempt now) = 7" "at_rid (replayed_attempt now) = ''aB3aB3aB3a''"
  "at_upstream_transaction_data (replayed_attempt now) = JObj []" "at_status (replayed_attempt now) = TERMINATED"
  "\<not> at_is_verified (replayed_attempt now)" "at_id (replayed_attempt now) = 9" "at_status_source (replayed_attempt now) = ''browser_callback''"
  by (simp_all add: replayed_attempt_def)

lemma replayed_outcome:
  "\<exists>oc. provider_outcome unescape (journey_db (replayed_attempt now)) (replayed_attempt now) = Inr oc"
  by (simp add: provider_outcome_def outcome_data_def attempt_integration_def get_survey_def row_by_pk_def
      provider_code_of_def neutral_outcome_def outcome_mapping_def redirect_reason_def py_lower_def
      lower_char_def is_upper_ascii_def Let_def)

lemma replayed_redirect:
  "\<exists>tail. external_supplier_result_url sample_callbacks (journey_db (replayed_attempt now)) (replayed_attempt now) ''1''
     = Inr (''https://s.example/complete'' @ tail)"
proof -
  obtain oc where oc: "provider_outcome (cs_unescape sample_callbacks) (journey_db (replayed_attempt now)) (replayed_attempt now) = Inr oc"
    using replayed_outcome by blast
  have key: "callback_url_for_status both_urls_key ''1'' = ''https://s.example/complete''"
    by (simp add: callback_url_for_status_def both_urls_key_def)
  have survey: "delivered_survey_id (replayed_attempt now) sample_survey = Inr ''20260800000001''"
    by (simp add: delivered_survey_id_def dict_or_empty_def str_or_def dict_get_def)
  have unsigned: "signature_parameters sample_callbacks both_urls_key ps = Some []" for ps
    by (simp add: signature_parameters_def both_urls_key_def)
  have row: "vak_id both_urls_key = 3" by (simp add: both_urls_key_def)
  show ?thesis
    unfolding external_supplier_result_url_def append_query_def
    by (simp add: oc key survey unsigned supplier_api_key_def row get_survey_def row_by_pk_def)
qed

lemma replay_reports_requested_status_witness:
  "\<exists>d' b tail. survey_status (sample_web False) (journey_db terminated_attempt) (status_request (status_query ''1'')) 90
       = (d', Inr (Redirect_To (''https://s.example/complete'' @ tail)))
     \<and> get_attempt d' 9 = Some b \<and> at_status b = TERMINATED"
proof -
  let ?ws = "sample_web False" and ?d = "journey_db terminated_attempt" and ?r = "status_request (status_query ''1'')"
  let ?d' = "journey_db (replayed_attempt 90)"
  have ids: "resolve_status_attempt ?d (status_identifiers_from_request ?r) = Some terminated_attempt"
    by (simp add: sample_request_reads [OF sample_query_1 rid_unspaced(2)] resolve_status_attempt_def anchored_attempts_def)
  have provider: "provider_of ?d terminated_attempt \<notin> {''toluna'', ''rfg''}"
    by (simp add: provider_of_def provider_code_or_innovate_def)
  have changed: "?d' \<noteq> ?d"
    by (auto simp: replayed_attempt_def dest!: arg_cong [of _ _ "\<lambda>d. map at_callback_count (attempts d)"])
  have row: "get_attempt ?d' 9 = Some (replayed_attempt 90)"
    by (simp add: get_attempt_def row_by_pk_def)
  obtain tail where url: "external_supplier_result_url (ws_callbacks ?ws) ?d' (replayed_attempt 90)
      (param_text ?r ''status'') = Inr (''https://s.example/complete'' @ tail)"
    using replayed_redirect by (auto simp: sample_web_def sample_request_reads [OF sample_query_1 rid_unspaced(2)])
  obtain res where run: "survey_status ?ws ?d ?r 90 = (?d', res)" using replay_run by blast
  from replay_reports_requested_status [OF run changed journey_ok ids _ provider] row url
  have "res = Inr (Redirect_To (''https://s.example/complete'' @ tail))" by auto
  with run row show ?thesis by auto
qed

end
