(* ===== verification/Entry_Properties.thy ===== *)
theory Entry_Properties
  imports Attempt_Samples Lifecycle_Properties Pricing_Properties
begin

text \<open>
  What entering a survey leaves behind: one new attempt with the supplier's reservation, ended at once
  when its address has entered the survey before, or nothing at all.
\<close>

section \<open>Parts\<close>

lemma finalize_reservation:
  assumes "reservations_ok d" and q: "reservation_of_attempt d i = Some q" "ar_status q = RESERVED"
  shows "\<exists>q'. reservation_of_attempt (snd (finalize_attempt_capacity d i status now)) i = Some q'
    \<and> ar_status q' = (if status = COMPLETED then CONSUMED else RELEASED)
    \<and> ar_client_allocation q' = ar_client_allocation q \<and> ar_quantity q' = ar_quantity q"
proof -
  obtain x d' where fin: "finalize_attempt_capacity d i status now = (x, d')"
    by (cases "finalize_attempt_capacity d i status now")
  from fin show ?thesis
  proof (cases rule: finalize_cases)
    case same
    with q show ?thesis by auto
  next
    case (closed p st why)
    then have p: "p = q" using q by simp
    have same_row: "ar_id r = ar_id q \<longleftrightarrow> ar_attempt r = i" if "r \<in> set (reservations d)" for r
    proof -
      have "q \<in> set (reservations d)" "ar_attempt q = i"
        using q by (auto simp: reservation_of_attempt_def dest: find_SomeD)
      then show ?thesis
        using that assms(1)
        by (auto simp: reservations_ok_def reservations_unique_def unique_by_def distinct_map inj_on_def)
    qed
    have "reservation_of_attempt d' i = Some (finalized st why now q)"
      using q closed(5) finalized_owner.find_kept [of i "\<lambda>r. ar_id r = ar_id q" st why now "reservations d"]
      by (simp add: reservation_of_attempt_def update_reservations_def p)
    with closed(3) fin show ?thesis by (simp add: finalized_def)
  qed
qed

lemma finish_locally_reservation:
  assumes run: "finish_locally ws r client_data status source entries answers now i d = Inr (b, d')"
    and "status \<noteq> INITIATED" "status \<noteq> REDIRECTED"
    and a: "get_attempt d i = Some a" "at_status a = INITIATED"
  shows "d' = snd (finalize_attempt_capacity (save_attempt b d) i status now)
    \<and> at_id b = i \<and> at_status b = status \<and> at_status_source b = source \<and> at_survey b = at_survey a"
  using run assms(2,3)
proof (cases rule: finish_locally_row)
  case same
  with a show ?thesis by simp
next
  case (written old)
  then have "old = a" using a(1) by (simp add: row_written_def)
  with written show ?thesis by (auto simp: row_written_def row_change_def)
qed

lemma create_fresh:
  "at_id a = next_pk at_id (attempts d) \<Longrightarrow> get_attempt d (at_id a) = None"
  using next_pk_fresh [of at_id "attempts d"] by (simp add: get_attempt_def row_by_pk_None)

lemma get_attempt_added:
  "at_id a = next_pk at_id (attempts d) \<Longrightarrow>
   get_attempt (d\<lparr>attempts := attempts d @ [a]\<rparr>) j = (if j = at_id a then Some a else get_attempt d j)"
  using create_fresh [of a d] by (auto simp: get_attempt_def row_by_pk_append split: option.splits)

lemma get_attempt_with_delivery:
  "get_attempt (with_delivery key s i d) j =
     map_option (\<lambda>a. if at_id a = i then (case key of None \<Rightarrow> a | Some k \<Rightarrow>
        a\<lparr>at_supplier_api_key_id := Some (vak_id k), at_supplier_delivery_config := delivery_config k s\<rparr>) else a)
       (get_attempt d j)"
proof (cases key)
  case None
  then show ?thesis by (simp add: with_delivery_def option.map_ident cong: if_cong)
next
  case (Some k)
  then show ?thesis by (cases "get_attempt d j") (simp_all add: with_delivery_def get_attempt_update)
qed

lemma with_delivery_frame [simp]:
  "reservations (with_delivery key s i d) = reservations d"
  by (cases key) (simp_all add: with_delivery_def)

definition owners_exist :: "db \<Rightarrow> bool" where
  "owners_exist d \<longleftrightarrow> (\<forall>q \<in> set (reservations d). get_attempt d (ar_attempt q) \<noteq> None)"

text \<open>The committed transaction.\<close>

definition entered_as :: "db \<Rightarrow> survey \<Rightarrow> vendor_survey_context option \<Rightarrow> db \<Rightarrow> pk \<Rightarrow> reservation_status \<Rightarrow> survey_attempt \<Rightarrow> bool" where
  "entered_as d s ctx d' i st a \<longleftrightarrow>
     get_attempt d i = None \<and> get_attempt d' i = Some a \<and> (\<forall>j. j \<noteq> i \<longrightarrow> get_attempt d' j = get_attempt d j)
     \<and> at_survey a = sv_id s
     \<and> (case ctx of
          None \<Rightarrow> reservation_of_attempt d' i = None
        | Some c \<Rightarrow> (\<exists>q. reservation_of_attempt d' i = Some q \<and> ar_quantity q = 1 \<and> ar_status q = st
                        \<and> ar_client_allocation q = vca_id (ctx_client_allocation c)))"

lemma entry_transaction_entered:
  assumes run: "entry_transaction es r u s key location draws now d = Inr (a, claim, d')"
    and ok: "attempts_ok d" and owners: "owners_exist d"
  obtains ctx b where "resolve_vendor_survey_context d u s True now = Inr ctx"
    "entered_as d s ctx d' (at_id a) RESERVED b" "at_status b = INITIATED"
    "claim = claim_project_entry_ip (es_unique_ip es) d s (request_ip (es_web es) r)"
  using run
proof (cases rule: entry_transaction_cases)
  case (1 ctx d1 d2)
  let ?i = "at_id a"
  have fresh: "get_attempt d ?i = None" by (rule create_fresh [OF 1(3)])
  have d1: "get_attempt d1 j = (if j = ?i then Some a else get_attempt d j)" for j
    unfolding 1(2) by (rule get_attempt_added [OF 1(3)])
  have none: "reservation_of_attempt d1 ?i = None"
    using owners fresh 1(2) by (auto simp: reservation_of_attempt_def find_None_iff owners_exist_def)
  have mid: "\<exists>b. entered_as d s ctx d2 ?i RESERVED b \<and> at_status b = INITIATED"
    using 1(11)
  proof (elim disjE conjE exE)
    assume "ctx = None" "d2 = d1"
    with fresh d1 none 1(4,6) show ?thesis by (auto simp: entered_as_def)
  next
    fix c q
    assume ctx: "ctx = Some c" and reserve: "reserve_attempt_capacity d1 ?i (map_option vsa_id (ctx_survey_allocation c))
        (Some (vca_id (ctx_client_allocation c))) None (es_ttl_minutes es) now = Inr (q, d2)"
    from reserve show ?thesis
    proof (cases rule: reserve_cases)
      case old
      with none show ?thesis by simp
    next
      case (new att s' vendor cl cal sal pct)
      have att: "att = a" using new(2) d1 by simp
      have "vca_id cal = vca_id (ctx_client_allocation c)"
        using new(3) by (auto simp: chosen_client_allocation_def get_client_allocation_def dest: row_by_pk_Some)
      then have q: "ar_attempt q = ?i" "ar_quantity q = 1" "ar_status q = RESERVED"
          "ar_client_allocation q = vca_id (ctx_client_allocation c)"
        using new(10) att by (simp_all add: new_reservation_def)
      have res: "reservation_of_attempt d2 ?i = Some q"
        using none new(11) q(1) by (simp add: reservation_of_attempt_def find_append)
      have rows: "get_attempt d2 j = (if j = ?i then Some (snapshot_attempt d1 s' cal sal pct a) else get_attempt d j)" for j
        using new(11) get_attempt_update [of "snapshot_attempt d1 s' cal sal pct" "\<lambda>b. at_id b = ?i" d1 j] d1 [of j]
        by (cases "get_attempt d j") (auto simp: get_attempt_def snapshot_attempt_def dest: row_by_pk_Some)
      show ?thesis
        using res rows q fresh ctx 1(4,6) by (auto simp: entered_as_def snapshot_attempt_def)
    qed
  qed
  then obtain b where b: "entered_as d s ctx d2 ?i RESERVED b" "at_status b = INITIATED" by blast
  let ?b = "case key of None \<Rightarrow> b | Some k \<Rightarrow>
      b\<lparr>at_supplier_api_key_id := Some (vak_id k), at_supplier_delivery_config := delivery_config k s\<rparr>"
  have id: "at_id b = ?i" using b(1) by (auto simp: entered_as_def dest: get_attempt_id)
  have other: "get_attempt d' j = get_attempt d2 j" if "j \<noteq> ?i" for j
    using that 1(10) by (cases "get_attempt d2 j") (auto simp: get_attempt_with_delivery dest: get_attempt_id)
  have "entered_as d s ctx d' ?i RESERVED ?b"
    using b(1) 1(10) id other
    by (auto simp: entered_as_def get_attempt_with_delivery reservation_of_attempt_def split: option.splits)
  moreover have "at_status ?b = INITIATED" using b(2) by (simp split: option.split)
  ultimately show thesis using that 1(1,9) by blast
qed

section \<open>Entering\<close>

text \<open>C15: A respondent who is let in gets exactly one new attempt of the survey, every other attempt
  being as it was.  If a supplier brought the respondent, the attempt holds one unit reserved on the
  allocation that was resolved; it stays initiated, unless its address has entered the survey before:
  then it is quality terminated and its reservation released.\<close>

theorem entry_creates_one_attempt:
  assumes "enter_survey es r u s key location draws now d = (d', Inr (Redirect_To url))"
    and "attempts_ok d" and "owners_exist d"
    and "duplicate = snd (claim_project_entry_ip (es_unique_ip es) d s (request_ip (es_web es) r))"
  shows "\<exists>i a ctx. resolve_vendor_survey_context d u s True now = Inr ctx
    \<and> entered_as d s ctx d' i (if duplicate then RELEASED else RESERVED) a
    \<and> (if duplicate then at_status a = QUALITY_TERMINATED \<and> at_status_source a = ''local_duplicate_ip_guard''
       else at_status a = INITIATED)"
  using assms(1)
proof (cases rule: enter_survey_cases)
  case failed
  then show ?thesis by blast
next
  case (entered a prior)
  from entered(1) assms(2,3) obtain ctx b where "resolve_vendor_survey_context d u s True now = Inr ctx"
    "entered_as d s ctx d' (at_id a) RESERVED b" "at_status b = INITIATED"
    "(prior, False) = claim_project_entry_ip (es_unique_ip es) d s (request_ip (es_web es) r)"
    by (rule entry_transaction_entered)
  moreover from this(4) assms(4) have "\<not> duplicate" by (metis snd_conv)
  ultimately show ?thesis by auto
next
  case (duplicate a prior d1)
  let ?i = "at_id a"
  from duplicate(1) assms(2,3) obtain ctx b where b: "resolve_vendor_survey_context d u s True now = Inr ctx"
    "entered_as d s ctx d1 ?i RESERVED b" "at_status b = INITIATED"
    "(prior, True) = claim_project_entry_ip (es_unique_ip es) d s (request_ip (es_web es) r)"
    by (rule entry_transaction_entered)
  from this(4) assms(4) have dup: duplicate by (metis snd_conv)
  from duplicate(2) obtain e where fin: "finish_duplicate_ip_attempt (es_web es) r prior now ?i d1 = Inr (e, d')"
    by auto
  have row: "get_attempt d1 ?i = Some b" "at_survey b = sv_id s" using b(2) by (simp_all add: entered_as_def)
  have e: "d' = snd (finalize_attempt_capacity (save_attempt e d1) ?i QUALITY_TERMINATED now)" "at_id e = ?i"
    "at_status e = QUALITY_TERMINATED" "at_status_source e = ''local_duplicate_ip_guard''" "at_survey e = sv_id s"
    using finish_locally_reservation [OF fin [unfolded finish_duplicate_ip_attempt_def] _ _ row(1) b(3)] row(2) by simp_all
  have rows: "get_attempt d' j = (if j = ?i then Some e else get_attempt d1 j)" for j
    unfolding e(1) using row(1) e(2) by (simp add: get_attempt_save)
  have res_ok: "reservations_ok d1"
    using entry_transaction_ok [OF duplicate(1) assms(2)] by (simp add: attempts_ok_def)
  have "case ctx of None \<Rightarrow> reservation_of_attempt d' ?i = None
      | Some c \<Rightarrow> (\<exists>q. reservation_of_attempt d' ?i = Some q \<and> ar_quantity q = 1 \<and> ar_status q = RELEASED
                    \<and> ar_client_allocation q = vca_id (ctx_client_allocation c))"
  proof (cases ctx)
    case None
    then have "reservation_of_attempt (save_attempt e d1) ?i = None"
      using b(2) by (simp add: entered_as_def reservation_of_attempt_def)
    then show ?thesis unfolding e(1) by (simp add: None finalize_attempt_capacity_def)
  next
    case (Some c)
    then obtain q where q: "reservation_of_attempt (save_attempt e d1) ?i = Some q" "ar_quantity q = 1"
      "ar_status q = RESERVED" "ar_client_allocation q = vca_id (ctx_client_allocation c)"
      using b(2) by (auto simp: entered_as_def reservation_of_attempt_def)
    from finalize_reservation [OF _ q(1,3), of QUALITY_TERMINATED now] res_ok q(2,4) show ?thesis
      unfolding e(1) Some by auto
  qed
  with rows b(2) e(5) have "entered_as d s ctx d' ?i RELEASED e" by (auto simp: entered_as_def)
  with b(1) e(3,4) dup show ?thesis by auto
qed

definition sample_entry :: entry_services where
  "sample_entry = \<lparr>es_web = sample_web True, es_decode = (\<lambda>_. Inl (ValueError ''token'')),
     es_supplier_code = ''1000'', es_unique_ip = True, es_ttl_minutes = 30, es_start_path = ''/survey/start/''\<rparr>"

definition sample_draw :: drawn_ids where
  "sample_draw = \<lparr>dr_rid = ''zZ9zZ9zZ9z'', dr_pid = ''zZ9zZ9zZ9zZ9'', dr_uid = ''zZ9z-zZ9z-zZ9z-zZ9z''\<rparr>"

lemma sample_resolved_capacity:
  "resolve_vendor_survey_context sample_db (sample_user 33) sample_survey True 100 =
     Inr (Some \<lparr>ctx_vendor_id = 31, ctx_client_allocation = sample_allocation 21 31,
       ctx_survey_allocation = None, ctx_cpi_cut_percent = 20, ctx_payable_cpi = payable_cpi (Some (5/2)) 20\<rparr>)"
proof -
  have "sv_remaining sample_survey = 10" by (simp add: sample_survey_def)
  then show ?thesis by (simp add: resolve_defs sample_scope_33 sample_lookups)
qed

lemma sample_entry_fields [simp]:
  "es_web sample_entry = sample_web True" "es_unique_ip sample_entry" "es_ttl_minutes sample_entry = 30"
  "cs_ip_literal (ws_callbacks (sample_web b)) = (\<lambda>_. False)"
  by (simp_all add: sample_entry_def sample_web_def sample_callbacks_def)

lemma sample_entry_ip: "request_ip (sample_web b) (status_request q) = Some ''192.0.2.7''"
  by (simp add: request_ip_def get_request_ip_def sample_web_def status_request_def normalize_client_ip_def) code_simp

lemma sample_entry_claim: "claim_project_entry_ip True sample_db sample_survey (Some ''192.0.2.7'') = (None, False)"
  by (simp add: claim_project_entry_ip_def prior_entries_def sample_attempt_def)

lemma sample_entry_run:
  "\<exists>d' url. enter_survey sample_entry (status_request []) (sample_user 33) sample_survey None [] [sample_draw] 100 sample_db
     = (d', Inr (Redirect_To url))"
proof -
  let ?r = "status_request []"
  have code: "supplier_code_from_entry_link (\<lambda>_. False) [] = Inr []" by code_simp
  obtain a where create: "create_attempt (\<lambda>_. False) [sample_draw] sample_db sample_survey (sample_user 33)
      (Some ''192.0.2.7'') (get_request_client_data ?r) 100 = Inr (a, sample_db\<lparr>attempts := [sample_attempt, a]\<rparr>)"
    "at_id a = 10" "at_survey a = 7"
    by (simp add: create_attempt_def sample_survey_def code ids_taken_def sample_draw_def next_pk_def new_attempt_def
        sample_attempt_def)
  let ?d1 = "sample_db\<lparr>attempts := [sample_attempt, a]\<rparr>"
  have lookup: "get_attempt ?d1 10 = Some a" using create(2) by (simp add: get_attempt_def row_by_pk_def)
  obtain q d2 where reserve: "reserve_attempt_capacity ?d1 10 None (Some 21) None 30 100 = Inr (q, d2)"
    using lookup create(3) by (simp add: reserve_defs sample_lookups)
  have "entry_transaction sample_entry ?r (sample_user 33) sample_survey None [] [sample_draw] 100 sample_db
      = Inr (a, (None, False), d2)"
    using create(1,2) reserve
    by (simp add: entry_transaction_def sample_resolved_capacity Let_def sample_entry_ip sample_entry_claim
        geolocation_client_data_def with_delivery_def)
  then show ?thesis by (simp add: enter_survey_def)
qed

lemma entry_creates_one_attempt_witness:
  "\<exists>d' i a q. get_attempt sample_db i = None \<and> get_attempt d' i = Some a \<and> at_status a = INITIATED
     \<and> reservation_of_attempt d' i = Some q \<and> ar_status q = RESERVED \<and> ar_client_allocation q = 21"
proof -
  obtain d' url where run: "enter_survey sample_entry (status_request []) (sample_user 33) sample_survey None []
      [sample_draw] 100 sample_db = (d', Inr (Redirect_To url))" using sample_entry_run by blast
  have "owners_exist sample_db" by (simp add: owners_exist_def)
  from entry_creates_one_attempt [OF run sample_db_ok this refl] show ?thesis
    by (auto simp: sample_resolved_capacity sample_entry_ip sample_entry_claim entered_as_def sample_allocation_def)
qed

end
