(* ===== verification/Prescreener_Properties.thy ===== *)
theory Prescreener_Properties
  imports Prescreener_Answers Samples
begin

text \<open>
  Properties of the prescreener: the ages a question admits, and the answers of a submission without
  errors: which of them must qualify, and how each is read from the form.
\<close>

section \<open>Ages admitted\<close>

text \<open>C30: The age ranges of a question about age or date of birth admit exactly the ages that each
  source of ranges admits: the question's qualified options and targeting ranges, and those of every
  alias that has any.  They are ascending and no two of them touch.\<close>

theorem admitted_ages:
  assumes "is_dob_question unescape q \<or> is_age_question unescape q"
    and "p = prepare_question unescape provider qualifying_only rows q"
    and "layers = filter (\<lambda>ranges. ranges \<noteq> [])
      (own_ranges unescape provider rows q # map alias_age_ranges (profile_aliases unescape provider rows q))"
  shows "(admits (pq_age_ranges p) age \<longleftrightarrow> layers \<noteq> [] \<and> (\<forall>ranges \<in> set layers. admits ranges age))
    \<and> apart (pq_age_ranges p)"
  using assms(1) unfolding assms(2,3) by (simp add: prepared_ranges merge_apart effective_admits del: filter.simps)

definition sample_birthday :: form_question where
  "sample_birthday =
     \<lparr>fq_pk = ''1'', fq_question_id = JInt 1, fq_key = ''RFG_BIRTHDAY'', fq_text = ''Date of birth'',
      fq_type = ''Date'', fq_category = ''Required profile'', fq_options = [],
      fq_raw = [(''targeting_age_ranges'', JArr [JStr ''18-34'', JStr ''30 to 49''])]\<rparr>"

definition sample_age_alias :: form_question where
  "sample_age_alias =
     \<lparr>fq_pk = ''2'', fq_question_id = JInt 2, fq_key = ''Age'', fq_text = ''Age group'',
      fq_type = ''Single'', fq_category = ''Targeting'',
      fq_options = [JObj [(''OptionId'', JInt 1), (''OptionText'', JStr ''under 25'')],
                    JObj [(''OptionId'', JInt 2), (''OptionText'', JStr ''25+'')]],
      fq_raw = [(''targeting_choices'', JArr [JStr ''2''])]\<rparr>"

lemma sample_dimensions:
  "rfg_profile_dimension id sample_birthday = ''age''" "rfg_profile_dimension id sample_age_alias = ''age''"
  "required_profile sample_birthday" "\<not> required_profile sample_age_alias"
  by code_simp+

lemma sample_aliases:
  "profile_aliases id ''rfg'' [sample_birthday, sample_age_alias] sample_birthday = [sample_age_alias]"
  by (simp add: profile_aliases_def aliased_def primary_of_def sample_dimensions)
    (simp add: sample_birthday_def sample_age_alias_def)

lemma sample_age_parts:
  "is_dob_question id sample_birthday"
  "targeting_ranges sample_birthday = [(18, 34), (30, 49)]"
  "alias_age_ranges sample_age_alias = [(25, 99)]"
  by code_simp+

lemma admitted_ages_witness:
  "map (admits (pq_age_ranges (prepare_question id ''rfg'' True [sample_birthday, sample_age_alias] sample_birthday)))
     [24, 25, 40, 49, 50] = [False, True, True, True, False]"
proof -
  let ?rows = "[sample_birthday, sample_age_alias]"
  have raw: "fq_options sample_birthday = []" by (simp add: sample_birthday_def)
  have own: "own_ranges id ''rfg'' ?rows sample_birthday = [(18, 34), (30, 49)]"
    by (simp add: own_ranges_def raw sample_age_parts)
  have "admits (pq_age_ranges (prepare_question id ''rfg'' True ?rows sample_birthday)) age
      \<longleftrightarrow> 25 \<le> age \<and> age \<le> 49" for age
    using admitted_ages [OF disjI1 [OF sample_age_parts(1)] refl refl, of "''rfg''" True ?rows age]
    by (auto simp: own sample_age_parts sample_aliases)
  then show ?thesis by simp
qed

section \<open>A submission without errors\<close>

lemma collect_question_accepted:
  assumes "collect_question unescape bypass today form p = Inr (Inr entries)"
  obtains given0 age0 final upstream age where
    "given_values today form p = Inr (Inr (given0, age0))"
    "checked_values bypass p given0 age0 = Inr (final, upstream, age)" "age_error bypass p age = None"
    "entries = answer_entries unescape p final upstream"
proof (cases "given_values today form p")
  case (Inr given)
  with assms show thesis
    by (cases given) (auto simp: collect_question_def split: sum.splits option.splits, rule that)
qed (use assms in \<open>simp add: collect_question_def\<close>)

lemma collect_errors_kept:
  "collect_questions unescape bypass today form ps (answers, errors) = Inr (result, []) \<Longrightarrow> errors = []"
proof (induction ps arbitrary: answers errors)
  case (Cons p ps)
  then show ?case by (auto split: sum.splits)
qed simp

text \<open>The keys a question writes.\<close>

definition answer_keys_of :: "prepared_question \<Rightarrow> string list" where
  "answer_keys_of p = fq_pk (pq_model p) # map fq_pk (pq_aliases p)"

lemma entries_other:
  "k \<notin> set (answer_keys_of p) \<Longrightarrow>
   dict_get (dict_merge d (answer_entries unescape p values upstream)) k = dict_get d k"
  by (rule dict_get_merge_other) (auto simp: answer_entries_def answer_keys_of_def Let_def)

text \<open>What is sent to the provider of it: nothing of a question the platform asks for itself.\<close>

definition sent_values :: "prepared_question \<Rightarrow> string list \<Rightarrow> string list" where
  "sent_values p upstream = (if truthy (dict_get (fq_raw (pq_model p)) ''platform_only'') then [] else upstream)"

lemma entries_own:
  assumes "fq_pk (pq_model p) \<notin> fq_pk ` set (pq_aliases p)"
  shows "dict_get (dict_merge d (answer_entries unescape p values upstream)) (fq_pk (pq_model p))
    = stored_answer p values (sent_values p upstream)"
  using assms by (auto simp: answer_entries_def sent_values_def Let_def dict_get_merge_other image_image)

lemma collect_frame:
  "collect_questions unescape bypass today form ps (answers, errors) = Inr (result, errors') \<Longrightarrow>
   \<forall>p \<in> set ps. k \<notin> set (answer_keys_of p) \<Longrightarrow> dict_get result k = dict_get answers k"
proof (induction ps arbitrary: answers errors)
  case (Cons p ps)
  then show ?case
    by (auto split: sum.splits elim!: collect_question_accepted simp: entries_other)
qed simp

definition keys_apart :: "prepared_question list \<Rightarrow> bool" where
  "keys_apart ps =
     (distinct (map (\<lambda>p. fq_pk (pq_model p)) ps)
      \<and> (\<forall>p \<in> set ps. \<forall>p' \<in> set ps. fq_pk (pq_model p) \<notin> fq_pk ` set (pq_aliases p')))"

lemma collect_accepted:
  assumes "collect_questions unescape bypass today form ps (answers, errors) = Inr (result, [])"
    and "keys_apart ps" and "p \<in> set ps"
  shows "\<exists>given0 age0 values upstream age. given_values today form p = Inr (Inr (given0, age0))
    \<and> checked_values bypass p given0 age0 = Inr (values, upstream, age) \<and> age_error bypass p age = None
    \<and> dict_get result (fq_pk (pq_model p)) = stored_answer p values (sent_values p upstream)"
  using assms
proof (induction ps arbitrary: answers errors)
  case Nil
  then show ?case by simp
next
  case (Cons x ps)
  from Cons.prems(1) obtain entries
    where x: "collect_question unescape bypass today form x = Inr (Inr entries)"
      and rest: "collect_questions unescape bypass today form ps (dict_merge answers entries, errors) = Inr (result, [])"
    by (auto split: sum.splits dest: collect_errors_kept)
  have apart: "keys_apart ps" using Cons.prems(2) by (auto simp: keys_apart_def)
  show ?case
  proof (cases "p = x")
    case False
    then show ?thesis using Cons.IH [OF rest apart] Cons.prems(3) by simp
  next
    case True
    from x obtain given0 age0 final upstream age where
      parts: "given_values today form x = Inr (Inr (given0, age0))"
        "checked_values bypass x given0 age0 = Inr (final, upstream, age)" "age_error bypass x age = None"
      and entries: "entries = answer_entries unescape x final upstream"
      by (rule collect_question_accepted)
    have "\<forall>q \<in> set ps. fq_pk (pq_model x) \<notin> set (answer_keys_of q)"
      using Cons.prems(2) by (force simp: keys_apart_def answer_keys_of_def)
    from collect_frame [OF rest this] entries
    have "dict_get result (fq_pk (pq_model x))
        = dict_get (dict_merge answers (answer_entries unescape x final upstream)) (fq_pk (pq_model x))" by simp
    moreover have "fq_pk (pq_model x) \<notin> fq_pk ` set (pq_aliases x)"
      using Cons.prems(2) by (simp add: keys_apart_def)
    ultimately have "dict_get result (fq_pk (pq_model x)) = stored_answer x final (sent_values x upstream)"
      using entries_own by metis
    with parts True show ?thesis by blast
  qed
qed

lemma read_questions_pks:
  "read_questions qs = Inr rows \<Longrightarrow> map fq_pk rows = map (\<lambda>q. show_nat (tq_id q)) qs"
proof (induction qs arbitrary: rows)
  case (Cons q qs)
  obtain r rs where "read_question q = Inr r" "read_questions qs = Inr rs" "rows = r # rs"
    using Cons.prems by (cases "read_question q"; cases "read_questions qs") auto
  moreover from this(1) have "fq_pk r = show_nat (tq_id q)"
    by (auto simp: read_question_def split: sum.splits if_splits)
  ultimately show ?case using Cons.IH by simp
qed simp

lemma question_rows_distinct:
  assumes "question_rows provider d s = Inr rows" and "unique_by tq_id (targeting_questions d)"
  shows "distinct (map fq_pk rows)"
proof (cases "provider = ''cint'' \<and> survey_questions d s = []")
  case True
  with assms(1) show ?thesis by (auto simp: question_rows_def platform_age_def platform_gender_def)
next
  case False
  with assms(1) have "map fq_pk rows = map (\<lambda>q. show_nat (tq_id q)) (survey_questions d s)"
    using read_questions_pks by (auto simp: question_rows_def split: if_splits)
  moreover have "distinct (map (\<lambda>q. show_nat (tq_id q)) (survey_questions d s))"
    using assms(2) unfolding unique_by_def survey_questions_def distinct_map
    by (auto simp: inj_on_def dest: show_nat_inj)
  ultimately show ?thesis by simp
qed

lemma prescreener_cases:
  assumes "prescreener_questions unescape qualifying_only d s = Inr ps"
  obtains provider rows where "provider = provider_code_of (Option.bind (sv_integration s) (get_integration d))"
    "question_rows provider d s = Inr rows"
    "ps = map (prepare_question unescape provider qualifying_only rows) (shown_rows unescape provider rows)"
  using assms unfolding prescreener_questions_def
  by (auto simp: Let_def of_option_def split: sum.splits option.splits dest!: spread_keeps)

lemma prescreener_keys_apart:
  assumes "prescreener_questions unescape qualifying_only d s = Inr ps" and "unique_by tq_id (targeting_questions d)"
  shows "keys_apart ps"
  using assms(1)
proof (cases rule: prescreener_cases)
  case (1 provider rows)
  have "distinct (map fq_pk (shown_rows unescape provider rows))"
    using question_rows_distinct [OF 1(2) assms(2)] by (simp add: shown_rows_def distinct_map_filter)
  moreover have "fq_pk q \<notin> fq_pk ` set (profile_aliases unescape provider rows q')"
    if "q \<in> set (shown_rows unescape provider rows)" for q q'
    using that by (auto simp: shown_rows_def profile_aliases_def split: if_splits)
  ultimately show ?thesis unfolding 1(3) keys_apart_def by (auto simp: comp_def)
qed

text \<open>What the values of an answer say about the respondent's age.\<close>

definition says_age :: "date \<Rightarrow> prepared_question \<Rightarrow> string list \<Rightarrow> int \<Rightarrow> bool" where
  "says_age today p values age =
     (if pq_is_dob p
      then \<exists>born. valid_date born \<and> values = [iso_date born] \<and> age = age_on today born
      else parse_int (hd values) = Some age)"

definition postal_match :: "prepared_question \<Rightarrow> string list \<Rightarrow> bool" where
  "postal_match p values =
     (if pq_postal_prefix_match p
      then \<exists>v \<in> set (pq_allowed_values p). py_startswith (normalized_postal_targeting_value (hd values))
             (normalized_postal_targeting_value v)
      else \<exists>v \<in> set (pq_allowed_values p). values = [v])"

lemma read_date_valid: "read_date raw = Inr (Some born) \<Longrightarrow> valid_date born"
  by (auto simp: read_date_def make_date_def Let_def split: list.splits option.splits if_splits)

lemma given_values_nonempty: "given_values today form p = Inr (Inr (vs, age)) \<Longrightarrow> vs \<noteq> []"
  by (auto simp: given_values_def split: if_splits list.splits option.splits dest!: spread_keeps)

lemma checked_values_nonempty: "checked_values bypass p vs age = Inr (ws, upstream, age') \<Longrightarrow> vs \<noteq> [] \<Longrightarrow> ws \<noteq> []"
  by (auto simp: checked_values_def split: if_splits option.splits)

lemma checked_choice:
  assumes "checked_values bypass p vs age = Inr (ws, upstream, age')" and "pq_input_kind p \<in> {Radio_Input, Checkbox_Input}"
  shows "set ws \<subseteq> fst ` set (pq_options p)"
    and "enforced_values bypass p \<noteq> [] \<Longrightarrow> set ws \<subseteq> set (enforced_values bypass p)"
  using assms by (auto simp: checked_values_def list_all_iff split: if_splits)

lemma checked_age:
  assumes "given_values today form p = Inr (Inr (vs, age))" and "checked_values bypass p vs age = Inr (ws, upstream, age')"
    and "pq_is_dob p \<and> pq_input_kind p = Date_Mask \<or> pq_is_age p \<and> \<not> pq_is_dob p \<and> pq_input_kind p = Number_Input"
    and "\<not> pq_is_postal p \<or> pq_input_kind p \<noteq> Date_Mask \<or> bypass"
  shows "\<exists>a. age' = Some a \<and> says_age today p ws a"
  using assms(3)
proof (elim disjE conjE)
  assume dob: "pq_is_dob p" "pq_input_kind p = Date_Mask"
  obtain born where born: "read_date (py_strip (form_value form (pq_field_name p))) = Inr (Some born)"
    "vs = [iso_date born]" "age = Some (age_on today born)"
    using assms(1) dob by (auto simp: given_values_def split: option.splits dest!: spread_keeps)
  have "says_age today p vs (age_on today born)"
    unfolding says_age_def if_P [OF dob(1)] using born(2) read_date_valid [OF born(1)] by blast
  moreover have "ws = vs \<and> age' = age" using assms(2,4) dob(2) by (simp add: checked_values_def split: if_splits)
  ultimately show ?thesis using born(3) by simp
next
  assume age: "pq_is_age p" "\<not> pq_is_dob p" "pq_input_kind p = Number_Input"
  with assms(2) obtain n where "parse_int (hd vs) = Some n" "ws = vs" "age' = Some n"
    by (cases "parse_int (hd vs)") (simp_all add: checked_values_def)
  with age show ?thesis by (simp add: says_age_def)
qed

lemma age_error_None:
  assumes "age_error bypass p (Some a) = None"
  shows "(if bypass then 18 else 1) \<le> a \<and> a \<le> 99"
    and "\<not> bypass \<Longrightarrow> pq_age_ranges p \<noteq> [] \<or> pq_age_constraints p \<Longrightarrow> admits (pq_age_ranges p) a"
  using assms by (auto simp: age_error_def OPEN_ENDED_AGE_MAX_def split: if_splits)

lemma checked_postal:
  assumes "checked_values False p vs age = Inr (ws, upstream, age')" and "pq_input_kind p = Text_Input" "pq_is_postal p"
    and "enforced_values False p \<noteq> [] \<or> pq_postal_prefix_match p"
  shows "postal_match p ws"
proof -
  obtain v where v: "canonical_postal False p (hd vs) = Some v"
    "ws = (if pq_postal_prefix_match p then vs else [v])"
    using assms by (auto simp: checked_values_def split: option.splits if_splits)
  have sub: "set (enforced_values False p) \<subseteq> set (pq_allowed_values p)" by (auto simp: enforced_values_def)
  show ?thesis
  proof (cases "pq_postal_prefix_match p")
    case True
    then show ?thesis
      using v sub by (auto simp: canonical_postal_def Let_def postal_match_def list_ex_iff split: if_splits)
  next
    case False
    then have "v \<in> set (enforced_values False p)"
      using v find_SomeD by (force simp: canonical_postal_def Let_def)
    then show ?thesis using False v(2) sub by (auto simp: postal_match_def)
  qed
qed

text \<open>What the form says to a question, and what is stored of it: the texts as they were given, or the
  survey's spelling of the one postal code that was given.\<close>

definition form_answer :: "form_data \<Rightarrow> prepared_question \<Rightarrow> string list" where
  "form_answer form p =
     (if pq_input_kind p = Date_Mask
      then (case read_date (py_strip (form_value form (pq_field_name p))) of
              Inr (Some born) \<Rightarrow> [iso_date born] | _ \<Rightarrow> [])
      else filter (\<lambda>v. v \<noteq> []) (map py_strip (form_values form (pq_field_name p))))"

definition respelled :: "bool \<Rightarrow> prepared_question \<Rightarrow> bool" where
  "respelled enforced p \<longleftrightarrow> enforced \<and> pq_is_postal p \<and> \<not> pq_postal_prefix_match p \<and> pq_allowed_values p \<noteq> []
     \<and> pq_input_kind p \<notin> {Radio_Input, Checkbox_Input, Number_Input}"

definition stored_values :: "form_data \<Rightarrow> bool \<Rightarrow> prepared_question \<Rightarrow> string list \<Rightarrow> bool" where
  "stored_values form enforced p vs \<longleftrightarrow> form_answer form p \<noteq> []
     \<and> (if respelled enforced p
         then \<exists>v \<in> set (pq_allowed_values p). vs = [v]
                \<and> normalized_postal_targeting_value v = normalized_postal_targeting_value (hd (form_answer form p))
         else vs = form_answer form p)"

definition sent_for :: "prepared_question \<Rightarrow> string list \<Rightarrow> string list \<Rightarrow> bool" where
  "sent_for p vs sent \<longleftrightarrow>
     (if truthy (dict_get (fq_raw (pq_model p)) ''platform_only'') then sent = []
      else if pq_input_kind p = Number_Input then \<exists>n. parse_int (hd vs) = Some n \<and> sent = [show_int n]
      else sent = vs)"

lemma given_form_answer: "given_values today form p = Inr (Inr (vs, age)) \<Longrightarrow> vs = form_answer form p \<and> vs \<noteq> []"
  by (auto simp: given_values_def form_answer_def split: if_splits list.splits option.splits dest!: spread_keeps)

lemma checked_stored:
  assumes "checked_values bypass p vs age = Inr (ws, upstream, age')" and "vs = form_answer form p" "vs \<noteq> []"
    and "enforced \<longleftrightarrow> pq_enforce_allowed p \<and> \<not> bypass"
  shows "stored_values form enforced p ws"
proof -
  have enforced: "enforced_values bypass p = (if enforced then pq_allowed_values p else [])"
    using assms(4) by (simp add: enforced_values_def)
  show ?thesis
  proof (cases "respelled enforced p")
    case True
    then have on: "enforced_values bypass p = pq_allowed_values p" "pq_allowed_values p \<noteq> []" "\<not> bypass"
      using assms(4) enforced by (simp_all add: respelled_def)
    then obtain v where v: "canonical_postal bypass p (hd vs) = Some v" "ws = [v]"
      using assms(1) True by (auto simp: checked_values_def respelled_def split: option.splits)
    then have "v \<in> set (pq_allowed_values p) \<and> normalized_postal_targeting_value v = normalized_postal_targeting_value (hd vs)"
      using True unfolding canonical_postal_def Let_def on(1) respelled_def by (auto dest!: find_SomeD)
    with v assms(2,3) True show ?thesis by (auto simp: stored_values_def)
  next
    case False
    then have "ws = vs" using assms(1)
      by (auto simp: checked_values_def respelled_def enforced split: if_splits option.splits)
    with False assms(2,3) show ?thesis by (simp add: stored_values_def)
  qed
qed

lemma checked_sent: "checked_values bypass p vs age = Inr (ws, upstream, age') \<Longrightarrow> sent_for p ws (sent_values p upstream)"
  by (auto simp: checked_values_def sent_for_def sent_values_def split: if_splits option.splits)

lemma prepared_enforce [simp]:
  "pq_enforce_allowed (prepare_question unescape provider qualifying_only rows q) = (provider \<noteq> ''rfg'')"
  by (simp add: prepare_question_def Let_def)

text \<open>C10: When a submission is accepted, every question of the form has an answer, and it is the one the
  form gives: the stripped texts of its field, the date of birth in ISO form, or -- for a question that
  takes listed postal codes -- the listed spelling of the code given.  Upstream goes the same, a number
  in its plain form, and nothing for a question of the platform's own.

  The answer meets what is checked at this point.  A choice is among the options shown.  It is among the
  qualifying values too, unless the provider is RFG, where a visible answer that does not qualify is
  accepted here on purpose (its adapter decides afterwards), or BioBrain or Voqall, which check answers
  themselves.  A postal code that is restricted is an accepted one.  An age, given or computed from a
  valid date of birth, lies between 1 (18 for BioBrain and Voqall) and 99 and within the admitted ages, and a
  question whose restrictions admit no age is never answered.  Other text and number questions are not
  restricted, whatever the provider.\<close>

theorem accepted_answers_qualify:
  assumes "collect_prescreener_answers unescape today form d s = Inr (answers, [])"
    and "unique_by tq_id (targeting_questions d)"
    and "prescreener_questions unescape False d s = Inr ps" and "p \<in> set ps"
    and "provider = provider_code_of (Option.bind (sv_integration s) (get_integration d))"
    and "own_checks \<longleftrightarrow> provider \<in> {''biobrain'', ''voqall''}"
    and "enforced \<longleftrightarrow> provider \<notin> {''rfg'', ''biobrain'', ''voqall''}"
  shows "\<exists>vs sent. dict_get answers (fq_pk (pq_model p)) = stored_answer p vs sent
    \<and> stored_values form enforced p vs \<and> sent_for p vs sent
    \<and> (pq_input_kind p \<in> {Radio_Input, Checkbox_Input} \<longrightarrow> set vs \<subseteq> fst ` set (pq_options p)
        \<and> (enforced \<and> pq_allowed_values p \<noteq> [] \<longrightarrow> set vs \<subseteq> set (pq_allowed_values p)))
    \<and> (\<not> own_checks \<and> pq_is_postal p \<and> pq_input_kind p = Text_Input
        \<and> (enforced \<and> pq_allowed_values p \<noteq> [] \<or> pq_postal_prefix_match p) \<longrightarrow> postal_match p vs)
    \<and> ((pq_is_dob p \<or> pq_is_age p) \<and> \<not> pq_is_postal p \<longrightarrow>
        (\<exists>age. says_age today p vs age \<and> (if own_checks then 18 else 1) \<le> age \<and> age \<le> 99
          \<and> (\<not> own_checks \<and> (pq_age_ranges p \<noteq> [] \<or> pq_age_constraints p) \<longrightarrow> admits (pq_age_ranges p) age)))"
proof -
  have "collect_questions unescape own_checks today form ps ([], []) = Inr (answers, [])"
    using assms(1,3,5,6) by (simp add: collect_prescreener_answers_def)
  from collect_accepted [OF this prescreener_keys_apart [OF assms(3,2)] assms(4)]
  obtain given0 age0 final upstream age where
    parts: "given_values today form p = Inr (Inr (given0, age0))"
      "checked_values own_checks p given0 age0 = Inr (final, upstream, age)" "age_error own_checks p age = None"
      "dict_get answers (fq_pk (pq_model p)) = stored_answer p final (sent_values p upstream)" by blast
  obtain rows q where p: "p = prepare_question unescape provider False rows q"
    using assms(3-5) by (auto elim!: prescreener_cases)
  have enforced: "enforced \<longleftrightarrow> pq_enforce_allowed p \<and> \<not> own_checks" using assms(6,7) p by auto
  then have listed: "enforced_values own_checks p = (if enforced then pq_allowed_values p else [])"
    by (simp add: enforced_values_def)
  note given_form = given_form_answer [OF parts(1)]
  have stored: "stored_values form enforced p final"
    using checked_stored [OF parts(2) _ _ enforced] given_form by blast
  have choice: "pq_input_kind p \<in> {Radio_Input, Checkbox_Input} \<longrightarrow> set final \<subseteq> fst ` set (pq_options p)
      \<and> (enforced \<and> pq_allowed_values p \<noteq> [] \<longrightarrow> set final \<subseteq> set (pq_allowed_values p))"
    using checked_choice [OF parts(2)] unfolding listed by auto
  have postal: "\<not> own_checks \<and> pq_is_postal p \<and> pq_input_kind p = Text_Input
      \<and> (enforced \<and> pq_allowed_values p \<noteq> [] \<or> pq_postal_prefix_match p) \<longrightarrow> postal_match p final"
    using checked_postal [of p given0 age0 final upstream age] parts(2) listed by (cases own_checks) auto
  have ages: "\<exists>a. says_age today p final a \<and> (if own_checks then 18 else 1) \<le> a \<and> a \<le> 99
      \<and> (\<not> own_checks \<and> (pq_age_ranges p \<noteq> [] \<or> pq_age_constraints p) \<longrightarrow> admits (pq_age_ranges p) a)"
    if aged: "(pq_is_dob p \<or> pq_is_age p) \<and> \<not> pq_is_postal p"
  proof -
    have "pq_is_dob p \<and> pq_input_kind p = Date_Mask \<or> pq_is_age p \<and> \<not> pq_is_dob p \<and> pq_input_kind p = Number_Input"
      using aged prepared_kind [of unescape q] p by (cases "is_dob_question unescape q") simp_all
    from checked_age [OF parts(1,2) this] aged obtain a where a: "age = Some a" "says_age today p final a" by metis
    from parts(3) a(1) have "age_error own_checks p (Some a) = None" by simp
    note limits = age_error_None [OF this]
    show ?thesis by (intro exI [of _ a] conjI impI) (use a(2) limits in simp_all)
  qed
  from parts(4) stored checked_sent [OF parts(2)] choice postal ages show ?thesis by blast
qed

definition sample_age_question :: targeting_question where
  "sample_age_question =
     \<lparr>tq_id = 5, tq_survey = 7, tq_question_id = 42, tq_key = ''AGE'', tq_text = ''Age'', tq_question_type = ''Numeric'',
      tq_category = [], tq_options = JArr [], tq_raw_data = JObj [(''targeting_age_ranges'', JArr [JStr ''18-34''])],
      tq_updated_at = 0\<rparr>"

definition sample_age_row :: form_question where
  "sample_age_row =
     \<lparr>fq_pk = ''5'', fq_question_id = JInt 42, fq_key = ''AGE'', fq_text = ''Age'', fq_type = ''Numeric'', fq_category = [],
      fq_options = [], fq_raw = [(''targeting_age_ranges'', JArr [JStr ''18-34''])]\<rparr>"

definition sample_age_prepared :: prepared_question where
  "sample_age_prepared = prepare_question id ''innovatemr'' False [sample_age_row] sample_age_row"

lemma sample_row_read: "read_questions [sample_age_question] = Inr [sample_age_row]"
  by code_simp

lemma sample_age_row_facts:
  "is_age_question id sample_age_row" "\<not> is_dob_question id sample_age_row" "\<not> is_postal_question id sample_age_row"
  "targeting_ranges sample_age_row = [(18, 34)]"
  by code_simp+

lemma sample_prepared_facts:
  "pq_is_age sample_age_prepared" "\<not> pq_is_postal sample_age_prepared" "pq_age_ranges sample_age_prepared = [(18, 34)]"
  "\<not> pq_is_dob sample_age_prepared" "fq_pk (pq_model sample_age_prepared) = ''5''"
  "pq_input_kind sample_age_prepared = Number_Input" "pq_field_name sample_age_prepared = ''question_5''"
proof -
  have fields: "fq_options sample_age_row = []" "fq_pk sample_age_row = ''5''" by (simp_all add: sample_age_row_def)
  show "pq_age_ranges sample_age_prepared = [(18, 34)]"
    by (simp add: sample_age_prepared_def prepared_ranges sample_age_row_facts own_ranges_def fields profile_aliases_def
        effective_ranges_def merge_ranges_def merge_step_def)
qed (simp_all add: sample_age_prepared_def sample_age_row_facts prepared_kind pq_field_name_def, simp_all add: sample_age_row_def)

lemma sample_collected:
  assumes "form_values form ''question_5'' = ['' 34 '']"
  shows "\<exists>answers. collect_questions id False today form [sample_age_prepared] ([], []) = Inr (answers, [])"
proof -
  have vs: "py_strip '' 34 '' = ''34''" by code_simp
  have n: "parse_int ''34'' = Some 34" by code_simp
  have "collect_question id False today form sample_age_prepared
      = Inr (Inr (answer_entries id sample_age_prepared [''34''] [show_int 34]))"
    by (simp add: collect_question_def given_values_def vs assms checked_values_def n sample_prepared_facts
        age_error_def OPEN_ENDED_AGE_MAX_def)
  then show ?thesis by simp
qed

lemma accepted_answers_qualify_witness:
  "\<exists>answers sent. collect_prescreener_answers id (2026, 8, 1) [(''question_5'', '' 34 '')]
       (sample_db\<lparr>targeting_questions := [sample_age_question]\<rparr>) sample_survey = Inr (answers, [])
     \<and> dict_get answers ''5'' = stored_answer sample_age_prepared [''34''] sent
     \<and> (\<exists>age. parse_int ''34'' = Some age \<and> 18 \<le> age \<and> age \<le> 34)"
proof -
  let ?d = "sample_db\<lparr>targeting_questions := [sample_age_question]\<rparr>"
  have survey: "sv_id sample_survey = 7" "sv_integration sample_survey = None" by (simp_all add: sample_survey_def)
  have rows: "survey_questions ?d sample_survey = [sample_age_question]"
    by (simp add: survey_questions_def survey) (simp add: sample_age_question_def)
  have code: "provider_code_of None = ''innovatemr''" by code_simp
  have questions: "prescreener_questions id False ?d sample_survey = Inr [sample_age_prepared]"
    by (simp add: prescreener_questions_def survey code question_rows_def rows sample_row_read shown_rows_def
        sample_age_prepared_def del: read_questions.simps)
  have "form_values [(''question_5'', '' 34 '')] ''question_5'' = ['' 34 '']" by (simp add: form_values_def)
  from sample_collected [OF this] obtain answers where run: "collect_questions id False (2026, 8, 1) [(''question_5'', '' 34 '')] [sample_age_prepared] ([], [])
      = Inr (answers, [])" by blast
  then have collect: "collect_prescreener_answers id (2026, 8, 1) [(''question_5'', '' 34 '')] ?d sample_survey = Inr (answers, [])"
    by (simp add: collect_prescreener_answers_def questions survey code del: collect_questions.simps)
  have "unique_by tq_id (targeting_questions ?d)" by (simp add: unique_by_def)
  from accepted_answers_qualify [OF collect this questions, of sample_age_prepared _ False True]
  obtain vs sent age where stored: "dict_get answers ''5'' = stored_answer sample_age_prepared vs sent"
    "stored_values [(''question_5'', '' 34 '')] True sample_age_prepared vs"
    "says_age (2026, 8, 1) sample_age_prepared vs age" "admits [(18, 34)] age"
    by (auto simp: survey code sample_prepared_facts)
  have "py_strip '' 34 '' = ''34''" by code_simp
  then have "vs = [''34'']"
    using stored(2) by (simp add: stored_values_def respelled_def form_answer_def sample_prepared_facts form_values_def)
  with stored collect show ?thesis by (auto simp: says_age_def sample_prepared_facts)
qed

end
