(* ===== verification/Submission_Properties.thy ===== *)
theory Submission_Properties
  imports Attempt_Lifecycle Reuse_Properties Vault_Properties Prescreener_Properties
begin

text \<open>
  Properties of a submission: whatever a request with an RID does to the attempts is a history of the
  attempt steps, so every result and every reservation survives it; and a respondent is sent to the
  provider only with the form accepted and its answers kept, or by releasing a prepared Toluna
  invitation.
\<close>

section \<open>Parts that leave the results alone\<close>

lemma quiet_refl [simp]: "quiet_change d d"
  by (simp add: quiet_change_def list_all2_same)

lemma quiet_trans: "quiet_change d d1 \<Longrightarrow> quiet_change d1 d2 \<Longrightarrow> quiet_change d d2"
  unfolding quiet_change_def by (auto elim: list_all2_trans [rotated] intro: same_result_trans)

lemma quiet_tables:
  "attempts d' = attempts d \<Longrightarrow> reservations d' = reservations d \<Longrightarrow> surveys d' = surveys d \<Longrightarrow>
   integrations d' = integrations d \<Longrightarrow> quiet_change d d'"
  unfolding quiet_change_def
  by (intro conjI allI attempt_integration_frame) (simp_all add: list_all2_same)

lemma release_slot_quiet: "quiet_change d (release_month_slot k d)"
  by (rule quiet_tables) (simp_all add: release_month_slot_def)

lemma mark_pool_quiet: "quiet_change d (mark_pool k pool d)"
  by (rule quiet_tables) (simp_all add: mark_pool_def update_counter_def)

lemma locked_state_quiet: "locked_state d i c now = (x, d') \<Longrightarrow> quiet_change d d'"
  by (auto simp: locked_state_def Let_def split: option.splits intro: quiet_tables)

lemma record_reuse_quiet: "quiet_change d (record_reuse d a i c x e now created)"
proof -
  let ?d = "update_attempts (\<lambda>b. at_id b = at_id a)
      (\<lambda>b. b\<lparr>at_provider_profile_uid := ps_uid c, at_updated_at := now\<rparr>) d"
  have "quiet_change d ?d" by (rule quiet_update) (simp add: same_result_def)
  moreover have "quiet_change ?d (record_reuse d a i c x e now created)"
    by (rule quiet_tables) (simp_all add: record_reuse_def)
  ultimately show ?thesis by (rule quiet_trans)
qed

lemma commit_reuse_quiet: "commit_reuse d a i c sg pool now created = Inr (e, d') \<Longrightarrow> quiet_change d d'"
  by (erule commit_reuse_cases) (blast intro: quiet_trans locked_state_quiet record_reuse_quiet)

lemma claim_slot_quiet:
  assumes "claim_month_slot ld lm d i now = (k, d')"
  shows "quiet_change d d'"
proof -
  obtain m where "d' = d\<lparr>monthly_counters := m\<rparr>"
    using claim_month_slot_frame [OF assms] unfolding only_counters_def by blast
  then show ?thesis by (intro quiet_tables) simp_all
qed

lemma reuse_rounds_quiet:
  "reuse_rounds ld clock locked a i code sg counter n k excluded d v = (d', v', res) \<Longrightarrow> quiet_change d d'"
proof (induction n arbitrary: k excluded v)
  case 0
  then show ?case using release_slot_quiet by auto
next
  case (Suc n)
  show ?case
  proof (cases "reserve_vault_profile ld d v a i code sg excluded (locked k) (clock k)")
    case None
    with Suc.prems show ?thesis using release_slot_quiet by auto
  next
    case (Some x)
    obtain c previous v1 where x: "x = (c, previous, v1)" by (metis prod.collapse)
    show ?thesis
    proof (cases "commit_reuse d a i c sg (reuse_pool_of c) (clock (k + 1)) (clock (k + 2))")
      case (Inl e)
      with Suc Some x show ?thesis using release_slot_quiet by (auto split: if_splits)
    next
      case (Inr y)
      obtain e d1 where y: "y = (e, d1)" by (cases y)
      with Suc.prems Some x Inr have "d' = mark_pool counter (reuse_pool_of c) d1" by auto
      with commit_reuse_quiet [OF Inr [unfolded y]] show ?thesis by (auto intro: quiet_trans mark_pool_quiet)
    qed
  qed
qed

lemma maybe_assign_quiet:
  assumes "maybe_assign_reusable_profile ld lm enabled clock locked d v a s answers = (d', v', res)"
  shows "quiet_change d d'"
proof -
  have reapply: "quiet_change d (reapply_event d a event)" for event
    unfolding reapply_event_def using quiet_update by (simp add: same_result_def)
  show ?thesis
    using assms unfolding maybe_assign_reusable_profile_def
    by (auto simp: Let_def reapply split: option.splits sum.splits prod.splits if_splits
        dest!: reuse_rounds_quiet claim_slot_quiet intro: quiet_trans release_slot_quiet)
qed

lemma draw_uid_quiet: "draw_uid d i candidates = Inr (uid, d') \<Longrightarrow> quiet_change d d'"
proof (induction candidates)
  case (Cons c cs)
  have "quiet_change d (set_prescreener_uid i c d)"
    unfolding set_prescreener_uid_def by (rule quiet_update) (simp add: same_result_def)
  with Cons show ?case by (auto split: option.splits if_splits)
qed simp

lemma ensure_uid_quiet: "ensure_attempt_prescreener_uid d a candidates = Inr (uid, d') \<Longrightarrow> quiet_change d d'"
  unfolding ensure_attempt_prescreener_uid_def by (auto split: option.splits if_splits dest: draw_uid_quiet)

lemma capture_quiet:
  "capture_prescreener_submission ld enabled d v a s answers submitted_at allow candidates faults now
     = (d', v', res) \<Longrightarrow> quiet_change d d'"
  by (auto simp: capture_prescreener_submission_def Let_def split: if_splits sum.splits prod.splits dest: ensure_uid_quiet)

lemma capture_answers_quiet: "capture_answers ss d v a s answers allow now = (d', v', res) \<Longrightarrow> quiet_change d d'"
  by (auto simp: capture_answers_def split: if_splits sum.splits prod.splits dest: capture_quiet)

lemma assign_or_capture_quiet:
  "assign_or_capture ss d v a s answers now = (d', v', res) \<Longrightarrow> quiet_change d d'"
  by (auto simp: assign_or_capture_def split: sum.splits prod.splits option.splits
      dest!: maybe_assign_quiet capture_answers_quiet intro: quiet_trans)

section \<open>A submission is a history\<close>

lemma attempt_steps_one: "attempt_step d d' \<Longrightarrow> attempt_steps d d'"
  by (rule attempt_steps.more [OF attempt_steps.none])

lemma attempt_steps_quiet: "quiet_change d d' \<Longrightarrow> attempt_steps d d'"
  by (rule attempt_steps_one [OF attempt_step.other])

lemma end_locally_steps:
  assumes "end_locally ss r answers result reason now a d = Inr (response, d')"
  shows "attempt_steps d d' \<and> (\<forall>url. response \<noteq> Sent_Out url)"
proof -
  obtain b where run: "finish_local_rfg_attempt (ss_web ss) (ss_vault_enabled ss) r answers result reason now (at_id a) d = Inr (b, d')"
    and out: "response = Moved_To (rfg_result_url ss (at_rid a) result)"
    using assms by (auto simp: end_locally_def dest!: spread_keeps)
  have "attempt_steps d d'"
  proof (cases "map_of RFG_STATUS_MAP result")
    case None
    with run have "d' = d" by (auto simp: finish_local_rfg_attempt_def split: option.splits sum.splits if_splits)
    then show ?thesis by (simp add: attempt_steps.none)
  next
    case (Some status)
    with run rfg_status_ends [OF Some] show ?thesis
      by (auto simp: finish_local_rfg_attempt_def intro!: attempt_steps_one attempt_step.local_end)
  qed
  with out show ?thesis by simp
qed

lemma send_out_steps:
  assumes "send_out ss provider r form answers now a s d v = (d', v', res)"
  shows "attempt_steps d d'"
proof -
  obtain d1 v1 got where got: "assign_or_capture ss d v a s answers now = (d1, v1, got)" by (metis prod.collapse)
  have first: "attempt_steps d d1" by (rule attempt_steps_quiet [OF assign_or_capture_quiet [OF got]])
  have "attempt_steps d1 d'"
    using assms unfolding send_out_def got
    by (auto split: sum.splits option.splits prod.splits intro: attempt_steps.none attempt_steps_one attempt_step.redirect
        dest: end_locally_steps)
  then show ?thesis using first by (rule attempt_steps_trans)
qed

lemma validated_submission_steps:
  assumes "validated_submission ss provider r form answers now a s d v = (d', v', res)"
  shows "attempt_steps d d'"
proof -
  have captured: "attempt_steps d d1 \<and> (attempt_steps d1 d2 \<longrightarrow> attempt_steps d d2)"
    if "capture_answers ss d v a s answers True now = (d1, v1, x)" for d1 d2 v1 x
    using attempt_steps_quiet [OF capture_answers_quiet [OF that]] attempt_steps_trans by blast
  show ?thesis
    using assms unfolding validated_submission_def
    by (auto split: sum.splits if_splits prod.splits intro: attempt_steps.none
        dest: send_out_steps end_locally_steps captured)
qed

text \<open>An adapter rejects an invitation only with a status that ends the attempt.\<close>

definition rejections_end :: "submission_services \<Rightarrow> bool" where
  "rejections_end ss \<longleftrightarrow>
     (\<forall>d s a answers rejection. pp_outbound (ss_port ss) d s a answers = Inl (Invite_Rejected rejection) \<longrightarrow>
        ir_status rejection \<noteq> INITIATED \<and> ir_status rejection \<noteq> REDIRECTED)"

lemma map_sum_error: "map_sum id f x = Inl e \<Longrightarrow> x = Inl e"
  by (cases x) auto

lemma raised_not_rejected: "map_sum Raised f x \<noteq> Inl (Invite_Rejected rejection)"
  by (cases x) auto

lemma redirect_rejected:
  assumes "redirect_transaction ss provider answers now i d = Inl (Invite_Rejected rejection)" and "rejections_end ss"
  shows "ir_status rejection \<noteq> INITIATED \<and> ir_status rejection \<noteq> REDIRECTED"
proof -
  obtain s a where "outbound_of ss provider d s a answers = Inl (Invite_Rejected rejection)"
    using assms(1) unfolding redirect_transaction_def
    by (auto split: option.splits if_splits dest!: map_sum_error)
  then have "pp_outbound (ss_port ss) d s a answers = Inl (Invite_Rejected rejection)"
    unfolding outbound_of_def Let_def using raised_not_rejected by (auto split: if_splits)
  with assms(2) show ?thesis unfolding rejections_end_def by blast
qed

lemma send_out_rejected:
  assumes "send_out ss provider r form answers now a s d v = (d', v', Inl (Invite_Rejected rejection))" and "rejections_end ss"
  shows "ir_status rejection \<noteq> INITIATED \<and> ir_status rejection \<noteq> REDIRECTED"
  using assms(1) unfolding send_out_def
  by (auto split: prod.splits sum.splits option.splits dest: redirect_rejected [OF _ assms(2)])

lemma validated_rejected:
  assumes "validated_submission ss provider r form answers now a s d v = (d', v', Inl (Invite_Rejected rejection))"
    and "rejections_end ss"
  shows "ir_status rejection \<noteq> INITIATED \<and> ir_status rejection \<noteq> REDIRECTED"
  using assms(1) unfolding validated_submission_def
  by (auto split: prod.splits sum.splits if_splits dest: send_out_rejected [OF _ assms(2)])

lemma rejection_step:
  "finish_toluna_invite_rejection ws vault_enabled r answers rejection now i d = Inr (b, d') \<Longrightarrow>
   ir_status rejection \<noteq> INITIATED \<and> ir_status rejection \<noteq> REDIRECTED \<Longrightarrow> attempt_step d d'"
  unfolding finish_toluna_invite_rejection_def by (blast intro: attempt_step.local_end)

lemma with_uid_quiet: "with_prescreener_uid ss provider a d = Inr (a', d') \<Longrightarrow> quiet_change d d'"
  by (auto simp: with_prescreener_uid_def split: if_splits dest!: spread_keeps ensure_uid_quiet)

lemma submit_answers_steps:
  assumes run: "submit_answers ss provider r form answers now a s d v = (d', v', res)" and "rejections_end ss"
  shows "attempt_steps d d'"
proof (cases "with_prescreener_uid ss provider a d")
  case (Inl e)
  with run show ?thesis by (simp add: submit_answers_def attempt_steps.none)
next
  case (Inr x)
  obtain a' d0 where x: "x = (a', d0)" by (cases x)
  obtain d1 v1 out where out: "validated_submission ss provider r form answers now a' s d0 v = (d1, v1, out)"
    by (metis prod.collapse)
  have start: "attempt_steps d d1"
    using attempt_steps_trans [OF validated_submission_steps [OF out] attempt_steps_quiet [OF with_uid_quiet [OF Inr [unfolded x]]]] .
  have "attempt_steps d1 d'"
  proof (cases "\<exists>rejection. out = Inl (Invite_Rejected rejection)")
    case True
    then obtain rejection where rejection: "out = Inl (Invite_Rejected rejection)" ..
    note ends = validated_rejected [OF out [unfolded rejection] assms(2)]
    from run Inr x out rejection show ?thesis
      by (auto simp: submit_answers_def split: sum.splits
          intro: attempt_steps.none attempt_steps_one rejection_step [OF _ ends])
  next
    case False
    with run Inr x out have "d' = d1"
      by (auto simp: submit_answers_def split: sum.splits provider_failure.splits)
    then show ?thesis by (simp add: attempt_steps.none)
  qed
  then show ?thesis using start by (rule attempt_steps_trans)
qed

lemma country_guard_steps:
  assumes "finish_wrong_target_country_attempt ws ld vault_enabled r a s location candidates faults now d v = (d', v', res)"
  shows "attempt_steps d d'"
proof -
  obtain d1 v1 captured where captured: "capture_for_ending ld vault_enabled d v a s
      (wrong_target_country_answers s location) candidates faults now = (d1, v1, captured)" by (metis prod.collapse)
  have "quiet_change d d1"
    using captured by (auto simp: capture_for_ending_def split: if_splits prod.splits sum.splits py_error.splits
        dest: capture_quiet)
  then have first: "attempt_steps d d1" by (rule attempt_steps_quiet)
  have "attempt_steps d1 d'"
    using assms captured unfolding finish_wrong_target_country_attempt_def Let_def
    by (auto simp: country_ending_def split: sum.splits
        intro: attempt_steps.none attempt_steps_one attempt_step.local_end)
  then show ?thesis using first by (rule attempt_steps_trans)
qed

lemma entry_location_quiet: "entry_location ss posted r a d = Inr (location, a', d') \<Longrightarrow> quiet_change d d'"
  unfolding entry_location_def
  by (auto simp: Let_def split: sum.splits if_splits intro!: quiet_update same_result_def [THEN iffD2])

lemma released_invite_steps: "released_invite provider a now d = Inr (url, d') \<Longrightarrow> attempt_steps d d'"
  by (auto simp: released_invite_def split: if_splits intro: attempt_steps.none attempt_steps_one attempt_step.release)

lemma answer_form_steps:
  assumes "answer_form ss provider posted r form refreshed now a s d v = (d', v', res)" and "rejections_end ss"
  shows "attempt_steps d d'"
  using assms(1) unfolding answer_form_def
  by (auto split: if_splits option.splits sum.splits intro: attempt_steps.none submit_answers_steps [OF _ assms(2)])

lemma guarded_journey_steps:
  assumes run: "guarded_journey ss posted r form refreshed now a s d v = (d', v', res)" and "rejections_end ss"
  shows "attempt_steps d d'"
proof (cases "entry_location ss posted r a d")
  case (Inl e)
  with run show ?thesis by (simp add: guarded_journey_def attempt_steps.none)
next
  case (Inr x)
  obtain location a1 d1 where x: "x = (location, a1, d1)" by (metis prod.collapse)
  have first: "attempt_steps d d1" by (rule attempt_steps_quiet [OF entry_location_quiet [OF Inr [unfolded x]]])
  have "attempt_steps d1 d'"
    using run unfolding guarded_journey_def Inr x
    by (auto split: sum.splits if_splits prod.splits option.splits intro: attempt_steps.none attempt_steps_trans
        dest: country_guard_steps released_invite_steps answer_form_steps [OF _ assms(2)])
  then show ?thesis using first by (rule attempt_steps_trans)
qed

lemma continue_survey_cases:
  assumes "continue_survey ss posted r form refreshed now d v = (d', v', res)"
  obtains (refused) status where "d' = d" "res = Inr (Link_Error status)"
  | (journey) a s a0 d0 where "journey_attempt d (requested_rid posted r form) = Inr (a, s)"
      "backfill_attempt_entry_audit (ws_ip_text (ss_web ss)) (ws_trust_forwarded (ss_web ss)) r a d = (a0, d0)"
      "guarded_journey ss posted r form refreshed now a0 s d0 v = (d', v', res)"
proof (cases "journey_attempt d (requested_rid posted r form)")
  case (Inl status)
  with assms refused show thesis by (auto simp: continue_survey_def split: if_splits)
next
  case (Inr x)
  obtain a s where x: "x = (a, s)" by (cases x)
  obtain a0 d0 where audit: "backfill_attempt_entry_audit (ws_ip_text (ss_web ss)) (ws_trust_forwarded (ss_web ss)) r a d = (a0, d0)"
    by (metis prod.collapse)
  show thesis
  proof (cases "\<not> posted \<and> \<not> has_exact_query r [''rid'']")
    case True
    with assms refused show thesis by (auto simp: continue_survey_def)
  next
    case False
    from assms False Inr x audit have "guarded_journey ss posted r form refreshed now a0 s d0 v = (d', v', res)"
      unfolding continue_survey_def by (auto split: if_splits)
    with journey Inr x audit show thesis by blast
  qed
qed

text \<open>C17: Whatever a request with an RID does to the attempts and their reservations -- guards, reuse,
  capture, local endings and the redirect -- is a history of the attempt steps.  So every invariant of
  those histories holds through a submission: results stay as recorded, and capacity is held only by
  attempts that are under way.\<close>

theorem submission_is_a_history:
  assumes "continue_survey ss posted r form refreshed now d v = (d', v', res)" and "rejections_end ss"
    and "attempts_ok d"
  shows "attempt_steps d d' \<and> attempts_ok d' \<and> results_kept d d'"
proof -
  have "attempt_steps d d'"
    using assms(1)
  proof (cases rule: continue_survey_cases)
    case refused
    then show ?thesis by (simp add: attempt_steps.none)
  next
    case (journey a s a0 d0)
    show ?thesis
      by (rule attempt_steps_trans [OF guarded_journey_steps [OF journey(3) assms(2)]
            attempt_steps_quiet [OF backfill_quiet [OF journey(2)]]])
  qed
  with attempt_steps_both [OF this assms(3)] show ?thesis by blast
qed

section \<open>Nobody is sent out unrecorded\<close>

lemma undo_reservation_inv: "vault_inv v \<Longrightarrow> vault_inv (undo_vault_reservation uid previous v)"
  by (rule vault_invI)
    (simp_all add: vault_inv_def vault_ok_def rows_ok_def unique_by_def undo_vault_reservation_def map_update_where
      flip: set_map)

lemma reserve_inv:
  assumes "reserve_vault_profile ld d v a i code sg excluded locked now = Some (c, previous, v')" and "vault_inv v"
  shows "vault_inv v'"
  using assms(1) by (rule reserve_vault_profile_cases) (auto intro: update_submission_keys [OF _ _ assms(2)] simp: reserved_row_def)

lemma reuse_rounds_vault:
  "reuse_rounds ld clock locked a i code sg counter n k excluded d v = (d', v', res) \<Longrightarrow> vault_inv v \<Longrightarrow> vault_inv v'"
proof (induction n arbitrary: k excluded v)
  case (Suc n)
  show ?case
  proof (cases "reserve_vault_profile ld d v a i code sg excluded (locked k) (clock k)")
    case None
    with Suc.prems show ?thesis by auto
  next
    case (Some x)
    obtain c previous v1 where x: "x = (c, previous, v1)" by (metis prod.collapse)
    have inv: "vault_inv v1" by (rule reserve_inv [OF Some [unfolded x] Suc.prems(2)])
    show ?thesis
    proof (cases "commit_reuse d a i c sg (reuse_pool_of c) (clock (k + 1)) (clock (k + 2))")
      case (Inl e)
      with Suc.prems(1) Some x inv undo_reservation_inv [OF inv] show ?thesis
        by (auto split: if_splits intro: Suc.IH)
    next
      case (Inr y)
      with Suc.prems(1) Some x inv show ?thesis by (cases y) auto
    qed
  qed
qed auto

lemma maybe_assign_vault:
  assumes "maybe_assign_reusable_profile ld lm enabled clock locked d v a s answers = (d', v', res)" and "vault_inv v"
  shows "vault_inv v'"
  using assms unfolding maybe_assign_reusable_profile_def
  by (auto simp: Let_def split: option.splits sum.splits prod.splits if_splits dest: reuse_rounds_vault)

lemma reuse_rounds_event:
  "reuse_rounds ld clock locked a i code sg counter n k excluded d v = (d', v', Inr (Some e)) \<Longrightarrow>
   e \<in> set (reuse_events d') \<and> pre_attempt e = at_id a"
proof (induction n arbitrary: k excluded v)
  case (Suc n)
  then show ?case
    by (auto split: option.splits prod.splits sum.splits if_splits simp: mark_pool_def update_counter_def
        dest!: commit_reuse_event)
qed simp

lemma maybe_assign_event:
  assumes "maybe_assign_reusable_profile ld lm enabled clock locked d v a s answers = (d', v', Inr (Some e))"
  shows "e \<in> set (reuse_events d') \<and> pre_attempt e = at_id a"
  using assms unfolding maybe_assign_reusable_profile_def
  by (auto simp: Let_def reapply_event_def update_attempts_def split: option.splits sum.splits prod.splits if_splits
      dest: reuse_rounds_event find_SomeD)

text \<open>The vault has the journey's row with the answers, and with the postal code of the entry at most.\<close>

definition answers_stored :: "vault \<Rightarrow> string \<Rightarrow> jdict \<Rightarrow> bool" where
  "answers_stored v rid answers \<longleftrightarrow>
     (\<exists>p \<in> set (submissions v). ps_rid p = rid
        \<and> (\<exists>full. (\<forall>k. k \<noteq> ''system_ip_postal'' \<longrightarrow> dict_get full k = dict_get answers k)
             \<and> (ps_raw_answers p = full \<or> dict_eq (ps_raw_answers p) full)))"

lemma with_postal_keeps:
  "answers_with_entry_postal_code ld d a s answers now = Inr full \<Longrightarrow>
   k \<noteq> ''system_ip_postal'' \<Longrightarrow> dict_get full k = dict_get answers k"
  unfolding answers_with_entry_postal_code_def by (auto simp: Let_def split: sum.splits option.splits if_splits)

lemma capture_answers_stored:
  assumes "capture_answers ss d v a s answers allow now = (d', v', Inr x)" and "ss_vault_enabled ss" and "vault_inv v"
  shows "answers_stored v' (at_rid a) answers"
proof -
  obtain full d1 v1 res where full: "answers_with_entry_postal_code (ss_local_date ss) d a s answers now = Inr full"
    and run: "capture_prescreener_submission (ss_local_date ss) True d v a s full None allow (ss_candidates ss)
      (ss_faults ss) now = (d1, v1, res)" and out: "v' = v1" "map_sum id (\<lambda>_. ()) res = Inr x"
    using assms(1,2) unfolding capture_answers_def by (auto split: sum.splits prod.splits)
  from out(2) obtain p created where "res = Inr (p, created)" by (cases res) auto
  from capture_stores_result [OF run [unfolded this] assms(3)]
  have "p \<in> set (submissions v1)" "ps_rid p = at_rid a" "ps_raw_answers p = full \<or> dict_eq (ps_raw_answers p) full"
    by (auto simp: get_submission_def dest: find_SomeD)
  with with_postal_keeps [OF full] show ?thesis unfolding answers_stored_def out(1) by blast
qed

lemma assign_or_capture_recorded:
  assumes "assign_or_capture ss d v a s answers now = (d', v', Inr got)" and "vault_inv v" and "ss_vault_enabled ss"
  shows "answers_stored v' (at_rid a) answers \<or> (\<exists>e \<in> set (reuse_events d'). pre_attempt e = at_id a)"
proof -
  obtain d1 v1 res where run: "maybe_assign_reusable_profile (ss_local_date ss) (ss_local_midnight ss) (ss_reuse_enabled ss)
      (ss_clock ss) (ss_locked ss) d v a s answers = (d1, v1, res)" by (metis prod.collapse)
  note inv = maybe_assign_vault [OF run assms(2)]
  show ?thesis
  proof (cases res)
    case (Inl e)
    with assms(1) run show ?thesis by (simp add: assign_or_capture_def)
  next
    case (Inr event)
    show ?thesis
    proof (cases event)
      case (Some e)
      with assms(1) run Inr have "d' = d1" by (auto simp: assign_or_capture_def)
      with maybe_assign_event [OF run [unfolded Inr Some]] show ?thesis by blast
    next
      case None
      obtain d2 v2 out where capture: "capture_answers ss d1 v1 a s answers
          (at_status a = INITIATED \<and> at_redirected_at a = None \<and> at_outbound_url a = []) now = (d2, v2, out)"
        by (metis prod.collapse)
      with assms(1) run Inr None obtain x where "out = Inr x" "v' = v2"
        by (cases out) (auto simp: assign_or_capture_def)
      with capture_answers_stored [OF capture [unfolded this(1)] assms(3) inv] show ?thesis by simp
    qed
  qed
qed

lemma save_attempt_events [simp]: "reuse_events (save_attempt b d) = reuse_events d"
  by (simp add: save_attempt_def update_attempts_def)

lemma send_out_sent:
  assumes "send_out ss provider r form answers now a s d v = (d', v', Inr (Sent_Out url))"
  obtains d1 got where "assign_or_capture ss d v a s answers now = (d1, v', Inr got)"
    "redirect_transaction ss provider answers now (at_id a) d1 = Inr (Sent_Out url, d')"
  using assms unfolding send_out_def
  by (auto split: sum.splits prod.splits option.splits dest: end_locally_steps)

lemma validated_sent:
  assumes "validated_submission ss provider r form answers now a s d v = (d', v', Inr (Sent_Out url))"
  shows "send_out ss provider r form answers now a s d v = (d', v', Inr (Sent_Out url))"
  using assms unfolding validated_submission_def
  by (auto split: sum.splits prod.splits if_splits dest: end_locally_steps)

lemma with_uid_attempt:
  "with_prescreener_uid ss provider a d = Inr (a', d') \<Longrightarrow> at_id a' = at_id a \<and> at_rid a' = at_rid a"
  by (auto simp: with_prescreener_uid_def split: if_splits dest!: spread_keeps)

lemma submit_answers_sent:
  assumes run: "submit_answers ss provider r form answers now a s d v = (d', v', Inr (Sent_Out url))"
    and "vault_inv v"
  shows "(\<exists>b. get_attempt d' (at_id a) = Some b \<and> at_status b = REDIRECTED \<and> at_outbound_url b = url
      \<and> at_submitted_at b \<noteq> None
      \<and> (provider \<noteq> ''toluna'' \<longrightarrow> at_answers b = operational_answer_value (ss_vault_enabled ss) answers))
    \<and> (ss_vault_enabled ss \<longrightarrow>
         answers_stored v' (at_rid a) answers \<or> (\<exists>e \<in> set (reuse_events d'). pre_attempt e = at_id a))"
proof -
  obtain a' d0 where uid: "with_prescreener_uid ss provider a d = Inr (a', d0)"
    using run by (auto simp: submit_answers_def form_again_def split: sum.splits if_splits)
  obtain d1 v1 out where out: "validated_submission ss provider r form answers now a' s d0 v = (d1, v1, out)"
    by (metis prod.collapse)
  have "out = Inr (Sent_Out url) \<and> d' = d1 \<and> v' = v1"
    using run uid out by (auto simp: submit_answers_def form_again_def split: sum.splits provider_failure.splits if_splits)
  with out have "send_out ss provider r form answers now a' s d0 v = (d', v', Inr (Sent_Out url))"
    by (auto intro: validated_sent)
  then obtain d2 got where got: "assign_or_capture ss d0 v a' s answers now = (d2, v', Inr got)"
    and sent: "redirect_transaction ss provider answers now (at_id a') d2 = Inr (Sent_Out url, d')"
    by (rule send_out_sent)
  note same = with_uid_attempt [OF uid]
  from sent show ?thesis
  proof (cases rule: redirect_row)
    case unsent: same
    then show ?thesis by blast
  next
    case (written b0 b url')
    then have "get_attempt d' (at_id a) = Some b" using same by (simp add: get_attempt_save)
    with written same assign_or_capture_recorded [OF got assms(2)] show ?thesis by auto
  qed
qed

lemma collect_frame_tables:
  assumes "targeting_questions d' = targeting_questions d" and "integrations d' = integrations d"
  shows "collect_prescreener_answers unescape today form d' s = collect_prescreener_answers unescape today form d s"
  unfolding collect_prescreener_answers_def prescreener_questions_def question_rows_def survey_questions_def
    get_integration_def assms ..

lemma update_attempts_targeting [simp]: "targeting_questions (update_attempts P f d) = targeting_questions d"
  by (simp add: update_attempts_def)

text \<open>The columns of a prepared invitation: the location and the entry audit leave them alone.\<close>

definition same_invite :: "survey_attempt \<Rightarrow> survey_attempt \<Rightarrow> bool" where
  "same_invite a b \<longleftrightarrow> at_id b = at_id a \<and> at_status b = at_status a
     \<and> at_submitted_at b = at_submitted_at a \<and> at_outbound_url b = at_outbound_url a"

lemma updated_invite:
  assumes "\<And>x. same_invite x (f x)" and "get_attempt (update_attempts P f d) i = Some q"
  shows "\<exists>x. get_attempt d i = Some x \<and> same_invite x q"
proof -
  have "at_id (f x) = at_id x" for x using assms(1) by (simp add: same_invite_def)
  then have "get_attempt (update_attempts P f d) i = map_option (\<lambda>x. if P x then f x else x) (get_attempt d i)"
    by (rule get_attempt_update)
  with assms(2) obtain x where "get_attempt d i = Some x" "q = (if P x then f x else x)" by auto
  then show ?thesis using assms(1) [of x] by (auto simp: same_invite_def)
qed

lemma entry_location_frame:
  assumes "entry_location ss posted r a d = Inr (location, a', d')"
  shows "at_id a' = at_id a \<and> at_rid a' = at_rid a
    \<and> targeting_questions d' = targeting_questions d \<and> integrations d' = integrations d"
  using assms unfolding entry_location_def by (auto simp: Let_def split: sum.splits if_splits)

lemma entry_location_invite:
  assumes "entry_location ss posted r a d = Inr (location, a', d')" and "get_attempt d' i = Some q"
  shows "\<exists>x. get_attempt d i = Some x \<and> same_invite x q"
  using assms unfolding entry_location_def
  by (auto simp: Let_def same_invite_def split: sum.splits if_splits dest!: updated_invite [rotated])

lemma backfill_frame:
  assumes "backfill_attempt_entry_audit ip_text trust r a d = (a', d')"
  shows "at_id a' = at_id a \<and> at_rid a' = at_rid a
    \<and> targeting_questions d' = targeting_questions d \<and> integrations d' = integrations d"
proof -
  have "at_id (backfilled_attempt ip_text trust r a) = at_id a \<and> at_rid (backfilled_attempt ip_text trust r a) = at_rid a"
    by (simp add: backfilled_attempt_def Let_def split: option.split)
  with assms show ?thesis by (auto simp: backfill_attempt_entry_audit_def Let_def)
qed

lemma backfill_invite:
  assumes "backfill_attempt_entry_audit ip_text trust r a d = (a', d')" and "get_attempt d' i = Some q"
  shows "\<exists>x. get_attempt d i = Some x \<and> same_invite x q"
  using assms unfolding backfill_attempt_entry_audit_def
  by (auto simp: Let_def same_invite_def write_entry_audit_def dest!: updated_invite [rotated])

text \<open>A prepared invitation of Toluna that a request releases, and the row it leaves.\<close>

definition invitation_prepared :: "db \<Rightarrow> survey \<Rightarrow> pk \<Rightarrow> string \<Rightarrow> bool" where
  "invitation_prepared d s i url \<longleftrightarrow> provider_or_blank d s = Inr ''toluna'' \<and> url \<noteq> []
     \<and> (\<exists>q. get_attempt d i = Some q \<and> at_status q = INITIATED \<and> at_submitted_at q \<noteq> None \<and> at_outbound_url q = url)"

lemma released_invite_sent:
  assumes "released_invite provider a now d = Inr (Some url, d')"
  obtains q b where "provider = ''toluna''" "get_attempt d (at_id a) = Some q" "at_status q = INITIATED"
    "at_submitted_at q \<noteq> None" "at_outbound_url q = url" "url \<noteq> []"
    "get_attempt d' (at_id a) = Some b" "at_status b = REDIRECTED" "at_outbound_url b = url" "at_submitted_at b \<noteq> None"
proof -
  have toluna: "provider = ''toluna''" and run: "release_prepared_toluna_invite (at_id a) now d = Inr (Some url, d')"
    using assms by (auto simp: released_invite_def split: if_splits)
  obtain q where q: "get_attempt d (at_id a) = Some q" "at_status q = INITIATED" "at_submitted_at q \<noteq> None"
      "at_outbound_url q = url" "url \<noteq> []"
    and d': "d' = save_attempt (q\<lparr>at_redirected_at := Some now, at_status := REDIRECTED, at_updated_at := now\<rparr>) d"
    using run by (auto simp: release_prepared_toluna_invite_def of_option_def split: option.splits if_splits)
  show thesis
    by (rule that [OF toluna q, of "q\<lparr>at_redirected_at := Some now, at_status := REDIRECTED, at_updated_at := now\<rparr>"])
      (use q get_attempt_id [OF q(1)] in \<open>simp_all add: d' get_attempt_save\<close>)
qed

lemma journey_frame:
  assumes "backfill_attempt_entry_audit ip_text trust r a d = (a0, d0)"
    and "entry_location ss posted r' a0 d0 = Inr (location, a1, d1)"
  shows "at_id a1 = at_id a \<and> at_rid a1 = at_rid a"
    "collect_prescreener_answers unescape today form d1 s = collect_prescreener_answers unescape today form d s"
    "provider_or_blank d1 s = provider_or_blank d s"
    "get_attempt d1 i = Some q \<Longrightarrow> \<exists>x. get_attempt d i = Some x \<and> same_invite x q"
proof -
  note frames = backfill_frame [OF assms(1)] entry_location_frame [OF assms(2)]
  show "at_id a1 = at_id a \<and> at_rid a1 = at_rid a" using frames by simp
  show "collect_prescreener_answers unescape today form d1 s = collect_prescreener_answers unescape today form d s"
    using frames by (intro collect_frame_tables) simp_all
  have "integrations d1 = integrations d" using frames by simp
  then show "provider_or_blank d1 s = provider_or_blank d s"
    unfolding provider_or_blank_def get_integration_def by (rule ssubst) (rule refl)
  show "\<exists>x. get_attempt d i = Some x \<and> same_invite x q" if "get_attempt d1 i = Some q"
    using entry_location_invite [OF assms(2) that] backfill_invite [OF assms(1)] by (fastforce simp: same_invite_def)
qed

text \<open>C3: No respondent is sent to the provider unrecorded.  When the POST of an RID leads to a redirect
  out, the attempt's row is redirected with that URL and has its time of submission, and one of two
  things holds.  Either a Toluna invitation with that URL had been prepared before, for answers
  submitted earlier, and is released now; or this request's form was accepted without errors, and the
  answers are where the settings want them: without the vault in the attempt's row (for every provider
  but Toluna, whose row may carry those of its registration), and with the vault enabled in the vault
  under the journey's RID -- unless a stored profile was chosen for the journey and its use recorded.\<close>

theorem sent_out_is_recorded:
  assumes "continue_survey ss True r form refreshed now d v = (d', v', Inr (Sent_Out url))" and "vault_inv v"
    and "journey_attempt d (requested_rid True r form) = Inr (a, s)"
  shows "\<exists>b. get_attempt d' (at_id a) = Some b \<and> at_status b = REDIRECTED \<and> at_outbound_url b = url
    \<and> at_submitted_at b \<noteq> None
    \<and> (invitation_prepared d s (at_id a) url
       \<or> (\<exists>answers. collect_prescreener_answers (ss_unescape ss) (ss_today ss) form d s = Inr (answers, [])
            \<and> (provider_or_blank d s \<noteq> Inr ''toluna'' \<longrightarrow>
                 at_answers b = operational_answer_value (ss_vault_enabled ss) answers)
            \<and> (ss_vault_enabled ss \<longrightarrow> answers_stored v' (at_rid a) answers
                 \<or> (\<exists>e \<in> set (reuse_events d'). pre_attempt e = at_id a))))"
  using assms(1)
proof (cases rule: continue_survey_cases)
  case refused
  then show ?thesis by simp
next
  case (journey a' s' a0 d0)
  have a: "a' = a" "s' = s" using journey(1) assms(3) by simp_all
  note run = journey(3) [unfolded a]
  obtain location a1 d1 where location: "entry_location ss True r a0 d0 = Inr (location, a1, d1)"
    using run by (cases "entry_location ss True r a0 d0") (auto simp: guarded_journey_def)
  note frame = journey_frame [OF journey(2) [unfolded a] location]
  obtain provider got d2 where provider: "provider_or_blank d s = Inr provider"
    and released: "released_invite provider a1 now d1 = Inr (got, d2)"
    and rest: "(case got of Some u \<Rightarrow> (d2, v, Inr (Sent_Out u))
        | None \<Rightarrow> answer_form ss provider True r form refreshed now a1 s d2 v) = (d', v', Inr (Sent_Out url))"
    using run location frame(3) [of s] unfolding guarded_journey_def
    by (auto split: sum.splits if_splits prod.splits option.splits)
  show ?thesis
  proof (cases got)
    case (Some u)
    with rest have u: "u = url" "d2 = d'" by simp_all
    from released [unfolded Some u] show ?thesis
    proof (cases rule: released_invite_sent)
      case (1 q b)
      obtain x where "get_attempt d (at_id a1) = Some x" "same_invite x q" using frame(4) [OF 1(2)] by blast
      with 1 provider have "invitation_prepared d s (at_id a) url"
        using frame(1) by (auto simp: invitation_prepared_def same_invite_def)
      with 1 frame(1) show ?thesis by auto
    qed
  next
    case None
    then have "d2 = d1" using released by (auto simp: released_invite_def release_prepared_toluna_invite_def split: if_splits sum.splits)
    with rest None obtain answers where collected: "collect_prescreener_answers (ss_unescape ss) (ss_today ss) form d1 s = Inr (answers, [])"
      and sent: "submit_answers ss provider r form answers now a1 s d1 v = (d', v', Inr (Sent_Out url))"
      unfolding answer_form_def by (auto simp: form_again_def split: option.splits sum.splits if_splits)
    from submit_answers_sent [OF sent assms(2)] collected frame provider show ?thesis by auto
  qed
qed

section \<open>A submission\<close>

text \<open>A journey whose profile was chosen by an earlier try, and a provider that answers with one URL.\<close>

definition submitted_attempt :: survey_attempt where
  "submitted_attempt = sample_attempt\<lparr>at_status := INITIATED\<rparr>"

definition submission_integration :: client_integration where
  "submission_integration = reuse_integration\<lparr>ci_provider_code := ''innovatemr''\<rparr>"

definition earlier_event :: profile_reuse_event where
  "earlier_event =
     \<lparr>pre_id = 1, pre_integration = 81, pre_attempt = 9, pre_survey = 7, pre_registered_uid = ''Aa11'',
      pre_reused_rid = ''r'', pre_reused_uid = ''Bb22'', pre_source_registered_at = 0, pre_source_usage_number = 2,
      pre_reuse_pool = ''first'', pre_country_code = ''IN'', pre_age_group = ''18-24'', pre_gender = ''male'', pre_created_at = 0\<rparr>"

definition submission_db :: db where
  "submission_db = sample_db\<lparr>integrations := [submission_integration], surveys := [reuse_survey],
     attempts := [submitted_attempt], targeting_questions := [sample_age_question], reuse_events := [earlier_event]\<rparr>"

definition sample_outbound :: provider_outbound where
  "sample_outbound = \<lparr>po_url = ''https://p.example/s'', po_source_cpi = None, po_payable_cpi = None, po_cpi_source = [],
     po_transaction_data = JObj []\<rparr>"

definition sample_port :: provider_port where
  "sample_port = \<lparr>pp_installed = [''innovatemr''], pp_get = (\<lambda>_ _. Inr ()), pp_validate = (\<lambda>_ _ _. Inr (True, [])),
     pp_duplicate = (\<lambda>_ _ _ _ _. Inr False), pp_outbound = (\<lambda>_ _ _ _. Inr sample_outbound)\<rparr>"

definition sample_submission :: "web_services \<Rightarrow> submission_services" where
  "sample_submission ws =
     \<lparr>ss_web = ws, ss_unescape = id, ss_local_date = sample_local_date, ss_local_midnight = sample_local_midnight,
      ss_today = (2026, 8, 15), ss_vault_enabled = True, ss_reuse_enabled = True, ss_country_guard = False,
      ss_clock = sample_clock, ss_locked = (\<lambda>_ _. False), ss_candidates = [], ss_faults = (\<lambda>_. None),
      ss_port = sample_port, ss_location = (\<lambda>_. []), ss_start_path = ''/survey/start/'', ss_rfg_path = ''/rfg/''\<rparr>"

definition sample_form :: form_data where
  "sample_form = [(''rid'', ''aB3aB3aB3a''), (''question_5'', '' 34 '')]"

lemma submission_fields [simp]:
  "attempts submission_db = [submitted_attempt]" "integrations submission_db = [submission_integration]"
  "surveys submission_db = [reuse_survey]" "users submission_db = [sample_user 31, sample_user 32, sample_user 33]"
  "targeting_questions submission_db = [sample_age_question]" "reuse_events submission_db = [earlier_event]"
  "reservations submission_db = []" "pre_attempt earlier_event = 9" "ci_id submission_integration = 81"
  "ci_provider_code submission_integration = ''innovatemr''" "ci_profile_reuse_enabled submission_integration"
  "at_id submitted_attempt = 9" "at_rid submitted_attempt = ''aB3aB3aB3a''" "at_survey submitted_attempt = 7"
  "at_platform_user submitted_attempt = Some 33" "at_status submitted_attempt = INITIATED"
  "at_callback_at submitted_attempt = None" "at_outbound_url submitted_attempt = []" "at_entry_client_data submitted_attempt = JObj []"
  by (simp_all add: submission_db_def earlier_event_def submission_integration_def reuse_integration_def
      submitted_attempt_def sample_attempt_def)

lemma submission_services_fields [simp]:
  "ss_web (sample_submission ws) = ws" "ss_unescape (sample_submission ws) = id" "ss_today (sample_submission ws) = (2026, 8, 15)"
  "ss_vault_enabled (sample_submission ws)" "ss_reuse_enabled (sample_submission ws)" "\<not> ss_country_guard (sample_submission ws)"
  "ss_port (sample_submission ws) = sample_port" "pp_installed sample_port = [''innovatemr'']" "pp_get sample_port = (\<lambda>_ _. Inr ())"
  "pp_outbound sample_port = (\<lambda>_ _ _ _. Inr sample_outbound)" "po_url sample_outbound = ''https://p.example/s''"
  by (simp_all add: sample_submission_def sample_port_def sample_outbound_def)

lemma submission_start:
  "journey_attempt submission_db (requested_rid True r sample_form) = Inr (submitted_attempt, reuse_survey)"
proof -
  have rid: "py_strip ''aB3aB3aB3a'' = ''aB3aB3aB3a''" "py_isalnum ''aB3aB3aB3a''" by code_simp+
  have "requested_rid True r sample_form = ''aB3aB3aB3a''"
    by (simp add: requested_rid_def sample_form_def form_value_def form_values_def rid)
  then show ?thesis by (simp add: journey_attempt_def rid get_user_def get_survey_def row_by_pk_def)
qed

text \<open>What the parts of the request leave as it was.\<close>

definition submission_frame :: "survey_attempt \<Rightarrow> db \<Rightarrow> bool" where
  "submission_frame a d \<longleftrightarrow> at_id a = 9 \<and> surveys d = [reuse_survey] \<and> integrations d = [submission_integration]
     \<and> targeting_questions d = [sample_age_question] \<and> reuse_events d = [earlier_event]
     \<and> (\<exists>row. get_attempt d 9 = Some row \<and> at_status row = INITIATED \<and> at_survey row = 7)"

lemma update_attempts_other [simp]:
  "surveys (update_attempts P f d) = surveys d" "reuse_events (update_attempts P f d) = reuse_events d"
  by (simp_all add: update_attempts_def)

lemma submission_frame_update:
  assumes "submission_frame a d" and "at_id b = 9" and "\<And>x. same_result x (f x)"
  shows "submission_frame b (update_attempts P f d)"
proof -
  obtain row where "get_attempt d 9 = Some row" "at_status row = INITIATED" "at_survey row = 7"
    using assms(1) by (auto simp: submission_frame_def)
  then obtain row' where "get_attempt (update_attempts P f d) 9 = Some row'" "at_status row' = INITIATED" "at_survey row' = 7"
    using quiet_lookup [of d "update_attempts P f d" 9 row] quiet_update [of f d P] assms(3)
    by (auto simp: quiet_change_def same_result_def)
  with assms(1,2) show ?thesis by (simp add: submission_frame_def)
qed

lemma submission_redirected:
  assumes "submission_frame a d"
  shows "\<exists>d'. redirect_transaction (sample_submission ws) ''innovatemr'' answers now 9 d
    = Inr (Sent_Out ''https://p.example/s'', d')"
  using assms by (auto simp: submission_frame_def redirect_transaction_def get_survey_def row_by_pk_def outbound_of_def)

lemma submission_sent:
  assumes "submission_frame a d"
  shows "\<exists>d' v'. submit_answers (sample_submission ws) ''innovatemr'' r form answers now a reuse_survey d v
    = (d', v', Inr (Sent_Out ''https://p.example/s''))"
proof -
  let ?d = "reapply_event d a earlier_event"
  have integration: "get_integration d 81 = Some submission_integration"
    using assms by (simp add: submission_frame_def get_integration_def row_by_pk_def)
  have assigned: "assign_or_capture (sample_submission ws) d v a reuse_survey answers now = (?d, v, Inr (Some earlier_event))"
    using assms integration by (simp add: assign_or_capture_def maybe_assign_reusable_profile_def submission_frame_def)
  have "submission_frame a ?d"
    using assms submission_frame_update [OF assms, of a] by (simp add: reapply_event_def submission_frame_def same_result_def)
  from submission_redirected [OF this] obtain d' where
    sent: "redirect_transaction (sample_submission ws) ''innovatemr'' answers now 9 ?d = Inr (Sent_Out ''https://p.example/s'', d')"
    by blast
  have "at_id a = 9" using assms by (simp add: submission_frame_def)
  then have "send_out (sample_submission ws) ''innovatemr'' r form answers now a reuse_survey d v
      = (d', v, Inr (Sent_Out ''https://p.example/s''))"
    by (simp add: send_out_def assigned duplicate_reason_def sent)
  then show ?thesis
    by (simp add: submit_answers_def with_prescreener_uid_def validated_submission_def)
qed

lemma submission_collected:
  assumes "submission_frame a d"
  shows "\<exists>answers. collect_prescreener_answers id today sample_form d reuse_survey = Inr (answers, [])"
proof -
  have integration: "get_integration d 81 = Some submission_integration"
    and rows: "survey_questions d reuse_survey = [sample_age_question]"
    using assms by (simp_all add: submission_frame_def get_integration_def row_by_pk_def survey_questions_def)
      (simp add: sample_age_question_def)
  have "py_lower ''innovatemr'' = ''innovatemr''" by code_simp
  then have code: "provider_code_of (Some submission_integration) = ''innovatemr''" by (simp add: provider_code_of_def)
  have questions: "prescreener_questions id False d reuse_survey = Inr [sample_age_prepared]"
    by (simp add: prescreener_questions_def integration code question_rows_def rows sample_row_read shown_rows_def
        sample_age_prepared_def del: read_questions.simps)
  have form: "form_values sample_form ''question_5'' = ['' 34 '']" by (simp add: form_values_def sample_form_def)
  show ?thesis
    using sample_collected [OF form]
    by (simp add: collect_prescreener_answers_def questions integration code del: collect_questions.simps)
qed

lemma submission_run:
  "\<exists>d' v'. continue_survey (sample_submission ws) True r sample_form None now submission_db v
     = (d', v', Inr (Sent_Out ''https://p.example/s''))"
proof -
  obtain a0 d0 where audit: "backfill_attempt_entry_audit (ws_ip_text ws) (ws_trust_forwarded ws) r submitted_attempt submission_db = (a0, d0)"
    by (metis prod.collapse)
  have start: "submission_frame submitted_attempt submission_db"
    by (simp add: submission_frame_def get_attempt_def row_by_pk_def)
  have frame: "submission_frame a0 d0"
    using audit backfill_frame [OF audit] submission_frame_update [OF start, of a0]
    by (auto simp: backfill_attempt_entry_audit_def Let_def write_entry_audit_def same_result_def)
  obtain data where data: "at_entry_client_data a0 = JObj data"
    using audit by (auto simp: backfill_attempt_entry_audit_def Let_def backfilled_attempt_def split: option.splits if_splits)
  have "\<exists>stored. stored_location a0 = Inr stored \<and> dict_or_empty (at_entry_client_data a0) = Inr data"
    by (simp add: stored_location_def data dict_or_empty_def)
  then obtain stored where location: "entry_location (sample_submission ws) True r a0 d0 = Inr (stored, a0, d0)"
    by (auto simp: entry_location_def)
  have provider: "provider_or_blank d0 reuse_survey = Inr ''innovatemr''"
    using frame by (simp add: provider_or_blank_def submission_frame_def get_integration_def row_by_pk_def)
  obtain answers where collected: "collect_prescreener_answers id (2026, 8, 15) sample_form d0 reuse_survey = Inr (answers, [])"
    using submission_collected [OF frame] by blast
  obtain d' v' where sent: "submit_answers (sample_submission ws) ''innovatemr'' r sample_form answers now a0 reuse_survey d0 v
      = (d', v', Inr (Sent_Out ''https://p.example/s''))" using submission_sent [OF frame] by blast
  have "guarded_journey (sample_submission ws) True r sample_form None now a0 reuse_survey d0 v
      = (d', v', Inr (Sent_Out ''https://p.example/s''))"
    by (simp add: guarded_journey_def location provider is_wrong_target_country_def released_invite_def answer_form_def
        collected sent)
  then show ?thesis by (simp add: continue_survey_def submission_start audit)
qed

definition plain_web :: web_services where
  "plain_web = \<lparr>ws_hmac = (\<lambda>_ _ _. []), ws_environment = (\<lambda>_. None), ws_ip_text = (\<lambda>_. None), ws_trust_forwarded = False,
     ws_innovate = \<lparr>sg_secret = [], sg_algorithm = [], sg_public_base = []\<rparr>, ws_innovate_required = False,
     ws_biobrain = \<lparr>sg_secret = [], sg_algorithm = [], sg_public_base = []\<rparr>, ws_biobrain_required = False,
     ws_status_path = ''/survey/status/'',
     ws_callbacks = \<lparr>cs_ip_literal = (\<lambda>_. False), cs_unescape = id, cs_decrypt = Some, cs_hmac = (\<lambda>_ _. []),
       cs_isoformat = show_int, cs_parse_datetime = (\<lambda>_. Inr None), cs_ip_address = Some, cs_is_global = (\<lambda>_. True),
       cs_getaddrinfo = (\<lambda>_ _. None)\<rparr>\<rparr>"

definition plain_request :: http_request where
  "plain_request = \<lparr>rq_scheme = ''https'', rq_host = ''s.example'', rq_path = ''/survey/start/'', rq_query_string = [],
     rq_meta = (\<lambda>_. None)\<rparr>"

lemma sent_out_is_recorded_witness:
  "\<exists>d' v' b. continue_survey (sample_submission plain_web) True plain_request sample_form None 5 submission_db empty_vault
       = (d', v', Inr (Sent_Out ''https://p.example/s''))
     \<and> get_attempt d' 9 = Some b \<and> at_status b = REDIRECTED \<and> at_outbound_url b = ''https://p.example/s''"
proof -
  obtain d' v' where run: "continue_survey (sample_submission plain_web) True plain_request sample_form None 5 submission_db empty_vault
      = (d', v', Inr (Sent_Out ''https://p.example/s''))" using submission_run by blast
  from sent_out_is_recorded [OF run empty_vault_inv submission_start] run show ?thesis by auto
qed

lemma submission_is_a_history_witness:
  "\<exists>d' v'. continue_survey (sample_submission plain_web) True plain_request sample_form None 5 submission_db empty_vault
       = (d', v', Inr (Sent_Out ''https://p.example/s'')) \<and> attempts_ok d'"
proof -
  obtain d' v' where run: "continue_survey (sample_submission plain_web) True plain_request sample_form None 5 submission_db empty_vault
      = (d', v', Inr (Sent_Out ''https://p.example/s''))" using submission_run by blast
  have "rejections_end (sample_submission plain_web)" by (simp add: rejections_end_def)
  moreover have "attempts_ok submission_db"
    by (simp add: attempts_ok_def unique_by_def reservations_ok_def reservations_unique_def is_pending_def
        open_reservations_pending_def)
  ultimately show ?thesis using submission_is_a_history [OF run] run by blast
qed

end
