(* ===== verification/Notification_Links.thy ===== *)
theory Notification_Links
  imports Attempt_Lifecycle
begin

text \<open>
  What the search for a notification's survey and journey depends on.  The operations of the
  notifications change statuses, counters and times, never the identifying columns, so a second look
  finds the rows the first one found.
\<close>

section \<open>Queries over some columns\<close>

lemma map_columns_rel: "map f ys = map f xs \<longleftrightarrow> list_all2 (\<lambda>x y. f y = f x) xs ys"
  by (induction xs arbitrary: ys) (auto simp: Cons_eq_map_conv map_eq_Cons_conv list_all2_Cons1)

lemma filter_columns:
  assumes "map f ys = map f xs" and "\<And>x y. f y = f x \<Longrightarrow> Q y = P x"
  shows "map f (filter Q ys) = map f (filter P xs)"
  using assms(1)
proof (induction xs arbitrary: ys)
  case (Cons x xs)
  then obtain y zs where split: "ys = y # zs" "f y = f x" "map f zs = map f xs" by (cases ys) auto
  have "Q y = P x" by (rule assms(2)) (rule split)
  with Cons.IH [OF split(3)] split show ?case by simp
qed simp

lemma find_columns:
  assumes "map f ys = map f xs" and "\<And>x y. f y = f x \<Longrightarrow> Q y = P x"
  shows "map_option f (List.find Q ys) = map_option f (List.find P xs)"
  using assms(1)
proof (induction xs arbitrary: ys)
  case (Cons x xs)
  then obtain y zs where split: "ys = y # zs" "f y = f x" "map f zs = map f xs" by (cases ys) auto
  have "Q y = P x" by (rule assms(2)) (rule split)
  with Cons.IH [OF split(3)] split show ?case by simp
qed simp

lemma insort_columns:
  assumes "map f ys = map f xs" and "f b = f a" and "\<And>x y. f y = f x \<Longrightarrow> k y = k x"
  shows "map f (insort_key k b ys) = map f (insort_key k a xs)"
  using assms(1)
proof (induction xs arbitrary: ys)
  case Nil
  with assms(2) show ?case by simp
next
  case (Cons x xs)
  then obtain y zs where split: "ys = y # zs" "f y = f x" "map f zs = map f xs" by (cases ys) auto
  have "k b = k a" "k y = k x" by (rule assms(3), rule assms(2)) (rule assms(3), rule split)
  with Cons.IH [OF split(3)] split assms(2) show ?case by simp
qed

lemma sort_columns:
  assumes "map f ys = map f xs" and "\<And>x y. f y = f x \<Longrightarrow> k y = k x"
  shows "map f (sort_key k ys) = map f (sort_key k xs)"
  using assms(1)
proof (induction xs arbitrary: ys)
  case (Cons x xs)
  then obtain y zs where split: "ys = y # zs" "f y = f x" "map f zs = map f xs" by (cases ys) auto
  have "map f (insort_key k y (sort_key k zs)) = map f (insort_key k x (sort_key k xs))"
    by (rule insort_columns [OF Cons.IH [OF split(3)] split(2) assms(2)])
  with split(1) show ?case by simp
qed simp

lemma option_columns:
  "map_option f y = map_option f x \<longleftrightarrow> (x = None \<and> y = None) \<or> (\<exists>a b. x = Some a \<and> y = Some b \<and> f b = f a)"
  by (cases x; cases y) auto

lemma option_columnsE:
  assumes "map_option f y = map_option f x"
  obtains (none) "x = None" "y = None" | (both) a b where "x = Some a" "y = Some b" "f b = f a"
  using assms by (cases x; cases y) auto

section \<open>The identifying columns\<close>

definition survey_columns :: "survey \<Rightarrow> pk \<times> pk option \<times> nat option \<times> string \<times> json" where
  "survey_columns s = (sv_id s, sv_integration s, sv_source_id s, sv_source_key s, sv_raw_data s)"

definition journey_columns :: "survey_attempt \<Rightarrow> pk \<times> string \<times> string \<times> string option \<times> timestamp \<times> pk" where
  "journey_columns a =
     (at_id a, at_rid a, at_provider_profile_uid a, at_prescreener_uid a, at_initiated_at a, at_survey a)"

definition same_link_data :: "db \<Rightarrow> db \<Rightarrow> bool" where
  "same_link_data d d' \<longleftrightarrow>
     map survey_columns (surveys d') = map survey_columns (surveys d)
     \<and> map journey_columns (attempts d') = map journey_columns (attempts d)
     \<and> integrations d' = integrations d"

lemma same_link_data_refl [simp]: "same_link_data d d"
  by (simp add: same_link_data_def)

lemma same_link_data_trans: "same_link_data d d' \<Longrightarrow> same_link_data d' d'' \<Longrightarrow> same_link_data d d''"
  by (simp add: same_link_data_def)

lemma survey_columnsD:
  "survey_columns t = survey_columns s \<Longrightarrow> sv_id t = sv_id s \<and> sv_integration t = sv_integration s
     \<and> sv_source_id t = sv_source_id s \<and> sv_source_key t = sv_source_key s \<and> sv_raw_data t = sv_raw_data s"
  by (simp add: survey_columns_def)

lemma journey_columnsD:
  "journey_columns b = journey_columns a \<Longrightarrow> at_id b = at_id a \<and> at_rid b = at_rid a
     \<and> at_provider_profile_uid b = at_provider_profile_uid a \<and> at_prescreener_uid b = at_prescreener_uid a
     \<and> at_initiated_at b = at_initiated_at a \<and> at_survey b = at_survey a"
  by (simp add: journey_columns_def)

locale link_data_kept =
  fixes d d' :: db
  assumes same: "same_link_data d d'"
begin

lemma integrations_kept: "integrations d' = integrations d"
  using same by (simp add: same_link_data_def)

lemma survey_kept: "map_option survey_columns (get_survey d' i) = map_option survey_columns (get_survey d i)"
  unfolding get_survey_def row_by_pk_def
  by (rule find_columns) (use same in \<open>auto simp: same_link_data_def dest: survey_columnsD\<close>)

lemma toluna_kept: "survey_columns t = survey_columns s \<Longrightarrow> is_toluna_survey d' t = is_toluna_survey d s"
  by (simp add: is_toluna_survey_def get_integration_def [abs_def] integrations_kept survey_columns_def)

lemma identity_kept: "survey_columns t = survey_columns s \<Longrightarrow> survey_identity_q i w t = survey_identity_q i w s"
  by (simp add: survey_identity_q_def survey_columns_def split: option.split)

lemma toluna_surveys_kept:
  "map survey_columns (toluna_surveys d' i w) = map survey_columns (toluna_surveys d i w)"
proof (cases i)
  case None
  then show ?thesis by (simp add: toluna_surveys_def)
next
  case (Some j)
  have "map survey_columns (filter (\<lambda>s. is_toluna_survey d' s \<and> survey_identity_q j w s) (surveys d')) =
      map survey_columns (filter (\<lambda>s. is_toluna_survey d s \<and> survey_identity_q j w s) (surveys d))"
  proof (rule filter_columns)
    show "map survey_columns (surveys d') = map survey_columns (surveys d)"
      using same by (simp add: same_link_data_def)
    show "(is_toluna_survey d' t \<and> survey_identity_q j w t) = (is_toluna_survey d s \<and> survey_identity_q j w s)"
      if "survey_columns t = survey_columns s" for s t
      using toluna_kept [OF that] identity_kept [OF that] by simp
  qed
  with Some show ?thesis by (simp add: toluna_surveys_def)
qed

lemma toluna_attempts_kept:
  "map journey_columns (toluna_attempts d' i w) = map journey_columns (toluna_attempts d i w)"
  unfolding toluna_attempts_def
proof (rule filter_columns)
  show "map journey_columns (attempts d') = map journey_columns (attempts d)"
    using same by (simp add: same_link_data_def)
  fix a b
  assume "journey_columns b = journey_columns a"
  then have "map_option survey_columns (get_survey d' (at_survey b)) = map_option survey_columns (get_survey d (at_survey a))"
    using survey_kept by (simp add: journey_columns_def)
  then show "(case get_survey d' (at_survey b) of None \<Rightarrow> False
       | Some s \<Rightarrow> is_toluna_survey d' s \<and> (case i of None \<Rightarrow> True | Some i \<Rightarrow> survey_identity_q i w s)) =
     (case get_survey d (at_survey a) of None \<Rightarrow> False
       | Some s \<Rightarrow> is_toluna_survey d s \<and> (case i of None \<Rightarrow> True | Some i \<Rightarrow> survey_identity_q i w s))"
    unfolding option_columns
  proof (elim disjE exE conjE)
    fix s t
    assume "get_survey d (at_survey a) = Some s" "get_survey d' (at_survey b) = Some t" "survey_columns t = survey_columns s"
    then show ?thesis by (cases i) (simp_all add: toluna_kept [of t s] identity_kept [of t s])
  qed simp
qed

end

lemmas integrations_same = link_data_kept.integrations_kept [OF link_data_kept.intro]
lemmas survey_same = link_data_kept.survey_kept [OF link_data_kept.intro]
lemmas toluna_same = link_data_kept.toluna_kept [OF link_data_kept.intro]
lemmas toluna_surveys_same = link_data_kept.toluna_surveys_kept [OF link_data_kept.intro]
lemmas toluna_attempts_same = link_data_kept.toluna_attempts_kept [OF link_data_kept.intro]

lemma unambiguous_columns:
  "map survey_columns ys = map survey_columns xs \<Longrightarrow>
   map_option survey_columns (unambiguous_survey ys) = map_option survey_columns (unambiguous_survey xs)"
  by (auto simp: unambiguous_survey_def Cons_eq_map_conv map_eq_Cons_conv split: list.splits)

lemma newest_columns:
  assumes "map journey_columns ys = map journey_columns xs"
  shows "map_option journey_columns (newest_journey u ys) = map_option journey_columns (newest_journey u xs)"
proof -
  have "map journey_columns (sort_key (\<lambda>a. - at_initiated_at a)
          (filter (\<lambda>a. at_provider_profile_uid a = u \<or> at_prescreener_uid a = Some u) ys)) =
        map journey_columns (sort_key (\<lambda>a. - at_initiated_at a)
          (filter (\<lambda>a. at_provider_profile_uid a = u \<or> at_prescreener_uid a = Some u) xs))"
    using assms by (intro sort_columns filter_columns) (simp_all add: journey_columns_def)
  then show ?thesis by (auto simp: newest_journey_def Cons_eq_map_conv map_eq_Cons_conv split: list.splits)
qed

lemma linked_columns:
  assumes "map journey_columns ys = map journey_columns xs"
  shows "map_option journey_columns (linked_attempt rid u ys) = map_option journey_columns (linked_attempt rid u xs)"
proof -
  have "map_option journey_columns (List.find (\<lambda>a. at_rid a = rid) ys) =
        map_option journey_columns (List.find (\<lambda>a. at_rid a = rid) xs)"
    using assms by (rule find_columns) (simp add: journey_columns_def)
  with newest_columns [OF assms, of u] show ?thesis
    by (auto simp: linked_attempt_def option_columns split: option.splits)
qed

section \<open>A second look\<close>

definition link_keys :: "notification_links \<Rightarrow> (pk \<times> pk option \<times> nat option \<times> string \<times> json) option
    \<times> (pk \<times> string \<times> string \<times> string option \<times> timestamp \<times> pk) option \<times> pk option" where
  "link_keys l = (map_option survey_columns (lk_survey l), map_option journey_columns (lk_attempt l), lk_integration l)"

lemma resolve_links_same:
  assumes "same_link_data d d'" and "resolve_links nv d p = Inr links"
  shows "\<exists>links'. resolve_links nv d' p = Inr links' \<and> link_keys links' = link_keys links"
proof -
  obtain rid where rid: "rid_from_additional_data nv p = Inr rid"
    using assms(2) by (cases "rid_from_additional_data nv p") (auto simp: resolve_links_def)
  define own where "own d = unambiguous_survey (toluna_surveys d (survey_id_in p) (wave_id_in p))" for d
  define att where "att d = linked_attempt rid (text_value (pick p [''UniqueCode'']))
      (toluna_attempts d (survey_id_in p) (wave_id_in p))" for d
  define sur where "sur d = (case att d of Some a \<Rightarrow> get_survey d (at_survey a) | None \<Rightarrow> own d)" for d
  have form: "resolve_links nv d p = Inr \<lparr>lk_survey = sur d, lk_attempt = att d,
      lk_integration = Option.bind (sur d) sv_integration\<rparr>" for d
    by (simp only: resolve_links_def rid own_def att_def sur_def Let_def map_sum.simps)
  have own: "map_option survey_columns (own d') = map_option survey_columns (own d)"
    unfolding own_def by (intro unambiguous_columns toluna_surveys_same assms(1))
  have att: "map_option journey_columns (att d') = map_option journey_columns (att d)"
    unfolding att_def by (intro linked_columns toluna_attempts_same assms(1))
  have sur: "map_option survey_columns (sur d') = map_option survey_columns (sur d)"
  proof (cases "att d")
    case None
    with att have "att d' = None" by simp
    with None own show ?thesis by (simp add: sur_def)
  next
    case (Some a)
    with att obtain b where "att d' = Some b" "journey_columns b = journey_columns a" by (auto simp: option_columns)
    with Some survey_same [OF assms(1), of "at_survey a"] show ?thesis by (simp add: sur_def journey_columns_def)
  qed
  then have "Option.bind (sur d') sv_integration = Option.bind (sur d) sv_integration"
    by (auto simp: option_columns dest: survey_columnsD)
  with att sur assms(2) show ?thesis by (simp add: form link_keys_def) (metis notification_links.select_convs)
qed

section \<open>What the operations leave alone\<close>

lemma save_notification_rows [simp]:
  "notifications (save_notification n d) = update_where (\<lambda>m. tn_id m = tn_id n) (\<lambda>_. n) (notifications d)"
  "attempts (save_notification n d) = attempts d" "surveys (save_notification n d) = surveys d"
  "quotas (save_notification n d) = quotas d" "integrations (save_notification n d) = integrations d"
  "reservations (save_notification n d) = reservations d"
  by (simp_all add: save_notification_def)

lemma finalize_frame:
  "finalize_attempt_capacity d i status now = (r, d') \<Longrightarrow>
   notifications d' = notifications d \<and> quotas d' = quotas d \<and> attempts d' = attempts d
   \<and> surveys d' = surveys d \<and> integrations d' = integrations d"
  by (auto simp: finalize_attempt_capacity_def Let_def update_reservations_def split: option.splits if_splits)

lemma finalized_rows [simp]:
  "notifications (snd (finalize_attempt_capacity d i status now)) = notifications d"
  "quotas (snd (finalize_attempt_capacity d i status now)) = quotas d"
  "attempts (snd (finalize_attempt_capacity d i status now)) = attempts d"
  "surveys (snd (finalize_attempt_capacity d i status now)) = surveys d"
  "integrations (snd (finalize_attempt_capacity d i status now)) = integrations d"
  using finalize_frame [of d i status now] by (cases "finalize_attempt_capacity d i status now"; simp)+

lemma save_attempt_rows [simp]:
  "notifications (save_attempt b d) = notifications d" "quotas (save_attempt b d) = quotas d"
  "integrations (save_attempt b d) = integrations d"
  by (simp_all add: save_attempt_def update_attempts_def)

lemma saved_columns:
  assumes "unique_by at_id (attempts d)" and "get_attempt d i = Some a" and "journey_columns b = journey_columns a"
  shows "map journey_columns (attempts (save_attempt b d)) = map journey_columns (attempts d)"
proof -
  have "row = a" if "row \<in> set (attempts d)" "at_id row = at_id b" for row
    using that assms get_attempt_id [OF assms(2)] row_lookup [OF assms(1) that(1)] by (simp add: journey_columns_def)
  with assms(3) show ?thesis by (auto simp: update_where_def)
qed

text \<open>The tables an application may touch: attempts and reservations, the closed survey, one quota.\<close>

definition rows_ok :: "db \<Rightarrow> bool" where
  "rows_ok d \<longleftrightarrow> unique_by at_id (attempts d) \<and> unique_by sq_id (quotas d) \<and> unique_by tn_id (notifications d)"

definition quota_columns :: "survey_quota \<Rightarrow> pk \<times> pk \<times> int option" where
  "quota_columns q = (sq_id q, sq_survey q, sq_quota_id q)"

definition frame :: "db \<Rightarrow> db \<Rightarrow> bool" where
  "frame d d' \<longleftrightarrow> same_link_data d d' \<and> map quota_columns (quotas d') = map quota_columns (quotas d)"

lemma frame_refl [simp]: "frame d d"
  by (simp add: frame_def)

lemma frame_trans: "frame d d' \<Longrightarrow> frame d' d'' \<Longrightarrow> frame d d''"
  by (auto simp: frame_def intro: same_link_data_trans)

lemma frame_links: "frame d d' \<Longrightarrow> same_link_data d d'"
  by (simp add: frame_def)

lemma frame_ids: "frame d d' \<Longrightarrow> map at_id (attempts d') = map at_id (attempts d) \<and> map sq_id (quotas d') = map sq_id (quotas d)"
proof -
  assume "frame d d'"
  then have "map fst (map journey_columns (attempts d')) = map fst (map journey_columns (attempts d))"
    "map fst (map quota_columns (quotas d')) = map fst (map quota_columns (quotas d))"
    by (simp_all add: frame_def same_link_data_def)
  then show ?thesis by (simp add: journey_columns_def quota_columns_def comp_def)
qed

lemma save_notification_frame [simp]: "frame d (save_notification n d)"
  by (simp add: frame_def same_link_data_def)

text \<open>Storing a notification is the first of the operations that keep the link data.\<close>

interpretation stored: link_data_kept d "save_notification n d" for d n
  by unfold_locales (rule frame_links [OF save_notification_frame])

lemma locked_quota_in: "locked_quota d s k = Some q \<Longrightarrow> q \<in> set (quotas d) \<and> sq_survey q = s \<and> sq_quota_id q = k"
  by (auto simp: locked_quota_def split: if_splits list.splits
      dest!: arg_cong [of "sort_key _ _" _ set])

lemma apply_quota_frame:
  assumes "unique_by sq_id (quotas d)" and "apply_quota_event n now d = (applied, message, d')"
  shows "frame d d' \<and> notifications d' = notifications d \<and> attempts d' = attempts d
    \<and> surveys d' = surveys d \<and> integrations d' = integrations d"
proof -
  have "map quota_columns (quotas (save_quota (quota_after l now q) d)) = map quota_columns (quotas d)"
    if "q \<in> set (quotas d)" for l q
  proof -
    have "row = q" if "row \<in> set (quotas d)" "sq_id row = sq_id q" for row
      using that \<open>q \<in> set (quotas d)\<close> assms(1) by (auto simp: unique_by_def distinct_map dest: inj_onD)
    then show ?thesis by (auto simp: save_quota_def update_where_def quota_after_def quota_columns_def)
  qed
  with assms(2) show ?thesis
    by (auto simp: apply_quota_event_def Let_def save_quota_def frame_def same_link_data_def
        split: option.splits if_splits dest: locked_quota_in)
qed

lemma apply_closed_frame:
  assumes "apply_survey_closed n now d = (applied, message, d')"
  shows "frame d d' \<and> notifications d' = notifications d \<and> attempts d' = attempts d \<and> quotas d' = quotas d"
  using assms
  by (auto simp: apply_survey_closed_def close_survey_def frame_def same_link_data_def update_where_def
      survey_columns_def split: option.splits)

lemma notified_columns: "notified_row n st now a = Inr b \<Longrightarrow> journey_columns b = journey_columns a"
  by (auto simp: notified_row_def Let_def journey_columns_def dest!: spread_keeps)

lemma apply_attempt_frame:
  assumes "unique_by at_id (attempts d)" and "apply_attempt_event n now d = Inr (applied, message, d')"
  shows "frame d d' \<and> notifications d' = notifications d \<and> quotas d' = quotas d"
  using assms(2)
proof (cases rule: apply_attempt_event_cases)
  case same
  then show ?thesis by simp
next
  case (written i a status b)
  from saved_columns [OF assms(1) written(2) notified_columns [OF written(4)]] written(7) show ?thesis
    by (simp add: frame_def same_link_data_def)
qed

lemma apply_operational_frame:
  assumes "rows_ok d" and "apply_operational_event n now d = Inr (applied, message, d')"
  shows "frame d d' \<and> notifications d' = notifications d"
  using assms apply_quota_frame [of d n now applied message d'] apply_closed_frame [of n now d applied message d']
    apply_attempt_frame [of d n now applied message d']
  by (auto simp: apply_operational_event_def rows_ok_def split: if_splits)

lemma frame_ok: "frame d d' \<Longrightarrow> map tn_id (notifications d') = map tn_id (notifications d) \<Longrightarrow> rows_ok d \<Longrightarrow> rows_ok d'"
  using frame_ids [of d d'] by (simp add: rows_ok_def unique_by_def)

lemma reconcile_cases:
  assumes "reconcile_notification nv replay i now d = Inr (m, d')" and "rows_ok d"
  obtains (same) "d' = d" "get_notification d i = Some m" "tn_applied m" "\<not> replay"
  | (run) locked links applied message d1 where "get_notification d i = Some locked"
      "\<not> (tn_applied locked \<and> \<not> replay)"
      "resolve_links nv d (json_or (tn_raw_payload locked) (JObj [])) = Inr links"
      "apply_operational_event (relinked d links locked) now d = Inr (applied, message, d1)"
      "m = (relinked d links locked)\<lparr>tn_applied := applied, tn_processing_message := message\<rparr>"
      "d' = save_notification m d1" "frame d d1" "notifications d1 = notifications d" "tn_id m = i"
proof -
  obtain locked where locked: "get_notification d i = Some locked"
    using assms(1) by (cases "get_notification d i") (simp_all add: reconcile_notification_def)
  note out = assms(1) [unfolded reconcile_notification_def locked of_option_simps sum.simps]
  have id: "tn_id locked = i" using row_by_pk_Some [of tn_id i] locked by (auto simp: get_notification_def)
  show thesis
  proof (cases "tn_applied locked \<and> \<not> replay")
    case True
    with out locked same show thesis by simp
  next
    case False
    note out = out [unfolded if_not_P [OF False]]
    obtain links where links: "resolve_links nv d (json_or (tn_raw_payload locked) (JObj [])) = Inr links"
      using out by (cases "resolve_links nv d (json_or (tn_raw_payload locked) (JObj []))") simp_all
    have "map_sum id (\<lambda>(applied, message, d').
            let m = (relinked d links locked)\<lparr>tn_applied := applied, tn_processing_message := message\<rparr>
            in (m, save_notification m d')) (apply_operational_event (relinked d links locked) now d) = Inr (m, d')"
      using out by (simp only: links sum.simps Let_def)
    from spread_keeps [OF this] obtain applied message d1 where
      ap: "apply_operational_event (relinked d links locked) now d = Inr (applied, message, d1)"
      and m: "m = (relinked d links locked)\<lparr>tn_applied := applied, tn_processing_message := message\<rparr>"
      and d': "d' = save_notification m d1" by (auto simp: Let_def)
    have "tn_id m = i" using m id by (simp add: relinked_def Let_def)
    with run [OF locked False links ap m d'] apply_operational_frame [OF assms(2) ap] show thesis by simp
  qed
qed

lemma reconcile_frame:
  assumes "reconcile_notification nv replay i now d = Inr (m, d')" and "rows_ok d"
  shows "frame d d' \<and> map tn_id (notifications d') = map tn_id (notifications d) \<and> rows_ok d'
    \<and> (\<forall>x. x \<in> set (notifications d') \<longrightarrow> x \<in> set (notifications d) \<or> x = m)"
  using assms
proof (cases rule: reconcile_cases)
  case same
  then show ?thesis using assms(2) by simp
next
  case (run locked links applied message d1)
  have fr: "frame d d'" using run(6,7) frame_trans [OF run(7) save_notification_frame] by simp
  have ids: "map tn_id (notifications d') = map tn_id (notifications d)"
    using run(6,8) by (simp add: update_where_def)
  from frame_ok [OF fr ids assms(2)] fr ids run(6,8) show ?thesis by (auto simp: set_update_where)
qed

end
