(* ===== verification/Notification_History.thy ===== *)
theory Notification_History
  imports Notification_Links
begin

text \<open>
  Histories of deliveries and reconciliations, and the invariant by which the newest applied update of
  a quota decides its state, in whatever order the updates arrive and however often they are retried.
\<close>

section \<open>Steps\<close>

inductive notification_step :: "notification_services \<Rightarrow> db \<Rightarrow> db \<Rightarrow> bool" for nv where
  delivery: "ingest_toluna_notification nv event p now d = (d', res) \<Longrightarrow> notification_step nv d d'"
| retry: "reconcile_notification nv replay i now d = Inr (m, d') \<Longrightarrow> notification_step nv d d'"

inductive notification_steps :: "notification_services \<Rightarrow> db \<Rightarrow> db \<Rightarrow> bool" for nv where
  none: "notification_steps nv d d"
| more: "notification_steps nv d d' \<Longrightarrow> notification_step nv d' d'' \<Longrightarrow> notification_steps nv d d''"

lemma notification_steps_trans:
  "notification_steps nv d' d'' \<Longrightarrow> notification_steps nv d d' \<Longrightarrow> notification_steps nv d d''"
  by (induction rule: notification_steps.induct) (auto intro: notification_steps.more)

text \<open>The batches are histories.\<close>

lemma reconcile_each_steps: "reconcile_each nv replay is now d = (d', res) \<Longrightarrow> notification_steps nv d d'"
proof (induction nv replay "is" now d rule: reconcile_each.induct)
  case (1 nv replay now d)
  then show ?case by (simp add: notification_steps.none)
next
  case (2 nv replay i "is" now d)
  show ?case
  proof (cases "reconcile_notification nv replay i now d")
    case (Inl e)
    with 2 show ?thesis by (simp add: notification_steps.none)
  next
    case (Inr x)
    obtain m d1 where x: "x = (m, d1)" by (cases x)
    with 2 Inr have "notification_steps nv d1 d'" by simp
    moreover have "notification_steps nv d d1"
      using Inr x by (auto intro: notification_steps.intros notification_step.retry)
    ultimately show ?thesis by (rule notification_steps_trans)
  qed
qed

lemma reconcile_chunks_steps:
  "reconcile_chunks nv types since cs left reconciled now d = (d', res) \<Longrightarrow> notification_steps nv d d'"
proof (induction nv types since cs left reconciled now d rule: reconcile_chunks.induct)
  case (1 nv types since left reconciled now d)
  then show ?case by (simp add: notification_steps.none)
next
  case (2 nv types since c cs left reconciled now d)
  show ?case
  proof (cases "left = 0")
    case True
    with 2 show ?thesis by (simp add: notification_steps.none)
  next
    case False
    define ids where "ids = operational_notification_ids d (operational_rows d c) types since left"
    obtain d1 r where each: "reconcile_each nv True ids now d = (d1, r)"
      by (cases "reconcile_each nv True ids now d")
    from reconcile_each_steps [OF each] have first: "notification_steps nv d d1" .
    show ?thesis
    proof (cases r)
      case (Inl e)
      with 2(2) False each [unfolded ids_def] have "d' = d1" by (simp add: Let_def)
      with first show ?thesis by simp
    next
      case (Inr u)
      have next_run: "reconcile_chunks nv types since cs (left - length ids) (reconciled + length ids) now d1 = (d', res)"
        using 2(2) False each [unfolded ids_def] Inr by (simp add: ids_def Let_def)
      show ?thesis
        by (rule notification_steps_trans [OF 2(1) [OF False ids_def each [symmetric] Inr next_run] first])
    qed
  qed
qed

lemma reconcile_all_steps:
  "reconcile_toluna_operational_notifications nv s replay since now d = (d', res) \<Longrightarrow> notification_steps nv d d'"
  "reconcile_toluna_operational_notifications_for_surveys nv ss types since now d = (d', res) \<Longrightarrow>
   notification_steps nv d d'"
  by (auto simp: reconcile_toluna_operational_notifications_def Let_def notification_steps.none
        reconcile_toluna_operational_notifications_for_surveys_def
      split: if_splits prod.splits option.splits dest: reconcile_each_steps reconcile_chunks_steps)

section \<open>The quota a notification selects\<close>

lemma relinked_fields [simp]:
  "tn_id (relinked d links n) = tn_id n" "tn_event_type (relinked d links n) = tn_event_type n"
  "tn_quota_id (relinked d links n) = tn_quota_id n" "tn_occurred_at (relinked d links n) = tn_occurred_at n"
  "tn_received_at (relinked d links n) = tn_received_at n" "tn_is_live (relinked d links n) = tn_is_live n"
  "tn_raw_payload (relinked d links n) = tn_raw_payload n" "tn_applied (relinked d links n) = tn_applied n"
  "tn_provider_survey_id (relinked d links n) = tn_provider_survey_id n"
  "tn_wave_id (relinked d links n) = tn_wave_id n" "tn_payload_hash (relinked d links n) = tn_payload_hash n"
  by (simp_all add: relinked_def Let_def)

lemma sort_key_map: "(\<And>r. k (g r) = k r) \<Longrightarrow> sort_key k (map g xs) = map g (sort_key k xs)"
proof -
  assume keep: "\<And>r. k (g r) = k r"
  have "insort_key k (g x) (map g ys) = map g (insort_key k x ys)" for x ys
    by (induction ys) (simp_all add: keep)
  then show ?thesis by (induction xs) simp_all
qed

lemma locked_quota_save:
  assumes "unique_by sq_id (quotas d)" and "q \<in> set (quotas d)" and "quota_columns q' = quota_columns q"
  shows "locked_quota (save_quota q' d) s k =
     map_option (\<lambda>r. if sq_id r = sq_id q' then q' else r) (locked_quota d s k)"
proof -
  let ?g = "\<lambda>r. if sq_id r = sq_id q' then q' else r"
  have col: "quota_columns (?g r) = quota_columns r" if "r \<in> set (quotas d)" for r
    using that assms by (auto simp: quota_columns_def unique_by_def distinct_map dest: inj_onD)
  have "filter (\<lambda>q. sq_survey q = s \<and> sq_quota_id q = k) (map ?g rows) =
        map ?g (filter (\<lambda>q. sq_survey q = s \<and> sq_quota_id q = k) rows)" if "set rows \<subseteq> set (quotas d)" for rows
    using that by (induction rows) (use col in \<open>auto simp: quota_columns_def\<close>)
  then have rows: "filter (\<lambda>q. sq_survey q = s \<and> sq_quota_id q = k) (quotas (save_quota q' d)) =
        map ?g (filter (\<lambda>q. sq_survey q = s \<and> sq_quota_id q = k) (quotas d))"
    by (simp add: save_quota_def update_where_def)
  have toluna: "(case get_survey (save_quota q' d) s of Some s \<Rightarrow> is_toluna_survey (save_quota q' d) s | None \<Rightarrow> False) =
      (case get_survey d s of Some s \<Rightarrow> is_toluna_survey d s | None \<Rightarrow> False)"
    by (simp add: save_quota_def get_survey_def is_toluna_survey_def get_integration_def [abs_def] split: option.split)
  show ?thesis
    unfolding locked_quota_def rows toluna
    by (subst sort_key_map) (auto split: list.splits)
qed

text \<open>Which quota is selected depends on identifying columns alone.\<close>

lemma toluna_key_same:
  assumes "same_link_data d d'"
  shows "(case get_survey d' s of Some s \<Rightarrow> is_toluna_survey d' s | None \<Rightarrow> False) =
    (case get_survey d s of Some s \<Rightarrow> is_toluna_survey d s | None \<Rightarrow> False)"
  using survey_same [OF assms, of s] unfolding option_columns
proof (elim disjE exE conjE)
  fix a b
  assume "get_survey d s = Some a" "get_survey d' s = Some b" "survey_columns b = survey_columns a"
  with toluna_same [OF assms, of b a] show ?thesis by simp
qed simp

lemma locked_columns:
  assumes "frame d d'"
  shows "map_option quota_columns (locked_quota d' s k) = map_option quota_columns (locked_quota d s k)"
proof -
  have "map quota_columns (sort_key sq_id (filter (\<lambda>q. sq_survey q = s \<and> sq_quota_id q = k) (quotas d'))) =
      map quota_columns (sort_key sq_id (filter (\<lambda>q. sq_survey q = s \<and> sq_quota_id q = k) (quotas d)))"
    using assms by (intro sort_columns filter_columns) (simp_all add: frame_def quota_columns_def)
  then show ?thesis
    unfolding locked_quota_def toluna_key_same [OF frame_links [OF assms]]
    by (auto simp: Cons_eq_map_conv map_eq_Cons_conv split: list.splits)
qed

lemma locked_same:
  assumes "frame d d'" and "quotas d' = quotas d"
  shows "locked_quota d' s k = locked_quota d s k"
  unfolding locked_quota_def toluna_key_same [OF frame_links [OF assms(1)]] assms(2) ..

lemma identity_columns: "survey_columns t = survey_columns s \<Longrightarrow> survey_provider_identity t = survey_provider_identity s"
  unfolding survey_provider_identity_def by (drule survey_columnsD) (simp only:)

lemma relinked_same:
  assumes "same_link_data d d'" and "link_keys links' = link_keys links"
  shows "tn_survey (relinked d' links' n) = tn_survey (relinked d links n)"
proof -
  have s: "map_option sv_id (lk_survey links') = map_option sv_id (lk_survey links)"
    using assms(2) by (auto simp: link_keys_def option_columns dest!: survey_columnsD)
  have "map_option survey_columns (get_survey d' i) = map_option survey_columns (get_survey d i)" for i
    by (rule survey_same [OF assms(1)])
  then have k: "(case Option.bind (tn_survey n) (get_survey d') of
        Some s \<Rightarrow> if survey_provider_identity s = (tn_provider_survey_id n, tn_wave_id n) then Some (sv_id s) else None
      | None \<Rightarrow> None) =
      (case Option.bind (tn_survey n) (get_survey d) of
        Some s \<Rightarrow> if survey_provider_identity s = (tn_provider_survey_id n, tn_wave_id n) then Some (sv_id s) else None
      | None \<Rightarrow> None)"
  proof (cases "tn_survey n")
    case (Some i)
    from \<open>map_option survey_columns (get_survey d' i) = map_option survey_columns (get_survey d i)\<close>
    show ?thesis
    proof (cases rule: option_columnsE)
      case none
      then show ?thesis by (simp add: Some)
    next
      case (both a b)
      with identity_columns [of b a] survey_columnsD [of b a] show ?thesis by (simp add: Some)
    qed
  qed simp
  have shape: "tn_survey (relinked d links n) = (case map_option sv_id (lk_survey links) of Some i \<Rightarrow> Some i
      | None \<Rightarrow> (case Option.bind (tn_survey n) (get_survey d) of
        Some s \<Rightarrow> if survey_provider_identity s = (tn_provider_survey_id n, tn_wave_id n) then Some (sv_id s) else None
      | None \<Rightarrow> None))" for d links
    by (auto simp: relinked_def Let_def split: option.splits)
  show ?thesis unfolding shape s k ..
qed

text \<open>Looking again after relinking finds the same survey.\<close>

lemma relinked_again: "tn_survey (relinked d links (relinked d links n)) = tn_survey (relinked d links n)"
proof (cases "lk_survey links")
  case (Some s)
  then show ?thesis by (simp add: relinked_def Let_def)
next
  case None
  have id: "get_survey d i = Some s \<Longrightarrow> sv_id s = i" for i s
    by (simp add: get_survey_def) (drule row_by_pk_Some, simp)
  show ?thesis
  proof (cases "Option.bind (tn_survey n) (get_survey d)")
    case None
    with \<open>lk_survey links = None\<close> show ?thesis by (simp add: relinked_def Let_def)
  next
    case (Some s)
    then obtain i where "tn_survey n = Some i" "get_survey d i = Some s" by (cases "tn_survey n") auto
    with \<open>lk_survey links = None\<close> id [of i s] show ?thesis by (simp add: relinked_def Let_def)
  qed
qed

lemma relinked_survey_cong:
  "tn_survey n' = tn_survey n \<Longrightarrow> tn_provider_survey_id n' = tn_provider_survey_id n \<Longrightarrow> tn_wave_id n' = tn_wave_id n \<Longrightarrow>
   tn_survey (relinked d links n') = tn_survey (relinked d links n)"
  by (simp add: relinked_def Let_def cong: option.case_cong)

section \<open>The newest update decides\<close>

definition same_control :: "toluna_notification \<Rightarrow> toluna_notification \<Rightarrow> bool" where
  "same_control m n \<longleftrightarrow>
     tn_id m = tn_id n \<and> tn_event_type m = tn_event_type n \<and> tn_quota_id m = tn_quota_id n
     \<and> tn_occurred_at m = tn_occurred_at n \<and> tn_received_at m = tn_received_at n
     \<and> tn_is_live m = tn_is_live n \<and> tn_raw_payload m = tn_raw_payload n
     \<and> tn_provider_survey_id m = tn_provider_survey_id n \<and> tn_wave_id m = tn_wave_id n"

lemma supersedes_control: "same_control m m' \<Longrightarrow> same_control n n' \<Longrightarrow> supersedes m n = supersedes m' n'"
  by (simp add: supersedes_def same_control_def)

lemma supersedes_asym: "supersedes m n \<Longrightarrow> \<not> supersedes n m"
  by (auto simp: supersedes_def Let_def split: option.splits)

definition applied_update :: "db \<Rightarrow> toluna_notification \<Rightarrow> bool" where
  "applied_update d n \<longleftrightarrow> n \<in> set (notifications d) \<and> tn_event_type n = QUOTA_STATUS \<and> tn_applied n"

definition governs :: "db \<Rightarrow> toluna_notification \<Rightarrow> bool" where
  "governs d n \<longleftrightarrow> applied_update d n
     \<and> (\<forall>m. applied_update d m \<longrightarrow> same_quota m n \<longrightarrow> tn_id m \<noteq> tn_id n \<longrightarrow> supersedes n m)"

definition shown :: "toluna_notification \<Rightarrow> survey_quota \<Rightarrow> bool" where
  "shown n q \<longleftrightarrow> sq_status q = (if tn_is_live n = Some True then ''Open'' else ''Full'')
     \<and> (tn_is_live n = Some False \<longrightarrow> sq_remaining q = 0) \<and> (tn_is_live n = Some True \<longrightarrow> 0 < sq_remaining q)"

definition settled :: "notification_services \<Rightarrow> db \<Rightarrow> toluna_notification \<Rightarrow> bool" where
  "settled nv d n \<longleftrightarrow>
     (\<exists>links s. resolve_links nv d (json_or (tn_raw_payload n) (JObj [])) = Inr links
        \<and> tn_survey (relinked d links n) = tn_survey n \<and> tn_survey n = Some s
        \<and> locked_quota d s (tn_quota_id n) \<noteq> None)"

definition quotas_follow :: "notification_services \<Rightarrow> db \<Rightarrow> bool" where
  "quotas_follow nv d \<longleftrightarrow> rows_ok d
     \<and> (\<forall>n. applied_update d n \<longrightarrow> settled nv d n)
     \<and> (\<forall>n s q. governs d n \<longrightarrow> tn_survey n = Some s \<longrightarrow> locked_quota d s (tn_quota_id n) = Some q \<longrightarrow> shown n q)"

lemma settled_frame:
  assumes "settled nv d n" and "frame d d'" and "same_control m n" and "tn_survey m = tn_survey n"
  shows "settled nv d' m"
proof -
  obtain links s where l: "resolve_links nv d (json_or (tn_raw_payload n) (JObj [])) = Inr links"
    "tn_survey (relinked d links n) = tn_survey n" "tn_survey n = Some s" "locked_quota d s (tn_quota_id n) \<noteq> None"
    using assms(1) by (auto simp: settled_def)
  obtain links' where l': "resolve_links nv d' (json_or (tn_raw_payload n) (JObj [])) = Inr links'"
    "link_keys links' = link_keys links"
    using resolve_links_same [OF frame_links [OF assms(2)] l(1)] by blast
  have c: "tn_raw_payload m = tn_raw_payload n" "tn_provider_survey_id m = tn_provider_survey_id n"
    "tn_wave_id m = tn_wave_id n" "tn_quota_id m = tn_quota_id n"
    using assms(3) by (simp_all add: same_control_def)
  have "tn_survey (relinked d' links' m) = tn_survey (relinked d' links' n)"
    using c assms(4) by (intro relinked_survey_cong) simp_all
  also have "\<dots> = tn_survey n"
    using relinked_same [OF frame_links [OF assms(2)] l'(2)] l(2) by simp
  finally have "tn_survey (relinked d' links' m) = tn_survey m" using assms(4) by simp
  moreover have "locked_quota d' s (tn_quota_id m) \<noteq> None"
    using locked_columns [OF assms(2), of s "tn_quota_id n"] l(4) c(4) by (auto simp: option_columns)
  ultimately show ?thesis using l l'(1) c(1) assms(4) by (auto simp: settled_def)
qed

text \<open>One row replaced, at the same control data; a row that was applied keeps its survey.\<close>

lemma governs_before:
  assumes rows: "notifications d' = update_where (\<lambda>r. tn_id r = tn_id m) (\<lambda>_. m) (notifications d)"
    and ids: "unique_by tn_id (notifications d)" and old: "old \<in> set (notifications d)" "same_control m old"
    and kept: "tn_event_type old = QUOTA_STATUS \<Longrightarrow> tn_applied old \<Longrightarrow> tn_applied m \<and> tn_survey m = tn_survey old"
    and g: "governs d' x" and other: "x \<noteq> m"
  shows "governs d x"
proof -
  have x: "x \<in> set (notifications d)" "tn_id x \<noteq> tn_id m" "tn_event_type x = QUOTA_STATUS" "tn_applied x"
    using g other by (auto simp: governs_def applied_update_def rows set_update_where)
  have m: "m \<in> set (notifications d')"
    using old by (auto simp: rows set_update_where same_control_def)
  show ?thesis
    unfolding governs_def
  proof (intro conjI allI impI)
    show "applied_update d x" using x by (simp add: applied_update_def)
    fix y
    assume y: "applied_update d y" "same_quota y x" "tn_id y \<noteq> tn_id x"
    show "supersedes x y"
    proof (cases "tn_id y = tn_id m")
      case False
      then have "applied_update d' y" using y(1) by (auto simp: applied_update_def rows set_update_where)
      with g y show ?thesis by (simp add: governs_def)
    next
      case True
      then have "y = old" using y(1) old ids
        by (auto simp: applied_update_def same_control_def unique_by_def distinct_map dest: inj_onD)
      with y(1) kept have "tn_applied m" "tn_survey m = tn_survey y" "tn_event_type m = QUOTA_STATUS"
        using old(2) by (simp_all add: applied_update_def same_control_def)
      with m y \<open>y = old\<close> old(2) x(2) g have "supersedes x m"
        by (auto simp: governs_def applied_update_def same_quota_def same_control_def)
      with supersedes_control [of x x m old] old(2) \<open>y = old\<close> show ?thesis by (simp add: same_control_def)
    qed
  qed
qed

lemma shown_control: "same_control m n \<Longrightarrow> shown m q = shown n q"
  by (simp add: shown_def same_control_def)

lemma updated_applied:
  assumes "notifications d' = update_where (\<lambda>r. tn_id r = tn_id m) (\<lambda>_. m) (notifications d)"
    and "applied_update d' x"
  shows "x = m \<or> applied_update d x"
  using assms by (auto simp: applied_update_def set_update_where)

lemma replaced_rows_ok:
  assumes "rows_ok d" and "frame d d'"
    and "notifications d' = update_where (\<lambda>r. tn_id r = tn_id m) (\<lambda>_. m) (notifications d)"
  shows "rows_ok d'"
  using frame_ok [OF assms(2) _ assms(1)] assms(3) by (simp add: update_where_def)

lemma replaced_settled:
  assumes q: "quotas_follow nv d" and fr: "frame d d'"
    and rows: "notifications d' = update_where (\<lambda>r. tn_id r = tn_id m) (\<lambda>_. m) (notifications d)"
    and m: "applied_update d' m \<Longrightarrow> settled nv d' m"
  shows "\<forall>n. applied_update d' n \<longrightarrow> settled nv d' n"
proof (intro allI impI)
  fix n
  assume n: "applied_update d' n"
  show "settled nv d' n"
  proof (cases "n = m")
    case True
    with m n show ?thesis by simp
  next
    case False
    with updated_applied [OF rows n] q have "settled nv d n" by (simp add: quotas_follow_def)
    then show ?thesis using fr by (rule settled_frame) (simp_all add: same_control_def)
  qed
qed

lemma replaced_follow:
  assumes q: "quotas_follow nv d" and fr: "frame d d'" and quotas: "quotas d' = quotas d"
    and rows: "notifications d' = update_where (\<lambda>r. tn_id r = tn_id m) (\<lambda>_. m) (notifications d)"
    and old: "old \<in> set (notifications d)" "same_control m old"
    and kept: "tn_event_type old = QUOTA_STATUS \<Longrightarrow> tn_applied old \<Longrightarrow> tn_applied m \<and> tn_survey m = tn_survey old"
    and m: "applied_update d' m \<Longrightarrow> settled nv d' m"
    and g: "governs d' m \<Longrightarrow> governs d old \<and> tn_survey m = tn_survey old"
  shows "quotas_follow nv d'"
  unfolding quotas_follow_def
proof (intro conjI allI impI)
  have ids: "unique_by tn_id (notifications d)" using q by (simp add: quotas_follow_def rows_ok_def)
  show "rows_ok d'" by (rule replaced_rows_ok [OF _ fr rows]) (use q in \<open>simp add: quotas_follow_def\<close>)
  show "settled nv d' n" if "applied_update d' n" for n
    using replaced_settled [OF q fr rows m] that by blast
  fix n s k
  assume n: "governs d' n" "tn_survey n = Some s" "locked_quota d' s (tn_quota_id n) = Some k"
  have lk: "locked_quota d s (tn_quota_id n) = Some k" using n(3) locked_same [OF fr quotas] by simp
  show "shown n k"
  proof (cases "n = m")
    case True
    with g n(1) have "governs d old" "tn_survey old = Some s" using n(2) by simp_all
    moreover have "tn_quota_id old = tn_quota_id n" using True old(2) by (simp add: same_control_def)
    ultimately have "shown old k" using q lk by (simp add: quotas_follow_def)
    with True shown_control [OF old(2)] show ?thesis by simp
  next
    case False
    from governs_before [OF rows ids old kept n(1) False] q n(2) lk show ?thesis by (simp add: quotas_follow_def)
  qed
qed

lemma governs_last:
  assumes "governs d n" and "applied_update d m" and "same_quota m n" and "tn_id m \<noteq> tn_id n"
  shows "supersedes n m"
  using assms by (simp add: governs_def)

text \<open>The state written is that of the row which now governs the quota.\<close>

lemma mutated_follow:
  assumes q: "quotas_follow nv d"
    and rows: "notifications d' = update_where (\<lambda>r. tn_id r = tn_id m) (\<lambda>_. m) (notifications d)"
    and d': "quotas d' = quotas (save_quota (quota_after (tn_is_live m) now k) d)"
    and fr: "frame d d'"
    and old: "old \<in> set (notifications d)" "same_control m old" "tn_event_type m = QUOTA_STATUS"
    and kept: "tn_applied old \<Longrightarrow> tn_survey m = tn_survey old"
    and m: "tn_applied m" "tn_survey m = Some i" "locked_quota d i (tn_quota_id m) = Some k" "settled nv d' m"
    and newest: "\<And>y. applied_update d y \<Longrightarrow> same_quota y m \<Longrightarrow> tn_id y \<noteq> tn_id m \<Longrightarrow> \<not> supersedes y m"
  shows "quotas_follow nv d'"
  unfolding quotas_follow_def
proof (intro conjI allI impI)
  have ids: "unique_by tn_id (notifications d)" and qids: "unique_by sq_id (quotas d)"
    using q by (simp_all add: quotas_follow_def rows_ok_def)
  show "rows_ok d'" by (rule replaced_rows_ok [OF _ fr rows]) (use q in \<open>simp add: quotas_follow_def\<close>)
  show "settled nv d' n" if "applied_update d' n" for n
    using replaced_settled [OF q fr rows] m(4) that by blast
  let ?k = "quota_after (tn_is_live m) now k"
  have k: "k \<in> set (quotas d)" "sq_survey k = i" "sq_quota_id k = tn_quota_id m"
    using locked_quota_in [OF m(3)] by simp_all
  have cols: "quota_columns ?k = quota_columns k" by (simp add: quota_after_def quota_columns_def)
  have lk: "locked_quota d' s c = map_option (\<lambda>r. if sq_id r = sq_id ?k then ?k else r) (locked_quota d s c)" for s c
  proof -
    have "locked_quota d' s c = locked_quota (save_quota ?k d) s c"
      unfolding locked_quota_def toluna_key_same [OF frame_links [OF fr]] d'
      by (simp add: save_quota_def get_survey_def is_toluna_survey_def get_integration_def [abs_def] split: option.split)
    with locked_quota_save [OF qids k(1) cols] show ?thesis by simp
  qed
  have in_d': "applied_update d' m"
    using old m(1) by (auto simp: applied_update_def rows set_update_where same_control_def)
  fix n s r
  assume n: "governs d' n" "tn_survey n = Some s" "locked_quota d' s (tn_quota_id n) = Some r"
  obtain r0 where r0: "locked_quota d s (tn_quota_id n) = Some r0" "r = (if sq_id r0 = sq_id ?k then ?k else r0)"
    using n(3) lk [of s "tn_quota_id n"] by auto
  show "shown n r"
  proof (cases "n = m")
    case True
    with r0 m n(2) have "r = ?k" by (simp add: quota_after_def)
    then show ?thesis by (simp add: True shown_def quota_after_def)
  next
    case False
    have before: "governs d n"
      by (rule governs_before [OF rows ids old(1,2) _ n(1) False]) (simp add: m(1) kept)
    then have n_in: "applied_update d n" "shown n r0"
      using q n(2) r0(1) by (simp_all add: governs_def quotas_follow_def)
    have id: "tn_id n \<noteq> tn_id m"
      using n(1) False by (auto simp: governs_def applied_update_def rows set_update_where)
    have "sq_id r0 \<noteq> sq_id k"
    proof
      assume "sq_id r0 = sq_id k"
      with locked_quota_in [OF r0(1)] k(1) qids have "r0 = k" by (auto simp: unique_by_def distinct_map dest: inj_onD)
      with locked_quota_in [OF r0(1)] k have "s = i" "tn_quota_id n = tn_quota_id m" by simp_all
      then have same: "same_quota m n" "same_quota n m"
        using n_in(1) n(2) m(2) old(3) by (simp_all add: same_quota_def applied_update_def)
      from governs_last [OF n(1) in_d' same(1)] newest [OF n_in(1) same(2) id] id show False by simp
    qed
    with r0(2) n_in(2) show ?thesis by (simp add: quota_after_def)
  qed
qed

lemma apply_quota_cases:
  assumes "apply_quota_event n now d = (applied, message, d')"
  obtains (pending) "d' = d" "\<not> applied" "\<And>s. tn_survey n = Some s \<Longrightarrow> locked_quota d s (tn_quota_id n) = None"
  | (older) s k where "d' = d" "applied" "tn_survey n = Some s" "locked_quota d s (tn_quota_id n) = Some k"
      "newer_applied_quota_notification_exists d n"
  | (mutated) s k where "applied" "tn_survey n = Some s" "locked_quota d s (tn_quota_id n) = Some k"
      "\<not> newer_applied_quota_notification_exists d n" "d' = save_quota (quota_after (tn_is_live n) now k) d"
proof (cases "tn_survey n")
  case None
  with assms show thesis by (intro pending) (simp_all add: apply_quota_event_def)
next
  case (Some s)
  show thesis
  proof (cases "locked_quota d s (tn_quota_id n)")
    case None
    with assms Some show thesis by (intro pending) (simp_all add: apply_quota_event_def Let_def)
  next
    case k: (Some k)
    show thesis
    proof (cases "newer_applied_quota_notification_exists d n")
      case True
      with assms Some k show thesis by (intro older [of s k]) (simp_all add: apply_quota_event_def Let_def)
    next
      case False
      with assms Some k show thesis by (intro mutated [of s k]) (simp_all add: apply_quota_event_def Let_def)
    qed
  qed
qed

lemma apply_quota_quotas:
  "apply_operational_event n now d = Inr (applied, message, d1) \<Longrightarrow> tn_event_type n \<noteq> QUOTA_STATUS \<Longrightarrow>
   rows_ok d \<Longrightarrow> quotas d1 = quotas d"
  using apply_closed_frame [of n now d applied message d1] apply_attempt_frame [of d n now applied message d1]
  by (auto simp: apply_operational_event_def rows_ok_def split: if_splits)

lemma reconcile_follow:
  assumes run: "reconcile_notification nv replay i now d = Inr (m, d')" and q: "quotas_follow nv d"
  shows "quotas_follow nv d'"
proof -
  have ok: "rows_ok d" using q by (simp add: quotas_follow_def)
  from run ok show ?thesis
  proof (cases rule: reconcile_cases)
    case same
    with q show ?thesis by simp
  next
    case (run locked links applied message d1)
    let ?n = "relinked d links locked"
    have old: "locked \<in> set (notifications d)" "tn_id locked = i"
      using run(1) by (auto simp: get_notification_def dest: row_by_pk_Some)
    have c: "same_control m locked" "same_control m ?n" "tn_survey m = tn_survey ?n" "tn_applied m = applied"
      using run(5) by (simp_all add: same_control_def)
    have fr: "frame d d'" using frame_trans [OF run(7) save_notification_frame] run(6) by simp
    have rows: "notifications d' = update_where (\<lambda>r. tn_id r = tn_id m) (\<lambda>_. m) (notifications d)"
      using run(6,8) by simp
    show ?thesis
    proof (cases "tn_event_type locked = QUOTA_STATUS")
      case False
      have "quotas d' = quotas d" using apply_quota_quotas [OF run(4) _ ok] False run(6) by simp
      from q fr this rows old(1) c(1) show ?thesis
        by (rule replaced_follow) (use False c(1) in \<open>simp_all add: applied_update_def governs_def same_control_def\<close>)
    next
      case True
      have ap: "apply_quota_event ?n now d = (applied, message, d1)"
        using run(4) True by (simp add: apply_operational_event_def)
      have event: "tn_event_type m = QUOTA_STATUS" using True c(1) by (simp add: same_control_def)
      have before: "tn_survey ?n = tn_survey locked \<and> (\<exists>s. tn_survey ?n = Some s \<and> locked_quota d s (tn_quota_id ?n) \<noteq> None)"
        if "tn_applied locked"
      proof -
        from that True old(1) q have "settled nv d locked" by (simp add: quotas_follow_def applied_update_def)
        with run(3) show ?thesis by (auto simp: settled_def)
      qed
      have settled: "settled nv d' m" if "tn_survey ?n = Some s" "locked_quota d s (tn_quota_id ?n) = Some k" for s k
      proof (rule settled_frame [OF _ fr c(2,3)])
        show "settled nv d ?n"
          using run(3) relinked_again [of d links locked] that by (auto simp: settled_def)
      qed
      from ap show ?thesis
      proof (cases rule: apply_quota_cases)
        case pending
        have unapplied: "\<not> tn_applied locked" using before pending(3) by auto
        from pending(1) run(6) have "quotas d' = quotas d" by simp
        from q fr this rows old(1) c(1) show ?thesis
          by (rule replaced_follow)
            (use pending(2) c(4) unapplied in \<open>simp_all add: applied_update_def governs_def\<close>)
      next
        case (older s k)
        then obtain y where y: "applied_update d y" "same_quota y ?n" "tn_id y \<noteq> tn_id ?n" "supersedes y ?n"
          by (auto simp: newer_applied_quota_notification_exists_def list_ex_iff applied_update_def same_quota_def)
        have "tn_id y \<noteq> tn_id m" using y(3) c(2) by (simp add: same_control_def)
        then have y': "applied_update d' y" "same_quota y m" "supersedes y m"
          using y c(2,3) supersedes_control [of y y m ?n]
          by (auto simp: applied_update_def rows set_update_where same_quota_def same_control_def)
        have "\<not> governs d' m"
          using governs_last [OF _ y'(1,2) \<open>tn_id y \<noteq> tn_id m\<close>] supersedes_asym [OF y'(3)] by blast
        from older(1) run(6) have "quotas d' = quotas d" by simp
        from q fr this rows old(1) c(1) show ?thesis
          by (rule replaced_follow)
            (use \<open>\<not> governs d' m\<close> older(2) before c(3,4) settled [OF older(3,4)] in simp_all)
      next
        case (mutated s k)
        have key: "tn_quota_id ?n = tn_quota_id m" "tn_is_live ?n = tn_is_live m"
          using c(2) by (simp_all add: same_control_def)
        have "quotas d' = quotas (save_quota (quota_after (tn_is_live m) now k) d)"
          using mutated(5) run(6) key(2) by simp
        from q rows this fr old(1) c(1) event show ?thesis
        proof (rule mutated_follow)
          show "tn_survey m = tn_survey locked" if "tn_applied locked" using before [OF that] c(3) by simp
          show "tn_applied m" "tn_survey m = Some s" "locked_quota d s (tn_quota_id m) = Some k"
            using mutated c(3,4) key by simp_all
          show "settled nv d' m" using settled [OF mutated(2,3)] .
          fix y
          assume y: "applied_update d y" "same_quota y m" "tn_id y \<noteq> tn_id m"
          then have "y \<in> set (notifications d)" "tn_applied y" "same_quota y ?n" "tn_id y \<noteq> tn_id ?n"
            using c(2,3) by (auto simp: applied_update_def same_quota_def same_control_def)
          with mutated(4) have "\<not> supersedes y ?n"
            by (auto simp: newer_applied_quota_notification_exists_def list_ex_iff)
          with supersedes_control [of y y m ?n] c(2) show "\<not> supersedes y m" by (simp add: same_control_def)
        qed
      qed
    qed
  qed
qed

definition counted_again :: "toluna_notification \<Rightarrow> timestamp \<Rightarrow> toluna_notification" where
  "counted_again n now = n\<lparr>tn_duplicate_count := tn_duplicate_count n + 1, tn_last_received_at := now\<rparr>"

lemma counted_fields: "tn_applied (counted_again n now) = tn_applied n" "tn_id (counted_again n now) = tn_id n"
  by (simp_all add: counted_again_def)

lemma deliver_again_cases:
  assumes "deliver_again nv n now d = (d', res)"
  obtains (known) "d' = save_notification (counted_again n now) d" "tn_applied n" "res = Inr (counted_again n now, True)"
  | (failed) e where "d' = save_notification (counted_again n now) d" "\<not> tn_applied n" "res = Inl e"
  | (retried) x where "\<not> tn_applied n" "res = Inr (x, True)"
      "reconcile_notification nv False (tn_id n) now (save_notification (counted_again n now) d) = Inr (x, d')"
proof -
  have run: "(if tn_applied n then (save_notification (counted_again n now) d, Inr (counted_again n now, True))
      else (case reconcile_notification nv False (tn_id n) now (save_notification (counted_again n now) d) of
              Inl e \<Rightarrow> (save_notification (counted_again n now) d, Inl e)
            | Inr (m', d2) \<Rightarrow> (d2, Inr (m', True)))) = (d', res)"
    using assms unfolding deliver_again_def Let_def counted_again_def [symmetric] counted_fields .
  show thesis
  proof (cases "tn_applied n")
    case True
    with run show thesis by (intro known) simp_all
  next
    case False
    show thesis
    proof (cases "reconcile_notification nv False (tn_id n) now (save_notification (counted_again n now) d)")
      case (Inl e)
      with run False show thesis by (intro failed [of e]) simp_all
    next
      case (Inr y)
      obtain x d2 where "y = (x, d2)" by (cases y)
      with Inr run False show thesis by (intro retried) simp_all
    qed
  qed
qed

lemma deliver_first_cases:
  assumes "deliver_first nv n now d = (d', res)"
  obtains (failed) e where "d' = d\<lparr>notifications := notifications d @ [n]\<rparr>" "res = Inl e"
  | (run) x where "res = Inr (x, False)"
      "reconcile_notification nv False (tn_id n) now (d\<lparr>notifications := notifications d @ [n]\<rparr>) = Inr (x, d')"
proof (cases "reconcile_notification nv False (tn_id n) now (d\<lparr>notifications := notifications d @ [n]\<rparr>)")
  case (Inl e)
  with assms show thesis by (intro failed [of e]) (simp_all add: deliver_first_def Let_def)
next
  case (Inr y)
  obtain x d2 where "y = (x, d2)" by (cases y)
  with Inr assms show thesis by (intro run) (simp_all add: deliver_first_def Let_def)
qed

lemma counted_follow:
  assumes q: "quotas_follow nv d" and n: "n \<in> set (notifications d)"
    and m: "m = counted_again n now"
  shows "quotas_follow nv (save_notification m d)"
proof (rule replaced_follow [OF q save_notification_frame])
  note m = m [unfolded counted_again_def]
  show "n \<in> set (notifications d)" by (rule n)
  show "same_control m n" using m by (simp add: same_control_def)
  show "tn_applied m \<and> tn_survey m = tn_survey n" if "tn_applied n" using that m by simp
  have "unique_by tn_id (notifications d)" using q by (simp add: quotas_follow_def rows_ok_def)
  show "settled nv (save_notification m d) m" if "applied_update (save_notification m d) m"
  proof (rule settled_frame)
    show "settled nv d n" using q n that m by (simp add: quotas_follow_def applied_update_def)
    show "same_control m n" "tn_survey m = tn_survey n" using m by (simp_all add: same_control_def)
  qed simp
  show "governs d n \<and> tn_survey m = tn_survey n" if g: "governs (save_notification m d) m"
  proof
    show "tn_survey m = tn_survey n" using m by simp
    show "governs d n"
      unfolding governs_def
    proof (intro conjI allI impI)
      show "applied_update d n" using g n m by (simp add: governs_def applied_update_def)
      fix y
      assume y: "applied_update d y" "same_quota y n" "tn_id y \<noteq> tn_id n"
      then have "applied_update (save_notification m d) y" "same_quota y m" "tn_id y \<noteq> tn_id m"
        using m by (auto simp: applied_update_def set_update_where same_quota_def)
      with g have "supersedes m y" by (simp add: governs_def)
      with supersedes_control [of m n y y] m show "supersedes n y" by (simp add: same_control_def)
    qed
  qed
qed (simp_all add: save_notification_def)

lemma added_follow:
  assumes q: "quotas_follow nv d" and n: "\<not> tn_applied n" "tn_id n = next_pk tn_id (notifications d)"
  shows "quotas_follow nv (d\<lparr>notifications := notifications d @ [n]\<rparr>)"
proof -
  let ?d = "d\<lparr>notifications := notifications d @ [n]\<rparr>"
  have fr: "frame d ?d" by (simp add: frame_def same_link_data_def)
  have up: "applied_update ?d x = applied_update d x" for x using n(1) by (auto simp: applied_update_def)
  then have gov: "governs ?d x = governs d x" for x by (simp add: governs_def)
  have "unique_by tn_id (notifications ?d)"
    using q n(2) next_pk_fresh [of tn_id "notifications d"]
    by (simp add: quotas_follow_def rows_ok_def unique_by_def)
  then have "rows_ok ?d" using q by (simp add: quotas_follow_def rows_ok_def)
  moreover have "settled nv ?d x" if "applied_update d x" for x
    using q that by (intro settled_frame [OF _ fr]) (simp_all add: quotas_follow_def same_control_def)
  ultimately show ?thesis
    using q unfolding quotas_follow_def up gov by (simp add: locked_same [OF fr])
qed

lemma ingest_cases:
  assumes "ingest_toluna_notification nv event p now d = (d', res)"
  obtains (refused) e where "d' = d" "res = Inl e"
  | (again) ev links n occurred where "event_type_of_value event = Some ev" "validate_payload ev p = Inr ()"
      "resolve_links nv d p = Inr links" "n \<in> set (notifications d)" "tn_event_type n = ev"
      "(case notification_with_hash d ev (canonical_payload_hash nv ev p (lk_integration links)) of
          Some n \<Rightarrow> Some n | None \<Rightarrow> notification_with_hash d ev (canonical_payload_hash nv ev p None)) = Some n"
      "deliver_again nv n now d = (d', res)" "provider_datetime nv (occurred_value ev p) = Inr occurred"
  | (first) ev links occurred n where "event_type_of_value event = Some ev" "validate_payload ev p = Inr ()"
      "resolve_links nv d p = Inr links" "provider_datetime nv (occurred_value ev p) = Inr occurred"
      "n = new_notification (next_pk tn_id (notifications d)) ev
             (canonical_payload_hash nv ev p (lk_integration links)) p links occurred now"
      "notification_with_hash d ev (canonical_payload_hash nv ev p (lk_integration links)) = None"
      "notification_with_hash d ev (canonical_payload_hash nv ev p None) = None"
      "deliver_first nv n now d = (d', res)"
proof (cases "event_type_of_value event")
  case None
  with assms show thesis by (intro refused) (auto simp: ingest_toluna_notification_def)
next
  case ev: (Some ev)
  show thesis
  proof (cases "validate_payload ev p")
    case (Inl e)
    with assms ev show thesis by (intro refused) (auto simp: ingest_toluna_notification_def)
  next
    case valid: (Inr u)
    show thesis
    proof (cases "resolve_links nv d p")
      case (Inl e)
      with assms ev valid show thesis by (intro refused) (auto simp: ingest_toluna_notification_def)
    next
      case links: (Inr links)
      show thesis
      proof (cases "provider_datetime nv (occurred_value ev p)")
        case (Inl e)
        with assms ev valid links show thesis by (intro refused) (auto simp: ingest_toluna_notification_def Let_def)
      next
        case occurred: (Inr t)
        let ?h = "canonical_payload_hash nv ev p (lk_integration links)"
        let ?a = "canonical_payload_hash nv ev p None"
        note out = assms [unfolded ingest_toluna_notification_def Let_def ev valid links occurred option.simps sum.simps]
        show thesis
        proof (cases "case notification_with_hash d ev ?h of Some n \<Rightarrow> Some n | None \<Rightarrow> notification_with_hash d ev ?a")
          case None
          then have none: "notification_with_hash d ev ?h = None" "notification_with_hash d ev ?a = None"
            by (simp_all split: option.splits)
          from out [unfolded None option.simps] first [OF ev _ links occurred refl none] valid show thesis by simp
        next
          case n: (Some n)
          then have "n \<in> set (notifications d) \<and> tn_event_type n = ev"
            by (auto simp: notification_with_hash_def split: option.splits dest: find_SomeD)
          with out [unfolded n option.simps] again [OF ev _ links _ _ n _ occurred] valid show thesis by simp
        qed
      qed
    qed
  qed
qed

lemma ingest_follow:
  assumes "ingest_toluna_notification nv event p now d = (d', res)" and q: "quotas_follow nv d"
  shows "quotas_follow nv d'"
  using assms(1)
proof (cases rule: ingest_cases)
  case refused
  with q show ?thesis by simp
next
  case (again ev links n occurred)
  have "quotas_follow nv (save_notification (counted_again n now) d)" by (rule counted_follow [OF q again(4) refl])
  with again(7) show ?thesis by (cases rule: deliver_again_cases) (auto dest: reconcile_follow)
next
  case (first ev links occurred n)
  have "quotas_follow nv (d\<lparr>notifications := notifications d @ [n]\<rparr>)"
    by (rule added_follow [OF q]) (simp_all add: first(5) new_notification_def)
  with first(8) show ?thesis by (cases rule: deliver_first_cases) (auto dest: reconcile_follow)
qed

lemma steps_follow: "notification_steps nv d d' \<Longrightarrow> quotas_follow nv d \<Longrightarrow> quotas_follow nv d'"
proof (induction rule: notification_steps.induct)
  case (more d d' d'')
  from more(2) more.IH [OF more.prems] show ?case
    by (cases rule: notification_step.cases) (auto dest: ingest_follow reconcile_follow)
qed simp

lemma no_notifications_follow:
  "notifications d = [] \<Longrightarrow> rows_ok d \<Longrightarrow> quotas_follow nv d"
  by (simp add: quotas_follow_def governs_def applied_update_def)

end
