(* ===== verification/Notification_Samples.thy ===== *)
theory Notification_Samples
  imports Toluna_Notifications Reuse_Samples
begin

text \<open>
  Deliveries of Toluna notifications for the witnesses: survey 11, wave 2 with one open quota and one
  journey under way, in a deployment whose digest is the text itself.
\<close>

definition sample_notify :: notification_services where
  "sample_notify = \<lparr>nv_sha256 = (\<lambda>s. s),
     nv_parse_datetime = (\<lambda>s. if s = ''2026-02-30'' then Inl (ValueError ''day is out of range for month'')
                              else Inr (parse_int s)),
     nv_ip_literal = (\<lambda>_. False)\<rparr>"

definition wave_survey :: survey where
  "wave_survey = reuse_survey\<lparr>sv_source_key := ''11:2'', sv_source_id := None\<rparr>"

definition wave_quota :: survey_quota where
  "wave_quota = \<lparr>sq_id = 4, sq_survey = 7, sq_source_key = ''5'', sq_quota_id = Some 5, sq_title = [],
     sq_name = [], sq_sample_size = 10, sq_remaining = 6, sq_completes = 4, sq_clicks = 0,
     sq_status = ''Open'', sq_targeting = JObj [], sq_raw_data = JObj [], sq_updated_at = 0\<rparr>"

definition wave_db :: "survey_attempt \<Rightarrow> db" where
  "wave_db a = empty_db\<lparr>integrations := [reuse_integration], surveys := [wave_survey],
     quotas := [wave_quota], attempts := [a]\<rparr>"

definition quota_payload :: "bool \<Rightarrow> string \<Rightarrow> json" where
  "quota_payload live at_time = JObj [(''SurveyID'', JInt 11), (''WaveID'', JInt 2), (''QuotaID'', JStr ''5''),
     (''IsLive'', JBool live), (''UpdateDateTimeUTC'', JStr at_time)]"

definition member_payload :: "string \<Rightarrow> json" where
  "member_payload reason = JObj [(''SurveyID'', JInt 11), (''WaveID'', JInt 2), (''UniqueCode'', JStr ''u''),
     (''Reason'', JStr reason), (''AdditionalData'', JStr ''?rid=aB3aB3aB3a''), (''DateTime'', JStr ''50'')]"

section \<open>What a delivery reads\<close>

lemmas reading = survey_id_in_def wave_id_in_def quota_id_in_def pick_def pick_default_def lowered_keys_def
  text_value_def toluna_boolean_def

lemma lower_names_all:
  "py_lower ''UniqueCode'' = ''uniquecode''
   \<and> py_lower ''AdditionalData'' = ''additionaldata''
   \<and> py_lower ''additionalData'' = ''additionaldata''
   \<and> py_lower ''Reason'' = ''reason''
   \<and> py_lower ''RejectionName'' = ''rejectionname''
   \<and> py_lower ''SurveyRef'' = ''surveyref''
   \<and> py_lower ''RejectionId'' = ''rejectionid''
   \<and> py_lower ''RejectionID'' = ''rejectionid''
   \<and> py_lower ''ReconciliationId'' = ''reconciliationid''
   \<and> py_lower ''ReconciliationID'' = ''reconciliationid''
   \<and> py_lower ''Revenue'' = ''revenue''
   \<and> py_lower ''SurveyID'' = ''surveyid''
   \<and> py_lower ''WaveID'' = ''waveid''
   \<and> py_lower ''QuotaID'' = ''quotaid''
   \<and> py_lower ''IsLive'' = ''islive''
   \<and> py_lower ''QuotaId'' = ''quotaid''
   \<and> py_lower ''UpdateDateTimeUTC'' = ''updatedatetimeutc''
   \<and> py_lower ''DateTime'' = ''datetime''"
  by code_simp

lemma lower_names [simp]:
  "py_lower ''UniqueCode'' = ''uniquecode''" "py_lower ''AdditionalData'' = ''additionaldata''"
  "py_lower ''additionalData'' = ''additionaldata''" "py_lower ''Reason'' = ''reason''"
  "py_lower ''RejectionName'' = ''rejectionname''" "py_lower ''SurveyRef'' = ''surveyref''"
  "py_lower ''RejectionId'' = ''rejectionid''" "py_lower ''RejectionID'' = ''rejectionid''"
  "py_lower ''ReconciliationId'' = ''reconciliationid''" "py_lower ''ReconciliationID'' = ''reconciliationid''"
  "py_lower ''Revenue'' = ''revenue''" "py_lower ''SurveyID'' = ''surveyid''" "py_lower ''WaveID'' = ''waveid''"
  "py_lower ''QuotaID'' = ''quotaid''" "py_lower ''IsLive'' = ''islive''" "py_lower ''QuotaId'' = ''quotaid''"
  "py_lower ''UpdateDateTimeUTC'' = ''updatedatetimeutc''" "py_lower ''DateTime'' = ''datetime''"
  using lower_names_all by simp_all

lemma small_numbers_all:
  "parse_int ''5'' = Some 5
   \<and> parse_int ''50'' = Some 50
   \<and> parse_int ''100'' = Some 100
   \<and> parse_int ''200'' = Some 200
   \<and> show_int 11 = ''11''
   \<and> show_int 2 = ''2''
   \<and> py_strip ''50'' = ''50''
   \<and> py_strip ''100'' = ''100''
   \<and> py_strip ''200'' = ''200''
   \<and> py_strip [] = []"
  by code_simp

lemma small_numbers [simp]:
  "parse_int ''5'' = Some 5" "parse_int ''50'' = Some 50" "parse_int ''100'' = Some 100" "parse_int ''200'' = Some 200"
  "show_int 11 = ''11''" "show_int 2 = ''2''"
  "py_strip ''50'' = ''50''" "py_strip ''100'' = ''100''" "py_strip ''200'' = ''200''" "py_strip [] = []"
  using small_numbers_all by simp_all

lemma quota_payload_reads [simp]:
  "survey_id_in (quota_payload live t) = Some 11" "wave_id_in (quota_payload live t) = Some 2"
  "quota_id_in (quota_payload live t) = Some 5" "toluna_boolean (pick (quota_payload live t) [''IsLive'']) = Some live"
  "text_value (pick (quota_payload live t) [''UniqueCode'']) = []"
  "text_value (pick (quota_payload live t) [''Reason'']) = []"
  "pick (quota_payload live t) [''AdditionalData'', ''additionalData''] = JNull"
  "pick (quota_payload live t) [''UpdateDateTimeUTC''] = JStr t" "as_dict (quota_payload live t) \<noteq> None"
  by (simp_all add: reading quota_payload_def toluna_integer_def)

definition wave_inventory :: "db \<Rightarrow> bool" where
  "wave_inventory d \<longleftrightarrow> surveys d = [wave_survey] \<and> integrations d = [reuse_integration]"

lemma wave_survey_fields [simp]:
  "sv_id wave_survey = 7" "sv_integration wave_survey = Some 81" "sv_source_key wave_survey = ''11:2''"
  by (simp_all add: wave_survey_def reuse_survey_def)

lemma wave_lookup [simp]:
  "wave_inventory d \<Longrightarrow> get_survey d 7 = Some wave_survey" "wave_inventory d \<Longrightarrow> is_toluna_survey d wave_survey"
  by (simp_all add: wave_inventory_def get_survey_def is_toluna_survey_def get_integration_def row_by_pk_def
      reuse_integration_def)

lemma wave_surveys [simp]: "wave_inventory d \<Longrightarrow> toluna_surveys d (Some 11) (Some 2) = [wave_survey]"
  by (simp add: toluna_surveys_def survey_identity_q_def) (simp add: wave_inventory_def)

lemma no_rid [simp]: "rid_from_additional_data sample_notify (quota_payload live t) = Inr []"
  by (simp add: rid_from_additional_data_def text_value_def Let_def)

lemma quota_links [simp]:
  "wave_inventory d \<Longrightarrow> resolve_links sample_notify d (quota_payload live t) =
     Inr \<lparr>lk_survey = Some wave_survey, lk_attempt = None, lk_integration = Some 81\<rparr>"
  by (simp add: resolve_links_def linked_attempt_def unambiguous_survey_def Let_def)

lemma wave_locked: "wave_inventory d \<Longrightarrow> quotas d = [q] \<Longrightarrow> sq_survey q = 7 \<Longrightarrow> sq_quota_id q = Some 5 \<Longrightarrow>
   locked_quota d 7 (Some 5) = Some q"
  by (simp add: locked_quota_def)

section \<open>Two updates of a quota, the newer one first\<close>

definition quota_hash :: "bool \<Rightarrow> string \<Rightarrow> string" where
  "quota_hash live t = dumps_sorted (event_identity QUOTA_STATUS (quota_payload live t) (Some 81))"

definition quota_row :: "pk \<Rightarrow> bool \<Rightarrow> string \<Rightarrow> int \<Rightarrow> timestamp \<Rightarrow> toluna_notification" where
  "quota_row i live t occurred now = new_notification i QUOTA_STATUS (quota_hash live t) (quota_payload live t)
     \<lparr>lk_survey = Some wave_survey, lk_attempt = None, lk_integration = Some 81\<rparr> (Some occurred) now"

lemma quota_row_fields [simp]:
  "tn_id (quota_row i live t x now) = i" "tn_event_type (quota_row i live t x now) = QUOTA_STATUS"
  "tn_survey (quota_row i live t x now) = Some 7" "tn_quota_id (quota_row i live t x now) = Some 5"
  "tn_is_live (quota_row i live t x now) = Some live" "tn_occurred_at (quota_row i live t x now) = Some x"
  "tn_received_at (quota_row i live t x now) = now" "tn_applied (quota_row i live t x now) = False"
  "tn_raw_payload (quota_row i live t x now) = quota_payload live t"
  "tn_payload_hash (quota_row i live t x now) = quota_hash live t"
  by (simp_all add: quota_row_def new_notification_def)

definition applied_row :: "toluna_notification \<Rightarrow> string \<Rightarrow> toluna_notification" where
  "applied_row n message = n\<lparr>tn_applied := True, tn_processing_message := message\<rparr>"

lemma applied_row_fields [simp]:
  "tn_id (applied_row n m) = tn_id n" "tn_event_type (applied_row n m) = tn_event_type n"
  "tn_survey (applied_row n m) = tn_survey n" "tn_quota_id (applied_row n m) = tn_quota_id n"
  "tn_is_live (applied_row n m) = tn_is_live n" "tn_occurred_at (applied_row n m) = tn_occurred_at n"
  "tn_received_at (applied_row n m) = tn_received_at n" "tn_applied (applied_row n m)"
  "tn_payload_hash (applied_row n m) = tn_payload_hash n"
  by (simp_all add: applied_row_def)

lemma relinked_quota_row: "relinked d \<lparr>lk_survey = Some wave_survey, lk_attempt = None, lk_integration = Some 81\<rparr>
   (quota_row i live t x now) = quota_row i live t x now"
  by (simp add: relinked_def quota_row_def new_notification_def Let_def)

lemma quota_payload_truthy [simp]: "json_or (quota_payload live t) v = quota_payload live t"
  by (simp add: json_or_def quota_payload_def)

text \<open>A first delivery that finds no newer update writes the quota; one that does leaves it.\<close>

lemma quota_delivery:
  assumes d: "wave_inventory d" "quotas d = [q]" "sq_survey q = 7" "sq_quota_id q = Some 5"
    and new: "\<And>n. n \<in> set (notifications d) \<Longrightarrow> tn_payload_hash n \<noteq> quota_hash live t
        \<and> tn_payload_hash n \<noteq> canonical_payload_hash sample_notify QUOTA_STATUS (quota_payload live t) None"
    and t: "py_strip t = t" "t \<noteq> []" "t \<noteq> ''2026-02-30''" "parse_int t = Some x"
    and id: "i = next_pk tn_id (notifications d)" "i \<notin> tn_id ` set (notifications d)"
  shows "\<exists>message. ingest_toluna_notification sample_notify ''quota_status'' (quota_payload live t) now d =
    ((if newer_applied_quota_notification_exists d (quota_row i live t x now) then d
      else d\<lparr>quotas := [quota_after (Some live) now q]\<rparr>)
       \<lparr>notifications := notifications d @ [applied_row (quota_row i live t x now) message]\<rparr>,
     Inr (applied_row (quota_row i live t x now) message, False))"
proof -
  let ?n = "quota_row i live t x now"
  let ?d = "d\<lparr>notifications := notifications d @ [?n]\<rparr>"
  have event: "event_type_of_value ''quota_status'' = Some QUOTA_STATUS" by code_simp
  have valid: "validate_payload QUOTA_STATUS (quota_payload live t) = Inr ()"
    by (simp add: validate_payload_def MEMBER_EVENTS_def)
  have date: "provider_datetime sample_notify (occurred_value QUOTA_STATUS (quota_payload live t)) = Inr (Some x)"
    using t by (simp add: provider_datetime_def occurred_value_def text_value_def sample_notify_def)
  have hash: "canonical_payload_hash sample_notify QUOTA_STATUS (quota_payload live t) (Some 81) = quota_hash live t"
    by (simp add: canonical_payload_hash_def quota_hash_def sample_notify_def)
  have none: "notification_with_hash d QUOTA_STATUS (quota_hash live t) = None"
    "notification_with_hash d QUOTA_STATUS (canonical_payload_hash sample_notify QUOTA_STATUS (quota_payload live t) None) = None"
    using new by (auto simp: notification_with_hash_def find_None_iff)
  have ingest: "ingest_toluna_notification sample_notify ''quota_status'' (quota_payload live t) now d =
      deliver_first sample_notify ?n now d"
    unfolding ingest_toluna_notification_def event option.simps valid sum.simps quota_links [OF d(1)] Let_def
      notification_links.select_convs hash date none quota_row_def id(1) ..
  have inv: "wave_inventory ?d" using d(1) by (simp add: wave_inventory_def)
  have row: "get_notification ?d i = Some ?n"
    using id(2) by (auto simp: get_notification_def row_by_pk_append row_by_pk_None [symmetric])
  have newer: "newer_applied_quota_notification_exists ?d ?n = newer_applied_quota_notification_exists d ?n"
    by (simp add: newer_applied_quota_notification_exists_def)
  have saved: "update_where (\<lambda>m. tn_id m = i) (\<lambda>_. m) (notifications d @ [?n]) = notifications d @ [m]" for m
    using id(2) by (auto simp: update_where_def intro!: map_idI)
  have quota: "locked_quota ?d 7 (Some 5) = Some q" using wave_locked [OF inv] d(2-4) by simp
  have "\<exists>message. apply_quota_event ?n now ?d = (True, message,
      if newer_applied_quota_notification_exists d ?n then ?d else ?d\<lparr>quotas := [quota_after (Some live) now q]\<rparr>)"
    by (simp add: apply_quota_event_def Let_def quota newer save_quota_def update_where_def d(2))
      (simp add: quota_after_def)
  then obtain message where ap: "apply_quota_event ?n now ?d = (True, message,
      if newer_applied_quota_notification_exists d ?n then ?d else ?d\<lparr>quotas := [quota_after (Some live) now q]\<rparr>)" ..
  have "reconcile_notification sample_notify False i now ?d = Inr (applied_row ?n message,
     (if newer_applied_quota_notification_exists d ?n then d else d\<lparr>quotas := [quota_after (Some live) now q]\<rparr>)
        \<lparr>notifications := notifications d @ [applied_row ?n message]\<rparr>)"
    by (simp add: reconcile_notification_def row quota_links [OF inv] relinked_quota_row apply_operational_event_def
        ap save_notification_def saved applied_row_def [symmetric] Let_def)
  then show ?thesis unfolding ingest by (intro exI [of _ message]) (simp add: deliver_first_def)
qed


text \<open>The older update is delivered, and applied, without touching the quota.\<close>

definition wave_start :: db where
  "wave_start = empty_db\<lparr>integrations := [reuse_integration], surveys := [wave_survey], quotas := [wave_quota]\<rparr>"

lemma quota_hashes: "quota_hash True ''100'' \<noteq> quota_hash False ''200''"
  "quota_hash False ''200'' \<noteq> canonical_payload_hash sample_notify QUOTA_STATUS (quota_payload True ''100'') None"
  by code_simp+

lemma first_delivery:
  "\<exists>m1 d1. ingest_toluna_notification sample_notify ''quota_status'' (quota_payload False ''200'') 300 wave_start
       = (d1, Inr (applied_row (quota_row 1 False ''200'' 200 300) m1, False))
     \<and> d1 = wave_start\<lparr>quotas := [quota_after (Some False) 300 wave_quota],
          notifications := [applied_row (quota_row 1 False ''200'' 200 300) m1]\<rparr>"
proof -
  have start: "wave_inventory wave_start" "quotas wave_start = [wave_quota]" "sq_survey wave_quota = 7"
    "sq_quota_id wave_quota = Some 5" "notifications wave_start = []"
    by (simp_all add: wave_inventory_def wave_start_def empty_db_def wave_quota_def)
  have free: "\<not> newer_applied_quota_notification_exists wave_start n" for n
    by (simp add: newer_applied_quota_notification_exists_def start)
  show ?thesis
    using quota_delivery [OF start(1-4), of False "''200''" 200 1 300] by (auto simp: start free next_pk_def)
qed

lemma two_updates:
  obtains d1 d2 m1 m2 where
    "ingest_toluna_notification sample_notify ''quota_status'' (quota_payload False ''200'') 300 wave_start
       = (d1, Inr (applied_row (quota_row 1 False ''200'' 200 300) m1, False))"
    "ingest_toluna_notification sample_notify ''quota_status'' (quota_payload True ''100'') 400 d1
       = (d2, Inr (applied_row (quota_row 2 True ''100'' 100 400) m2, False))"
    "notifications d2 = [applied_row (quota_row 1 False ''200'' 200 300) m1, applied_row (quota_row 2 True ''100'' 100 400) m2]"
    "quotas d2 = [wave_quota\<lparr>sq_status := ''Full'', sq_remaining := 0, sq_updated_at := 300\<rparr>]"
    "wave_inventory d2" "attempts d2 = []"
proof -
  have start: "wave_inventory wave_start" "quotas wave_start = [wave_quota]" "sq_survey wave_quota = 7"
    "sq_quota_id wave_quota = Some 5" "notifications wave_start = []" "attempts wave_start = []"
    by (simp_all add: wave_inventory_def wave_start_def empty_db_def wave_quota_def)
  obtain m1 d1 where d1: "d1 = wave_start\<lparr>quotas := [quota_after (Some False) 300 wave_quota],
      notifications := [applied_row (quota_row 1 False ''200'' 200 300) m1]\<rparr>"
    and run1: "ingest_toluna_notification sample_notify ''quota_status'' (quota_payload False ''200'') 300 wave_start
       = (d1, Inr (applied_row (quota_row 1 False ''200'' 200 300) m1, False))"
    using first_delivery by blast
  have d1_rows: "wave_inventory d1" "quotas d1 = [quota_after (Some False) 300 wave_quota]"
    "notifications d1 = [applied_row (quota_row 1 False ''200'' 200 300) m1]" "attempts d1 = []"
    using start by (simp_all add: d1 wave_inventory_def)
  have full: "quota_after (Some False) 300 wave_quota = wave_quota\<lparr>sq_status := ''Full'', sq_remaining := 0, sq_updated_at := 300\<rparr>"
    by (simp add: quota_after_def)
  have newer: "newer_applied_quota_notification_exists d1 (quota_row 2 True ''100'' 100 400)"
    by (simp add: newer_applied_quota_notification_exists_def d1_rows same_quota_def supersedes_def Let_def)
  obtain m2 where run2: "ingest_toluna_notification sample_notify ''quota_status'' (quota_payload True ''100'') 400 d1
       = (d1\<lparr>notifications := notifications d1 @ [applied_row (quota_row 2 True ''100'' 100 400) m2]\<rparr>,
          Inr (applied_row (quota_row 2 True ''100'' 100 400) m2, False))"
    using quota_delivery [OF d1_rows(1,2), of True "''100''" 100 2 400] quota_hashes start(3,4)
    by (auto simp: d1_rows(3) newer next_pk_def quota_after_def)
  show thesis
    using run1 run2 by (rule that) (use d1_rows full in \<open>simp_all add: wave_inventory_def\<close>)
qed

end
