(* ===== verification/Toluna_Webhook.thy ===== *)
theory Toluna_Webhook
  imports Toluna_Notifications Web_Requests
begin

text \<open>
  The server-to-server endpoint of Toluna, \<open>surveys/webhook_views.py\<close>: the configured networks, the
  address a request really comes from, the signature of the member events and the answers.  Parsing
  an address or a network, membership, the HMAC and the decoded body are parameters: \<open>ipaddress\<close> and
  \<open>hmac\<close> of the standard library over addresses, and what the JSON parser of the framework returns.
\<close>

record webhook_settings =
  wh_allowlist :: "string list"
  wh_trusted_proxies :: "string list"
  wh_hmac_key :: string
  wh_require_hmac :: bool
  wh_parse_network :: "string \<Rightarrow> string option"
  wh_parse_ip :: "string \<Rightarrow> string option"
  wh_contains :: "string \<Rightarrow> string \<Rightarrow> bool"
  wh_hmac_sha256 :: "string \<Rightarrow> string \<Rightarrow> string"
  wh_notify :: notification_services

record webhook_request =
  wr_meta :: "string \<Rightarrow> string option"
  wr_content_type :: string
  wr_data :: json

section \<open>Where a request comes from\<close>

definition configured_networks :: "webhook_settings \<Rightarrow> string list \<Rightarrow> string list option" where
  "configured_networks wh configured =
     (let normalized = filter (\<lambda>v. v \<noteq> []) (map py_strip configured);
          networks = map (wh_parse_network wh) normalized
      in if None \<in> set networks then None else Some (map the networks))"

definition parsed_ip :: "webhook_settings \<Rightarrow> string \<Rightarrow> string option" where
  "parsed_ip wh value = wh_parse_ip wh (py_strip value)"

definition is_in_networks :: "webhook_settings \<Rightarrow> string option \<Rightarrow> string list \<Rightarrow> bool" where
  "is_in_networks wh address networks =
     (case address of None \<Rightarrow> False | Some a \<Rightarrow> list_ex (\<lambda>n. wh_contains wh n a) networks)"

definition header_text :: "webhook_request \<Rightarrow> string \<Rightarrow> string" where
  "header_text r name = (case wr_meta r name of Some v \<Rightarrow> v | None \<Rightarrow> [])"

definition forwarded_hops :: "webhook_request \<Rightarrow> string list" where
  "forwarded_hops r =
     (let hops = filter (\<lambda>v. v \<noteq> []) (map py_strip (py_split (CHR '','') (header_text r ''HTTP_X_FORWARDED_FOR'')));
          real_ip = py_strip (header_text r ''HTTP_X_REAL_IP'')
      in if hops \<noteq> [] then hops else if real_ip \<noteq> [] then [real_ip] else [])"

text \<open>From the right: trusted hops are skipped, the first other one is the source.\<close>

fun untrusted_hop :: "webhook_settings \<Rightarrow> string list \<Rightarrow> string list \<Rightarrow> string option" where
  "untrusted_hop wh trusted [] = None"
| "untrusted_hop wh trusted (v # vs) =
     (case parsed_ip wh v of
        None \<Rightarrow> None
      | Some a \<Rightarrow> if is_in_networks wh (Some a) trusted then untrusted_hop wh trusted vs else Some a)"

definition notification_source_ip :: "webhook_settings \<Rightarrow> webhook_request \<Rightarrow> string list \<Rightarrow> string option" where
  "notification_source_ip wh r trusted =
     (case parsed_ip wh (header_text r ''REMOTE_ADDR'') of
        None \<Rightarrow> None
      | Some peer \<Rightarrow>
          if \<not> is_in_networks wh (Some peer) trusted then Some peer
          else untrusted_hop wh trusted (rev (forwarded_hops r)))"

section \<open>The signature of a member event\<close>

text \<open>\<open>bytes.fromhex\<close>: pairs of hexadecimal digits, white space between them skipped.\<close>

fun hex_pairs :: "string \<Rightarrow> string option" where
  "hex_pairs [] = Some []"
| "hex_pairs (c # cs) =
     (if is_ascii_space c then hex_pairs cs
      else (case cs of
              [] \<Rightarrow> None
            | c' # cs' \<Rightarrow>
                if hex_value c \<noteq> None \<and> hex_value c' \<noteq> None
                then map_option (\<lambda>t. c # c' # t) (hex_pairs cs') else None))"

definition present :: "json \<Rightarrow> bool" where
  "present v = (v \<noteq> JNull \<and> v \<noteq> JStr [])"

definition valid_member_status_hmac :: "webhook_settings \<Rightarrow> json \<Rightarrow> bool option" where
  "valid_member_status_hmac wh payload =
     (if wh_hmac_key wh = [] then None
      else (let survey_id = pick payload [''SurveyId'', ''SurveyID''];
                wave_id = pick payload [''WaveId'', ''WaveID''];
                member_code = pick payload [''UniqueCode''];
                supplied = py_lower (py_strip (str_or (pick payload [''EncryptedValue'']) [])) in
            if \<not> (present survey_id \<and> present wave_id \<and> present member_code) then Some False
            else (case hex_pairs supplied of
                    None \<Rightarrow> Some False
                  | Some digest \<Rightarrow>
                      if length digest \<noteq> 64 then Some False
                      else Some (digest = wh_hmac_sha256 wh (wh_hmac_key wh)
                                   (py_str survey_id @ py_str wave_id @ py_str member_code)))))"

section \<open>The endpoint\<close>

text \<open>A refusal with its status code, the acknowledgement (duplicate, row and whether it is applied),
  or an exception that leaves the view: an internal error of the server.\<close>

datatype webhook_response = Refused_With nat | Accepted bool pk bool | Server_Error py_error

definition media_type :: "string \<Rightarrow> string" where
  "media_type content_type = py_lower (py_strip (fst (py_partition (CHR '';'') content_type)))"

definition ingest_response ::
  "webhook_settings \<Rightarrow> string \<Rightarrow> json \<Rightarrow> timestamp \<Rightarrow> db \<Rightarrow> db \<times> webhook_response" where
  "ingest_response wh event payload now d =
     (case ingest_toluna_notification (wh_notify wh) event payload now d of
        (d', Inl (TolunaNotificationError _)) \<Rightarrow> (d', Refused_With 400)
      | (d', Inl e) \<Rightarrow> (d', Server_Error e)
      | (d', Inr (n, duplicate)) \<Rightarrow> (d', Accepted duplicate (tn_id n) (tn_applied n)))"

definition toluna_notification_post ::
  "webhook_settings \<Rightarrow> event_type \<Rightarrow> webhook_request \<Rightarrow> timestamp \<Rightarrow> db \<Rightarrow> db \<times> webhook_response" where
  "toluna_notification_post wh ev r now d =
     (case (configured_networks wh (wh_allowlist wh), configured_networks wh (wh_trusted_proxies wh)) of
        (Some allowed, Some trusted) \<Rightarrow>
          if allowed = [] then (d, Refused_With 503)
          else if \<not> is_in_networks wh (notification_source_ip wh r trusted) allowed then (d, Refused_With 403)
          else if media_type (wr_content_type r) \<noteq> ''application/json'' then (d, Refused_With 415)
          else if ev \<in> {MEMBER_COMPLETE, MEMBER_TERMINATE} \<and> wh_require_hmac wh
          then (case valid_member_status_hmac wh (wr_data r) of
                  None \<Rightarrow> (d, Refused_With 503)
                | Some False \<Rightarrow> (d, Refused_With 401)
                | Some True \<Rightarrow> ingest_response wh (event_type_value ev) (wr_data r) now d)
          else ingest_response wh (event_type_value ev) (wr_data r) now d
      | _ \<Rightarrow> (d, Refused_With 503))"

section \<open>What an accepted request shows\<close>

lemma untrusted_hopD:
  assumes "untrusted_hop wh trusted vs = Some a"
  shows "\<exists>skipped v rest. vs = skipped @ v # rest \<and> parsed_ip wh v = Some a \<and> \<not> is_in_networks wh (Some a) trusted
    \<and> (\<forall>u \<in> set skipped. is_in_networks wh (parsed_ip wh u) trusted)"
  using assms
proof (induction vs)
  case (Cons v vs)
  obtain b where b: "parsed_ip wh v = Some b" using Cons.prems by (cases "parsed_ip wh v") simp_all
  show ?case
  proof (cases "is_in_networks wh (Some b) trusted")
    case True
    with Cons b obtain skipped w rest where "vs = skipped @ w # rest" "parsed_ip wh w = Some a"
      "\<not> is_in_networks wh (Some a) trusted" "\<forall>u \<in> set skipped. is_in_networks wh (parsed_ip wh u) trusted"
      by auto
    with True b show ?thesis by (intro exI [of _ "v # skipped"] exI [of _ w] exI [of _ rest]) simp
  next
    case False
    with Cons.prems b show ?thesis by (intro exI [of _ "[]"] exI [of _ v] exI [of _ vs]) simp
  qed
qed simp

lemma post_cases:
  assumes "toluna_notification_post wh ev r now d = (d', resp)"
  obtains (refused) code where "d' = d" "resp = Refused_With code" "code \<noteq> 400"
  | (ingested) allowed trusted where "configured_networks wh (wh_allowlist wh) = Some allowed"
      "configured_networks wh (wh_trusted_proxies wh) = Some trusted"
      "is_in_networks wh (notification_source_ip wh r trusted) allowed"
      "media_type (wr_content_type r) = ''application/json''"
      "ev \<in> {MEMBER_COMPLETE, MEMBER_TERMINATE} \<Longrightarrow> wh_require_hmac wh \<Longrightarrow>
         valid_member_status_hmac wh (wr_data r) = Some True"
      "ingest_response wh (event_type_value ev) (wr_data r) now d = (d', resp)"
proof (cases "configured_networks wh (wh_allowlist wh)")
  case None
  with assms show thesis by (intro refused [of 503]) (simp_all add: toluna_notification_post_def)
next
  case allowed: (Some allowed)
  show thesis
  proof (cases "configured_networks wh (wh_trusted_proxies wh)")
    case None
    with assms allowed show thesis by (intro refused [of 503]) (simp_all add: toluna_notification_post_def)
  next
    case trusted: (Some trusted)
    note out = assms [unfolded toluna_notification_post_def allowed trusted prod.case option.case]
    consider (quiet) code where "(d, Refused_With code) = (d', resp)" "code \<noteq> 400"
      | (pass) "is_in_networks wh (notification_source_ip wh r trusted) allowed"
          "media_type (wr_content_type r) = ''application/json''"
          "ev \<in> {MEMBER_COMPLETE, MEMBER_TERMINATE} \<Longrightarrow> wh_require_hmac wh \<Longrightarrow>
             valid_member_status_hmac wh (wr_data r) = Some True"
          "ingest_response wh (event_type_value ev) (wr_data r) now d = (d', resp)"
      using out by (cases "valid_member_status_hmac wh (wr_data r)") (auto split: if_split_asm bool.split_asm)
    then show thesis
    proof cases
      case quiet
      then show thesis by (intro refused [of code]) simp_all
    next
      case pass
      then show thesis by (rule ingested [OF allowed trusted])
    qed
  qed
qed

end
