(* ===== verification/Notification_Properties.thy ===== *)
theory Notification_Properties
  imports Notification_History Notification_Samples Toluna_Webhook
begin

text \<open>
  What holds of Toluna's notifications: the newest update of a quota decides it, a repeated delivery
  changes nothing but its count, a late termination does not replace a completion, a history of
  notifications is one of the attempts, and what an impossible date does.
\<close>

section \<open>Quotas\<close>

text \<open>Whatever notifications arrive, in whatever order, repeated, retried or replayed by a
  reconciliation: the quota shows the state of the applied update with the newest provider time -- open
  with capacity left, or full with none.\<close>

theorem quota_follows_newest_update:
  assumes "notification_steps nv d d'" and "notifications d = []"
    and "unique_by at_id (attempts d)" and "unique_by sq_id (quotas d)"
    and "n \<in> set (notifications d')" and "tn_event_type n = QUOTA_STATUS" and "tn_applied n"
    and "\<And>m. m \<in> set (notifications d') \<Longrightarrow> tn_applied m \<Longrightarrow> same_quota m n \<Longrightarrow> tn_id m \<noteq> tn_id n \<Longrightarrow> supersedes n m"
  shows "\<exists>s q. tn_survey n = Some s \<and> locked_quota d' s (tn_quota_id n) = Some q
    \<and> sq_status q = (if tn_is_live n = Some True then ''Open'' else ''Full'')
    \<and> (tn_is_live n = Some False \<longrightarrow> sq_remaining q = 0) \<and> (tn_is_live n = Some True \<longrightarrow> 0 < sq_remaining q)"
proof -
  have "rows_ok d" using assms(2-4) by (simp add: rows_ok_def unique_by_def)
  from steps_follow [OF assms(1) no_notifications_follow [OF assms(2) this]]
  have q: "quotas_follow nv d'" .
  have up: "applied_update d' n" using assms(5-7) by (simp add: applied_update_def)
  have g: "governs d' n"
    unfolding governs_def
  proof (intro conjI allI impI)
    show "applied_update d' n" by (rule up)
    show "supersedes n m" if "applied_update d' m" "same_quota m n" "tn_id m \<noteq> tn_id n" for m
      by (rule assms(8)) (use that in \<open>simp_all add: applied_update_def\<close>)
  qed
  from q up obtain s q' where s: "tn_survey n = Some s" "locked_quota d' s (tn_quota_id n) = Some q'"
    by (auto simp: quotas_follow_def settled_def)
  with q g have "shown n q'" by (simp add: quotas_follow_def)
  with s show ?thesis by (simp add: shown_def)
qed

lemma quota_follows_newest_update_witness:
  "\<exists>d2 n. notification_steps sample_notify wave_start d2 \<and> length (notifications d2) = 2
     \<and> n \<in> set (notifications d2) \<and> tn_occurred_at n = Some 200
     \<and> (\<exists>q. locked_quota d2 7 (Some 5) = Some q \<and> sq_status q = ''Full'' \<and> sq_remaining q = 0)"
proof (rule two_updates)
  fix d1 d2 m1 m2
  assume run1: "ingest_toluna_notification sample_notify ''quota_status'' (quota_payload False ''200'') 300 wave_start
       = (d1, Inr (applied_row (quota_row 1 False ''200'' 200 300) m1, False))"
    and run2: "ingest_toluna_notification sample_notify ''quota_status'' (quota_payload True ''100'') 400 d1
       = (d2, Inr (applied_row (quota_row 2 True ''100'' 100 400) m2, False))"
    and rows: "notifications d2 = [applied_row (quota_row 1 False ''200'' 200 300) m1, applied_row (quota_row 2 True ''100'' 100 400) m2]"
  let ?n = "applied_row (quota_row 1 False ''200'' 200 300) m1"
  have steps: "notification_steps sample_notify wave_start d2"
    by (rule notification_steps.more [OF notification_steps.more [OF notification_steps.none
          notification_step.delivery [OF run1]] notification_step.delivery [OF run2]])
  have start: "notifications wave_start = []" "unique_by at_id (attempts wave_start)" "unique_by sq_id (quotas wave_start)"
    by (simp_all add: wave_start_def empty_db_def unique_by_def)
  have n: "?n \<in> set (notifications d2)" "tn_event_type ?n = QUOTA_STATUS" "tn_applied ?n" by (simp_all add: rows)
  have newest: "supersedes ?n m" if "m \<in> set (notifications d2)" "tn_applied m" "same_quota m ?n" "tn_id m \<noteq> tn_id ?n" for m
    using that by (auto simp: rows supersedes_def)
  from quota_follows_newest_update [OF steps start n newest] steps rows n show ?thesis
    by (intro exI [of _ d2] exI [of _ ?n]) simp
qed

section \<open>Repeated deliveries\<close>

lemma find_map_kept:
  "(\<And>r. r \<in> set rows \<Longrightarrow> P (g r) = P r) \<Longrightarrow> List.find P (map g rows) = map_option g (List.find P rows)"
  by (induction rows) auto

lemma with_hash_replaced:
  assumes "notifications d' = update_where (\<lambda>r. tn_id r = tn_id m) (\<lambda>_. m) (notifications d)"
    and "unique_by tn_id (notifications d)" and "old \<in> set (notifications d)" "tn_id m = tn_id old"
    and "tn_event_type m = tn_event_type old" "tn_payload_hash m = tn_payload_hash old"
  shows "notification_with_hash d' ev h =
     map_option (\<lambda>r. if tn_id r = tn_id m then m else r) (notification_with_hash d ev h)"
proof -
  have only: "r = old" if "r \<in> set (notifications d)" "tn_id r = tn_id m" for r
    using that assms(2-4) by (auto simp: unique_by_def distinct_map dest: inj_onD)
  show ?thesis
    unfolding notification_with_hash_def assms(1) update_where_def
    by (rule find_map_kept) (use only assms(5,6) in auto)
qed

lemma reconciled_row:
  assumes "reconcile_notification nv replay i now d = Inr (m, d')" and "rows_ok d"
  obtains old where "old \<in> set (notifications d)" "tn_id old = i" "tn_id m = i"
    "tn_event_type m = tn_event_type old" "tn_payload_hash m = tn_payload_hash old"
    "notifications d' = update_where (\<lambda>r. tn_id r = tn_id m) (\<lambda>_. m) (notifications d)" "frame d d'"
  using assms
proof (cases rule: reconcile_cases)
  case same
  then have m: "m \<in> set (notifications d)" "tn_id m = i"
    using row_by_pk_Some [of tn_id i] by (auto simp: get_notification_def)
  have "r = m" if "r \<in> set (notifications d)" "tn_id r = tn_id m" for r
    using that m assms(2) by (auto simp: rows_ok_def unique_by_def distinct_map dest: inj_onD)
  then have "update_where (\<lambda>r. tn_id r = tn_id m) (\<lambda>_. m) (notifications d) = notifications d"
    unfolding update_where_def by (intro map_idI) auto
  with same m show thesis by (intro that [of m]) simp_all
next
  case (run locked links applied message d1)
  have "locked \<in> set (notifications d) \<and> tn_id locked = i"
    using run(1) by (auto simp: get_notification_def dest: row_by_pk_Some)
  moreover have "frame d d'" using frame_trans [OF run(7) save_notification_frame] run(6) by simp
  ultimately show thesis using run by (intro that [of locked]) simp_all
qed

lemma double_update:
  "tn_id m = tn_id c \<Longrightarrow>
   update_where (\<lambda>r. tn_id r = tn_id m) (\<lambda>_. m) (update_where (\<lambda>r. tn_id r = tn_id c) (\<lambda>_. c) rows) =
   update_where (\<lambda>r. tn_id r = tn_id m) (\<lambda>_. m) rows"
  by (simp add: update_where_def)

text \<open>The row a delivery leaves, and that the same search finds it again.\<close>

lemma delivered_row:
  assumes run: "ingest_toluna_notification nv event p now d = (d1, Inr (m, dup))" and ok: "rows_ok d"
  obtains ev links occurred where "event_type_of_value event = Some ev" "validate_payload ev p = Inr ()"
    "resolve_links nv d p = Inr links" "provider_datetime nv (occurred_value ev p) = Inr occurred" "frame d d1"
    "(case notification_with_hash d1 ev (canonical_payload_hash nv ev p (lk_integration links)) of
        Some n \<Rightarrow> Some n | None \<Rightarrow> notification_with_hash d1 ev (canonical_payload_hash nv ev p None)) = Some m"
  using run
proof (cases rule: ingest_cases)
  case (refused e)
  then show thesis by simp
next
  case (again ev links n occurred)
  let ?c = "counted_again n now"
  have ids: "unique_by tn_id (notifications d)" using ok by (simp add: rows_ok_def)
  have c_ok: "rows_ok (save_notification ?c d)"
    by (rule replaced_rows_ok [OF ok save_notification_frame, where m = ?c]) simp
  have found: "notifications d1 = update_where (\<lambda>r. tn_id r = tn_id m) (\<lambda>_. m) (notifications d)
    \<and> tn_id m = tn_id n \<and> tn_event_type m = tn_event_type n \<and> tn_payload_hash m = tn_payload_hash n \<and> frame d d1"
    if out: "m = ?c \<and> d1 = save_notification ?c d
      \<or> reconcile_notification nv False (tn_id n) now (save_notification ?c d) = Inr (m, d1)"
    using out
  proof (elim disjE conjE)
    assume "m = ?c" "d1 = save_notification ?c d"
    then show ?thesis by (simp add: counted_again_def)
  next
    assume "reconcile_notification nv False (tn_id n) now (save_notification ?c d) = Inr (m, d1)"
    from this c_ok obtain old where old: "old \<in> set (notifications (save_notification ?c d))" "tn_id old = tn_id n"
      "tn_id m = tn_id n" "tn_event_type m = tn_event_type old" "tn_payload_hash m = tn_payload_hash old"
      "notifications d1 = update_where (\<lambda>r. tn_id r = tn_id m) (\<lambda>_. m) (notifications (save_notification ?c d))"
      "frame (save_notification ?c d) d1" by (rule reconciled_row)
    from old(1,2) have "old = ?c" by (auto simp: set_update_where counted_fields)
    with old(4,5) have "tn_event_type m = tn_event_type n" "tn_payload_hash m = tn_payload_hash n"
      by (simp_all add: counted_again_def)
    with old(3,6) double_update [of m ?c "notifications d"] frame_trans [OF save_notification_frame old(7)]
    show ?thesis by (simp add: counted_fields)
  qed
  have out: "m = ?c \<and> d1 = save_notification ?c d
      \<or> reconcile_notification nv False (tn_id n) now (save_notification ?c d) = Inr (m, d1)"
    using again(7) by (cases rule: deliver_again_cases) simp_all
  have f: "notifications d1 = update_where (\<lambda>r. tn_id r = tn_id m) (\<lambda>_. m) (notifications d)" "tn_id m = tn_id n"
    "tn_event_type m = tn_event_type n" "tn_payload_hash m = tn_payload_hash n" "frame d d1"
    using found [OF out] by simp_all
  have "notification_with_hash d1 ev h = map_option (\<lambda>r. if tn_id r = tn_id m then m else r) (notification_with_hash d ev h)" for h
    by (rule with_hash_replaced [OF f(1) ids again(4) f(2,3,4)])
  then show thesis
    using again(6) f(2) by (intro that [OF again(1-3,8) f(5)]) (auto split: option.splits)
next
  case (first ev links occurred n)
  let ?d = "d\<lparr>notifications := notifications d @ [n]\<rparr>"
  have id: "tn_id n = next_pk tn_id (notifications d)" and hash: "tn_event_type n = ev"
      "tn_payload_hash n = canonical_payload_hash nv ev p (lk_integration links)"
    by (simp_all add: first(5) new_notification_def)
  have ids: "unique_by tn_id (notifications ?d)"
    using ok id next_pk_fresh [of tn_id "notifications d"] by (simp add: rows_ok_def unique_by_def)
  then have d_ok: "rows_ok ?d" using ok by (simp add: rows_ok_def)
  from first(8) obtain x where "Inr (m, dup) = (Inr (x, False) :: py_error + toluna_notification \<times> bool)"
    and "reconcile_notification nv False (tn_id n) now ?d = Inr (x, d1)"
    by (cases rule: deliver_first_cases) auto
  then have run: "reconcile_notification nv False (tn_id n) now ?d = Inr (m, d1)" by simp
  from run d_ok obtain old where old: "old \<in> set (notifications ?d)" "tn_id old = tn_id n" "tn_id m = tn_id n"
    "tn_event_type m = tn_event_type old" "tn_payload_hash m = tn_payload_hash old"
    "notifications d1 = update_where (\<lambda>r. tn_id r = tn_id m) (\<lambda>_. m) (notifications ?d)" "frame ?d d1"
    by (rule reconciled_row)
  have "tn_id m = tn_id old" using old(2,3) by simp
  note found = with_hash_replaced [OF old(6) ids old(1) this old(4,5)]
  have "notification_with_hash ?d ev (tn_payload_hash n) = Some n"
    using first(6) hash by (simp add: notification_with_hash_def find_append)
  then have "notification_with_hash d1 ev (tn_payload_hash n) = Some m"
    using found [of ev "tn_payload_hash n"] old(3) by simp
  moreover have "frame d d1"
    using frame_trans [OF _ old(7)] by (simp add: frame_def same_link_data_def)
  ultimately show thesis using hash(2) by (intro that [OF first(1-4)]) simp_all
qed

text \<open>Delivering an applied notification once more only counts it: no attempt, reservation, survey
  or quota changes, and no second audit row is written.\<close>

theorem repeated_delivery_changes_nothing:
  assumes "ingest_toluna_notification nv event p now d = (d1, Inr (n, dup))" and "tn_applied n"
    and "unique_by at_id (attempts d)" and "unique_by sq_id (quotas d)" and "unique_by tn_id (notifications d)"
  shows "\<exists>d2. ingest_toluna_notification nv event p later d1 = (d2, Inr (counted_again n later, True))
    \<and> attempts d2 = attempts d1 \<and> reservations d2 = reservations d1 \<and> surveys d2 = surveys d1
    \<and> quotas d2 = quotas d1 \<and> map tn_id (notifications d2) = map tn_id (notifications d1)"
proof -
  have ok: "rows_ok d" using assms(3-5) by (simp add: rows_ok_def)
  from assms(1) ok obtain ev links occurred where e: "event_type_of_value event = Some ev"
    "validate_payload ev p = Inr ()" "resolve_links nv d p = Inr links"
    "provider_datetime nv (occurred_value ev p) = Inr occurred" "frame d d1"
    "(case notification_with_hash d1 ev (canonical_payload_hash nv ev p (lk_integration links)) of
        Some n \<Rightarrow> Some n | None \<Rightarrow> notification_with_hash d1 ev (canonical_payload_hash nv ev p None)) = Some n"
    by (rule delivered_row)
  obtain links' where l: "resolve_links nv d1 p = Inr links'" "link_keys links' = link_keys links"
    using resolve_links_same [OF frame_links [OF e(5)] e(3)] by blast
  then have i: "lk_integration links' = lk_integration links" by (simp add: link_keys_def)
  have "ingest_toluna_notification nv event p later d1 = deliver_again nv n later d1"
    unfolding ingest_toluna_notification_def e(1,2,4) l(1) Let_def option.simps sum.simps i e(6) ..
  also have "\<dots> = (save_notification (counted_again n later) d1, Inr (counted_again n later, True))"
    using assms(2) unfolding deliver_again_def counted_again_def [symmetric] Let_def by (simp add: counted_fields)
  finally show ?thesis by (simp add: update_where_def)
qed

lemma repeated_delivery_changes_nothing_witness:
  "\<exists>d1 n d2. ingest_toluna_notification sample_notify ''quota_status'' (quota_payload False ''200'') 300 wave_start
       = (d1, Inr (n, False)) \<and> quotas d1 \<noteq> quotas wave_start
     \<and> ingest_toluna_notification sample_notify ''quota_status'' (quota_payload False ''200'') 500 d1
       = (d2, Inr (counted_again n 500, True)) \<and> quotas d2 = quotas d1 \<and> length (notifications d2) = 1"
proof (rule two_updates)
  fix d1 d2 m1 m2
  assume run1: "ingest_toluna_notification sample_notify ''quota_status'' (quota_payload False ''200'') 300 wave_start
       = (d1, Inr (applied_row (quota_row 1 False ''200'' 200 300) m1, False))"
    and run2: "ingest_toluna_notification sample_notify ''quota_status'' (quota_payload True ''100'') 400 d1
       = (d2, Inr (applied_row (quota_row 2 True ''100'' 100 400) m2, False))"
    and rows: "notifications d2 = [applied_row (quota_row 1 False ''200'' 200 300) m1, applied_row (quota_row 2 True ''100'' 100 400) m2]"
    and full: "quotas d2 = [wave_quota\<lparr>sq_status := ''Full'', sq_remaining := 0, sq_updated_at := 300\<rparr>]"
  let ?n = "applied_row (quota_row 1 False ''200'' 200 300) m1"
  have start: "unique_by at_id (attempts wave_start)" "unique_by sq_id (quotas wave_start)"
      "unique_by tn_id (notifications wave_start)"
    by (simp_all add: wave_start_def empty_db_def unique_by_def)
  obtain d3 where again: "ingest_toluna_notification sample_notify ''quota_status'' (quota_payload False ''200'') 500 d1
       = (d3, Inr (counted_again ?n 500, True))" "quotas d3 = quotas d1"
       "map tn_id (notifications d3) = map tn_id (notifications d1)"
    using repeated_delivery_changes_nothing [OF run1 _ start, of 500] by auto
  have after: "quotas d1 = [quota_after (Some False) 300 wave_quota] \<and> notifications d1 = [?n]"
    using first_delivery run1 by auto
  have "quotas d1 \<noteq> quotas wave_start"
    using after by (auto simp: wave_start_def quota_after_def wave_quota_def)
  moreover have "length (notifications d3) = 1"
    using again(3) after by (auto dest: map_eq_imp_length_eq)
  ultimately show ?thesis using run1 again by auto
qed

section \<open>Completions\<close>

lemma written_lookup:
  "get_attempt (snd (finalize_attempt_capacity (save_attempt b d) j status now)) i =
     (if i = at_id b then map_option (\<lambda>_. b) (get_attempt d i) else get_attempt d i)"
  by (simp add: get_attempt_save)

lemma apply_keeps_completed:
  assumes run: "apply_operational_event n now d = Inr (applied, message, d')" and ok: "rows_ok d"
    and a: "get_attempt d i = Some a" "at_status a = COMPLETED"
    and n: "tn_event_type n \<notin> {MEMBER_COMPLETE, RECONCILIATION}"
  shows "get_attempt d' i = Some a"
proof (cases "tn_event_type n \<in> {QUOTA_STATUS, SURVEY_CLOSED}")
  case True
  then have "attempts d' = attempts d"
    using run apply_quota_frame [of d n now applied message d'] apply_closed_frame [of n now d applied message d'] ok
    by (auto simp: apply_operational_event_def rows_ok_def split: if_splits)
  with a(1) show ?thesis by (simp add: get_attempt_def)
next
  case False
  then have "apply_attempt_event n now d = Inr (applied, message, d')"
    using run by (simp add: apply_operational_event_def)
  then show ?thesis
  proof (cases rule: apply_attempt_event_cases)
    case same
    with a(1) show ?thesis by simp
  next
    case (written j c status b)
    have id: "at_id b = j" "at_id c = j"
      using notified_columns [OF written(4)] get_attempt_id [OF written(2)] by (simp_all add: journey_columns_def)
    have "i \<noteq> j"
    proof
      assume "i = j"
      with a written(2) have "at_status c = COMPLETED" by simp
      with written(6) n show False by simp
    qed
    with id a(1) written(7) show ?thesis by (simp add: get_attempt_save)
  qed
qed

lemma reconcile_keeps_completed:
  assumes run: "reconcile_notification nv replay k now d = Inr (m, d')" and ok: "rows_ok d"
    and a: "get_attempt d i = Some a" "at_status a = COMPLETED"
    and n: "\<And>x. x \<in> set (notifications d) \<Longrightarrow> tn_id x = k \<Longrightarrow> tn_event_type x \<notin> {MEMBER_COMPLETE, RECONCILIATION}"
  shows "get_attempt d' i = Some a"
  using run ok
proof (cases rule: reconcile_cases)
  case same
  with a show ?thesis by simp
next
  case (run locked links applied message d1)
  have "locked \<in> set (notifications d) \<and> tn_id locked = k"
    using run(1) by (auto simp: get_notification_def dest: row_by_pk_Some)
  then have "tn_event_type (relinked d links locked) \<notin> {MEMBER_COMPLETE, RECONCILIATION}"
    using n [of locked] by simp
  from apply_keeps_completed [OF run(4) ok a this] run(6) show ?thesis by (simp add: get_attempt_def)
qed

text \<open>A completed journey is left exactly as it is by every notification that is not a completion
  or a reconciliation of the provider, however often it is delivered: no late termination, of whatever
  wording, takes a completion back.\<close>

theorem completion_survives_termination:
  assumes "ingest_toluna_notification nv event p now d = (d', res)"
    and "event \<notin> {''member_complete'', ''reconciliation''}"
    and "get_attempt d i = Some a" and "at_status a = COMPLETED"
    and "unique_by at_id (attempts d)" and "unique_by sq_id (quotas d)" and "unique_by tn_id (notifications d)"
  shows "get_attempt d' i = Some a"
proof -
  have ok: "rows_ok d" using assms(5-7) by (simp add: rows_ok_def)
  have ev: "ev \<notin> {MEMBER_COMPLETE, RECONCILIATION}" if "event_type_of_value event = Some ev" for ev
    using that assms(2) by (auto simp: event_type_of_value_def split: if_splits)
  from assms(1) show ?thesis
  proof (cases rule: ingest_cases)
    case refused
    with assms(3) show ?thesis by simp
  next
    case (again e links n occurred)
    let ?d = "save_notification (counted_again n now) d"
    have a: "get_attempt ?d i = Some a" using assms(3) by (simp add: get_attempt_def)
    have d_ok: "rows_ok ?d" by (rule replaced_rows_ok [OF ok save_notification_frame, where m = "counted_again n now"]) simp
    have n_ev: "tn_event_type x \<notin> {MEMBER_COMPLETE, RECONCILIATION}"
      if "x \<in> set (notifications ?d)" "tn_id x = tn_id n" for x
      using that ev [OF again(1)] again(5) by (auto simp: set_update_where counted_fields) (auto simp: counted_again_def)
    from again(7) show ?thesis
    proof (cases rule: deliver_again_cases)
      case (retried x)
      show ?thesis by (rule reconcile_keeps_completed [OF retried(3) d_ok a assms(4) n_ev])
    qed (use a in simp_all)
  next
    case (first e links occurred n)
    let ?d = "d\<lparr>notifications := notifications d @ [n]\<rparr>"
    have id: "tn_id n = next_pk tn_id (notifications d)" "tn_event_type n = e"
      by (simp_all add: first(5) new_notification_def)
    have a: "get_attempt ?d i = Some a" using assms(3) by (simp add: get_attempt_def)
    have d_ok: "rows_ok ?d"
      using ok id next_pk_fresh [of tn_id "notifications d"] by (simp add: rows_ok_def unique_by_def)
    have n_ev: "tn_event_type x \<notin> {MEMBER_COMPLETE, RECONCILIATION}"
      if "x \<in> set (notifications ?d)" "tn_id x = tn_id n" for x
    proof -
      have "tn_id x \<noteq> tn_id n" if "x \<in> set (notifications d)"
        using that id(1) next_pk_fresh [of tn_id "notifications d"] by (metis image_eqI)
      then have "x = n" using that by auto
      with ev [OF first(1)] id(2) show ?thesis by simp
    qed
    from first(8) show ?thesis
    proof (cases rule: deliver_first_cases)
      case failed
      with a show ?thesis by simp
    next
      case (run x)
      show ?thesis by (rule reconcile_keeps_completed [OF run(2) d_ok a assms(4) n_ev])
    qed
  qed
qed

definition completed_journey :: survey_attempt where
  "completed_journey = reuse_attempt\<lparr>at_status := COMPLETED, at_callback_at := Some 40\<rparr>"

lemma completion_survives_termination_witness:
  "get_attempt (fst (ingest_toluna_notification sample_notify ''member_terminate'' (member_payload ''Terminated'') 60
      (wave_db completed_journey))) 9 = Some completed_journey"
proof -
  have d: "attempts (wave_db completed_journey) = [completed_journey]" "quotas (wave_db completed_journey) = [wave_quota]"
    "notifications (wave_db completed_journey) = []" by (simp_all add: wave_db_def empty_db_def)
  have a: "at_id completed_journey = 9" "at_status completed_journey = COMPLETED"
    by (simp_all add: completed_journey_def reuse_attempt_def sample_attempt_def)
  have row: "get_attempt (wave_db completed_journey) 9 = Some completed_journey"
    by (simp add: get_attempt_def row_by_pk_def d a)
  show ?thesis
    by (rule completion_survives_termination [OF prod.collapse [symmetric] _ row a(2)])
      (simp_all add: d unique_by_def)
qed

text \<open>The completion is the only result that is protected: a late termination replaces the verdict of a
  reconciliation.\<close>

theorem reconciliation_not_protected:
  assumes "tn_event_type n = MEMBER_TERMINATE" and "tn_attempt n = Some i" and "get_attempt d i = Some a"
    and "at_status a = QUALITY_TERMINATED" and "at_upstream_transaction_data a = JObj kvs"
  shows "\<exists>message d' b. apply_attempt_event n now d = Inr (True, message, d') \<and> get_attempt d' i = Some b
    \<and> at_status b = termination_status (tn_rejection_name n) (tn_reason n)"
proof -
  obtain evidence where e: "spread_with (at_upstream_transaction_data a)
      [(''toluna_notification'', notification_evidence n)] = Inr evidence"
    by (cases "kvs = []") (simp_all add: spread_with_def assms(5))
  obtain b where b: "notified_row n (termination_status (tn_rejection_name n) (tn_reason n)) now a = Inr b"
    "at_status b = termination_status (tn_rejection_name n) (tn_reason n)" "at_id b = i"
    using get_attempt_id [OF assms(3)] by (simp add: notified_row_def e Let_def)
  then show ?thesis
    using assms by (simp add: apply_attempt_event_def attempt_status_for_def get_attempt_save)
qed

lemma reconciliation_not_protected_sample: "termination_status [] ''Quota Full'' = OVER_QUOTA"
  by code_simp

section \<open>Journeys\<close>

definition notifications_linked :: "db \<Rightarrow> bool" where
  "notifications_linked d \<longleftrightarrow> (\<forall>n \<in> set (notifications d). toluna_journey d n)"

lemma frame_attempt:
  assumes "frame d d'" and "get_attempt d' j = Some b"
  shows "\<exists>a. get_attempt d j = Some a \<and> at_survey b = at_survey a"
proof -
  have "map_option journey_columns (get_attempt d' j) = map_option journey_columns (get_attempt d j)"
    unfolding get_attempt_def row_by_pk_def
    by (rule find_columns) (use assms(1) in \<open>auto simp: frame_def same_link_data_def dest: journey_columnsD\<close>)
  then show ?thesis
    by (cases rule: option_columnsE) (use assms(2) in \<open>auto dest: journey_columnsD\<close>)
qed

lemma frame_integration:
  assumes "frame d d'" and "at_survey b = at_survey a"
  shows "attempt_integration d' b = attempt_integration d a"
proof -
  have i: "get_integration d' = get_integration d"
    using integrations_same [OF frame_links [OF assms(1)]] by (simp add: get_integration_def [abs_def])
  from survey_same [OF frame_links [OF assms(1)], of "at_survey a"] show ?thesis
  proof (cases rule: option_columnsE)
    case none
    with assms(2) show ?thesis by (simp add: attempt_integration_def)
  next
    case (both s t)
    with survey_columnsD [OF both(3)] assms(2) i show ?thesis by (simp add: attempt_integration_def split: option.split)
  qed
qed

lemma toluna_journey_frame:
  assumes "frame d d'" and "toluna_journey d n" and "tn_attempt m = tn_attempt n"
  shows "toluna_journey d' m"
  unfolding toluna_journey_def
proof (intro allI impI)
  fix i b
  assume b: "tn_attempt m = Some i" "get_attempt d' i = Some b"
  obtain a where a: "get_attempt d i = Some a" "at_survey b = at_survey a"
    using frame_attempt [OF assms(1) b(2)] by blast
  have "tn_attempt n = Some i" using assms(3) b(1) by simp
  with assms(2) a(1) have "provider_of d a = ''toluna''" unfolding toluna_journey_def by blast
  with frame_integration [OF assms(1) a(2)] show "provider_of d' b = ''toluna''" by (simp add: provider_of_def)
qed

lemma toluna_attempt_provider: "a \<in> set (toluna_attempts d s w) \<Longrightarrow> provider_of d a = ''toluna''"
  by (auto simp: toluna_attempts_def is_toluna_survey_def provider_of_def attempt_integration_def
      provider_code_or_innovate_def split: option.splits)

lemma linked_attempt_in: "linked_attempt rid u rows = Some a \<Longrightarrow> a \<in> set rows"
  by (auto simp: linked_attempt_def newest_journey_def split: option.splits if_splits list.splits
      dest: find_SomeD dest!: arg_cong [of "sort_key _ _" _ set])


lemma resolved_toluna:
  assumes "resolve_links nv d p = Inr links" and "lk_attempt links = Some a"
  shows "provider_of d a = ''toluna'' \<and> a \<in> set (attempts d)"
proof -
  obtain rid where "lk_attempt links = linked_attempt rid (text_value (pick p [''UniqueCode'']))
      (toluna_attempts d (survey_id_in p) (wave_id_in p))"
    using assms(1) by (auto simp: resolve_links_def Let_def dest!: spread_keeps)
  with assms(2) have "a \<in> set (toluna_attempts d (survey_id_in p) (wave_id_in p))"
    by (metis linked_attempt_in)
  then show ?thesis using toluna_attempt_provider by (auto simp: toluna_attempts_def)
qed

lemma relinked_journey:
  assumes "resolve_links nv d p = Inr links" and "toluna_journey d n" and "unique_by at_id (attempts d)"
  shows "toluna_journey d (relinked d links n)"
proof (cases "lk_attempt links")
  case None
  with assms(2) show ?thesis by (simp add: toluna_journey_def relinked_def Let_def)
next
  case (Some a)
  with resolved_toluna [OF assms(1)] row_lookup [OF assms(3), of a] show ?thesis
    by (simp add: toluna_journey_def relinked_def Let_def)
qed

lemma quiet_same:
  assumes "attempts d' = attempts d" and "reservations d' = reservations d" and "frame d d'"
  shows "attempt_steps d d'"
proof (rule attempt_steps.more [OF attempt_steps.none], rule attempt_step.other)
  have "list_all2 same_result xs xs" for xs by (simp add: list_all2_same)
  with assms show "quiet_change d d'" by (simp add: quiet_change_def frame_integration)
qed

lemma inventory_reservations:
  "apply_quota_event n now d = (applied, message, d') \<Longrightarrow> reservations d' = reservations d"
  "apply_survey_closed n now d = (applied, message, d') \<Longrightarrow> reservations d' = reservations d \<and> attempts d' = attempts d"
  by (auto simp: apply_quota_event_def apply_survey_closed_def close_survey_def save_quota_def Let_def
      split: option.splits if_splits)

lemma apply_operational_steps:
  assumes run: "apply_operational_event n now d = Inr (applied, message, d')" and "rows_ok d" and "toluna_journey d n"
  shows "attempt_steps d d'"
proof -
  have q: "unique_by sq_id (quotas d)" using assms(2) by (simp add: rows_ok_def)
  consider "apply_quota_event n now d = (applied, message, d')" | "apply_survey_closed n now d = (applied, message, d')"
    | "apply_attempt_event n now d = Inr (applied, message, d')"
    using run by (auto simp: apply_operational_event_def split: if_splits)
  then show ?thesis
  proof cases
    case 1
    with apply_quota_frame [OF q 1] inventory_reservations(1) [OF 1] show ?thesis by (intro quiet_same) simp_all
  next
    case 2
    with apply_closed_frame [OF 2] inventory_reservations(2) [OF 2] show ?thesis by (intro quiet_same) simp_all
  next
    case 3
    from attempt_steps.more [OF attempt_steps.none attempt_step.notified [OF 3 assms(3)]] show ?thesis .
  qed
qed

lemma quiet_notifications:
  "attempts d' = attempts d \<Longrightarrow> surveys d' = surveys d \<Longrightarrow> integrations d' = integrations d \<Longrightarrow>
   quotas d' = quotas d \<Longrightarrow> reservations d' = reservations d \<Longrightarrow> attempt_steps d d' \<and> frame d d'"
  by (auto intro: quiet_same simp: frame_def same_link_data_def)

lemma linked_after:
  assumes "notifications_linked d" and "frame d d'"
    and "\<And>x. x \<in> set (notifications d') \<Longrightarrow> x \<in> set (notifications d) \<or> x = m" and "toluna_journey d m"
  shows "notifications_linked d'"
  unfolding notifications_linked_def
proof
  fix x
  assume "x \<in> set (notifications d')"
  with assms(1,3,4) have "toluna_journey d x" by (auto simp: notifications_linked_def)
  with assms(2) show "toluna_journey d' x" by (rule toluna_journey_frame) simp
qed

lemma reconcile_attempt_steps:
  assumes run: "reconcile_notification nv replay i now d = Inr (m, d')" and ok: "rows_ok d" and l: "notifications_linked d"
  shows "attempt_steps d d' \<and> notifications_linked d'"
  using run ok
proof (cases rule: reconcile_cases)
  case same
  with l show ?thesis by (simp add: attempt_steps.none)
next
  case (run locked links applied message d1)
  have "locked \<in> set (notifications d)" using run(1) by (auto simp: get_notification_def dest: row_by_pk_Some)
  with l have "toluna_journey d locked" by (simp add: notifications_linked_def)
  then have n: "toluna_journey d (relinked d links locked)"
    using ok by (intro relinked_journey [OF run(3)]) (simp_all add: rows_ok_def)
  have m: "toluna_journey d m" using n run(5) by (simp add: toluna_journey_def)
  have "attempt_steps d1 d'" using quiet_notifications [of d' d1] run(6) by simp
  then have steps: "attempt_steps d d'" by (rule attempt_steps_trans) (rule apply_operational_steps [OF run(4) ok n])
  have "frame d d'" using frame_trans [OF run(7) save_notification_frame] run(6) by simp
  from linked_after [OF l this _ m] run(6,8) steps show ?thesis by (auto simp: set_update_where)
qed

lemma ingest_attempt_steps:
  assumes run: "ingest_toluna_notification nv event p now d = (d', res)" and ok: "rows_ok d" and l: "notifications_linked d"
  shows "attempt_steps d d' \<and> notifications_linked d' \<and> rows_ok d'"
  using run
proof (cases rule: ingest_cases)
  case refused
  with ok l show ?thesis by (simp add: attempt_steps.none)
next
  case (again ev links n occurred)
  let ?d = "save_notification (counted_again n now) d"
  have fr: "frame d ?d" by simp
  have d_ok: "rows_ok ?d" by (rule replaced_rows_ok [OF ok fr, where m = "counted_again n now"]) simp
  have "toluna_journey d (counted_again n now)"
    using l again(4) by (auto simp: notifications_linked_def toluna_journey_def counted_again_def)
  from linked_after [OF l fr _ this] have d_l: "notifications_linked ?d" by (auto simp: set_update_where)
  have first_steps: "attempt_steps d ?d" using quiet_notifications [of ?d d] by simp
  from again(7) show ?thesis
  proof (cases rule: deliver_again_cases)
    case (retried x)
    from reconcile_attempt_steps [OF retried(3) d_ok d_l] reconcile_frame [OF retried(3) d_ok] first_steps show ?thesis
      by (auto intro: attempt_steps_trans)
  qed (use first_steps d_ok d_l in simp_all)
next
  case (first ev links occurred n)
  let ?d = "d\<lparr>notifications := notifications d @ [n]\<rparr>"
  have fr: "frame d ?d" by (simp add: frame_def same_link_data_def)
  have d_ok: "rows_ok ?d"
    using ok next_pk_fresh [of tn_id "notifications d"] by (simp add: rows_ok_def unique_by_def first(5) new_notification_def)
  have "toluna_journey d n"
    unfolding toluna_journey_def
  proof (intro allI impI)
    fix i a
    assume n: "tn_attempt n = Some i" and a: "get_attempt d i = Some a"
    then obtain b where b: "lk_attempt links = Some b" "at_id b = i" by (auto simp: first(5) new_notification_def)
    from resolved_toluna [OF first(3) b(1)] row_lookup [of d b] ok a b(2) show "provider_of d a = ''toluna''"
      by (simp add: rows_ok_def)
  qed
  from linked_after [OF l fr _ this] have d_l: "notifications_linked ?d" by auto
  have first_steps: "attempt_steps d ?d" using quiet_notifications [of ?d d] by simp
  from first(8) show ?thesis
  proof (cases rule: deliver_first_cases)
    case failed
    with first_steps d_ok d_l show ?thesis by simp
  next
    case (run x)
    from reconcile_attempt_steps [OF run(2) d_ok d_l] reconcile_frame [OF run(2) d_ok] first_steps show ?thesis
      by (auto intro: attempt_steps_trans)
  qed
qed

text \<open>A history of Toluna notifications is, for the journeys, a history of the attempt's own
  operations: each one records a result on a journey of Toluna as its lifecycle allows, with its
  reservation, or leaves every result alone.  So results of other providers stay final under it.\<close>

theorem notifications_are_attempt_history:
  assumes "notification_steps nv d d'" and "notifications d = []"
    and "unique_by at_id (attempts d)" and "unique_by sq_id (quotas d)"
  shows "attempt_steps d d' \<and> notifications_linked d'"
proof -
  have "rows_ok d" using assms(2-4) by (simp add: rows_ok_def unique_by_def)
  with assms(1,2) have "attempt_steps d d' \<and> notifications_linked d' \<and> rows_ok d'"
  proof (induction rule: notification_steps.induct)
    case (none d)
    then show ?case by (simp add: attempt_steps.none notifications_linked_def)
  next
    case (more d d1 d2)
    then have now: "attempt_steps d d1" "notifications_linked d1" "rows_ok d1" by simp_all
    from more(2) have "attempt_steps d1 d2 \<and> notifications_linked d2 \<and> rows_ok d2"
    proof (cases rule: notification_step.cases)
      case (delivery event p now res)
      from ingest_attempt_steps [OF delivery now(3,2)] show ?thesis .
    next
      case (retry replay i now m)
      from reconcile_attempt_steps [OF retry now(3,2)] reconcile_frame [OF retry now(3)] show ?thesis by simp
    qed
    with now(1) show ?case by (auto intro: attempt_steps_trans)
  qed
  then show ?thesis by simp
qed

lemma notifications_are_attempt_history_witness:
  "attempt_steps (wave_db reuse_attempt) (fst (ingest_toluna_notification sample_notify ''member_complete''
      (member_payload []) 60 (wave_db reuse_attempt)))"
proof -
  let ?run = "ingest_toluna_notification sample_notify ''member_complete'' (member_payload []) 60 (wave_db reuse_attempt)"
  have steps: "notification_steps sample_notify (wave_db reuse_attempt) (fst ?run)"
    by (rule notification_steps.more [OF notification_steps.none notification_step.delivery [OF prod.collapse [symmetric]]])
  have "notifications (wave_db reuse_attempt) = []" "unique_by at_id (attempts (wave_db reuse_attempt))"
    "unique_by sq_id (quotas (wave_db reuse_attempt))"
    by (simp_all add: wave_db_def empty_db_def unique_by_def)
  from notifications_are_attempt_history [OF steps this] show ?thesis by simp
qed

section \<open>The endpoint\<close>

text \<open>A request changes anything, or is acknowledged, only if it comes from an address of the
  allow-list -- the peer itself, or behind trusted proxies the rightmost hop that is not one, so that
  nothing a caller puts in front of the list counts -- and, where signatures are required, only if a
  member event carries the HMAC of its survey, wave and member code.\<close>

theorem webhook_accepts_only_allowlisted:
  assumes "toluna_notification_post wh ev r now d = (d', resp)"
    and "d' \<noteq> d \<or> resp = Accepted dup i applied"
  shows "\<exists>allowed trusted a. configured_networks wh (wh_allowlist wh) = Some allowed
    \<and> configured_networks wh (wh_trusted_proxies wh) = Some trusted \<and> is_in_networks wh (Some a) allowed
    \<and> \<not> is_in_networks wh (Some a) trusted
    \<and> (parsed_ip wh (header_text r ''REMOTE_ADDR'') = Some a
       \<or> (is_in_networks wh (parsed_ip wh (header_text r ''REMOTE_ADDR'')) trusted
          \<and> (\<exists>front v hops. forwarded_hops r = front @ v # hops \<and> parsed_ip wh v = Some a
               \<and> (\<forall>u \<in> set hops. is_in_networks wh (parsed_ip wh u) trusted))))
    \<and> (ev \<in> {MEMBER_COMPLETE, MEMBER_TERMINATE} \<and> wh_require_hmac wh \<longrightarrow>
        wh_hmac_key wh \<noteq> [] \<and>
        hex_pairs (py_lower (py_strip (str_or (pick (wr_data r) [''EncryptedValue'']) []))) =
          Some (wh_hmac_sha256 wh (wh_hmac_key wh) (py_str (pick (wr_data r) [''SurveyId'', ''SurveyID''])
            @ py_str (pick (wr_data r) [''WaveId'', ''WaveID'']) @ py_str (pick (wr_data r) [''UniqueCode'']))))"
  using assms(1)
proof (cases rule: post_cases)
  case (refused code)
  with assms(2) show ?thesis by simp
next
  case (ingested allowed trusted)
  obtain a where a: "notification_source_ip wh r trusted = Some a" "is_in_networks wh (Some a) allowed"
    using ingested(3) by (cases "notification_source_ip wh r trusted") (simp_all add: is_in_networks_def)
  obtain peer where peer: "parsed_ip wh (header_text r ''REMOTE_ADDR'') = Some peer"
    using a(1) by (cases "parsed_ip wh (header_text r ''REMOTE_ADDR'')") (simp_all add: notification_source_ip_def)
  have source: "\<not> is_in_networks wh (Some a) trusted \<and> (peer = a
      \<or> (is_in_networks wh (Some peer) trusted
          \<and> (\<exists>front v hops. forwarded_hops r = front @ v # hops \<and> parsed_ip wh v = Some a
               \<and> (\<forall>u \<in> set hops. is_in_networks wh (parsed_ip wh u) trusted))))"
  proof (cases "is_in_networks wh (Some peer) trusted")
    case False
    with a(1) peer show ?thesis by (simp add: notification_source_ip_def)
  next
    case True
    with a(1) peer have "untrusted_hop wh trusted (rev (forwarded_hops r)) = Some a"
      by (simp add: notification_source_ip_def)
    then obtain skipped v rest where hop: "rev (forwarded_hops r) = skipped @ v # rest" "parsed_ip wh v = Some a"
      "\<not> is_in_networks wh (Some a) trusted" "\<forall>u \<in> set skipped. is_in_networks wh (parsed_ip wh u) trusted"
      by (blast dest: untrusted_hopD)
    have "forwarded_hops r = rev rest @ v # rev skipped"
      using arg_cong [OF hop(1), of rev] by simp
    with True hop show ?thesis by (intro conjI disjI2 exI [of _ "rev rest"] exI [of _ v] exI [of _ "rev skipped"]) simp_all
  qed
  have "wh_hmac_key wh \<noteq> [] \<and>
        hex_pairs (py_lower (py_strip (str_or (pick (wr_data r) [''EncryptedValue'']) []))) =
          Some (wh_hmac_sha256 wh (wh_hmac_key wh) (py_str (pick (wr_data r) [''SurveyId'', ''SurveyID''])
            @ py_str (pick (wr_data r) [''WaveId'', ''WaveID'']) @ py_str (pick (wr_data r) [''UniqueCode''])))"
    if "ev \<in> {MEMBER_COMPLETE, MEMBER_TERMINATE}" "wh_require_hmac wh"
    using ingested(5) [OF that] by (auto simp: valid_member_status_hmac_def Let_def split: if_splits option.splits)
  with ingested(1,2) a(2) source peer show ?thesis
    by (intro exI [of _ allowed] exI [of _ trusted] exI [of _ a]) auto
qed

definition sample_webhook :: webhook_settings where
  "sample_webhook = \<lparr>wh_allowlist = [''54.211.6.36''], wh_trusted_proxies = [''127.0.0.1''], wh_hmac_key = [],
     wh_require_hmac = False, wh_parse_network = Some, wh_parse_ip = (\<lambda>s. if s = [] then None else Some s),
     wh_contains = (\<lambda>n a. n = a), wh_hmac_sha256 = (\<lambda>k s. k @ s), wh_notify = sample_notify\<rparr>"

definition sample_hook_request :: "json \<Rightarrow> webhook_request" where
  "sample_hook_request payload = \<lparr>wr_meta = map_of [(''REMOTE_ADDR'', ''127.0.0.1''),
     (''HTTP_X_FORWARDED_FOR'', ''6.6.6.6, 54.211.6.36'')],
     wr_content_type = ''application/json; charset=utf-8'', wr_data = payload\<rparr>"

lemma sample_hook_gates:
  "configured_networks sample_webhook (wh_allowlist sample_webhook) = Some [''54.211.6.36'']"
  "configured_networks sample_webhook (wh_trusted_proxies sample_webhook) = Some [''127.0.0.1'']"
  "notification_source_ip sample_webhook (sample_hook_request payload) [''127.0.0.1''] = Some ''54.211.6.36''"
  "media_type (wr_content_type (sample_hook_request payload)) = ''application/json''"
proof -
  have stripped: "py_strip ''54.211.6.36'' = ''54.211.6.36'' \<and> py_strip ''127.0.0.1'' = ''127.0.0.1''
      \<and> map py_strip (py_split (CHR '','') ''6.6.6.6, 54.211.6.36'') = [''6.6.6.6'', ''54.211.6.36'']
      \<and> media_type ''application/json; charset=utf-8'' = ''application/json''" by code_simp
  show "configured_networks sample_webhook (wh_allowlist sample_webhook) = Some [''54.211.6.36'']"
    "configured_networks sample_webhook (wh_trusted_proxies sample_webhook) = Some [''127.0.0.1'']"
    using stripped by (simp_all add: configured_networks_def sample_webhook_def)
  show "notification_source_ip sample_webhook (sample_hook_request payload) [''127.0.0.1''] = Some ''54.211.6.36''"
    using stripped by (simp add: notification_source_ip_def header_text_def sample_hook_request_def parsed_ip_def
        sample_webhook_def is_in_networks_def forwarded_hops_def Let_def)
  show "media_type (wr_content_type (sample_hook_request payload)) = ''application/json''"
    using stripped by (simp add: sample_hook_request_def)
qed

lemma webhook_accepts_only_allowlisted_witness:
  "\<exists>d' i. toluna_notification_post sample_webhook QUOTA_STATUS (sample_hook_request (quota_payload False ''200'')) 300
       wave_start = (d', Accepted False i True)
     \<and> (\<exists>front v hops. forwarded_hops (sample_hook_request (quota_payload False ''200'')) = front @ v # hops
          \<and> parsed_ip sample_webhook v = Some ''54.211.6.36'')"
proof -
  let ?r = "sample_hook_request (quota_payload False ''200'')"
  obtain m1 d1 where run: "ingest_toluna_notification sample_notify ''quota_status'' (quota_payload False ''200'') 300
      wave_start = (d1, Inr (applied_row (quota_row 1 False ''200'' 200 300) m1, False))"
    using first_delivery by blast
  have post: "toluna_notification_post sample_webhook QUOTA_STATUS ?r 300 wave_start = (d1, Accepted False 1 True)"
    using run sample_hook_gates(1,2) sample_hook_gates(3,4) [of "quota_payload False ''200''"]
    by (simp add: toluna_notification_post_def is_in_networks_def ingest_response_def)
      (simp add: sample_webhook_def sample_hook_request_def)
  have "\<exists>a. is_in_networks sample_webhook (Some a) [''54.211.6.36'']
      \<and> \<not> is_in_networks sample_webhook (Some a) [''127.0.0.1'']
      \<and> (parsed_ip sample_webhook (header_text ?r ''REMOTE_ADDR'') = Some a
        \<or> (\<exists>front v hops. forwarded_hops ?r = front @ v # hops \<and> parsed_ip sample_webhook v = Some a))"
    using webhook_accepts_only_allowlisted [OF post disjI2 [OF refl]] sample_hook_gates(1,2) by auto
  moreover have "parsed_ip sample_webhook (header_text ?r ''REMOTE_ADDR'') = Some ''127.0.0.1''"
    by code_simp
  ultimately obtain front v hops where "forwarded_hops ?r = front @ v # hops" "parsed_ip sample_webhook v = Some ''54.211.6.36''"
    by (auto simp: is_in_networks_def) (auto simp: sample_webhook_def)
  with post show ?thesis by blast
qed

text \<open>A notification whose time is well formed and impossible -- the thirtieth of February -- is not
  refused as malformed but ends as an internal error of the server, and leaves no audit row: the
  exception of the date parser is not the one the view turns into an answer.\<close>

theorem impossible_date_is_server_error:
  assumes "configured_networks wh (wh_allowlist wh) = Some allowed" and "allowed \<noteq> []"
    and "configured_networks wh (wh_trusted_proxies wh) = Some trusted"
    and "is_in_networks wh (notification_source_ip wh r trusted) allowed"
    and "media_type (wr_content_type r) = ''application/json''" and "\<not> wh_require_hmac wh"
    and "validate_payload ev (wr_data r) = Inr ()" and "resolve_links (wh_notify wh) d (wr_data r) = Inr links"
    and "text_value (occurred_value ev (wr_data r)) = raw" and "raw \<noteq> []"
    and "nv_parse_datetime (wh_notify wh) raw = Inl (ValueError m)"
  shows "toluna_notification_post wh ev r now d = (d, Server_Error (ValueError m))"
proof -
  have ev: "event_type_of_value (event_type_value ev) = Some ev"
    by (cases ev) (simp_all add: event_type_of_value_def)
  have "provider_datetime (wh_notify wh) (occurred_value ev (wr_data r)) = Inl (ValueError m)"
    using assms(9-11) by (simp add: provider_datetime_def)
  then have "ingest_toluna_notification (wh_notify wh) (event_type_value ev) (wr_data r) now d = (d, Inl (ValueError m))"
    by (simp add: ingest_toluna_notification_def ev assms(7,8) Let_def)
  then have "ingest_response wh (event_type_value ev) (wr_data r) now d = (d, Server_Error (ValueError m))"
    by (simp add: ingest_response_def)
  with assms(1-6) show ?thesis by (simp add: toluna_notification_post_def)
qed

lemma impossible_date_is_server_error_witness:
  "toluna_notification_post sample_webhook QUOTA_STATUS (sample_hook_request (quota_payload False ''2026-02-30'')) 300
     wave_start = (wave_start, Server_Error (ValueError ''day is out of range for month''))"
proof -
  let ?p = "quota_payload False ''2026-02-30''"
  have d: "wave_inventory wave_start" by (simp add: wave_inventory_def wave_start_def)
  have data: "wr_data (sample_hook_request ?p) = ?p" "wh_notify sample_webhook = sample_notify"
    by (simp_all add: sample_hook_request_def sample_webhook_def)
  have strip: "py_strip ''2026-02-30'' = ''2026-02-30''" by code_simp
  show ?thesis
  proof (rule impossible_date_is_server_error [OF sample_hook_gates(1) _ sample_hook_gates(2)])
    show "is_in_networks sample_webhook (notification_source_ip sample_webhook (sample_hook_request ?p) [''127.0.0.1'']) [''54.211.6.36'']"
      using sample_hook_gates(3) by (simp add: is_in_networks_def) (simp add: sample_webhook_def)
    show "media_type (wr_content_type (sample_hook_request ?p)) = ''application/json''" by (rule sample_hook_gates(4))
    show "validate_payload QUOTA_STATUS (wr_data (sample_hook_request ?p)) = Inr ()"
      by (simp add: data validate_payload_def MEMBER_EVENTS_def)
    show "resolve_links (wh_notify sample_webhook) wave_start (wr_data (sample_hook_request ?p)) =
        Inr \<lparr>lk_survey = Some wave_survey, lk_attempt = None, lk_integration = Some 81\<rparr>"
      unfolding data by (rule quota_links [OF d])
    show "text_value (occurred_value QUOTA_STATUS (wr_data (sample_hook_request ?p))) = ''2026-02-30''"
      by (simp add: data occurred_value_def text_value_def strip)
    show "nv_parse_datetime (wh_notify sample_webhook) ''2026-02-30'' = Inl (ValueError ''day is out of range for month'')"
      by (simp add: data sample_notify_def)
  qed (simp_all add: sample_webhook_def)
qed

end
