(* ===== verification/Py_Loops.thy ===== *)
theory Py_Loops
  imports Py_Values
begin

text \<open>
  Loops whose body may raise: sequencing, \<open>all(...)\<close> and \<open>any(...)\<close> over a generator, the list
  comprehension and the loop that carries a state.  Each stops at the first exception, the quantifiers
  also at the first item that decides them.
\<close>

section \<open>Sequencing\<close>

fun and_then :: "'e + 'a \<Rightarrow> ('a \<Rightarrow> 'e + 'b) \<Rightarrow> 'e + 'b" where
  "and_then (Inl e) f = Inl e"
| "and_then (Inr x) f = f x"

lemma and_then_Inr: "and_then r f = Inr y \<longleftrightarrow> (\<exists>x. r = Inr x \<and> f x = Inr y)"
  by (cases r) simp_all

lemma and_thenE:
  assumes "and_then r f = Inr y"
  obtains x where "r = Inr x" and "f x = Inr y"
  using assms by (cases r) simp_all

section \<open>Quantifiers\<close>

fun all_ok :: "('a \<Rightarrow> 'e + bool) \<Rightarrow> 'a list \<Rightarrow> 'e + bool" where
  "all_ok P [] = Inr True"
| "all_ok P (x # xs) = and_then (P x) (\<lambda>b. if b then all_ok P xs else Inr False)"

fun any_ok :: "('a \<Rightarrow> 'e + bool) \<Rightarrow> 'a list \<Rightarrow> 'e + bool" where
  "any_ok P [] = Inr False"
| "any_ok P (x # xs) = and_then (P x) (\<lambda>b. if b then Inr True else any_ok P xs)"

lemma all_ok_True: "all_ok P xs = Inr True \<longleftrightarrow> (\<forall>x \<in> set xs. P x = Inr True)"
  by (induction xs) (auto simp: and_then_Inr split: if_splits)

lemma all_ok_False: "all_ok P xs = Inr False \<Longrightarrow> \<exists>x \<in> set xs. P x = Inr False"
  by (induction xs) (auto simp: and_then_Inr split: if_splits)

lemma any_ok_True: "any_ok P xs = Inr True \<Longrightarrow> \<exists>x \<in> set xs. P x = Inr True"
  by (induction xs) (auto simp: and_then_Inr split: if_splits)

lemma any_ok_False: "any_ok P xs = Inr False \<longleftrightarrow> (\<forall>x \<in> set xs. P x = Inr False)"
  by (induction xs) (auto simp: and_then_Inr split: if_splits)

section \<open>Comprehensions and loops\<close>

fun map_ok :: "('a \<Rightarrow> 'e + 'b) \<Rightarrow> 'a list \<Rightarrow> 'e + 'b list" where
  "map_ok f [] = Inr []"
| "map_ok f (x # xs) = and_then (f x) (\<lambda>y. map_sum id (\<lambda>ys. y # ys) (map_ok f xs))"

fun fold_ok :: "('a \<Rightarrow> 's \<Rightarrow> 'e + 's) \<Rightarrow> 'a list \<Rightarrow> 's \<Rightarrow> 'e + 's" where
  "fold_ok f [] s = Inr s"
| "fold_ok f (x # xs) s = and_then (f x s) (fold_ok f xs)"

lemma map_ok_Cons: "map_ok f (x # xs) = Inr ys \<longleftrightarrow> (\<exists>y zs. ys = y # zs \<and> f x = Inr y \<and> map_ok f xs = Inr zs)"
  by (cases "f x"; cases "map_ok f xs") auto

lemma map_ok_Inr: "map_ok f xs = Inr ys \<longleftrightarrow> list_all2 (\<lambda>x y. f x = Inr y) xs ys"
  by (induction xs arbitrary: ys) (auto simp: map_ok_Cons list_all2_Cons1 simp del: map_ok.simps(2))

lemma map_ok_length: "map_ok f xs = Inr ys \<Longrightarrow> length ys = length xs"
  by (auto simp: map_ok_Inr dest: list_all2_lengthD)

lemma map_ok_in: "map_ok f xs = Inr ys \<Longrightarrow> y \<in> set ys \<Longrightarrow> \<exists>x \<in> set xs. f x = Inr y"
  by (induction xs arbitrary: ys) (auto simp: map_ok_Cons simp del: map_ok.simps(2))

lemma map_ok_out: "map_ok f xs = Inr ys \<Longrightarrow> x \<in> set xs \<Longrightarrow> \<exists>y \<in> set ys. f x = Inr y"
  by (induction xs arbitrary: ys) (auto simp: map_ok_Cons simp del: map_ok.simps(2))

lemma fold_ok_append: "fold_ok f (xs @ ys) s = and_then (fold_ok f xs s) (fold_ok f ys)"
proof (induction xs arbitrary: s)
  case (Cons x xs)
  then show ?case by (cases "f x s") simp_all
qed simp

text \<open>What every round keeps, and what some round brings about and the later ones keep.\<close>

lemma fold_ok_keeps:
  assumes "fold_ok f xs s = Inr s'" and "I s"
    and "\<And>x s s'. x \<in> set xs \<Longrightarrow> f x s = Inr s' \<Longrightarrow> I s \<Longrightarrow> I s'"
  shows "I s'"
  using assms
proof (induction xs arbitrary: s)
  case (Cons x xs)
  from Cons.prems(1) obtain t where t: "f x s = Inr t" "fold_ok f xs t = Inr s'" by (auto elim: and_thenE)
  have "I t" by (rule Cons.prems(3) [OF _ t(1) Cons.prems(2)]) simp
  then show ?case
  proof (rule Cons.IH [OF t(2)])
    fix y u u'
    assume "y \<in> set xs" "f y u = Inr u'" "I u"
    then show "I u'" using Cons.prems(3) [of y u u'] by simp
  qed
qed simp

lemma fold_ok_reaches:
  assumes "fold_ok f xs s = Inr s'" and "x \<in> set xs"
    and "\<And>s t. f x s = Inr t \<Longrightarrow> Q t"
    and "\<And>y s t. y \<in> set xs \<Longrightarrow> f y s = Inr t \<Longrightarrow> Q s \<Longrightarrow> Q t"
  shows "Q s'"
proof -
  from assms(2) obtain before after where xs: "xs = before @ x # after" by (auto dest: split_list)
  with assms(1) obtain u t where "f x u = Inr t" and rest: "fold_ok f after t = Inr s'"
    by (auto simp: fold_ok_append elim!: and_thenE)
  then have "Q t" by (simp add: assms(3))
  with rest show ?thesis
  proof (rule fold_ok_keeps [where I = Q])
    fix y u u'
    assume "y \<in> set after" "f y u = Inr u'" "Q u"
    with xs show "Q u'" using assms(4) [of y u u'] by simp
  qed
qed

end
