(* ===== verification/Toluna_Targeting.thy ===== *)
theory Toluna_Targeting
  imports Toluna_Notifications Age_Rules Py_Loops "HOL-Library.Product_Lexorder"
begin

text \<open>
  What Toluna's quotas ask of a respondent, \<open>surveys/providers/toluna.py\<close>: the attributes of the quotas
  that can still take respondents, the prescreener questions built from them, and the replacement of a
  survey's questions and quotas.  A quota is a list of layers, a layer a list of subquotas, a subquota a
  list of conditions on answers.  The local copy of the provider's reference data is an argument: the
  rows of the integration, whose options are the objects the adapter writes.
\<close>

section \<open>Reading a quota\<close>

definition integer_or :: "int \<Rightarrow> json \<Rightarrow> int" where
  "integer_or default_value v = (case toluna_integer v of Some i \<Rightarrow> i | None \<Rightarrow> default_value)"

definition items_at :: "json \<Rightarrow> string \<Rightarrow> py_error + json list" where
  "items_at v name = items_of (pick_default (JArr []) v [name])"

text \<open>A value, a list or an object of values; each may hold several separated by commas.\<close>

definition answer_parts :: "json list \<Rightarrow> string list" where
  "answer_parts vs =
     keep_first (filter (\<lambda>s. s \<noteq> []) (map py_strip (concat (map (\<lambda>v. py_split (CHR '','') (py_str v)) vs))))"

definition answer_values :: "json \<Rightarrow> string list" where
  "answer_values condition =
     (case pick_default (JArr []) condition [''AnswerValues''] of
        JNull \<Rightarrow> []
      | JArr vs \<Rightarrow> answer_parts vs
      | JObj kvs \<Rightarrow> answer_parts (map (\<lambda>kv. JStr (fst kv)) kvs)
      | v \<Rightarrow> answer_parts [v])"

definition has_capacity :: "json \<Rightarrow> bool" where
  "has_capacity subquota =
     (let current_raw = pick subquota [''CurrentCompletes'']; maximum_raw = pick subquota [''MaxTargetCompletes''] in
      if current_raw = JNull \<or> maximum_raw = JNull then True
      else (let current = integer_or (-1) current_raw; maximum = integer_or (-1) maximum_raw in
            maximum < 0 \<or> current < maximum))"

definition condition_question :: "json \<Rightarrow> int" where
  "condition_question condition = integer_or (-1) (pick condition [''QuestionID''])"

definition is_routable :: "json \<Rightarrow> bool" where
  "is_routable condition = truthy (pick_default (JBool False) condition [''IsRoutable''])"

section \<open>What the open quotas ask\<close>

record requirement =
  rq_answer_ids :: "int list"
  rq_answer_values :: "string list"
  rq_raw :: "json list"
  rq_all_routable :: bool

type_synonym requirements = "(int \<times> requirement) list"

definition no_requirement :: requirement where
  "no_requirement = \<lparr>rq_answer_ids = [], rq_answer_values = [], rq_raw = [], rq_all_routable = True\<rparr>"

definition extended :: "json \<Rightarrow> json list \<Rightarrow> requirement \<Rightarrow> requirement" where
  "extended condition ids r =
     r\<lparr>rq_answer_ids := filter (\<lambda>i. i \<noteq> -1) (keep_first (rq_answer_ids r @ map (integer_or (-1)) ids)),
       rq_answer_values := keep_first (rq_answer_values r @ answer_values condition),
       rq_raw := rq_raw r @ [condition],
       rq_all_routable := rq_all_routable r \<and> is_routable condition\<rparr>"

definition add_condition :: "json \<Rightarrow> requirements \<Rightarrow> py_error + requirements" where
  "add_condition condition rows =
     (let q = condition_question condition in
      if q < 0 then Inr rows
      else map_sum id
             (\<lambda>ids. AList.update q
                (extended condition ids (case map_of rows q of Some r \<Rightarrow> r | None \<Rightarrow> no_requirement)) rows)
             (items_at condition ''AnswerIDs''))"

definition add_subquota :: "json \<Rightarrow> requirements \<Rightarrow> py_error + requirements" where
  "add_subquota subquota rows =
     (if \<not> has_capacity subquota then Inr rows
      else and_then (items_at subquota ''QuestionsAndAnswers'') (\<lambda>conditions. fold_ok add_condition conditions rows))"

definition add_layer :: "json \<Rightarrow> requirements \<Rightarrow> py_error + requirements" where
  "add_layer layer rows = and_then (items_at layer ''SubQuotas'') (\<lambda>subquotas. fold_ok add_subquota subquotas rows)"

definition layer_open :: "json \<Rightarrow> py_error + bool" where
  "layer_open layer = map_sum id (list_ex has_capacity) (items_at layer ''SubQuotas'')"

text \<open>Layers are a conjunction: a quota with a layer that has no open subquota asks nothing.\<close>

definition add_quota :: "json \<Rightarrow> requirements \<Rightarrow> py_error + requirements" where
  "add_quota quota rows =
     (let remaining = pick quota [''EstimatedCompletesRemaining''] in
      if remaining \<noteq> JNull \<and> integer_or (-1) remaining \<le> 0 then Inr rows
      else and_then (items_at quota ''Layers'') (\<lambda>layers.
             and_then (all_ok layer_open layers) (\<lambda>all_open.
               if \<not> all_open then Inr rows else fold_ok add_layer layers rows)))"

definition quota_question_rows :: "json list \<Rightarrow> py_error + requirements" where
  "quota_question_rows payloads = fold_ok add_quota payloads []"

section \<open>Kinds of questions\<close>

text \<open>\<open>re.search(r"\bword\b", text)\<close>.\<close>

fun has_word :: "bool \<Rightarrow> string \<Rightarrow> string \<Rightarrow> bool" where
  "has_word inside word [] = False"
| "has_word inside word (c # cs) =
     (\<not> inside \<and> prefix word (c # cs) \<and> at_boundary (drop (length word) (c # cs))
      \<or> has_word (is_word_char c) word cs)"

definition question_kind :: "toluna_reference_question \<Rightarrow> string" where
  "question_kind ref =
     (let described = py_lower (trq_internal_name ref @ '' '' @ trq_display_name ref) in
      if contains_text ''gender'' described \<or> py_strip described \<in> {''sex'', ''member sex''} then ''gender''
      else if contains_text ''postal'' described \<or> contains_text ''zip'' described then ''postal''
      else if has_word False ''age'' described \<or> contains_text ''birth'' described then ''birth_date''
      else ''profile'')"

definition option_dicts :: "json \<Rightarrow> jdict list" where
  "option_dicts options = (case options of JArr xs \<Rightarrow> map only_dict xs | _ \<Rightarrow> [])"

definition targeting_age_ranges :: "requirement \<Rightarrow> toluna_reference_question \<Rightarrow> (int \<times> int) list" where
  "targeting_age_ranges r ref =
     (let stated = List.map_filter (\<lambda>v. normalize_age_range (JStr v)) (rq_answer_values r);
          allowed = map show_int (rq_answer_ids r);
          mapped = List.map_filter (\<lambda>opt. normalize_age_range (JObj opt))
                     (filter (\<lambda>opt. py_str (dict_get opt ''OptionId'') \<in> set allowed) (option_dicts (trq_options ref)))
      in sort (remdups (stated @ mapped)))"

lemma question_kind_samples:
  "has_word False ''age'' ''what is your age?''" "\<not> has_word False ''age'' ''language''"
  by code_simp+

section \<open>The questions of a survey\<close>

definition TOLUNA_ADAPTER_VERSION :: int where
  "TOLUNA_ADAPTER_VERSION = 7"

definition COMMON_KINDS :: "string list" where
  "COMMON_KINDS = [''birth_date'', ''gender'']"

definition survey_culture :: "json \<Rightarrow> string" where
  "survey_culture raw =
     py_lower (str_or (dict_get (only_dict (dict_get (only_dict raw) ''_toluna'')) ''culture_code'') [])"

definition culture_references ::
  "toluna_reference_question list \<Rightarrow> pk \<Rightarrow> string \<Rightarrow> toluna_reference_question list" where
  "culture_references references integration culture =
     sort_key trq_question_id
       (filter (\<lambda>r. trq_integration r = integration \<and> trq_culture_code r = culture) references)"

definition reference_of :: "toluna_reference_question list \<Rightarrow> int \<Rightarrow> toluna_reference_question option" where
  "reference_of references q = List.find (\<lambda>r. trq_question_id r = q) references"

text \<open>The first question of each common kind is asked of every survey.\<close>

definition mandatory_questions :: "toluna_reference_question list \<Rightarrow> int list" where
  "mandatory_questions references =
     List.map_filter (\<lambda>kind. map_option trq_question_id (List.find (\<lambda>r. question_kind r = kind) references))
       COMMON_KINDS"

definition folded_values :: "requirement option \<Rightarrow> string list" where
  "folded_values r =
     (case r of None \<Rightarrow> []
      | Some r \<Rightarrow> filter (\<lambda>v. v \<noteq> []) (map (\<lambda>v. py_lower (py_strip v)) (rq_answer_values r)))"

definition allowed_ids_of :: "requirement option \<Rightarrow> int list" where
  "allowed_ids_of r = (case r of None \<Rightarrow> [] | Some r \<Rightarrow> sort (rq_answer_ids r))"

definition reference_labels :: "jdict \<Rightarrow> string list" where
  "reference_labels opt =
     filter (\<lambda>l. l \<noteq> [])
       (map (\<lambda>k. py_lower (py_strip (str_or (dict_get opt k) []))) [''OptionText'', ''AnswerInternalName''])"

definition option_is_required :: "requirement option \<Rightarrow> jdict \<Rightarrow> bool" where
  "option_is_required r opt =
     (if r = None \<or> (allowed_ids_of r = [] \<and> folded_values r = []) then True
      else integer_or (-1) (dict_get opt ''OptionId'') \<in> set (allowed_ids_of r)
           \<or> set (folded_values r) \<inter> set (reference_labels opt) \<noteq> {})"

definition asked_as_text :: "string \<Rightarrow> toluna_reference_question \<Rightarrow> bool" where
  "asked_as_text kind ref = (kind = ''postal'' \<or> contains_text ''open'' (py_lower (trq_answer_type ref)))"

definition offered_options :: "string \<Rightarrow> requirement option \<Rightarrow> toluna_reference_question \<Rightarrow> json" where
  "offered_options kind r ref =
     (if kind = ''birth_date'' then JArr []
      else if asked_as_text kind ref then JArr (map JObj (option_dicts (trq_options ref)))
      else JArr (map JObj (filter (option_is_required r) (option_dicts (trq_options ref)))))"

definition question_form_type :: "string \<Rightarrow> toluna_reference_question \<Rightarrow> string" where
  "question_form_type kind ref =
     (if kind = ''birth_date'' then ''numeric'' else if asked_as_text kind ref then ''text''
      else if contains_text ''multi'' (py_lower (trq_answer_type ref)) then ''multi'' else ''single'')"

definition question_caption :: "string \<Rightarrow> toluna_reference_question \<Rightarrow> string" where
  "question_caption kind ref =
     (if kind = ''birth_date'' then ''What is your age?''
      else if kind = ''postal'' then ''What is your postal code?''
      else if trq_display_name ref \<noteq> [] then trq_display_name ref else trq_internal_name ref)"

definition question_contract :: "string \<Rightarrow> requirement option \<Rightarrow> toluna_reference_question \<Rightarrow> jdict" where
  "question_contract kind r ref =
     [(''adapter_version'', JInt TOLUNA_ADAPTER_VERSION), (''toluna_kind'', JStr kind),
      (''toluna_is_routable'', JBool (case r of Some r \<Rightarrow> rq_all_routable r | None \<Rightarrow> trq_is_routable ref)),
      (''allowed_answer_ids'', JArr (map JInt (allowed_ids_of r))),
      (''allowed_answer_values'', JArr (case r of Some r \<Rightarrow> map JStr (rq_answer_values r) | None \<Rightarrow> [])),
      (''required_by_provider'', JBool (r \<noteq> None)),
      (''required_for_member'', JBool (kind \<in> set COMMON_KINDS
         \<or> (case r of Some r \<Rightarrow> \<not> rq_all_routable r \<and> \<not> contains_text ''computed'' (py_lower (trq_answer_type ref))
            | None \<Rightarrow> False))),
      (''reference_answer_type'', JStr (trq_answer_type ref))]
     @ (if kind = ''birth_date''
        then [(''targeting_age_ranges'',
                JArr (case r of Some r \<Rightarrow> map (\<lambda>(low, high). JObj [(''min'', JInt low), (''max'', JInt high)])
                                           (targeting_age_ranges r ref) | None \<Rightarrow> [])),
              (''toluna_age_options'', JArr (map JObj (option_dicts (trq_options ref))))]
        else [])"

definition targeting_row ::
  "pk \<Rightarrow> int \<Rightarrow> requirement option \<Rightarrow> toluna_reference_question \<Rightarrow> timestamp \<Rightarrow> pk \<Rightarrow> targeting_question" where
  "targeting_row survey q r ref now i =
     (let kind = question_kind ref in
      \<lparr>tq_id = i, tq_survey = survey, tq_question_id = q, tq_key = ''TOLUNA_'' @ show_int q,
       tq_text = question_caption kind ref, tq_question_type = question_form_type kind ref,
       tq_category = (if kind \<in> set COMMON_KINDS \<or> r \<noteq> None then ''Required profile'' else ''Toluna targeting''),
       tq_options = offered_options kind r ref, tq_raw_data = JObj (question_contract kind r ref),
       tq_updated_at = now\<rparr>)"

definition missing_reference :: "int \<Rightarrow> string \<Rightarrow> py_error" where
  "missing_reference q culture =
     ProviderError (''Toluna reference mapping is missing question '' @ show_int q @ '' for '' @ culture @ ''.'')"

definition derived_questions ::
  "toluna_reference_question list \<Rightarrow> string \<Rightarrow> pk \<Rightarrow> requirements \<Rightarrow> timestamp
   \<Rightarrow> py_error + (pk \<Rightarrow> targeting_question) list" where
  "derived_questions references culture survey rows now =
     map_ok (\<lambda>q. map_sum id (\<lambda>ref. targeting_row survey q (map_of rows q) ref now)
                    (of_option (missing_reference q culture) (reference_of references q)))
       (sort (remdups (map fst rows @ mandatory_questions references)))"

section \<open>Replacing the questions and quotas of a survey\<close>

definition quota_id_of :: "json \<Rightarrow> int" where
  "quota_id_of payload = integer_or (-1) (pick payload [''QuotaID''])"

definition count_at :: "json \<Rightarrow> string \<Rightarrow> nat" where
  "count_at payload name = nat (integer_or 0 (pick payload [name]))"

definition derived_quota :: "pk \<Rightarrow> json \<Rightarrow> timestamp \<Rightarrow> pk \<Rightarrow> survey_quota" where
  "derived_quota survey payload now i =
     (let target = count_at payload ''CompletesRequired'';
          remaining = count_at payload ''EstimatedCompletesRemaining'' in
      \<lparr>sq_id = i, sq_survey = survey, sq_source_key = show_int (quota_id_of payload),
       sq_quota_id = Some (quota_id_of payload), sq_title = ''Toluna quota '' @ show_int (quota_id_of payload),
       sq_name = ''Quota '' @ show_int (quota_id_of payload), sq_sample_size = target, sq_remaining = remaining,
       sq_completes = target - remaining, sq_clicks = 0,
       sq_status = (if 0 < remaining then ''Open'' else ''Full''),
       sq_targeting = JObj [(''layers'', json_or (pick_default (JArr []) payload [''Layers'']) (JArr []))],
       sq_raw_data = payload, sq_updated_at = now\<rparr>)"

definition derived_quotas :: "pk \<Rightarrow> json list \<Rightarrow> timestamp \<Rightarrow> (pk \<Rightarrow> survey_quota) list" where
  "derived_quotas survey payloads now = map (\<lambda>p. derived_quota survey p now) (filter (\<lambda>p. 0 \<le> quota_id_of p) payloads)"

fun add_rows :: "('r \<Rightarrow> pk) \<Rightarrow> (pk \<Rightarrow> 'r) list \<Rightarrow> 'r list \<Rightarrow> 'r list" where
  "add_rows key [] rows = rows"
| "add_rows key (f # fs) rows = add_rows key fs (rows @ [f (next_pk key rows)])"

definition details_refreshed :: "bool \<Rightarrow> timestamp \<Rightarrow> survey \<Rightarrow> survey" where
  "details_refreshed any_quota now s =
     s\<lparr>sv_has_quota := any_quota, sv_targeting_synced_at := Some now, sv_quota_synced_at := Some now,
       sv_detail_synced_at := Some now, sv_updated_at := now\<rparr>"

definition replace_details ::
  "(pk \<Rightarrow> targeting_question) list \<Rightarrow> (pk \<Rightarrow> survey_quota) list \<Rightarrow> pk \<Rightarrow> timestamp \<Rightarrow> db \<Rightarrow> db" where
  "replace_details questions new_quotas survey now d =
     d\<lparr>targeting_questions := add_rows tq_id questions (filter (\<lambda>q. tq_survey q \<noteq> survey) (targeting_questions d)),
       quotas := add_rows sq_id new_quotas (filter (\<lambda>q. sq_survey q \<noteq> survey) (quotas d)),
       surveys := update_where (\<lambda>s. sv_id s = survey) (details_refreshed (new_quotas \<noteq> []) now) (surveys d)\<rparr>"

text \<open>The questions are derived before anything is deleted; two quotas of one number break the unique
  constraint of the table.\<close>

definition refresh_details_locked ::
  "toluna_reference_question list \<Rightarrow> pk \<Rightarrow> survey \<Rightarrow> timestamp \<Rightarrow> db \<Rightarrow> py_error + db" where
  "refresh_details_locked references integration s now d =
     (let raw = sv_raw_data s; culture = survey_culture raw; known = culture_references references integration culture in
      and_then (items_at raw ''Quotas'') (\<lambda>payloads.
      and_then (quota_question_rows payloads) (\<lambda>rows.
      and_then (derived_questions known culture (sv_id s) rows now) (\<lambda>questions.
        if distinct (map quota_id_of (filter (\<lambda>p. 0 \<le> quota_id_of p) payloads))
        then Inr (replace_details questions (derived_quotas (sv_id s) payloads now) (sv_id s) now d)
        else Inl (IntegrityError ''unique_survey_quota'')))))"

text \<open>Afterwards the notifications about the survey that arrived since it was last seen are applied
  again: they may be newer than the inventory the quotas were built from.\<close>

definition refresh_details ::
  "notification_services \<Rightarrow> toluna_reference_question list \<Rightarrow> pk \<Rightarrow> pk \<Rightarrow> timestamp \<Rightarrow> db \<Rightarrow> db \<times> (py_error + unit)" where
  "refresh_details nv references integration i now d =
     (case and_then (of_option (DoesNotExist ''Survey'') (get_survey d i))
             (\<lambda>s. map_sum id (Pair s) (refresh_details_locked references integration s now d)) of
        Inl e \<Rightarrow> (d, Inl e)
      | Inr (s, d') \<Rightarrow>
          (case reconcile_toluna_operational_notifications nv s True (Some (sv_last_seen_at s)) now d' of
             (d'', res) \<Rightarrow> (d'', map_sum id (\<lambda>_. ()) res)))"

end
