(* ===== verification/Toluna_Matching.thy ===== *)
theory Toluna_Matching
  imports Toluna_Targeting
begin

text \<open>
  Which quota of a survey a respondent is sent to, \<open>surveys/providers/toluna.py\<close>: the age an answer
  stands for, whether an answer meets a condition (\<open>_answer_matches\<close>), and the first open quota whose
  every layer has a subquota the answers meet (\<open>_matching_quota\<close>).  The answers are the dictionary
  collected from the prescreener.  Of the texts \<open>date.fromisoformat\<close> reads, only year-month-day is one
  here; the week dates of recent Python versions are not.
\<close>

section \<open>Answers\<close>

definition answers_by_question :: "jdict \<Rightarrow> (int \<times> jdict) list" where
  "answers_by_question answers =
     rev (filter (\<lambda>(q, _). 0 \<le> q)
       (map (\<lambda>(_, v). (integer_or (-1) (dict_get (only_dict v) ''question_id''), only_dict v)) answers))"

definition answer_texts_at :: "jdict \<Rightarrow> string \<Rightarrow> string list" where
  "answer_texts_at answer name =
     (case dict_get answer name of JArr vs \<Rightarrow> map py_str vs | _ \<Rightarrow> [])"

definition sent_values :: "jdict \<Rightarrow> string list" where
  "sent_values answer =
     (if answer_texts_at answer ''upstream_values'' \<noteq> [] then answer_texts_at answer ''upstream_values''
      else answer_texts_at answer ''values'')"

definition first_answer :: "jdict \<Rightarrow> string" where
  "first_answer answer = (case answer_texts_at answer ''values'' of [] \<Rightarrow> [] | v # _ \<Rightarrow> v)"

section \<open>Ages\<close>

definition age_between :: "date \<Rightarrow> date \<Rightarrow> int" where
  "age_between born today =
     (case (born, today) of ((by, bm, bd), (ty, tm, td)) \<Rightarrow>
        ty - by - (if tm < bm \<or> (tm = bm \<and> td < bd) then 1 else 0))"

definition iso_day :: "string \<Rightarrow> date option" where
  "iso_day s =
     (case py_split (CHR ''-'') s of
        [y, m, d] \<Rightarrow> if length y = 4 \<and> length m = 2 \<and> length d = 2
                     then date_of_fields (digits_field y) (digits_field m) (digits_field d) else None
      | _ \<Rightarrow> None)"

definition stated_age :: "date \<Rightarrow> string \<Rightarrow> int option" where
  "stated_age today value =
     (let raw = py_strip value in
      if raw \<noteq> [] \<and> list_all is_digit_ascii raw then Some (int (digits_value raw))
      else map_option (\<lambda>born. age_between born today) (iso_day raw))"

definition within_range :: "int \<Rightarrow> (int \<times> int) option \<Rightarrow> bool" where
  "within_range age band = (case band of Some (low, high) \<Rightarrow> low \<le> age \<and> age \<le> high | None \<Rightarrow> False)"

definition TOLUNA_MAX_RESPONDENT_AGE :: int where
  "TOLUNA_MAX_RESPONDENT_AGE = 99"

section \<open>Whether an answer meets a condition\<close>

definition toluna_kind :: "targeting_question \<Rightarrow> string" where
  "toluna_kind q = str_or (dict_get (only_dict (tq_raw_data q)) ''toluna_kind'') ''profile''"

definition age_option_rows :: "targeting_question \<Rightarrow> jdict list" where
  "age_option_rows q =
     option_dicts (json_or (dict_get (only_dict (tq_raw_data q)) ''toluna_age_options'') (tq_options q))"

text \<open>The verdict of the age branch: \<^term>\<open>None\<close> where the code falls through to the rest.\<close>

definition age_verdict ::
  "date \<Rightarrow> string list \<Rightarrow> string list \<Rightarrow> jdict \<Rightarrow> targeting_question \<Rightarrow> bool option" where
  "age_verdict today allowed_ids allowed_values answer q =
     (case answer_texts_at answer ''values'' of
        [] \<Rightarrow> Some False
      | v # _ \<Rightarrow>
          (case stated_age today v of
             None \<Rightarrow> Some False
           | Some age \<Rightarrow>
               if \<not> (1 \<le> age \<and> age \<le> TOLUNA_MAX_RESPONDENT_AGE) then Some False
               else if list_ex (\<lambda>item. within_range age (normalize_age_range (JStr item))) allowed_values
                 then Some True
               else if allowed_ids = [] then None
               else Some (list_ex (\<lambda>opt. py_str (dict_get opt ''OptionId'') \<in> set allowed_ids
                                     \<and> within_range age (normalize_age_range (JObj opt))) (age_option_rows q))))"

definition postal_key :: "string \<Rightarrow> string" where
  "postal_key s = filter (\<lambda>c. \<not> is_ascii_space c \<and> c \<noteq> CHR ''-'') s"

definition value_verdict :: "string \<Rightarrow> string list \<Rightarrow> jdict \<Rightarrow> bool" where
  "value_verdict kind allowed_values answer =
     (let raw = py_lower (py_strip (first_answer answer)) in
      if kind = ''postal''
      then postal_key raw \<noteq> []
           \<and> list_ex (\<lambda>c. c \<noteq> [] \<and> prefix c (postal_key raw)) (map (\<lambda>c. postal_key (py_lower c)) allowed_values)
      else raw \<in> set (map py_lower allowed_values))"

definition open_answer_verdict :: "string list \<Rightarrow> jdict \<Rightarrow> targeting_question \<Rightarrow> bool" where
  "open_answer_verdict allowed_ids answer q =
     (if allowed_ids \<noteq> [] \<and> contains_text ''text'' (py_lower (tq_question_type q))
         \<and> set allowed_ids \<inter> set (map (\<lambda>opt. py_str (dict_get opt ''OptionId'')) (option_dicts (tq_options q))) \<noteq> {}
      then py_strip (first_answer answer) \<noteq> [] else allowed_ids = [])"

definition answer_matches :: "date \<Rightarrow> json \<Rightarrow> jdict \<Rightarrow> targeting_question \<Rightarrow> py_error + bool" where
  "answer_matches today condition answer q =
     map_sum id
       (\<lambda>ids. let allowed_ids = map py_str ids; allowed_values = answer_values condition; kind = toluna_kind q in
         case (if kind = ''birth_date'' then age_verdict today allowed_ids allowed_values answer q else None) of
           Some verdict \<Rightarrow> verdict
         | None \<Rightarrow>
             if set (sent_values answer) \<inter> set allowed_ids \<noteq> {} then True
             else if allowed_values \<noteq> [] then value_verdict kind allowed_values answer
             else open_answer_verdict allowed_ids answer q)
       (items_at condition ''AnswerIDs'')"

section \<open>The quota of a respondent\<close>

definition survey_questions_by_id :: "db \<Rightarrow> pk \<Rightarrow> (int \<times> targeting_question) list" where
  "survey_questions_by_id d survey =
     rev (map (\<lambda>q. (tq_question_id q, q))
       (sort_key tq_question_id (filter (\<lambda>q. tq_survey q = survey) (targeting_questions d))))"

definition condition_matches ::
  "date \<Rightarrow> (int \<times> jdict) list \<Rightarrow> (int \<times> targeting_question) list \<Rightarrow> json \<Rightarrow> py_error + bool" where
  "condition_matches today given asked condition =
     (let q = condition_question condition in
      if is_routable condition \<and> map_of asked q = None then Inr True
      else (case (map_of given q, map_of asked q) of
              (Some answer, Some row) \<Rightarrow> answer_matches today condition answer row
            | _ \<Rightarrow> Inr False))"

definition conditions_by_question :: "json list \<Rightarrow> json list list" where
  "conditions_by_question conditions =
     map (\<lambda>q. filter (\<lambda>c. condition_question c = q) conditions) (keep_first (map condition_question conditions))"

definition subquota_matches ::
  "date \<Rightarrow> (int \<times> jdict) list \<Rightarrow> (int \<times> targeting_question) list \<Rightarrow> json \<Rightarrow> py_error + bool" where
  "subquota_matches today given asked subquota =
     (if \<not> has_capacity subquota then Inr False
      else and_then (items_at subquota ''QuestionsAndAnswers'')
             (\<lambda>conditions. all_ok (any_ok (condition_matches today given asked)) (conditions_by_question conditions)))"

definition layer_matches ::
  "date \<Rightarrow> (int \<times> jdict) list \<Rightarrow> (int \<times> targeting_question) list \<Rightarrow> json \<Rightarrow> py_error + bool" where
  "layer_matches today given asked layer =
     and_then (items_at layer ''SubQuotas'') (any_ok (subquota_matches today given asked))"

definition quota_matches ::
  "date \<Rightarrow> (int \<times> jdict) list \<Rightarrow> (int \<times> targeting_question) list \<Rightarrow> json \<Rightarrow> py_error + bool" where
  "quota_matches today given asked payload =
     and_then (items_at payload ''Layers'') (all_ok (layer_matches today given asked))"

definition open_quotas :: "db \<Rightarrow> pk \<Rightarrow> survey_quota list" where
  "open_quotas d survey = sort_key sq_id (filter (\<lambda>q. sq_survey q = survey \<and> 0 < sq_remaining q) (quotas d))"

definition no_open_quota :: py_error where
  "no_open_quota = ProviderError ''The respondent profile does not match an open Toluna quota.''"

fun first_matching ::
  "date \<Rightarrow> (int \<times> jdict) list \<Rightarrow> (int \<times> targeting_question) list \<Rightarrow> survey_quota list \<Rightarrow> py_error + survey_quota" where
  "first_matching today given asked [] = Inl no_open_quota"
| "first_matching today given asked (q # qs) =
     and_then (quota_matches today given asked (sq_raw_data q))
       (\<lambda>b. if b then Inr q else first_matching today given asked qs)"

definition matching_quota :: "date \<Rightarrow> db \<Rightarrow> survey \<Rightarrow> jdict \<Rightarrow> py_error + survey_quota" where
  "matching_quota today d s answers =
     first_matching today (answers_by_question answers) (survey_questions_by_id d (sv_id s)) (open_quotas d (sv_id s))"

end
