(* ===== verification/Toluna_Members.thy ===== *)
theory Toluna_Members
  imports Toluna_Matching Survey_Flow Profile_Reuse
begin

text \<open>
  What is sent to Toluna about a respondent, \<open>surveys/providers/toluna.py\<close>: the date of birth made from
  an age (\<open>_birth_date\<close>) and the member payload with its registration answers (\<open>_member_payload\<close>).  The
  digest is a parameter that returns the bytes, the environment the process environment, and \<open>today\<close> the
  date of the server.
\<close>

record toluna_services =
  tv_sha256 :: "string \<Rightarrow> nat list"
  tv_environment :: "string \<Rightarrow> string option"
  tv_ip_literal :: "string \<Rightarrow> bool"
  tv_today :: date

section \<open>The date of birth\<close>

definition invalid_age :: py_error where
  "invalid_age = ProviderError ''Enter a valid age before Toluna member registration.''"

definition respondent_age_ok :: "int \<Rightarrow> bool" where
  "respondent_age_ok age = (1 \<le> age \<and> age \<le> TOLUNA_MAX_RESPONDENT_AGE)"

text \<open>Month and day come from the digest of the member code, the year is the one that makes the age
  right today.\<close>

definition born_with_age :: "nat list \<Rightarrow> int \<Rightarrow> date \<Rightarrow> py_error + date" where
  "born_with_age digest age today =
     (case today of (ty, tm, td) \<Rightarrow>
       (let month = digest ! 0 mod 12 + 1; day = digest ! 1 mod 28 + 1;
            year = ty - age - (if tm < month \<or> (tm = month \<and> td < day) then 1 else 0)
        in if 1 \<le> year \<and> year \<le> 9999 then Inr (year, month, day)
           else Inl (ValueError ''year is out of range'')))"

definition birth_date :: "toluna_services \<Rightarrow> string \<Rightarrow> string \<Rightarrow> py_error + date" where
  "birth_date tv value member_code =
     (let raw = py_strip value in
      if raw \<noteq> [] \<and> list_all is_digit_ascii raw
      then (let age = int (digits_value raw) in
            if \<not> respondent_age_ok age then Inl invalid_age
            else born_with_age (tv_sha256 tv (if member_code \<noteq> [] then member_code else raw)) age (tv_today tv))
      else (case iso_day raw of
              None \<Rightarrow> Inl invalid_age
            | Some born \<Rightarrow> if respondent_age_ok (age_between born (tv_today tv)) then Inr born else Inl invalid_age))"

definition us_date :: "date \<Rightarrow> string" where
  "us_date dt = (case dt of (y, m, d) \<Rightarrow>
     zero_pad 2 (show_nat m) @ ''/'' @ zero_pad 2 (show_nat d) @ ''/'' @ show_int y)"

section \<open>A registration answer\<close>

text \<open>An answer is a number of the provider, for an open question with the text.\<close>

type_synonym registration = "int \<times> (int \<times> string option) list"

definition stripped :: "string list \<Rightarrow> string list" where
  "stripped vs = filter (\<lambda>v. v \<noteq> []) (map py_strip vs)"

definition given_texts :: "jdict \<Rightarrow> string list" where
  "given_texts answer = stripped (answer_texts_at answer ''values'')"

definition upstream_texts :: "jdict \<Rightarrow> string list" where
  "upstream_texts answer =
     stripped (if answer_texts_at answer ''upstream_values'' \<noteq> [] then answer_texts_at answer ''upstream_values''
               else given_texts answer)"

definition flag_or :: "jdict \<Rightarrow> string \<Rightarrow> bool \<Rightarrow> bool" where
  "flag_or raw name fallback = (case map_of raw name of Some v \<Rightarrow> truthy v | None \<Rightarrow> fallback)"

definition raw_of :: "targeting_question \<Rightarrow> jdict" where
  "raw_of q = only_dict (tq_raw_data q)"

definition reference_type :: "toluna_reference_question option \<Rightarrow> targeting_question \<Rightarrow> string" where
  "reference_type ref q =
     py_lower (case ref of
       Some r \<Rightarrow> if trq_answer_type r \<noteq> [] then trq_answer_type r
                 else str_or (dict_get (raw_of q) ''reference_answer_type'') []
     | None \<Rightarrow> str_or (dict_get (raw_of q) ''reference_answer_type'') [])"

definition question_routable :: "toluna_reference_question option \<Rightarrow> targeting_question \<Rightarrow> bool" where
  "question_routable ref q =
     flag_or (raw_of q) ''toluna_is_routable'' (case ref of Some r \<Rightarrow> trq_is_routable r | None \<Rightarrow> False)"

definition required_for_member :: "toluna_reference_question option \<Rightarrow> targeting_question \<Rightarrow> bool" where
  "required_for_member ref q =
     flag_or (raw_of q) ''required_for_member''
       (if toluna_kind q = ''postal''
        then truthy (dict_get (raw_of q) ''required_by_provider'') \<and> \<not> question_routable ref q
             \<and> \<not> contains_text ''computed'' (reference_type ref q)
        else toluna_kind q = ''gender'' \<or> truthy (dict_get (raw_of q) ''required_by_provider''))"

definition member_error :: "int \<Rightarrow> string \<Rightarrow> py_error" where
  "member_error question problem = ProviderError (''Toluna member question '' @ show_int question @ '' '' @ problem)"

definition missing_answer :: "int \<Rightarrow> py_error" where
  "missing_answer question =
     ProviderError (''Toluna member profile is missing required question '' @ show_int question @ ''.'')"

definition option_rows :: "targeting_question \<Rightarrow> jdict list" where
  "option_rows q =
     filter (\<lambda>opt. dict_get opt ''OptionId'' \<noteq> JNull \<and> dict_get opt ''OptionId'' \<noteq> JStr [])
       (List.map_filter as_dict (case tq_options q of JArr xs \<Rightarrow> xs | _ \<Rightarrow> []))"

definition option_ids :: "targeting_question \<Rightarrow> int list" where
  "option_ids q = filter (\<lambda>i. i \<noteq> -1) (remdups (map (\<lambda>opt. integer_or (-1) (dict_get opt ''OptionId'')) (option_rows q)))"

definition allowed_ids :: "targeting_question \<Rightarrow> int list" where
  "allowed_ids q =
     filter (\<lambda>i. i \<noteq> -1)
       (remdups (map (integer_or (-1))
          (case dict_get (raw_of q) ''allowed_answer_ids'' of JArr xs \<Rightarrow> xs | _ \<Rightarrow> [])))"

text \<open>Open questions: exactly one number to attach the text to.\<close>

definition envelope_ids :: "targeting_question \<Rightarrow> int list" where
  "envelope_ids q =
     (if allowed_ids q \<noteq> [] \<and> option_ids q \<noteq> [] then filter (\<lambda>i. i \<in> set (option_ids q)) (allowed_ids q)
      else if allowed_ids q \<noteq> [] then allowed_ids q else option_ids q)"

definition trusted_ids :: "targeting_question \<Rightarrow> int list" where
  "trusted_ids q = (if allowed_ids q \<noteq> [] then allowed_ids q else option_ids q)"

text \<open>The number of an option by its label, if all options of that label have the same one.\<close>

definition ids_of_label :: "targeting_question \<Rightarrow> string \<Rightarrow> int list" where
  "ids_of_label q label =
     remdups (map (\<lambda>opt. integer_or (-1) (dict_get opt ''OptionId''))
       (filter (\<lambda>opt. label \<in> set (reference_labels opt)) (option_rows q)))"

definition answer_id :: "targeting_question \<Rightarrow> string \<Rightarrow> int" where
  "answer_id q value =
     (let stated = integer_or (-1) (JStr value) in
      if 0 \<le> stated then stated
      else (case ids_of_label q (py_lower value) of [i] \<Rightarrow> i | _ \<Rightarrow> -1))"

fun mapped_ids :: "targeting_question \<Rightarrow> string list \<Rightarrow> int list option" where
  "mapped_ids q [] = Some []"
| "mapped_ids q (v # vs) =
     (if answer_id q v < 0 \<or> answer_id q v \<notin> set (trusted_ids q) then None
      else map_option (\<lambda>is. answer_id q v # is) (mapped_ids q vs))"

text \<open>What cannot be mapped is left out when it is optional, and refused otherwise.\<close>

definition skip_or :: "bool \<Rightarrow> py_error \<Rightarrow> py_error + 'a option" where
  "skip_or optional e = (if optional then Inr None else Inl e)"

definition registration_answer ::
  "toluna_reference_question option \<Rightarrow> targeting_question \<Rightarrow> jdict \<Rightarrow> py_error + registration option" where
  "registration_answer ref q answer =
     (let question = tq_question_id q; vs = given_texts answer; upstream = upstream_texts answer;
          required = required_for_member ref q; routable = question_routable ref q;
          optional = (routable \<and> \<not> required)
      in if contains_text ''computed'' (reference_type ref q) then Inr None
         else if vs = [] \<or> upstream = [] then (if required then Inl (missing_answer question) else Inr None)
         else if \<not> required \<and> \<not> routable then Inr None
         else if contains_text ''open'' (reference_type ref q) \<or> contains_text ''text'' (py_lower (tq_question_type q))
         then (case envelope_ids q of
                 [i] \<Rightarrow> Inr (Some (question, map (\<lambda>v. (i, Some v)) vs))
               | _ \<Rightarrow> skip_or optional (member_error question ''has no unambiguous open-answer mapping.''))
         else if trusted_ids q = [] then skip_or optional (member_error question ''has no trusted answer mapping.'')
         else (case mapped_ids q upstream of
                 None \<Rightarrow> skip_or optional (member_error question ''has an invalid answer mapping.'')
               | Some is \<Rightarrow>
                   if length is \<noteq> length vs
                   then skip_or optional (member_error question ''could not serialize every required answer.'')
                   else Inr (Some (question, map (\<lambda>i. (i, None)) is))))"

section \<open>The member payload\<close>

type_synonym profile_state = "registration list \<times> date option \<times> string"

definition member_step ::
  "toluna_services \<Rightarrow> toluna_reference_question list \<Rightarrow> (int \<times> jdict) list \<Rightarrow> string \<Rightarrow> targeting_question
   \<Rightarrow> profile_state \<Rightarrow> py_error + profile_state" where
  "member_step tv references given member_code q st =
     (case st of (answers, born, postal) \<Rightarrow>
       (let question = tq_question_id q; ref = reference_of references question;
            answer = (case map_of given question of Some a \<Rightarrow> a | None \<Rightarrow> []); vs = given_texts answer in
        if toluna_kind q = ''birth_date''
        then (if vs = [] then Inr st
              else map_sum id (\<lambda>b. (answers, Some b, postal)) (birth_date tv (hd vs) member_code))
        else if toluna_kind q = ''postal''
        then (if vs = [] then (if required_for_member ref q then Inl (missing_answer question) else Inr st)
              else Inr (answers, born, hd vs))
        else map_sum id
               (\<lambda>found. (answers @ (case found of Some r \<Rightarrow> [r] | None \<Rightarrow> []), born, postal))
               (registration_answer ref q answer)))"

definition member_culture :: "survey \<Rightarrow> string" where
  "member_culture s =
     map (\<lambda>c. if c = CHR ''-'' then CHR ''_'' else c)
       (str_or (dict_get (only_dict (dict_get (only_dict (sv_raw_data s)) ''_toluna'')) ''culture_code'') [])"

definition dashed :: "string \<Rightarrow> string" where
  "dashed culture = map (\<lambda>c. if c = CHR ''_'' then CHR ''-'' else c) culture"

definition panel_guid ::
  "toluna_services \<Rightarrow> client_integration \<Rightarrow> string \<Rightarrow> bool \<Rightarrow> py_error + string" where
  "panel_guid tv ci culture fallback =
     (let keys = only_dict (ci_credential_env_keys ci); own = dict_get keys (''panel_'' @ culture) in
      environment_value (tv_environment tv)
        (if fallback then json_or own (dict_get keys ''partner_guid'') else own)
        (''Toluna '' @ dashed culture @ '' PanelGUID''))"

definition stored_questions :: "db \<Rightarrow> pk \<Rightarrow> targeting_question list" where
  "stored_questions d survey = sort_key tq_question_id (filter (\<lambda>q. tq_survey q = survey) (targeting_questions d))"

definition answers_json :: "registration \<Rightarrow> json" where
  "answers_json r =
     JObj [(''QuestionID'', JInt (fst r)),
       (''Answers'', JArr (map (\<lambda>(i, v). JObj ((''AnswerID'', JInt i)
           # (case v of Some t \<Rightarrow> [(''AnswerValue'', JStr t)] | None \<Rightarrow> []))) (snd r)))]"

record member_profile =
  mp_partner :: string
  mp_code :: string
  mp_born :: date
  mp_is_test :: bool
  mp_answers :: "registration list"
  mp_postal :: string

definition payload_json :: "member_profile \<Rightarrow> json" where
  "payload_json p =
     JObj ([(''PartnerGUID'', JStr (mp_partner p)), (''MemberCode'', JStr (mp_code p)), (''IsActive'', JBool True),
            (''BirthDate'', JStr (us_date (mp_born p))), (''IsTest'', JBool (mp_is_test p)),
            (''RegistrationAnswers'', JArr (map answers_json (mp_answers p)))]
           @ (if mp_postal p \<noteq> [] then [(''PostalCode'', JStr (mp_postal p))] else []))"

definition is_gender_answer :: "targeting_question list \<Rightarrow> registration \<Rightarrow> bool" where
  "is_gender_answer questions r =
     list_ex (\<lambda>q. tq_question_id q = fst r \<and> dict_get (raw_of q) ''toluna_kind'' = JStr ''gender'') questions"

definition member_payload_of ::
  "toluna_services \<Rightarrow> toluna_reference_question list \<Rightarrow> client_integration \<Rightarrow> db \<Rightarrow> survey \<Rightarrow> survey_attempt \<Rightarrow> jdict
   \<Rightarrow> py_error + member_profile" where
  "member_payload_of tv references ci d s a answers =
     (let code = effective_profile_uid a; culture = member_culture s; questions = stored_questions d (sv_id s);
          known = culture_references references (ci_id ci) (dashed culture) in
      and_then (panel_guid tv ci culture True) (\<lambda>partner.
      and_then (fold_ok (member_step tv known (answers_by_question answers) code) questions ([], None, []))
        (\<lambda>(registered, born, postal).
          case born of
            None \<Rightarrow> Inl (ProviderError ''Date of birth is required before Toluna member registration.'')
          | Some b \<Rightarrow>
              if \<not> list_ex (is_gender_answer questions) registered
              then Inl (ProviderError ''Gender is required before Toluna member registration.'')
              else Inr \<lparr>mp_partner = partner, mp_code = code, mp_born = b,
                     mp_is_test = flag_or (only_dict (ci_config ci)) ''is_test_member'' False,
                     mp_answers = registered, mp_postal = postal\<rparr>)))"

end
