(* ===== verification/Py_Numbers.thy ===== *)
theory Py_Numbers
  imports Py_Values
begin

text \<open>
  Decimals as the code reads them from loosely typed values: \<open>Decimal(str(value))\<close> of a finite number.
  The texts for infinity and for not-a-number are no decimals here.
\<close>

definition signed_rest :: "string \<Rightarrow> bool \<times> string" where
  "signed_rest s =
     (case s of c # cs \<Rightarrow> if c = CHR ''-'' then (True, cs) else if c = CHR ''+'' then (False, cs) else (False, s)
      | [] \<Rightarrow> (False, []))"

definition mantissa :: "string \<Rightarrow> rat option" where
  "mantissa s =
     (case py_partition (CHR ''.'') s of
        (whole, _, fraction) \<Rightarrow>
          if whole @ fraction \<noteq> [] \<and> list_all is_digit_ascii (whole @ fraction)
          then Some (of_nat (digits_value (whole @ fraction)) / 10 ^ length fraction) else None)"

definition exponent :: "string \<Rightarrow> int option" where
  "exponent s =
     (case signed_rest s of (negative, digits) \<Rightarrow>
        map_option (\<lambda>n. if negative then - int n else int n) (digits_field digits))"

definition power_of_ten :: "int \<Rightarrow> rat" where
  "power_of_ten e = (if 0 \<le> e then 10 ^ nat e else 1 / 10 ^ nat (- e))"

definition parse_decimal :: "string \<Rightarrow> decimal option" where
  "parse_decimal text =
     (case signed_rest (filter (\<lambda>c. c \<noteq> CHR ''_'') (py_lower (py_strip text))) of
        (negative, s) \<Rightarrow>
          (case py_partition (CHR ''e'') s of
             (m, scaled, e) \<Rightarrow>
               (case (mantissa m, if scaled then exponent e else Some 0) of
                  (Some q, Some k) \<Rightarrow> Some ((if negative then -1 else 1) * q * power_of_ten k)
                | _ \<Rightarrow> None)))"

text \<open>\<open>Decimal(str(value)) if value not in (None, "") else None\<close>, with what cannot be read as none.\<close>

definition decimal_or_none :: "json \<Rightarrow> decimal option" where
  "decimal_or_none v = (if v = JNull \<or> v = JStr [] then None else parse_decimal (py_str v))"

lemma decimal_samples_all:
  "parse_decimal '' 2.50 '' = Some (5 / 2) \<and> parse_decimal ''-1e2'' = Some (-100)
   \<and> parse_decimal ''1_0.5E-1'' = Some (21 / 20) \<and> parse_decimal ''.'' = None \<and> parse_decimal ''2,5'' = None"
  by code_simp

end
