(* ===== verification/Toluna_Invites.thy ===== *)
theory Toluna_Invites
  imports Toluna_Members Py_Numbers Prescreener_Submission
begin

text \<open>
  Sending a respondent to Toluna, \<open>surveys/providers/toluna.py\<close>: registering the member
  (\<open>_register_member\<close>) and building the outbound URL from the provider's invite (\<open>build_outbound_url\<close>).
  The provider's answers are a parameter, and so is whether the single-flight lock of the member was
  got in time; the wait of the throttle changes nothing the functions return.  Registration returns the
  requests it made, in order.
\<close>

datatype respondent_reply = Reply_Status nat | Reply_Failed string

datatype invite_reply = Invite json | Api_Error string "int option" string | Invite_Failed string

record toluna_upstream =
  tu_respondent :: "string \<Rightarrow> json \<Rightarrow> respondent_reply"
  tu_invite :: "string \<Rightarrow> string \<Rightarrow> int option \<Rightarrow> invite_reply"

section \<open>Registering a member\<close>

definition hex_of_bytes :: "nat list \<Rightarrow> string" where
  "hex_of_bytes bytes = concat (map (\<lambda>b. [hex_digit (b div 16), hex_digit (b mod 16)]) bytes)"

definition profile_hash :: "toluna_services \<Rightarrow> member_profile \<Rightarrow> string" where
  "profile_hash tv p = hex_of_bytes (tv_sha256 tv (dumps_sorted (payload_json p)))"

definition member_of :: "toluna_member list \<Rightarrow> pk \<Rightarrow> string \<Rightarrow> toluna_member option" where
  "member_of members integration code =
     List.find (\<lambda>m. tm_integration m = integration \<and> tm_member_code m = code) members"

definition new_member :: "pk \<Rightarrow> pk \<Rightarrow> string \<Rightarrow> string \<Rightarrow> timestamp \<Rightarrow> toluna_member" where
  "new_member i integration code culture now =
     \<lparr>tm_id = i, tm_integration = integration, tm_member_code = code, tm_culture_code = culture,
      tm_profile_hash = [], tm_is_registered = False, tm_last_synced_at = None, tm_last_error = [],
      tm_created_at = now, tm_updated_at = now\<rparr>"

definition get_or_create_member ::
  "toluna_member list \<Rightarrow> pk \<Rightarrow> string \<Rightarrow> string \<Rightarrow> timestamp \<Rightarrow> toluna_member list \<times> toluna_member" where
  "get_or_create_member members integration code culture now =
     (case member_of members integration code of
        Some m \<Rightarrow> (members, m)
      | None \<Rightarrow> let m = new_member (next_pk tm_id members) integration code culture now in (members @ [m], m))"

definition save_member :: "toluna_member \<Rightarrow> toluna_member list \<Rightarrow> toluna_member list" where
  "save_member m members = update_where (\<lambda>r. tm_id r = tm_id m) (\<lambda>_. m) members"

text \<open>A conflict is answered by an update; the requests made and what went wrong.\<close>

definition respondent_requests ::
  "toluna_upstream \<Rightarrow> string \<Rightarrow> json \<Rightarrow> (string \<times> json) list \<times> string option" where
  "respondent_requests up request payload =
     (case tu_respondent up request payload of
        Reply_Failed message \<Rightarrow> ([(request, payload)], Some message)
      | Reply_Status status \<Rightarrow>
          if status \<noteq> 409 then ([(request, payload)], None)
          else ([(request, payload), (''PUT'', payload)],
                case tu_respondent up ''PUT'' payload of
                  Reply_Failed message \<Rightarrow> Some message
                | Reply_Status second \<Rightarrow>
                    if second = 200 then None
                    else Some (''Toluna request failed (HTTP '' @ show_nat second @ '').'')))"

definition register_member ::
  "toluna_services \<Rightarrow> toluna_upstream \<Rightarrow> bool \<Rightarrow> pk \<Rightarrow> string \<Rightarrow> member_profile \<Rightarrow> timestamp \<Rightarrow> toluna_member list
   \<Rightarrow> toluna_member list \<times> (string \<times> json) list \<times> (py_error + unit)" where
  "register_member tv up acquired integration culture p now members =
     (if \<not> acquired
      then (members, [], Inl (ProviderError ''This Toluna member profile is already being synchronized. Please submit again shortly.''))
      else (case get_or_create_member members integration (mp_code p) culture now of
        (members, m) \<Rightarrow>
          if tm_is_registered m \<and> tm_profile_hash m = profile_hash tv p then (members, [], Inr ())
          else (case respondent_requests up (if tm_is_registered m then ''PUT'' else ''POST'') (payload_json p) of
                  (sent, Some message) \<Rightarrow>
                    (save_member (m\<lparr>tm_last_error := message, tm_updated_at := now\<rparr>) members, sent,
                     Inl (ProviderError message))
                | (sent, None) \<Rightarrow>
                    (save_member (m\<lparr>tm_profile_hash := profile_hash tv p, tm_is_registered := True,
                        tm_last_synced_at := Some now, tm_last_error := [], tm_updated_at := now\<rparr>) members,
                     sent, Inr ()))))"

section \<open>The invite\<close>

definition TOLUNA_INVITE_RESULT_STATUS :: "(int \<times> attempt_status) list" where
  "TOLUNA_INVITE_RESULT_STATUS =
     map (\<lambda>c. (c, SURVEY_NOT_AVAILABLE)) [5, 6, 8, 9, 10, 15, 17, 23, 24, 25, 27, 32, 33, 37, 42, 43, 45]
     @ map (\<lambda>c. (c, OVER_QUOTA)) [28, 29, 41, 46, 47]
     @ map (\<lambda>c. (c, NOT_QUALIFIED)) [13, 16, 21, 31, 35]
     @ map (\<lambda>c. (c, QUALITY_TERMINATED)) [14, 22, 34]
     @ map (\<lambda>c. (c, SURVEY_TAKEN)) [26, 30, 38]
     @ map (\<lambda>c. (c, MAX_SURVEYS_REACHED)) [39, 40]"

fun invite_message :: "attempt_status \<Rightarrow> string" where
  "invite_message OVER_QUOTA = ''The selected Toluna quota is full.''"
| "invite_message QUALITY_TERMINATED = ''Toluna rejected this attempt for a security or quality rule.''"
| "invite_message SURVEY_NOT_AVAILABLE = ''This Toluna survey is not currently available for this respondent route.''"
| "invite_message MAX_SURVEYS_REACHED = ''This respondent has reached Toluna's survey frequency limit.''"
| "invite_message NOT_QUALIFIED = ''The respondent profile does not match an available Toluna route.''"
| "invite_message SURVEY_TAKEN = ''This respondent has already taken or been excluded from this Toluna survey.''"
| "invite_message _ = []"

definition invite_of :: "invite_reply \<Rightarrow> provider_failure + json" where
  "invite_of reply =
     (case reply of
        Invite v \<Rightarrow> Inr v
      | Invite_Failed message \<Rightarrow> Inl (Raised (ProviderError message))
      | Api_Error message code result \<Rightarrow>
          (case Option.bind code (map_of TOLUNA_INVITE_RESULT_STATUS) of
             None \<Rightarrow> Inl (Raised (ProviderError message))
           | Some status \<Rightarrow>
               Inl (Invite_Rejected \<lparr>ir_status = status, ir_result = JStr result,
                      ir_result_code = json_id code, ir_text = invite_message status\<rparr>)))"

text \<open>The value of the first \<open>rid\<close> in a query.\<close>

definition first_rid :: "string \<Rightarrow> string" where
  "first_rid query =
     (case List.find (\<lambda>(k, found, _). found \<and> py_lower (unquote_plus k) = ''rid'')
             (map (py_partition (CHR ''='')) (py_split (CHR ''&'') query)) of
        Some (_, _, v) \<Rightarrow> v | None \<Rightarrow> [])"

definition with_rid :: "string \<Rightarrow> string \<Rightarrow> string" where
  "with_rid url rid =
     (case py_partition (CHR ''#'') url of
        (base, marked, fragment) \<Rightarrow>
          base @ (if CHR ''?'' \<in> set base then ''&'' else ''?'') @ ''rid='' @ rid
          @ (if marked then ''#'' @ fragment else []))"

definition outbound_link :: "toluna_services \<Rightarrow> string \<Rightarrow> string \<Rightarrow> py_error + string" where
  "outbound_link tv url rid =
     and_then (urlsplit (tv_ip_literal tv) url) (\<lambda>parts.
       if py_lower (up_scheme parts) \<notin> {''http'', ''https''} \<or> up_netloc parts = []
       then Inl (ProviderError ''Toluna returned an invalid survey invite URL.'')
       else (let existing = first_rid (up_query parts) in
             if existing \<noteq> [] \<and> unquote_plus existing \<noteq> rid
             then Inl (ProviderError ''Toluna invite contained an unexpected respondent RID.'')
             else Inr (if existing \<noteq> [] then url else with_rid url rid)))"

definition invite_fits :: "survey \<Rightarrow> survey_quota \<Rightarrow> json \<Rightarrow> bool" where
  "invite_fits s q invite =
     (integer_or (-2) (pick invite [''SurveyID'', ''SurveyId'']) = integer_or (-1) (pick (sv_raw_data s) [''SurveyID''])
      \<and> integer_or (-2) (pick invite [''WaveID'']) = integer_or (-1) (pick (sv_raw_data s) [''WaveID''])
      \<and> integer_or (-2) (pick invite [''QuotaID'', ''QuotaId''])
          = (case sq_quota_id q of Some i \<Rightarrow> i | None \<Rightarrow> -1))"

definition invite_record :: "json \<Rightarrow> json" where
  "invite_record invite =
     JObj [(''survey_id'', pick invite [''SurveyID'', ''SurveyId'']), (''wave_id'', pick invite [''WaveID'']),
       (''quota_id'', pick invite [''QuotaID'']),
       (''partner_amount'', JStr (py_str (pick_default (JStr []) invite [''PartnerAmount'']))),
       (''member_amount'', JStr (py_str (pick_default (JStr []) invite [''MemberAmount'']))),
       (''loi'', pick invite [''LOI'']), (''ir'', pick invite [''IR''])]"

definition invite_cpi :: "json \<Rightarrow> decimal option \<Rightarrow> decimal option" where
  "invite_cpi invite current =
     (case decimal_or_none (pick invite [''PartnerAmount'']) of
        Some amount \<Rightarrow> if amount \<noteq> 0 then Some amount else current
      | None \<Rightarrow> current)"

text \<open>What the invite makes of the attempt: the URL, and the provider's amount as its CPI.\<close>

definition accepted_invite ::
  "toluna_services \<Rightarrow> survey \<Rightarrow> survey_attempt \<Rightarrow> survey_quota \<Rightarrow> json \<Rightarrow> py_error + provider_outbound" where
  "accepted_invite tv s a q invite =
     (if as_dict invite = None \<or> \<not> truthy (pick invite [''URL''])
      then Inl (ProviderError ''Toluna did not return a survey invite URL.'')
      else if \<not> invite_fits s q invite
      then Inl (ProviderError ''Toluna invite did not match the selected survey, wave, and quota.'')
      else and_then (outbound_link tv (py_strip (py_str (pick invite [''URL'']))) (at_rid a)) (\<lambda>url.
             map_sum id
               (\<lambda>data. \<lparr>po_url = url, po_source_cpi = invite_cpi invite (at_source_cpi_snapshot a),
                  po_payable_cpi = invite_cpi invite (at_source_cpi_snapshot a), po_cpi_source = ''toluna_invite'',
                  po_transaction_data = data\<rparr>)
               (spread_with (at_upstream_transaction_data a) [(''toluna_invite'', invite_record invite)])))"

text \<open>The steps in the order of the code.  The member rows returned with a failure are those written before
  it; \<open>survey_start\<close> calls this inside its transaction, which then takes them back.\<close>

definition toluna_outbound ::
  "toluna_services \<Rightarrow> toluna_upstream \<Rightarrow> bool \<Rightarrow> toluna_reference_question list \<Rightarrow> client_integration \<Rightarrow> timestamp
   \<Rightarrow> db \<Rightarrow> survey \<Rightarrow> survey_attempt \<Rightarrow> jdict \<Rightarrow> toluna_member list
   \<Rightarrow> toluna_member list \<times> (provider_failure + provider_outbound)" where
  "toluna_outbound tv up acquired references ci now d s a answers members =
     (let code = effective_profile_uid a; culture = member_culture s in
      if code = [] then (members, Inl (Raised (ProviderError ''The Toluna member identity is missing.'')))
      else case and_then (matching_quota (tv_today tv) d s answers)
                  (\<lambda>q. map_sum id (Pair q) (member_payload_of tv references ci d s a answers)) of
        Inl e \<Rightarrow> (members, Inl (Raised e))
      | Inr (q, p) \<Rightarrow>
          (case register_member tv up acquired (ci_id ci) (str_or (dict_get (only_dict (dict_get (only_dict (sv_raw_data s)) ''_toluna'')) ''culture_code'') []) p now members of
             (members, _, Inl e) \<Rightarrow> (members, Inl (Raised e))
           | (members, _, Inr _) \<Rightarrow>
               (members,
                case panel_guid tv ci culture False of
                  Inl e \<Rightarrow> Inl (Raised e)
                | Inr panel \<Rightarrow>
                    and_then (invite_of (tu_invite up panel code (sq_quota_id q)))
                      (\<lambda>invite. map_sum Raised id (accepted_invite tv s a q invite)))))"

end
