(* ===== verification/Routing_Samples.thy ===== *)
theory Routing_Samples
  imports Toluna_Matching Notification_Samples
begin

text \<open>
  Two surveys of Toluna for the witnesses: one with an open quota that asks gender and age, and one whose
  only quota was full when it was refreshed and asks a routable attribute.
\<close>

definition routing_reference :: "int \<Rightarrow> string \<Rightarrow> json list \<Rightarrow> toluna_reference_question" where
  "routing_reference q name options =
     \<lparr>trq_id = nat q, trq_integration = 81, trq_culture_code = ''en-gb'', trq_culture_id = 1, trq_question_id = q,
      trq_internal_name = name, trq_display_name = [], trq_answer_type = ''SingleSelect'', trq_is_routable = False,
      trq_options = JArr options, trq_raw_data = JObj [], trq_source_updated_at = None, trq_created_at = 0,
      trq_updated_at = 0\<rparr>"

definition routing_references :: "toluna_reference_question list" where
  "routing_references =
     [routing_reference 38 ''Age'' [JObj [(''OptionId'', JInt 52), (''OptionText'', JStr ''18-24'')]],
      routing_reference 7 ''Gender'' [JObj [(''OptionId'', JInt 46), (''OptionText'', JStr ''Female'')]],
      routing_reference 9 ''Pets'' [JObj [(''OptionId'', JInt 1), (''OptionText'', JStr ''Cat'')]]]"

definition routing_condition :: "int \<Rightarrow> bool \<Rightarrow> int \<Rightarrow> json" where
  "routing_condition q routable answer =
     JObj [(''QuestionID'', JInt q), (''IsRoutable'', JBool routable), (''AnswerIDs'', JArr [JInt answer])]"

definition routing_quota :: "int \<Rightarrow> int \<Rightarrow> json list \<Rightarrow> json" where
  "routing_quota i remaining conditions =
     JObj [(''QuotaID'', JInt i), (''CompletesRequired'', JInt 10), (''EstimatedCompletesRemaining'', JInt remaining),
       (''Layers'', JArr [JObj [(''SubQuotas'', JArr [JObj [(''QuestionsAndAnswers'', JArr conditions)]])]])]"

definition routing_survey :: "json list \<Rightarrow> survey" where
  "routing_survey payloads = wave_survey\<lparr>sv_raw_data := JObj [(''SurveyID'', JInt 11), (''WaveID'', JInt 2), (''Quotas'', JArr payloads),
     (''_toluna'', JObj [(''culture_code'', JStr ''en-GB'')])]\<rparr>"

definition routing_db :: "json list \<Rightarrow> db" where
  "routing_db payloads = empty_db\<lparr>integrations := [reuse_integration], surveys := [routing_survey payloads]\<rparr>"

definition routing_answer :: "int \<Rightarrow> string \<Rightarrow> json" where
  "routing_answer q v = JObj [(''question_id'', JInt q), (''values'', JArr [JStr v]), (''upstream_values'', JArr [])]"

definition routing_answers :: jdict where
  "routing_answers = [(''1'', routing_answer 7 ''46''), (''2'', routing_answer 38 ''21'')]"

definition routing_today :: date where
  "routing_today = (2026, 8, 1)"

definition plain_quotas :: "json list" where
  "plain_quotas = [routing_quota 5 3 [routing_condition 7 False 46, routing_condition 38 False 52]]"


section \<open>Reading the samples\<close>

lemma quota_names_all:
  "py_lower ''QuestionID'' = ''questionid''
   \<and> py_lower ''IsRoutable'' = ''isroutable''
   \<and> py_lower ''AnswerIDs'' = ''answerids''
   \<and> py_lower ''AnswerValues'' = ''answervalues''
   \<and> py_lower ''QuotaID'' = ''quotaid''
   \<and> py_lower ''Layers'' = ''layers''
   \<and> py_lower ''SubQuotas'' = ''subquotas''
   \<and> py_lower ''QuestionsAndAnswers'' = ''questionsandanswers''
   \<and> py_lower ''CurrentCompletes'' = ''currentcompletes''
   \<and> py_lower ''MaxTargetCompletes'' = ''maxtargetcompletes''
   \<and> py_lower ''CompletesRequired'' = ''completesrequired''
   \<and> py_lower ''EstimatedCompletesRemaining'' = ''estimatedcompletesremaining''
   \<and> py_lower ''Quotas'' = ''quotas''"
  by code_simp

lemma kinds_all:
  "question_kind (routing_reference 38 ''Age'' o1) = ''birth_date'' \<and> question_kind (routing_reference 7 ''Gender'' o2) = ''gender''
   \<and> question_kind (routing_reference 9 ''Pets'' o3) = ''profile''"
  by (simp add: question_kind_def routing_reference_def) code_simp

lemma routing_culture: "survey_culture (sv_raw_data (routing_survey ps)) = ''en-gb''"
  by (simp add: survey_culture_def routing_survey_def only_dict_def dict_get_def) code_simp

lemma condition_reads [simp]:
  "condition_question (routing_condition q r a) = q" "is_routable (routing_condition q r a) = r"
  "items_at (routing_condition q r a) ''AnswerIDs'' = Inr [JInt a]" "answer_values (routing_condition q r a) = []"
  by (simp_all add: condition_question_def is_routable_def items_at_def answer_values_def routing_condition_def pick_def
      pick_default_def integer_or_def lowered_keys_def quota_names_all items_of_def answer_parts_def keep_first_def)


definition routing_subquota :: "json list \<Rightarrow> json" where
  "routing_subquota conditions = JObj [(''QuestionsAndAnswers'', JArr conditions)]"

definition routing_layer :: "json list \<Rightarrow> json" where
  "routing_layer conditions = JObj [(''SubQuotas'', JArr [routing_subquota conditions])]"

lemmas reading_quota = items_at_def pick_def pick_default_def integer_or_def lowered_keys_def quota_names_all items_of_def

lemma subquota_reads [simp]:
  "items_at (routing_subquota cs) ''QuestionsAndAnswers'' = Inr cs" "has_capacity (routing_subquota cs)"
  "items_at (routing_layer cs) ''SubQuotas'' = Inr [routing_subquota cs]"
  by (simp_all add: routing_subquota_def routing_layer_def reading_quota has_capacity_def)

lemma quota_reads [simp]:
  "items_at (routing_quota i n cs) ''Layers'' = Inr [routing_layer cs]"
  "pick (routing_quota i n cs) [''EstimatedCompletesRemaining''] = JInt n"
  "pick (routing_quota i n cs) [''CompletesRequired''] = JInt 10"
  "quota_id_of (routing_quota i n cs) = i"
  by (simp_all add: routing_quota_def reading_quota routing_layer_def routing_subquota_def quota_id_of_def)

lemma survey_reads [simp]: "items_at (sv_raw_data (routing_survey ps)) ''Quotas'' = Inr ps" "sv_id (routing_survey ps) = 7"
  by (simp_all add: routing_survey_def reading_quota)

lemma integer_or_JInt [simp]: "integer_or d (JInt i) = i" by (simp add: integer_or_def)

definition strict_requirement :: "int \<Rightarrow> requirement" where
  "strict_requirement q = \<lparr>rq_answer_ids = [if q = 7 then 46 else 52], rq_answer_values = [], rq_raw = [routing_condition q False (if q = 7 then 46 else 52)], rq_all_routable = False\<rparr>"

lemma plain_rows: "quota_question_rows plain_quotas = Inr [(7, strict_requirement 7), (38, strict_requirement 38)]"
  by (simp add: quota_question_rows_def plain_quotas_def add_quota_def layer_open_def add_layer_def add_subquota_def add_condition_def
    extended_def no_requirement_def strict_requirement_def keep_first_def)

lemma routing_known: "culture_references routing_references 81 ''en-gb'' = [hd (tl routing_references), hd (tl (tl routing_references)), hd routing_references]"
  by (simp add: culture_references_def routing_references_def routing_reference_def)

lemma routing_mandatory: "mandatory_questions (culture_references routing_references 81 ''en-gb'') = [38, 7]"
  unfolding routing_known by (simp add: mandatory_questions_def COMMON_KINDS_def routing_references_def kinds_all map_filter_simps) (simp add: routing_reference_def)

lemma routing_found [simp]: "reference_of (culture_references routing_references 81 ''en-gb'') 7 = Some (hd (tl routing_references))"
  "reference_of (culture_references routing_references 81 ''en-gb'') 38 = Some (hd routing_references)"
  unfolding routing_known by (simp_all add: reference_of_def routing_references_def routing_reference_def)

lemma plain_derived: "derived_questions (culture_references routing_references 81 ''en-gb'') ''en-gb'' 7 [(7, strict_requirement 7), (38, strict_requirement 38)] 5 =
  Inr [targeting_row 7 7 (Some (strict_requirement 7)) (hd (tl routing_references)) 5, targeting_row 7 38 (Some (strict_requirement 38)) (hd routing_references) 5]"
  by (simp add: derived_questions_def routing_mandatory)

lemma plain_refresh: "refresh_details_locked routing_references 81 (routing_survey plain_quotas) 5 (routing_db plain_quotas) =
  Inr (replace_details [targeting_row 7 7 (Some (strict_requirement 7)) (hd (tl routing_references)) 5, targeting_row 7 38 (Some (strict_requirement 38)) (hd routing_references) 5]
       (derived_quotas 7 plain_quotas 5) 7 5 (routing_db plain_quotas))"
  by (simp add: refresh_details_locked_def Let_def routing_culture plain_rows plain_derived) (simp add: plain_quotas_def)


definition plain_refreshed :: db where
  "plain_refreshed = replace_details
     [targeting_row 7 7 (Some (strict_requirement 7)) (hd (tl routing_references)) 5, targeting_row 7 38 (Some (strict_requirement 38)) (hd routing_references) 5]
     (derived_quotas 7 plain_quotas 5) 7 5 (routing_db plain_quotas)"

lemma row_fields [simp]:
  "tq_question_id (targeting_row s q r ref t i) = q" "tq_survey (targeting_row s q r ref t i) = s" "tq_id (targeting_row s q r ref t i) = i"
  by (simp_all add: targeting_row_def Let_def)

lemma plain_asked: "survey_questions_by_id plain_refreshed 7 =
   [(38, targeting_row 7 38 (Some (strict_requirement 38)) (hd routing_references) 5 2), (7, targeting_row 7 7 (Some (strict_requirement 7)) (hd (tl routing_references)) 5 1)]"
  by (simp add: survey_questions_by_id_def plain_refreshed_def replace_details_def routing_db_def empty_db_def next_pk_def numeral_2_eq_2)

lemma plain_given: "answers_by_question routing_answers = [(38, only_dict (routing_answer 38 ''21'')), (7, only_dict (routing_answer 7 ''46''))]"
  by (simp add: answers_by_question_def routing_answers_def routing_answer_def only_dict_def dict_get_def)

lemma routing_texts: "show_int 46 = ''46'' \<and> show_int 52 = ''52'' \<and> normalize_age_range (JObj [(''OptionId'', JInt 52), (''OptionText'', JStr ''18-24'')]) = Some (18, 24)
   \<and> stated_age routing_today ''21'' = Some 21"
  by code_simp

lemma gender_match: "answer_matches routing_today (routing_condition 7 False 46) (only_dict (routing_answer 7 ''46''))
    (targeting_row 7 7 (Some (strict_requirement 7)) (hd (tl routing_references)) 5 i) = Inr True"
  by (simp add: answer_matches_def toluna_kind_def targeting_row_def Let_def question_contract_def routing_references_def kinds_all
   only_dict_def dict_get_def sent_values_def answer_texts_at_def routing_answer_def py_str_def routing_texts)

lemma age_match: "answer_matches routing_today (routing_condition 38 False 52) (only_dict (routing_answer 38 ''21''))
    (targeting_row 7 38 (Some (strict_requirement 38)) (hd routing_references) 5 i) = Inr True"
  by (simp add: answer_matches_def toluna_kind_def targeting_row_def Let_def question_contract_def routing_references_def kinds_all
   only_dict_def dict_get_def sent_values_def answer_texts_at_def routing_answer_def py_str_def routing_texts age_verdict_def
   TOLUNA_MAX_RESPONDENT_AGE_def age_option_rows_def option_dicts_def within_range_def) (simp add: routing_reference_def only_dict_def option_dicts_def routing_texts dict_get_def json_or_def py_str_def)

lemma plain_matched: "matching_quota routing_today plain_refreshed (routing_survey plain_quotas) routing_answers =
   Inr (derived_quota 7 (hd plain_quotas) 5 1)"
  by (simp add: matching_quota_def plain_asked plain_given open_quotas_def)
     (simp add: plain_refreshed_def replace_details_def derived_quotas_def routing_db_def empty_db_def next_pk_def plain_quotas_def
       derived_quota_def count_at_def quota_matches_def layer_matches_def subquota_matches_def conditions_by_question_def
       keep_first_def condition_matches_def gender_match age_match)

definition closed_quotas :: "json list" where
  "closed_quotas = [routing_quota 6 0 [routing_condition 9 True 1]]"

lemma closed_rows: "quota_question_rows closed_quotas = Inr []"
  by (simp add: quota_question_rows_def closed_quotas_def add_quota_def)

definition closed_refreshed :: db where
  "closed_refreshed = replace_details
     [targeting_row 7 7 None (hd (tl routing_references)) 5, targeting_row 7 38 None (hd routing_references) 5]
     (derived_quotas 7 closed_quotas 5) 7 5 (routing_db closed_quotas)"

lemma closed_refresh: "refresh_details_locked routing_references 81 (routing_survey closed_quotas) 5 (routing_db closed_quotas) = Inr closed_refreshed"
  by (simp add: refresh_details_locked_def Let_def routing_culture closed_rows derived_questions_def routing_mandatory) (simp add: closed_quotas_def closed_refreshed_def)

lemma closed_asked: "map_of (survey_questions_by_id d 7) 9 = None" if "targeting_questions d = targeting_questions closed_refreshed"
  by (simp add: survey_questions_by_id_def that) (simp add: closed_refreshed_def replace_details_def routing_db_def empty_db_def next_pk_def)

definition shut_quota :: survey_quota where
  "shut_quota = derived_quota 7 (hd closed_quotas) 5 1"

lemma closed_stored: "quotas closed_refreshed = [shut_quota]"
  by (simp add: shut_quota_def closed_refreshed_def replace_details_def derived_quotas_def routing_db_def empty_db_def next_pk_def closed_quotas_def)

lemma reopened_quota: "matching_quota today closed_refreshed (routing_survey closed_quotas) answers = Inl no_open_quota \<and>
  matching_quota today (save_quota (quota_after (Some True) now shut_quota) closed_refreshed) (routing_survey closed_quotas) answers
    = Inr (quota_after (Some True) now shut_quota)"
proof -
  have *: "sq_raw_data shut_quota = routing_quota 6 0 [routing_condition 9 True 1]" "sq_remaining shut_quota = 0" "sq_survey shut_quota = 7" "sq_id shut_quota = 1"
    by (simp_all add: shut_quota_def derived_quota_def count_at_def closed_quotas_def)
  show ?thesis
  by (simp add: matching_quota_def open_quotas_def closed_stored save_quota_def * quota_after_def quota_matches_def layer_matches_def subquota_matches_def conditions_by_question_def
       keep_first_def condition_matches_def closed_asked update_where_def)
qed

end
