(* ===== verification/Routing_Properties.thy ===== *)
theory Routing_Properties
  imports Routing_Samples
begin

text \<open>
  Which quota a respondent of Toluna is sent to: the first open one that the answers meet, in every layer
  by one subquota; what a refreshed survey asks is enough to decide that; and what happens to a quota
  that a notification opens again.
\<close>

section \<open>The sampling contract\<close>

text \<open>Conditions on one question are alternatives, different questions of a subquota all count.\<close>

definition subquota_met ::
  "date \<Rightarrow> (int \<times> jdict) list \<Rightarrow> (int \<times> targeting_question) list \<Rightarrow> json \<Rightarrow> bool" where
  "subquota_met today given asked subquota \<longleftrightarrow>
     has_capacity subquota \<and>
     (\<exists>conditions. items_at subquota ''QuestionsAndAnswers'' = Inr conditions \<and>
        (\<forall>c \<in> set conditions. \<exists>c' \<in> set conditions. condition_question c' = condition_question c
            \<and> condition_matches today given asked c' = Inr True))"

definition quota_met ::
  "date \<Rightarrow> (int \<times> jdict) list \<Rightarrow> (int \<times> targeting_question) list \<Rightarrow> json \<Rightarrow> bool" where
  "quota_met today given asked payload \<longleftrightarrow>
     (\<exists>layers. items_at payload ''Layers'' = Inr layers \<and>
        (\<forall>layer \<in> set layers. \<exists>subquotas. items_at layer ''SubQuotas'' = Inr subquotas \<and>
           (\<exists>s \<in> set subquotas. subquota_met today given asked s)))"

lemma groups_decided:
  assumes "all_ok (any_ok P) (conditions_by_question conditions) = Inr b"
  shows "b \<longleftrightarrow> (\<forall>c \<in> set conditions. \<exists>c' \<in> set conditions. condition_question c' = condition_question c \<and> P c' = Inr True)"
proof (cases b)
  case True
  have "\<exists>c' \<in> set conditions. condition_question c' = condition_question c \<and> P c' = Inr True" if "c \<in> set conditions" for c
    using any_ok_True [of P "filter (\<lambda>x. condition_question x = condition_question c) conditions"] assms True that
    by (auto simp: all_ok_True conditions_by_question_def)
  with True show ?thesis by blast
next
  case False
  with assms obtain g where g: "g \<in> set (conditions_by_question conditions)" "any_ok P g = Inr False"
    by (auto dest: all_ok_False)
  then obtain c where "c \<in> set conditions" and eq: "g = filter (\<lambda>x. condition_question x = condition_question c) conditions"
    by (auto simp: conditions_by_question_def)
  have "P c' \<noteq> Inr True" if "c' \<in> set conditions" "condition_question c' = condition_question c" for c'
    using g(2) that by (simp add: any_ok_False eq)
  with \<open>c \<in> set conditions\<close> False show ?thesis by blast
qed

lemma subquota_decided: "subquota_matches today given asked s = Inr b \<Longrightarrow> b \<longleftrightarrow> subquota_met today given asked s"
  using groups_decided [of "condition_matches today given asked"]
  by (auto simp: subquota_matches_def subquota_met_def and_then_Inr split: if_splits)

lemma layer_decided:
  assumes "layer_matches today given asked layer = Inr b"
  shows "b \<longleftrightarrow> (\<exists>subquotas. items_at layer ''SubQuotas'' = Inr subquotas \<and> (\<exists>s \<in> set subquotas. subquota_met today given asked s))"
proof -
  obtain subquotas where sub: "items_at layer ''SubQuotas'' = Inr subquotas"
    and run: "any_ok (subquota_matches today given asked) subquotas = Inr b"
    using assms by (auto simp: layer_matches_def elim: and_thenE)
  have "b \<longleftrightarrow> (\<exists>s \<in> set subquotas. subquota_met today given asked s)"
  proof (cases b)
    case True
    with run show ?thesis by (auto dest!: any_ok_True subquota_decided)
  next
    case False
    with run show ?thesis by (auto simp: any_ok_False dest: subquota_decided)
  qed
  with sub show ?thesis by simp
qed

lemma quota_decided:
  assumes "quota_matches today given asked payload = Inr b"
  shows "b \<longleftrightarrow> quota_met today given asked payload"
proof -
  obtain layers where sub: "items_at payload ''Layers'' = Inr layers"
    and run: "all_ok (layer_matches today given asked) layers = Inr b"
    using assms by (auto simp: quota_matches_def elim: and_thenE)
  show ?thesis
  proof (cases b)
    case True
    with run sub show ?thesis by (auto simp: all_ok_True quota_met_def dest: layer_decided)
  next
    case False
    with run sub show ?thesis by (fastforce simp: quota_met_def dest!: all_ok_False layer_decided)
  qed
qed

section \<open>The first open quota that is met\<close>

lemma first_matching_found:
  assumes "first_matching today given asked qs = Inr q"
  shows "\<exists>before after. qs = before @ q # after \<and> quota_met today given asked (sq_raw_data q)
    \<and> (\<forall>q' \<in> set before. \<not> quota_met today given asked (sq_raw_data q'))"
  using assms
proof (induction qs)
  case (Cons p qs)
  then obtain b where b: "quota_matches today given asked (sq_raw_data p) = Inr b"
    "(if b then Inr p else first_matching today given asked qs) = Inr q" by (auto elim: and_thenE)
  show ?case
  proof (cases b)
    case True
    with b quota_decided [OF b(1)] show ?thesis by (intro exI [of _ "[]"] exI [of _ qs]) auto
  next
    case False
    with b Cons.IH obtain before after where "qs = before @ q # after" "quota_met today given asked (sq_raw_data q)"
      "\<forall>q' \<in> set before. \<not> quota_met today given asked (sq_raw_data q')" by auto
    with False quota_decided [OF b(1)] show ?thesis by (intro exI [of _ "p # before"] exI [of _ after]) auto
  qed
qed simp

lemma items_of_error: "items_of v = Inl e \<Longrightarrow> e \<noteq> no_open_quota"
  by (auto simp: items_of_def no_open_quota_def split: if_splits json.splits)

lemma sum_error: "and_then r f = Inl e \<longleftrightarrow> r = Inl e \<or> (\<exists>x. r = Inr x \<and> f x = Inl e)"
  by (cases r) auto

lemma all_ok_error: "all_ok P xs = Inl e \<Longrightarrow> \<exists>x \<in> set xs. P x = Inl e"
  by (induction xs) (auto simp: sum_error split: if_splits)

lemma any_ok_error: "any_ok P xs = Inl e \<Longrightarrow> \<exists>x \<in> set xs. P x = Inl e"
  by (induction xs) (auto simp: sum_error split: if_splits)

lemma items_at_error: "items_at v k \<noteq> Inl no_open_quota"
  using items_of_error by (auto simp: items_at_def)

lemma condition_error: "condition_matches today given asked c \<noteq> Inl no_open_quota"
  using items_at_error [of c "''AnswerIDs''"]
  by (cases "items_at c ''AnswerIDs''") (auto simp: condition_matches_def answer_matches_def Let_def split: option.splits)

lemma quota_error: "quota_matches today given asked payload \<noteq> Inl no_open_quota"
  using items_at_error condition_error [of today]
  by (auto simp: quota_matches_def layer_matches_def subquota_matches_def sum_error
      dest!: all_ok_error any_ok_error split: if_splits)

lemma first_matching_none:
  "first_matching today given asked qs = Inl no_open_quota \<Longrightarrow> q \<in> set qs \<Longrightarrow> \<not> quota_met today given asked (sq_raw_data q)"
proof (induction qs)
  case (Cons p qs)
  then obtain b where b: "quota_matches today given asked (sq_raw_data p) = Inr b"
    "(if b then Inr p else first_matching today given asked qs) = Inl no_open_quota"
    using quota_error by (auto simp: sum_error)
  with Cons quota_decided [OF b(1)] show ?case by (auto split: if_splits)
qed simp

lemma in_open_quotas: "q \<in> set (open_quotas d i) \<longleftrightarrow> q \<in> set (quotas d) \<and> sq_survey q = i \<and> 0 < sq_remaining q"
  by (auto simp: open_quotas_def)

lemma sorted_before: "sorted (map f (before @ x # after)) \<Longrightarrow> y \<in> set after \<Longrightarrow> f x \<le> f y"
  by (simp add: sorted_append)

text \<open>C5: The quota a respondent is sent to is open and its sampling contract is met -- in every layer by a
  subquota with room, each of whose questions has an answer that qualifies -- and it is the first such
  quota of the survey.  A respondent is turned away for lack of a quota only if no open quota is met.\<close>

theorem respondent_gets_first_met_quota:
  fixes today :: date and d :: db and s :: survey and answers :: jdict
  defines "met q \<equiv> quota_met today (answers_by_question answers) (survey_questions_by_id d (sv_id s)) (sq_raw_data q)"
    and "open_here q \<equiv> q \<in> set (quotas d) \<and> sq_survey q = sv_id s \<and> 0 < sq_remaining q"
  shows "case matching_quota today d s answers of
      Inr q \<Rightarrow> open_here q \<and> met q \<and> (\<forall>p. open_here p \<and> met p \<longrightarrow> sq_id q \<le> sq_id p)
    | Inl e \<Rightarrow> e = no_open_quota \<longrightarrow> (\<forall>p. open_here p \<longrightarrow> \<not> met p)"
proof (cases "matching_quota today d s answers")
  case (Inl e)
  then show ?thesis
    using first_matching_none [of today "answers_by_question answers" "survey_questions_by_id d (sv_id s)"
        "open_quotas d (sv_id s)"]
    by (simp add: matching_quota_def met_def open_here_def in_open_quotas)
next
  case (Inr q)
  then obtain before after where split: "open_quotas d (sv_id s) = before @ q # after" and met: "met q"
    and none: "\<forall>p \<in> set before. \<not> met p"
    by (auto simp: matching_quota_def met_def dest!: first_matching_found)
  have "sorted (map sq_id (before @ q # after))" using split by (simp add: open_quotas_def flip: split)
  then have "sq_id q \<le> sq_id p" if "open_here p" "met p" for p
    using sorted_before [of sq_id before q after p] that none in_open_quotas [of p d "sv_id s"]
    by (auto simp: open_here_def split)
  moreover have "open_here q" using in_open_quotas [of q d "sv_id s"] split by (simp add: open_here_def)
  ultimately show ?thesis using Inr met by simp
qed

lemma respondent_gets_first_met_quota_witness:
  "quota_met routing_today (answers_by_question routing_answers) (survey_questions_by_id plain_refreshed 7)
     (hd plain_quotas)"
  using respondent_gets_first_met_quota [of plain_refreshed "routing_survey plain_quotas" routing_today routing_answers]
  by (simp add: plain_matched) (simp add: derived_quota_def Let_def)

section \<open>What a refresh asks\<close>

text \<open>Once a question is among the requirements, no later payload removes it.\<close>

abbreviation asked_in :: "int \<Rightarrow> requirements \<Rightarrow> bool" where
  "asked_in q rows \<equiv> map_of rows q \<noteq> None"

lemma add_condition_keeps: "add_condition c rows = Inr rows' \<Longrightarrow> asked_in q rows \<Longrightarrow> asked_in q rows'"
  by (cases "items_at c ''AnswerIDs''") (auto simp: add_condition_def Let_def update_conv' split: if_splits)

lemma add_condition_asks: "add_condition c rows = Inr rows' \<Longrightarrow> 0 \<le> condition_question c \<Longrightarrow> asked_in (condition_question c) rows'"
  by (cases "items_at c ''AnswerIDs''") (auto simp: add_condition_def Let_def update_conv' split: if_splits)

lemma fold_asked:
  assumes "\<And>x rows rows'. f x rows = Inr rows' \<Longrightarrow> asked_in q rows \<Longrightarrow> asked_in q rows'"
    and "fold_ok f xs rows = Inr rows'" and "asked_in q rows"
  shows "asked_in q rows'"
  using fold_ok_keeps [where I = "asked_in q", OF assms(2,3)] assms(1) by blast

lemmas conditions_keep = fold_asked [of add_condition, OF add_condition_keeps]

lemma add_subquota_keeps: "add_subquota s rows = Inr rows' \<Longrightarrow> asked_in q rows \<Longrightarrow> asked_in q rows'"
  using conditions_keep by (fastforce simp: add_subquota_def elim!: and_thenE split: if_splits)

lemmas subquotas_keep = fold_asked [of add_subquota, OF add_subquota_keeps]

lemma add_subquota_asks:
  assumes "add_subquota s rows = Inr rows'" and "has_capacity s"
    and "items_at s ''QuestionsAndAnswers'' = Inr conditions" and "c \<in> set conditions" and "0 \<le> condition_question c"
  shows "asked_in (condition_question c) rows'"
proof -
  have "fold_ok add_condition conditions rows = Inr rows'" using assms(1-3) by (simp add: add_subquota_def)
  from fold_ok_reaches [where Q = "asked_in (condition_question c)", OF this assms(4)] show ?thesis
    using add_condition_asks [OF _ assms(5)] add_condition_keeps by blast
qed

lemma add_layer_keeps: "add_layer l rows = Inr rows' \<Longrightarrow> asked_in q rows \<Longrightarrow> asked_in q rows'"
  using subquotas_keep by (fastforce simp: add_layer_def elim!: and_thenE)

lemmas layers_keep = fold_asked [of add_layer, OF add_layer_keeps]

lemma add_layer_asks:
  assumes "add_layer l rows = Inr rows'" and "items_at l ''SubQuotas'' = Inr subquotas" and "s \<in> set subquotas"
    and "has_capacity s" and "items_at s ''QuestionsAndAnswers'' = Inr conditions" and "c \<in> set conditions"
    and "0 \<le> condition_question c"
  shows "asked_in (condition_question c) rows'"
proof -
  have "fold_ok add_subquota subquotas rows = Inr rows'" using assms(1,2) by (simp add: add_layer_def)
  from fold_ok_reaches [where Q = "asked_in (condition_question c)", OF this assms(3)] show ?thesis
    using add_subquota_asks [OF _ assms(4-7)] add_subquota_keeps by blast
qed

lemma add_quota_keeps: "add_quota p rows = Inr rows' \<Longrightarrow> asked_in q rows \<Longrightarrow> asked_in q rows'"
  using layers_keep by (fastforce simp: add_quota_def Let_def elim!: and_thenE split: if_splits)

text \<open>The quota the refresh stored as open, with a layer a respondent can meet, was not passed over.\<close>

definition quota_counts :: "json \<Rightarrow> bool" where
  "quota_counts payload \<longleftrightarrow> 0 < integer_or 0 (pick payload [''EstimatedCompletesRemaining''])"

lemma counting_quota_open:
  "quota_counts payload \<Longrightarrow> \<not> (pick payload [''EstimatedCompletesRemaining''] \<noteq> JNull
     \<and> integer_or (-1) (pick payload [''EstimatedCompletesRemaining'']) \<le> 0)"
  by (auto simp: quota_counts_def integer_or_def split: option.splits)

lemma add_quota_asks:
  assumes run: "add_quota p rows = Inr rows'" and "quota_counts p" and met: "quota_met today given asked p"
    and sub: "items_at p ''Layers'' = Inr layers" "l \<in> set layers" "items_at l ''SubQuotas'' = Inr subquotas"
      "s \<in> set subquotas" "has_capacity s" "items_at s ''QuestionsAndAnswers'' = Inr conditions" "c \<in> set conditions"
    and "0 \<le> condition_question c"
  shows "asked_in (condition_question c) rows'"
proof -
  have "layer_open layer = Inr True" if "layer \<in> set layers" for layer
    using met that sub(1) by (fastforce simp: layer_open_def quota_met_def subquota_met_def list_ex_iff)
  then have "all_ok layer_open layers = Inr True" by (simp add: all_ok_True)
  with run counting_quota_open [OF assms(2)] sub(1) have "fold_ok add_layer layers rows = Inr rows'"
    by (simp add: add_quota_def)
  from fold_ok_reaches [where Q = "asked_in (condition_question c)", OF this sub(2)] show ?thesis
    using add_layer_asks [OF _ sub(3-7) assms(11)] add_layer_keeps by blast
qed

lemma quota_rows_ask:
  assumes "quota_question_rows payloads = Inr rows" and "p \<in> set payloads"
    and "\<And>before after. add_quota p before = Inr after \<Longrightarrow> asked_in q after"
  shows "asked_in q rows"
  using fold_ok_reaches [where Q = "asked_in q", OF assms(1) [unfolded quota_question_rows_def] assms(2)]
    assms(3) add_quota_keeps by blast

text \<open>The rows a refresh leaves.\<close>

lemma add_rows_in: "r \<in> set (add_rows key fs rows) \<Longrightarrow> r \<in> set rows \<or> (\<exists>f \<in> set fs. \<exists>i. r = f i)"
  by (induction key fs rows rule: add_rows.induct) auto

lemma add_rows_old: "r \<in> set rows \<Longrightarrow> r \<in> set (add_rows key fs rows)"
  by (induction key fs rows rule: add_rows.induct) auto

lemma add_rows_new: "f \<in> set fs \<Longrightarrow> \<exists>i. f i \<in> set (add_rows key fs rows)"
proof (induction key fs rows rule: add_rows.induct)
  case (2 key g gs rows)
  have "g (next_pk key rows) \<in> set (add_rows key gs (rows @ [g (next_pk key rows)]))"
    by (rule add_rows_old) simp
  with 2 show ?case by auto
qed simp

lemma refreshE:
  assumes "refresh_details_locked references integration s now d = Inr d'"
  obtains payloads rows questions where "items_at (sv_raw_data s) ''Quotas'' = Inr payloads"
    and "quota_question_rows payloads = Inr rows"
    and "derived_questions (culture_references references integration (survey_culture (sv_raw_data s)))
           (survey_culture (sv_raw_data s)) (sv_id s) rows now = Inr questions"
    and "d' = replace_details questions (derived_quotas (sv_id s) payloads now) (sv_id s) now d"
  using assms by (auto simp: refresh_details_locked_def Let_def elim!: and_thenE split: if_splits)

lemma derived_question:
  assumes "derived_questions known culture survey rows now = Inr questions" and "asked_in q rows"
  shows "\<exists>f \<in> set questions. \<forall>i. tq_question_id (f i) = q \<and> tq_survey (f i) = survey"
proof -
  have "q \<in> set (sort (remdups (map fst rows @ mandatory_questions known)))"
    using assms(2) by (force dest: map_of_SomeD)
  from map_ok_out [OF assms(1) [unfolded derived_questions_def] this] show ?thesis
    by (cases "reference_of known q") (auto simp: targeting_row_def Let_def intro!: bexI)
qed

lemma stored_question_asked:
  "r \<in> set (targeting_questions d) \<Longrightarrow> tq_survey r = survey \<Longrightarrow> map_of (survey_questions_by_id d survey) (tq_question_id r) \<noteq> None"
  by (auto simp: survey_questions_by_id_def map_of_eq_None_iff image_iff intro!: bexI [of _ r])

lemma stored_quota:
  assumes "q \<in> set (quotas (replace_details questions (derived_quotas survey payloads now) survey now d))"
    and "sq_survey q = survey" and "0 < sq_remaining q"
  shows "\<exists>p \<in> set payloads. sq_raw_data q = p \<and> quota_counts p"
proof -
  obtain p i where p: "p \<in> set payloads" "q = derived_quota survey p now i"
    using assms(1,2) by (auto simp: replace_details_def derived_quotas_def dest!: add_rows_in)
  with assms(3) have "quota_counts p" by (simp add: derived_quota_def Let_def quota_counts_def count_at_def)
  with p show ?thesis by (simp add: derived_quota_def Let_def)
qed

section \<open>A refreshed survey asks what its quotas decide by\<close>

definition subquota_answered ::
  "date \<Rightarrow> (int \<times> jdict) list \<Rightarrow> (int \<times> targeting_question) list \<Rightarrow> json \<Rightarrow> bool" where
  "subquota_answered today given asked subquota \<longleftrightarrow>
     has_capacity subquota \<and>
     (\<exists>conditions. items_at subquota ''QuestionsAndAnswers'' = Inr conditions \<and>
        (\<forall>c \<in> set conditions. 0 \<le> condition_question c \<longrightarrow>
           (\<exists>c' \<in> set conditions. \<exists>answer row. condition_question c' = condition_question c
              \<and> map_of given (condition_question c) = Some answer \<and> map_of asked (condition_question c) = Some row
              \<and> answer_matches today c' answer row = Inr True)))"

lemma condition_answered:
  assumes "condition_matches today given asked c = Inr True" and "map_of asked (condition_question c) = Some row"
  shows "\<exists>answer. map_of given (condition_question c) = Some answer \<and> answer_matches today c answer row = Inr True"
  using assms by (cases "map_of given (condition_question c)") (simp_all add: condition_matches_def Let_def)

lemma subquota_metE:
  assumes "subquota_met today given asked s"
  obtains conditions where "has_capacity s" and "items_at s ''QuestionsAndAnswers'' = Inr conditions"
    and "\<And>c. c \<in> set conditions \<Longrightarrow> \<exists>c'. c' \<in> set conditions \<and> condition_question c' = condition_question c
      \<and> condition_matches today given asked c' = Inr True"
  using assms unfolding subquota_met_def by blast

lemma met_answered:
  assumes "subquota_met today given asked s"
    and "\<And>conditions c. items_at s ''QuestionsAndAnswers'' = Inr conditions \<Longrightarrow> c \<in> set conditions
      \<Longrightarrow> 0 \<le> condition_question c \<Longrightarrow> map_of asked (condition_question c) \<noteq> None"
  shows "subquota_answered today given asked s"
  using assms(1)
proof (rule subquota_metE)
  fix conditions
  assume cap: "has_capacity s" and cs: "items_at s ''QuestionsAndAnswers'' = Inr conditions"
    and met: "\<And>c. c \<in> set conditions \<Longrightarrow> \<exists>c'. c' \<in> set conditions \<and> condition_question c' = condition_question c
      \<and> condition_matches today given asked c' = Inr True"
  show ?thesis
    unfolding subquota_answered_def
  proof (intro conjI exI ballI impI)
    fix c
    assume c: "c \<in> set conditions" "0 \<le> condition_question c"
    obtain c' where c': "c' \<in> set conditions" "condition_question c' = condition_question c"
      "condition_matches today given asked c' = Inr True" using met [OF c(1)] by blast
    obtain row where row: "map_of asked (condition_question c) = Some row" using assms(2) [OF cs c] by blast
    with condition_answered [OF c'(3), of row] c'(2) obtain answer where
      "map_of given (condition_question c) = Some answer" "answer_matches today c' answer row = Inr True" by auto
    with c'(1,2) row show "\<exists>c' \<in> set conditions. \<exists>answer row. condition_question c' = condition_question c
        \<and> map_of given (condition_question c) = Some answer \<and> map_of asked (condition_question c) = Some row
        \<and> answer_matches today c' answer row = Inr True" by blast
  qed (rule cap, rule cs)
qed

text \<open>C7: After the questions of a survey were refreshed, and as long as no quota has been opened since, a
  respondent is sent only to a quota whose deciding questions he was asked and answered: the fallback
  that lets a routable attribute pass unasked is never what qualifies him.\<close>

theorem routed_by_answers_only:
  assumes refresh: "refresh_details_locked references integration s now d = Inr d1"
    and same: "targeting_questions d2 = targeting_questions d1"
    and opened: "\<And>q. q \<in> set (quotas d2) \<Longrightarrow> 0 < sq_remaining q \<Longrightarrow>
      \<exists>p \<in> set (quotas d1). sq_survey p = sq_survey q \<and> sq_raw_data p = sq_raw_data q \<and> 0 < sq_remaining p"
    and routed: "matching_quota today d2 s answers = Inr q"
  shows "\<exists>layers. items_at (sq_raw_data q) ''Layers'' = Inr layers \<and>
    (\<forall>layer \<in> set layers. \<exists>subquotas. items_at layer ''SubQuotas'' = Inr subquotas \<and>
       (\<exists>sub \<in> set subquotas. subquota_answered today (answers_by_question answers) (survey_questions_by_id d2 (sv_id s)) sub))"
proof -
  let ?given = "answers_by_question answers" and ?asked = "survey_questions_by_id d2 (sv_id s)"
  obtain payloads rows questions where r: "quota_question_rows payloads = Inr rows"
    "derived_questions (culture_references references integration (survey_culture (sv_raw_data s)))
       (survey_culture (sv_raw_data s)) (sv_id s) rows now = Inr questions"
    and d1: "d1 = replace_details questions (derived_quotas (sv_id s) payloads now) (sv_id s) now d"
    using refresh by (elim refreshE)
  have q: "q \<in> set (quotas d2)" "sq_survey q = sv_id s" "0 < sq_remaining q" and met: "quota_met today ?given ?asked (sq_raw_data q)"
    using respondent_gets_first_met_quota [of d2 s today answers] routed by simp_all
  from opened [OF q(1,3)] q(2) obtain p where p: "p \<in> set (quotas d1)" "sq_survey p = sv_id s"
    "sq_raw_data p = sq_raw_data q" "0 < sq_remaining p" by auto
  from stored_quota [OF p(1) [unfolded d1] p(2,4)] p(3) have payload: "sq_raw_data q \<in> set payloads" "quota_counts (sq_raw_data q)"
    by auto
  obtain layers where layers: "items_at (sq_raw_data q) ''Layers'' = Inr layers"
    and each: "\<And>l. l \<in> set layers \<Longrightarrow> \<exists>subquotas. items_at l ''SubQuotas'' = Inr subquotas
      \<and> (\<exists>sub \<in> set subquotas. subquota_met today ?given ?asked sub)"
    using met by (auto simp: quota_met_def)
  have "subquota_answered today ?given ?asked sub"
    if l: "l \<in> set layers" "items_at l ''SubQuotas'' = Inr subquotas" "sub \<in> set subquotas" "subquota_met today ?given ?asked sub"
    for l subquotas sub
  proof (rule met_answered [OF l(4)])
    fix conditions c
    assume c: "items_at sub ''QuestionsAndAnswers'' = Inr conditions" "c \<in> set conditions" "0 \<le> condition_question c"
    have "has_capacity sub" using l(4) by (simp add: subquota_met_def)
    from quota_rows_ask [OF r(1) payload(1)] add_quota_asks [OF _ payload(2) met layers l(1-3) this c]
    have "asked_in (condition_question c) rows" by blast
    from derived_question [OF r(2) this] obtain f where f: "f \<in> set questions"
      "\<And>i. tq_question_id (f i) = condition_question c \<and> tq_survey (f i) = sv_id s" by blast
    obtain i where "f i \<in> set (targeting_questions d1)"
      using add_rows_new [OF f(1)] by (auto simp: d1 replace_details_def)
    with stored_question_asked [of "f i" d2 "sv_id s"] f(2) [of i] same
    show "map_of ?asked (condition_question c) \<noteq> None" by simp
  qed
  with layers each show ?thesis by blast
qed

lemma routed_by_answers_only_witness:
  "subquota_answered routing_today (answers_by_question routing_answers) (survey_questions_by_id plain_refreshed 7)
     (routing_subquota [routing_condition 7 False 46, routing_condition 38 False 52])"
proof -
  have "\<exists>layers. items_at (sq_raw_data (derived_quota 7 (hd plain_quotas) 5 1)) ''Layers'' = Inr layers \<and>
    (\<forall>layer \<in> set layers. \<exists>subquotas. items_at layer ''SubQuotas'' = Inr subquotas \<and>
       (\<exists>sub \<in> set subquotas. subquota_answered routing_today (answers_by_question routing_answers)
          (survey_questions_by_id plain_refreshed (sv_id (routing_survey plain_quotas))) sub))"
    by (rule routed_by_answers_only [OF plain_refresh [folded plain_refreshed_def] refl _ plain_matched]) auto
  then show ?thesis by (simp add: derived_quota_def Let_def plain_quotas_def)
qed

text \<open>The condition that no quota has been opened since is needed.  A notification opens a quota that was
  full when the questions were derived; its routable attributes were not asked, and every respondent
  passes them until the next refresh, which again leaves them out.\<close>

theorem reopened_quota_passes_unasked:
  "refresh_details_locked routing_references 81 (routing_survey closed_quotas) 5 (routing_db closed_quotas) = Inr closed_refreshed
   \<and> matching_quota today closed_refreshed (routing_survey closed_quotas) answers = Inl no_open_quota
   \<and> matching_quota today (save_quota (quota_after (Some True) now shut_quota) closed_refreshed)
       (routing_survey closed_quotas) answers = Inr (quota_after (Some True) now shut_quota)
   \<and> survey_questions_by_id closed_refreshed 7 = survey_questions_by_id (save_quota (quota_after (Some True) now shut_quota) closed_refreshed) 7"
  by (simp add: closed_refresh reopened_quota) (simp add: survey_questions_by_id_def save_quota_def)

end
