(* ===== verification/Invite_Properties.thy ===== *)
theory Invite_Properties
  imports Toluna_Invites Routing_Properties
begin

text \<open>
  Properties of what is sent to Toluna: the date of birth has the age the respondent gave, registered
  answers carry only numbers the survey's questions allow, a profile is registered before its owner is
  sent out and only once, the link leads to the selected quota, and what the invite does to the CPI.
\<close>

section \<open>The date of birth\<close>

lemma date_of_fields_valid: "date_of_fields y m d = Some born \<Longrightarrow> valid_date born"
  by (auto simp: date_of_fields_def split: option.splits if_splits)

lemma iso_day_valid: "iso_day s = Some born \<Longrightarrow> valid_date born"
  by (auto simp: iso_day_def dest: date_of_fields_valid split: list.splits if_splits)

lemma born_with_age_exact:
  assumes "born_with_age digest age today = Inr born"
  shows "valid_date born \<and> age_between born today = age"
proof -
  obtain ty tm td where today: "today = (ty, tm, td)" by (cases today)
  define m where "m = digest ! 0 mod 12 + 1"
  define k where "k = digest ! 1 mod 28 + 1"
  have "m \<le> 12" by (simp add: m_def Suc_leI)
  have "k \<le> 28" by (simp add: k_def Suc_leI)
  then have "k \<le> days_in_month y m" for y by (simp add: days_in_month_def)
  with assms \<open>m \<le> 12\<close> show ?thesis
    unfolding born_with_age_def today prod.case m_def [symmetric] k_def [symmetric] Let_def
    by (auto simp: valid_date_def age_between_def m_def k_def split: if_splits)
qed

text \<open>C18: The date of birth Toluna is told is a date of the calendar, and on the day it is made its age is
  exactly the age by which the respondent was matched to a quota, between 1 and 99.\<close>

theorem registered_age_is_stated_age:
  assumes "birth_date tv value member_code = Inr born"
  shows "valid_date born \<and> stated_age (tv_today tv) value = Some (age_between born (tv_today tv))
    \<and> 1 \<le> age_between born (tv_today tv) \<and> age_between born (tv_today tv) \<le> 99"
proof (cases "py_strip value \<noteq> [] \<and> list_all is_digit_ascii (py_strip value)")
  case True
  then have "born_with_age (tv_sha256 tv (if member_code \<noteq> [] then member_code else py_strip value))
      (int (digits_value (py_strip value))) (tv_today tv) = Inr born"
    and "respondent_age_ok (int (digits_value (py_strip value)))"
    using assms by (simp_all add: birth_date_def Let_def del: digits_value.simps split: if_splits)
  with born_with_age_exact [of _ "int (digits_value (py_strip value))" "tv_today tv" born] True show ?thesis
    by (simp add: stated_age_def respondent_age_ok_def TOLUNA_MAX_RESPONDENT_AGE_def del: digits_value.simps)
next
  case False
  with assms have "iso_day (py_strip value) = Some born" "respondent_age_ok (age_between born (tv_today tv))"
    unfolding birth_date_def Let_def if_not_P [OF False] by (auto split: option.splits if_splits)
  with False iso_day_valid show ?thesis
    unfolding stated_age_def Let_def if_not_P [OF False]
    by (simp add: respondent_age_ok_def TOLUNA_MAX_RESPONDENT_AGE_def)
qed

definition sample_member_services :: toluna_services where
  "sample_member_services = \<lparr>tv_sha256 = (\<lambda>s. [length s, 40, 7]),
     tv_environment = (\<lambda>name. if name = ''PANEL'' then Some ''guid'' else None), tv_ip_literal = (\<lambda>_. False),
     tv_today = routing_today\<rparr>"

lemma sample_born: "birth_date sample_member_services '' 21 '' ''u'' = Inr (2005, 2, 13)"
  by code_simp

lemma registered_age_is_stated_age_witness: "stated_age routing_today '' 21 '' = Some (age_between (2005, 2, 13) routing_today)"
  using registered_age_is_stated_age [OF sample_born] by (simp add: sample_member_services_def)

section \<open>Registration answers\<close>

lemma mapped_ids_trusted: "mapped_ids q vs = Some is \<Longrightarrow> i \<in> set is \<Longrightarrow> i \<in> set (trusted_ids q)"
  by (induction vs arbitrary: "is") (auto split: if_splits)

lemma mapped_ids_length: "mapped_ids q vs = Some is \<Longrightarrow> length is = length vs"
  by (induction vs arbitrary: "is") (auto split: if_splits)

lemma envelope_trusted: "i \<in> set (envelope_ids q) \<Longrightarrow> i \<in> set (trusted_ids q)"
  by (auto simp: envelope_ids_def trusted_ids_def split: if_splits)

lemma envelope_single: "envelope_ids q = [i] \<Longrightarrow> i \<in> set (trusted_ids q)"
  using envelope_trusted [of i q] by simp

definition answers_trusted :: "targeting_question \<Rightarrow> registration \<Rightarrow> bool" where
  "answers_trusted q r \<longleftrightarrow> fst r = tq_question_id q \<and> snd r \<noteq> [] \<and> (\<forall>(i, v) \<in> set (snd r). i \<in> set (trusted_ids q))"

lemma skip_or_Some [simp]: "skip_or optional e \<noteq> Inr (Some r)"
  by (simp add: skip_or_def)

lemma registration_trusted:
  assumes "registration_answer ref q answer = Inr (Some r)"
  shows "answers_trusted q r"
proof -
  have "given_texts answer \<noteq> []" using assms by (auto simp: registration_answer_def Let_def split: if_splits)
  with assms show ?thesis
    by (auto simp: registration_answer_def Let_def answers_trusted_def
        dest: mapped_ids_trusted envelope_single split: if_splits option.splits list.splits)
qed

lemma skip_or_required: "skip_or optional e = Inr None \<Longrightarrow> optional"
  by (simp add: skip_or_def split: if_splits)

lemma registration_required:
  assumes "registration_answer ref q answer = Inr found" and "required_for_member ref q"
    and "\<not> contains_text ''computed'' (reference_type ref q)"
  shows "found \<noteq> None"
  using assms
  by (auto simp: registration_answer_def Let_def skip_or_def split: if_splits option.splits list.splits)

text \<open>What the loop over the questions keeps: every registered answer belongs to a question that was
  passed, and every required question that was passed has one.\<close>

definition needs_registration :: "toluna_reference_question list \<Rightarrow> targeting_question \<Rightarrow> bool" where
  "needs_registration references q \<longleftrightarrow>
     toluna_kind q \<notin> {''birth_date'', ''postal''}
     \<and> required_for_member (reference_of references (tq_question_id q)) q
     \<and> \<not> contains_text ''computed'' (reference_type (reference_of references (tq_question_id q)) q)"

definition registered_ok ::
  "toluna_reference_question list \<Rightarrow> targeting_question list \<Rightarrow> profile_state \<Rightarrow> bool" where
  "registered_ok references questions st \<longleftrightarrow> (\<forall>r \<in> set (fst st). \<exists>q \<in> set questions. answers_trusted q r)"

lemma member_step_grows:
  assumes "member_step tv references gs code q st = Inr st'"
  shows "\<exists>more. fst st' = fst st @ more \<and> (\<forall>r \<in> set more. answers_trusted q r)
    \<and> (needs_registration references q \<longrightarrow> more \<noteq> [])"
proof -
  obtain answers born postal where st: "st = (answers, born, postal)" by (cases st)
  define answer where "answer = (case map_of gs (tq_question_id q) of Some a \<Rightarrow> a | None \<Rightarrow> [])"
  note out = assms [unfolded st member_step_def prod.case Let_def answer_def [symmetric]]
  show ?thesis
  proof (cases "toluna_kind q \<in> {''birth_date'', ''postal''}")
    case True
    have "fst st' = answers"
      using out True by (cases "birth_date tv (hd (given_texts answer)) code") (auto split: if_splits)
    with True st show ?thesis by (simp add: needs_registration_def)
  next
    case False
    then obtain found where found: "registration_answer (reference_of references (tq_question_id q)) q answer = Inr found"
      and st': "st' = (answers @ (case found of Some r \<Rightarrow> [r] | None \<Rightarrow> []), born, postal)"
      using out by (cases "registration_answer (reference_of references (tq_question_id q)) q answer") auto
    show ?thesis
    proof (cases found)
      case None
      with found registration_required have "\<not> needs_registration references q" by (auto simp: needs_registration_def)
      with None st st' show ?thesis by simp
    next
      case (Some r)
      with found st st' show ?thesis by (simp add: registration_trusted)
    qed
  qed
qed

lemma member_loop:
  assumes "fold_ok (member_step tv references gs code) questions st = Inr st'"
  shows "\<exists>more. fst st' = fst st @ more
    \<and> (\<forall>r \<in> set more. \<exists>q \<in> set questions. answers_trusted q r)
    \<and> (\<forall>q \<in> set questions. needs_registration references q \<longrightarrow> (\<exists>r \<in> set more. answers_trusted q r))"
  using assms
proof (induction questions arbitrary: st)
  case (Cons q qs)
  from Cons.prems obtain t where t: "member_step tv references gs code q st = Inr t"
    "fold_ok (member_step tv references gs code) qs t = Inr st'" by (auto elim: and_thenE)
  obtain more where more: "fst t = fst st @ more" "\<forall>r \<in> set more. answers_trusted q r"
    "needs_registration references q \<longrightarrow> more \<noteq> []" using member_step_grows [OF t(1)] by blast
  obtain rest where rest: "fst st' = fst t @ rest" "\<forall>r \<in> set rest. \<exists>q \<in> set qs. answers_trusted q r"
    "\<forall>q \<in> set qs. needs_registration references q \<longrightarrow> (\<exists>r \<in> set rest. answers_trusted q r)"
    using Cons.IH [OF t(2)] by blast
  have "needs_registration references q \<Longrightarrow> \<exists>r \<in> set more. answers_trusted q r"
    using more(2,3) by (cases more) auto
  with more(1,2) rest show ?case by (intro exI [of _ "more @ rest"]) auto
qed simp

lemma payloadE:
  assumes "member_payload_of tv references ci d s a answers = Inr p"
  obtains postal where
    "fold_ok (member_step tv (culture_references references (ci_id ci) (dashed (member_culture s)))
       (answers_by_question answers) (effective_profile_uid a)) (stored_questions d (sv_id s)) ([], None, [])
     = Inr (mp_answers p, Some (mp_born p), postal)"
    and "list_ex (is_gender_answer (stored_questions d (sv_id s))) (mp_answers p)" and "mp_code p = effective_profile_uid a"
  using assms by (auto simp: member_payload_of_def Let_def elim!: and_thenE split: option.splits if_splits)

text \<open>C14: Every answer registered for a member belongs to a question of the survey and uses only numbers
  that question allows; every question the contract requires is answered, gender among them.\<close>

theorem registered_answers_trusted:
  assumes "member_payload_of tv references ci d s a answers = Inr p"
  defines "known \<equiv> culture_references references (ci_id ci) (dashed (member_culture s))"
  shows "(\<forall>r \<in> set (mp_answers p). \<exists>q \<in> set (stored_questions d (sv_id s)). answers_trusted q r)
    \<and> (\<forall>q \<in> set (stored_questions d (sv_id s)). needs_registration known q \<longrightarrow> (\<exists>r \<in> set (mp_answers p). answers_trusted q r))
    \<and> (\<exists>r \<in> set (mp_answers p). is_gender_answer (stored_questions d (sv_id s)) r)"
  using assms(1)
proof (rule payloadE)
  fix postal
  assume run: "fold_ok (member_step tv (culture_references references (ci_id ci) (dashed (member_culture s)))
       (answers_by_question answers) (effective_profile_uid a)) (stored_questions d (sv_id s)) ([], None, [])
     = Inr (mp_answers p, Some (mp_born p), postal)"
    and gender: "list_ex (is_gender_answer (stored_questions d (sv_id s))) (mp_answers p)"
  from member_loop [OF run] gender show ?thesis by (simp add: known_def list_ex_iff)
qed

section \<open>Registration\<close>

lemma find_only:
  assumes "y \<in> set xs" and "P y" and "\<And>z. z \<in> set xs \<Longrightarrow> P z \<Longrightarrow> z = y"
  shows "List.find P xs = Some y"
proof (cases "List.find P xs")
  case None
  with assms(1,2) show ?thesis by (auto simp: find_None_iff)
next
  case (Some z)
  then have "z \<in> set xs" "P z" by (auto simp: find_Some_iff)
  with assms(3) Some show ?thesis by blast
qed

definition members_ok :: "toluna_member list \<Rightarrow> bool" where
  "members_ok members \<longleftrightarrow> unique_by tm_id members \<and> unique_by (\<lambda>m. (tm_integration m, tm_member_code m)) members"

lemma member_of_in: "member_of members i c = Some m \<Longrightarrow> m \<in> set members \<and> tm_integration m = i \<and> tm_member_code m = c"
  by (auto simp: member_of_def find_Some_iff)

lemma created_ok:
  assumes ok: "members_ok members" and new: "get_or_create_member members i c culture now = (members1, m)"
  shows "members_ok members1 \<and> m \<in> set members1 \<and> tm_integration m = i \<and> tm_member_code m = c"
proof (cases "member_of members i c")
  case None
  then have key: "(i, c) \<notin> (\<lambda>m. (tm_integration m, tm_member_code m)) ` set members"
    by (auto simp: member_of_def find_None_iff)
  from new None have "m = new_member (next_pk tm_id members) i c culture now" "members1 = members @ [m]"
    by (auto simp: get_or_create_member_def Let_def)
  with key ok next_pk_fresh [of tm_id members] show ?thesis
    by (simp add: members_ok_def unique_by_def new_member_def)
next
  case (Some r)
  with ok new member_of_in [OF Some] show ?thesis by (simp add: get_or_create_member_def)
qed

lemma same_member:
  assumes "members_ok members" and "z \<in> set members" and "m \<in> set members"
    and "tm_integration z = tm_integration m" and "tm_member_code z = tm_member_code m"
  shows "z = m"
proof -
  have "inj_on (\<lambda>m. (tm_integration m, tm_member_code m)) (set members)"
    using assms(1) by (simp add: members_ok_def unique_by_def distinct_map)
  from inj_onD [OF this _ assms(2,3)] assms(4,5) show ?thesis by simp
qed

lemma saved_member:
  assumes "members_ok members" and "m \<in> set members" and "tm_integration m = i" and "tm_member_code m = c"
    and "tm_id r = tm_id m" and "tm_integration r = i" and "tm_member_code r = c"
  shows "member_of (save_member r members) i c = Some r"
  unfolding member_of_def
proof (rule find_only)
  have "\<exists>z \<in> set members. tm_id z = tm_id r" using assms(2,5) by auto
  then show "r \<in> set (save_member r members)" by (auto simp: save_member_def update_where_def image_iff)
  show "tm_integration r = i \<and> tm_member_code r = c" using assms(6,7) by simp
  fix z
  assume z: "z \<in> set (save_member r members)" "tm_integration z = i \<and> tm_member_code z = c"
  show "z = r"
  proof (rule ccontr)
    assume "z \<noteq> r"
    with z(1) have "z \<in> set members" "tm_id z \<noteq> tm_id r"
      by (auto simp: save_member_def update_where_def split: if_splits)
    with same_member [OF assms(1) _ assms(2)] z(2) assms(3-5) show False by auto
  qed
qed

lemma register_stored:
  assumes "register_member tv up acquired i culture p now members = (members', sent, Inr ())" and "members_ok members"
  shows "acquired \<and> (\<exists>m. member_of members' i (mp_code p) = Some m \<and> tm_is_registered m
    \<and> tm_profile_hash m = profile_hash tv p)"
proof -
  obtain members1 m where new: "get_or_create_member members i (mp_code p) culture now = (members1, m)" by fastforce
  from created_ok [OF assms(2) new] have m: "members_ok members1" "m \<in> set members1" "tm_integration m = i"
    "tm_member_code m = mp_code p" by simp_all
  have lock: acquired using assms(1) by (cases acquired) (simp_all add: register_member_def)
  note out = assms(1) [unfolded register_member_def if_not_P [OF not_not [THEN iffD2, OF lock]] new prod.case]
  show ?thesis
  proof (cases "tm_is_registered m \<and> tm_profile_hash m = profile_hash tv p")
    case True
    moreover from True out have "members' = members1" by simp
    moreover have "member_of members1 i (mp_code p) = Some m"
      unfolding member_of_def
    proof (rule find_only [OF m(2)])
      fix z
      assume "z \<in> set members1" "tm_integration z = i \<and> tm_member_code z = mp_code p"
      with same_member [OF m(1) _ m(2), of z] m(3,4) show "z = m" by simp
    qed (simp add: m)
    ultimately show ?thesis using lock by blast
  next
    case False
    obtain r why where sent: "respondent_requests up (if tm_is_registered m then ''PUT'' else ''POST'') (payload_json p) = (r, why)"
      by fastforce
    let ?row = "m\<lparr>tm_profile_hash := profile_hash tv p, tm_is_registered := True,
        tm_last_synced_at := Some now, tm_last_error := [], tm_updated_at := now\<rparr>"
    have "why = None \<and> members' = save_member ?row members1"
      using out unfolding if_not_P [OF False] sent prod.case by (cases why) simp_all
    moreover have "member_of (save_member ?row members1) i (mp_code p) = Some ?row"
      by (rule saved_member [OF m]) (simp_all add: m)
    ultimately show ?thesis using lock by auto
  qed
qed

text \<open>A profile Toluna accepted is not sent again: registering the same member with the same profile
  makes no request and changes no row.\<close>

theorem registered_profile_sent_once:
  assumes "register_member tv up acquired i culture p now members = (members', sent, Inr ())" and "members_ok members"
  shows "register_member tv up' True i culture' p later members' = (members', [], Inr ())"
proof -
  obtain m where "member_of members' i (mp_code p) = Some m" "tm_is_registered m" "tm_profile_hash m = profile_hash tv p"
    using register_stored [OF assms] by blast
  then show ?thesis by (simp add: register_member_def get_or_create_member_def)
qed

section \<open>The link\<close>

lemma partition_joined: "py_partition c s = (a, found, b) \<Longrightarrow> s = a @ (if found then c # b else [])"
proof (induction s arbitrary: a)
  case (Cons x xs)
  then show ?case by (cases "py_partition c xs") (auto split: if_splits)
qed simp

definition opaque_link :: "string \<Rightarrow> string \<Rightarrow> string \<Rightarrow> bool" where
  "opaque_link url rid link \<longleftrightarrow>
     link = url
     \<or> (\<exists>before after mark. url = before @ after \<and> mark \<in> {''?'', ''&''} \<and> (after = [] \<or> hd after = CHR ''#'')
          \<and> link = before @ mark @ ''rid='' @ rid @ after)"

lemma with_rid_opaque: "opaque_link url rid (with_rid url rid)"
proof -
  obtain base marked fragment where split: "py_partition (CHR ''#'') url = (base, marked, fragment)" by (cases "py_partition (CHR ''#'') url")
  let ?after = "if marked then CHR ''#'' # fragment else []"
  let ?mark = "if CHR ''?'' \<in> set base then ''&'' else ''?''"
  have "url = base @ ?after" by (rule partition_joined [OF split])
  moreover have "with_rid url rid = base @ ?mark @ ''rid='' @ rid @ ?after" by (simp add: with_rid_def split)
  moreover have "?mark \<in> {''?'', ''&''}" "?after = [] \<or> hd ?after = CHR ''#''" by simp_all
  ultimately show ?thesis unfolding opaque_link_def by blast
qed

lemma outbound_link_opaque:
  assumes "outbound_link tv url rid = Inr link"
  shows "opaque_link url rid link"
proof -
  have "link = url \<or> link = with_rid url rid"
    using assms by (auto simp: outbound_link_def Let_def elim!: and_thenE split: if_splits)
  moreover have "opaque_link url rid url" by (simp add: opaque_link_def)
  ultimately show ?thesis using with_rid_opaque by auto
qed

lemma acceptedE:
  assumes "accepted_invite tv s a q invite = Inr out"
  obtains "truthy (pick invite [''URL''])" "invite_fits s q invite" "outbound_link tv (py_strip (py_str (pick invite [''URL'']))) (at_rid a) = Inr (po_url out)"
    "po_source_cpi out = invite_cpi invite (at_source_cpi_snapshot a)" "po_payable_cpi out = po_source_cpi out"
  using assms by (auto simp: accepted_invite_def elim!: and_thenE split: if_splits dest!: spread_keeps)

lemma invite_ofD: "invite_of reply = Inr invite \<Longrightarrow> reply = Invite invite"
  by (auto simp: invite_of_def split: invite_reply.splits option.splits)

text \<open>The steps of a journey that is let go.\<close>

lemma outboundE:
  assumes "toluna_outbound tv up acquired references ci now d s a answers members = (members', Inr out)"
  obtains q p panel invite culture sent where "matching_quota (tv_today tv) d s answers = Inr q"
    and "member_payload_of tv references ci d s a answers = Inr p"
    and "register_member tv up acquired (ci_id ci) culture p now members = (members', sent, Inr ())"
    and "panel_guid tv ci (member_culture s) False = Inr panel"
    and "tu_invite up panel (effective_profile_uid a) (sq_quota_id q) = Invite invite"
    and "accepted_invite tv s a q invite = Inr out" and "effective_profile_uid a \<noteq> []"
proof -
  let ?c = "str_or (dict_get (only_dict (dict_get (only_dict (sv_raw_data s)) ''_toluna'')) ''culture_code'') []"
  have code: "effective_profile_uid a \<noteq> []" using assms by (auto simp: toluna_outbound_def Let_def)
  note out = assms [unfolded toluna_outbound_def Let_def if_not_P [OF code]]
  obtain q p where qp: "matching_quota (tv_today tv) d s answers = Inr q" "member_payload_of tv references ci d s a answers = Inr p"
    using out by (cases "matching_quota (tv_today tv) d s answers"; cases "member_payload_of tv references ci d s a answers") simp_all
  note out = out [unfolded qp and_then.simps map_sum.simps sum.simps prod.case]
  obtain ms sent res where reg: "register_member tv up acquired (ci_id ci) ?c p now members = (ms, sent, res)"
    by (cases "register_member tv up acquired (ci_id ci) ?c p now members")
  note out = out [unfolded reg prod.case]
  obtain u where res: "res = Inr u" using out by (cases res) simp_all
  note out = out [unfolded res sum.simps]
  have ms: "ms = members'" using out by simp
  obtain panel where panel: "panel_guid tv ci (member_culture s) False = Inr panel"
    using out by (cases "panel_guid tv ci (member_culture s) False") simp_all
  note out = out [unfolded panel sum.simps]
  obtain invite where reply: "invite_of (tu_invite up panel (effective_profile_uid a) (sq_quota_id q)) = Inr invite"
    and "map_sum Raised id (accepted_invite tv s a q invite) = Inr out"
    using out by (auto elim: and_thenE)
  then have "accepted_invite tv s a q invite = Inr out" by (cases "accepted_invite tv s a q invite") simp_all
  with that qp reg res ms panel invite_ofD [OF reply] code show thesis by simp
qed

text \<open>C9: A respondent is let go to Toluna only on the route selected for his answers: a matched quota, a
  member whose registered profile is the one made from these answers, and the invite Toluna replied with
  to the request for this member and quota.  That invite has a URL, names this survey, this wave and this
  quota, and its URL is the link the respondent gets, up to his RID; its amount is the source CPI.\<close>

theorem sent_on_selected_route:
  assumes "toluna_outbound tv up acquired references ci now d s a answers members = (members', Inr out)"
    and "members_ok members"
  shows "\<exists>q p m panel invite. matching_quota (tv_today tv) d s answers = Inr q
    \<and> member_payload_of tv references ci d s a answers = Inr p
    \<and> member_of members' (ci_id ci) (effective_profile_uid a) = Some m \<and> tm_is_registered m
    \<and> tm_profile_hash m = profile_hash tv p
    \<and> panel_guid tv ci (member_culture s) False = Inr panel
    \<and> tu_invite up panel (effective_profile_uid a) (sq_quota_id q) = Invite invite
    \<and> truthy (pick invite [''URL''])
    \<and> integer_or (-2) (pick invite [''SurveyID'', ''SurveyId'']) = integer_or (-1) (pick (sv_raw_data s) [''SurveyID''])
    \<and> integer_or (-2) (pick invite [''WaveID'']) = integer_or (-1) (pick (sv_raw_data s) [''WaveID''])
    \<and> integer_or (-2) (pick invite [''QuotaID'', ''QuotaId'']) = (case sq_quota_id q of Some i \<Rightarrow> i | None \<Rightarrow> -1)
    \<and> opaque_link (py_strip (py_str (pick invite [''URL'']))) (at_rid a) (po_url out)
    \<and> po_source_cpi out = invite_cpi invite (at_source_cpi_snapshot a)"
  using assms(1)
proof (rule outboundE)
  fix q p panel invite culture sent
  assume q: "matching_quota (tv_today tv) d s answers = Inr q" and p: "member_payload_of tv references ci d s a answers = Inr p"
    and reg: "register_member tv up acquired (ci_id ci) culture p now members = (members', sent, Inr ())"
    and panel: "panel_guid tv ci (member_culture s) False = Inr panel"
    and reply: "tu_invite up panel (effective_profile_uid a) (sq_quota_id q) = Invite invite"
    and inv: "accepted_invite tv s a q invite = Inr out"
  have code: "mp_code p = effective_profile_uid a" using p by (rule payloadE)
  obtain m where m: "member_of members' (ci_id ci) (mp_code p) = Some m" "tm_is_registered m" "tm_profile_hash m = profile_hash tv p"
    using register_stored [OF reg assms(2)] by blast
  have "truthy (pick invite [''URL'']) \<and> invite_fits s q invite \<and> po_source_cpi out = invite_cpi invite (at_source_cpi_snapshot a)
      \<and> opaque_link (py_strip (py_str (pick invite [''URL'']))) (at_rid a) (po_url out)"
    using inv by (rule acceptedE) (simp add: outbound_link_opaque)
  with m q p code panel reply show ?thesis
    by (intro exI [of _ q] exI [of _ p] exI [of _ m] exI [of _ panel] exI [of _ invite]) (simp add: invite_fits_def)
qed

text \<open>C36: What a supplier is paid for a journey sent to Toluna is the provider's full amount: the invite
  overwrites the payable CPI the reservation froze, although the cut percentage stays on the attempt.\<close>

theorem toluna_invite_drops_cut:
  assumes "toluna_outbound tv up acquired references ci now d s a answers members = (members', Inr out)"
  shows "at_payable_cpi_snapshot (sent_out_row answers vault_enabled out later a)
      = at_source_cpi_snapshot (sent_out_row answers vault_enabled out later a)
    \<and> at_cpi_cut_percent_snapshot (sent_out_row answers vault_enabled out later a) = at_cpi_cut_percent_snapshot a"
  using assms by (rule outboundE) (auto simp: sent_out_row_def elim: acceptedE)

section \<open>A journey let go\<close>

definition routed_integration :: client_integration where
  "routed_integration = reuse_integration\<lparr>ci_credential_env_keys := JObj [(''panel_en_GB'', JStr ''PANEL'')]\<rparr>"

definition routed_attempt :: survey_attempt where
  "routed_attempt = reuse_attempt\<lparr>at_provider_profile_uid := ''u'', at_source_cpi_snapshot := Some 2,
     at_cpi_cut_percent_snapshot := Some 20, at_payable_cpi_snapshot := Some (8 / 5)\<rparr>"

definition routed_profile :: member_profile where
  "routed_profile = \<lparr>mp_partner = ''guid'', mp_code = ''u'', mp_born = (2005, 2, 13), mp_is_test = False,
     mp_answers = [(7, [(46, None)])], mp_postal = []\<rparr>"

lemma routed_texts_all:
  "py_strip ''21'' = ''21'' \<and> py_strip ''46'' = ''46'' \<and> parse_int ''46'' = Some 46 \<and> py_strip ''u'' = ''u''
   \<and> birth_date sample_member_services ''21'' ''u'' = Inr (2005, 2, 13)
   \<and> environment_value (tv_environment sample_member_services) (JStr ''PANEL'') l = Inr ''guid''
   \<and> py_lower ''SingleSelect'' = ''singleselect'' \<and> \<not> contains_text ''computed'' ''singleselect''
   \<and> \<not> contains_text ''open'' ''singleselect'' \<and> \<not> contains_text ''multi'' ''singleselect''
   \<and> py_lower ''single'' = ''single'' \<and> \<not> contains_text ''text'' ''single''"
  by code_simp

lemma routed_questions: "stored_questions plain_refreshed 7 =
   [targeting_row 7 7 (Some (strict_requirement 7)) (hd (tl routing_references)) 5 1,
    targeting_row 7 38 (Some (strict_requirement 38)) (hd routing_references) 5 2]"
  by (simp add: stored_questions_def plain_refreshed_def replace_details_def routing_db_def empty_db_def next_pk_def numeral_2_eq_2)

lemma routed_contract [simp]:
  "only_dict (tq_raw_data (targeting_row s q r ref t i)) = question_contract (question_kind ref) r ref"
  "tq_options (targeting_row s q r ref t i) = offered_options (question_kind ref) r ref"
  "tq_question_type (targeting_row s q r ref t i) = question_form_type (question_kind ref) ref"
  by (simp_all add: targeting_row_def Let_def only_dict_def)

lemma routed_references:
  "hd routing_references = routing_reference 38 ''Age'' [JObj [(''OptionId'', JInt 52), (''OptionText'', JStr ''18-24'')]]"
  "hd (tl routing_references) = routing_reference 7 ''Gender'' [JObj [(''OptionId'', JInt 46), (''OptionText'', JStr ''Female'')]]"
  by (simp_all add: routing_references_def)

lemma routed_kinds [simp]:
  "toluna_kind (targeting_row 7 7 r (hd (tl routing_references)) t i) = ''gender''"
  "toluna_kind (targeting_row 7 38 r (hd routing_references) t i) = ''birth_date''"
  by (simp_all add: toluna_kind_def routed_references kinds_all question_contract_def dict_get_def)

lemma routed_answer_texts [simp]:
  "given_texts (only_dict (routing_answer q ''46'')) = [''46'']" "upstream_texts (only_dict (routing_answer q ''46'')) = [''46'']"
  "given_texts (only_dict (routing_answer q ''21'')) = [''21'']"
  by (simp_all add: given_texts_def upstream_texts_def stripped_def answer_texts_at_def routing_answer_def only_dict_def
      dict_get_def routed_texts_all)

lemma routed_gender:
  "registration_answer None (targeting_row 7 7 (Some (strict_requirement 7)) (hd (tl routing_references)) 5 i)
     (only_dict (routing_answer 7 ''46'')) = Inr (Some (7, [(46, None)]))"
proof -
  let ?q = "targeting_row 7 7 (Some (strict_requirement 7)) (hd (tl routing_references)) 5 i"
  have raw: "raw_of ?q = question_contract ''gender'' (Some (strict_requirement 7)) (hd (tl routing_references))"
    by (simp add: raw_of_def routed_references kinds_all)
  have type: "trq_answer_type (hd (tl routing_references)) = ''SingleSelect''" by (simp add: routed_references routing_reference_def)
  have "reference_type None ?q = ''singleselect''"
    by (simp add: reference_type_def raw question_contract_def dict_get_def type routed_texts_all)
  moreover have "required_for_member None ?q"
    by (simp add: required_for_member_def raw question_contract_def flag_or_def COMMON_KINDS_def)
  moreover have "dict_get (raw_of ?q) ''allowed_answer_ids'' = JArr [JInt 46]"
    by (simp add: raw question_contract_def dict_get_def allowed_ids_of_def) (simp add: strict_requirement_def)
  then have "trusted_ids ?q = [46]" by (simp add: trusted_ids_def allowed_ids_def)
  moreover have "tq_question_type ?q = ''single''"
    using type by (simp add: question_form_type_def asked_as_text_def routed_references kinds_all routed_texts_all)
  moreover have "answer_id ?q ''46'' = 46" by (simp add: answer_id_def integer_or_def toluna_integer_def routed_texts_all)
  ultimately show ?thesis by (simp add: registration_answer_def routed_texts_all)
qed

lemma routed_payload:
  "member_payload_of sample_member_services routing_references routed_integration plain_refreshed (routing_survey plain_quotas)
     routed_attempt routing_answers = Inr routed_profile"
proof -
  have culture: "member_culture (routing_survey plain_quotas) = ''en_GB''"
    by (simp add: member_culture_def routing_survey_def only_dict_def dict_get_def)
  have none: "culture_references routing_references (ci_id routed_integration) (dashed ''en_GB'') = []"
    by (simp add: culture_references_def dashed_def routing_references_def routing_reference_def)
  have code: "effective_profile_uid routed_attempt = ''u''"
    by (simp add: effective_profile_uid_def routed_attempt_def routed_texts_all)
  have partner: "panel_guid sample_member_services routed_integration ''en_GB'' True = Inr ''guid''"
    by (simp add: panel_guid_def routed_integration_def only_dict_def dict_get_def json_or_def routed_texts_all)
  have gender: "is_gender_answer (stored_questions plain_refreshed 7) (7, [(46, None)])"
    by (simp add: is_gender_answer_def routed_questions raw_of_def routed_references kinds_all question_contract_def dict_get_def)
  show ?thesis
    by (simp add: member_payload_of_def culture none code partner routed_questions member_step_def reference_of_def plain_given
        routed_gender routed_texts_all gender [unfolded routed_questions One_nat_def])
       (simp add: routed_profile_def routed_integration_def reuse_integration_def flag_or_def only_dict_def as_dict_def)
qed

definition routed_invite :: json where
  "routed_invite = JObj [(''URL'', JStr ''https://t.io/s?k=1''), (''SurveyID'', JInt 11), (''WaveID'', JInt 2),
     (''QuotaID'', JInt 5), (''PartnerAmount'', JStr ''2.50''), (''MemberAmount'', JInt 1), (''LOI'', JInt 9), (''IR'', JInt 50)]"

definition routed_upstream :: toluna_upstream where
  "routed_upstream = \<lparr>tu_respondent = (\<lambda>_ _. Reply_Status 201), tu_invite = (\<lambda>_ _ _. Invite routed_invite)\<rparr>"

definition routed_outbound :: provider_outbound where
  "routed_outbound = \<lparr>po_url = ''https://t.io/s?k=1&rid=aB3aB3aB3a'', po_source_cpi = Some (5 / 2),
     po_payable_cpi = Some (5 / 2), po_cpi_source = ''toluna_invite'',
     po_transaction_data = JObj [(''toluna_invite'', invite_record routed_invite)]\<rparr>"

lemma routed_link: "outbound_link sample_member_services ''https://t.io/s?k=1'' ''aB3aB3aB3a'' = Inr ''https://t.io/s?k=1&rid=aB3aB3aB3a''"
  by code_simp

lemma routed_amount: "parse_decimal ''2.50'' = Some (5 / 2) \<and> py_strip ''https://t.io/s?k=1'' = ''https://t.io/s?k=1''"
  by code_simp

lemma routed_accepted:
  "accepted_invite sample_member_services (routing_survey plain_quotas) routed_attempt (derived_quota 7 (hd plain_quotas) 5 1)
     routed_invite = Inr routed_outbound"
proof -
  have "invite_fits (routing_survey plain_quotas) (derived_quota 7 (hd plain_quotas) 5 1) routed_invite"
    by (simp add: invite_fits_def pick_def pick_default_def routed_invite_def routing_survey_def derived_quota_def Let_def
        plain_quotas_def)
  moreover have "pick routed_invite [''URL''] = JStr ''https://t.io/s?k=1''" "pick routed_invite [''PartnerAmount''] = JStr ''2.50''"
    by (simp_all add: pick_def pick_default_def routed_invite_def)
  moreover have "as_dict routed_invite \<noteq> None" by (simp add: routed_invite_def)
  moreover have "at_rid routed_attempt = ''aB3aB3aB3a''" "at_upstream_transaction_data routed_attempt = JObj []"
    by (simp_all add: routed_attempt_def reuse_attempt_def sample_attempt_def)
  ultimately show ?thesis
    by (simp add: accepted_invite_def routed_amount routed_link spread_with_def dict_set_def invite_cpi_def decimal_or_none_def
        routed_outbound_def)
qed

lemma routed_registered:
  "\<exists>members' sent. register_member sample_member_services routed_upstream True 81 culture routed_profile now [] = (members', sent, Inr ())"
  by (simp add: register_member_def get_or_create_member_def member_of_def Let_def new_member_def respondent_requests_def
      routed_upstream_def)

lemma routed_out:
  "\<exists>members'. toluna_outbound sample_member_services routed_upstream True routing_references routed_integration 9 plain_refreshed
     (routing_survey plain_quotas) routed_attempt routing_answers [] = (members', Inr routed_outbound)"
proof -
  have code: "effective_profile_uid routed_attempt = ''u''"
    by (simp add: effective_profile_uid_def routed_attempt_def routed_texts_all)
  have today: "tv_today sample_member_services = routing_today" by (simp add: sample_member_services_def)
  have ci: "ci_id routed_integration = 81" by (simp add: routed_integration_def reuse_integration_def)
  have culture: "member_culture (routing_survey plain_quotas) = ''en_GB''"
    by (simp add: member_culture_def routing_survey_def only_dict_def dict_get_def)
  have partner: "panel_guid sample_member_services routed_integration ''en_GB'' False = Inr ''guid''"
    by (simp add: panel_guid_def routed_integration_def only_dict_def dict_get_def json_or_def routed_texts_all)
  obtain members' sent where reg: "register_member sample_member_services routed_upstream True 81
      (str_or (dict_get (only_dict (dict_get (only_dict (sv_raw_data (routing_survey plain_quotas))) ''_toluna'')) ''culture_code'') [])
      routed_profile 9 [] = (members', sent, Inr ())"
    using routed_registered by blast
  have invited: "invite_of (tu_invite routed_upstream ''guid'' ''u'' i) = Inr routed_invite" for i
    by (simp add: invite_of_def routed_upstream_def)
  show ?thesis
    by (simp add: toluna_outbound_def code today plain_matched routed_payload ci reg culture partner invited
        routed_accepted [unfolded One_nat_def])
qed

lemma sent_on_selected_route_witness:
  "\<exists>members' m. toluna_outbound sample_member_services routed_upstream True routing_references routed_integration 9 plain_refreshed
     (routing_survey plain_quotas) routed_attempt routing_answers [] = (members', Inr routed_outbound)
   \<and> member_of members' (ci_id routed_integration) (effective_profile_uid routed_attempt) = Some m
   \<and> tm_profile_hash m = profile_hash sample_member_services routed_profile"
proof -
  obtain members' where run: "toluna_outbound sample_member_services routed_upstream True routing_references routed_integration 9
      plain_refreshed (routing_survey plain_quotas) routed_attempt routing_answers [] = (members', Inr routed_outbound)"
    using routed_out by blast
  have "members_ok []" by (simp add: members_ok_def unique_by_def)
  from sent_on_selected_route [OF run this] run show ?thesis by (auto simp: routed_payload)
qed

lemma toluna_invite_drops_cut_witness:
  "at_cpi_cut_percent_snapshot routed_attempt = Some 20 \<and> at_payable_cpi_snapshot routed_attempt = Some (8 / 5)
   \<and> at_payable_cpi_snapshot (sent_out_row routing_answers True routed_outbound 9 routed_attempt) = Some (5 / 2)"
proof -
  obtain members' where run: "toluna_outbound sample_member_services routed_upstream True routing_references routed_integration 9
      plain_refreshed (routing_survey plain_quotas) routed_attempt routing_answers [] = (members', Inr routed_outbound)"
    using routed_out by blast
  from toluna_invite_drops_cut [OF run, of True 9] show ?thesis
    by (simp add: routed_attempt_def) (simp add: sent_out_row_def routed_outbound_def)
qed

lemma registered_answers_trusted_witness:
  "\<exists>r \<in> set (mp_answers routed_profile). is_gender_answer (stored_questions plain_refreshed 7) r"
  using registered_answers_trusted [OF routed_payload] by simp

lemma registered_profile_sent_once_witness:
  "\<exists>members. register_member sample_member_services routed_upstream True 81 [] routed_profile 10 members = (members, [], Inr ())
     \<and> members \<noteq> []"
proof -
  obtain members' sent where reg: "register_member sample_member_services routed_upstream True 81 [] routed_profile 9 [] = (members', sent, Inr ())"
    using routed_registered by blast
  have ok: "members_ok []" by (simp add: members_ok_def unique_by_def)
  have "members' \<noteq> []" using register_stored [OF reg ok] by (auto simp: member_of_def)
  with registered_profile_sent_once [OF reg ok, where up' = routed_upstream and later = 10] show ?thesis by blast
qed

end
