(* ===== verification/Spec2Isabelle.thy ===== *)
theory Spec2Isabelle
  imports Hierarchy_Properties Pricing_Properties Lifecycle_Properties Access_Properties
    Permission_Snapshot Final_Ids_Properties Vault_Properties Reuse_Properties Callback_Properties Reconciliation
    Attempt_Properties Entry_Properties Prescreener_Properties Submission_Properties Notification_Properties Invite_Properties
begin

text \<open>
  A verification development of the survey supply platform under \<open>src/\<close> (Django and Celery).

  \<^bold>\<open>The program.\<close>  Clients supply surveys through provider integrations (InnovateMR, BioBrain, RFG,
  Toluna); suppliers, internal teams or external vendors, send respondents.  A respondent opens a link
  (\<open>surveys/views.py\<close>, \<open>survey_start\<close>); the commercial policy (\<open>vendors/services.py\<close>) decides whether
  the supplier may serve the survey and at what CPI; an attempt with a one-unit reservation is created;
  the respondent answers the prescreener, whose answers go to a vault of their own
  (\<open>prescreener_vault\<close>), where a stored profile may also be reused; then the respondent is redirected
  to the provider.  The result comes back by browser callback, by server notification
  (\<open>surveys/webhook_views.py\<close>, \<open>surveys/toluna_notifications.py\<close>) or by asking the provider; it ends
  the reservation and is delivered to the supplier (\<open>surveys/supplier_callbacks.py\<close>).  At the end of
  the month a client's file decides which completions count (\<open>surveys/final_ids.py\<close>).

  \<^bold>\<open>State.\<close>  One \<open>db\<close> record (\<open>Database\<close>) holds a list of rows for each table, rows are records with the
  columns of the models; the vault is a second database.  An operation takes the state and returns the
  new one; a raised exception is a value of \<open>py_error\<close> or of an operation's own error type.  A database
  transaction is one step.  Where the code leaves a transaction and other workers may run, the steps
  are an inductive relation.

  \<^bold>\<open>Theories, with the files they model.\<close>
  \<^item> \<open>Prelude\<close>, \<open>Json\<close>, \<open>Py_Values\<close>, \<open>Web_Text\<close>: Python's text, decimals and time, JSON values, \<open>str\<close>
    and \<open>int\<close> of loosely typed values, \<open>urllib.parse\<close>; the queries of the ORM on lists of rows.  The
    locale \<open>keyed_update\<close> states what an update of the rows with a key keeps.
  \<^item> \<open>Accounts_Models\<close>, \<open>Vendor_Models\<close>, \<open>Survey_Models\<close>, \<open>Database\<close>: the tables (\<open>accounts/models.py\<close>,
    \<open>vendors/models.py\<close>, \<open>surveys/models.py\<close>).
  \<^item> \<open>Hierarchy\<close>, \<open>Vendor_Access\<close>, \<open>Vendor_Validation\<close>, \<open>Hierarchy_Properties\<close>: the workspace
    hierarchy and who belongs to which supplier (\<open>vendors/access.py\<close>,
    \<open>accounts/profile_context.py\<close>, the \<open>clean\<close> methods).  The locales \<open>upward_walk\<close> and \<open>complete_walk\<close>
    hold the laws of walking a parent column; they are interpreted on the unit table.
  \<^item> \<open>Account_Access\<close>, \<open>Access_Properties\<close>, \<open>Permission_Cache\<close>, \<open>Permission_Snapshot\<close>: permission codes,
    visibility, and the shared snapshot of the codes with its generations (\<open>accounts/access.py\<close>,
    \<open>accounts/signals.py\<close>, \<open>config/cache_utils.py\<close>).
  \<^item> \<open>Allocation_Policy\<close>, \<open>Allocation_Policy_Facts\<close>, \<open>Pricing_Properties\<close>, \<open>Reservations\<close>, \<open>Sequences\<close>,
    \<open>Lifecycle_Properties\<close>: policy, CPI, reservations (\<open>vendors/services.py\<close>, \<open>vendors/tasks.py\<close>),
    identifiers and leases (\<open>surveys/models.py\<close>).
  \<^item> \<open>Age_Rules\<close>, \<open>Prescreener_Questions\<close>, \<open>Prescreener_Answers\<close>, \<open>Prescreener_Properties\<close>: the form and
    what is read from it (\<open>surveys/age_rules.py\<close>, \<open>_prescreener_questions\<close> and
    \<open>_collect_prescreener_answers\<close> of \<open>surveys/views.py\<close>).
  \<^item> \<open>Vault_Snapshots\<close>, \<open>Vault_Capture\<close>, \<open>Vault_Properties\<close>, \<open>Profile_Reuse\<close>, \<open>Reuse_Assignment\<close>,
    \<open>Reuse_Budget\<close>, \<open>Reuse_Lifecycle\<close>, \<open>Reuse_Properties\<close>: the vault and the reuse of profiles, also
    under interleaving (\<open>prescreener_vault/services.py\<close>, \<open>prescreener_vault/reuse.py\<close>).
  \<^item> \<open>Survey_Entry\<close>, \<open>Entry_Properties\<close>, \<open>Prescreener_Submission\<close>, \<open>Submission_Properties\<close>: the two
    halves of \<open>survey_start\<close>.
  \<^item> \<open>Outcomes\<close>, \<open>Web_Requests\<close>, \<open>Survey_Flow\<close>, \<open>Callback_Recording\<close>, \<open>Status_Views\<close>, \<open>Reconciliation\<close>:
    outcomes in words, requests and their signatures, recording a result, the result pages, asking the
    provider (\<open>surveys/outcomes.py\<close>, \<open>surveys/survey_flow.py\<close>, \<open>surveys/innovatemr_callbacks.py\<close>,
    \<open>surveys/services.py\<close>).
  \<^item> \<open>Attempt_Lifecycle\<close>, \<open>Attempt_Properties\<close>: \<open>attempt_step\<close> composes every operation that creates,
    redirects or ends an attempt, and the properties of its histories.
  \<^item> \<open>Callback_Urls\<close>, \<open>Supplier_Callbacks\<close>, \<open>Callback_Lifecycle\<close>, \<open>Callback_Properties\<close>: result URLs
    and their delivery by concurrent workers (\<open>surveys/supplier_callbacks.py\<close>).
  \<^item> \<open>Toluna_Payloads\<close>, \<open>Toluna_Notifications\<close>, \<open>Toluna_Webhook\<close>, \<open>Notification_Links\<close>,
    \<open>Notification_History\<close>, \<open>Notification_Properties\<close>: the server notifications.
  \<^item> \<open>Py_Loops\<close>, \<open>Py_Numbers\<close>: loops that stop at an exception, \<open>Decimal\<close> of loosely typed values.
  \<^item> \<open>Toluna_Targeting\<close>, \<open>Toluna_Matching\<close>, \<open>Toluna_Members\<close>, \<open>Toluna_Invites\<close>, \<open>Routing_Properties\<close>,
    \<open>Invite_Properties\<close>: one adapter in detail (\<open>surveys/providers/toluna.py\<close>): the questions of a quota
    snapshot, the quota that answers meet, the registration of the member and the invitation taken.
  \<^item> \<open>Final_Ids\<close>, \<open>Final_Ids_Properties\<close>: the reconciliation file of a month.
  \<^item> \<open>Samples\<close>, \<open>Attempt_Samples\<close>, \<open>Reuse_Samples\<close>, \<open>Notification_Samples\<close>, \<open>Routing_Samples\<close>: concrete databases and
    requests for the witnesses.

  \<^bold>\<open>What the theorems show.\<close>  Of attempts: an attempt that has a result keeps one, and for
  every provider but Toluna and RFG, which may correct theirs, it is final; capacity is held only under
  way; only an authenticated callback changes an attempt; nobody is sent out before the form was
  accepted and its answers kept, or a prepared Toluna invitation is released.  Of the prescreener: the
  answers accepted are readings of what was sent, and qualify where the provider's rules are enforced.
  Of money and capacity: reservations are granted by every commercial guard and closed once, prices
  stay within bounds, list and entry check agree.  Of the vault: earlier answers are immutable, reuse
  stays within budget, follows the policy at the clock readings of its transactions and never repeats
  in a project.  Of delivery: one event per attempt as long as no reconciliation or refresh replaces
  the data that holds the delivery record, no private network is reached, the URL says what was
  recorded.  Of notifications: order of arrival does not matter, repetition changes nothing, only
  allowlisted sources count.  Of routing: the respondent gets the first quota that has room and whose
  routable layers the answers meet, and is sent on by an invitation of that survey, wave, quota and
  price.  Of the final-ID file: which attempts it accepts, which it rejects, and that all else stays.
  Some properties state what the code does against its own intention, such as a refresh of a finished
  attempt that forgets what was delivered; they are listed as findings of the manifest.

  \<^bold>\<open>Termination and bounds.\<close>  The walks over the hierarchy keep a visited set and end by a measure; the
  climb to the Branch of an account is \<open>partial_function (option)\<close> and proved to return.  The vault
  write is tried four times, an identifier drawn ten times, a profile looked for in five rounds, a
  delivery retried five times with claims of 30 seconds: the constants of the code, as recursion on a
  number.  Identities are reconciled in chunks of 100 and batches of 200; \<open>chunks_of\<close> takes the number
  of identities as fuel, one chunk consuming at least one.  Integers are unbounded as in Python;
  decimals are rationals on the cent grid.

  \<^bold>\<open>Parameters.\<close>  Digests, HMAC and Fernet, the clock and the local date, \<open>ipaddress\<close>, DNS and the HTTP
  request, \<open>html.unescape\<close>, \<open>dateutil\<close>, Django's \<open>parse_datetime\<close> and \<open>signing.loads\<close>, the provider
  adapters a submission calls (for Toluna: the replies of the provider, its reference rows, the
  environment and the lock around the registration) and geolocation are arguments, collected in records
  of services.  Text is
  ASCII where case or digits matter and is compared exactly: a database collation that ignores case is
  not modelled.

  \<^bold>\<open>Not modelled.\<close>  The HTTP clients of the providers, the waits of their rate limits and locks, the refresh of a survey between the checks and
  the entry transaction; templates, serializers and REST routing; sessions; dashboards, reports and
  exports; the upstream explorer; settings and wiring.
\<close>

end
